(* ===== verification/Decimals.thy ===== *)
theory Decimals
  imports Complex_Main Prelude
begin

text \<open>
  Python's \<open>Decimal\<close> as the program uses it for prices, distances and lengths of tubing:
  a coefficient and an exponent of ten. Sums and products are exact: the columns are
  \<open>Numeric (12, 2)\<close> or narrower and the quantities are 32-bit integers, so no result
  reaches the 28 digits at which the default context would round. \<open>quantize\<close> rounds half
  to even, as that context does, and half up where the code asks for it.
\<close>

section \<open>Values and arithmetic\<close>

datatype decimal = Dec (coef: int) (expo: int)

definition dval :: "decimal \<Rightarrow> rat" where
  "dval d = of_int (coef d) * 10 powi expo d"

text \<open>The coefficient at a smaller exponent \<open>e\<close>.\<close>

definition coef_at :: "int \<Rightarrow> decimal \<Rightarrow> int" where
  "coef_at e d = coef d * 10 ^ nat (expo d - e)"

definition dec_add :: "decimal \<Rightarrow> decimal \<Rightarrow> decimal" where
  "dec_add a b = (let e = min (expo a) (expo b) in Dec (coef_at e a + coef_at e b) e)"

definition dec_sub :: "decimal \<Rightarrow> decimal \<Rightarrow> decimal" where
  "dec_sub a b = (let e = min (expo a) (expo b) in Dec (coef_at e a - coef_at e b) e)"

definition dec_mul :: "decimal \<Rightarrow> decimal \<Rightarrow> decimal" where
  "dec_mul a b = Dec (coef a * coef b) (expo a + expo b)"

definition dec_of_int :: "int \<Rightarrow> decimal" where
  "dec_of_int n = Dec n 0"

definition dec_less :: "decimal \<Rightarrow> decimal \<Rightarrow> bool" where
  "dec_less a b = (let e = min (expo a) (expo b) in coef_at e a < coef_at e b)"

definition dec_le :: "decimal \<Rightarrow> decimal \<Rightarrow> bool" where
  "dec_le a b = (\<not> dec_less b a)"

text \<open>\<open>max(a, b)\<close> keeps the first argument unless the second is larger.\<close>

definition dec_max :: "decimal \<Rightarrow> decimal \<Rightarrow> decimal" where
  "dec_max a b = (if dec_less a b then b else a)"

definition dec_zero :: decimal where "dec_zero = Dec 0 0"

lemma powi_split: "(10::rat) powi e = 10 powi f * 10 ^ nat (e - f)" if "f \<le> e"
proof -
  have "(10::rat) powi e = 10 powi (f + int (nat (e - f)))" using that by simp
  also have "\<dots> = 10 powi f * 10 powi int (nat (e - f))" by (subst power_int_add) simp_all
  finally show ?thesis by (simp only: power_int_of_nat)
qed

lemma dval_coef_at: "e \<le> expo d \<Longrightarrow> dval d = of_int (coef_at e d) * 10 powi e"
  by (simp add: dval_def coef_at_def powi_split [of e "expo d"])

lemma dval_Dec [simp]: "dval (Dec c e) = of_int c * 10 powi e"
  by (simp add: dval_def)

lemma powi_pos [simp]: "0 < (10::rat) powi e"
  by (simp add: zero_less_power_int)

lemma powi_not_le [simp]: "\<not> (10::rat) powi e \<le> 0" "\<not> (10::rat) powi e < 0"
  using powi_pos [of e] by linarith+

lemma dval_add [simp]: "dval (dec_add a b) = dval a + dval b"
  using dval_coef_at [of "min (expo a) (expo b)" a] dval_coef_at [of "min (expo a) (expo b)" b]
  by (simp add: dec_add_def Let_def distrib_right)

lemma dval_sub [simp]: "dval (dec_sub a b) = dval a - dval b"
  using dval_coef_at [of "min (expo a) (expo b)" a] dval_coef_at [of "min (expo a) (expo b)" b]
  by (simp add: dec_sub_def Let_def left_diff_distrib)

lemma dval_mul [simp]: "dval (dec_mul a b) = dval a * dval b"
  by (simp add: dec_mul_def dval_def power_int_add)

lemma dval_of_int [simp]: "dval (dec_of_int n) = of_int n"
  by (simp add: dec_of_int_def)

lemma dval_zero [simp]: "dval dec_zero = 0"
  by (simp add: dec_zero_def)

lemma dec_less_dval [simp]: "dec_less a b \<longleftrightarrow> dval a < dval b"
  using dval_coef_at [of "min (expo a) (expo b)" a] dval_coef_at [of "min (expo a) (expo b)" b]
  by (simp add: dec_less_def Let_def mult_less_cancel_right)

lemma dec_le_dval [simp]: "dec_le a b \<longleftrightarrow> dval a \<le> dval b"
  by (auto simp: dec_le_def)

lemma dval_max [simp]: "dval (dec_max a b) = max (dval a) (dval b)"
  by (simp add: dec_max_def max_def)

section \<open>Rounding to cents\<close>

definition round_half_even :: "int \<Rightarrow> int \<Rightarrow> int" where
  "round_half_even a b =
     (let q = a div b; r = a mod b
      in if 2 * r < b then q else if 2 * r > b then q + 1
         else if even q then q else q + 1)"

text \<open>\<open>ROUND_HALF_UP\<close>: a tie moves away from zero.\<close>

definition round_half_up :: "int \<Rightarrow> int \<Rightarrow> int" where
  "round_half_up a b = (if a < 0 then - ((2 * (- a) + b) div (2 * b)) else (2 * a + b) div (2 * b))"

definition quantize_with :: "(int \<Rightarrow> int \<Rightarrow> int) \<Rightarrow> decimal \<Rightarrow> decimal" where
  "quantize_with rnd d =
     (if expo d \<ge> -2 then Dec (coef_at (-2) d) (-2)
      else Dec (rnd (coef d) (10 ^ nat (-2 - expo d))) (-2))"

text \<open>\<open>d.quantize(Decimal("0.01"))\<close>.\<close>

definition quantize_cents :: "decimal \<Rightarrow> decimal" where
  "quantize_cents d = quantize_with round_half_even d"

lemma round_half_even_cases:
  "(round_half_even a b = a div b \<and> 2 * (a mod b) \<le> b)
   \<or> (round_half_even a b = a div b + 1 \<and> b \<le> 2 * (a mod b))"
  by (auto simp: round_half_even_def Let_def)

lemma round_half_even_bounds:
  assumes "0 < b" shows "2 * \<bar>round_half_even a b * b - a\<bar> \<le> b"
proof -
  have a: "a div b * b = a - a mod b" by (simp add: minus_mod_eq_div_mult)
  have m: "0 \<le> a mod b" "a mod b < b" using assms by simp_all
  from round_half_even_cases [of a b] show ?thesis
  proof
    assume down: "round_half_even a b = a div b \<and> 2 * (a mod b) \<le> b"
    have "a div b * b - a = - (a mod b)" by (simp add: a)
    with down m show ?thesis by simp
  next
    assume up: "round_half_even a b = a div b + 1 \<and> b \<le> 2 * (a mod b)"
    have "(a div b + 1) * b - a = b - a mod b" by (simp add: distrib_right a)
    with up m show ?thesis by simp
  qed
qed

lemma round_half_even_nonneg: "0 < b \<Longrightarrow> 0 \<le> a \<Longrightarrow> 0 \<le> round_half_even a b"
  using round_half_even_cases [of a b] pos_imp_zdiv_nonneg_iff [of b a] by auto

lemma expo_quantize [simp]: "expo (quantize_cents d) = -2"
  by (simp add: quantize_cents_def quantize_with_def)

lemma quantize_nonneg: "0 \<le> coef d \<Longrightarrow> 0 \<le> coef (quantize_cents d)"
  by (simp add: quantize_cents_def quantize_with_def coef_at_def round_half_even_nonneg)

lemma dval_nonneg [simp]: "0 \<le> dval d \<longleftrightarrow> 0 \<le> coef d"
  by (simp add: dval_def zero_le_mult_iff)

lemma dval_pos [simp]: "0 < dval d \<longleftrightarrow> 0 < coef d"
  by (simp add: dval_def zero_less_mult_iff)

lemma dval_eq_0 [simp]: "dval d = 0 \<longleftrightarrow> coef d = 0"
  by (simp add: dval_def)

text \<open>The rounded amount is within half a cent of the exact one.\<close>

lemma quantize_error: "\<bar>dval (quantize_cents d) - dval d\<bar> \<le> 1 / 200"
proof (cases "expo d \<ge> -2")
  case True
  then show ?thesis
    using dval_coef_at [of "-2" d] by (simp add: quantize_cents_def quantize_with_def)
next
  case False
  define k where "k = nat (-2 - expo d)"
  define b :: int where "b = 10 ^ k"
  have b: "0 < b" by (simp add: b_def)
  have e: "(10::rat) powi (-2) = 10 powi expo d * of_int b"
    using False powi_split [of "expo d" "-2"] by (simp add: b_def k_def)
  define r where "r = round_half_even (coef d) b"
  have "dval (quantize_cents d) = of_int r * 10 powi (-2)"
    using False unfolding quantize_cents_def quantize_with_def r_def b_def k_def by simp
  then have "dval (quantize_cents d) - dval d = of_int (r * b - coef d) * 10 powi expo d"
    unfolding e by (simp add: dval_def algebra_simps)
  then have "\<bar>dval (quantize_cents d) - dval d\<bar> = of_int \<bar>r * b - coef d\<bar> * 10 powi expo d"
    by (simp add: abs_mult)
  also have "\<dots> \<le> (of_int b / 2) * 10 powi expo d"
  proof (rule mult_right_mono)
    have "of_int (2 * \<bar>r * b - coef d\<bar>) \<le> (of_int b :: rat)"
      using round_half_even_bounds [OF b, of "coef d"] unfolding r_def of_int_le_iff .
    then show "of_int \<bar>r * b - coef d\<bar> \<le> (of_int b / 2 :: rat)" by simp
  qed (simp add: less_imp_le)
  also have "\<dots> = 1 / 200"
    using e by (simp add: power_int_minus mult.commute)
  finally show ?thesis .
qed

section \<open>Text\<close>

text \<open>\<open>str(d)\<close>, with the exponent notation for very small and for scaled-up values.\<close>

definition dec_str :: "decimal \<Rightarrow> string" where
  "dec_str d =
     (let sign = (if coef d < 0 then ''-'' else []);
          ds = digits_of \<bar>coef d\<bar>;
          left = expo d + int (length ds);
          dot = (if expo d \<le> 0 \<and> left > -6 then left else 1);
          ip = (if dot \<le> 0 then ''0''
                else if dot \<ge> int (length ds)
                then ds @ replicate (nat (dot - int (length ds))) (CHR ''0'')
                else take (nat dot) ds);
          fp = (if dot \<le> 0 then ''.'' @ replicate (nat (- dot)) (CHR ''0'') @ ds
                else if dot \<ge> int (length ds) then [] else ''.'' @ drop (nat dot) ds);
          ex = (if left = dot then []
                else ''E'' @ (if left - dot \<ge> 0 then ''+'' else []) @ str_of_int (left - dot))
      in sign @ ip @ fp @ ex)"

text \<open>\<open>Decimal(text)\<close>: a finite number, an infinity with its sign, or a NaN.\<close>

datatype dec_literal = DFin decimal | DInf bool | DNaN

fun span_digits :: "string \<Rightarrow> string \<times> string" where
  "span_digits [] = ([], [])"
| "span_digits (c # s) =
     (if is_digit c then (let (a, b) = span_digits s in (c # a, b)) else ([], c # s))"

definition split_sign :: "string \<Rightarrow> bool \<times> string" where
  "split_sign s =
     (case s of [] \<Rightarrow> (False, [])
      | c # r \<Rightarrow> if c = CHR ''-'' then (True, r) else if c = CHR ''+'' then (False, r) else (False, s))"

definition parse_exponent :: "string \<Rightarrow> int option" where
  "parse_exponent s =
     (case s of [] \<Rightarrow> Some 0
      | c # r \<Rightarrow>
          if c = CHR ''e'' then
            let (neg, t) = split_sign r; (ds, rest) = span_digits t
            in if ds = [] \<or> rest \<noteq> [] then None
               else Some (if neg then - parse_digits ds else parse_digits ds)
          else None)"

definition parse_decimal :: "string \<Rightarrow> dec_literal option" where
  "parse_decimal raw =
     (let (neg, s) = split_sign (casefold (filter (\<lambda>c. c \<noteq> CHR ''_'') (strip raw)));
          (ip, r) = span_digits s;
          (fp, r') = (case r of [] \<Rightarrow> ([], [])
                      | c # t \<Rightarrow> if c = CHR ''.'' then span_digits t else ([], r))
      in if ip @ fp \<noteq> [] then
           (case parse_exponent r' of None \<Rightarrow> None
            | Some e \<Rightarrow>
                let n = parse_digits (ip @ fp)
                in Some (DFin (Dec (if neg then - n else n) (e - int (length fp)))))
         else if s = ''inf'' \<or> s = ''infinity'' then Some (DInf neg)
         else if prefix ''nan'' s \<and> list_all is_digit (drop 3 s)
                 \<or> prefix ''snan'' s \<and> list_all is_digit (drop 4 s) then Some DNaN
         else None)"

text \<open>\<open>Decimal(str(raw))\<close> of a JSON value, where a failed conversion is caught.\<close>

fun decimal_of_value :: "pyval \<Rightarrow> dec_literal option" where
  "decimal_of_value (PInt n) = Some (DFin (dec_of_int n))"
| "decimal_of_value (PFloat s) = parse_decimal s"
| "decimal_of_value (PStr s) = parse_decimal s"
| "decimal_of_value _ = None"

end
