(* ===== verification/Calendar.thy ===== *)
theory Calendar
  imports Prelude
begin

text \<open>
  The part of Python's \<open>datetime\<close> and \<open>zoneinfo\<close> that the booking code uses.
  A date is its proleptic Gregorian ordinal (\<open>date.toordinal()\<close>, day 1 is 0001-01-01),
  a time of day the microseconds since midnight, a wall-clock datetime the microseconds
  since ordinal 0, an instant the microseconds on the same scale read in UTC.
  Arithmetic on an aware datetime moves the wall clock, and two datetimes of one zone
  compare by their wall clocks: that is \<open>+\<close> and \<open><\<close> on these numbers. A zone converts
  between wall clock and UTC; its table comes from the IANA database, so a zone is a pair
  of functions, looked up by name.
\<close>

section \<open>Wall clocks and instants\<close>

type_synonym date = int
type_synonym tod = int
type_synonym wall = int
type_synonym instant = int

definition minute_us :: int where "minute_us = 60000000"

definition day_us :: int where "day_us = 86400000000"

text \<open>\<open>timedelta(minutes=n)\<close>.\<close>

definition minutes :: "int \<Rightarrow> int" where
  "minutes n = n * minute_us"

text \<open>\<open>datetime.combine(d, t, tzinfo)\<close>, \<open>value.date()\<close>, \<open>value.time()\<close>.\<close>

definition combine :: "date \<Rightarrow> tod \<Rightarrow> wall" where
  "combine d t = d * day_us + t"

definition wall_date :: "wall \<Rightarrow> date" where
  "wall_date w = w div day_us"

definition wall_tod :: "wall \<Rightarrow> tod" where
  "wall_tod w = w mod day_us"

lemmas clock_defs = minutes_def minute_us_def day_us_def combine_def wall_date_def wall_tod_def

lemma minutes_add [py_time]: "minutes (a + b) = minutes a + minutes b"
  by (simp add: minutes_def algebra_simps)

lemma minutes_mono [py_time]: "minutes a \<le> minutes b \<longleftrightarrow> a \<le> b"
  by (simp add: minutes_def minute_us_def)

lemma minutes_less [py_time]: "minutes a < minutes b \<longleftrightarrow> a < b"
  by (simp add: minutes_def minute_us_def)

lemma minutes_0 [simp]: "minutes 0 = 0"
  by (simp add: minutes_def)

lemma minutes_nonneg [simp]: "0 \<le> minutes a \<longleftrightarrow> 0 \<le> a"
  by (simp add: minutes_def minute_us_def zero_le_mult_iff)

lemma minutes_pos [simp]: "0 < minutes a \<longleftrightarrow> 0 < a"
  by (simp add: minutes_def minute_us_def zero_less_mult_iff)

lemma wall_date_combine [simp]: "0 \<le> t \<Longrightarrow> t < day_us \<Longrightarrow> wall_date (combine d t) = d"
  by (simp add: clock_defs)

lemma wall_tod_combine [simp]: "0 \<le> t \<Longrightarrow> t < day_us \<Longrightarrow> wall_tod (combine d t) = t"
  by (simp add: clock_defs)

lemma combine_date_tod [simp]: "combine (wall_date w) (wall_tod w) = w"
  by (simp add: clock_defs mult.commute [of _ 86400000000])

text \<open>A zone: UTC to wall clock (\<open>astimezone(tz)\<close>) and back.\<close>

record zone =
  to_wall :: "instant \<Rightarrow> wall"
  to_utc :: "wall \<Rightarrow> instant"

definition fixed_zone :: "int \<Rightarrow> zone" where
  "fixed_zone off = \<lparr>to_wall = (\<lambda>u. u + minutes off), to_utc = (\<lambda>w. w - minutes off)\<rparr>"

text \<open>
  A zone without transitions in the period concerned. America/Sao_Paulo, the default of
  the program, has had none since 2019.
\<close>

definition steady :: "zone \<Rightarrow> bool" where
  "steady z = (\<exists>off. \<forall>w. to_utc z w = w - off \<and> to_wall z w = w + off)"

lemma steady_fixed_zone [simp]: "steady (fixed_zone off)"
  by (auto simp: steady_def fixed_zone_def)

lemma steady_shift: "steady z \<Longrightarrow> to_utc z (w + d) = to_utc z w + d"
  by (auto simp: steady_def)

lemma steady_shift_back: "steady z \<Longrightarrow> to_utc z (w - d) = to_utc z w - d"
  by (auto simp: steady_def)

lemma steady_inj: "steady z \<Longrightarrow> to_utc z v = to_utc z w \<longleftrightarrow> v = w"
  by (auto simp: steady_def)

lemma steady_less: "steady z \<Longrightarrow> to_utc z v < to_utc z w \<longleftrightarrow> v < w"
  by (auto simp: steady_def)

lemma steady_le: "steady z \<Longrightarrow> to_utc z v \<le> to_utc z w \<longleftrightarrow> v \<le> w"
  by (auto simp: steady_def)

lemma steady_wall: "steady z \<Longrightarrow> to_utc z (to_wall z u) = u"
  by (auto simp: steady_def)

lemma steady_utc: "steady z \<Longrightarrow> to_wall z (to_utc z w) = w"
  by (auto simp: steady_def)

text \<open>Every wall-clock moment lies in the day of its date.\<close>

lemma wall_day: "combine (wall_date w) 0 \<le> w \<and> w < combine (wall_date w + 1) 0"
  using pos_mod_bound [of day_us w] pos_mod_sign [of day_us w] div_mult_mod_eq [of w day_us]
  by (auto simp: clock_defs algebra_simps)

lemma wall_date_iff: "wall_date w = d \<longleftrightarrow> combine d 0 \<le> w \<and> w < combine (d + 1) 0"
proof
  assume "combine d 0 \<le> w \<and> w < combine (d + 1) 0"
  with wall_day [of w] show "wall_date w = d" by (auto simp: clock_defs)
qed (use wall_day in auto)

section \<open>The Gregorian calendar\<close>

definition is_leap :: "int \<Rightarrow> bool" where
  "is_leap y = (y mod 4 = 0 \<and> (y mod 100 \<noteq> 0 \<or> y mod 400 = 0))"

definition days_before_year :: "int \<Rightarrow> int" where
  "days_before_year y = (let k = y - 1 in k * 365 + k div 4 - k div 100 + k div 400)"

definition month_lengths :: "bool \<Rightarrow> int list" where
  "month_lengths leap = [31, if leap then 29 else 28, 31, 30, 31, 30, 31, 31, 30, 31, 30, 31]"

definition days_in_month :: "int \<Rightarrow> int \<Rightarrow> int" where
  "days_in_month y m = month_lengths (is_leap y) ! nat (m - 1)"

text \<open>Walk the months of a year with the number of days that remain.\<close>

fun month_day :: "int list \<Rightarrow> int \<Rightarrow> int \<Rightarrow> int \<times> int" where
  "month_day [] m n = (m, n + 1)"
| "month_day (l # ls) m n = (if n < l then (m, n + 1) else month_day ls (m + 1) (n - l))"

definition valid_ymd :: "int \<Rightarrow> int \<Rightarrow> int \<Rightarrow> bool" where
  "valid_ymd y m d \<longleftrightarrow> 1 \<le> y \<and> y \<le> 9999 \<and> 1 \<le> m \<and> m \<le> 12 \<and> 1 \<le> d \<and> d \<le> days_in_month y m"

definition ordinal_of :: "int \<Rightarrow> int \<Rightarrow> int \<Rightarrow> date" where
  "ordinal_of y m d =
     days_before_year y + sum_list (take (nat (m - 1)) (month_lengths (is_leap y))) + d"

text \<open>
  The year of an ordinal: the largest year that has begun. 146097 days are 400 years, so
  the quotient by the mean length misses the year by at most one.
\<close>

definition year_of :: "date \<Rightarrow> int" where
  "year_of n =
     (let y = (n * 400) div 146097 + 1
      in if days_before_year (y + 1) < n then y + 1
         else if n \<le> days_before_year y then y - 1 else y)"

definition ymd_of :: "date \<Rightarrow> int \<times> int \<times> int" where
  "ymd_of n =
     (let y = year_of n;
          (m, d) = month_day (month_lengths (is_leap y)) 1 (n - days_before_year y - 1)
      in (y, m, d))"

text \<open>\<open>date.weekday()\<close>: Monday is 0.\<close>

definition weekday :: "date \<Rightarrow> int" where
  "weekday n = (n + 6) mod 7"

lemma weekday_range [simp]: "0 \<le> weekday n" "weekday n < 7"
  by (simp_all add: weekday_def)

lemma sum_month_lengths: "sum_list (month_lengths b) = (if b then 366 else 365)"
  by (simp add: month_lengths_def)

lemma div_pred: "0 < k \<Longrightarrow> (y::int) div k = (y - 1) div k + (if y mod k = 0 then 1 else 0)"
proof -
  assume k: "0 < k"
  have y: "y - 1 = k * (y div k) + (y mod k - 1)" by simp
  show ?thesis
  proof (cases "y mod k = 0")
    case True
    then have "y = k * (y div k)" by auto
    moreover have "k * (y div k - 1) = k * (y div k) - k" by (simp add: right_diff_distrib)
    ultimately have "y - 1 = k * (y div k - 1) + (k - 1)" by linarith
    then have "(y - 1) div k = y div k - 1"
      by (rule int_div_pos_eq [where r = "k - 1"]) (use k in simp_all)
    with True show ?thesis by simp
  next
    case False
    moreover have "0 \<le> y mod k" "y mod k < k" using k by simp_all
    ultimately have "(y - 1) div k = y div k"
      using k by (intro int_div_pos_eq [OF y]) linarith+
    with False show ?thesis by simp
  qed
qed

lemma div_bounds:
  assumes "0 < (k::int)"
  shows "k * (n div k) \<le> n" and "n < k * (n div k) + k"
  using assms pos_mod_sign [of k n] pos_mod_bound [of k n] mult_div_mod_eq [of k n] by linarith+

lemma leap_arith:
  assumes "a = a' + (if p then 1 else 0)" "b = b' + (if q then 1 else 0)"
    "c = c' + (if r then 1 else 0)" "r \<Longrightarrow> q" "q \<Longrightarrow> p"
  shows "y * 365 + a - b + c =
    (y - 1) * 365 + a' - b' + c' + (if p \<and> (\<not> q \<or> r) then 366 else (365::int))"
  using assms by (cases p; cases q; cases r) auto

lemma days_before_year_Suc:
  "days_before_year (y + 1) = days_before_year y + (if is_leap y then 366 else 365)"
proof -
  have d: "y mod 400 = 0 \<Longrightarrow> y mod 100 = 0" "y mod 100 = 0 \<Longrightarrow> y mod 4 = 0"
    by (auto simp flip: dvd_eq_mod_eq_0 intro: dvd_trans [of _ 100] dvd_trans [of _ 400])
  show ?thesis
    unfolding days_before_year_def is_leap_def Let_def add_diff_cancel_right'
    by (rule leap_arith [OF div_pred div_pred div_pred d]) simp_all
qed

lemma days_before_year_mean:
  shows "146097 * (y - 1) - 800 < 400 * days_before_year y"
    and "400 * days_before_year y < 146097 * (y - 1) + 400"
  unfolding days_before_year_def Let_def
  using div_bounds [of 4 "y - 1"] div_bounds [of 100 "y - 1"] div_bounds [of 400 "y - 1"]
  by simp_all

lemma year_of_bounds:
  shows "days_before_year (year_of n) < n" and "n \<le> days_before_year (year_of n + 1)"
proof -
  define y where "y = (n * 400) div 146097 + 1"
  have q: "146097 * (y - 1) \<le> n * 400" "n * 400 < 146097 * (y - 1) + 146097"
    using div_bounds [of 146097 "n * 400"] by (simp_all add: y_def)
  have "days_before_year (y - 1) < n"
    using q days_before_year_mean [of "y - 1"] by simp
  moreover have "n \<le> days_before_year (y + 2)"
    using q days_before_year_mean [of "y + 2"] by simp
  moreover have "year_of n = (if days_before_year (y + 1) < n then y + 1
      else if n \<le> days_before_year y then y - 1 else y)"
    by (simp add: year_of_def Let_def y_def)
  moreover have "y + 1 + 1 = y + 2" by simp
  ultimately show "days_before_year (year_of n) < n" "n \<le> days_before_year (year_of n + 1)"
    by (metis diff_add_cancel not_le)+
qed

lemma month_day_bounds:
  "0 \<le> n \<Longrightarrow> n < sum_list ls \<Longrightarrow> month_day ls m n = (m', d) \<Longrightarrow>
   m \<le> m' \<and> m' < m + int (length ls) \<and> 1 \<le> d \<and> d \<le> ls ! nat (m' - m)
   \<and> sum_list (take (nat (m' - m)) ls) + d = n + 1"
proof (induction ls m n rule: month_day.induct)
  case (2 l ls m n)
  show ?case
  proof (cases "n < l")
    case True
    with 2 show ?thesis by auto
  next
    case False
    with 2 have "m + 1 \<le> m' \<and> m' < m + 1 + int (length ls) \<and> 1 \<le> d
      \<and> d \<le> ls ! nat (m' - (m + 1)) \<and> sum_list (take (nat (m' - (m + 1))) ls) + d = n - l + 1"
      by simp
    moreover have "nat (m' - m) = Suc (nat (m' - (m + 1)))" if "m + 1 \<le> m'"
      using that by simp
    ultimately show ?thesis by simp
  qed
qed simp

lemma ymd_of_valid:
  assumes "ymd_of n = (y, m, d)"
  shows "y = year_of n" "1 \<le> m" "m \<le> 12" "1 \<le> d" "d \<le> days_in_month y m" "ordinal_of y m d = n"
proof -
  let ?r = "n - days_before_year (year_of n) - 1"
  have r: "0 \<le> ?r" "?r < sum_list (month_lengths (is_leap (year_of n)))"
    using year_of_bounds [of n] days_before_year_Suc [of "year_of n"]
    by (simp_all add: sum_month_lengths)
  from assms have y: "y = year_of n"
    and md: "month_day (month_lengths (is_leap y)) 1 ?r = (m, d)"
    by (auto simp: ymd_of_def Let_def split: prod.splits)
  with month_day_bounds [OF r] have *: "1 \<le> m" "m < 1 + int (length (month_lengths (is_leap y)))"
    "1 \<le> d" "d \<le> month_lengths (is_leap y) ! nat (m - 1)"
    "sum_list (take (nat (m - 1)) (month_lengths (is_leap y))) + d = ?r + 1"
    by auto
  from * y show "y = year_of n" "1 \<le> m" "m \<le> 12" "1 \<le> d" "d \<le> days_in_month y m"
    "ordinal_of y m d = n"
    by (auto simp: days_in_month_def ordinal_of_def month_lengths_def)
qed

section \<open>Texts of dates and times\<close>

text \<open>
  \<open>date.isoformat()\<close>, and \<open>_parse_date\<close>: what \<open>date.fromisoformat\<close> accepts and prints
  back unchanged is exactly the ten characters YYYY-MM-DD of a date of years 1 to 9999.
\<close>

definition iso_date :: "date \<Rightarrow> string" where
  "iso_date n =
     (let (y, m, d) = ymd_of n in zero_pad 4 y @ ''-'' @ zero_pad 2 m @ ''-'' @ zero_pad 2 d)"

definition parse_iso_date :: "string \<Rightarrow> date option" where
  "parse_iso_date s =
     (if length s = 10 \<and> s ! 4 = CHR ''-'' \<and> s ! 7 = CHR ''-''
         \<and> list_all is_digit (take 4 s @ take 2 (drop 5 s) @ drop 8 s)
      then let y = parse_digits (take 4 s); m = parse_digits (take 2 (drop 5 s));
               d = parse_digits (drop 8 s)
           in if valid_ymd y m d then Some (ordinal_of y m d) else None
      else None)"

text \<open>\<open>strftime("%H:%M")\<close>, and the texts that \<open>_parse_time\<close> accepts.\<close>

definition tod_hm :: "int \<Rightarrow> int \<Rightarrow> tod" where
  "tod_hm h m = minutes (60 * h + m)"

definition hm_text :: "tod \<Rightarrow> string" where
  "hm_text t =
     (let mins = t div minute_us in zero_pad 2 (mins div 60) @ '':'' @ zero_pad 2 (mins mod 60))"

definition parse_hm :: "string \<Rightarrow> tod option" where
  "parse_hm s =
     (if length s = 5 \<and> s ! 2 = CHR '':'' \<and> list_all is_digit (take 2 s @ drop 3 s)
      then let h = parse_digits (take 2 s); m = parse_digits (drop 3 s)
           in if h < 24 \<and> m < 60 then Some (tod_hm h m) else None
      else None)"

lemma length_digits_of: "0 \<le> n \<Longrightarrow> n < 10 ^ k \<Longrightarrow> 0 < k \<Longrightarrow> length (digits_of n) \<le> k"
proof (induction n arbitrary: k rule: digits_of.induct)
  case (1 n)
  show ?case
  proof (cases "n < 10")
    case True
    with 1 show ?thesis by (simp add: digits_of.simps [of n])
  next
    case False
    with "1.prems" obtain j where k: "k = Suc j" "0 < j"
      by (cases k; cases "k - 1") auto
    have "n div 10 < 10 ^ j"
      using "1.prems" k div_bounds(1) [of 10 n] by simp
    with "1.IH" "1.prems" False k have "length (digits_of (n div 10)) \<le> j" by simp
    with False k show ?thesis by (simp add: digits_of.simps [of n])
  qed
qed

lemma zero_pad_props:
  assumes "0 \<le> n" "n < 10 ^ w" "0 < w"
  shows "length (zero_pad w n) = w" "list_all is_digit (zero_pad w n)"
    "parse_digits (zero_pad w n) = n"
proof -
  have len: "length (digits_of n) \<le> w"
    using assms by (intro length_digits_of)
  have pad: "parse_digits (replicate k (CHR ''0'') @ s) = parse_digits s" for k s
    by (induction k) (simp_all add: parse_digits_def digit_val_def code_point_def)
  show "length (zero_pad w n) = w"
    using len assms by (simp add: zero_pad_def Let_def str_of_int_def)
  show "list_all is_digit (zero_pad w n)"
    using digits_of_digits [of n] assms
    by (auto simp: zero_pad_def Let_def str_of_int_def list_all_iff is_digit_def code_point_def)
  show "parse_digits (zero_pad w n) = n"
    using assms by (simp add: zero_pad_def Let_def str_of_int_def pad parse_digits_of)
qed

lemma parse_hm_text:
  assumes "0 \<le> t" "t < day_us" "t mod minute_us = 0"
  shows "parse_hm (hm_text t) = Some t"
proof -
  define q where "q = t div minute_us"
  have t: "t = minutes q"
    using assms(3) by (auto simp: minutes_def q_def minute_us_def)
  have q: "0 \<le> q" "q < 1440"
    using assms t by (auto simp: minutes_def minute_us_def day_us_def)
  have h: "0 \<le> q div 60" "q div 60 < 24" "0 \<le> q mod 60" "q mod 60 < 60"
    using q by auto
  note zh = zero_pad_props [of "q div 60" 2] and zm = zero_pad_props [of "q mod 60" 2]
  have *: "hm_text t = zero_pad 2 (q div 60) @ CHR '':'' # zero_pad 2 (q mod 60)"
    by (simp add: hm_text_def Let_def q_def)
  have l: "length (zero_pad 2 (q div 60)) = 2" "length (zero_pad 2 (q mod 60)) = 2"
    using zh zm h by simp_all
  have "tod_hm (q div 60) (q mod 60) = t"
    by (simp add: tod_hm_def t)
  then show ?thesis
    using zh zm h l unfolding * by (simp add: parse_hm_def Let_def nth_append)
qed

lemma parse_hm_range:
  assumes "parse_hm s = Some t" shows "0 \<le> t" "t < day_us" "t mod minute_us = 0"
proof -
  have nn: "list_all is_digit u \<Longrightarrow> 0 \<le> parse_digits u" for u
    by (induction u rule: rev_induct)
      (auto simp: parse_digits_append is_digit_def digit_val_def, simp add: parse_digits_def)
  from assms nn [of "take 2 s"] nn [of "drop 3 s"]
  obtain h m where "t = tod_hm h m" "0 \<le> h" "h < 24" "0 \<le> m" "m < 60"
    by (auto simp: parse_hm_def Let_def split: if_splits)
  then show "0 \<le> t" "t < day_us" "t mod minute_us = 0"
    by (auto simp: tod_hm_def minutes_def minute_us_def day_us_def)
qed

definition date_range :: "date \<Rightarrow> bool" where
  "date_range n \<longleftrightarrow> 1 \<le> n \<and> n \<le> 3652059"

lemma year_of_range: "date_range n \<Longrightarrow> 1 \<le> year_of n \<and> year_of n \<le> 9999"
proof -
  assume n: "date_range n"
  have mono: "days_before_year a \<le> days_before_year b" if "a \<le> b" for a b
    using that
  proof (induction b rule: int_ge_induct)
    case (step i)
    then show ?case using days_before_year_Suc [of i] by (auto split: if_splits)
  qed simp
  have "days_before_year 1 = 0" "days_before_year 10000 = 3652059"
    by (simp_all add: days_before_year_def)
  with n year_of_bounds [of n] mono [of "year_of n + 1" 1] mono [of 10000 "year_of n"]
  show ?thesis by (force simp: date_range_def)
qed

lemma parse_iso_date_text:
  assumes "date_range n" shows "parse_iso_date (iso_date n) = Some n"
proof -
  obtain y m d where e: "ymd_of n = (y, m, d)" by (cases "ymd_of n") auto
  note v = ymd_of_valid [OF e] and yr = year_of_range [OF assms]
  have "days_in_month y m \<le> 31"
  proof -
    have "list_all (\<lambda>l. l \<le> 31) (month_lengths b)" for b by (simp add: month_lengths_def)
    moreover have "nat (m - 1) < length (month_lengths (is_leap y))"
      using v by (simp add: month_lengths_def)
    ultimately show ?thesis unfolding days_in_month_def by (metis list_all_length)
  qed
  with v yr have r: "0 \<le> y" "y < 10 ^ 4" "0 \<le> m" "m < 10 ^ 2" "0 \<le> d" "d < 10 ^ 2" by auto
  note zy = zero_pad_props [OF r(1,2)] and zm = zero_pad_props [OF r(3,4)]
    and zd = zero_pad_props [OF r(5,6)]
  have "valid_ymd y m d" using v yr by (simp add: valid_ymd_def)
  then show ?thesis
    using zy zm zd v(6)
    by (simp add: iso_date_def e parse_iso_date_def Let_def nth_append)
qed

end
