(* ===== verification/BookingDomain.thy ===== *)
theory BookingDomain
  imports Decimals Calendar
begin

text \<open>
  The vocabulary of the booking component: \<open>app/booking/domain.py\<close>, the exceptions of
  \<open>app/conversations/ports.py\<close>, and the columns of the tables of \<open>app/models/domain.py\<close>
  that booking reads. A frozen dataclass whose \<open>__post_init__\<close> rejects values is a
  record with a smart constructor that returns the exception.
\<close>

section \<open>Exceptions\<close>

text \<open>
  \<open>IntegrityError\<close> carries the name of the violated constraint, which is how the code
  tells one violation from another.
\<close>

datatype constraint =
    AppointmentExclusion
  | AppointmentIdempotency
  | OtherConstraint string

datatype booking_error =
    ValueError string
  | SlotUnavailable string
  | BookingRequiresHandoff string
  | BookingNotFound string
  | IntegrityError constraint
  | InvalidOperation

section \<open>Enumerations\<close>

datatype pricing_type = Fixed | Estimated | HumanQuote

datatype access_condition = Normal | Difficult | Unknown

datatype unknown_access_policy = Standard | Conservative | PolicyHumanQuote

datatype travel_method = Route | ConfiguredEstimate

text \<open>\<open>PricingType(text)\<close> and its siblings; \<open>None\<close> is the \<open>ValueError\<close>.\<close>

definition pricing_type_of :: "string \<Rightarrow> pricing_type option" where
  "pricing_type_of s =
     (if s = ''fixed'' then Some Fixed else if s = ''estimated'' then Some Estimated
      else if s = ''human_quote'' then Some HumanQuote else None)"

fun pricing_type_value :: "pricing_type \<Rightarrow> string" where
  "pricing_type_value Fixed = ''fixed''"
| "pricing_type_value Estimated = ''estimated''"
| "pricing_type_value HumanQuote = ''human_quote''"

definition access_condition_of :: "string \<Rightarrow> access_condition option" where
  "access_condition_of s =
     (if s = ''normal'' then Some Normal else if s = ''difficult'' then Some Difficult
      else if s = ''unknown'' then Some Unknown else None)"

fun access_condition_value :: "access_condition \<Rightarrow> string" where
  "access_condition_value Normal = ''normal''"
| "access_condition_value Difficult = ''difficult''"
| "access_condition_value Unknown = ''unknown''"

definition unknown_access_policy_of :: "string \<Rightarrow> unknown_access_policy option" where
  "unknown_access_policy_of s =
     (if s = ''standard'' then Some Standard else if s = ''conservative'' then Some Conservative
      else if s = ''human_quote'' then Some PolicyHumanQuote else None)"

definition travel_method_of :: "string \<Rightarrow> travel_method option" where
  "travel_method_of s =
     (if s = ''route'' then Some Route
      else if s = ''configured_estimate'' then Some ConfiguredEstimate else None)"

section \<open>Addresses\<close>

record service_address =
  address_line :: string
  sa_number :: "string option"
  sa_complement :: "string option"
  sa_neighborhood :: "string option"
  sa_city :: "string option"
  sa_state :: "string option"
  sa_postal_code :: "string option"

definition mk_service_address :: "service_address \<Rightarrow> booking_error + service_address" where
  "mk_service_address a =
     (if strip (address_line a) = [] then Inl (ValueError ''Service address cannot be empty'')
      else Inr a)"

definition present :: "string option \<Rightarrow> string list" where
  "present v = (case v of None \<Rightarrow> [] | Some s \<Rightarrow> if strip s = [] then [] else [strip s])"

definition searchable_text :: "service_address \<Rightarrow> string" where
  "searchable_text a =
     join '' ''
       (present (Some (address_line a)) @ present (sa_number a) @ present (sa_complement a)
        @ present (sa_neighborhood a) @ present (sa_city a) @ present (sa_state a)
        @ present (sa_postal_code a))"

definition snapshot_entry :: "string \<Rightarrow> string option \<Rightarrow> pydict" where
  "snapshot_entry k v =
     (case v of None \<Rightarrow> [] | Some s \<Rightarrow> if strip s = [] then [] else [(k, PStr s)])"

definition to_snapshot :: "service_address \<Rightarrow> pydict" where
  "to_snapshot a =
     snapshot_entry ''address_line'' (Some (strip (address_line a)))
     @ snapshot_entry ''number'' (sa_number a)
     @ snapshot_entry ''complement'' (sa_complement a)
     @ snapshot_entry ''neighborhood'' (sa_neighborhood a)
     @ snapshot_entry ''city'' (sa_city a)
     @ snapshot_entry ''state'' (sa_state a)
     @ snapshot_entry ''postal_code'' (sa_postal_code a)"

definition snapshot_field :: "pydict \<Rightarrow> string \<Rightarrow> string option" where
  "snapshot_field d k =
     (case dict_get d k of
        Some (PStr s) \<Rightarrow> if strip s = [] then None else Some s
      | _ \<Rightarrow> None)"

definition from_snapshot :: "pyval \<Rightarrow> service_address option" where
  "from_snapshot v =
     (case v of
        PDict d \<Rightarrow>
          (case dict_get d ''address_line'' of
             Some (PStr line) \<Rightarrow>
               if strip line = [] then None
               else Some \<lparr>address_line = line,
                 sa_number = snapshot_field d ''number'',
                 sa_complement = snapshot_field d ''complement'',
                 sa_neighborhood = snapshot_field d ''neighborhood'',
                 sa_city = snapshot_field d ''city'',
                 sa_state = snapshot_field d ''state'',
                 sa_postal_code = snapshot_field d ''postal_code''\<rparr>
           | _ \<Rightarrow> None)
      | _ \<Rightarrow> None)"

record travel_origin =
  to_address :: string
  to_latitude :: "decimal option"
  to_longitude :: "decimal option"
  to_is_precise :: bool

definition mk_travel_origin :: "travel_origin \<Rightarrow> booking_error + travel_origin" where
  "mk_travel_origin t =
     (if strip (to_address t) = [] then Inl (ValueError ''Operational origin cannot be empty'')
      else if (to_latitude t = None) \<noteq> (to_longitude t = None)
      then Inl (ValueError ''Origin coordinates must be provided together'')
      else Inr t)"

section \<open>Requirements, configuration, estimates and plans\<close>

record booking_requirements =
  br_quantity :: "int option"
  br_access :: access_condition
  br_address :: "service_address option"
  br_site_start :: "tod option"
  br_site_end :: "tod option"
  br_tubing_meters :: "decimal option"
  br_details :: pydict
  br_idempotency_key :: "string option"

definition mk_requirements :: "booking_requirements \<Rightarrow> booking_error + booking_requirements" where
  "mk_requirements r =
     (if (case br_quantity r of Some q \<Rightarrow> q \<le> 0 | None \<Rightarrow> False)
      then Inl (ValueError ''Quantity must be positive'')
      else if (case br_tubing_meters r of Some t \<Rightarrow> dec_le t dec_zero | None \<Rightarrow> False)
      then Inl (ValueError ''Tubing length must be positive'')
      else if (case (br_site_start r, br_site_end r) of
                 (Some s, Some e) \<Rightarrow> e \<le> s | _ \<Rightarrow> False)
      then Inl (ValueError ''Site allowed end must be after start'')
      else if (case br_idempotency_key r of Some k \<Rightarrow> strip k = [] | None \<Rightarrow> False)
      then Inl (ValueError ''Idempotency key cannot be empty'')
      else Inr r)"

definition requirements_ok :: "booking_requirements \<Rightarrow> bool" where
  "requirements_ok r = (mk_requirements r = Inr r)"

record service_configuration =
  cf_duration :: int
  cf_base_price :: "decimal option"
  cf_pricing_type :: pricing_type
  cf_automatic_booking :: bool
  cf_included_quantity :: int
  cf_unit_duration :: int
  cf_unit_price :: "decimal option"
  cf_requires_address :: bool
  cf_requires_quantity :: bool
  cf_considers_access :: bool
  cf_difficult_duration :: int
  cf_difficult_price :: "decimal option"
  cf_unknown_policy :: unknown_access_policy
  cf_margin :: int

record service_estimate =
  se_duration :: int
  se_price :: "decimal option"
  se_pricing_type :: pricing_type
  se_human_quote :: bool
  se_rules :: "string list"
  se_qualifier :: string

record travel_estimate =
  te_minutes :: int
  te_distance_km :: "decimal option"
  te_source :: string
  te_method :: string
  te_estimated :: bool
  te_within_area :: bool
  te_available :: bool
  te_origin_precise :: bool

definition mk_travel_estimate :: "travel_estimate \<Rightarrow> booking_error + travel_estimate" where
  "mk_travel_estimate t =
     (if te_minutes t < 0 then Inl (ValueError ''Travel minutes cannot be negative'') else Inr t)"

record booking_plan =
  bp_service :: service_estimate
  bp_travel :: travel_estimate
  bp_before :: int
  bp_after :: int
  bp_handoff :: bool
  bp_reason :: "string option"

definition mk_booking_plan :: "booking_plan \<Rightarrow> booking_error + booking_plan" where
  "mk_booking_plan p =
     (if bp_before p < 0 \<or> bp_after p < 0
      then Inl (ValueError ''Travel reservation cannot be negative'') else Inr p)"

definition snapshot_details :: "booking_plan \<Rightarrow> pydict" where
  "snapshot_details p =
     [(''applied_rules'', PList (map PStr (se_rules (bp_service p)))),
      (''qualifier'', PStr (se_qualifier (bp_service p))),
      (''travel_source'', PStr (te_source (bp_travel p))),
      (''travel_method'', PStr (te_method (bp_travel p))),
      (''travel_estimated'', PBool (te_estimated (bp_travel p))),
      (''travel_available'', PBool (te_available (bp_travel p))),
      (''travel_origin_is_precise'', PBool (te_origin_precise (bp_travel p)))]"

section \<open>Rows of the tables booking reads\<close>

record business =
  bz_id :: uuid
  bz_active :: bool
  bz_timezone :: string
  bz_slot_interval :: int
  bz_origin_address :: "string option"
  bz_origin_street :: "string option"
  bz_origin_number :: "string option"
  bz_origin_city :: "string option"
  bz_origin_state :: "string option"
  bz_origin_validated_at :: "instant option"
  bz_origin_latitude :: "decimal option"
  bz_origin_longitude :: "decimal option"
  bz_origin_precise :: bool
  bz_travel_method :: string
  bz_default_travel_minutes :: "int option"
  bz_fallback_allowed :: bool
  bz_region_rules :: "pydict list"
  bz_before_buffer :: int
  bz_after_buffer :: int
  bz_delivery_fee_per_km :: "decimal option"
  bz_radius_km :: "decimal option"
  bz_included_km :: "decimal option"
  bz_fee_per_km :: "decimal option"
  bz_interval_minutes :: "int option"
  bz_preparation_minutes :: "int option"
  bz_finishing_minutes :: "int option"
  bz_minimum_notice :: "int option"
  bz_weekdays :: "int list"
  bz_weekday_start :: "tod option"
  bz_weekday_end :: "tod option"
  bz_weekend_enabled :: bool
  bz_weekend_start :: "tod option"
  bz_weekend_end :: "tod option"

record service =
  sv_id :: uuid
  sv_business :: uuid
  sv_name :: string
  sv_active :: bool
  sv_duration :: int
  sv_base_price :: "decimal option"
  sv_pricing_type :: string
  sv_automatic_booking :: bool
  sv_included_quantity :: int
  sv_unit_duration :: int
  sv_unit_price :: "decimal option"
  sv_requires_address :: bool
  sv_requires_quantity :: bool
  sv_considers_access :: bool
  sv_difficult_duration :: int
  sv_difficult_price :: "decimal option"
  sv_unknown_policy :: string
  sv_margin :: int
  sv_asks_site_limit :: bool
  sv_asks_tubing :: bool
  sv_included_tubing :: "decimal option"
  sv_examples :: "string list"

record catalog_item =
  ci_id :: uuid
  ci_business :: uuid
  ci_preset_key :: "string option"
  ci_price :: "decimal option"
  ci_unit_label :: "string option"
  ci_active :: bool

record employee =
  em_id :: uuid
  em_business :: uuid
  em_active :: bool
  em_role :: string

record employee_service =
  es_business :: uuid
  es_employee :: uuid
  es_service :: uuid

record working_hours =
  wh_business :: uuid
  wh_employee :: uuid
  wh_weekday :: int
  wh_start :: tod
  wh_end :: tod

record schedule_block =
  sb_business :: uuid
  sb_employee :: uuid
  sb_starts :: instant
  sb_ends :: instant

record appointment =
  ap_id :: uuid
  ap_business :: uuid
  ap_customer :: uuid
  ap_service :: uuid
  ap_employee :: uuid
  ap_starts :: instant
  ap_ends :: instant
  ap_status :: string
  ap_address :: "pydict option"
  ap_quantity :: int
  ap_tubing_meters :: "decimal option"
  ap_access :: string
  ap_duration :: int
  ap_before :: int
  ap_after :: int
  ap_price :: "decimal option"
  ap_pricing_type :: string
  ap_details :: pydict
  ap_site_end :: "tod option"
  ap_idempotency_key :: "string option"

section \<open>What the snapshot of an address keeps\<close>

lemma dropWhile_id: "(xs = [] \<or> \<not> p (hd xs)) \<Longrightarrow> dropWhile p xs = xs"
  by (cases xs) auto

lemma hd_dropWhile': "dropWhile p xs = [] \<or> \<not> p (hd (dropWhile p xs))"
  by (metis hd_dropWhile)

lemma strip_ends:
  "strip s = [] \<or> (\<not> py_isspace (hd (strip s)) \<and> \<not> py_isspace (last (strip s)))"
proof (cases "strip s = []")
  case False
  define u where "u = lstrip s"
  have r: "strip s = rev (dropWhile py_isspace (rev u))"
    by (simp add: strip_def rstrip_def u_def)
  have last: "\<not> py_isspace (last (strip s))"
    using False hd_dropWhile' [of py_isspace "rev u"] r by (auto simp: last_rev)
  obtain v where v: "u = strip s @ v"
    using r by (metis rev_append rev_rev_ident takeWhile_dropWhile_id)
  then have "hd (strip s) = hd u" using False by simp
  moreover have "u \<noteq> []" using v False by auto
  ultimately have "\<not> py_isspace (hd (strip s))"
    using hd_dropWhile' [of py_isspace s] by (auto simp: u_def lstrip_def)
  with last show ?thesis by simp
qed simp

lemma strip_strip [simp, py_text]: "strip (strip s) = strip s"
proof -
  let ?t = "strip s"
  have "lstrip ?t = ?t"
    unfolding lstrip_def using strip_ends [of s] by (intro dropWhile_id) auto
  moreover have "rstrip ?t = ?t"
    unfolding rstrip_def using strip_ends [of s]
    by (subst dropWhile_id) (auto simp: hd_rev)
  ultimately show ?thesis by (metis strip_def)
qed

text \<open>An address as the snapshot keeps it: blank fields gone, the first line stripped.\<close>

definition nonblank :: "string option \<Rightarrow> string option" where
  "nonblank v = (case v of None \<Rightarrow> None | Some s \<Rightarrow> if strip s = [] then None else Some s)"

definition normal_address :: "service_address \<Rightarrow> service_address" where
  "normal_address a =
     \<lparr>address_line = strip (address_line a), sa_number = nonblank (sa_number a),
      sa_complement = nonblank (sa_complement a), sa_neighborhood = nonblank (sa_neighborhood a),
      sa_city = nonblank (sa_city a), sa_state = nonblank (sa_state a),
      sa_postal_code = nonblank (sa_postal_code a)\<rparr>"

lemma dict_get_entry:
  "dict_get (snapshot_entry k v @ d) k' =
     (if k' = k then (case nonblank v of Some s \<Rightarrow> Some (PStr s) | None \<Rightarrow> dict_get d k)
      else dict_get d k')"
  by (auto simp: snapshot_entry_def nonblank_def dict_get_def split: option.splits)

lemma dict_get_entry_last:
  "dict_get (snapshot_entry k v) k' = (if k' = k then map_option PStr (nonblank v) else None)"
  by (auto simp: snapshot_entry_def nonblank_def dict_get_def split: option.splits)

lemma snapshot_field_get:
  "dict_get d k = map_option PStr (nonblank v) \<Longrightarrow> snapshot_field d k = nonblank v"
  by (auto simp: snapshot_field_def nonblank_def split: option.splits if_splits)

lemma present_nonblank [simp]: "present (nonblank v) = present v"
  by (auto simp: present_def nonblank_def split: option.splits)

lemma searchable_text_normal [simp]: "searchable_text (normal_address a) = searchable_text a"
proof -
  have "present (Some (strip (address_line a))) = present (Some (address_line a))"
    by (simp add: present_def)
  then show ?thesis by (simp add: searchable_text_def normal_address_def)
qed

text \<open>
  C12. An address survives the appointment's JSON snapshot: reading back what
  \<open>to_snapshot\<close> wrote gives the address with blank fields dropped, and the text that
  travel is computed from is unchanged.
\<close>

theorem snapshot_roundtrip:
  assumes "mk_service_address a = Inr a"
  shows "from_snapshot (PDict (to_snapshot a)) = Some (normal_address a)
    \<and> searchable_text (normal_address a) = searchable_text a"
proof -
  let ?d = "to_snapshot a"
  from assms have line: "strip (address_line a) \<noteq> []"
    by (auto simp: mk_service_address_def split: if_splits)
  have l: "dict_get ?d ''address_line'' = Some (PStr (strip (address_line a)))"
    using line by (simp add: to_snapshot_def dict_get_entry nonblank_def)
  have n: "snapshot_field ?d ''number'' = nonblank (sa_number a)"
    "snapshot_field ?d ''complement'' = nonblank (sa_complement a)"
    "snapshot_field ?d ''neighborhood'' = nonblank (sa_neighborhood a)"
    "snapshot_field ?d ''city'' = nonblank (sa_city a)"
    "snapshot_field ?d ''state'' = nonblank (sa_state a)"
    "snapshot_field ?d ''postal_code'' = nonblank (sa_postal_code a)"
    by (rule snapshot_field_get,
        simp add: to_snapshot_def dict_get_entry dict_get_entry_last split: option.split)+
  show ?thesis
    using line by (simp add: from_snapshot_def l n) (simp add: normal_address_def)
qed

theorem snapshot_roundtrip_witness:
  "from_snapshot (PDict (to_snapshot
     \<lparr>address_line = '' Rua Um '', sa_number = Some ''12'', sa_complement = Some '' '',
      sa_neighborhood = None, sa_city = Some ''SJC'', sa_state = None, sa_postal_code = None\<rparr>))
   = Some \<lparr>address_line = ''Rua Um'', sa_number = Some ''12'', sa_complement = None,
      sa_neighborhood = None, sa_city = Some ''SJC'', sa_state = None, sa_postal_code = None\<rparr>"
proof -
  let ?a = "\<lparr>address_line = '' Rua Um '', sa_number = Some ''12'', sa_complement = Some '' '',
      sa_neighborhood = None, sa_city = Some ''SJC'', sa_state = None, sa_postal_code = None\<rparr>"
  have ok: "mk_service_address ?a = Inr ?a" by code_simp
  have n: "normal_address ?a = \<lparr>address_line = ''Rua Um'', sa_number = Some ''12'',
      sa_complement = None, sa_neighborhood = None, sa_city = Some ''SJC'', sa_state = None,
      sa_postal_code = None\<rparr>"
    by code_simp
  show ?thesis using snapshot_roundtrip [OF ok] unfolding n by blast
qed

section \<open>A business for the examples\<close>

text \<open>The server defaults of the columns, a weekday schedule and a fixed origin.\<close>

definition sample_business :: business where
  "sample_business =
     \<lparr>bz_id = 1, bz_active = True, bz_timezone = ''America/Sao_Paulo'', bz_slot_interval = 30,
      bz_origin_address = Some ''Rua A 10'', bz_origin_street = None, bz_origin_number = None,
      bz_origin_city = None, bz_origin_state = None, bz_origin_validated_at = None,
      bz_origin_latitude = None, bz_origin_longitude = None, bz_origin_precise = False,
      bz_travel_method = ''configured_estimate'', bz_default_travel_minutes = Some 20,
      bz_fallback_allowed = True, bz_region_rules = [], bz_before_buffer = 0,
      bz_after_buffer = 0, bz_delivery_fee_per_km = Some (Dec 240 (-2)), bz_radius_km = None,
      bz_included_km = Some (Dec 1500 (-2)), bz_fee_per_km = Some (Dec 240 (-2)),
      bz_interval_minutes = None, bz_preparation_minutes = None, bz_finishing_minutes = None,
      bz_minimum_notice = None, bz_weekdays = [0, 1, 2, 3, 4],
      bz_weekday_start = Some (minutes 480), bz_weekday_end = Some (minutes 1080),
      bz_weekend_enabled = False, bz_weekend_start = None, bz_weekend_end = None\<rparr>"

end
