(* ===== verification/Estimator.thy ===== *)
theory Estimator
  imports BookingDomain
begin

text \<open>
  \<open>ServiceEstimator\<close> of \<open>app/booking/estimator.py\<close>: the price and the duration of a
  service from the configuration the business stored, or the referral to a human quote.
  The steps of \<open>estimate\<close> are separate definitions, composed by \<open>estimate\<close> in the
  order of the code, so that each contribution has its own lemma.
\<close>

section \<open>The computation\<close>

definition human_quote :: "service_configuration \<Rightarrow> string \<Rightarrow> service_estimate" where
  "human_quote c reason =
     \<lparr>se_duration = cf_duration c + cf_margin c, se_price = None,
      se_pricing_type = cf_pricing_type c, se_human_quote = True,
      se_rules = [reason], se_qualifier = ''human_quote''\<rparr>"

text \<open>\<open>quantity or included_quantity\<close>: a missing or zero quantity is the included one.\<close>

definition effective_quantity :: "service_configuration \<Rightarrow> booking_requirements \<Rightarrow> int" where
  "effective_quantity c r =
     (case br_quantity r of
        None \<Rightarrow> cf_included_quantity c
      | Some q \<Rightarrow> if q = 0 then cf_included_quantity c else q)"

definition additional_units :: "service_configuration \<Rightarrow> booking_requirements \<Rightarrow> int" where
  "additional_units c r = max 0 (effective_quantity c r - cf_included_quantity c)"

definition or_zero :: "decimal option \<Rightarrow> decimal" where
  "or_zero v = (case v of None \<Rightarrow> dec_zero | Some d \<Rightarrow> if coef d = 0 then dec_zero else d)"

text \<open>Price and rules after the additional units.\<close>

definition units_price :: "service_configuration \<Rightarrow> int \<Rightarrow> decimal" where
  "units_price c units = dec_mul (or_zero (cf_unit_price c)) (dec_of_int units)"

definition with_units ::
  "service_configuration \<Rightarrow> int \<Rightarrow> decimal option \<times> string list" where
  "with_units c units =
     (let rules = ''base_duration'' # (if units \<noteq> 0 then [''additional_units''] else [])
      in case cf_base_price c of
           None \<Rightarrow> (None, rules)
         | Some p \<Rightarrow>
             if units \<noteq> 0 then
               (Some (dec_add p (units_price c units)),
                rules @ [''additional_units_count:'' @ str_of_int units,
                         ''additional_units_price:'' @ dec_str (units_price c units)])
             else (Some p, rules))"

text \<open>
  The access condition that counts: an unknown one is a human quote, difficult, or normal,
  as the policy says. \<open>None\<close> is the early return.
\<close>

definition resolve_access ::
  "service_configuration \<Rightarrow> access_condition \<Rightarrow> (access_condition \<times> string list) option" where
  "resolve_access c a =
     (if a = Unknown then
        (case cf_unknown_policy c of
           PolicyHumanQuote \<Rightarrow> None
         | Conservative \<Rightarrow> Some (Difficult, [''unknown_access_conservative''])
         | Standard \<Rightarrow> Some (Unknown, [''unknown_access_standard'']))
      else Some (a, []))"

definition access_surcharge ::
  "service_configuration \<Rightarrow> access_condition \<Rightarrow> int \<times> decimal option \<times> string list
   \<Rightarrow> int \<times> decimal option \<times> string list" where
  "access_surcharge c a acc =
     (let (dur, price, rules) = acc
      in if a = Difficult then
           let extra = or_zero (cf_difficult_price c);
               price' = map_option (\<lambda>p. dec_add p extra) price;
               priced = (if price \<noteq> None \<and> dec_less dec_zero extra
                         then [''difficult_access_price:'' @ dec_str extra] else [])
           in (dur + cf_difficult_duration c, price', rules @ priced @ [''difficult_access''])
         else (dur, price, rules))"

definition finish_estimate ::
  "service_configuration \<Rightarrow> booking_requirements \<Rightarrow> int \<times> decimal option \<times> string list
   \<Rightarrow> service_estimate" where
  "finish_estimate c r acc =
     (let (dur, price, rules) = acc;
          dur' = dur + cf_margin c;
          rules' = rules @ (if cf_margin c \<noteq> 0 then [''duration_margin''] else [])
      in if cf_requires_address c \<and> br_address r = None then human_quote c ''address_required''
         else if \<not> cf_automatic_booking c \<or> cf_pricing_type c = HumanQuote \<or> price = None
         then human_quote c ''human_quote_configuration''
         else \<lparr>se_duration = dur', se_price = price, se_pricing_type = cf_pricing_type c,
               se_human_quote = False, se_rules = rules',
               se_qualifier = (if cf_pricing_type c = Fixed then ''fixed'' else ''estimated'')\<rparr>)"

definition estimate :: "service_configuration \<Rightarrow> booking_requirements \<Rightarrow> service_estimate" where
  "estimate c r =
     (if cf_requires_quantity c \<and> br_quantity r = None then human_quote c ''quantity_required''
      else
        let units = additional_units c r;
            dur = cf_duration c + units * cf_unit_duration c;
            (price, rules) = with_units c units
        in if cf_considers_access c then
             (case resolve_access c (br_access r) of
                None \<Rightarrow> human_quote c ''unknown_access''
              | Some (a, noted) \<Rightarrow>
                  finish_estimate c r (access_surcharge c a (dur, price, rules @ noted)))
           else finish_estimate c r (dur, price, rules))"

section \<open>What an estimate is made of\<close>

lemmas estimate_defs =
  estimate_def finish_estimate_def access_surcharge_def resolve_access_def with_units_def
  human_quote_def

lemma human_quote_simps [simp]:
  "se_human_quote (human_quote c s)" "se_price (human_quote c s) = None"
  "se_duration (human_quote c s) = cf_duration c + cf_margin c"
  by (simp_all add: human_quote_def)

lemma dval_or_zero: "dval (or_zero v) = (case v of None \<Rightarrow> 0 | Some d \<Rightarrow> dval d)"
  by (auto simp: or_zero_def split: option.splits)

text \<open>Whether the surcharge for difficult access applies.\<close>

definition charged_difficult :: "service_configuration \<Rightarrow> booking_requirements \<Rightarrow> bool" where
  "charged_difficult c r \<longleftrightarrow>
     cf_considers_access c \<and>
     (br_access r = Difficult \<or> br_access r = Unknown \<and> cf_unknown_policy c = Conservative)"

definition spec_duration :: "service_configuration \<Rightarrow> booking_requirements \<Rightarrow> int" where
  "spec_duration c r =
     cf_duration c + additional_units c r * cf_unit_duration c
     + (if charged_difficult c r then cf_difficult_duration c else 0) + cf_margin c"

definition opt_dval :: "decimal option \<Rightarrow> rat" where
  "opt_dval v = (case v of None \<Rightarrow> 0 | Some d \<Rightarrow> dval d)"

definition spec_price :: "service_configuration \<Rightarrow> booking_requirements \<Rightarrow> rat" where
  "spec_price c r =
     opt_dval (cf_base_price c) + of_int (additional_units c r) * opt_dval (cf_unit_price c)
     + (if charged_difficult c r then opt_dval (cf_difficult_price c) else 0)"

definition needs_human :: "service_configuration \<Rightarrow> booking_requirements \<Rightarrow> bool" where
  "needs_human c r \<longleftrightarrow>
     cf_requires_quantity c \<and> br_quantity r = None
     \<or> cf_considers_access c \<and> br_access r = Unknown \<and> cf_unknown_policy c = PolicyHumanQuote
     \<or> cf_requires_address c \<and> br_address r = None
     \<or> \<not> cf_automatic_booking c \<or> cf_pricing_type c = HumanQuote \<or> cf_base_price c = None"

text \<open>The rules an automatic estimate names, in their order, and the one cause of a referral.\<close>

definition spec_rules :: "service_configuration \<Rightarrow> booking_requirements \<Rightarrow> string list" where
  "spec_rules c r =
     [''base_duration'']
     @ (if additional_units c r = 0 then []
        else [''additional_units'', ''additional_units_count:'' @ str_of_int (additional_units c r),
              ''additional_units_price:'' @ dec_str (units_price c (additional_units c r))])
     @ (if cf_considers_access c \<and> br_access r = Unknown
        then [if cf_unknown_policy c = Conservative then ''unknown_access_conservative'' else ''unknown_access_standard'']
        else [])
     @ (if \<not> charged_difficult c r then []
        else (if dec_less dec_zero (or_zero (cf_difficult_price c))
              then [''difficult_access_price:'' @ dec_str (or_zero (cf_difficult_price c))] else [])
          @ [''difficult_access''])
     @ (if cf_margin c = 0 then [] else [''duration_margin''])"

definition referral_cause :: "service_configuration \<Rightarrow> booking_requirements \<Rightarrow> string" where
  "referral_cause c r =
     (if cf_requires_quantity c \<and> br_quantity r = None then ''quantity_required''
      else if cf_considers_access c \<and> br_access r = Unknown \<and> cf_unknown_policy c = PolicyHumanQuote then ''unknown_access''
      else if cf_requires_address c \<and> br_address r = None then ''address_required''
      else ''human_quote_configuration'')"

lemma estimate_human_iff: "se_human_quote (estimate c r) \<longleftrightarrow> needs_human c r"
  by (cases "br_access r"; cases "cf_unknown_policy c"; cases "cf_base_price c")
    (auto simp: estimate_defs needs_human_def Let_def split: if_splits)

lemma estimate_automatic:
  assumes "\<not> needs_human c r"
  shows "se_duration (estimate c r) = spec_duration c r"
    and "\<exists>p. se_price (estimate c r) = Some p \<and> dval p = spec_price c r"
    and "se_pricing_type (estimate c r) = cf_pricing_type c"
  using assms
  by (cases "br_access r"; cases "cf_unknown_policy c"; cases "cf_base_price c";
      auto simp: estimate_defs needs_human_def Let_def spec_duration_def spec_price_def
        charged_difficult_def units_price_def opt_dval_def dval_or_zero split: option.splits)+

lemma estimate_human:
  "needs_human c r \<Longrightarrow> se_price (estimate c r) = None \<and> se_duration (estimate c r) = cf_duration c + cf_margin c"
  by (cases "br_access r"; cases "cf_unknown_policy c"; cases "cf_base_price c")
    (auto simp: estimate_defs needs_human_def Let_def split: if_splits)

lemma estimate_human_rules: "needs_human c r \<Longrightarrow> se_rules (estimate c r) = [referral_cause c r]"
  by (cases "br_access r"; cases "cf_unknown_policy c"; cases "cf_base_price c")
    (auto simp: estimate_defs needs_human_def referral_cause_def Let_def split: if_splits)

lemma estimate_automatic_rules: "\<not> needs_human c r \<Longrightarrow> se_rules (estimate c r) = spec_rules c r"
  by (cases "br_access r"; cases "cf_unknown_policy c"; cases "cf_base_price c")
    (auto simp: estimate_defs needs_human_def spec_rules_def charged_difficult_def Let_def split: if_splits)

text \<open>
  C10. The estimate is complete and exact: it is referred to a person exactly when the
  configuration or the missing answers demand it, then without a price and with the first cause as
  its only rule; otherwise the price is base price, price per additional unit and difficult-access
  surcharge summed without rounding, the duration is the corresponding sum of minutes with the
  margin, and the rules are those that were applied, in their order.
\<close>

theorem estimate_correct:
  "if needs_human c r
   then se_human_quote (estimate c r) \<and> se_price (estimate c r) = None
     \<and> se_duration (estimate c r) = cf_duration c + cf_margin c \<and> se_rules (estimate c r) = [referral_cause c r]
   else \<not> se_human_quote (estimate c r)
     \<and> map_option dval (se_price (estimate c r)) = Some (spec_price c r)
     \<and> se_duration (estimate c r) = spec_duration c r \<and> se_rules (estimate c r) = spec_rules c r"
  using estimate_human_iff estimate_human estimate_automatic estimate_human_rules estimate_automatic_rules by fastforce

section \<open>Monotonicity\<close>

definition configuration_ok :: "service_configuration \<Rightarrow> bool" where
  "configuration_ok c \<longleftrightarrow>
     0 < cf_duration c \<and> 0 < cf_included_quantity c \<and> 0 \<le> cf_unit_duration c
     \<and> 0 \<le> cf_difficult_duration c \<and> 0 \<le> cf_margin c
     \<and> 0 \<le> opt_dval (cf_unit_price c) \<and> 0 \<le> opt_dval (cf_difficult_price c)"

lemma estimate_duration_pos: "configuration_ok c \<Longrightarrow> 0 < se_duration (estimate c r)"
  by (cases "needs_human c r")
    (auto simp: estimate_human estimate_automatic(1) spec_duration_def configuration_ok_def
      additional_units_def intro!: add_pos_nonneg add_nonneg_nonneg)

lemma additional_units_mono:
  "0 < q \<Longrightarrow> q \<le> q' \<Longrightarrow>
   additional_units c (r\<lparr>br_quantity := Some q\<rparr>) \<le> additional_units c (r\<lparr>br_quantity := Some q'\<rparr>)"
  by (auto simp: additional_units_def effective_quantity_def)

text \<open>
  Asking for more units of the same service never makes the automatic estimate cheaper
  or shorter, under the checks the services table enforces.
\<close>

theorem estimate_monotone:
  assumes "configuration_ok c" and "0 < q" and "q \<le> q'"
    and "\<not> se_human_quote (estimate c (r\<lparr>br_quantity := Some q\<rparr>))"
  shows "\<exists>p p'. se_price (estimate c (r\<lparr>br_quantity := Some q\<rparr>)) = Some p
    \<and> se_price (estimate c (r\<lparr>br_quantity := Some q'\<rparr>)) = Some p' \<and> dval p \<le> dval p'
    \<and> se_duration (estimate c (r\<lparr>br_quantity := Some q\<rparr>))
        \<le> se_duration (estimate c (r\<lparr>br_quantity := Some q'\<rparr>))"
proof -
  let ?r = "\<lambda>n. r\<lparr>br_quantity := Some n\<rparr>"
  have nh: "\<not> needs_human c (?r q)" "\<not> needs_human c (?r q')"
    using assms(4) by (auto simp: estimate_human_iff needs_human_def)
  obtain p p' where p: "se_price (estimate c (?r q)) = Some p" "dval p = spec_price c (?r q)"
    and p': "se_price (estimate c (?r q')) = Some p'" "dval p' = spec_price c (?r q')"
    using estimate_automatic(2) nh by metis
  have units: "additional_units c (?r q) \<le> additional_units c (?r q')"
    using additional_units_mono assms(2,3) by blast
  have same: "charged_difficult c (?r q) = charged_difficult c (?r q')"
    by (simp add: charged_difficult_def)
  have "spec_price c (?r q) \<le> spec_price c (?r q')"
    using assms(1) units
    by (auto simp: spec_price_def same configuration_ok_def intro!: mult_right_mono)
  moreover have "spec_duration c (?r q) \<le> spec_duration c (?r q')"
    using assms(1) units
    by (auto simp: spec_duration_def same configuration_ok_def intro!: mult_right_mono)
  ultimately show ?thesis
    using p p' nh by (simp add: estimate_automatic(1))
qed

definition sample_configuration :: service_configuration where
  "sample_configuration =
     \<lparr>cf_duration = 60, cf_base_price = Some (Dec 15000 (-2)), cf_pricing_type = Fixed,
      cf_automatic_booking = True, cf_included_quantity = 1, cf_unit_duration = 40,
      cf_unit_price = Some (Dec 9000 (-2)), cf_requires_address = False,
      cf_requires_quantity = True, cf_considers_access = True, cf_difficult_duration = 30,
      cf_difficult_price = Some (Dec 5000 (-2)), cf_unknown_policy = Conservative,
      cf_margin = 10\<rparr>"

definition sample_requirements :: booking_requirements where
  "sample_requirements =
     \<lparr>br_quantity = Some 2, br_access = Unknown, br_address = None, br_site_start = None,
      br_site_end = None, br_tubing_meters = None, br_details = [], br_idempotency_key = None\<rparr>"

lemma sample_configuration_ok: "configuration_ok sample_configuration"
  by (simp add: configuration_ok_def sample_configuration_def opt_dval_def)

lemma sample_estimate: "estimate sample_configuration sample_requirements =
   \<lparr>se_duration = 140, se_price = Some (Dec 29000 (-2)), se_pricing_type = Fixed,
    se_human_quote = False,
    se_rules = [''base_duration'', ''additional_units'', ''additional_units_count:1'',
      ''additional_units_price:90.00'', ''unknown_access_conservative'',
      ''difficult_access_price:50.00'', ''difficult_access'', ''duration_margin''],
    se_qualifier = ''fixed''\<rparr>"
  by code_simp

theorem estimate_monotone_witness:
  "\<exists>p p'. se_price (estimate sample_configuration (sample_requirements\<lparr>br_quantity := Some 2\<rparr>)) = Some p
    \<and> se_price (estimate sample_configuration (sample_requirements\<lparr>br_quantity := Some 5\<rparr>)) = Some p'
    \<and> dval p \<le> dval p'
    \<and> se_duration (estimate sample_configuration (sample_requirements\<lparr>br_quantity := Some 2\<rparr>))
        \<le> se_duration (estimate sample_configuration (sample_requirements\<lparr>br_quantity := Some 5\<rparr>))"
proof -
  have e: "sample_requirements\<lparr>br_quantity := Some 2\<rparr> = sample_requirements"
    by (simp add: sample_requirements_def)
  have "\<not> se_human_quote (estimate sample_configuration (sample_requirements\<lparr>br_quantity := Some 2\<rparr>))"
    unfolding e sample_estimate by simp
  then show ?thesis
    by (rule estimate_monotone [OF sample_configuration_ok, of 2 5, rotated 2]) simp_all
qed

end
