(* ===== verification/Travel.thy ===== *)
theory Travel
  imports BookingDomain
begin

text \<open>
  \<open>app/booking/travel.py\<close>: when two textual addresses are safely the same place, the
  estimate from the business's own rules, and the Google Routes port with its cache. The
  interface both ports implement, \<open>TravelTimePort\<close>, is the locale \<open>travel_time_port\<close>.

  The HTTP exchange with Google is a parameter: a function from the attempt to the reply.
  Durations are read as decimal numbers, without the rounding of binary floats.
\<close>

section \<open>Comparing addresses as text\<close>

definition normalize :: "string \<Rightarrow> string" where
  "normalize s = strip_accents (casefold s)"

text \<open>
  The pattern for a postal code, five digits, an optional hyphen between optional spaces,
  three digits, and no word character after them: \<open>Some\<close> is the rest of the text.
\<close>

definition match_postal_code :: "string \<Rightarrow> string option" where
  "match_postal_code s =
     (if length (take 5 s) = 5 \<and> list_all is_digit (take 5 s) then
        let r1 = dropWhile py_isspace (drop 5 s);
            r2 = (case r1 of c # t \<Rightarrow> if c = CHR ''-'' then t else r1 | [] \<Rightarrow> []);
            r3 = dropWhile py_isspace r2;
            rest = drop 3 r3
        in if length (take 3 r3) = 3 \<and> list_all is_digit (take 3 r3)
              \<and> (case rest of [] \<Rightarrow> True | c # _ \<Rightarrow> \<not> word_char c)
           then Some rest else None
      else None)"

lemma length_match_postal_code:
  assumes "match_postal_code s = Some r" shows "length r < length s"
proof -
  define r1 where "r1 = dropWhile py_isspace (drop 5 s)"
  define r2 where "r2 = (case r1 of c # t \<Rightarrow> if c = CHR ''-'' then t else r1 | [] \<Rightarrow> [])"
  define r3 where "r3 = dropWhile py_isspace r2"
  have "r = drop 3 r3" "length (take 3 r3) = 3"
    using assms unfolding match_postal_code_def Let_def r3_def r2_def r1_def
    by (simp_all split: if_splits)
  then have "length r < length r3" by auto
  also have "\<dots> \<le> length r2" by (simp add: r3_def length_dropWhile_le)
  also have "\<dots> \<le> length r1" by (auto simp: r2_def split: list.splits)
  also have "\<dots> \<le> length s"
    using length_dropWhile_le [of py_isspace "drop 5 s"] by (simp add: r1_def)
  finally show ?thesis .
qed

text \<open>\<open>re.sub\<close> with that pattern; the flag says whether the character before is a word one.\<close>

function remove_postal_codes :: "bool \<Rightarrow> string \<Rightarrow> string" where
  "remove_postal_codes w [] = []"
| "remove_postal_codes w (c # s) =
     (case (if w then None else match_postal_code (c # s)) of
        Some rest \<Rightarrow> CHR '' '' # remove_postal_codes True rest
      | None \<Rightarrow> c # remove_postal_codes (word_char c) s)"
  by pat_completeness auto
termination
  by (relation "measure (\<lambda>(w, s). length s)")
    (auto dest: length_match_postal_code split: if_splits)

definition address_alias :: "string \<Rightarrow> string" where
  "address_alias t =
     (if t = ''r'' then ''rua'' else if t = ''av'' \<or> t = ''avda'' then ''avenida''
      else if t = ''rod'' then ''rodovia'' else t)"

definition address_tokens :: "string \<Rightarrow> string list" where
  "address_tokens value =
     dedup (map address_alias
       (filter (\<lambda>t. t \<noteq> ''cep'')
         (runs (\<lambda>c. is_lower_az c \<or> is_digit c) (remove_postal_codes False (normalize value)))))"

definition same_address_estimate :: "travel_origin \<Rightarrow> travel_estimate" where
  "same_address_estimate origin =
     \<lparr>te_minutes = 0, te_distance_km = None, te_source = ''same_address'',
      te_method = ''same_address'', te_estimated = False, te_within_area = True,
      te_available = True, te_origin_precise = to_is_precise origin\<rparr>"

definition same_place :: "string list \<Rightarrow> string list \<Rightarrow> bool" where
  "same_place origin destination =
     (if origin = [] \<or> destination = [] then False
      else if \<not> (\<exists>t \<in> set origin. list_all is_digit t \<and> t \<in> set destination) then False
      else if set origin = set destination then True
      else
        let (smaller, larger) =
              (if length origin \<le> length destination
               then (origin, destination) else (destination, origin));
            descriptive = filter (\<lambda>t. list_all is_lower_az t \<and> 5 \<le> length t) smaller
        in 5 \<le> length smaller \<and> set smaller \<subseteq> set larger \<and> 2 \<le> length descriptive)"

definition same_address_travel_estimate ::
  "travel_origin \<Rightarrow> service_address \<Rightarrow> travel_estimate option" where
  "same_address_travel_estimate origin destination =
     (if same_place (address_tokens (to_address origin))
           (address_tokens (searchable_text destination))
      then Some (same_address_estimate origin) else None)"

definition unavailable_travel_estimate :: "travel_origin \<Rightarrow> travel_estimate" where
  "unavailable_travel_estimate origin =
     \<lparr>te_minutes = 0, te_distance_km = None, te_source = ''configuration_unavailable'',
      te_method = ''unavailable'', te_estimated = True, te_within_area = True,
      te_available = False, te_origin_precise = to_is_precise origin\<rparr>"

lemma same_address_minutes:
  "same_address_travel_estimate og d = Some t \<Longrightarrow> te_minutes t = 0 \<and> te_available t"
  by (auto simp: same_address_travel_estimate_def same_address_estimate_def split: if_splits)

lemma unavailable_simps [simp]:
  "te_minutes (unavailable_travel_estimate og) = 0"
  "\<not> te_available (unavailable_travel_estimate og)"
  by (simp_all add: unavailable_travel_estimate_def)

text \<open>The comparison does not depend on which address is the origin.\<close>

lemma same_place_sym:
  assumes "distinct xs" "distinct ys"
  shows "same_place xs ys = same_place ys xs"
proof (cases "length xs = length ys")
  case True
  have "set xs \<subseteq> set ys \<Longrightarrow> set xs = set ys" "set ys \<subseteq> set xs \<Longrightarrow> set xs = set ys"
    using assms True
    by (metis List.finite_set card_subset_eq distinct_card)+
  with True show ?thesis
    by (auto simp: same_place_def Let_def)
next
  case False
  then show ?thesis
    by (auto simp: same_place_def Let_def)
qed

lemma distinct_address_tokens [simp]: "distinct (address_tokens s)"
  by (simp add: address_tokens_def)

section \<open>The interface\<close>

text \<open>
  \<open>TravelTimePort\<close>: an estimate is a number of minutes that is not negative, and two
  texts that are safely the same place are estimated as such.
\<close>

locale travel_time_port =
  fixes port :: "travel_origin \<Rightarrow> service_address \<Rightarrow> booking_error + travel_estimate"
  assumes minutes_nonneg: "port og d = Inr t \<Longrightarrow> 0 \<le> te_minutes t"
    and same_address: "same_address_travel_estimate og d = Some s \<Longrightarrow> port og d = Inr t \<Longrightarrow> t = s"
begin

text \<open>\<open>replace(travel, estimated=..., origin_is_precise=...)\<close>, as the callers do.\<close>

lemma replaced_nonneg:
  "port og d = Inr t \<Longrightarrow>
   0 \<le> te_minutes (t\<lparr>te_estimated := e, te_origin_precise := p\<rparr>)"
  by (simp add: minutes_nonneg)

lemma mk_ok: "port og d = Inr t \<Longrightarrow> mk_travel_estimate t = Inr t"
  using minutes_nonneg by (fastforce simp: mk_travel_estimate_def)

end

section \<open>Estimates configured by the business\<close>

record travel_configuration =
  tc_fallback_minutes :: "int option"
  tc_fallback_allowed :: bool
  tc_region_rules :: "pydict list"

text \<open>The minutes of a rule that is trusted and well formed.\<close>

definition rule_minutes :: "pydict \<Rightarrow> int option" where
  "rule_minutes rule =
     (case (dict_get rule ''trusted'', dict_get rule ''match'', dict_get rule ''minutes'') of
        (Some (PBool True), Some (PStr m), Some (PInt n)) \<Rightarrow>
          if strip m = [] \<or> n < 0 then None else Some n
      | _ \<Rightarrow> None)"

definition rule_applies :: "string \<Rightarrow> pydict \<Rightarrow> bool" where
  "rule_applies text rule =
     (rule_minutes rule \<noteq> None
      \<and> (case dict_get rule ''match'' of Some (PStr m) \<Rightarrow> contains text (normalize m) | _ \<Rightarrow> False))"

definition rule_served :: "pydict \<Rightarrow> bool" where
  "rule_served rule = (dict_get rule ''served'' \<noteq> Some (PBool False))"

definition region_estimate :: "travel_origin \<Rightarrow> pydict \<Rightarrow> travel_estimate" where
  "region_estimate origin rule =
     \<lparr>te_minutes = (case rule_minutes rule of Some n \<Rightarrow> n | None \<Rightarrow> 0),
      te_distance_km = None, te_source = ''business_configuration'',
      te_method = ''region_rule'', te_estimated = True, te_within_area = rule_served rule,
      te_available = True, te_origin_precise = to_is_precise origin\<rparr>"

definition fallback_estimate :: "travel_origin \<Rightarrow> int \<Rightarrow> travel_estimate" where
  "fallback_estimate origin n =
     \<lparr>te_minutes = n, te_distance_km = None, te_source = ''business_configuration'',
      te_method = ''configured_fallback'', te_estimated = True, te_within_area = True,
      te_available = True, te_origin_precise = to_is_precise origin\<rparr>"

text \<open>\<open>ConfiguredTravelTimePort\<close>: the constructor's checks, then \<open>estimate\<close>.\<close>

definition configured_checks :: "travel_configuration \<Rightarrow> booking_error option" where
  "configured_checks c =
     (case tc_fallback_minutes c of
        Some n \<Rightarrow>
          if n < 0 then Some (ValueError ''Fallback travel time cannot be negative'') else None
      | None \<Rightarrow>
          if tc_fallback_allowed c
          then Some (ValueError ''Allowed fallback requires configured minutes'') else None)"

definition configured_estimate ::
  "travel_configuration \<Rightarrow> travel_origin \<Rightarrow> service_address \<Rightarrow> travel_estimate" where
  "configured_estimate c origin destination =
     (case same_address_travel_estimate origin destination of
        Some t \<Rightarrow> t
      | None \<Rightarrow>
          let text = normalize (searchable_text destination)
          in case find (rule_applies text) (tc_region_rules c) of
               Some rule \<Rightarrow> region_estimate origin rule
             | None \<Rightarrow>
                 (case (tc_fallback_allowed c, tc_fallback_minutes c) of
                    (True, Some n) \<Rightarrow> fallback_estimate origin n
                  | _ \<Rightarrow> unavailable_travel_estimate origin))"

definition configured_port ::
  "travel_configuration \<Rightarrow> travel_origin \<Rightarrow> service_address \<Rightarrow> booking_error + travel_estimate" where
  "configured_port c origin destination =
     (case configured_checks c of
        Some e \<Rightarrow> Inl e
      | None \<Rightarrow> Inr (configured_estimate c origin destination))"

lemma rule_minutes_nonneg: "rule_minutes r = Some n \<Longrightarrow> 0 \<le> n"
  by (auto simp: rule_minutes_def split: option.splits pyval.splits bool.splits if_splits)

lemma configured_checks_None:
  "configured_checks c = None \<Longrightarrow> tc_fallback_minutes c = Some n \<Longrightarrow> 0 \<le> n"
  by (auto simp: configured_checks_def split: if_splits)

lemma configured_minutes_nonneg:
  "configured_checks c = None \<Longrightarrow> 0 \<le> te_minutes (configured_estimate c og d)"
  by (auto simp: configured_estimate_def Let_def region_estimate_def fallback_estimate_def
      same_address_minutes
      dest: configured_checks_None rule_minutes_nonneg split: option.splits bool.splits)

interpretation configured: travel_time_port "configured_port c" for c
proof
  show "0 \<le> te_minutes t" if "configured_port c og d = Inr t" for og d t
    using that by (auto simp: configured_port_def configured_minutes_nonneg split: option.splits)
  show "t = s"
    if "same_address_travel_estimate og d = Some s" "configured_port c og d = Inr t" for og d s t
    using that by (auto simp: configured_port_def configured_estimate_def split: option.splits)
qed

text \<open>
  The configured port fails closed: it estimates a positive travel time only from a
  trusted rule whose text occurs in the address or from an explicitly allowed fallback,
  and otherwise either recognises the same place or answers that no estimate is available.
\<close>

theorem configured_fails_closed:
  assumes "configured_port c origin destination = Inr t" and "te_available t"
  shows "same_address_travel_estimate origin destination = Some t
    \<or> (\<exists>rule \<in> set (tc_region_rules c).
         rule_applies (normalize (searchable_text destination)) rule
         \<and> dict_get rule ''trusted'' = Some (PBool True) \<and> Some (te_minutes t) = rule_minutes rule)
    \<or> (tc_fallback_allowed c \<and> tc_fallback_minutes c = Some (te_minutes t))"
proof -
  have trusted: "rule_minutes r \<noteq> None \<Longrightarrow> dict_get r ''trusted'' = Some (PBool True)" for r
    by (auto simp: rule_minutes_def split: option.splits pyval.splits bool.splits if_splits)
  from assms(1) have t: "t = configured_estimate c origin destination"
    by (auto simp: configured_port_def split: option.splits)
  show ?thesis
  proof (cases "find (rule_applies (normalize (searchable_text destination))) (tc_region_rules c)")
    case None
    with t assms(2) show ?thesis
      by (auto simp: configured_estimate_def Let_def fallback_estimate_def
          split: option.splits bool.splits)
  next
    case (Some rule)
    then have r: "rule \<in> set (tc_region_rules c)"
      "rule_applies (normalize (searchable_text destination)) rule"
      by (auto simp: find_Some_iff)
    with trusted [of rule] have "rule_minutes rule \<noteq> None"
      "dict_get rule ''trusted'' = Some (PBool True)" by (auto simp: rule_applies_def)
    with t Some r show ?thesis
      by (auto simp: configured_estimate_def Let_def region_estimate_def split: option.splits)
  qed
qed

definition sample_rules :: "pydict list" where
  "sample_rules =
     [[(''match'', PStr ''Centro''), (''minutes'', PInt 25), (''trusted'', PBool True)]]"

definition sample_address :: service_address where
  "sample_address =
     \<lparr>address_line = ''Rua Sete'', sa_number = Some ''10'', sa_complement = None,
      sa_neighborhood = Some ''centro'', sa_city = None, sa_state = None, sa_postal_code = None\<rparr>"

definition sample_origin :: travel_origin where
  "sample_origin = \<lparr>to_address = ''Zona Leste'', to_latitude = None, to_longitude = None,
     to_is_precise = False\<rparr>"

lemma sample_configured:
  "configured_port \<lparr>tc_fallback_minutes = None, tc_fallback_allowed = False,
      tc_region_rules = sample_rules\<rparr> sample_origin sample_address
   = Inr (region_estimate sample_origin (hd sample_rules))"
  by code_simp

theorem configured_fails_closed_witness:
  "\<exists>t. configured_port \<lparr>tc_fallback_minutes = None, tc_fallback_allowed = False,
       tc_region_rules = sample_rules\<rparr> sample_origin sample_address = Inr t
     \<and> (same_address_travel_estimate sample_origin sample_address = Some t
        \<or> (\<exists>rule \<in> set sample_rules.
              rule_applies (normalize (searchable_text sample_address)) rule
              \<and> dict_get rule ''trusted'' = Some (PBool True)
              \<and> Some (te_minutes t) = rule_minutes rule))"
proof -
  have "te_available (region_estimate sample_origin (hd sample_rules))"
    by (simp add: region_estimate_def)
  from configured_fails_closed [OF sample_configured this] sample_configured show ?thesis
    by auto
qed

end
