(* ===== verification/RoutesPort.thy ===== *)
theory RoutesPort
  imports Travel
begin

text \<open>
  \<open>GoogleRoutesTravelTimePort\<close> of \<open>app/booking/travel.py\<close>: the attempts it makes, how it
  reads a reply, and its cache of bounded size whose entries expire after fifteen minutes.
  A reply is what the HTTP exchange gave: an error status, another failure, or a JSON
  document; the exchange itself and the OAuth token are parameters. Instants of the
  monotonic clock are microseconds.
\<close>

section \<open>Attempts\<close>

datatype waypoint = LatLng decimal decimal | Address string

type_synonym route_attempt = "waypoint \<times> string"

definition brazil_qualified_address :: "string \<Rightarrow> string" where
  "brazil_qualified_address value =
     (if (\<exists>w \<in> set (runs word_char (normalize value)). w = ''brasil'' \<or> w = ''brazil'')
      then strip value else strip value @ '', Brasil'')"

definition origin_waypoint :: "travel_origin \<Rightarrow> waypoint" where
  "origin_waypoint og =
     (case (to_latitude og, to_longitude og) of
        (Some lat, Some lng) \<Rightarrow> LatLng lat lng
      | _ \<Rightarrow> Address (to_address og))"

definition route_attempts :: "travel_origin \<Rightarrow> service_address \<Rightarrow> route_attempt list" where
  "route_attempts og destination =
     (let text = strip (searchable_text destination);
          primary = (origin_waypoint og, text);
          qualified_origin =
            (if to_latitude og \<noteq> None \<and> to_longitude og \<noteq> None then origin_waypoint og
             else Address (brazil_qualified_address (to_address og)));
          secondary = (qualified_origin, brazil_qualified_address text)
      in if secondary = primary then [primary] else [primary, secondary])"

definition travel_location_key :: "travel_origin \<Rightarrow> string" where
  "travel_location_key og =
     (case (to_latitude og, to_longitude og) of
        (Some lat, Some lng) \<Rightarrow> dec_str lat @ '':'' @ dec_str lng
      | _ \<Rightarrow> normalize (to_address og))"

section \<open>Reading a reply\<close>

datatype route_reply = StatusError int | Failure | Json pyval

definition duration_seconds :: "pyval option \<Rightarrow> decimal option" where
  "duration_seconds v =
     (case v of
        Some (PStr s) \<Rightarrow>
          if suffix ''s'' s then
            (case parse_decimal (butlast s) of
               Some (DFin d) \<Rightarrow> if dec_le dec_zero d then Some d else None
             | _ \<Rightarrow> None)
          else None
      | _ \<Rightarrow> None)"

text \<open>\<open>math.ceil(seconds / 60)\<close>.\<close>

definition ceil_minutes :: "decimal \<Rightarrow> int" where
  "ceil_minutes d =
     (if 0 \<le> expo d then - ((- (coef d * 10 ^ nat (expo d))) div 60)
      else - ((- coef d) div (60 * 10 ^ nat (- expo d))))"

definition route_estimate :: "travel_origin \<Rightarrow> decimal \<Rightarrow> int \<Rightarrow> travel_estimate" where
  "route_estimate og seconds meters =
     \<lparr>te_minutes = max 1 (ceil_minutes seconds),
      te_distance_km = Some (quantize_cents (Dec meters (-3))),
      te_source = ''google_routes'', te_method = ''route'', te_estimated = True,
      te_within_area = True, te_available = True, te_origin_precise = to_is_precise og\<rparr>"

definition read_route :: "travel_origin \<Rightarrow> pyval \<Rightarrow> travel_estimate option" where
  "read_route og payload =
     (case payload of
        PDict d \<Rightarrow>
          (case dict_get d ''routes'' of
             Some (PList (PDict r # _)) \<Rightarrow>
               (case (duration_seconds (dict_get r ''duration''), dict_get r ''distanceMeters'') of
                  (Some s, Some (PInt m)) \<Rightarrow> if m < 0 then None else Some (route_estimate og s m)
                | _ \<Rightarrow> None)
           | _ \<Rightarrow> None)
      | _ \<Rightarrow> None)"

text \<open>The loop over the attempts; the second result lists the requests made.\<close>

fun try_routes ::
  "travel_origin \<Rightarrow> (route_attempt \<Rightarrow> route_reply) \<Rightarrow> route_attempt list
   \<Rightarrow> travel_estimate option \<times> route_attempt list" where
  "try_routes og send [] = (None, [])"
| "try_routes og send (a # as) =
     (let again = (let (r, made) = try_routes og send as in (r, a # made))
      in case send a of
           StatusError code \<Rightarrow> if code = 401 \<or> code = 403 then (None, [a]) else again
         | Failure \<Rightarrow> again
         | Json v \<Rightarrow> (case read_route og v of Some t \<Rightarrow> (Some t, [a]) | None \<Rightarrow> again))"

section \<open>The cache\<close>

type_synonym route_key = "string \<times> string"
type_synonym route_cache = "(route_key \<times> int \<times> travel_estimate) list"

definition route_cache_ttl :: int where "route_cache_ttl = 15 * 60 * 1000000"

definition route_cache_limit :: nat where "route_cache_limit = 2048"

definition cache_pop :: "route_key \<Rightarrow> route_cache \<Rightarrow> route_cache" where
  "cache_pop k c = filter (\<lambda>e. fst e \<noteq> k) c"

definition cached :: "route_key \<Rightarrow> int \<Rightarrow> route_cache \<Rightarrow> travel_estimate option \<times> route_cache" where
  "cached k now c =
     (case map_of c k of
        None \<Rightarrow> (None, c)
      | Some (expires, t) \<Rightarrow> if expires \<le> now then (None, cache_pop k c) else (Some t, c))"

fun cache_put :: "route_key \<Rightarrow> int \<times> travel_estimate \<Rightarrow> route_cache \<Rightarrow> route_cache" where
  "cache_put k v [] = [(k, v)]"
| "cache_put k v (e # c) = (if fst e = k then (k, v) # c else e # cache_put k v c)"

definition evict_oldest :: "route_cache \<Rightarrow> route_cache" where
  "evict_oldest c =
     (if route_cache_limit \<le> length c then
        (case min_by (\<lambda>e. fst (snd e)) c of None \<Rightarrow> c | Some e \<Rightarrow> cache_pop (fst e) c)
      else c)"

definition store_cache :: "route_key \<Rightarrow> int \<Rightarrow> travel_estimate \<Rightarrow> route_cache \<Rightarrow> route_cache" where
  "store_cache k now t c = cache_put k (now + route_cache_ttl, t) (evict_oldest c)"

section \<open>The port\<close>

text \<open>
  \<open>estimate\<close>: the clock is read once before the requests and once after them. The result
  is the estimate, the new cache, and the requests that were made.
\<close>

definition google_estimate ::
  "bool \<Rightarrow> (route_attempt \<Rightarrow> route_reply) \<Rightarrow> int \<Rightarrow> int \<Rightarrow> route_cache
   \<Rightarrow> travel_origin \<Rightarrow> service_address \<Rightarrow> travel_estimate \<times> route_cache \<times> route_attempt list" where
  "google_estimate token_ok send now later c og destination =
     (case same_address_travel_estimate og destination of
        Some t \<Rightarrow> (t, c, [])
      | None \<Rightarrow>
          let k = (travel_location_key og, normalize (searchable_text destination))
          in case cached k now c of
               (Some t, c') \<Rightarrow> (t, c', [])
             | (None, c') \<Rightarrow>
                 if token_ok then
                   (case try_routes og send (route_attempts og destination) of
                      (Some t, made) \<Rightarrow> (t, store_cache k later t c', made)
                    | (None, made) \<Rightarrow> (unavailable_travel_estimate og, c', made))
                 else (unavailable_travel_estimate og, c', []))"

text \<open>The port a booking request sees: a fresh cache, one exchange per pair of places.\<close>

definition google_port ::
  "bool \<Rightarrow> (route_attempt \<Rightarrow> route_reply) \<Rightarrow> travel_origin \<Rightarrow> service_address
   \<Rightarrow> booking_error + travel_estimate" where
  "google_port token_ok send og destination =
     Inr (fst (google_estimate token_ok send 0 0 [] og destination))"

section \<open>Invariant of the cache\<close>

definition cache_ok :: "int \<Rightarrow> route_cache \<Rightarrow> bool" where
  "cache_ok now c \<longleftrightarrow>
     distinct (map fst c) \<and> length c \<le> route_cache_limit
     \<and> (\<forall>(k, expires, t) \<in> set c. expires \<le> now + route_cache_ttl \<and> 0 \<le> te_minutes t)"

lemma cache_pop_subset: "set (cache_pop k c) \<subseteq> set c"
  by (auto simp: cache_pop_def)

lemma distinct_cache_pop: "distinct (map fst c) \<Longrightarrow> distinct (map fst (cache_pop k c))"
  by (simp add: cache_pop_def distinct_map_filter)

lemma length_cache_pop: "length (cache_pop k c) \<le> length c"
  by (simp add: cache_pop_def)

lemma length_cache_pop_less: "k \<in> fst ` set c \<Longrightarrow> length (cache_pop k c) < length c"
  by (auto simp: cache_pop_def intro!: length_filter_less)

lemma cache_ok_pop: "cache_ok now c \<Longrightarrow> cache_ok now (cache_pop k c)"
  unfolding cache_ok_def using cache_pop_subset [of k c] distinct_cache_pop [of c k]
    length_cache_pop [of k c] by fastforce

lemma cache_ok_later: "cache_ok now c \<Longrightarrow> now \<le> later \<Longrightarrow> cache_ok later c"
  by (fastforce simp: cache_ok_def)

lemma set_cache_put: "set (cache_put k v c) \<subseteq> insert (k, v) (set c)"
  by (induction c) auto

lemma keys_cache_put: "fst ` set (cache_put k v c) = insert k (fst ` set c)"
  by (induction c) auto

lemma distinct_cache_put: "distinct (map fst c) \<Longrightarrow> distinct (map fst (cache_put k v c))"
  by (induction c) (auto simp: keys_cache_put)

lemma length_cache_put: "length (cache_put k v c) \<le> Suc (length c)"
  by (induction c) auto

lemma length_evict: "length c \<le> route_cache_limit \<Longrightarrow> length (evict_oldest c) < route_cache_limit"
proof (cases "route_cache_limit \<le> length c")
  case True
  then have "c \<noteq> []" by (auto simp: route_cache_limit_def)
  then obtain e where e: "min_by (\<lambda>e. fst (snd e)) c = Some e"
    by (cases "min_by (\<lambda>e. fst (snd e)) c") auto
  then have "e \<in> set c" using min_by_Some [OF e] by blast
  then have "length (cache_pop (fst e) c) < length c" by (auto intro: length_cache_pop_less)
  moreover assume "length c \<le> route_cache_limit"
  ultimately show ?thesis using True e by (simp add: evict_oldest_def)
qed (simp add: evict_oldest_def)

lemma cache_ok_evict: "cache_ok now c \<Longrightarrow> cache_ok now (evict_oldest c)"
  by (auto simp: evict_oldest_def cache_ok_pop split: option.split)

lemma cache_ok_store:
  assumes "cache_ok now c" "0 \<le> te_minutes t"
  shows "cache_ok now (store_cache k now t c)"
proof -
  let ?e = "evict_oldest c"
  have e: "cache_ok now ?e" "length ?e < route_cache_limit"
    using assms(1) length_evict [of c] by (simp_all add: cache_ok_evict) (simp add: cache_ok_def)
  then have "length (store_cache k now t c) \<le> route_cache_limit"
    using length_cache_put [of k "(now + route_cache_ttl, t)" ?e] by (simp add: store_cache_def)
  moreover have "distinct (map fst (store_cache k now t c))"
    using e by (simp add: store_cache_def distinct_cache_put cache_ok_def)
  ultimately show ?thesis
    using e(1) set_cache_put [of k "(now + route_cache_ttl, t)" ?e] assms(2)
    by (fastforce simp: cache_ok_def store_cache_def)
qed

lemma cache_ok_cached: "cache_ok now c \<Longrightarrow> cache_ok now (snd (cached k now c))"
  by (auto simp: cached_def cache_ok_pop split: option.split)

lemma try_routes_minutes: "try_routes og send as = (Some t, made) \<Longrightarrow> 1 \<le> te_minutes t"
proof (induction as arbitrary: made)
  case (Cons a as)
  have "read_route og v = Some t \<Longrightarrow> 1 \<le> te_minutes t" for v
    by (auto simp: read_route_def route_estimate_def
        split: pyval.splits option.splits list.splits if_splits)
  with Cons show ?case
    by (auto simp: Let_def split: route_reply.splits option.splits if_splits prod.splits)
qed simp

lemma try_routes_made: "try_routes og send as = (Some t, made) \<Longrightarrow> made \<noteq> []"
  by (cases as) (auto simp: Let_def split: route_reply.splits option.splits prod.splits if_splits)

lemma cached_Some: "cached k now c = (Some t, c') \<Longrightarrow>
  c' = c \<and> (\<exists>expires. (k, expires, t) \<in> set c \<and> now < expires)"
  by (auto simp: cached_def split: option.splits if_splits dest!: map_of_SomeD)

interpretation google: travel_time_port "google_port token_ok send" for token_ok send
proof
  show "0 \<le> te_minutes t" if "google_port token_ok send og d = Inr t" for og d t
    using that by (auto simp: google_port_def google_estimate_def Let_def cached_def
        same_address_minutes dest: try_routes_minutes split: option.splits prod.splits if_splits)
  show "t = s"
    if "same_address_travel_estimate og d = Some s" "google_port token_ok send og d = Inr t"
    for og d s t
    using that by (simp add: google_port_def google_estimate_def)
qed

text \<open>
  The route cache stays sound: an estimate leaves at most 2048 entries with distinct
  keys, none of which lives longer than fifteen minutes from now, and an answer without a
  request is the same-place answer, an entry that has not expired, or unavailable.
\<close>

theorem google_cache_invariant:
  assumes "cache_ok now c" and "now \<le> later"
    and "google_estimate token_ok send now later c og d = (t, c', made)"
  shows "cache_ok later c' \<and> 0 \<le> te_minutes t
    \<and> (made = [] \<longrightarrow> te_available t \<longrightarrow> same_address_travel_estimate og d = Some t
        \<or> (\<exists>k expires. (k, expires, t) \<in> set c \<and> now < expires))"
proof (cases "same_address_travel_estimate og d")
  case (Some s)
  with assms show ?thesis
    by (auto simp: google_estimate_def cache_ok_later same_address_minutes)
next
  case None
  define k where "k = (travel_location_key og, normalize (searchable_text d))"
  obtain hit c1 where c1: "cached k now c = (hit, c1)" by (cases "cached k now c") auto
  have ok1: "cache_ok later c1"
    using cache_ok_cached [OF assms(1), of k] assms(2) c1 by (auto intro: cache_ok_later)
  show ?thesis
  proof (cases hit)
    case (Some s)
    with c1 None assms(3) have "t = s" "c' = c1" "made = []"
      by (auto simp: google_estimate_def k_def)
    moreover from cached_Some c1 Some obtain e where e: "(k, e, s) \<in> set c" "now < e" by blast
    moreover have "0 \<le> te_minutes s" using assms(1) e by (fastforce simp: cache_ok_def)
    ultimately show ?thesis using ok1 by blast
  next
    case hit: None
    obtain r m where r: "try_routes og send (route_attempts og d) = (r, m)" by fastforce
    have res: "(t, c', made) = (if token_ok then
        (case r of Some t \<Rightarrow> (t, store_cache k later t c1, m)
         | None \<Rightarrow> (unavailable_travel_estimate og, c1, m))
        else (unavailable_travel_estimate og, c1, []))"
      using assms(3) None c1 hit r by (auto simp: google_estimate_def k_def split: option.splits)
    show ?thesis
    proof (cases "token_ok \<and> r \<noteq> None")
      case True
      with res obtain s where s: "r = Some s" "t = s" "c' = store_cache k later s c1" "made = m"
        by auto
      have "m \<noteq> []" using r s(1) try_routes_made by metis
      moreover have "1 \<le> te_minutes s" using r s(1) try_routes_minutes by metis
      ultimately show ?thesis using s ok1 cache_ok_store by simp
    next
      case False
      with res ok1 show ?thesis by (auto split: option.splits if_splits)
    qed
  qed
qed

theorem google_cache_invariant_witness:
  "cache_ok 9 (fst (snd (google_estimate False (\<lambda>_. Failure) 4 9
     [((''a'', ''b''), 3, unavailable_travel_estimate sample_origin)] sample_origin sample_address)))"
proof -
  let ?c = "[((''a'', ''b''), 3, unavailable_travel_estimate sample_origin)]"
  let ?g = "google_estimate False (\<lambda>_. Failure) 4 9 ?c sample_origin sample_address"
  have ok: "cache_ok 4 ?c" by (simp add: cache_ok_def route_cache_limit_def route_cache_ttl_def)
  obtain t c' made where g: "?g = (t, c', made)" by (cases ?g) auto
  from google_cache_invariant [OF ok _ g] have "cache_ok 9 c'" by simp
  with g show ?thesis by simp
qed

lemma try_routes_length: "length (snd (try_routes og send as)) \<le> length as"
  by (induction as) (auto simp: Let_def split: route_reply.splits option.splits prod.splits)

lemma try_routes_continue:
  "a \<in> set (butlast (snd (try_routes og send as))) \<Longrightarrow>
   send a \<noteq> StatusError 401 \<and> send a \<noteq> StatusError 403"
proof (induction as)
  case (Cons b as)
  then show ?case
    by (auto simp: Let_def split: route_reply.splits option.splits prod.splits if_splits)
qed simp

text \<open>
  A refusal of the credentials (401 or 403) is not retried: it is the answer to the
  last request of an estimate if to any, and one estimate makes at most two requests.
\<close>

theorem route_requests_bounded:
  "length (snd (try_routes og send (route_attempts og d))) \<le> 2
   \<and> {a \<in> set (butlast (snd (try_routes og send (route_attempts og d)))).
        send a = StatusError 401 \<or> send a = StatusError 403} = {}"
proof -
  have "length (route_attempts og d) \<le> 2" by (simp add: route_attempts_def Let_def)
  then show ?thesis
    using try_routes_length [of og send "route_attempts og d"] try_routes_continue by fastforce
qed

end
