(* ===== verification/Buffers.thy ===== *)
theory Buffers
  imports BookingDomain
begin

text \<open>
  The minutes reserved around a service besides travel, and the notice a booking needs:
  \<open>_operational_buffers\<close> and \<open>_automatic_booking_notice_minutes\<close> of
  \<open>app/booking/availability.py\<close>. A blank setting of the business means automatic.
\<close>

section \<open>Operational buffers\<close>

definition quantity_or_one :: "booking_requirements \<Rightarrow> int" where
  "quantity_or_one r = max 1 (case br_quantity r of Some q \<Rightarrow> if q = 0 then 1 else q | None \<Rightarrow> 1)"

definition automatic_preparation :: "booking_requirements \<Rightarrow> int" where
  "automatic_preparation r =
     min 25 (8 + min 12 (max 0 (quantity_or_one r - 1) * 4)
             + (if br_access r = Difficult then 8 else 0))"

definition automatic_finishing :: "service_estimate \<Rightarrow> int" where
  "automatic_finishing e = (if se_duration e < 180 then 8 else 12)"

definition automatic_interval :: "service_estimate \<Rightarrow> int" where
  "automatic_interval e = (if se_duration e < 120 then 5 else 10)"

definition or_automatic :: "int option \<Rightarrow> int \<Rightarrow> int" where
  "or_automatic v a = (case v of Some n \<Rightarrow> n | None \<Rightarrow> a)"

text \<open>
  Where the total passes fifty minutes, the automatic parts give way: first the interval,
  then finishing, then preparation.
\<close>

definition cap_buffers ::
  "bool \<Rightarrow> bool \<Rightarrow> bool \<Rightarrow> int \<times> int \<times> int \<Rightarrow> int \<times> int \<times> int" where
  "cap_buffers auto_prep auto_fin auto_int buffers =
     (let (prep, fin, intv) = buffers;
          overflow = prep + fin + intv - 50
      in if \<not> (auto_prep \<or> auto_fin \<or> auto_int) \<or> overflow \<le> 0 then (prep, fin, intv)
         else
           let cut_int = (if auto_int then min intv overflow else 0);
               overflow1 = overflow - cut_int;
               cut_fin = (if overflow1 \<noteq> 0 \<and> auto_fin then min fin overflow1 else 0);
               overflow2 = overflow1 - cut_fin;
               prep' = (if overflow2 \<noteq> 0 \<and> auto_prep then max 0 (prep - overflow2) else prep)
           in (prep', fin - cut_fin, intv - cut_int))"

definition operational_buffers ::
  "business \<Rightarrow> booking_requirements \<Rightarrow> service_estimate \<Rightarrow> int \<times> int \<times> int" where
  "operational_buffers b r e =
     cap_buffers (bz_preparation_minutes b = None) (bz_finishing_minutes b = None)
       (bz_interval_minutes b = None)
       (or_automatic (bz_preparation_minutes b) (automatic_preparation r),
        or_automatic (bz_finishing_minutes b) (automatic_finishing e),
        or_automatic (bz_interval_minutes b) (automatic_interval e))"

definition configured_nonneg :: "business \<Rightarrow> bool" where
  "configured_nonneg b \<longleftrightarrow>
     0 \<le> or_automatic (bz_preparation_minutes b) 0
     \<and> 0 \<le> or_automatic (bz_finishing_minutes b) 0
     \<and> 0 \<le> or_automatic (bz_interval_minutes b) 0"

text \<open>What the business set explicitly, counting a blank as nothing.\<close>

definition configured_total :: "business \<Rightarrow> int" where
  "configured_total b =
     or_automatic (bz_preparation_minutes b) 0 + or_automatic (bz_finishing_minutes b) 0
     + or_automatic (bz_interval_minutes b) 0"

lemma automatic_bounds:
  "8 \<le> automatic_preparation r \<and> automatic_preparation r \<le> 25"
  "automatic_finishing e \<in> {8, 12}" "automatic_interval e \<in> {5, 10}"
  by (auto simp: automatic_preparation_def automatic_finishing_def automatic_interval_def)

lemma cap_buffers_cut:
  fixes p f i :: int
  assumes "cap_buffers ap af ai (p, f, i) = (p', f', i')" "0 \<le> p" "0 \<le> f" "0 \<le> i"
    and "ap \<or> af \<or> ai" and "50 < p + f + i"
  obtains ov1 ov2 where
    "0 \<le> ov1" "0 \<le> ov2" "p + f + i - 50 = (i - i') + ov1" "ov1 = (f - f') + ov2"
    "0 \<le> i'" "i' \<le> i" "0 \<le> f'" "f' \<le> f"
    "if ai then i' = 0 \<or> ov1 = 0 else i' = i" "if af then f' = 0 \<or> ov2 = 0 else f' = f"
    "p' = (if ov2 \<noteq> 0 \<and> ap then max 0 (p - ov2) else p)"
proof -
  define ov where "ov = p + f + i - 50"
  define c1 where "c1 = (if ai then min i ov else 0)"
  define ov1 where "ov1 = ov - c1"
  define c2 where "c2 = (if ov1 \<noteq> 0 \<and> af then min f ov1 else 0)"
  define ov2 where "ov2 = ov1 - c2"
  have r: "p' = (if ov2 \<noteq> 0 \<and> ap then max 0 (p - ov2) else p)" "f' = f - c2" "i' = i - c1"
    using assms(1,5,6) unfolding cap_buffers_def Let_def c1_def c2_def ov1_def ov2_def ov_def
    by auto
  have c1: "0 \<le> c1" "c1 \<le> ov" "c1 \<le> i" "if ai then c1 = i \<or> ov1 = 0 else c1 = 0"
    using assms by (auto simp: c1_def ov1_def ov_def)
  then have "0 \<le> ov1" by (simp add: ov1_def)
  then have c2: "0 \<le> c2" "c2 \<le> ov1" "c2 \<le> f" "if af then c2 = f \<or> ov2 = 0 else c2 = 0"
    using assms by (auto simp: c2_def ov2_def)
  show ?thesis
    by (rule that [of ov1 ov2]) (use c1 c2 r in \<open>auto simp: ov_def ov1_def ov2_def\<close>)
qed

lemma cap_buffers_total:
  fixes p f i :: int
  assumes "cap_buffers ap af ai (p, f, i) = (p', f', i')" "0 \<le> p" "0 \<le> f" "0 \<le> i"
  shows "0 \<le> p' \<and> 0 \<le> f' \<and> 0 \<le> i' \<and> (\<not> ap \<longrightarrow> p' = p) \<and> (\<not> af \<longrightarrow> f' = f) \<and> (\<not> ai \<longrightarrow> i' = i)
    \<and> (ap \<or> af \<or> ai \<longrightarrow>
        p' + f' + i' \<le> max 50 ((if ap then 0 else p) + (if af then 0 else f) + (if ai then 0 else i)))"
proof (cases "(ap \<or> af \<or> ai) \<and> 50 < p + f + i")
  case True
  then obtain ov1 ov2 where *: "0 \<le> ov1" "0 \<le> ov2" "p + f + i - 50 = (i - i') + ov1"
    "ov1 = (f - f') + ov2" "0 \<le> i'" "i' \<le> i" "0 \<le> f'" "f' \<le> f"
    "if ai then i' = 0 \<or> ov1 = 0 else i' = i" "if af then f' = 0 \<or> ov2 = 0 else f' = f"
    "p' = (if ov2 \<noteq> 0 \<and> ap then max 0 (p - ov2) else p)"
    using cap_buffers_cut [OF assms] by blast
  show ?thesis
  proof (cases "ov2 = 0 \<or> ap \<and> ov2 \<le> p")
    case True
    with * have "p' + f' + i' = 50" by auto
    with * assms True show ?thesis by (auto simp: max_def split: if_splits)
  next
    case False
    with * have "if ai then i' = 0 else i' = i" "if af then f' = 0 else f' = f"
      "p' = (if ap then 0 else p)"
      by (auto split: if_splits)
    with * assms show ?thesis by (auto split: if_splits)
  qed
next
  case False
  with assms(1) have "p' = p" "f' = f" "i' = i"
    by (auto simp: cap_buffers_def Let_def split: if_splits)
  with False assms show ?thesis by auto
qed

text \<open>
  C11. The automatic buffers are bounded and respect the settings: no buffer is negative, a
  value the business set is used as it is, and as soon as one buffer is automatic the
  three together take at most fifty minutes, or what the explicit settings alone take.
\<close>

theorem operational_buffers_bounds:
  assumes "configured_nonneg b" and "operational_buffers b r e = (prep, fin, intv)"
  shows "0 \<le> prep \<and> 0 \<le> fin \<and> 0 \<le> intv
    \<and> (\<forall>n. bz_preparation_minutes b = Some n \<longrightarrow> prep = n)
    \<and> (\<forall>n. bz_finishing_minutes b = Some n \<longrightarrow> fin = n)
    \<and> (\<forall>n. bz_interval_minutes b = Some n \<longrightarrow> intv = n)
    \<and> (None \<in> {bz_preparation_minutes b, bz_finishing_minutes b, bz_interval_minutes b}
        \<longrightarrow> prep + fin + intv \<le> max 50 (configured_total b))"
proof -
  let ?p = "or_automatic (bz_preparation_minutes b) (automatic_preparation r)"
  let ?f = "or_automatic (bz_finishing_minutes b) (automatic_finishing e)"
  let ?i = "or_automatic (bz_interval_minutes b) (automatic_interval e)"
  have nn: "0 \<le> ?p" "0 \<le> ?f" "0 \<le> ?i"
    using assms(1) automatic_bounds(1) [of r] automatic_bounds(2) [of e] automatic_bounds(3) [of e]
    by (auto simp: configured_nonneg_def or_automatic_def split: option.splits)
  note cap = cap_buffers_total [OF assms(2) [unfolded operational_buffers_def] nn]
  have tot: "(if bz_preparation_minutes b = None then 0 else ?p)
      + (if bz_finishing_minutes b = None then 0 else ?f)
      + (if bz_interval_minutes b = None then 0 else ?i) = configured_total b"
    by (auto simp: configured_total_def or_automatic_def split: option.splits)
  from cap show ?thesis
    unfolding tot by (auto simp: or_automatic_def)
qed

theorem operational_buffers_bounds_witness:
  "operational_buffers (sample_business\<lparr>bz_finishing_minutes := Some 45\<rparr>)
     \<lparr>br_quantity = Some 3, br_access = Difficult, br_address = None, br_site_start = None,
      br_site_end = None, br_tubing_meters = None, br_details = [], br_idempotency_key = None\<rparr>
     \<lparr>se_duration = 60, se_price = None, se_pricing_type = Fixed, se_human_quote = False,
      se_rules = [], se_qualifier = []\<rparr> = (5, 45, 0)
   \<and> (5::int) + 45 + 0 \<le> max 50 (configured_total (sample_business\<lparr>bz_finishing_minutes := Some 45\<rparr>))"
proof -
  let ?b = "sample_business\<lparr>bz_finishing_minutes := Some 45\<rparr>"
  let ?r = "\<lparr>br_quantity = Some 3, br_access = Difficult, br_address = None, br_site_start = None,
      br_site_end = None, br_tubing_meters = None, br_details = [], br_idempotency_key = None\<rparr>"
  let ?e = "\<lparr>se_duration = 60, se_price = None, se_pricing_type = Fixed, se_human_quote = False,
      se_rules = [], se_qualifier = []\<rparr>"
  have ok: "configured_nonneg ?b"
    by (simp add: configured_nonneg_def or_automatic_def sample_business_def)
  have v: "operational_buffers ?b ?r ?e = (5, 45, 0)" by code_simp
  have "None \<in> {bz_preparation_minutes ?b, bz_finishing_minutes ?b, bz_interval_minutes ?b}"
    by (simp add: sample_business_def)
  with operational_buffers_bounds [OF ok v] v show ?thesis by simp
qed

section \<open>Notice\<close>

definition automatic_booking_notice ::
  "booking_requirements \<Rightarrow> service_estimate \<Rightarrow> int" where
  "automatic_booking_notice r e =
     (let notice = (if 180 \<le> se_duration e then 180 else 120)
      in if 3 \<le> quantity_or_one r \<or> br_access r = Difficult then max notice 240 else notice)"

definition notice_minutes ::
  "business \<Rightarrow> booking_requirements \<Rightarrow> service_estimate \<Rightarrow> int" where
  "notice_minutes b r e =
     (case bz_minimum_notice b of Some n \<Rightarrow> n | None \<Rightarrow> automatic_booking_notice r e)"

lemma automatic_notice_range: "automatic_booking_notice r e \<in> {120, 180, 240}"
  by (auto simp: automatic_booking_notice_def Let_def)

end
