(* ===== verification/Planning.thy ===== *)
theory Planning
  imports Estimator RoutesPort Buffers
begin

text \<open>
  How \<open>PostgresBookingAvailabilityPort\<close> of \<open>app/booking/availability.py\<close> turns a
  business, a service and the customer's answers into a plan: which travel method counts,
  what the catalog adds for extra tubing, the travel to the customer, the fees for distance
  and delivery, and whether a person has to take over (\<open>_build_plan\<close>).

  The route provider is the optional parameter \<open>provider\<close>, a \<open>TravelTimePort\<close>. The texts
  with letters beyond ASCII are written with their code points.
\<close>

section \<open>Which travel method counts\<close>

definition blank :: "string option \<Rightarrow> bool" where
  "blank v = (case v of None \<Rightarrow> True | Some s \<Rightarrow> strip s = [])"

definition number_token :: "string \<Rightarrow> bool" where
  "number_token t =
     (let (ds, rest) = span_digits t
      in ds \<noteq> [] \<and> (case rest of [] \<Rightarrow> True | [c] \<Rightarrow> is_lower_az c | _ \<Rightarrow> False))"

definition street_tokens :: "string list" where
  "street_tokens =
     [''rua'', ''r'', ''avenida'', ''av'', ''rodovia'', ''rod'', ''estrada'', ''travessa'',
      ''alameda'']"

text \<open>
  The two regular expressions of the legacy check hold a word boundary on both sides, so
  they match exactly when a maximal run of word characters is a number with at most one
  letter, or one of the street words (a following full stop adds nothing).
\<close>

definition has_validated_structured_origin :: "business \<Rightarrow> bool" where
  "has_validated_structured_origin b =
     (if bz_origin_validated_at b \<noteq> None
         \<or> \<not> (blank (bz_origin_street b) \<or> blank (bz_origin_number b)
              \<or> blank (bz_origin_city b) \<or> blank (bz_origin_state b))
      then True
      else
        let legacy = join '' '' (split_ws (case bz_origin_address b of None \<Rightarrow> [] | Some s \<Rightarrow> s));
            tokens = runs word_char (normalize legacy)
        in list_ex number_token tokens \<and> list_ex (\<lambda>t. t \<in> set street_tokens) tokens)"

definition effective_travel_method :: "business \<Rightarrow> bool \<Rightarrow> booking_error + travel_method" where
  "effective_travel_method b route_provider_available =
     (case travel_method_of (bz_travel_method b) of
        None \<Rightarrow> Inl (ValueError ''not a valid TravelCalculationMethod'')
      | Some m \<Rightarrow>
          if m = ConfiguredEstimate \<and> route_provider_available
             \<and> has_validated_structured_origin b \<and> \<not> bz_fallback_allowed b
             \<and> bz_region_rules b = []
          then Inr Route else Inr m)"

section \<open>Additions from the catalog\<close>

definition catalog_pricing_unit :: "string option \<Rightarrow> string option \<Rightarrow> string" where
  "catalog_pricing_unit value dflt =
     (let text = join '' '' (split_ws (casefold (strip (case value of None \<Rightarrow> [] | Some s \<Rightarrow> s))))
      in if text \<in> {''metro'', ''por metro'', ''m''} then ''metro''
         else if text \<in> {''unidade'', ''por unidade'', ''unit''} then ''unidade''
         else if text \<in> {''kit'', ''por kit''} then ''kit''
         else if text \<in> {''valor fixo'', ''fixo'', ''fixed''} then ''valor fixo''
         else case dflt of Some d \<Rightarrow> d | None \<Rightarrow> if text = [] then ''unidade'' else text)"

text \<open>A positive amount; \<open>Decimal("Infinity")\<close> passes the test of the code.\<close>

datatype charge = Amount decimal | Infinite

definition catalog_item_quantity ::
  "booking_requirements \<Rightarrow> string option \<Rightarrow> booking_error + charge option" where
  "catalog_item_quantity r preset_key =
     (case preset_key of
        None \<Rightarrow> Inr None
      | Some k \<Rightarrow>
          if k = [] then Inr None
          else case dict_get (br_details r) ''catalog_item_quantities'' of
            Some (PDict q) \<Rightarrow>
              (case dict_get q k of
                 None \<Rightarrow> Inr None
               | Some v \<Rightarrow>
                   (case decimal_of_value v of
                      None \<Rightarrow> Inr None
                    | Some (DFin d) \<Rightarrow> Inr (if dec_less dec_zero d then Some (Amount d) else None)
                    | Some (DInf neg) \<Rightarrow> Inr (if neg then None else Some Infinite)
                    | Some DNaN \<Rightarrow> Inl InvalidOperation))
          | _ \<Rightarrow> Inr None)"

definition catalog_charge_quantity ::
  "string \<Rightarrow> decimal option \<Rightarrow> charge option \<Rightarrow> charge option" where
  "catalog_charge_quantity unit_label measured explicit =
     (let u = catalog_pricing_unit (Some unit_label) None
      in if u = ''valor fixo'' then Some (Amount (dec_of_int 1))
         else if u = ''metro'' then
           (case measured of
              Some m \<Rightarrow> if dec_less dec_zero m then Some (Amount m) else None
            | None \<Rightarrow> None)
         else case explicit of
           Some (Amount d) \<Rightarrow> if dec_less dec_zero d then Some (Amount d) else None
         | other \<Rightarrow> other)"

definition extra_tubing_item :: "catalog_item list \<Rightarrow> uuid \<Rightarrow> catalog_item option" where
  "extra_tubing_item items business_id =
     find (\<lambda>i. ci_business i = business_id \<and> ci_preset_key i = Some ''extra-tubing-meter''
               \<and> ci_active i) items"

definition text_tubing_unknown :: string where
  "text_tubing_unknown =
     ''Valor base; eventual tubula'' @ [CHR 0xE7, CHR 0xE3]
     @ ''o adicional ser'' @ [CHR 0xE1] @ '' conferida no local.''"

definition text_material_later :: string where
  "text_material_later =
     ''Material adicional ser'' @ [CHR 0xE1] @ '' conferido no local.''"

definition text_base_missing :: string where
  "text_base_missing =
     ''Pre'' @ [CHR 0xE7] @ ''o base do servi'' @ [CHR 0xE7] @ ''o n'' @ [CHR 0xE3]
     @ ''o configurado.''"

definition text_quantity_later :: string where
  "text_quantity_later =
     ''Valor base; a quantidade do material adicional ser'' @ [CHR 0xE1]
     @ '' confirmada antes de entrar no or'' @ [CHR 0xE7] @ ''amento.''"

text \<open>The charge of extra tubing once its item is found and priced.\<close>

definition charge_extra_tubing ::
  "booking_requirements \<Rightarrow> service_estimate \<Rightarrow> decimal \<Rightarrow> catalog_item \<Rightarrow> decimal
   \<Rightarrow> booking_error + service_estimate" where
  "charge_extra_tubing r e extra item price =
     (let unit_label = catalog_pricing_unit (ci_unit_label item) (Some ''metro'')
      in case catalog_item_quantity r (ci_preset_key item) of
           Inl err \<Rightarrow> Inl err
         | Inr explicit \<Rightarrow>
             (case (se_price e, catalog_charge_quantity unit_label (Some extra) explicit) of
                (None, _) \<Rightarrow>
                  Inr (e\<lparr>se_human_quote := True, se_qualifier := text_base_missing,
                         se_rules := se_rules e @ [''base_price_required_for_extra_tubing'']\<rparr>)
              | (Some base, None) \<Rightarrow>
                  Inr (e\<lparr>se_price := Some base, se_pricing_type := Estimated,
                         se_human_quote := False, se_qualifier := text_quantity_later,
                         se_rules := se_rules e @
                           [''extra_tubing_meters:'' @ dec_str extra,
                            ''extra_tubing_unit:'' @ unit_label,
                            ''extra_tubing_quantity_unconfirmed:'' @ unit_label]\<rparr>)
              | (Some base, Some Infinite) \<Rightarrow> Inl InvalidOperation
              | (Some base, Some (Amount q)) \<Rightarrow>
                  (let additional = quantize_cents (dec_mul q price)
                   in Inr (e\<lparr>se_price := Some (dec_add base additional),
                             se_pricing_type := Estimated,
                             se_qualifier := ''estimated_with_extra_tubing'',
                             se_rules := se_rules e @
                               [''extra_tubing_meters:'' @ dec_str extra,
                                ''extra_tubing_unit:'' @ unit_label,
                                ''extra_tubing_charge_quantity:'' @ dec_str q,
                                ''extra_tubing_price:'' @ dec_str additional]\<rparr>))))"

text \<open>The branch for an item that is missing or has no price.\<close>

definition tubing_unpriced :: "service_estimate \<Rightarrow> decimal \<Rightarrow> service_estimate" where
  "tubing_unpriced e extra =
     (if se_human_quote e then e
      else e\<lparr>se_price := None, se_pricing_type := Estimated, se_human_quote := False,
             se_qualifier := text_material_later,
             se_rules := se_rules e @
               [''extra_tubing_meters:'' @ dec_str extra, ''extra_tubing_price_unconfigured'']\<rparr>)"

definition apply_catalog_additions ::
  "catalog_item list \<Rightarrow> uuid \<Rightarrow> service \<Rightarrow> booking_requirements \<Rightarrow> service_estimate
   \<Rightarrow> booking_error + service_estimate" where
  "apply_catalog_additions items business_id s r e =
     (case (sv_asks_tubing s, sv_included_tubing s) of
        (True, Some included) \<Rightarrow>
          (case br_tubing_meters r of
             None \<Rightarrow>
               if se_human_quote e then Inr e
               else Inr (e\<lparr>se_pricing_type :=
                             (if se_price e \<noteq> None then Estimated else se_pricing_type e),
                           se_human_quote := False, se_qualifier := text_tubing_unknown,
                           se_rules := se_rules e @ [''tubing_length_unknown'']\<rparr>)
           | Some meters \<Rightarrow>
               (let extra = dec_sub meters included
                in if dec_le extra dec_zero then Inr e
                   else case extra_tubing_item items business_id of
                     Some item \<Rightarrow>
                       (case ci_price item of
                          Some price \<Rightarrow> charge_extra_tubing r e extra item price
                        | None \<Rightarrow> Inr (tubing_unpriced e extra))
                   | None \<Rightarrow> Inr (tubing_unpriced e extra)))
      | _ \<Rightarrow> Inr e)"

section \<open>Travel to the customer\<close>

type_synonym travel_provider = "travel_origin \<Rightarrow> service_address \<Rightarrow> booking_error + travel_estimate"

definition zero_travel_estimate :: travel_estimate where
  "zero_travel_estimate =
     \<lparr>te_minutes = 0, te_distance_km = None, te_source = ''not_required'',
      te_method = ''no_travel'', te_estimated = False, te_within_area = True,
      te_available = True, te_origin_precise = False\<rparr>"

definition travel_configuration_of :: "business \<Rightarrow> travel_configuration" where
  "travel_configuration_of b =
     \<lparr>tc_fallback_minutes = bz_default_travel_minutes b,
      tc_fallback_allowed = bz_fallback_allowed b, tc_region_rules = bz_region_rules b\<rparr>"

text \<open>The operational origin; the constructors of the block raise \<open>ValueError\<close>.\<close>

definition operational_origin :: "business \<Rightarrow> booking_error + travel_origin" where
  "operational_origin b =
     (case bz_origin_address b of
        None \<Rightarrow> Inl (ValueError ''Operational origin is not configured'')
      | Some [] \<Rightarrow> Inl (ValueError ''Operational origin is not configured'')
      | Some a \<Rightarrow>
          mk_travel_origin
            \<lparr>to_address = a, to_latitude = bz_origin_latitude b,
             to_longitude = bz_origin_longitude b, to_is_precise = bz_origin_precise b\<rparr>)"

definition origin_unavailable :: travel_origin where
  "origin_unavailable =
     \<lparr>to_address = ''Operational origin unavailable'', to_latitude = None,
      to_longitude = None, to_is_precise = False\<rparr>"

text \<open>The choice of the port, shared by \<open>_build_plan\<close> and \<open>_estimate_travel_leg\<close>.\<close>

definition travel_by_method ::
  "business \<Rightarrow> travel_provider option \<Rightarrow> travel_method \<Rightarrow> travel_origin \<Rightarrow> service_address
   \<Rightarrow> booking_error + travel_estimate" where
  "travel_by_method b provider method og destination =
     (case (method, provider) of
        (Route, Some p) \<Rightarrow>
          (case p og destination of
             Inl e \<Rightarrow> Inl e
           | Inr t \<Rightarrow> Inr (t\<lparr>te_estimated := te_estimated t \<or> \<not> to_is_precise og,
                              te_origin_precise := to_is_precise og\<rparr>))
      | _ \<Rightarrow> configured_port (travel_configuration_of b) og destination)"

definition travel_to_customer ::
  "business \<Rightarrow> travel_provider option \<Rightarrow> service_address \<Rightarrow> booking_error + travel_estimate" where
  "travel_to_customer b provider destination =
     (case operational_origin b of
        Inl _ \<Rightarrow> Inr (unavailable_travel_estimate origin_unavailable)
      | Inr og \<Rightarrow>
          (case configured_checks (travel_configuration_of b) of
             Some _ \<Rightarrow> Inr (unavailable_travel_estimate origin_unavailable)
           | None \<Rightarrow>
               (case effective_travel_method b (provider \<noteq> None) of
                  Inl _ \<Rightarrow> Inr (unavailable_travel_estimate origin_unavailable)
                | Inr method \<Rightarrow>
                    (case same_address_travel_estimate og destination of
                       Some t \<Rightarrow> Inr t
                     | None \<Rightarrow> travel_by_method b provider method og destination))))"

definition estimate_travel_leg ::
  "business \<Rightarrow> travel_provider option \<Rightarrow> travel_origin \<Rightarrow> service_address
   \<Rightarrow> booking_error + travel_estimate" where
  "estimate_travel_leg b provider og destination =
     (case same_address_travel_estimate og destination of
        Some t \<Rightarrow> Inr t
      | None \<Rightarrow>
          (case configured_checks (travel_configuration_of b) of
             Some e \<Rightarrow> Inl e
           | None \<Rightarrow>
               (case effective_travel_method b (provider \<noteq> None) of
                  Inl _ \<Rightarrow> Inr (unavailable_travel_estimate og)
                | Inr method \<Rightarrow> travel_by_method b provider method og destination)))"

section \<open>The plan\<close>

definition fulfillment_type :: "booking_requirements \<Rightarrow> string option" where
  "fulfillment_type r =
     (case dict_get (br_details r) ''fulfillment_type'' of
        Some (PStr s) \<Rightarrow> if s \<in> {''equipment_delivery'', ''equipment_pickup''} then Some s else None
      | _ \<Rightarrow> None)"

definition fulfillment_estimate :: "business \<Rightarrow> string \<Rightarrow> service_estimate" where
  "fulfillment_estimate b kind =
     \<lparr>se_duration = max 15 (if bz_slot_interval b = 0 then 30 else bz_slot_interval b),
      se_price = Some (Dec 0 (-2)), se_pricing_type = Fixed, se_human_quote = False,
      se_rules = [kind], se_qualifier = ''fixed''\<rparr>"

definition configuration_of :: "service \<Rightarrow> service_configuration option" where
  "configuration_of s =
     (case (pricing_type_of (sv_pricing_type s), unknown_access_policy_of (sv_unknown_policy s)) of
        (Some pt, Some policy) \<Rightarrow>
          Some \<lparr>cf_duration = sv_duration s, cf_base_price = sv_base_price s,
            cf_pricing_type = pt, cf_automatic_booking = sv_automatic_booking s,
            cf_included_quantity = sv_included_quantity s,
            cf_unit_duration = sv_unit_duration s, cf_unit_price = sv_unit_price s,
            cf_requires_address = sv_requires_address s,
            cf_requires_quantity = sv_requires_quantity s,
            cf_considers_access = sv_considers_access s,
            cf_difficult_duration = sv_difficult_duration s,
            cf_difficult_price = sv_difficult_price s, cf_unknown_policy = policy,
            cf_margin = sv_margin s\<rparr>
      | _ \<Rightarrow> None)"

definition plan_estimate ::
  "catalog_item list \<Rightarrow> business \<Rightarrow> service \<Rightarrow> booking_requirements
   \<Rightarrow> booking_error + service_estimate" where
  "plan_estimate items b s r =
     (case fulfillment_type r of
        Some kind \<Rightarrow> Inr (fulfillment_estimate b kind)
      | None \<Rightarrow>
          (case configuration_of s of
             None \<Rightarrow> Inl (BookingRequiresHandoff ''Invalid service configuration'')
           | Some c \<Rightarrow> apply_catalog_additions items (bz_id b) s r (estimate c r)))"

definition plan_travel ::
  "business \<Rightarrow> travel_provider option \<Rightarrow> booking_requirements \<Rightarrow> service_estimate
   \<Rightarrow> booking_error + travel_estimate" where
  "plan_travel b provider r e =
     (if se_human_quote e then Inr zero_travel_estimate
      else case br_address r of
        None \<Rightarrow> Inr zero_travel_estimate
      | Some destination \<Rightarrow> travel_to_customer b provider destination)"

definition or_decimal :: "decimal option \<Rightarrow> decimal \<Rightarrow> decimal" where
  "or_decimal v d = (case v of Some x \<Rightarrow> x | None \<Rightarrow> d)"

definition included_km :: "business \<Rightarrow> decimal" where
  "included_km b = or_decimal (bz_included_km b) (Dec 1500 (-2))"

definition fee_per_km :: "business \<Rightarrow> decimal" where
  "fee_per_km b = or_decimal (bz_fee_per_km b) (Dec 240 (-2))"

definition excess_km :: "business \<Rightarrow> decimal \<Rightarrow> decimal" where
  "excess_km b distance = dec_max dec_zero (dec_sub distance (included_km b))"

definition distance_fee :: "business \<Rightarrow> decimal \<Rightarrow> decimal" where
  "distance_fee b distance = quantize_cents (dec_mul (excess_km b distance) (fee_per_km b))"

text \<open>The fee for a distance beyond the included one, and whether the radius is left.\<close>

definition charge_distance ::
  "business \<Rightarrow> bool \<Rightarrow> travel_estimate \<Rightarrow> service_estimate \<Rightarrow> service_estimate \<times> bool" where
  "charge_distance b is_fulfillment t e =
     (case (is_fulfillment, te_distance_km t) of
        (False, Some distance) \<Rightarrow>
          (let outside = (case bz_radius_km b of Some radius \<Rightarrow> dec_less radius distance | None \<Rightarrow> False);
               fee = distance_fee b distance
           in (case se_price e of
                 Some p \<Rightarrow>
                   if dec_less dec_zero (excess_km b distance) \<and> dec_less dec_zero (fee_per_km b) then
                     e\<lparr>se_price := Some (dec_add p fee),
                       se_pricing_type := (if se_pricing_type e = Fixed then Estimated else se_pricing_type e),
                       se_qualifier := ''Valor estimado com adicional de deslocamento.'',
                       se_rules := se_rules e @
                         [''service_distance_km:'' @ dec_str distance,
                          ''service_distance_excess_km:'' @ dec_str (excess_km b distance),
                          ''service_distance_fee:'' @ dec_str fee]\<rparr>
                   else e
               | None \<Rightarrow> e, outside))
      | _ \<Rightarrow> (e, False))"

definition charge_delivery ::
  "business \<Rightarrow> booking_requirements \<Rightarrow> travel_estimate \<Rightarrow> service_estimate
   \<Rightarrow> service_estimate \<times> bool" where
  "charge_delivery b r t e =
     (if fulfillment_type r = Some ''equipment_delivery'' then
        (case (if te_method t = ''same_address'' then Some dec_zero else te_distance_km t) of
           None \<Rightarrow> (e, True)
         | Some distance \<Rightarrow>
             (e\<lparr>se_price := Some (quantize_cents (dec_mul distance
                               (or_decimal (bz_delivery_fee_per_km b) (Dec 240 (-2))))),
                se_rules := se_rules e @ [''equipment_delivery_fee_per_km'']\<rparr>, False))
      else (e, False))"

definition handoff_reason :: "service_estimate \<Rightarrow> travel_estimate \<Rightarrow> bool \<Rightarrow> bool \<Rightarrow> string option" where
  "handoff_reason e t outside no_distance =
     (if se_human_quote e then Some ''service_estimate_requires_human_quote''
      else if \<not> te_available t then Some ''travel_estimate_unavailable''
      else if \<not> te_within_area t \<or> outside then Some ''address_outside_service_area''
      else if no_distance then Some ''delivery_distance_unavailable''
      else None)"

definition interval_before :: "int \<Rightarrow> int" where "interval_before i = i div 2"

definition interval_after :: "int \<Rightarrow> int" where "interval_after i = i - i div 2"

definition build_plan ::
  "travel_provider option \<Rightarrow> catalog_item list \<Rightarrow> business \<Rightarrow> service \<Rightarrow> booking_requirements
   \<Rightarrow> booking_error + booking_plan" where
  "build_plan provider items b s r =
     (case plan_estimate items b s r of
        Inl err \<Rightarrow> Inl err
      | Inr e0 \<Rightarrow>
          (case plan_travel b provider r e0 of
             Inl err \<Rightarrow> Inl err
           | Inr t \<Rightarrow>
               (let (e1, outside) = charge_distance b (fulfillment_type r \<noteq> None) t e0;
                    (e, no_distance) = charge_delivery b r t e1;
                    (prep, fin, intv) = operational_buffers b r e
                in mk_booking_plan
                     \<lparr>bp_service = e, bp_travel = t,
                      bp_before = te_minutes t + bz_before_buffer b + prep + interval_before intv,
                      bp_after = te_minutes t + bz_after_buffer b + fin + interval_after intv,
                      bp_handoff = (se_human_quote e \<or> \<not> te_available t \<or> \<not> te_within_area t
                                    \<or> outside \<or> no_distance),
                      bp_reason = handoff_reason e t outside no_distance\<rparr>)))"

definition require_automatic_plan :: "booking_plan \<Rightarrow> booking_error + unit" where
  "require_automatic_plan p =
     (if bp_handoff p then
        Inl (BookingRequiresHandoff (case bp_reason p of
               Some s \<Rightarrow> if s = [] then ''Booking requires human assistance'' else s
             | None \<Rightarrow> ''Booking requires human assistance''))
      else Inr ())"

section \<open>What the table checks guarantee\<close>

definition service_row_ok :: "service \<Rightarrow> bool" where
  "service_row_ok s \<longleftrightarrow>
     0 < sv_duration s \<and> 0 < sv_included_quantity s \<and> 0 \<le> sv_unit_duration s
     \<and> 0 \<le> sv_difficult_duration s \<and> 0 \<le> sv_margin s
     \<and> 0 \<le> opt_dval (sv_unit_price s) \<and> 0 \<le> opt_dval (sv_difficult_price s)"

definition business_row_ok :: "business \<Rightarrow> bool" where
  "business_row_ok b \<longleftrightarrow>
     0 < bz_slot_interval b \<and> 0 \<le> bz_before_buffer b \<and> 0 \<le> bz_after_buffer b
     \<and> configured_nonneg b"

lemma configuration_of_ok:
  "service_row_ok s \<Longrightarrow> configuration_of s = Some c \<Longrightarrow> configuration_ok c"
  by (auto simp: configuration_of_def service_row_ok_def configuration_ok_def split: option.splits)

lemma charge_extra_tubing_duration:
  "charge_extra_tubing r e x i p = Inr e' \<Longrightarrow> se_duration e' = se_duration e"
  by (auto simp: charge_extra_tubing_def Let_def split: sum.splits option.splits charge.splits)

lemma apply_catalog_duration:
  "apply_catalog_additions items bid s r e = Inr e' \<Longrightarrow> se_duration e' = se_duration e"
  by (auto simp: apply_catalog_additions_def tubing_unpriced_def Let_def
      dest!: charge_extra_tubing_duration split: bool.splits option.splits if_splits)

lemma plan_estimate_duration_pos:
  assumes "service_row_ok s" "plan_estimate items b s r = Inr e"
  shows "0 < se_duration e"
proof (cases "fulfillment_type r")
  case None
  then obtain c where c: "configuration_of s = Some c"
    "apply_catalog_additions items (bz_id b) s r (estimate c r) = Inr e"
    using assms(2) by (auto simp: plan_estimate_def split: option.splits)
  then show ?thesis
    using apply_catalog_duration [OF c(2)] estimate_duration_pos configuration_of_ok [OF assms(1)]
    by simp
next
  case (Some k)
  with assms(2) show ?thesis
    by (auto simp: plan_estimate_def fulfillment_estimate_def)
qed

lemma charge_distance_keeps:
  "se_duration (fst (charge_distance b f t e)) = se_duration e"
  "se_human_quote (fst (charge_distance b f t e)) = se_human_quote e"
  by (auto simp: charge_distance_def Let_def split: bool.splits option.splits)

lemma charge_delivery_keeps:
  "se_duration (fst (charge_delivery b r t e)) = se_duration e"
  "se_human_quote (fst (charge_delivery b r t e)) = se_human_quote e"
  by (auto simp: charge_delivery_def split: option.splits)

text \<open>The pieces of a plan that was built.\<close>

lemma build_planE:
  assumes "build_plan provider items b s r = Inr p"
  obtains e0 t e1 outside e no_distance prep fin intv where
    "plan_estimate items b s r = Inr e0" "plan_travel b provider r e0 = Inr t"
    "charge_distance b (fulfillment_type r \<noteq> None) t e0 = (e1, outside)"
    "charge_delivery b r t e1 = (e, no_distance)"
    "operational_buffers b r e = (prep, fin, intv)"
    "p = \<lparr>bp_service = e, bp_travel = t,
          bp_before = te_minutes t + bz_before_buffer b + prep + interval_before intv,
          bp_after = te_minutes t + bz_after_buffer b + fin + interval_after intv,
          bp_handoff = (se_human_quote e \<or> \<not> te_available t \<or> \<not> te_within_area t
                        \<or> outside \<or> no_distance),
          bp_reason = handoff_reason e t outside no_distance\<rparr>"
  using assms
  by (auto simp: build_plan_def Let_def mk_booking_plan_def
      split: sum.splits prod.splits if_splits)

lemma build_plan_nonneg: "build_plan provider items b s r = Inr p \<Longrightarrow> 0 \<le> bp_before p \<and> 0 \<le> bp_after p"
  by (auto simp: build_plan_def Let_def mk_booking_plan_def
      split: sum.splits prod.splits if_splits)

lemma build_plan_duration_pos:
  assumes "service_row_ok s" "build_plan provider items b s r = Inr p"
  shows "0 < se_duration (bp_service p)"
proof -
  from assms(2) obtain e0 t e1 o1 e n1 where
    "plan_estimate items b s r = Inr e0"
    "charge_distance b (fulfillment_type r \<noteq> None) t e0 = (e1, o1)"
    "charge_delivery b r t e1 = (e, n1)" "bp_service p = e"
    by (elim build_planE) auto
  then show ?thesis
    using plan_estimate_duration_pos [OF assms(1)] charge_distance_keeps(1) charge_delivery_keeps(1)
    by (metis fst_conv)
qed

text \<open>
  A plan is automatic only when nothing calls for a person: the price is not a human
  quote, travel is known, the address is inside the area the business serves and inside
  its radius, and the reason for a handoff is recorded exactly when one is needed.
\<close>

theorem automatic_plan_safe:
  assumes "build_plan provider items b s r = Inr p"
  shows "(bp_handoff p \<longleftrightarrow> bp_reason p \<noteq> None)
    \<and> (\<not> bp_handoff p \<longrightarrow>
        \<not> se_human_quote (bp_service p) \<and> te_available (bp_travel p)
        \<and> te_within_area (bp_travel p)
        \<and> (fulfillment_type r = None \<longrightarrow>
             (\<forall>distance radius. te_distance_km (bp_travel p) = Some distance \<longrightarrow>
                bz_radius_km b = Some radius \<longrightarrow> dval distance \<le> dval radius)))"
  using assms
proof (elim build_planE)
  fix e0 t e1 outside e no_distance prep fin intv
  assume c: "charge_distance b (fulfillment_type r \<noteq> None) t e0 = (e1, outside)"
    and p: "p = \<lparr>bp_service = e, bp_travel = t,
          bp_before = te_minutes t + bz_before_buffer b + prep + interval_before intv,
          bp_after = te_minutes t + bz_after_buffer b + fin + interval_after intv,
          bp_handoff = (se_human_quote e \<or> \<not> te_available t \<or> \<not> te_within_area t
                        \<or> outside \<or> no_distance),
          bp_reason = handoff_reason e t outside no_distance\<rparr>"
  have "\<not> outside \<Longrightarrow> fulfillment_type r = None \<Longrightarrow> te_distance_km t = Some distance \<Longrightarrow>
      bz_radius_km b = Some radius \<Longrightarrow> dval distance \<le> dval radius" for distance radius
    using c by (auto simp: charge_distance_def Let_def)
  then show ?thesis by (auto simp: p handoff_reason_def)
qed

text \<open>
  The distance fee: an address within the included distance adds nothing to the price;
  beyond it the price grows by the excess times the fee, rounded to the nearest cent.
\<close>

theorem distance_fee_correct:
  assumes "te_distance_km t = Some distance" and "se_price e = Some p"
    and "0 < coef (fee_per_km b)"
  shows "\<exists>p'. se_price (fst (charge_distance b False t e)) = Some p'
    \<and> (dval distance \<le> dval (included_km b) \<longrightarrow> p' = p)
    \<and> \<bar>dval p' - dval p - max 0 (dval distance - dval (included_km b)) * dval (fee_per_km b)\<bar> \<le> 1 / 200
    \<and> dval p \<le> dval p'"
proof -
  have err: "\<bar>dval (distance_fee b distance)
      - max 0 (dval distance - dval (included_km b)) * dval (fee_per_km b)\<bar> \<le> 1 / 200"
    using quantize_error [of "dec_mul (excess_km b distance) (fee_per_km b)"]
    by (simp add: distance_fee_def excess_km_def)
  have fee: "0 \<le> coef (distance_fee b distance)" if "0 < coef (excess_km b distance)"
    using that assms(3) by (auto simp: distance_fee_def dec_mul_def intro!: quantize_nonneg)
  show ?thesis
    using assms err fee
    by (auto simp: charge_distance_def Let_def excess_km_def max_def dec_max_def
        split: if_splits simp flip: dval_pos dval_nonneg)
qed

definition sample_trip :: travel_estimate where
  "sample_trip = zero_travel_estimate\<lparr>te_distance_km := Some (Dec 2000 (-2))\<rparr>"

theorem distance_fee_correct_witness:
  "\<exists>p'. se_price (fst (charge_distance sample_business False sample_trip
      (fulfillment_estimate sample_business ''kind''))) = Some p' \<and> \<bar>dval p' - 12\<bar> \<le> 1 / 200"
proof -
  have v: "dval (included_km sample_business) = 15" "dval (fee_per_km sample_business) = 12 / 5"
    "dval (Dec 2000 (-2)) = 20" "dval (Dec 0 (-2)) = 0"
    by (simp_all add: included_km_def fee_per_km_def or_decimal_def sample_business_def dval_def)
  have a: "te_distance_km sample_trip = Some (Dec 2000 (-2))" by (simp add: sample_trip_def)
  have b: "se_price (fulfillment_estimate sample_business ''kind'') = Some (Dec 0 (-2))"
    by (simp add: fulfillment_estimate_def)
  have c: "0 < coef (fee_per_km sample_business)"
    by (simp add: fee_per_km_def or_decimal_def sample_business_def)
  obtain p' where p': "se_price (fst (charge_distance sample_business False sample_trip
      (fulfillment_estimate sample_business ''kind''))) = Some p'"
    and err: "\<bar>dval p' - dval (Dec 0 (-2)) - max 0 (dval (Dec 2000 (-2)) - dval (included_km sample_business))
      * dval (fee_per_km sample_business)\<bar> \<le> 1 / 200"
    using distance_fee_correct [OF a b c] by blast
  have "max 0 (20 - 15) * (12 / 5) = (12 :: rat)" by simp
  with err have "\<bar>dval p' - 12\<bar> \<le> 1 / 200" unfolding v by (simp only: diff_zero)
  with p' show ?thesis by blast
qed

end
