(* ===== verification/Availability.thy ===== *)
theory Availability
  imports Planning "HOL-Library.Product_Lexorder"
begin

text \<open>
  Which times the agenda offers: capacity, operating hours, holidays, slots, travel between
  adjacent appointments and conflicts (\<open>_available_starts\<close> and what it calls in
  \<open>app/booking/availability.py\<close>), and the two listings built on it. The database is a
  record of tables; a query is a filter over the rows in the order the query gives.
\<close>

section \<open>The database\<close>

record notification =
  nt_business :: uuid
  nt_appointment :: uuid
  nt_event :: string
  nt_read_at :: "instant option"

record push_event =
  pe_business :: uuid
  pe_key :: string
  pe_type :: string
  pe_path :: string

record outreach =
  or_id :: uuid
  or_business :: uuid
  or_customer :: uuid
  or_type :: string
  or_status :: string
  or_result :: "uuid option"

record booking_db =
  db_businesses :: "business list"
  db_services :: "service list"
  db_catalog :: "catalog_item list"
  db_employees :: "employee list"
  db_employee_services :: "employee_service list"
  db_hours :: "working_hours list"
  db_blocks :: "schedule_block list"
  db_appointments :: "appointment list"
  db_notifications :: "notification list"
  db_push_events :: "push_event list"
  db_outreach :: "outreach list"

text \<open>The zone database: \<open>None\<close> is \<open>ZoneInfoNotFoundError\<close>.\<close>

type_synonym zones = "string \<Rightarrow> zone option"

definition timezone_of :: "zones \<Rightarrow> string \<Rightarrow> booking_error + zone" where
  "timezone_of zs name =
     (case zs name of
        None \<Rightarrow> Inl (BookingRequiresHandoff ''Invalid business timezone'')
      | Some z \<Rightarrow> Inr z)"

definition load_business_service ::
  "booking_db \<Rightarrow> uuid \<Rightarrow> uuid \<Rightarrow> booking_error + (business \<times> service)" where
  "load_business_service db bid sid =
     (case first [(b, s). b \<leftarrow> db_businesses db, s \<leftarrow> db_services db,
                   sv_business s = bz_id b \<and> bz_id b = bid \<and> bz_active b
                   \<and> sv_id s = sid \<and> sv_active s] of
        None \<Rightarrow> Inl (BookingRequiresHandoff ''Service is unavailable'')
      | Some bs \<Rightarrow> Inr bs)"

definition eligible_employees :: "booking_db \<Rightarrow> uuid \<Rightarrow> uuid \<Rightarrow> uuid list" where
  "eligible_employees db bid sid =
     sort [em_id e. e \<leftarrow> db_employees db, es \<leftarrow> db_employee_services db,
            es_business es = em_business e \<and> es_employee es = em_id e
            \<and> em_business e = bid \<and> em_active e \<and> em_role e = ''technician''
            \<and> es_service es = sid]"

definition require_eligible_employees ::
  "booking_db \<Rightarrow> uuid \<Rightarrow> uuid \<Rightarrow> booking_error + uuid list" where
  "require_eligible_employees db bid sid =
     (let ids = eligible_employees db bid sid
      in if ids = [] then
           Inl (BookingRequiresHandoff ''No active technician is configured for this service'')
         else Inr ids)"

section \<open>Capacity\<close>

record capacity =
  cp_employees :: "uuid list"
  cp_hours :: "working_hours list"
  cp_blocks :: "schedule_block list"
  cp_appointments :: "appointment list"

text \<open>The interval an appointment reserves, travel included.\<close>

definition reserved_start :: "appointment \<Rightarrow> instant" where
  "reserved_start a = ap_starts a - minutes (ap_before a)"

definition reserved_end :: "appointment \<Rightarrow> instant" where
  "reserved_end a = ap_ends a + minutes (ap_after a)"

definition load_capacity ::
  "booking_db \<Rightarrow> uuid \<Rightarrow> uuid \<Rightarrow> instant \<Rightarrow> instant \<Rightarrow> uuid option \<Rightarrow> booking_error + capacity" where
  "load_capacity db bid sid utc_start utc_end exclude =
     (case require_eligible_employees db bid sid of
        Inl e \<Rightarrow> Inl e
      | Inr ids \<Rightarrow>
          Inr \<lparr>cp_employees = ids,
            cp_hours = filter (\<lambda>h. wh_business h = bid \<and> wh_employee h \<in> set ids) (db_hours db),
            cp_blocks = filter (\<lambda>k. sb_business k = bid \<and> sb_employee k \<in> set ids
                                    \<and> sb_starts k < utc_end \<and> utc_start < sb_ends k) (db_blocks db),
            cp_appointments = filter (\<lambda>a. ap_business a = bid \<and> ap_employee a \<in> set ids
                                    \<and> ap_status a = ''confirmed''
                                    \<and> reserved_start a < utc_end \<and> utc_start < reserved_end a
                                    \<and> (case exclude of Some x \<Rightarrow> ap_id a \<noteq> x | None \<Rightarrow> True))
                                (db_appointments db)\<rparr>)"

section \<open>Operating hours\<close>

definition national_holidays :: "(int \<times> int) list" where
  "national_holidays =
     [(1, 1), (4, 21), (5, 1), (9, 7), (10, 12), (11, 2), (11, 15), (11, 20), (12, 25)]"

definition is_national_holiday :: "date \<Rightarrow> bool" where
  "is_national_holiday d = (case ymd_of d of (_, m, day) \<Rightarrow> (m, day) \<in> set national_holidays)"

definition configured_weekdays :: "business \<Rightarrow> int list" where
  "configured_weekdays b = filter (\<lambda>v. 0 \<le> v \<and> v \<le> 4) (bz_weekdays b)"

definition operating_ranges :: "business \<Rightarrow> date \<Rightarrow> capacity \<Rightarrow> (uuid \<times> tod \<times> tod) list" where
  "operating_ranges b d cap =
     (case (configured_weekdays b, bz_weekday_start b, bz_weekday_end b) of
        (_ # _, Some ws, Some we) \<Rightarrow>
          (if 5 \<le> weekday d \<or> is_national_holiday d then
             (case (bz_weekend_enabled b, bz_weekend_start b, bz_weekend_end b) of
                (True, Some s, Some e) \<Rightarrow> map (\<lambda>i. (i, s, e)) (cp_employees cap)
              | _ \<Rightarrow> [])
           else if weekday d \<notin> set (configured_weekdays b) then []
           else map (\<lambda>i. (i, ws, we)) (cp_employees cap))
      | _ \<Rightarrow>
          map (\<lambda>h. (wh_employee h, wh_start h, wh_end h))
            (filter (\<lambda>h. wh_weekday h = weekday d) (cp_hours cap)))"

section \<open>Slots\<close>

definition ceil_to_slot :: "wall \<Rightarrow> int \<Rightarrow> booking_error + wall" where
  "ceil_to_slot v interval =
     (if interval \<le> 0 then Inl (BookingRequiresHandoff ''Invalid slot interval'')
      else
        let midnight = combine (wall_date v) 0;
            slots = - ((- (v - midnight)) div minutes interval)
        in Inr (midnight + minutes (slots * interval)))"

text \<open>The candidates of the inner \<open>while\<close> loop.\<close>

function slot_times :: "wall \<Rightarrow> wall \<Rightarrow> int \<Rightarrow> wall list" where
  "slot_times c latest interval =
     (if 0 < interval \<and> c \<le> latest then c # slot_times (c + minutes interval) latest interval
      else [])"
  by pat_completeness auto
termination
  by (relation "measure (\<lambda>(c, latest, interval). nat (latest - c + 1))")
    (auto simp: minutes_def minute_us_def)

declare slot_times.simps [simp del]

definition overlaps :: "instant \<Rightarrow> instant \<Rightarrow> instant \<Rightarrow> instant \<Rightarrow> bool" where
  "overlaps s1 e1 s2 e2 = (s1 < e2 \<and> s2 < e1)"

definition has_conflict :: "uuid \<Rightarrow> instant \<Rightarrow> instant \<Rightarrow> capacity \<Rightarrow> bool" where
  "has_conflict emp occ_start occ_end cap =
     (list_ex (\<lambda>k. sb_employee k = emp \<and> overlaps occ_start occ_end (sb_starts k) (sb_ends k))
        (cp_blocks cap)
      \<or> list_ex (\<lambda>a. ap_employee a = emp \<and> ap_status a = ''confirmed''
                     \<and> overlaps occ_start occ_end (reserved_start a) (reserved_end a))
          (cp_appointments cap))"

definition within_site_window ::
  "date \<Rightarrow> wall \<Rightarrow> wall \<Rightarrow> tod option \<Rightarrow> tod option \<Rightarrow> bool" where
  "within_site_window d service_start service_end site_start site_end =
     ((case site_start of Some t \<Rightarrow> combine d t \<le> service_start | None \<Rightarrow> True)
      \<and> (case site_end of Some t \<Rightarrow> service_end \<le> combine d t | None \<Rightarrow> True))"

section \<open>Travel between adjacent appointments\<close>

definition origin_at :: "string \<Rightarrow> travel_origin" where
  "origin_at text =
     \<lparr>to_address = text, to_latitude = None, to_longitude = None, to_is_precise = False\<rparr>"

definition appointment_address :: "appointment \<Rightarrow> service_address option" where
  "appointment_address a = (case ap_address a of Some d \<Rightarrow> from_snapshot (PDict d) | None \<Rightarrow> None)"

definition day_appointments ::
  "zone \<Rightarrow> uuid \<Rightarrow> date \<Rightarrow> appointment list \<Rightarrow> appointment list" where
  "day_appointments z emp local_day appts =
     filter (\<lambda>a. ap_employee a = emp \<and> ap_status a = ''confirmed''
                 \<and> wall_date (to_wall z (ap_starts a)) = local_day) appts"

definition leg_before ::
  "business \<Rightarrow> travel_provider option \<Rightarrow> booking_plan \<Rightarrow> service_address \<Rightarrow> appointment option
   \<Rightarrow> booking_error + travel_estimate" where
  "leg_before b provider plan destination previous =
     (case previous of
        None \<Rightarrow> Inr (bp_travel plan)
      | Some a \<Rightarrow>
          (case appointment_address a of
             None \<Rightarrow> Inr (unavailable_travel_estimate (origin_at ''Previous service location unavailable''))
           | Some from \<Rightarrow> estimate_travel_leg b provider (origin_at (searchable_text from)) destination))"

definition leg_after ::
  "business \<Rightarrow> travel_provider option \<Rightarrow> service_address \<Rightarrow> appointment option
   \<Rightarrow> booking_error + travel_estimate" where
  "leg_after b provider destination following =
     (case following of
        None \<Rightarrow> Inr zero_travel_estimate
      | Some a \<Rightarrow>
          (case appointment_address a of
             None \<Rightarrow> Inr (unavailable_travel_estimate (origin_at (searchable_text destination)))
           | Some target \<Rightarrow> estimate_travel_leg b provider (origin_at (searchable_text destination)) target))"

definition combine_legs :: "travel_estimate \<Rightarrow> travel_estimate \<Rightarrow> travel_estimate" where
  "combine_legs before after =
     \<lparr>te_minutes = max (te_minutes before) (te_minutes after), te_distance_km = None,
      te_source = te_source before @ ''|'' @ te_source after,
      te_method = te_method before @ ''|'' @ te_method after,
      te_estimated = (te_estimated before \<or> te_estimated after),
      te_within_area = (te_within_area before \<and> te_within_area after),
      te_available = (te_available before \<and> te_available after),
      te_origin_precise = te_origin_precise before\<rparr>"

definition adjacent_plan ::
  "business \<Rightarrow> booking_requirements \<Rightarrow> booking_plan \<Rightarrow> travel_estimate \<Rightarrow> travel_estimate
   \<Rightarrow> booking_error + booking_plan" where
  "adjacent_plan b r plan before after =
     (let (prep, fin, intv) = operational_buffers b r (bp_service plan);
          t = combine_legs before after
      in mk_booking_plan
           \<lparr>bp_service = bp_service plan, bp_travel = t,
            bp_before = te_minutes before + bz_before_buffer b + prep + interval_before intv,
            bp_after = te_minutes after + bz_after_buffer b + fin + interval_after intv,
            bp_handoff = (se_human_quote (bp_service plan) \<or> \<not> te_available t \<or> \<not> te_within_area t),
            bp_reason = (if \<not> te_available t then Some ''travel_estimate_unavailable''
                         else if \<not> te_within_area t then Some ''address_outside_service_area''
                         else bp_reason plan)\<rparr>)"

text \<open>\<open>_schedule_aware_plan\<close>: travel from and to the neighbours of the day.\<close>

definition schedule_aware_plan ::
  "zone \<Rightarrow> business \<Rightarrow> travel_provider option \<Rightarrow> booking_requirements \<Rightarrow> booking_plan
   \<Rightarrow> uuid \<Rightarrow> wall \<Rightarrow> wall \<Rightarrow> appointment list \<Rightarrow> booking_error + booking_plan" where
  "schedule_aware_plan z b provider r plan emp starts_at ends_at appts =
     (case br_address r of
        None \<Rightarrow> Inr plan
      | Some destination \<Rightarrow>
          (let mine = day_appointments z emp (wall_date starts_at) appts;
               previous = max_by ap_ends (filter (\<lambda>a. ap_ends a \<le> to_utc z starts_at) mine);
               following = min_by ap_starts (filter (\<lambda>a. to_utc z ends_at \<le> ap_starts a) mine)
           in case leg_before b provider plan destination previous of
                Inl e \<Rightarrow> Inl e
              | Inr before \<Rightarrow>
                  (case leg_after b provider destination following of
                     Inl e \<Rightarrow> Inl e
                   | Inr after \<Rightarrow> adjacent_plan b r plan before after)))"

section \<open>The offered starts\<close>

text \<open>Concatenate the results of a loop; the first exception ends it.\<close>

fun collect :: "('a \<Rightarrow> 'e + 'b list) \<Rightarrow> 'a list \<Rightarrow> 'e + 'b list" where
  "collect f [] = Inr []"
| "collect f (x # xs) =
     (case f x of
        Inl e \<Rightarrow> Inl e
      | Inr ys \<Rightarrow> (case collect f xs of Inl e \<Rightarrow> Inl e | Inr zs \<Rightarrow> Inr (ys @ zs)))"

type_synonym slot_entry = "uuid \<times> wall \<times> booking_plan"

text \<open>What stays fixed while the slots of a request are enumerated.\<close>

record slot_request =
  sr_zone :: zone
  sr_business :: business
  sr_provider :: "travel_provider option"
  sr_requirements :: booking_requirements
  sr_plan :: booking_plan
  sr_capacity :: capacity
  sr_earliest :: wall

definition service_minutes :: "slot_request \<Rightarrow> int" where
  "service_minutes q = minutes (se_duration (bp_service (sr_plan q)))"

definition occupied_start :: "slot_request \<Rightarrow> wall \<Rightarrow> booking_plan \<Rightarrow> wall" where
  "occupied_start q c p = c - minutes (bp_before p)"

definition occupied_end :: "slot_request \<Rightarrow> wall \<Rightarrow> booking_plan \<Rightarrow> wall" where
  "occupied_end q c p = c + service_minutes q + minutes (bp_after p)"

definition slot_accepted :: "slot_request \<Rightarrow> date \<Rightarrow> uuid \<Rightarrow> wall \<Rightarrow> booking_plan \<Rightarrow> bool" where
  "slot_accepted q d emp c p \<longleftrightarrow>
     sr_earliest q < c \<and> \<not> bp_handoff p
     \<and> within_site_window d c (c + service_minutes q)
         (br_site_start (sr_requirements q)) (br_site_end (sr_requirements q))
     \<and> \<not> has_conflict emp (to_utc (sr_zone q) (occupied_start q c p))
           (to_utc (sr_zone q) (occupied_end q c p)) (sr_capacity q)"

definition candidate_plan :: "slot_request \<Rightarrow> uuid \<Rightarrow> wall \<Rightarrow> booking_error + booking_plan" where
  "candidate_plan q emp c =
     schedule_aware_plan (sr_zone q) (sr_business q) (sr_provider q) (sr_requirements q)
       (sr_plan q) emp c (c + service_minutes q)
       (cp_appointments (sr_capacity q))"

definition slot_at :: "slot_request \<Rightarrow> date \<Rightarrow> uuid \<Rightarrow> wall \<Rightarrow> booking_error + slot_entry list" where
  "slot_at q d emp c =
     (case candidate_plan q emp c of
        Inl e \<Rightarrow> Inl e
      | Inr p \<Rightarrow> Inr (if slot_accepted q d emp c p then [(emp, c, p)] else []))"

definition latest_service_start :: "slot_request \<Rightarrow> date \<Rightarrow> tod \<Rightarrow> wall" where
  "latest_service_start q d range_end =
     combine d range_end
     - minutes (se_duration (bp_service (sr_plan q)) + bp_after (sr_plan q))"

definition slots_in_range ::
  "slot_request \<Rightarrow> date \<Rightarrow> uuid \<times> tod \<times> tod \<Rightarrow> booking_error + slot_entry list" where
  "slots_in_range q d rng =
     (case rng of (emp, range_start, range_end) \<Rightarrow>
        (case ceil_to_slot (combine d range_start + minutes (bp_before (sr_plan q)))
                (bz_slot_interval (sr_business q)) of
           Inl e \<Rightarrow> Inl e
         | Inr c \<Rightarrow>
             collect (slot_at q d emp)
               (slot_times c (latest_service_start q d range_end)
                  (bz_slot_interval (sr_business q)))))"

definition slots_on :: "slot_request \<Rightarrow> date \<Rightarrow> booking_error + slot_entry list" where
  "slots_on q d = collect (slots_in_range q d) (operating_ranges (sr_business q) d (sr_capacity q))"

definition slot_request_for ::
  "zone \<Rightarrow> travel_provider option \<Rightarrow> instant \<Rightarrow> business \<Rightarrow> booking_requirements \<Rightarrow> booking_plan
   \<Rightarrow> capacity \<Rightarrow> slot_request" where
  "slot_request_for z provider now b r plan cap =
     \<lparr>sr_zone = z, sr_business = b, sr_provider = provider, sr_requirements = r,
      sr_plan = plan, sr_capacity = cap,
      sr_earliest = to_wall z now + minutes (notice_minutes b r (bp_service plan))\<rparr>"

definition available_starts ::
  "zones \<Rightarrow> travel_provider option \<Rightarrow> instant \<Rightarrow> booking_db \<Rightarrow> business \<Rightarrow> service
   \<Rightarrow> booking_requirements \<Rightarrow> booking_plan \<Rightarrow> date \<Rightarrow> date \<Rightarrow> uuid option
   \<Rightarrow> booking_error + slot_entry list" where
  "available_starts zs provider now db b s r plan first_date last_date exclude =
     (case timezone_of zs (bz_timezone b) of
        Inl e \<Rightarrow> Inl e
      | Inr z \<Rightarrow>
          (case load_capacity db (bz_id b) (sv_id s) (to_utc z (combine first_date 0))
                  (to_utc z (combine (last_date + 1) 0)) exclude of
             Inl e \<Rightarrow> Inl e
           | Inr cap \<Rightarrow>
               collect (slots_on (slot_request_for z provider now b r plan cap))
                 [first_date..last_date]))"

text \<open>
  \<open>_candidate_plans\<close> after the loop: keyed by employee and instant, the last entry wins.
\<close>

definition candidate_plan_for ::
  "zone \<Rightarrow> slot_entry list \<Rightarrow> uuid \<Rightarrow> instant \<Rightarrow> booking_plan option" where
  "candidate_plan_for z entries emp u =
     map_of (rev (map (\<lambda>(e, c, p). ((e, to_utc z c), p)) entries)) (emp, u)"

definition travel_total :: "zone \<Rightarrow> slot_entry list \<Rightarrow> wall \<Rightarrow> uuid \<Rightarrow> int" where
  "travel_total z entries c emp =
     (case candidate_plan_for z entries emp (to_utc z c) of
        Some p \<Rightarrow> bp_before p + bp_after p | None \<Rightarrow> 0)"

text \<open>The employees free at a start, least travel first.\<close>

definition employees_at :: "zone \<Rightarrow> slot_entry list \<Rightarrow> wall \<Rightarrow> uuid list" where
  "employees_at z entries c =
     sort_key (\<lambda>e. (travel_total z entries c e, e))
       (dedup (map fst (filter (\<lambda>(e, c', p). c' = c) entries)))"

section \<open>Listing dates and times\<close>

definition horizon_days :: int where "horizon_days = 30"

definition minimum_lead_days :: int where "minimum_lead_days = 3"

definition minimum_bookable_date :: "zone \<Rightarrow> instant \<Rightarrow> date" where
  "minimum_bookable_date z now = wall_date (to_wall z now) + (minimum_lead_days + 1)"

definition weekday_names :: "string list" where
  "weekday_names =
     [''segunda'', ''ter'' @ [CHR 0xE7] @ ''a'', ''quarta'', ''quinta'', ''sexta'',
      ''s'' @ [CHR 0xE1] @ ''bado'', ''domingo'']"

definition month_names :: "string list" where
  "month_names =
     [''janeiro'', ''fevereiro'', ''mar'' @ [CHR 0xE7] @ ''o'', ''abril'', ''maio'', ''junho'',
      ''julho'', ''agosto'', ''setembro'', ''outubro'', ''novembro'', ''dezembro'']"

definition portuguese_date_label :: "date \<Rightarrow> string" where
  "portuguese_date_label d =
     (case ymd_of d of (_, m, day) \<Rightarrow>
        weekday_names ! nat (weekday d) @ '', '' @ str_of_int day @ '' de ''
        @ month_names ! nat (m - 1))"

record booking_option =
  bo_id :: string
  bo_label :: string

definition plan_for ::
  "travel_provider option \<Rightarrow> booking_db \<Rightarrow> business \<Rightarrow> service \<Rightarrow> booking_requirements
   \<Rightarrow> booking_error + booking_plan" where
  "plan_for provider db b s r =
     (case build_plan provider (db_catalog db) b s r of
        Inl e \<Rightarrow> Inl e
      | Inr p \<Rightarrow> (case require_automatic_plan p of Inl e \<Rightarrow> Inl e | Inr _ \<Rightarrow> Inr p))"

definition list_dates ::
  "zones \<Rightarrow> travel_provider option \<Rightarrow> instant \<Rightarrow> booking_db \<Rightarrow> uuid \<Rightarrow> uuid
   \<Rightarrow> booking_requirements \<Rightarrow> booking_error + booking_option list" where
  "list_dates zs provider now db bid sid r =
     (case load_business_service db bid sid of
        Inl e \<Rightarrow> Inl e
      | Inr (b, s) \<Rightarrow>
          (case plan_for provider db b s r of
             Inl e \<Rightarrow> Inl e
           | Inr plan \<Rightarrow>
               (case timezone_of zs (bz_timezone b) of
                  Inl e \<Rightarrow> Inl e
                | Inr z \<Rightarrow>
                    (let first_date = minimum_bookable_date z now
                     in case available_starts zs provider now db b s r plan first_date
                               (first_date + (horizon_days - 1)) None of
                          Inl e \<Rightarrow> Inl e
                        | Inr entries \<Rightarrow>
                            Inr (map (\<lambda>d. \<lparr>bo_id = iso_date d, bo_label = portuguese_date_label d\<rparr>)
                              (sort (dedup (map (\<lambda>(e, c, p). wall_date c) entries))))))))"

definition parse_date :: "string \<Rightarrow> booking_error + date" where
  "parse_date t =
     (case parse_iso_date t of Some d \<Rightarrow> Inr d | None \<Rightarrow> Inl (SlotUnavailable ''Invalid date''))"

definition parse_time :: "string \<Rightarrow> booking_error + tod" where
  "parse_time t =
     (case parse_hm t of Some v \<Rightarrow> Inr v | None \<Rightarrow> Inl (SlotUnavailable ''Invalid time''))"

definition list_times ::
  "zones \<Rightarrow> travel_provider option \<Rightarrow> instant \<Rightarrow> booking_db \<Rightarrow> uuid \<Rightarrow> uuid \<Rightarrow> string
   \<Rightarrow> booking_requirements \<Rightarrow> booking_error + booking_option list" where
  "list_times zs provider now db bid sid selected r =
     (case parse_date selected of
        Inl e \<Rightarrow> Inl e
      | Inr d \<Rightarrow>
          (case load_business_service db bid sid of
             Inl e \<Rightarrow> Inl e
           | Inr (b, s) \<Rightarrow>
               (case timezone_of zs (bz_timezone b) of
                  Inl e \<Rightarrow> Inl e
                | Inr z \<Rightarrow>
                    if d < minimum_bookable_date z now then Inr []
                    else
                      (case plan_for provider db b s r of
                         Inl e \<Rightarrow> Inl e
                       | Inr plan \<Rightarrow>
                           (case available_starts zs provider now db b s r plan d d None of
                              Inl e \<Rightarrow> Inl e
                            | Inr entries \<Rightarrow>
                                Inr (map (\<lambda>t. \<lparr>bo_id = t, bo_label = t\<rparr>)
                                  (sort (dedup (map (\<lambda>(e, c, p). hm_text (wall_tod c)) entries)))))))))"

definition employees_for_exact_start ::
  "zones \<Rightarrow> travel_provider option \<Rightarrow> instant \<Rightarrow> booking_db \<Rightarrow> business \<Rightarrow> service
   \<Rightarrow> booking_requirements \<Rightarrow> booking_plan \<Rightarrow> date \<Rightarrow> tod \<Rightarrow> uuid option
   \<Rightarrow> booking_error + (uuid list \<times> instant \<times> slot_entry list)" where
  "employees_for_exact_start zs provider now db b s r plan d t exclude =
     (case available_starts zs provider now db b s r plan d d exclude of
        Inl e \<Rightarrow> Inl e
      | Inr entries \<Rightarrow>
          (case timezone_of zs (bz_timezone b) of
             Inl e \<Rightarrow> Inl e
           | Inr z \<Rightarrow>
               (let ids = employees_at z entries (combine d t)
                in if ids = [] then Inl (SlotUnavailable ''Selected slot is unavailable'')
                   else Inr (ids, to_utc z (combine d t), entries))))"

end
