(* ===== verification/Samples.thy ===== *)
theory Samples
  imports Availability
begin

text \<open>
  A small shop on which the properties of the agenda are applied: one technician who works on
  Mondays, one confirmed service with an address and one block of the agenda.
\<close>

definition sample_shop :: business where
  "sample_shop = sample_business\<lparr>bz_slot_interval := 120, bz_weekdays := []\<rparr>"

definition sample_service :: service where
  "sample_service =
     \<lparr>sv_id = 5, sv_business = 1, sv_name = ''Limpeza'', sv_active = True, sv_duration = 60,
      sv_base_price = Some (Dec 18000 (-2)), sv_pricing_type = ''fixed'',
      sv_automatic_booking = True, sv_included_quantity = 1, sv_unit_duration = 30,
      sv_unit_price = None, sv_requires_address = False, sv_requires_quantity = False,
      sv_considers_access = False, sv_difficult_duration = 0, sv_difficult_price = None,
      sv_unknown_policy = ''standard'', sv_margin = 0, sv_asks_site_limit = False,
      sv_asks_tubing = False, sv_included_tubing = None, sv_examples = []\<rparr>"

text \<open>Monday 9 March 2026, the first Monday that can be booked on the 2nd.\<close>

definition sample_zone :: zone where "sample_zone = fixed_zone (- 180)"

definition sample_zones :: zones where
  "sample_zones name = (if name = ''America/Sao_Paulo'' then Some sample_zone else None)"

definition sample_monday :: date where "sample_monday = 739684"

definition sample_now :: instant where
  "sample_now = to_utc sample_zone (combine (sample_monday - 7) (minutes 600))"

definition sample_customer_address :: pydict where
  "sample_customer_address = [(''address_line'', PStr ''Rua B 20''), (''city'', PStr ''Campinas'')]"

definition sample_appointment :: appointment where
  "sample_appointment =
     \<lparr>ap_id = 100, ap_business = 1, ap_customer = 40, ap_service = 5, ap_employee = 7,
      ap_starts = to_utc sample_zone (combine sample_monday (minutes 660)),
      ap_ends = to_utc sample_zone (combine sample_monday (minutes 720)),
      ap_status = ''confirmed'', ap_address = Some sample_customer_address, ap_quantity = 1,
      ap_tubing_meters = None, ap_access = ''normal'', ap_duration = 60, ap_before = 20,
      ap_after = 20, ap_price = Some (Dec 18000 (-2)), ap_pricing_type = ''fixed'',
      ap_details = [], ap_site_end = None, ap_idempotency_key = Some ''conversa-1''\<rparr>"

definition sample_db :: booking_db where
  "sample_db =
     \<lparr>db_businesses = [sample_shop], db_services = [sample_service], db_catalog = [],
      db_employees = [\<lparr>em_id = 7, em_business = 1, em_active = True, em_role = ''technician''\<rparr>],
      db_employee_services = [\<lparr>es_business = 1, es_employee = 7, es_service = 5\<rparr>],
      db_hours = [\<lparr>wh_business = 1, wh_employee = 7, wh_weekday = 0, wh_start = minutes 480,
                    wh_end = minutes 1080\<rparr>],
      db_blocks = [\<lparr>sb_business = 1, sb_employee = 7,
                     sb_starts = to_utc sample_zone (combine sample_monday (minutes 1020)),
                     sb_ends = to_utc sample_zone (combine sample_monday (minutes 1080))\<rparr>],
      db_appointments = [sample_appointment], db_notifications = [], db_push_events = [],
      db_outreach = []\<rparr>"

definition sample_request :: booking_requirements where
  "sample_request =
     \<lparr>br_quantity = Some 1, br_access = Normal,
      br_address = None,
      br_site_start = None, br_site_end = None, br_tubing_meters = None, br_details = [],
      br_idempotency_key = Some ''conversa-2''\<rparr>"

definition sample_plan :: booking_plan where
  "sample_plan =
     \<lparr>bp_service = \<lparr>se_duration = 60, se_price = Some (Dec 18000 (-2)), se_pricing_type = Fixed,
        se_human_quote = False, se_rules = [''base_duration''], se_qualifier = ''fixed''\<rparr>,
      bp_travel = zero_travel_estimate, bp_before = 10, bp_after = 11, bp_handoff = False,
      bp_reason = None\<rparr>"

definition sample_start :: wall where
  "sample_start = combine sample_monday (minutes 840)"

lemma sample_timezone: "timezone_of sample_zones (bz_timezone sample_shop) = Inr sample_zone"
  by (simp add: timezone_of_def sample_zones_def sample_shop_def sample_business_def)

lemma sample_steady [simp]: "steady sample_zone"
  by (simp add: sample_zone_def)

lemma sample_plan_built: "build_plan None [] sample_shop sample_service sample_request = Inr sample_plan"
  by code_simp

lemma sample_starts:
  "available_starts sample_zones None sample_now sample_db sample_shop sample_service sample_request
     sample_plan sample_monday sample_monday None
   = Inr [(7, sample_start, sample_plan)]"
  by code_simp

lemma sample_times:
  "list_times sample_zones None sample_now sample_db 1 5 ''2026-03-09'' sample_request
   = Inr [\<lparr>bo_id = ''14:00'', bo_label = ''14:00''\<rparr>]"
  by code_simp

lemma sample_service_loaded: "load_business_service sample_db 1 5 = Inr (sample_shop, sample_service)"
  by code_simp

lemma sample_service_ok: "service_row_ok sample_service"
  by (simp add: service_row_ok_def sample_service_def opt_dval_def)

lemma sample_dates:
  "list_dates sample_zones None sample_now sample_db 1 5 sample_request
   = Inr (map (\<lambda>d. \<lparr>bo_id = iso_date d, bo_label = portuguese_date_label d\<rparr>)
       [sample_monday, sample_monday + 7, sample_monday + 14, sample_monday + 21])"
  by code_simp

theorem automatic_plan_safe_witness:
  "\<not> se_human_quote (bp_service sample_plan) \<and> te_available (bp_travel sample_plan)"
  using automatic_plan_safe [OF sample_plan_built] by (simp add: sample_plan_def)

end
