(* ===== verification/Offers.thy ===== *)
theory Offers
  imports Samples
begin

text \<open>
  What the enumeration of starts promises: exactly the starts of the grid that fit the
  operating hours and pass the guards are offered, none of them collides with a confirmed
  appointment, and whatever a listing shows can be parsed back and chosen.
\<close>

section \<open>The loops\<close>

lemma collect_Inr:
  "collect f xs = Inr zs \<Longrightarrow>
     (\<forall>x \<in> set xs. \<exists>ys. f x = Inr ys) \<and> (\<forall>z. z \<in> set zs \<longleftrightarrow> (\<exists>x \<in> set xs. \<exists>ys. f x = Inr ys \<and> z \<in> set ys))"
proof (induction xs arbitrary: zs)
  case (Cons x xs)
  then show ?case by (fastforce split: sum.splits)
qed simp

lemma collect_mem:
  "collect f xs = Inr zs \<Longrightarrow> z \<in> set zs \<longleftrightarrow> (\<exists>x \<in> set xs. \<exists>ys. f x = Inr ys \<and> z \<in> set ys)"
  using collect_Inr by blast

lemma collect_char:
  assumes "collect f xs = Inr zs"
    and "\<And>x ys. x \<in> set xs \<Longrightarrow> f x = Inr ys \<Longrightarrow> z \<in> set ys \<longleftrightarrow> P x"
  shows "z \<in> set zs \<longleftrightarrow> (\<exists>x \<in> set xs. P x)"
  unfolding collect_mem [OF assms(1)] using collect_Inr [OF assms(1)] assms(2) by blast

lemma collect_cong_set:
  "(\<And>x. x \<in> set xs \<Longrightarrow> f x = g x) \<Longrightarrow> collect f xs = collect g xs"
  by (induction xs) (auto split: sum.splits)

lemma set_slot_times:
  "0 < i \<Longrightarrow> c' \<in> set (slot_times c l i) \<longleftrightarrow> c \<le> c' \<and> c' \<le> l \<and> (c' - c) mod minutes i = 0"
proof (induction c l i rule: slot_times.induct)
  case (1 c l i)
  have m: "0 < minutes i" using 1(2) by simp
  show ?case
  proof (cases "c \<le> l")
    case True
    then have ih: "c' \<in> set (slot_times (c + minutes i) l i) \<longleftrightarrow>
        c + minutes i \<le> c' \<and> c' \<le> l \<and> (c' - (c + minutes i)) mod minutes i = 0"
      using 1 by simp
    have shift: "(c' - (c + minutes i)) mod minutes i = (c' - c) mod minutes i"
      by (metis diff_diff_eq minus_mod_self2)
    have low: "c + minutes i \<le> c'" if "(c' - c) mod minutes i = 0" "c < c'"
    proof -
      have "minutes i dvd c' - c" using that(1) by auto
      then show ?thesis using that(2) zdvd_imp_le [of "minutes i" "c' - c"] by simp
    qed
    have "c' \<in> set (slot_times c l i) \<longleftrightarrow> c' = c \<or> c' \<in> set (slot_times (c + minutes i) l i)"
      using True 1(2) by (subst slot_times.simps) simp
    moreover have "c \<le> c'" if "c + minutes i \<le> c'" using that m by linarith
    ultimately show ?thesis
      unfolding ih shift using low True by (metis diff_self le_less mod_0)
  qed (subst slot_times.simps, auto)
qed

lemma ceil_to_slot_props:
  assumes "ceil_to_slot v i = Inr c"
  shows "0 < i" "v \<le> c" "c < v + minutes i" "(c - combine (wall_date v) 0) mod minutes i = 0"
proof -
  define m where "m = minutes i"
  define x where "x = v - combine (wall_date v) 0"
  show i: "0 < i" using assms by (auto simp: ceil_to_slot_def split: if_splits)
  then have m: "0 < m" by (simp add: m_def)
  have c: "c = combine (wall_date v) 0 + (- ((- x) div m)) * m"
    using assms i by (auto simp: ceil_to_slot_def Let_def m_def x_def minutes_def algebra_simps)
  have d: "(- x) = m * ((- x) div m) + (- x) mod m" by simp
  have r: "0 \<le> (- x) mod m" "(- x) mod m < m" using m by simp_all
  define k r where "k = (- x) div m" and "r = (- x) mod m"
  have "r = - x - m * k" by (simp only: k_def r_def minus_mult_div_eq_mod)
  moreover have "v = combine (wall_date v) 0 + x" by (simp add: x_def)
  moreover have "c = combine (wall_date v) 0 + (- k) * m" using c by (simp add: k_def)
  ultimately have "c - v = r" by (simp add: algebra_simps)
  then have e: "c - v = (- x) mod m" by (simp only: r_def)
  then show "v \<le> c" "c < v + minutes i" using r by (simp_all add: m_def)
  show "(c - combine (wall_date v) 0) mod minutes i = 0" using c by (simp add: m_def)
qed

lemma grid_from_ceil:
  assumes "ceil_to_slot v i = Inr c"
  shows "(c \<le> c' \<and> (c' - c) mod minutes i = 0)
    \<longleftrightarrow> (v \<le> c' \<and> (c' - combine (wall_date v) 0) mod minutes i = 0)"
proof -
  note p = ceil_to_slot_props [OF assms]
  let ?m = "minutes i" and ?o = "combine (wall_date v) 0"
  have o: "?m dvd c - ?o" using p(4) by (simp add: dvd_eq_mod_eq_0)
  have eq: "?m dvd c' - c \<longleftrightarrow> ?m dvd c' - ?o"
    using o dvd_add_right_iff [OF o, of "c' - c"] by simp
  have "c \<le> c'" if "v \<le> c'" "?m dvd c' - c"
  proof (rule ccontr)
    assume "\<not> c \<le> c'"
    then have "?m \<le> c - c'" using that(2) by (intro zdvd_imp_le) (simp_all add: dvd_diff_commute)
    with p(3) that(1) show False by simp
  qed
  with eq p(2) show ?thesis by (auto simp: dvd_eq_mod_eq_0 [symmetric])
qed

section \<open>Exactly the starts that fit are offered\<close>

text \<open>
  The specification of an offered start: it leaves the travel before it inside the range and
  the service and travel after it, lies on the business's grid, and passes the guards.
\<close>

definition slot_offered ::
  "slot_request \<Rightarrow> date \<Rightarrow> uuid \<times> tod \<times> tod \<Rightarrow> wall \<Rightarrow> booking_plan \<Rightarrow> bool" where
  "slot_offered q d rng c p =
     (case rng of (emp, range_start, range_end) \<Rightarrow>
        let opening = combine d range_start + minutes (bp_before (sr_plan q))
        in opening \<le> c
           \<and> c + service_minutes q + minutes (bp_after (sr_plan q)) \<le> combine d range_end
           \<and> (c - combine (wall_date opening) 0) mod minutes (bz_slot_interval (sr_business q)) = 0
           \<and> candidate_plan q emp c = Inr p \<and> slot_accepted q d emp c p)"

lemma slot_at_mem:
  "slot_at q d emp c = Inr ys \<Longrightarrow>
   (e, c', p) \<in> set ys \<longleftrightarrow> e = emp \<and> c' = c \<and> candidate_plan q emp c = Inr p \<and> slot_accepted q d emp c p"
  by (auto simp: slot_at_def split: sum.splits if_splits)

lemma slots_in_range_mem:
  assumes "slots_in_range q d rng = Inr es"
  shows "(e, c, p) \<in> set es \<longleftrightarrow> fst rng = e \<and> slot_offered q d rng c p"
proof -
  obtain emp rs re where r: "rng = (emp, rs, re)" by (cases rng)
  let ?i = "bz_slot_interval (sr_business q)"
  let ?v = "combine d rs + minutes (bp_before (sr_plan q))"
  obtain c0 where c0: "ceil_to_slot ?v ?i = Inr c0"
    and col: "collect (slot_at q d emp) (slot_times c0 (latest_service_start q d re) ?i) = Inr es"
    using assms by (auto simp: slots_in_range_def r split: sum.splits)
  note i = ceil_to_slot_props(1) [OF c0]
  have "(e, c, p) \<in> set es \<longleftrightarrow>
      (\<exists>c' \<in> set (slot_times c0 (latest_service_start q d re) ?i).
         e = emp \<and> c = c' \<and> candidate_plan q emp c' = Inr p \<and> slot_accepted q d emp c' p)"
    by (rule collect_char [OF col]) (simp only: slot_at_mem)
  also have "\<dots> \<longleftrightarrow> c \<in> set (slot_times c0 (latest_service_start q d re) ?i) \<and> e = emp
      \<and> candidate_plan q emp c = Inr p \<and> slot_accepted q d emp c p"
    by blast
  also have "\<dots> \<longleftrightarrow> e = emp \<and> slot_offered q d rng c p"
    using set_slot_times [OF i] grid_from_ceil [OF c0, of c]
    by (auto simp: slot_offered_def r Let_def latest_service_start_def service_minutes_def
        minutes_add)
  finally show ?thesis using r by auto
qed

lemma slots_on_mem:
  assumes "slots_on q d = Inr es"
  shows "(e, c, p) \<in> set es \<longleftrightarrow>
    (\<exists>rng \<in> set (operating_ranges (sr_business q) d (sr_capacity q)). fst rng = e \<and> slot_offered q d rng c p)"
  by (rule collect_char [OF assms [unfolded slots_on_def]]) (rule slots_in_range_mem)

lemma available_startsE:
  assumes "available_starts zs provider now db b s r plan first_date last_date exclude = Inr entries"
  obtains z cap where "timezone_of zs (bz_timezone b) = Inr z"
    "load_capacity db (bz_id b) (sv_id s) (to_utc z (combine first_date 0))
       (to_utc z (combine (last_date + 1) 0)) exclude = Inr cap"
    "collect (slots_on (slot_request_for z provider now b r plan cap)) [first_date..last_date] = Inr entries"
  using assms by (auto simp: available_starts_def split: sum.splits)

lemma slot_request_sel [simp]:
  "sr_zone (slot_request_for z provider now b r plan cap) = z"
  "sr_business (slot_request_for z provider now b r plan cap) = b"
  "sr_provider (slot_request_for z provider now b r plan cap) = provider"
  "sr_requirements (slot_request_for z provider now b r plan cap) = r"
  "sr_plan (slot_request_for z provider now b r plan cap) = plan"
  "sr_capacity (slot_request_for z provider now b r plan cap) = cap"
  "sr_earliest (slot_request_for z provider now b r plan cap)
     = to_wall z now + minutes (notice_minutes b r (bp_service plan))"
  by (simp_all add: slot_request_for_def)

text \<open>
  C2. The agenda offers exactly the starts that fit: a start is listed for an employee and
  a plan if and only if it lies on the business's slot grid, leaves the travel before it and the
  service and travel after it inside an operating range of that employee on a requested day, and
  passes the notice, handoff, site window and conflict guards under the plan computed for it.
\<close>

theorem available_starts_exact:
  assumes "available_starts zs provider now db b s r plan first_date last_date exclude = Inr entries"
  shows "\<exists>z cap. timezone_of zs (bz_timezone b) = Inr z
    \<and> load_capacity db (bz_id b) (sv_id s) (to_utc z (combine first_date 0))
        (to_utc z (combine (last_date + 1) 0)) exclude = Inr cap
    \<and> (\<forall>emp c p. (emp, c, p) \<in> set entries \<longleftrightarrow>
        (\<exists>d rng. first_date \<le> d \<and> d \<le> last_date \<and> rng \<in> set (operating_ranges b d cap)
           \<and> fst rng = emp \<and> slot_offered (slot_request_for z provider now b r plan cap) d rng c p))"
proof (rule available_startsE [OF assms])
  fix z cap
  let ?q = "slot_request_for z provider now b r plan cap"
  assume z: "timezone_of zs (bz_timezone b) = Inr z"
    and cap: "load_capacity db (bz_id b) (sv_id s) (to_utc z (combine first_date 0))
       (to_utc z (combine (last_date + 1) 0)) exclude = Inr cap"
    and col: "collect (slots_on ?q) [first_date..last_date] = Inr entries"
  have "(emp, c, p) \<in> set entries \<longleftrightarrow>
      (\<exists>d \<in> {first_date..last_date}. \<exists>rng \<in> set (operating_ranges b d cap).
         fst rng = emp \<and> slot_offered ?q d rng c p)" for emp c p
    unfolding set_upto [symmetric]
    by (rule collect_char [OF col]) (simp only: slots_on_mem slot_request_sel)
  with z cap show ?thesis by (intro exI [of _ z] exI [of _ cap]) (simp only: Bex_def atLeastAtMost_iff simp_thms ex_simps, blast)
qed

theorem available_starts_exact_witness:
  "\<exists>cap d rng. rng \<in> set (operating_ranges sample_shop d cap) \<and> fst rng = 7
     \<and> slot_offered (slot_request_for sample_zone None sample_now sample_shop sample_request sample_plan cap)
         d rng sample_start sample_plan"
proof -
  obtain z cap where z: "timezone_of sample_zones (bz_timezone sample_shop) = Inr z"
    and iff: "(7 :: uuid, sample_start, sample_plan) \<in> set [(7, sample_start, sample_plan)] \<longleftrightarrow>
      (\<exists>d rng. sample_monday \<le> d \<and> d \<le> sample_monday \<and> rng \<in> set (operating_ranges sample_shop d cap)
         \<and> fst rng = 7 \<and> slot_offered (slot_request_for z None sample_now sample_shop sample_request
             sample_plan cap) d rng sample_start sample_plan)"
    using available_starts_exact [OF sample_starts] by blast
  have "z = sample_zone" using z sample_timezone by simp
  with iff show ?thesis by (metis list.set_intros(1))
qed

section \<open>No offered start collides\<close>

text \<open>A provider of the port's contract, or none configured.\<close>

definition provider_ok :: "travel_provider option \<Rightarrow> bool" where
  "provider_ok provider = (\<forall>port. provider = Some port \<longrightarrow> travel_time_port port)"

lemma provider_ok_None [simp]: "provider_ok None"
  by (simp add: provider_ok_def)

lemma same_address_nonneg: "same_address_travel_estimate og d = Some t \<Longrightarrow> 0 \<le> te_minutes t"
  by (simp add: same_address_minutes)

lemma travel_by_method_nonneg:
  assumes "provider_ok provider" "travel_by_method b provider m og d = Inr t"
  shows "0 \<le> te_minutes t"
  using assms configured.minutes_nonneg
  by (fastforce simp: travel_by_method_def provider_ok_def
      dest: travel_time_port.minutes_nonneg split: travel_method.splits option.splits sum.splits)

lemma plan_travel_nonneg:
  assumes "provider_ok provider" "plan_travel b provider r e = Inr t"
  shows "0 \<le> te_minutes t"
  using assms travel_by_method_nonneg [OF assms(1)]
  by (auto simp: plan_travel_def travel_to_customer_def zero_travel_estimate_def
      dest: same_address_nonneg split: if_splits option.splits sum.splits)

text \<open>The shape of a base plan, as \<open>build_plan\<close> leaves it.\<close>

definition base_plan :: "business \<Rightarrow> booking_requirements \<Rightarrow> booking_plan \<Rightarrow> bool" where
  "base_plan b r plan \<longleftrightarrow>
     (case operational_buffers b r (bp_service plan) of (prep, fin, intv) \<Rightarrow>
        bp_before plan = te_minutes (bp_travel plan) + bz_before_buffer b + prep + interval_before intv
        \<and> bp_after plan = te_minutes (bp_travel plan) + bz_after_buffer b + fin + interval_after intv)
     \<and> 0 \<le> te_minutes (bp_travel plan) \<and> 0 \<le> bp_before plan \<and> 0 \<le> bp_after plan
     \<and> 0 < se_duration (bp_service plan)"

lemma build_plan_base:
  assumes "provider_ok provider" "service_row_ok s" "build_plan provider items b s r = Inr plan"
  shows "base_plan b r plan"
  using build_plan_nonneg [OF assms(3)] build_plan_duration_pos [OF assms(2,3)] assms(3)
  by (elim build_planE) (auto simp: base_plan_def dest: plan_travel_nonneg [OF assms(1)])

text \<open>How the plan of a candidate differs from the base plan.\<close>

lemma adjacent_planE:
  assumes "adjacent_plan b r plan before after = Inr p"
  obtains prep fin intv where "operational_buffers b r (bp_service plan) = (prep, fin, intv)"
    "bp_service p = bp_service plan"
    "bp_before p = te_minutes before + bz_before_buffer b + prep + interval_before intv"
    "bp_after p = te_minutes after + bz_after_buffer b + fin + interval_after intv"
    "0 \<le> bp_before p" "0 \<le> bp_after p"
  using assms
  by (auto simp: adjacent_plan_def Let_def mk_booking_plan_def split: prod.splits if_splits)

lemma schedule_aware_planE:
  assumes base: "base_plan b r plan"
    and p: "schedule_aware_plan z b provider r plan emp c c_end appts = Inr p"
  shows "bp_service p = bp_service plan" "0 \<le> bp_before p" "0 \<le> bp_after p"
    "bp_before p = bp_before plan
     \<or> (\<exists>a \<in> set (day_appointments z emp (wall_date c) appts). ap_ends a \<le> to_utc z c)"
    "bp_after p \<le> bp_after plan
     \<or> (\<exists>a \<in> set (day_appointments z emp (wall_date c) appts). to_utc z c_end \<le> ap_starts a)"
proof -
  let ?mine = "day_appointments z emp (wall_date c) appts"
  let ?prev = "max_by ap_ends (filter (\<lambda>a. ap_ends a \<le> to_utc z c) ?mine)"
  let ?next = "min_by ap_starts (filter (\<lambda>a. to_utc z c_end \<le> ap_starts a) ?mine)"
  have "bp_service p = bp_service plan \<and> 0 \<le> bp_before p \<and> 0 \<le> bp_after p
    \<and> (?prev = None \<longrightarrow> bp_before p = bp_before plan) \<and> (?next = None \<longrightarrow> bp_after p \<le> bp_after plan)"
  proof (cases "br_address r")
    case None
    with p base show ?thesis by (simp add: schedule_aware_plan_def base_plan_def)
  next
    case (Some destination)
    with p obtain before after where legs:
      "leg_before b provider plan destination ?prev = Inr before"
      "leg_after b provider destination ?next = Inr after"
      "adjacent_plan b r plan before after = Inr p"
      by (auto simp: schedule_aware_plan_def Let_def split: sum.splits)
    from legs(3) base show ?thesis
      using legs(1,2)
      by (elim adjacent_planE)
        (auto simp: base_plan_def leg_before_def leg_after_def zero_travel_estimate_def)
  qed
  then show "bp_service p = bp_service plan" "0 \<le> bp_before p" "0 \<le> bp_after p"
    "bp_before p = bp_before plan \<or> (\<exists>a \<in> set ?mine. ap_ends a \<le> to_utc z c)"
    "bp_after p \<le> bp_after plan \<or> (\<exists>a \<in> set ?mine. to_utc z c_end \<le> ap_starts a)"
    by (auto simp: filter_empty_conv)
qed

text \<open>What the columns of the tables guarantee: their types and their checks.\<close>

definition appointment_ok :: "appointment \<Rightarrow> bool" where
  "appointment_ok a \<longleftrightarrow> ap_starts a < ap_ends a \<and> 0 \<le> ap_before a \<and> 0 \<le> ap_after a"

definition tod_ok :: "tod option \<Rightarrow> bool" where
  "tod_ok t = (case t of Some v \<Rightarrow> 0 \<le> v \<and> v < day_us | None \<Rightarrow> True)"

definition hours_ok :: "business \<Rightarrow> working_hours list \<Rightarrow> bool" where
  "hours_ok b hs \<longleftrightarrow>
     list_all tod_ok [bz_weekday_start b, bz_weekday_end b, bz_weekend_start b, bz_weekend_end b]
     \<and> list_all (\<lambda>h. tod_ok (Some (wh_start h)) \<and> tod_ok (Some (wh_end h))) hs"

lemma operating_ranges_bounds:
  assumes "hours_ok b (cp_hours cap)" "(e, rs, re) \<in> set (operating_ranges b d cap)"
  shows "0 \<le> rs \<and> rs < day_us \<and> 0 \<le> re \<and> re < day_us"
  using assms
  by (auto simp: operating_ranges_def hours_ok_def tod_ok_def list_all_iff
      split: list.splits option.splits if_splits bool.splits)

lemma operating_ranges_employee:
  assumes "\<forall>h \<in> set (cp_hours cap). wh_employee h \<in> set (cp_employees cap)"
    and "rng \<in> set (operating_ranges b d cap)"
  shows "fst rng \<in> set (cp_employees cap)"
  using assms
  by (auto simp: operating_ranges_def split: list.splits option.splits if_splits bool.splits)

text \<open>The day of a request, as the interval of instants its capacity query asks for.\<close>

definition day_start :: "zone \<Rightarrow> date \<Rightarrow> instant" where
  "day_start z d = to_utc z (combine d 0)"

lemma day_start_mono: "steady z \<Longrightarrow> d \<le> d' \<Longrightarrow> day_start z d \<le> day_start z d'"
  by (simp add: day_start_def steady_le) (simp add: clock_defs)

lemma day_appointments_in_day:
  assumes "steady z" "a \<in> set (day_appointments z emp d appts)"
  shows "a \<in> set appts" "ap_employee a = emp" "ap_status a = ''confirmed''"
    "day_start z d \<le> ap_starts a" "ap_starts a < day_start z (d + 1)"
proof -
  have w: "wall_date (to_wall z (ap_starts a)) = d"
    using assms by (simp add: day_appointments_def)
  then have "to_utc z (combine d 0) \<le> to_utc z (to_wall z (ap_starts a))"
    "to_utc z (to_wall z (ap_starts a)) < to_utc z (combine (d + 1) 0)"
    using wall_date_iff assms(1) by (auto simp: steady_le steady_less)
  then show "day_start z d \<le> ap_starts a" "ap_starts a < day_start z (d + 1)"
    using assms(1) by (simp_all add: day_start_def steady_wall)
qed (use assms in \<open>auto simp: day_appointments_def\<close>)

lemma no_conflict_appointment:
  assumes "\<not> has_conflict emp s e cap" "a \<in> set (cp_appointments cap)"
    "ap_employee a = emp" "ap_status a = ''confirmed''"
  shows "reserved_end a \<le> s \<or> e \<le> reserved_start a"
  using assms by (fastforce simp: has_conflict_def overlaps_def list_ex_iff)

lemma appointment_ok_reserved:
  "appointment_ok a \<Longrightarrow> reserved_start a \<le> ap_starts a \<and> ap_starts a < ap_ends a
     \<and> ap_ends a \<le> reserved_end a"
  by (simp add: appointment_ok_def reserved_start_def reserved_end_def)

text \<open>
  An accepted start occupies nothing outside its day, although the plan computed for it may
  ask for more travel than the base plan: where it would, the neighbour is in the way.
\<close>

lemma slot_inside_day:
  assumes z: "steady (sr_zone q)" and base: "base_plan (sr_business q) (sr_requirements q) (sr_plan q)"
    and ok: "\<forall>a \<in> set (cp_appointments (sr_capacity q)). appointment_ok a"
    and rng: "0 \<le> rs" "re < day_us"
    and off: "slot_offered q d (emp, rs, re) c p"
  shows "wall_date c = d" "combine d 0 \<le> c" "c + service_minutes q < combine (d + 1) 0"
    "day_start (sr_zone q) d \<le> to_utc (sr_zone q) (occupied_start q c p)"
    "to_utc (sr_zone q) (occupied_end q c p) \<le> day_start (sr_zone q) (d + 1)"
proof -
  let ?z = "sr_zone q" and ?s = "occupied_start q c p" and ?e = "occupied_end q c p"
  have fit: "combine d rs + minutes (bp_before (sr_plan q)) \<le> c"
    "c + service_minutes q + minutes (bp_after (sr_plan q)) \<le> combine d re"
    and cand: "candidate_plan q emp c = Inr p" and acc: "slot_accepted q d emp c p"
    using off by (auto simp: slot_offered_def Let_def)
  have pos: "0 \<le> bp_before (sr_plan q)" "0 \<le> bp_after (sr_plan q)" "0 < service_minutes q"
    using base by (auto simp: base_plan_def service_minutes_def)
  have comb: "combine d 0 \<le> combine d rs" "combine d re < combine (d + 1) 0"
    using rng by (auto simp: clock_defs algebra_simps)
  have after: "0 \<le> minutes (bp_before (sr_plan q))" "0 \<le> minutes (bp_after (sr_plan q))"
    using pos by simp_all
  show low: "combine d 0 \<le> c" and high: "c + service_minutes q < combine (d + 1) 0"
    using fit comb after by linarith+
  show date: "wall_date c = d"
    unfolding wall_date_iff using low high pos(3) by simp
  note sp = schedule_aware_planE [OF base cand [unfolded candidate_plan_def]]
  have free: "\<not> has_conflict emp (to_utc ?z ?s) (to_utc ?z ?e) (sr_capacity q)"
    using acc by (simp add: slot_accepted_def)
  have inner: "?s \<le> c" "c + service_minutes q \<le> ?e"
    using sp(2,3) by (simp_all add: occupied_start_def occupied_end_def)
  then have inner': "to_utc ?z ?s \<le> to_utc ?z c" "to_utc ?z (c + service_minutes q) \<le> to_utc ?z ?e"
    "to_utc ?z c < to_utc ?z (c + service_minutes q)"
    using z pos(3) by (simp_all add: steady_le steady_less)
  show "day_start ?z d \<le> to_utc ?z ?s"
  proof (cases "bp_before p = bp_before (sr_plan q)")
    case True
    then have "combine d 0 \<le> ?s" using fit(1) comb(1) by (simp add: occupied_start_def)
    then show ?thesis using z by (simp add: day_start_def steady_le)
  next
    case False
    then obtain a where a: "a \<in> set (day_appointments ?z emp (wall_date c) (cp_appointments (sr_capacity q)))"
      "ap_ends a \<le> to_utc ?z c" using sp(4) by blast
    note day = day_appointments_in_day [OF z a(1)]
    note res = appointment_ok_reserved [OF ok [rule_format, OF day(1)]]
    from no_conflict_appointment [OF free day(1,2,3)] show ?thesis
      using res a(2) inner' day(4) [unfolded date] by auto
  qed
  show "to_utc ?z ?e \<le> day_start ?z (d + 1)"
  proof (cases "bp_after p \<le> bp_after (sr_plan q)")
    case True
    then have "minutes (bp_after p) \<le> minutes (bp_after (sr_plan q))" by (simp add: minutes_mono)
    then have "?e \<le> combine (d + 1) 0" using fit(2) comb(2) by (simp add: occupied_end_def)
    then show ?thesis using z by (simp add: day_start_def steady_le)
  next
    case False
    then obtain a where a: "a \<in> set (day_appointments ?z emp (wall_date c) (cp_appointments (sr_capacity q)))"
      "to_utc ?z (c + service_minutes q) \<le> ap_starts a" using sp(5) by blast
    note day = day_appointments_in_day [OF z a(1)]
    note res = appointment_ok_reserved [OF ok [rule_format, OF day(1)]]
    from no_conflict_appointment [OF free day(1,2,3)] show ?thesis
      using res a(2) inner' day(5) [unfolded date] by auto
  qed
qed

text \<open>
  Every row an offered start has to respect, whatever the window of the capacity query.
\<close>

lemma load_capacityE:
  assumes "load_capacity db bid sid u0 u1 exclude = Inr cap"
  obtains ids where "eligible_employees db bid sid = ids" "ids \<noteq> []" "cp_employees cap = ids"
    "cp_hours cap = filter (\<lambda>h. wh_business h = bid \<and> wh_employee h \<in> set ids) (db_hours db)"
    "set (cp_blocks cap) = {k \<in> set (db_blocks db). sb_business k = bid \<and> sb_employee k \<in> set ids
       \<and> sb_starts k < u1 \<and> u0 < sb_ends k}"
    "set (cp_appointments cap) = {a \<in> set (db_appointments db). ap_business a = bid
       \<and> ap_employee a \<in> set ids \<and> ap_status a = ''confirmed''
       \<and> reserved_start a < u1 \<and> u0 < reserved_end a
       \<and> (case exclude of Some x \<Rightarrow> ap_id a \<noteq> x | None \<Rightarrow> True)}"
  using assms
  by (auto simp: load_capacity_def require_eligible_employees_def Let_def split: sum.splits if_splits)

text \<open>A collision with any row of the database, no window involved.\<close>

definition db_conflict ::
  "booking_db \<Rightarrow> uuid \<Rightarrow> uuid option \<Rightarrow> uuid \<Rightarrow> instant \<Rightarrow> instant \<Rightarrow> bool" where
  "db_conflict db bid exclude emp s e \<longleftrightarrow>
     (\<exists>a \<in> set (db_appointments db). ap_business a = bid \<and> ap_employee a = emp
        \<and> ap_status a = ''confirmed'' \<and> exclude \<noteq> Some (ap_id a)
        \<and> s < reserved_end a \<and> reserved_start a < e)
     \<or> (\<exists>k \<in> set (db_blocks db). sb_business k = bid \<and> sb_employee k = emp
        \<and> s < sb_ends k \<and> sb_starts k < e)"

lemma has_conflict_capacity:
  assumes "load_capacity db bid sid u0 u1 exclude = Inr cap"
    and "u0 \<le> s" "e \<le> u1" and "emp \<in> set (cp_employees cap)"
  shows "has_conflict emp s e cap \<longleftrightarrow> db_conflict db bid exclude emp s e"
proof (rule load_capacityE [OF assms(1)])
  fix ids
  assume ids: "cp_employees cap = ids"
    and blocks: "set (cp_blocks cap) = {k \<in> set (db_blocks db). sb_business k = bid \<and> sb_employee k \<in> set ids
       \<and> sb_starts k < u1 \<and> u0 < sb_ends k}"
    and appts: "set (cp_appointments cap) = {a \<in> set (db_appointments db). ap_business a = bid
       \<and> ap_employee a \<in> set ids \<and> ap_status a = ''confirmed''
       \<and> reserved_start a < u1 \<and> u0 < reserved_end a
       \<and> (case exclude of Some x \<Rightarrow> ap_id a \<noteq> x | None \<Rightarrow> True)}"
  have ex: "(case exclude of Some x \<Rightarrow> ap_id a \<noteq> x | None \<Rightarrow> True) \<longleftrightarrow> exclude \<noteq> Some (ap_id a)" for a
    by (auto split: option.splits)
  show ?thesis
    unfolding has_conflict_def db_conflict_def list_ex_iff overlaps_def blocks appts ex
    using assms(2-4) unfolding ids by (fastforce intro: order.strict_trans1 order.strict_trans2)
qed

lemma hours_ok_filter: "hours_ok b hs \<Longrightarrow> hours_ok b (filter f hs)"
  by (auto simp: hours_ok_def list_all_iff)

definition tables_ok :: "booking_db \<Rightarrow> business \<Rightarrow> bool" where
  "tables_ok db b \<longleftrightarrow> list_all appointment_ok (db_appointments db) \<and> hours_ok b (db_hours db)"

lemma offered_inside_day:
  assumes st: "available_starts zs provider now db b s r plan first_date last_date exclude = Inr entries"
    and e: "(emp, c, p) \<in> set entries"
    and z: "timezone_of zs (bz_timezone b) = Inr z" "steady z"
    and base: "base_plan b r plan" and tab: "tables_ok db b"
  obtains cap d rng where
    "load_capacity db (bz_id b) (sv_id s) (day_start z first_date) (day_start z (last_date + 1)) exclude = Inr cap"
    "first_date \<le> d" "d \<le> last_date" "wall_date c = d" "rng \<in> set (operating_ranges b d cap)"
    "fst rng = emp" "slot_offered (slot_request_for z provider now b r plan cap) d rng c p"
    "emp \<in> set (cp_employees cap)"
    "day_start z d \<le> to_utc z (occupied_start (slot_request_for z provider now b r plan cap) c p)"
    "to_utc z (occupied_end (slot_request_for z provider now b r plan cap) c p) \<le> day_start z (d + 1)"
proof -
  from available_starts_exact [OF st] z(1) e obtain cap d rng where
    cap: "load_capacity db (bz_id b) (sv_id s) (day_start z first_date) (day_start z (last_date + 1)) exclude = Inr cap"
    and d: "first_date \<le> d" "d \<le> last_date" and rng: "rng \<in> set (operating_ranges b d cap)"
    "fst rng = emp" "slot_offered (slot_request_for z provider now b r plan cap) d rng c p"
    unfolding day_start_def by (metis Inr_inject)
  obtain rs re where r: "rng = (emp, rs, re)" using rng(2) by (cases rng) auto
  have oks: "\<forall>a \<in> set (cp_appointments cap). appointment_ok a" "hours_ok b (cp_hours cap)"
    "\<forall>h \<in> set (cp_hours cap). wh_employee h \<in> set (cp_employees cap)"
    using cap tab by (auto simp: tables_ok_def list_all_iff hours_ok_filter elim!: load_capacityE)
  have b: "0 \<le> rs" "re < day_us"
    using operating_ranges_bounds [OF oks(2)] rng(1) r by auto
  show thesis
    using slot_inside_day [of "slot_request_for z provider now b r plan cap" rs re d emp c p]
      operating_ranges_employee [OF oks(3) rng(1)] rng r b oks(1) z(2) base
    by (intro that [OF cap d _ rng]) auto
qed

text \<open>
  C3. No offered start collides: whatever window the listing asked for, the time an offered start
  occupies, travel included, is disjoint from the time every confirmed appointment and every
  schedule block of that technician occupies anywhere in the database.
\<close>

theorem offered_start_free:
  assumes "available_starts zs provider now db b s r plan first_date last_date exclude = Inr entries"
    and "(emp, c, p) \<in> set entries"
    and "timezone_of zs (bz_timezone b) = Inr z" and "steady z"
    and "provider_ok provider" and "service_row_ok s"
    and "build_plan provider items b s r = Inr plan" and "tables_ok db b"
  shows "(\<forall>a \<in> set (db_appointments db).
        ap_business a = bz_id b \<longrightarrow> ap_employee a = emp \<longrightarrow> ap_status a = ''confirmed'' \<longrightarrow>
        exclude \<noteq> Some (ap_id a) \<longrightarrow>
        reserved_end a \<le> to_utc z c - minutes (bp_before p)
        \<or> to_utc z c + minutes (se_duration (bp_service plan) + bp_after p) \<le> reserved_start a)
    \<and> (\<forall>k \<in> set (db_blocks db).
        sb_business k = bz_id b \<longrightarrow> sb_employee k = emp \<longrightarrow>
        sb_ends k \<le> to_utc z c - minutes (bp_before p)
        \<or> to_utc z c + minutes (se_duration (bp_service plan) + bp_after p) \<le> sb_starts k)"
proof -
  have base: "base_plan b r plan" using build_plan_base assms(5-7) by blast
  show ?thesis
  proof (rule offered_inside_day [OF assms(1-4) base assms(8)])
    fix cap d rng
    let ?q = "slot_request_for z provider now b r plan cap"
    assume cap: "load_capacity db (bz_id b) (sv_id s) (day_start z first_date)
        (day_start z (last_date + 1)) exclude = Inr cap"
      and d: "first_date \<le> d" "d \<le> last_date"
      and off: "slot_offered ?q d rng c p" "fst rng = emp" "emp \<in> set (cp_employees cap)"
      and day: "day_start z d \<le> to_utc z (occupied_start ?q c p)"
        "to_utc z (occupied_end ?q c p) \<le> day_start z (d + 1)"
    have win: "day_start z first_date \<le> day_start z d" "day_start z (d + 1) \<le> day_start z (last_date + 1)"
      using d assms(4) by (simp_all add: day_start_mono)
    have eqs: "to_utc z (occupied_start ?q c p) = to_utc z c - minutes (bp_before p)"
      "to_utc z (occupied_end ?q c p) = to_utc z c + minutes (se_duration (bp_service plan) + bp_after p)"
      using assms(4)
      by (simp_all add: occupied_start_def occupied_end_def service_minutes_def minutes_add
          steady_shift steady_shift_back)
    have free: "\<not> has_conflict emp (to_utc z (occupied_start ?q c p)) (to_utc z (occupied_end ?q c p)) cap"
      using off by (auto simp: slot_offered_def slot_accepted_def Let_def)
    have "\<not> db_conflict db (bz_id b) exclude emp (to_utc z (occupied_start ?q c p)) (to_utc z (occupied_end ?q c p))"
      using has_conflict_capacity [OF cap] win day off(3) free by simp
    then show ?thesis unfolding eqs db_conflict_def by (meson not_le)
  qed
qed

lemma sample_tables_ok: "tables_ok sample_db sample_shop"
  by code_simp

theorem offered_start_free_witness:
  "reserved_end sample_appointment \<le> to_utc sample_zone sample_start - minutes 10"
  using offered_start_free [OF sample_starts _ sample_timezone sample_steady provider_ok_None
      sample_service_ok sample_plan_built sample_tables_ok, of 7 sample_start sample_plan]
  by (simp add: sample_db_def sample_shop_def sample_business_def sample_appointment_def
      sample_plan_def reserved_start_def reserved_end_def sample_start_def sample_zone_def
      fixed_zone_def clock_defs)

section \<open>Listings agree with each other\<close>

text \<open>The neighbours on a day do not depend on the window that contains the day.\<close>

lemma day_appointments_window:
  assumes cap: "load_capacity db bid sid (day_start z f) (day_start z (l + 1)) exclude = Inr cap"
    and z: "steady z" and win: "f \<le> d" "d \<le> l" and emp: "emp \<in> set (eligible_employees db bid sid)"
    and ok: "list_all appointment_ok (db_appointments db)"
  shows "day_appointments z emp d (cp_appointments cap)
    = filter (\<lambda>a. ap_business a = bid \<and> ap_employee a = emp \<and> ap_status a = ''confirmed''
        \<and> exclude \<noteq> Some (ap_id a) \<and> wall_date (to_wall z (ap_starts a)) = d) (db_appointments db)"
proof -
  have "(reserved_start a < day_start z (l + 1) \<and> day_start z f < reserved_end a)"
    if "a \<in> set (db_appointments db)" "wall_date (to_wall z (ap_starts a)) = d" for a
  proof -
    have "appointment_ok a" using ok that(1) by (simp add: list_all_iff)
    note res = appointment_ok_reserved [OF this]
    have "to_utc z (combine d 0) \<le> ap_starts a" "ap_starts a < to_utc z (combine (d + 1) 0)"
      using that(2) z unfolding wall_date_iff
      by (metis steady_le steady_wall, metis steady_less steady_wall)
    moreover have "day_start z f \<le> day_start z d" "day_start z (d + 1) \<le> day_start z (l + 1)"
      using win z by (simp_all add: day_start_mono)
    ultimately show ?thesis using res unfolding day_start_def by auto
  qed
  moreover have "cp_appointments cap
    = filter (\<lambda>a. ap_business a = bid \<and> ap_employee a \<in> set (eligible_employees db bid sid)
        \<and> ap_status a = ''confirmed'' \<and> reserved_start a < day_start z (l + 1)
        \<and> day_start z f < reserved_end a \<and> exclude \<noteq> Some (ap_id a)) (db_appointments db)"
    using cap
    by (cases exclude) (auto simp: load_capacity_def require_eligible_employees_def Let_def
        intro!: filter_cong split: if_splits)
  ultimately show ?thesis
    using emp by (auto simp: day_appointments_def intro!: filter_cong)
qed

text \<open>Two windows around the same day.\<close>

lemma request_inside_day:
  fixes z provider now b r plan cap
  defines "q \<equiv> slot_request_for z provider now b r plan cap"
  assumes "steady z" "base_plan b r plan" "\<forall>a \<in> set (cp_appointments cap). appointment_ok a"
    and "0 \<le> rs" "re < day_us" "slot_offered q d (emp, rs, re) c p"
  shows "day_start z d \<le> to_utc z (occupied_start q c p)
    \<and> to_utc z (occupied_end q c p) \<le> day_start z (d + 1)"
  using slot_inside_day(4,5) [of q rs re d emp c p] assms(2-7) by (simp add: q_def)

lemma slots_on_window:
  assumes cap1: "load_capacity db (bz_id b) sid (day_start z f1) (day_start z (l1 + 1)) exclude = Inr cap1"
    and cap2: "load_capacity db (bz_id b) sid (day_start z f2) (day_start z (l2 + 1)) exclude = Inr cap2"
    and win: "f1 \<le> d" "d \<le> l1" "f2 \<le> d" "d \<le> l2"
    and z: "steady z" and base: "base_plan b r plan" and tab: "tables_ok db b"
  shows "slots_on (slot_request_for z provider now b r plan cap1) d
    = slots_on (slot_request_for z provider now b r plan cap2) d"
proof -
  let ?q1 = "slot_request_for z provider now b r plan cap1"
  let ?q2 = "slot_request_for z provider now b r plan cap2"
  have same: "cp_employees cap1 = cp_employees cap2" "cp_hours cap1 = cp_hours cap2"
    using cap1 cap2 by (auto elim!: load_capacityE)
  then have ranges: "operating_ranges b d cap1 = operating_ranges b d cap2"
    by (simp only: operating_ranges_def)
  have oks: "\<forall>a \<in> set (cp_appointments cap1). appointment_ok a"
    "\<forall>a \<in> set (cp_appointments cap2). appointment_ok a" "hours_ok b (cp_hours cap1)"
    "\<forall>h \<in> set (cp_hours cap1). wh_employee h \<in> set (cp_employees cap1)"
    using cap1 cap2 tab by (auto simp: tables_ok_def list_all_iff hours_ok_filter elim!: load_capacityE)
  have "slots_in_range ?q1 d rng = slots_in_range ?q2 d rng" if rng: "rng \<in> set (operating_ranges b d cap1)" for rng
  proof -
    obtain emp rs re where r: "rng = (emp, rs, re)" by (cases rng)
    have emp: "emp \<in> set (cp_employees cap1)" using operating_ranges_employee [OF oks(4) rng] r by simp
    then have el: "emp \<in> set (eligible_employees db (bz_id b) sid)"
      using cap1 by (auto elim!: load_capacityE)
    have bnd: "0 \<le> rs" "re < day_us" using operating_ranges_bounds [OF oks(3)] rng r by auto
    have appts: "day_appointments z emp d (cp_appointments cap1) = day_appointments z emp d (cp_appointments cap2)"
      using day_appointments_window [OF cap1 z win(1,2) el] day_appointments_window [OF cap2 z win(3,4) el]
        tab by (simp add: tables_ok_def)
    have wins: "day_start z f1 \<le> day_start z d" "day_start z (d + 1) \<le> day_start z (l1 + 1)"
      "day_start z f2 \<le> day_start z d" "day_start z (d + 1) \<le> day_start z (l2 + 1)"
      using win z by (simp_all add: day_start_mono)
    have "slot_at ?q1 d emp c = slot_at ?q2 d emp c"
      if c0: "ceil_to_slot (combine d rs + minutes (bp_before plan)) (bz_slot_interval b) = Inr c0"
        and c: "c \<in> set (slot_times c0 (latest_service_start ?q1 d re) (bz_slot_interval b))" for c0 c
    proof -
      have grid: "c0 \<le> c \<and> (c - c0) mod minutes (bz_slot_interval b) = 0"
        and lat: "c \<le> latest_service_start ?q1 d re"
        using c set_slot_times [OF ceil_to_slot_props(1) [OF c0]] by auto
      have fit: "slot_offered q d (emp, rs, re) c p"
        if "q = ?q1 \<or> q = ?q2" "candidate_plan q emp c = Inr p" "slot_accepted q d emp c p" for q p
        using that grid [unfolded grid_from_ceil [OF c0]] lat
        by (auto simp: slot_offered_def Let_def latest_service_start_def service_minutes_def minutes_add)
      have pos: "0 \<le> bp_before plan" "0 < se_duration (bp_service plan)" "0 \<le> bp_after plan"
        using base by (auto simp: base_plan_def)
      have "combine d rs + minutes (bp_before plan) \<le> c" using grid [unfolded grid_from_ceil [OF c0]] by simp
      moreover have "combine d 0 \<le> combine d rs" "combine d re < combine (d + 1) 0"
        using bnd by (auto simp: clock_defs algebra_simps)
      moreover have "0 \<le> minutes (bp_before plan)"
        "0 \<le> minutes (se_duration (bp_service plan) + bp_after plan)" using pos by simp_all
      moreover have "c \<le> combine d re - minutes (se_duration (bp_service plan) + bp_after plan)"
        using lat by (simp add: latest_service_start_def)
      ultimately have "combine d 0 \<le> c" "c < combine (d + 1) 0" by linarith+
      then have date: "wall_date c = d" unfolding wall_date_iff by simp
      have cand: "candidate_plan ?q1 emp c = candidate_plan ?q2 emp c"
        by (simp only: candidate_plan_def schedule_aware_plan_def service_minutes_def
            slot_request_sel date appts)
      have "slot_accepted ?q1 d emp c p = slot_accepted ?q2 d emp c p" if p: "candidate_plan ?q1 emp c = Inr p" for p
      proof -
        have eqs: "occupied_start ?q1 c p = occupied_start ?q2 c p" "occupied_end ?q1 c p = occupied_end ?q2 c p"
          by (simp_all add: occupied_start_def occupied_end_def service_minutes_def)
        have i1: "slot_accepted ?q1 d emp c p \<Longrightarrow> day_start z d \<le> to_utc z (occupied_start ?q1 c p)
            \<and> to_utc z (occupied_end ?q1 c p) \<le> day_start z (d + 1)"
          by (rule request_inside_day [OF z base oks(1) bnd fit [OF disjI1 [OF refl] p]])
        have i2: "slot_accepted ?q2 d emp c p \<Longrightarrow> day_start z d \<le> to_utc z (occupied_start ?q1 c p)
            \<and> to_utc z (occupied_end ?q1 c p) \<le> day_start z (d + 1)"
          unfolding eqs
          by (rule request_inside_day [OF z base oks(2) bnd fit [OF disjI2 [OF refl] p [unfolded cand]]])
        have "has_conflict emp (to_utc z (occupied_start ?q1 c p)) (to_utc z (occupied_end ?q1 c p)) cap1
            = has_conflict emp (to_utc z (occupied_start ?q1 c p)) (to_utc z (occupied_end ?q1 c p)) cap2"
          if "day_start z d \<le> to_utc z (occupied_start ?q1 c p)"
            "to_utc z (occupied_end ?q1 c p) \<le> day_start z (d + 1)"
          using has_conflict_capacity [OF cap1 order.trans [OF wins(1) that(1)] order.trans [OF that(2) wins(2)]]
            has_conflict_capacity [OF cap2 order.trans [OF wins(3) that(1)] order.trans [OF that(2) wins(4)]]
            emp same(1) by simp
        moreover define g where "g \<longleftrightarrow> sr_earliest ?q1 < c \<and> \<not> bp_handoff p
            \<and> within_site_window d c (c + service_minutes ?q1) (br_site_start r) (br_site_end r)"
        moreover have "slot_accepted ?q1 d emp c p \<longleftrightarrow> g \<and> \<not> has_conflict emp
              (to_utc z (occupied_start ?q1 c p)) (to_utc z (occupied_end ?q1 c p)) cap1"
          by (simp only: slot_accepted_def g_def slot_request_sel conj_assoc)
        moreover have "slot_accepted ?q2 d emp c p \<longleftrightarrow> g \<and> \<not> has_conflict emp
              (to_utc z (occupied_start ?q1 c p)) (to_utc z (occupied_end ?q1 c p)) cap2"
          by (simp only: slot_accepted_def g_def slot_request_sel conj_assoc eqs service_minutes_def)
        ultimately show ?thesis using i1 i2 by blast
      qed
      with cand show ?thesis by (auto simp: slot_at_def split: sum.splits)
    qed
    moreover have "latest_service_start ?q1 d re = latest_service_start ?q2 d re"
      by (simp add: latest_service_start_def)
    ultimately show ?thesis
      by (auto simp: slots_in_range_def r split: sum.splits intro!: collect_cong_set)
  qed
  then show ?thesis
    using ranges by (auto simp: slots_on_def intro!: collect_cong_set)
qed

lemma available_starts_one_day:
  assumes st: "available_starts zs provider now db b s r plan f l exclude = Inr entries"
    and z: "timezone_of zs (bz_timezone b) = Inr z" "steady z"
    and base: "base_plan b r plan" and tab: "tables_ok db b" and d: "f \<le> d" "d \<le> l"
  obtains es where "available_starts zs provider now db b s r plan d d exclude = Inr es"
    "\<And>emp c p. (emp, c, p) \<in> set es \<longleftrightarrow> (emp, c, p) \<in> set entries \<and> wall_date c = d"
proof (rule available_startsE [OF st])
  fix z' cap
  let ?q = "slot_request_for z provider now b r plan cap"
  assume z': "timezone_of zs (bz_timezone b) = Inr z'"
    and cap': "load_capacity db (bz_id b) (sv_id s) (to_utc z' (combine f 0)) (to_utc z' (combine (l + 1) 0)) exclude = Inr cap"
    and col': "collect (slots_on (slot_request_for z' provider now b r plan cap)) [f..l] = Inr entries"
  have cap: "load_capacity db (bz_id b) (sv_id s) (day_start z f) (day_start z (l + 1)) exclude = Inr cap"
    and col: "collect (slots_on ?q) [f..l] = Inr entries"
    using z z' cap' col' by (simp_all add: day_start_def)
  obtain cap2 where cap2: "load_capacity db (bz_id b) (sv_id s) (day_start z d) (day_start z (d + 1)) exclude = Inr cap2"
    using cap by (auto simp: load_capacity_def split: sum.splits)
  note same = slots_on_window [OF cap cap2 d order_refl order_refl z(2) base tab, of provider now]
  obtain es where es: "slots_on ?q d = Inr es"
    using collect_Inr [OF col] d by (metis atLeastAtMost_iff set_upto)
  have oks: "\<forall>a \<in> set (cp_appointments cap). appointment_ok a" "hours_ok b (cp_hours cap)"
    using cap tab by (auto simp: tables_ok_def list_all_iff hours_ok_filter elim!: load_capacityE)
  have date: "wall_date c = d'" if "slots_on ?q d' = Inr ys" "(emp, c, p) \<in> set ys" for d' ys emp c p
  proof -
    from that slots_on_mem obtain rng where rng: "rng \<in> set (operating_ranges b d' cap)"
      "fst rng = emp" "slot_offered ?q d' rng c p" by fastforce
    obtain rs re where r: "rng = (emp, rs, re)" using rng(2) by (cases rng) auto
    show ?thesis
      using slot_inside_day(1) [of ?q rs re d' emp c p] operating_ranges_bounds [OF oks(2)] rng r oks(1) z(2) base
      by auto
  qed
  have "(emp, c, p) \<in> set entries \<longleftrightarrow> (\<exists>d' \<in> set [f..l]. \<exists>ys. slots_on ?q d' = Inr ys \<and> (emp, c, p) \<in> set ys)"
    for emp c p by (rule collect_mem [OF col])
  then have "(emp, c, p) \<in> set es \<longleftrightarrow> (emp, c, p) \<in> set entries \<and> wall_date c = d" for emp c p
    using date es d by (metis Inr_inject atLeastAtMost_iff set_upto)
  moreover have "available_starts zs provider now db b s r plan d d exclude = Inr es"
    using z cap2 es [unfolded same] by (simp add: available_starts_def day_start_def)
  ultimately show thesis by (rule that [rotated])
qed

lemma minute_dvd_day: "minute_us dvd day_us"
  by (simp add: clock_defs)

text \<open>An offered start is a whole minute.\<close>

lemma slot_offered_minute: "slot_offered q d rng c p \<Longrightarrow> wall_tod c mod minute_us = 0"
proof -
  assume "slot_offered q d rng c p"
  then obtain day i where "(c - combine day 0) mod minutes i = 0"
    unfolding slot_offered_def Let_def by (cases rng) (simp only: prod.case, elim conjE, assumption)
  then have "minute_us dvd c - combine day 0"
    by (auto simp: minutes_def dvd_eq_mod_eq_0 [symmetric] intro: dvd_trans)
  moreover have "minute_us dvd combine day 0"
    using minute_dvd_day by (simp add: combine_def)
  ultimately have "minute_us dvd c"
    by (metis diff_add_cancel dvd_add)
  then show ?thesis
    using minute_dvd_day by (simp add: wall_tod_def mod_mod_cancel)
qed

lemma wall_tod_range: "0 \<le> wall_tod w \<and> wall_tod w < day_us"
  by (simp add: wall_tod_def day_us_def)

lemma plan_for_base:
  assumes "provider_ok provider" "service_row_ok s" "plan_for provider db b s r = Inr plan"
  shows "base_plan b r plan"
  using assms build_plan_base by (auto simp: plan_for_def split: sum.splits)

text \<open>
  C9. A listed time can be chosen: the identifier of every time shown for a date parses back to a
  time of day, and the search for exactly that date and time finds technicians, namely those that
  the listing of the day offers at that start.
\<close>

theorem listed_time_found:
  assumes "list_times zs provider now db bid sid selected r = Inr opts" and "t \<in> set opts"
    and "load_business_service db bid sid = Inr (b, s)"
    and "timezone_of zs (bz_timezone b) = Inr z" and "steady z"
    and "provider_ok provider" and "service_row_ok s" and "tables_ok db b"
  shows "\<exists>d tod plan ids entries. parse_date selected = Inr d \<and> minimum_bookable_date z now \<le> d
    \<and> parse_time (bo_id t) = Inr tod \<and> plan_for provider db b s r = Inr plan \<and> ids \<noteq> []
    \<and> available_starts zs provider now db b s r plan d d None = Inr entries
    \<and> set ids = {emp. \<exists>p. (emp, combine d tod, p) \<in> set entries}
    \<and> employees_for_exact_start zs provider now db b s r plan d tod None
        = Inr (ids, to_utc z (combine d tod), entries)"
proof -
  obtain d plan entries where d: "parse_date selected = Inr d" "minimum_bookable_date z now \<le> d"
    and plan: "plan_for provider db b s r = Inr plan"
    and st: "available_starts zs provider now db b s r plan d d None = Inr entries"
    and opts: "opts = map (\<lambda>t. \<lparr>bo_id = t, bo_label = t\<rparr>)
        (sort (dedup (map (\<lambda>(e, c, p). hm_text (wall_tod c)) entries)))"
    using assms(1-4) by (cases "opts = []") (auto simp: list_times_def split: sum.splits if_splits)
  obtain emp c p where e: "(emp, c, p) \<in> set entries" "bo_id t = hm_text (wall_tod c)"
    using assms(2) unfolding opts by auto
  note base = plan_for_base [OF assms(6,7) plan]
  have c: "wall_date c = d" "wall_tod c mod minute_us = 0"
    by (rule offered_inside_day [OF st e(1) assms(4,5) base assms(8)]; force dest: slot_offered_minute)+
  have "parse_time (bo_id t) = Inr (wall_tod c)"
    using parse_hm_text [of "wall_tod c"] wall_tod_range c(2) e(2) by (simp add: parse_time_def)
  moreover have "combine d (wall_tod c) = c" using c(1) combine_date_tod [of c] by simp
  moreover have "employees_at z entries c \<noteq> []"
  proof -
    have "emp \<in> set (employees_at z entries c)" using e(1) by (force simp: employees_at_def)
    then show ?thesis by auto
  qed
  moreover have "set (employees_at z entries c) = {emp. \<exists>p. (emp, c, p) \<in> set entries}"
    by (force simp: employees_at_def)
  ultimately show ?thesis
    using d plan st assms(4)
    by (intro exI [of _ d] exI [of _ "wall_tod c"] exI [of _ plan]
        exI [of _ "employees_at z entries c"] exI [of _ entries])
      (simp add: employees_for_exact_start_def Let_def)
qed

theorem listed_time_found_witness:
  "\<exists>ids entries. ids \<noteq> [] \<and> employees_for_exact_start sample_zones None sample_now sample_db
     sample_shop sample_service sample_request sample_plan sample_monday (minutes 840) None
     = Inr (ids, to_utc sample_zone (combine sample_monday (minutes 840)), entries)"
proof -
  have facts: "parse_date ''2026-03-09'' = Inr sample_monday" "parse_time ''14:00'' = Inr (minutes 840)"
    "plan_for None sample_db sample_shop sample_service sample_request = Inr sample_plan"
    by code_simp+
  show ?thesis
    using listed_time_found [OF sample_times _ sample_service_loaded sample_timezone sample_steady
        provider_ok_None sample_service_ok sample_tables_ok, of "\<lparr>bo_id = ''14:00'', bo_label = ''14:00''\<rparr>"]
      facts by auto
qed

text \<open>
  A listed date has times: the identifier of every date shown parses back to a day within the
  thirty days the listing covers, and listing its times finds at least one.
\<close>

theorem listed_date_has_times:
  assumes "list_dates zs provider now db bid sid r = Inr dates" and "o1 \<in> set dates"
    and "load_business_service db bid sid = Inr (b, s)"
    and "timezone_of zs (bz_timezone b) = Inr z" and "steady z"
    and "provider_ok provider" and "service_row_ok s" and "tables_ok db b"
    and "date_range (minimum_bookable_date z now)" and "date_range (minimum_bookable_date z now + 29)"
  shows "\<exists>d opts. parse_date (bo_id o1) = Inr d \<and> minimum_bookable_date z now \<le> d
    \<and> d < minimum_bookable_date z now + 30
    \<and> list_times zs provider now db bid sid (bo_id o1) r = Inr opts \<and> opts \<noteq> []"
proof -
  let ?f = "minimum_bookable_date z now"
  obtain plan entries where plan: "plan_for provider db b s r = Inr plan"
    and st: "available_starts zs provider now db b s r plan ?f (?f + 29) None = Inr entries"
    and dates: "dates = map (\<lambda>d. \<lparr>bo_id = iso_date d, bo_label = portuguese_date_label d\<rparr>)
        (sort (dedup (map (\<lambda>(e, c, p). wall_date c) entries)))"
    using assms(1,3,4) by (auto simp: list_dates_def horizon_days_def Let_def split: sum.splits)
  obtain emp c p where e: "(emp, c, p) \<in> set entries" "bo_id o1 = iso_date (wall_date c)"
    using assms(2) unfolding dates by auto
  note base = plan_for_base [OF assms(6,7) plan]
  have d: "?f \<le> wall_date c" "wall_date c \<le> ?f + 29"
    by (rule offered_inside_day [OF st e(1) assms(4,5) base assms(8)]; simp)+
  then have pd: "parse_date (bo_id o1) = Inr (wall_date c)"
    using assms(9,10) parse_iso_date_text [of "wall_date c"] e(2) by (simp add: parse_date_def date_range_def)
  obtain es where es: "available_starts zs provider now db b s r plan (wall_date c) (wall_date c) None = Inr es"
    "(emp, c, p) \<in> set es"
    by (rule available_starts_one_day [OF st assms(4,5) base assms(8) d]) (use e(1) in simp)
  have "hm_text (wall_tod c) \<in> set (sort (dedup (map (\<lambda>(e, c, p). hm_text (wall_tod c)) es)))"
    using es(2) by force
  then have "map (\<lambda>t. \<lparr>bo_id = t, bo_label = t\<rparr>)
      (sort (dedup (map (\<lambda>(e, c, p). hm_text (wall_tod c)) es))) \<noteq> []"
    by (simp only: map_is_Nil_conv) (metis empty_iff list.set(1))
  then show ?thesis
    using pd d plan es(1) assms(3,4)
    by (intro exI [of _ "wall_date c"]) (simp add: list_times_def)
qed

theorem listed_date_has_times_witness:
  "\<exists>opts. list_times sample_zones None sample_now sample_db 1 5 (iso_date (sample_monday + 21)) sample_request
     = Inr opts \<and> opts \<noteq> []"
proof -
  have "date_range (minimum_bookable_date sample_zone sample_now)"
    "date_range (minimum_bookable_date sample_zone sample_now + 29)" by code_simp+
  from listed_date_has_times [OF sample_dates _ sample_service_loaded sample_timezone sample_steady
      provider_ok_None sample_service_ok sample_tables_ok this,
      of "\<lparr>bo_id = iso_date (sample_monday + 21), bo_label = portuguese_date_label (sample_monday + 21)\<rparr>"]
  show ?thesis by auto
qed

end
