(* ===== verification/Booking.thy ===== *)
theory Booking
  imports Offers
begin

text \<open>
  The operations of \<open>PostgresBookingAvailabilityPort\<close> that change the database: confirm a
  booking, cancel it, move it (\<open>app/booking/availability.py\<close>), with the constraints of the
  \<open>appointments\<close>, \<open>business_notifications\<close> and \<open>web_push_events\<close> tables
  (\<open>app/models/domain.py\<close>, \<open>app/models/push.py\<close>) that decide what a flush accepts.
  The column \<open>notes\<close>, free text for people, and the analytics queue are left out.
\<close>

section \<open>Rows and constraints\<close>

text \<open>What the environment provides: zones, travel, the clock and the text of identifiers.\<close>

record booking_env =
  be_zones :: zones
  be_provider :: "travel_provider option"
  be_now :: instant
  be_uuid_text :: "uuid \<Rightarrow> string"
  be_parse_uuid :: "string \<Rightarrow> uuid option"
  be_iso :: "instant \<Rightarrow> string"

record confirmation =
  cn_appointment :: uuid
  cn_starts :: instant
  cn_ends :: instant
  cn_employee :: uuid

definition confirmation_of :: "appointment \<Rightarrow> confirmation" where
  "confirmation_of a =
     \<lparr>cn_appointment = ap_id a, cn_starts = ap_starts a, cn_ends = ap_ends a,
      cn_employee = ap_employee a\<rparr>"

text \<open>The check constraints of a row, by name, in the order of the table.\<close>

definition violated_check :: "appointment \<Rightarrow> string option" where
  "violated_check a =
     (if ap_ends a \<le> ap_starts a then Some ''ends_at_after_starts_at''
      else if ap_status a \<notin> {''pending'', ''confirmed'', ''cancelled'', ''completed''}
      then Some ''status_allowed''
      else if ap_quantity a \<le> 0 then Some ''quantity_positive''
      else if ap_duration a \<le> 0 then Some ''estimated_duration_minutes_positive''
      else if ap_before a < 0 then Some ''travel_before_minutes_nonnegative''
      else if ap_after a < 0 then Some ''travel_after_minutes_nonnegative''
      else if ap_pricing_type a \<notin> {''fixed'', ''estimated'', ''human_quote''}
      then Some ''pricing_type_allowed''
      else if ap_access a \<notin> {''normal'', ''difficult'', ''unknown''}
      then Some ''access_condition_allowed''
      else None)"

text \<open>The exclusion constraint: half-open reserved intervals of one employee.\<close>

definition excludes :: "appointment \<Rightarrow> appointment \<Rightarrow> bool" where
  "excludes a x \<longleftrightarrow>
     ap_status a = ''confirmed'' \<and> ap_status x = ''confirmed'' \<and> ap_employee a = ap_employee x
     \<and> overlaps (reserved_start a) (reserved_end a) (reserved_start x) (reserved_end x)"

definition same_key :: "appointment \<Rightarrow> appointment \<Rightarrow> bool" where
  "same_key a x \<longleftrightarrow> ap_idempotency_key a \<noteq> None \<and> ap_idempotency_key a = ap_idempotency_key x"

text \<open>The constraint a row violates beside the other rows of the table.\<close>

definition violation :: "appointment list \<Rightarrow> appointment \<Rightarrow> constraint option" where
  "violation others a =
     (case violated_check a of
        Some name \<Rightarrow> Some (OtherConstraint name)
      | None \<Rightarrow>
          if list_ex (\<lambda>x. ap_id x = ap_id a) others then Some (OtherConstraint ''pk_appointments'')
          else if list_ex (same_key a) others then Some AppointmentIdempotency
          else if list_ex (excludes a) others then Some AppointmentExclusion
          else None)"

definition insert_appointment :: "booking_db \<Rightarrow> appointment \<Rightarrow> booking_error + booking_db" where
  "insert_appointment db a =
     (case violation (db_appointments db) a of
        Some c \<Rightarrow> Inl (IntegrityError c)
      | None \<Rightarrow> Inr (db\<lparr>db_appointments := db_appointments db @ [a]\<rparr>))"

definition update_appointment :: "booking_db \<Rightarrow> appointment \<Rightarrow> booking_error + booking_db" where
  "update_appointment db a =
     (case violation (filter (\<lambda>x. ap_id x \<noteq> ap_id a) (db_appointments db)) a of
        Some c \<Rightarrow> Inl (IntegrityError c)
      | None \<Rightarrow> Inr (db\<lparr>db_appointments :=
                  update_where (\<lambda>x. ap_id x = ap_id a) (\<lambda>_. a) (db_appointments db)\<rparr>))"

definition same_notification :: "notification \<Rightarrow> notification \<Rightarrow> bool" where
  "same_notification n m \<longleftrightarrow> nt_business n = nt_business m \<and> nt_appointment n = nt_appointment m
     \<and> nt_event n = nt_event m"

definition insert_notification :: "booking_db \<Rightarrow> notification \<Rightarrow> booking_error + booking_db" where
  "insert_notification db n =
     (if list_ex (same_notification n) (db_notifications db)
      then Inl (IntegrityError (OtherConstraint ''uq_business_notifications_appointment_event''))
      else Inr (db\<lparr>db_notifications := db_notifications db @ [n]\<rparr>))"

definition insert_push_event :: "booking_db \<Rightarrow> push_event \<Rightarrow> booking_error + booking_db" where
  "insert_push_event db e =
     (if list_ex (\<lambda>x. pe_key x = pe_key e) (db_push_events db)
      then Inl (IntegrityError (OtherConstraint ''uq_web_push_events_event_key''))
      else Inr (db\<lparr>db_push_events := db_push_events db @ [e]\<rparr>))"

section \<open>Confirming\<close>

definition quantity_recorded :: "booking_requirements \<Rightarrow> int" where
  "quantity_recorded r = (case br_quantity r of Some q \<Rightarrow> if q = 0 then 1 else q | None \<Rightarrow> 1)"

definition apply_snapshot :: "appointment \<Rightarrow> booking_requirements \<Rightarrow> booking_plan \<Rightarrow> appointment" where
  "apply_snapshot a r p =
     a\<lparr>ap_address := map_option to_snapshot (br_address r), ap_quantity := quantity_recorded r,
       ap_tubing_meters := br_tubing_meters r,
       ap_access := access_condition_value (br_access r),
       ap_duration := se_duration (bp_service p), ap_before := bp_before p,
       ap_after := bp_after p, ap_price := se_price (bp_service p),
       ap_pricing_type := pricing_type_value (se_pricing_type (bp_service p)),
       ap_details := dict_set (snapshot_details p) ''operational_details'' (PDict (br_details r)),
       ap_site_end := br_site_end r, ap_idempotency_key := br_idempotency_key r\<rparr>"

text \<open>The row that \<open>confirm\<close> adds for one employee.\<close>

definition new_appointment ::
  "uuid \<Rightarrow> uuid \<Rightarrow> uuid \<Rightarrow> uuid \<Rightarrow> uuid \<Rightarrow> instant \<Rightarrow> booking_requirements \<Rightarrow> booking_plan \<Rightarrow> appointment" where
  "new_appointment new_id bid cid sid emp starts_at r p =
     apply_snapshot
       \<lparr>ap_id = new_id, ap_business = bid, ap_customer = cid, ap_service = sid, ap_employee = emp,
        ap_starts = starts_at, ap_ends = starts_at + minutes (se_duration (bp_service p)),
        ap_status = ''confirmed'', ap_address = None, ap_quantity = 1, ap_tubing_meters = None,
        ap_access = ''normal'', ap_duration = 0, ap_before = 0, ap_after = 0, ap_price = None,
        ap_pricing_type = [], ap_details = [], ap_site_end = None, ap_idempotency_key = None\<rparr>
       r p"

definition outreach_id :: "booking_env \<Rightarrow> booking_requirements \<Rightarrow> uuid option" where
  "outreach_id env r =
     (case dict_get (br_details r) ''cleaning_outreach_id'' of
        Some (PStr s) \<Rightarrow> be_parse_uuid env s
      | _ \<Rightarrow> None)"

definition accept_outreach :: "booking_env \<Rightarrow> booking_requirements \<Rightarrow> appointment \<Rightarrow> booking_db \<Rightarrow> booking_db" where
  "accept_outreach env r a db =
     (case outreach_id env r of
        None \<Rightarrow> db
      | Some oid \<Rightarrow>
          db\<lparr>db_outreach :=
            update_where
              (\<lambda>x. or_id x = oid \<and> or_business x = ap_business a \<and> or_customer x = ap_customer a
                    \<and> or_type x = ''cleaning_6m'' \<and> or_status x \<in> {''sent'', ''responded''})
              (\<lambda>x. x\<lparr>or_status := ''accepted'', or_result := Some (ap_id a)\<rparr>)
              (db_outreach db)\<rparr>)"

text \<open>One savepoint: the row, its notification and push event, and the outreach it answers.\<close>

definition attempt ::
  "booking_env \<Rightarrow> booking_requirements \<Rightarrow> booking_db \<Rightarrow> appointment \<Rightarrow> booking_error + booking_db" where
  "attempt env r db a =
     (case insert_appointment db a of
        Inl e \<Rightarrow> Inl e
      | Inr db1 \<Rightarrow>
          (case insert_notification db1
                  \<lparr>nt_business = ap_business a, nt_appointment = ap_id a,
                   nt_event = ''automatic_booking_confirmed'', nt_read_at = None\<rparr> of
             Inl e \<Rightarrow> Inl e
           | Inr db2 \<Rightarrow>
               (case insert_push_event db2
                       \<lparr>pe_business = ap_business a,
                        pe_key = ''automatic_booking:'' @ be_uuid_text env (ap_id a),
                        pe_type = ''automatic_booking'', pe_path = ''/app/agenda''\<rparr> of
                  Inl e \<Rightarrow> Inl e
                | Inr db3 \<Rightarrow> Inr (accept_outreach env r a db3))))"

definition find_idempotent :: "booking_db \<Rightarrow> uuid \<Rightarrow> uuid \<Rightarrow> string \<Rightarrow> appointment option" where
  "find_idempotent db bid cid key =
     first (filter (\<lambda>a. ap_business a = bid \<and> ap_customer a = cid \<and> ap_idempotency_key a = Some key)
              (db_appointments db))"

text \<open>\<open>if requirements.idempotency_key\<close>: neither absent nor empty.\<close>

definition key_of :: "booking_requirements \<Rightarrow> string option" where
  "key_of r = (case br_idempotency_key r of Some k \<Rightarrow> if k = [] then None else Some k | None \<Rightarrow> None)"

text \<open>
  The loop over the employees. The exclusion constraint moves on to the next one; a row that
  carries the same key is the answer if it is this customer's.
\<close>

fun try_employees ::
  "booking_env \<Rightarrow> booking_requirements \<Rightarrow> booking_db \<Rightarrow> appointment list
   \<Rightarrow> booking_error + (confirmation \<times> booking_db)" where
  "try_employees env r db [] = Inl (SlotUnavailable ''Selected slot is unavailable'')"
| "try_employees env r db (a # rest) =
     (case attempt env r db a of
        Inr db' \<Rightarrow> Inr (confirmation_of a, db')
      | Inl (IntegrityError AppointmentExclusion) \<Rightarrow> try_employees env r db rest
      | Inl (IntegrityError AppointmentIdempotency) \<Rightarrow>
          (case key_of r of
             None \<Rightarrow> Inl (IntegrityError AppointmentIdempotency)
           | Some key \<Rightarrow>
               (case find_idempotent db (ap_business a) (ap_customer a) key of
                  Some x \<Rightarrow> Inr (confirmation_of x, db)
                | None \<Rightarrow> Inl (IntegrityError AppointmentIdempotency)))
      | Inl e \<Rightarrow> Inl e)"

definition employee_plan :: "zone \<Rightarrow> slot_entry list \<Rightarrow> booking_plan \<Rightarrow> uuid \<Rightarrow> instant \<Rightarrow> booking_plan" where
  "employee_plan z entries plan emp starts_at =
     (case candidate_plan_for z entries emp starts_at of Some p \<Rightarrow> p | None \<Rightarrow> plan)"

text \<open>
  \<open>confirm\<close>. It reads \<open>rdb\<close>, the state committed when its queries run, and writes
  \<open>wdb\<close>, the state committed when its inserts run: other transactions may have committed in
  between. \<open>fresh\<close> gives the identifier drawn for the attempt with an employee.
\<close>

definition confirm ::
  "booking_env \<Rightarrow> (uuid \<Rightarrow> uuid) \<Rightarrow> booking_db \<Rightarrow> booking_db \<Rightarrow> uuid \<Rightarrow> uuid \<Rightarrow> uuid \<Rightarrow> string \<Rightarrow> string
   \<Rightarrow> booking_requirements \<Rightarrow> booking_error + (confirmation \<times> booking_db)" where
  "confirm env fresh rdb wdb bid cid sid date_text time_text r =
     (case (case key_of r of Some key \<Rightarrow> find_idempotent rdb bid cid key | None \<Rightarrow> None) of
        Some x \<Rightarrow> Inr (confirmation_of x, wdb)
      | None \<Rightarrow>
     (case parse_date date_text of Inl e \<Rightarrow> Inl e | Inr d \<Rightarrow>
     (case parse_time time_text of Inl e \<Rightarrow> Inl e | Inr t \<Rightarrow>
     (case load_business_service rdb bid sid of Inl e \<Rightarrow> Inl e | Inr (b, s) \<Rightarrow>
     (case timezone_of (be_zones env) (bz_timezone b) of Inl e \<Rightarrow> Inl e | Inr z \<Rightarrow>
        if d < minimum_bookable_date z (be_now env)
        then Inl (SlotUnavailable ''Selected date is unavailable'')
        else
          (case plan_for (be_provider env) rdb b s r of Inl e \<Rightarrow> Inl e | Inr plan \<Rightarrow>
          (case employees_for_exact_start (be_zones env) (be_provider env) (be_now env) rdb b s r
                  plan d t None of Inl e \<Rightarrow> Inl e | Inr (ids, starts_at, entries) \<Rightarrow>
             try_employees env r wdb
               (map (\<lambda>emp. new_appointment (fresh emp) bid cid sid emp starts_at r
                              (employee_plan z entries plan emp starts_at)) ids))))))))"

section \<open>Cancelling\<close>

definition lock_customer_appointment ::
  "booking_db \<Rightarrow> uuid \<Rightarrow> uuid \<Rightarrow> uuid \<Rightarrow> booking_error + appointment" where
  "lock_customer_appointment db bid cid aid =
     (case first (filter (\<lambda>a. ap_id a = aid \<and> ap_business a = bid \<and> ap_customer a = cid)
                   (db_appointments db)) of
        Some a \<Rightarrow> Inr a
      | None \<Rightarrow> Inl (BookingNotFound ''Appointment was not found''))"

definition mark_notification_read :: "booking_env \<Rightarrow> uuid \<Rightarrow> uuid \<Rightarrow> notification list \<Rightarrow> notification list" where
  "mark_notification_read env bid aid ns =
     update_where
       (\<lambda>n. nt_business n = bid \<and> nt_appointment n = aid
             \<and> nt_event n = ''automatic_booking_confirmed'' \<and> nt_read_at n = None)
       (\<lambda>n. n\<lparr>nt_read_at := Some (be_now env)\<rparr>) ns"

definition cancel_booking ::
  "booking_env \<Rightarrow> booking_db \<Rightarrow> uuid \<Rightarrow> uuid \<Rightarrow> uuid \<Rightarrow> booking_error + (confirmation \<times> booking_db)" where
  "cancel_booking env db bid cid aid =
     (case lock_customer_appointment db bid cid aid of
        Inl e \<Rightarrow> Inl e
      | Inr a \<Rightarrow>
          if ap_status a = ''confirmed'' then
            (case update_appointment db (a\<lparr>ap_status := ''cancelled''\<rparr>) of
               Inl e \<Rightarrow> Inl e
             | Inr db' \<Rightarrow>
                 Inr (confirmation_of a,
                      db'\<lparr>db_notifications := mark_notification_read env bid aid (db_notifications db')\<rparr>))
          else if ap_status a \<noteq> ''cancelled''
          then Inl (BookingNotFound ''Appointment cannot be cancelled'')
          else Inr (confirmation_of a, db))"

section \<open>Moving\<close>

definition pending_reschedule :: "appointment \<Rightarrow> bool" where
  "pending_reschedule a \<longleftrightarrow>
     ap_status a = ''pending'' \<and> dict_get (ap_details a) ''reschedule_pending'' = Some (PBool True)"

definition detail_or_none :: "pydict \<Rightarrow> string \<Rightarrow> pyval" where
  "detail_or_none d k = (case dict_get d k of Some v \<Rightarrow> v | None \<Rightarrow> PNone)"

definition moved_appointment ::
  "booking_env \<Rightarrow> appointment \<Rightarrow> uuid \<Rightarrow> instant \<Rightarrow> booking_requirements \<Rightarrow> booking_plan \<Rightarrow> appointment" where
  "moved_appointment env a emp starts_at r plan =
     (let a1 = apply_snapshot
                 (a\<lparr>ap_employee := emp, ap_starts := starts_at,
                    ap_ends := starts_at + minutes (se_duration (bp_service plan))\<rparr>) r plan
      in a1\<lparr>ap_details := dict_update (ap_details a1)
              [(''reschedule_pending'', PBool False), (''rescheduled'', PBool True),
               (''rescheduled_at'', PStr (be_iso env (be_now env))),
               (''reschedule_original_starts_at'',
                  detail_or_none (ap_details a) ''reschedule_original_starts_at''),
               (''reschedule_initiated_by'', detail_or_none (ap_details a) ''reschedule_initiated_by'')],
            ap_status := ''confirmed'', ap_idempotency_key := ap_idempotency_key a\<rparr>)"

fun try_moves :: "booking_db \<Rightarrow> appointment list \<Rightarrow> booking_error + (confirmation \<times> booking_db)" where
  "try_moves db [] = Inl (SlotUnavailable ''Selected slot is unavailable'')"
| "try_moves db (a # rest) =
     (case update_appointment db a of
        Inr db' \<Rightarrow> Inr (confirmation_of a, db')
      | Inl (IntegrityError AppointmentExclusion) \<Rightarrow> try_moves db rest
      | Inl e \<Rightarrow> Inl e)"

text \<open>
  \<open>reschedule_booking_atomic\<close>, with its reads and writes apart as in \<open>confirm\<close>. The
  row itself is locked: \<open>FOR UPDATE\<close> keeps it the same in both states.
\<close>

definition reschedule_booking_atomic ::
  "booking_env \<Rightarrow> booking_db \<Rightarrow> booking_db \<Rightarrow> uuid \<Rightarrow> uuid \<Rightarrow> uuid \<Rightarrow> string \<Rightarrow> string
   \<Rightarrow> booking_requirements \<Rightarrow> booking_error + (confirmation \<times> booking_db)" where
  "reschedule_booking_atomic env rdb wdb bid cid aid date_text time_text r =
     (case lock_customer_appointment rdb bid cid aid of Inl e \<Rightarrow> Inl e | Inr a \<Rightarrow>
        if ap_status a \<noteq> ''confirmed'' \<and> \<not> pending_reschedule a
        then Inl (BookingNotFound ''Appointment cannot be rescheduled'')
        else
     (case parse_date date_text of Inl e \<Rightarrow> Inl e | Inr d \<Rightarrow>
     (case parse_time time_text of Inl e \<Rightarrow> Inl e | Inr t \<Rightarrow>
     (case load_business_service rdb bid (ap_service a) of Inl e \<Rightarrow> Inl e | Inr (b, s) \<Rightarrow>
     (case timezone_of (be_zones env) (bz_timezone b) of Inl e \<Rightarrow> Inl e | Inr z \<Rightarrow>
        if d < minimum_bookable_date z (be_now env)
        then Inl (SlotUnavailable ''Selected date is unavailable'')
        else
          (case plan_for (be_provider env) rdb b s r of Inl e \<Rightarrow> Inl e | Inr plan \<Rightarrow>
          (case employees_for_exact_start (be_zones env) (be_provider env) (be_now env) rdb b s r
                  plan d t (Some aid) of Inl e \<Rightarrow> Inl e | Inr (ids, starts_at, entries) \<Rightarrow>
             try_moves wdb
               (map (\<lambda>emp. moved_appointment env a emp starts_at r plan) ids))))))))"

end
