(* ===== verification/Commitments.thy ===== *)
theory Commitments
  imports Booking
begin

text \<open>
  What the operations of the agenda leave in the database, whatever order concurrent
  transactions commit in: the invariant of the tables, the step relation of committed
  transactions, and what each operation answers.
\<close>

section \<open>Tables that keep their rows apart\<close>

text \<open>
  The contract of a table with constraints between its rows: an insert appends a row that
  clashes with none, so no two rows of the table ever clash.
\<close>

locale unique_table =
  fixes rows :: "'db \<Rightarrow> 'row list"
    and put :: "'db \<Rightarrow> 'row \<Rightarrow> booking_error + 'db"
    and clash :: "'row \<Rightarrow> 'row \<Rightarrow> bool"
  assumes put_rows: "put db a = Inr db' \<Longrightarrow> rows db' = rows db @ [a]"
    and put_clear: "put db a = Inr db' \<Longrightarrow> x \<in> set (rows db) \<Longrightarrow> \<not> clash a x"
    and clash_sym: "clash a x \<Longrightarrow> clash x a"
begin

lemma put_apart:
  "sorted_wrt (\<lambda>a x. \<not> clash a x) (rows db) \<Longrightarrow> put db a = Inr db' \<Longrightarrow>
   sorted_wrt (\<lambda>a x. \<not> clash a x) (rows db')"
  using put_rows put_clear clash_sym by (fastforce simp: sorted_wrt_append)

lemma apart:
  assumes "sorted_wrt (\<lambda>a x. \<not> clash a x) as" "a \<in> set as" "x \<in> set as" "a \<noteq> x"
  shows "\<not> clash a x"
proof -
  obtain i j where ij: "i < length as" "as ! i = a" "j < length as" "as ! j = x"
    using assms(2,3) by (auto simp: in_set_conv_nth)
  with assms(4) have "i < j \<or> j < i" by (metis nat_neq_iff)
  then show ?thesis
    using assms(1) ij clash_sym unfolding sorted_wrt_iff_nth_less by blast
qed

end

text \<open>A table whose rows can also be replaced, by identifier.\<close>

locale keyed_table = unique_table rows put clash
  for rows :: "'db \<Rightarrow> 'row list" and put :: "'db \<Rightarrow> 'row \<Rightarrow> booking_error + 'db"
    and clash :: "'row \<Rightarrow> 'row \<Rightarrow> bool" +
  fixes change :: "'db \<Rightarrow> 'row \<Rightarrow> booking_error + 'db" and ident :: "'row \<Rightarrow> uuid"
  assumes change_rows: "change db a = Inr db' \<Longrightarrow>
      rows db' = update_where (\<lambda>x. ident x = ident a) (\<lambda>_. a) (rows db)"
    and change_clear: "change db a = Inr db' \<Longrightarrow> x \<in> set (rows db) \<Longrightarrow> ident x \<noteq> ident a
      \<Longrightarrow> \<not> clash a x"
    and ident_clash: "ident a = ident x \<Longrightarrow> clash a x"
begin

lemma change_apart:
  assumes "sorted_wrt (\<lambda>a x. \<not> clash a x) (rows db)" "change db a = Inr db'"
  shows "sorted_wrt (\<lambda>a x. \<not> clash a x) (rows db')"
proof -
  have "sorted_wrt (\<lambda>a x. \<not> clash a x) (update_where (\<lambda>x. ident x = ident a) (\<lambda>_. a) as)"
    if "sorted_wrt (\<lambda>a x. \<not> clash a x) as" "set as \<subseteq> set (rows db)" for as
    using that
  proof (induction as)
    case (Cons y ys)
    have clear: "ident x \<noteq> ident a \<Longrightarrow> \<not> clash a x \<and> \<not> clash x a" if "x \<in> set (y # ys)" for x
      using change_clear [OF assms(2)] clash_sym that Cons.prems(2) by blast
    have "\<not> clash (if ident y = ident a then a else y) (if ident x = ident a then a else x)"
      if "x \<in> set ys" for x
    proof -
      have "\<not> clash y x" using Cons.prems(1) that by simp
      then have "ident y \<noteq> ident x" using ident_clash by blast
      then show ?thesis using clear [of y] clear [of x] that \<open>\<not> clash y x\<close> by auto
    qed
    then have "\<forall>x \<in> set (update_where (\<lambda>x. ident x = ident a) (\<lambda>_. a) ys).
        \<not> clash (if ident y = ident a then a else y) x"
      unfolding update_where_def by fastforce
    moreover have "update_where (\<lambda>x. ident x = ident a) (\<lambda>_. a) (y # ys)
        = (if ident y = ident a then a else y) # update_where (\<lambda>x. ident x = ident a) (\<lambda>_. a) ys"
      by (simp add: update_where_def)
    ultimately show ?case using Cons by (simp only: sorted_wrt.simps) simp
  qed (simp add: update_where_def)
  then show ?thesis using assms change_rows by simp
qed

end

section \<open>The invariant of the agenda\<close>

definition clash :: "appointment \<Rightarrow> appointment \<Rightarrow> bool" where
  "clash a x \<longleftrightarrow> ap_id x = ap_id a \<or> same_key a x \<or> excludes a x"

definition same_event_key :: "push_event \<Rightarrow> push_event \<Rightarrow> bool" where
  "same_event_key e f \<longleftrightarrow> pe_key e = pe_key f"

definition booking_invariant :: "booking_db \<Rightarrow> bool" where
  "booking_invariant db \<longleftrightarrow>
     sorted_wrt (\<lambda>a x. \<not> clash a x) (db_appointments db)
     \<and> list_all (\<lambda>a. violated_check a = None) (db_appointments db)
     \<and> sorted_wrt (\<lambda>n m. \<not> same_notification n m) (db_notifications db)
     \<and> sorted_wrt (\<lambda>e f. \<not> same_event_key e f) (db_push_events db)"

lemma clash_sym: "clash a x \<Longrightarrow> clash x a"
  unfolding clash_def same_key_def excludes_def overlaps_def by metis

lemma violation_None:
  "violation others a = None \<longleftrightarrow> violated_check a = None \<and> (\<forall>x \<in> set others. \<not> clash a x)"
  by (auto simp: violation_def clash_def list_ex_iff split: option.splits)

lemma violated_check_ok: "violated_check a = None \<Longrightarrow> appointment_ok a"
  by (simp add: violated_check_def appointment_ok_def split: if_splits)

lemma insert_appointmentD:
  "insert_appointment db a = Inr db' \<Longrightarrow>
   violation (db_appointments db) a = None \<and> db' = db\<lparr>db_appointments := db_appointments db @ [a]\<rparr>"
  by (auto simp: insert_appointment_def split: option.splits)

lemma update_appointmentD:
  "update_appointment db a = Inr db' \<Longrightarrow>
   violation (filter (\<lambda>x. ap_id x \<noteq> ap_id a) (db_appointments db)) a = None
   \<and> db' = db\<lparr>db_appointments := update_where (\<lambda>x. ap_id x = ap_id a) (\<lambda>_. a) (db_appointments db)\<rparr>"
  by (auto simp: update_appointment_def split: option.splits)

lemma insert_notificationD:
  "insert_notification db n = Inr db' \<Longrightarrow>
   (\<forall>m \<in> set (db_notifications db). \<not> same_notification n m)
   \<and> db' = db\<lparr>db_notifications := db_notifications db @ [n]\<rparr>"
  by (auto simp: insert_notification_def list_ex_iff split: if_splits)

lemma insert_push_eventD:
  "insert_push_event db e = Inr db' \<Longrightarrow>
   (\<forall>f \<in> set (db_push_events db). \<not> same_event_key e f)
   \<and> db' = db\<lparr>db_push_events := db_push_events db @ [e]\<rparr>"
  by (auto simp: insert_push_event_def same_event_key_def list_ex_iff split: if_splits)

interpretation appointments: keyed_table db_appointments insert_appointment clash update_appointment ap_id
  by (unfold_locales; (drule insert_appointmentD update_appointmentD)?)
    (auto simp: violation_None intro: clash_sym, simp add: clash_def)

interpretation notifications: unique_table db_notifications insert_notification same_notification
  by unfold_locales (auto simp: same_notification_def dest!: insert_notificationD)

interpretation push_events: unique_table db_push_events insert_push_event same_event_key
  by unfold_locales (auto simp: same_event_key_def dest!: insert_push_eventD)

lemma insert_appointment_keeps:
  "booking_invariant db \<Longrightarrow> insert_appointment db a = Inr db' \<Longrightarrow> booking_invariant db'"
  using appointments.put_apart [of db a db'] insert_appointmentD [of db a db']
  by (auto simp: booking_invariant_def violation_None)

lemma update_appointment_keeps:
  "booking_invariant db \<Longrightarrow> update_appointment db a = Inr db' \<Longrightarrow> booking_invariant db'"
  using appointments.change_apart [of db a db'] update_appointmentD [of db a db']
  by (auto simp: booking_invariant_def violation_None list_all_iff update_where_def)

lemma insert_notification_keeps:
  "booking_invariant db \<Longrightarrow> insert_notification db n = Inr db' \<Longrightarrow> booking_invariant db'"
  using notifications.put_apart [of db n db'] insert_notificationD [of db n db']
  by (auto simp: booking_invariant_def)

lemma insert_push_event_keeps:
  "booking_invariant db \<Longrightarrow> insert_push_event db e = Inr db' \<Longrightarrow> booking_invariant db'"
  using push_events.put_apart [of db e db'] insert_push_eventD [of db e db']
  by (auto simp: booking_invariant_def)

lemma accept_outreach_same [simp]:
  "db_appointments (accept_outreach env r a db) = db_appointments db"
  "db_notifications (accept_outreach env r a db) = db_notifications db"
  "db_push_events (accept_outreach env r a db) = db_push_events db"
  "booking_invariant (accept_outreach env r a db) = booking_invariant db"
  by (simp_all add: accept_outreach_def booking_invariant_def split: option.split)

lemma attemptE:
  assumes "attempt env r db a = Inr db'"
  obtains db1 db2 db3 where "insert_appointment db a = Inr db1"
    "insert_notification db1 \<lparr>nt_business = ap_business a, nt_appointment = ap_id a,
       nt_event = ''automatic_booking_confirmed'', nt_read_at = None\<rparr> = Inr db2"
    "insert_push_event db2 \<lparr>pe_business = ap_business a,
       pe_key = ''automatic_booking:'' @ be_uuid_text env (ap_id a),
       pe_type = ''automatic_booking'', pe_path = ''/app/agenda''\<rparr> = Inr db3"
    "db' = accept_outreach env r a db3"
  using assms unfolding attempt_def by (auto split: sum.splits)

lemma attempt_keeps:
  "booking_invariant db \<Longrightarrow> attempt env r db a = Inr db' \<Longrightarrow> booking_invariant db'"
  by (erule attemptE) (use insert_appointment_keeps insert_notification_keeps insert_push_event_keeps
      in \<open>metis accept_outreach_same(4)\<close>)

section \<open>The loops over employees\<close>

lemma find_idempotentD:
  "find_idempotent db bid cid key = Some x \<Longrightarrow>
   x \<in> set (db_appointments db) \<and> ap_business x = bid \<and> ap_customer x = cid
   \<and> ap_idempotency_key x = Some key"
  by (auto simp: find_idempotent_def dest: first_Some)

lemma key_ofD: "key_of r = Some k \<Longrightarrow> br_idempotency_key r = Some k \<and> k \<noteq> []"
  by (auto simp: key_of_def split: option.splits if_splits)

lemma try_employees_result:
  assumes "try_employees env r db as = Inr (c, db')"
  shows "(\<exists>a \<in> set as. attempt env r db a = Inr db' \<and> c = confirmation_of a)
    \<or> (\<exists>a \<in> set as. \<exists>key x. key_of r = Some key \<and> db' = db \<and> c = confirmation_of x
         \<and> find_idempotent db (ap_business a) (ap_customer a) key = Some x)"
  using assms
proof (induction env r db as rule: try_employees.induct)
  case (2 env r db a rest)
  then show ?case
    by (cases "attempt env r db a")
      (auto split: booking_error.splits constraint.splits option.splits)
qed simp

lemma try_moves_result:
  "try_moves db as = Inr (c, db') \<Longrightarrow>
   \<exists>a \<in> set as. update_appointment db a = Inr db' \<and> c = confirmation_of a"
  by (induction db as rule: try_moves.induct)
    (auto split: sum.splits booking_error.splits constraint.splits)

text \<open>How a confirmation that succeeds was reached.\<close>

lemma confirmE:
  assumes "confirm env fresh rdb wdb bid cid sid date_text time_text r = Inr (c, db')"
  obtains
    (known) key x where "key_of r = Some key" "find_idempotent rdb bid cid key = Some x"
      "c = confirmation_of x" "db' = wdb"
  | (tried) d t b s z plan ids entries where
      "(case key_of r of Some key \<Rightarrow> find_idempotent rdb bid cid key | None \<Rightarrow> None) = None"
      "parse_date date_text = Inr d" "parse_time time_text = Inr t"
      "load_business_service rdb bid sid = Inr (b, s)"
      "timezone_of (be_zones env) (bz_timezone b) = Inr z"
      "minimum_bookable_date z (be_now env) \<le> d"
      "plan_for (be_provider env) rdb b s r = Inr plan"
      "employees_for_exact_start (be_zones env) (be_provider env) (be_now env) rdb b s r plan d t None
         = Inr (ids, to_utc z (combine d t), entries)"
      "try_employees env r wdb
         (map (\<lambda>emp. new_appointment (fresh emp) bid cid sid emp (to_utc z (combine d t)) r
            (employee_plan z entries plan emp (to_utc z (combine d t)))) ids) = Inr (c, db')"
proof (cases "case key_of r of Some key \<Rightarrow> find_idempotent rdb bid cid key | None \<Rightarrow> None")
  case (Some x)
  then obtain key where "key_of r = Some key" "find_idempotent rdb bid cid key = Some x"
    by (auto split: option.splits)
  with Some assms known show thesis by (simp add: confirm_def)
next
  case None
  from assms None obtain d t b s z plan ids starts_at entries where *:
      "parse_date date_text = Inr d" "parse_time time_text = Inr t"
      "load_business_service rdb bid sid = Inr (b, s)"
      "timezone_of (be_zones env) (bz_timezone b) = Inr z"
      "\<not> d < minimum_bookable_date z (be_now env)"
      "plan_for (be_provider env) rdb b s r = Inr plan"
      "employees_for_exact_start (be_zones env) (be_provider env) (be_now env) rdb b s r plan d t None
         = Inr (ids, starts_at, entries)"
      "try_employees env r wdb
         (map (\<lambda>emp. new_appointment (fresh emp) bid cid sid emp starts_at r
            (employee_plan z entries plan emp starts_at)) ids) = Inr (c, db')"
    unfolding confirm_def by (auto split: sum.splits if_splits prod.splits)
  moreover have "starts_at = to_utc z (combine d t)"
    using *(4,7) by (auto simp: employees_for_exact_start_def Let_def split: sum.splits if_splits)
  ultimately show thesis using None by (intro tried) (simp_all add: not_less)
qed

lemma new_appointment_sel [simp]:
  "ap_id (new_appointment i bid cid sid emp st r p) = i"
  "ap_business (new_appointment i bid cid sid emp st r p) = bid"
  "ap_customer (new_appointment i bid cid sid emp st r p) = cid"
  "ap_service (new_appointment i bid cid sid emp st r p) = sid"
  "ap_employee (new_appointment i bid cid sid emp st r p) = emp"
  "ap_starts (new_appointment i bid cid sid emp st r p) = st"
  "ap_ends (new_appointment i bid cid sid emp st r p) = st + minutes (se_duration (bp_service p))"
  "ap_status (new_appointment i bid cid sid emp st r p) = ''confirmed''"
  "ap_before (new_appointment i bid cid sid emp st r p) = bp_before p"
  "ap_after (new_appointment i bid cid sid emp st r p) = bp_after p"
  "ap_idempotency_key (new_appointment i bid cid sid emp st r p) = br_idempotency_key r"
  by (simp_all add: new_appointment_def apply_snapshot_def)

lemma confirm_keeps:
  assumes "booking_invariant wdb"
    and "confirm env fresh rdb wdb bid cid sid date_text time_text r = Inr (c, db')"
  shows "booking_invariant db'"
  using assms(2)
  by (rule confirmE) (use assms(1) attempt_keeps in \<open>auto dest!: try_employees_result\<close>)

lemma lock_customer_appointmentD:
  "lock_customer_appointment db bid cid aid = Inr a \<Longrightarrow>
   a \<in> set (db_appointments db) \<and> ap_id a = aid \<and> ap_business a = bid \<and> ap_customer a = cid"
  by (auto simp: lock_customer_appointment_def dest: first_Some split: option.splits)

lemma mark_read_apart:
  "sorted_wrt (\<lambda>n m. \<not> same_notification n m) (mark_notification_read env bid aid ns)
   = sorted_wrt (\<lambda>n m. \<not> same_notification n m) ns"
proof -
  define f where "f n = (if nt_business n = bid \<and> nt_appointment n = aid
      \<and> nt_event n = ''automatic_booking_confirmed'' \<and> nt_read_at n = None
      then n\<lparr>nt_read_at := Some (be_now env)\<rparr> else n)" for n :: notification
  have "mark_notification_read env bid aid ns = map f ns"
    by (simp add: mark_notification_read_def update_where_def f_def)
  moreover have "same_notification (f n) (f m) = same_notification n m" for n m
    by (simp add: same_notification_def f_def)
  ultimately show ?thesis by (simp add: sorted_wrt_map)
qed

lemma mark_read_keeps:
  "booking_invariant db \<Longrightarrow>
   booking_invariant (db\<lparr>db_notifications := mark_notification_read env bid aid (db_notifications db)\<rparr>)"
  by (simp add: booking_invariant_def mark_read_apart)

lemma cancel_bookingE:
  assumes "cancel_booking env db bid cid aid = Inr (c, db')"
  obtains a where "lock_customer_appointment db bid cid aid = Inr a" "c = confirmation_of a"
    "ap_status a = ''cancelled'' \<and> db' = db
     \<or> ap_status a = ''confirmed''
       \<and> (\<exists>db1. update_appointment db (a\<lparr>ap_status := ''cancelled''\<rparr>) = Inr db1
            \<and> db' = db1\<lparr>db_notifications := mark_notification_read env bid aid (db_notifications db1)\<rparr>)"
  using assms unfolding cancel_booking_def by (auto split: sum.splits if_splits)

lemma cancel_booking_keeps:
  assumes "booking_invariant db" "cancel_booking env db bid cid aid = Inr (c, db')"
  shows "booking_invariant db'"
  using assms(2)
  by (rule cancel_bookingE) (use assms(1) update_appointment_keeps mark_read_keeps in blast)

lemma rescheduleE:
  assumes "reschedule_booking_atomic env rdb wdb bid cid aid date_text time_text r = Inr (c, db')"
  obtains a d t b s z plan ids entries where
    "lock_customer_appointment rdb bid cid aid = Inr a"
    "ap_status a = ''confirmed'' \<or> pending_reschedule a"
    "parse_date date_text = Inr d" "parse_time time_text = Inr t"
    "load_business_service rdb bid (ap_service a) = Inr (b, s)"
    "timezone_of (be_zones env) (bz_timezone b) = Inr z"
    "minimum_bookable_date z (be_now env) \<le> d"
    "plan_for (be_provider env) rdb b s r = Inr plan"
    "employees_for_exact_start (be_zones env) (be_provider env) (be_now env) rdb b s r plan d t (Some aid)
       = Inr (ids, to_utc z (combine d t), entries)"
    "try_moves wdb (map (\<lambda>emp. moved_appointment env a emp (to_utc z (combine d t)) r plan) ids)
       = Inr (c, db')"
proof -
  from assms obtain a d t b s z plan ids starts_at entries where *:
    "lock_customer_appointment rdb bid cid aid = Inr a"
    "ap_status a = ''confirmed'' \<or> pending_reschedule a"
    "parse_date date_text = Inr d" "parse_time time_text = Inr t"
    "load_business_service rdb bid (ap_service a) = Inr (b, s)"
    "timezone_of (be_zones env) (bz_timezone b) = Inr z"
    "\<not> d < minimum_bookable_date z (be_now env)"
    "plan_for (be_provider env) rdb b s r = Inr plan"
    "employees_for_exact_start (be_zones env) (be_provider env) (be_now env) rdb b s r plan d t (Some aid)
       = Inr (ids, starts_at, entries)"
    "try_moves wdb (map (\<lambda>emp. moved_appointment env a emp starts_at r plan) ids) = Inr (c, db')"
    unfolding reschedule_booking_atomic_def by (auto split: sum.splits if_splits prod.splits)
  moreover have "starts_at = to_utc z (combine d t)"
    using *(6,9) by (auto simp: employees_for_exact_start_def Let_def split: sum.splits if_splits)
  ultimately show thesis using that by (simp add: not_less)
qed

lemma reschedule_keeps:
  assumes "booking_invariant wdb"
    and "reschedule_booking_atomic env rdb wdb bid cid aid date_text time_text r = Inr (c, db')"
  shows "booking_invariant db'"
  using assms(2)
  by (rule rescheduleE) (use assms(1) update_appointment_keeps in \<open>auto dest!: try_moves_result\<close>)

section \<open>Committed transactions\<close>

text \<open>
  One transaction commits. \<open>rdb\<close> is whatever state its reads saw; the panel of the business
  adds and edits appointments under the same constraints, and reads notifications.
\<close>

inductive commits :: "booking_db \<Rightarrow> booking_db \<Rightarrow> bool" where
  confirms: "confirm env fresh rdb db bid cid sid date_text time_text r = Inr (c, db') \<Longrightarrow> commits db db'"
| cancels: "cancel_booking env db bid cid aid = Inr (c, db') \<Longrightarrow> commits db db'"
| moves: "reschedule_booking_atomic env rdb db bid cid aid date_text time_text r = Inr (c, db') \<Longrightarrow>
    commits db db'"
| panel_inserts: "insert_appointment db a = Inr db' \<Longrightarrow> commits db db'"
| panel_updates: "update_appointment db a = Inr db' \<Longrightarrow> commits db db'"
| panel_reads: "commits db (db\<lparr>db_notifications := mark_notification_read env bid aid (db_notifications db)\<rparr>)"
| elsewhere: "db_appointments db' = db_appointments db \<Longrightarrow> db_notifications db' = db_notifications db \<Longrightarrow>
    db_push_events db' = db_push_events db \<Longrightarrow> commits db db'"

inductive reachable_db :: "booking_db \<Rightarrow> bool" where
  start: "db_appointments db = [] \<Longrightarrow> db_notifications db = [] \<Longrightarrow> db_push_events db = [] \<Longrightarrow>
    reachable_db db"
| step: "reachable_db db \<Longrightarrow> commits db db' \<Longrightarrow> reachable_db db'"

lemma commits_keeps: "commits db db' \<Longrightarrow> booking_invariant db \<Longrightarrow> booking_invariant db'"
proof (induction rule: commits.induct)
  case (panel_reads db env bid aid)
  then show ?case by (simp add: booking_invariant_def mark_read_apart)
next
  case (elsewhere db' db)
  then show ?case by (simp add: booking_invariant_def)
qed (blast intro: confirm_keeps cancel_booking_keeps reschedule_keeps insert_appointment_keeps
    update_appointment_keeps)+

lemma reachable_invariant: "reachable_db db \<Longrightarrow> booking_invariant db"
proof (induction rule: reachable_db.induct)
  case (step db db')
  then show ?case by (blast intro: commits_keeps)
qed (simp add: booking_invariant_def)

lemma apart_ids: "sorted_wrt (\<lambda>a x. \<not> clash a x) xs \<Longrightarrow> distinct (map ap_id xs)"
  by (induction xs) (auto simp: clash_def image_iff)

text \<open>
  C1. No technician is ever booked twice: in every state that committed confirmations,
  cancellations, moves and edits of the panel can reach, whatever stale data each of them had
  read, no two appointments have the same identifier or the same idempotency key, and the intervals
  that two confirmed appointments of a technician reserve, travel included, are disjoint.
\<close>

theorem no_double_booking:
  assumes "reachable_db db"
    and "a \<in> set (db_appointments db)" "x \<in> set (db_appointments db)" "a \<noteq> x"
  shows "distinct (map ap_id (db_appointments db))
    \<and> (ap_idempotency_key a = None \<or> ap_idempotency_key a \<noteq> ap_idempotency_key x)
    \<and> (ap_status a = ''confirmed'' \<and> ap_status x = ''confirmed'' \<and> ap_employee a = ap_employee x
        \<longrightarrow> reserved_end a \<le> reserved_start x \<or> reserved_end x \<le> reserved_start a)"
proof -
  have "booking_invariant db" using reachable_invariant [OF assms(1)] .
  then have w: "sorted_wrt (\<lambda>a x. \<not> clash a x) (db_appointments db)" by (simp add: booking_invariant_def)
  then have "distinct (map ap_id (db_appointments db))" by (rule apart_ids)
  moreover have "\<not> clash a x" using appointments.apart [of "db_appointments db" a x] w assms(2-) by simp
  ultimately show ?thesis by (auto simp: clash_def same_key_def excludes_def overlaps_def)
qed

section \<open>What a confirmation leaves\<close>

lemma attempt_result:
  assumes "attempt env r db a = Inr db'"
  shows "violation (db_appointments db) a = None"
    "db_appointments db' = db_appointments db @ [a]"
    "db_notifications db' = db_notifications db @
       [\<lparr>nt_business = ap_business a, nt_appointment = ap_id a,
         nt_event = ''automatic_booking_confirmed'', nt_read_at = None\<rparr>]"
    "length (db_push_events db') = length (db_push_events db) + 1"
  using assms
  by (auto elim!: attemptE dest!: insert_appointmentD insert_notificationD insert_push_eventD)

text \<open>
  C4. What a confirmation leaves: either the customer's appointment with the same idempotency key,
  already there, is the answer and nothing is written; or exactly one confirmed appointment is
  added, with the customer, service, start and plan requested, together with its one notification
  and its one push event.
\<close>

theorem confirm_result:
  assumes "confirm env fresh rdb wdb bid cid sid date_text time_text r = Inr (c, db')"
  shows "(db' = wdb \<and> (\<exists>key x. key_of r = Some key \<and> x \<in> set (db_appointments rdb) \<union> set (db_appointments wdb)
            \<and> ap_idempotency_key x = Some key \<and> ap_business x = bid \<and> ap_customer x = cid
            \<and> c = confirmation_of x))
    \<or> (\<exists>a z d t b s. db_appointments db' = db_appointments wdb @ [a] \<and> c = confirmation_of a
         \<and> ap_business a = bid \<and> ap_customer a = cid \<and> ap_service a = sid
         \<and> ap_status a = ''confirmed'' \<and> ap_idempotency_key a = br_idempotency_key r
         \<and> parse_date date_text = Inr d \<and> parse_time time_text = Inr t
         \<and> load_business_service rdb bid sid = Inr (b, s)
         \<and> timezone_of (be_zones env) (bz_timezone b) = Inr z \<and> ap_starts a = to_utc z (combine d t)
         \<and> minimum_bookable_date z (be_now env) \<le> d
         \<and> db_notifications db' = db_notifications wdb @
             [\<lparr>nt_business = bid, nt_appointment = ap_id a,
               nt_event = ''automatic_booking_confirmed'', nt_read_at = None\<rparr>]
         \<and> length (db_push_events db') = length (db_push_events wdb) + 1)"
  using assms
proof (rule confirmE)
  fix key x
  assume "key_of r = Some key" "find_idempotent rdb bid cid key = Some x" "c = confirmation_of x" "db' = wdb"
  then show ?thesis by (auto dest!: find_idempotentD)
next
  fix d t b s z plan ids entries
  assume d: "parse_date date_text = Inr d" "parse_time time_text = Inr t"
    and bs: "load_business_service rdb bid sid = Inr (b, s)"
    and z: "timezone_of (be_zones env) (bz_timezone b) = Inr z" "minimum_bookable_date z (be_now env) \<le> d"
    and tr: "try_employees env r wdb
         (map (\<lambda>emp. new_appointment (fresh emp) bid cid sid emp (to_utc z (combine d t)) r
            (employee_plan z entries plan emp (to_utc z (combine d t)))) ids) = Inr (c, db')"
  from try_employees_result [OF tr] show ?thesis
  proof (elim disjE bexE conjE exE)
    fix a
    assume "a \<in> set (map (\<lambda>emp. new_appointment (fresh emp) bid cid sid emp (to_utc z (combine d t)) r
            (employee_plan z entries plan emp (to_utc z (combine d t)))) ids)"
      and att: "attempt env r wdb a = Inr db'" and c: "c = confirmation_of a"
    then obtain emp p where a: "a = new_appointment (fresh emp) bid cid sid emp (to_utc z (combine d t)) r p"
      by auto
    show ?thesis
      by (rule disjI2, rule exI [of _ a], rule exI [of _ z], rule exI [of _ d], rule exI [of _ t],
          rule exI [of _ b], rule exI [of _ s]) (use attempt_result [OF att] d bs z c in \<open>simp add: a\<close>)
  next
    fix a key x
    assume "a \<in> set (map (\<lambda>emp. new_appointment (fresh emp) bid cid sid emp (to_utc z (combine d t)) r
            (employee_plan z entries plan emp (to_utc z (combine d t)))) ids)"
      and "key_of r = Some key" "db' = wdb" "c = confirmation_of x"
        "find_idempotent wdb (ap_business a) (ap_customer a) key = Some x"
    then show ?thesis by (auto dest!: find_idempotentD)
  qed
qed

section \<open>Repeated requests\<close>

text \<open>The row that carries a key is the only one.\<close>

lemma first_ex: "x \<in> set xs \<Longrightarrow> \<exists>y. first xs = Some y"
  by (cases xs) auto

lemma find_idempotent_unique:
  assumes "booking_invariant db" "x \<in> set (db_appointments db)" "ap_idempotency_key x = Some key"
    and "ap_business x = bid" "ap_customer x = cid"
  shows "find_idempotent db bid cid key = Some x"
proof -
  let ?f = "filter (\<lambda>a. ap_business a = bid \<and> ap_customer a = cid \<and> ap_idempotency_key a = Some key)
      (db_appointments db)"
  have "x \<in> set ?f" using assms by simp
  from first_ex [OF this] obtain y where y: "first ?f = Some y" ..
  then have "y \<in> set ?f" by (rule first_Some)
  then have y': "y \<in> set (db_appointments db)" "ap_idempotency_key y = Some key" by simp_all
  have "y = x"
  proof (rule ccontr)
    assume "y \<noteq> x"
    then have "\<not> clash y x"
      using appointments.apart y'(1) assms(1,2) unfolding booking_invariant_def by blast
    then show False using y'(2) assms(3) by (simp add: clash_def same_key_def)
  qed
  with y show ?thesis by (simp add: find_idempotent_def)
qed

lemma confirm_known:
  "key_of r = Some key \<Longrightarrow> find_idempotent rdb bid cid key = Some x \<Longrightarrow>
   confirm env fresh rdb wdb bid cid sid date_text time_text r = Inr (confirmation_of x, wdb)"
  by (simp add: confirm_def)

text \<open>
  C5. A repeated request is answered, not repeated: once a confirmation with an idempotency key
  has committed, every later request of the customer with that key, whatever service, date, time
  or address it names, gets the same confirmation and changes nothing.
\<close>

theorem confirm_idempotent:
  assumes "booking_invariant db"
    and "confirm env fresh db db bid cid sid date_text time_text r = Inr (c, db')"
    and "key_of r = Some key" and "key_of r2 = Some key"
  shows "confirm env2 fresh2 db' db' bid cid sid2 date2 time2 r2 = Inr (c, db')"
proof -
  have inv: "booking_invariant db'" using confirm_keeps assms(1,2) by blast
  have "\<exists>x \<in> set (db_appointments db'). ap_idempotency_key x = Some key \<and> ap_business x = bid
      \<and> ap_customer x = cid \<and> c = confirmation_of x"
    using confirm_result [OF assms(2)] assms(3) key_ofD [OF assms(3)] by auto
  then obtain x where "find_idempotent db' bid cid key = Some x" "c = confirmation_of x"
    using find_idempotent_unique [OF inv] by blast
  then show ?thesis using confirm_known assms(4) by simp
qed

text \<open>
  Two requests with the same key that race: when the second read the database before the
  first committed and tries the same technicians, the constraints of the table turn its insert
  away and it is answered with the first one's confirmation; nothing is written.
\<close>

theorem concurrent_confirm_collapses:
  assumes "booking_invariant wdb"
    and "confirm env fresh rdb wdb bid cid sid date_text time_text r = Inr (c, db')"
    and "key_of r = Some key" and "find_idempotent rdb bid cid key = None"
    and "\<forall>emp. \<forall>x \<in> set (db_appointments db'). ap_id x \<noteq> fresh2 emp"
  shows "confirm env fresh2 rdb db' bid cid sid date_text time_text r = Inr (c, db')"
  using assms(2)
proof (rule confirmE)
  fix key' x
  assume "key_of r = Some key'" "find_idempotent rdb bid cid key' = Some x"
  with assms(3,4) show ?thesis by simp
next
  fix d t b s z plan ids entries
  let ?new = "\<lambda>f emp. new_appointment (f emp) bid cid sid emp (to_utc z (combine d t)) r
      (employee_plan z entries plan emp (to_utc z (combine d t)))"
  assume none: "(case key_of r of Some key \<Rightarrow> find_idempotent rdb bid cid key | None \<Rightarrow> None) = None"
    and path: "parse_date date_text = Inr d" "parse_time time_text = Inr t"
      "load_business_service rdb bid sid = Inr (b, s)"
      "timezone_of (be_zones env) (bz_timezone b) = Inr z"
      "minimum_bookable_date z (be_now env) \<le> d"
      "plan_for (be_provider env) rdb b s r = Inr plan"
      "employees_for_exact_start (be_zones env) (be_provider env) (be_now env) rdb b s r plan d t None
         = Inr (ids, to_utc z (combine d t), entries)"
    and tr: "try_employees env r wdb (map (?new fresh) ids) = Inr (c, db')"
  have inv: "booking_invariant db'" using confirm_keeps assms(1,2) by blast
  have "\<exists>x \<in> set (db_appointments db'). ap_idempotency_key x = Some key \<and> ap_business x = bid
      \<and> ap_customer x = cid \<and> c = confirmation_of x"
    using try_employees_result [OF tr] key_ofD [OF assms(3)] assms(3)
    by (auto dest!: attempt_result(2) find_idempotentD)
  then obtain x where x: "x \<in> set (db_appointments db')" "ap_idempotency_key x = Some key"
    "find_idempotent db' bid cid key = Some x" "c = confirmation_of x"
    using find_idempotent_unique [OF inv] by blast
  have checks: "violated_check (?new fresh2 emp) = violated_check (?new fresh emp)" for emp
    by (simp add: violated_check_def new_appointment_def apply_snapshot_def)
  have refused: "attempt env r db' (?new fresh2 emp) = Inl (IntegrityError AppointmentIdempotency)"
    if "violated_check (?new fresh emp) = None" for emp
  proof -
    have "violation (db_appointments db') (?new fresh2 emp) = Some AppointmentIdempotency"
    proof -
      have "list_ex (same_key (?new fresh2 emp)) (db_appointments db')"
        using x(1,2) key_ofD [OF assms(3)] by (auto simp: list_ex_iff same_key_def intro: bexI [of _ x])
      moreover have "\<not> list_ex (\<lambda>x. ap_id x = ap_id (?new fresh2 emp)) (db_appointments db')"
        using assms(5) by (simp add: list_ex_iff)
      ultimately show ?thesis using that checks [of emp] by (simp add: violation_def)
    qed
    then show ?thesis by (simp add: attempt_def insert_appointment_def)
  qed
  obtain emp rest where ids: "ids = emp # rest" using tr by (cases ids) auto
  have "violated_check (?new fresh emp) = None"
  proof (rule ccontr)
    assume "violated_check (?new fresh emp) \<noteq> None"
    then obtain name where "attempt env r wdb (?new fresh emp) = Inl (IntegrityError (OtherConstraint name))"
      by (auto simp: attempt_def insert_appointment_def violation_def)
    with tr show False by (simp add: ids)
  qed
  then have "try_employees env r db' (map (?new fresh2) ids) = Inr (c, db')"
    using refused [of emp] x(3,4) assms(3) by (simp add: ids)
  then show ?thesis
    using none path by (simp add: confirm_def not_less)
qed

section \<open>Cancelling and moving\<close>

lemma update_appointment_mem:
  assumes "update_appointment db a = Inr db'" "x \<in> set (db_appointments db)" "ap_id x = ap_id a"
  shows "a \<in> set (db_appointments db')"
    "filter (\<lambda>x. ap_id x \<noteq> ap_id a) (db_appointments db') = filter (\<lambda>x. ap_id x \<noteq> ap_id a) (db_appointments db)"
proof -
  have db': "db' = db\<lparr>db_appointments := update_where (\<lambda>x. ap_id x = ap_id a) (\<lambda>_. a) (db_appointments db)\<rparr>"
    using update_appointmentD [OF assms(1)] by simp
  show "a \<in> set (db_appointments db')"
    using assms(2,3) by (force simp: db' update_where_def)
  have "filter (\<lambda>x. ap_id x \<noteq> ap_id a) (update_where (\<lambda>x. ap_id x = ap_id a) (\<lambda>_. a) as)
      = filter (\<lambda>x. ap_id x \<noteq> ap_id a) as" for as
    by (induction as) (auto simp: update_where_def)
  then show "filter (\<lambda>x. ap_id x \<noteq> ap_id a) (db_appointments db')
      = filter (\<lambda>x. ap_id x \<noteq> ap_id a) (db_appointments db)"
    by (simp add: db')
qed

lemma lock_unique:
  assumes "booking_invariant db" "a \<in> set (db_appointments db)"
  shows "lock_customer_appointment db (ap_business a) (ap_customer a) (ap_id a) = Inr a"
proof -
  let ?f = "filter (\<lambda>x. ap_id x = ap_id a \<and> ap_business x = ap_business a \<and> ap_customer x = ap_customer a)
      (db_appointments db)"
  have "a \<in> set ?f" using assms(2) by simp
  from first_ex [OF this] obtain y where y: "first ?f = Some y" ..
  then have "y \<in> set ?f" by (rule first_Some)
  then have y': "y \<in> set (db_appointments db)" "ap_id y = ap_id a" by simp_all
  have "y = a"
  proof (rule ccontr)
    assume "y \<noteq> a"
    then have "\<not> clash y a"
      using appointments.apart y'(1) assms unfolding booking_invariant_def by blast
    then show False using y'(2) by (simp add: clash_def)
  qed
  with y show ?thesis by (simp add: lock_customer_appointment_def)
qed

text \<open>
  C7. Cancelling frees the technician, touches no other appointment, and cancelling again
  answers the same and changes nothing.
\<close>

theorem cancel_frees:
  assumes "booking_invariant db" and "cancel_booking env db bid cid aid = Inr (c, db')"
  shows "(\<exists>a \<in> set (db_appointments db'). ap_id a = aid \<and> ap_status a = ''cancelled''
        \<and> c = confirmation_of a \<and> (\<forall>x. \<not> excludes x a))
    \<and> filter (\<lambda>x. ap_id x \<noteq> aid) (db_appointments db') = filter (\<lambda>x. ap_id x \<noteq> aid) (db_appointments db)
    \<and> cancel_booking env2 db' bid cid aid = Inr (c, db')"
  using assms(2)
proof (rule cancel_bookingE)
  fix a
  assume l: "lock_customer_appointment db bid cid aid = Inr a" and c: "c = confirmation_of a"
    and br: "ap_status a = ''cancelled'' \<and> db' = db
     \<or> ap_status a = ''confirmed''
       \<and> (\<exists>db1. update_appointment db (a\<lparr>ap_status := ''cancelled''\<rparr>) = Inr db1
            \<and> db' = db1\<lparr>db_notifications := mark_notification_read env bid aid (db_notifications db1)\<rparr>)"
  note a = lock_customer_appointmentD [OF l]
  have inv: "booking_invariant db'" using cancel_booking_keeps assms by blast
  let ?a = "a\<lparr>ap_status := ''cancelled''\<rparr>"
  have kept: "?a \<in> set (db_appointments db')
      \<and> filter (\<lambda>x. ap_id x \<noteq> aid) (db_appointments db') = filter (\<lambda>x. ap_id x \<noteq> aid) (db_appointments db)"
    using br
  proof (elim disjE conjE exE)
    assume st: "ap_status a = ''cancelled''" "db' = db"
    then have eq: "?a = a" by (cases a) simp
    show ?thesis unfolding eq using a st by simp
  next
    fix db1
    assume u: "update_appointment db ?a = Inr db1"
      and db': "db' = db1\<lparr>db_notifications := mark_notification_read env bid aid (db_notifications db1)\<rparr>"
    have "ap_id a = ap_id ?a" by simp
    from update_appointment_mem [OF u conjunct1 [OF a] this] a show ?thesis by (simp add: db')
  qed
  then have "lock_customer_appointment db' bid cid aid = Inr ?a"
    using lock_unique [OF inv, of ?a] a by simp
  moreover have "confirmation_of ?a = c" by (simp add: c confirmation_of_def)
  ultimately have again: "cancel_booking env2 db' bid cid aid = Inr (c, db')"
    by (simp add: cancel_booking_def)
  show ?thesis
    using kept again a \<open>confirmation_of ?a = c\<close>
    by (intro conjI bexI [of _ ?a]) (auto simp: excludes_def)
qed

lemma moved_appointment_sel [simp]:
  "ap_id (moved_appointment env a emp st r p) = ap_id a"
  "ap_business (moved_appointment env a emp st r p) = ap_business a"
  "ap_customer (moved_appointment env a emp st r p) = ap_customer a"
  "ap_service (moved_appointment env a emp st r p) = ap_service a"
  "ap_employee (moved_appointment env a emp st r p) = emp"
  "ap_starts (moved_appointment env a emp st r p) = st"
  "ap_ends (moved_appointment env a emp st r p) = st + minutes (se_duration (bp_service p))"
  "ap_status (moved_appointment env a emp st r p) = ''confirmed''"
  "ap_before (moved_appointment env a emp st r p) = bp_before p"
  "ap_after (moved_appointment env a emp st r p) = bp_after p"
  "ap_idempotency_key (moved_appointment env a emp st r p) = ap_idempotency_key a"
  by (simp_all add: moved_appointment_def apply_snapshot_def Let_def)

lemma moved_appointment_details:
  "dict_get (ap_details (moved_appointment env a emp st r p)) ''reschedule_pending'' = Some (PBool False)"
  "dict_get (ap_details (moved_appointment env a emp st r p)) ''reschedule_original_starts_at''
     = Some (detail_or_none (ap_details a) ''reschedule_original_starts_at'')"
  by (simp_all add: moved_appointment_def Let_def dict_get_update)

lemma filter_only_id:
  assumes "distinct (map f xs)" and "m \<in> set xs" and "f m = i"
  shows "filter (\<lambda>x. f x = i) xs = [m]"
proof -
  obtain ys zs where xs: "xs = ys @ m # zs" using split_list [OF assms(2)] by blast
  have "f m \<notin> f ` set (ys @ zs)" using assms(1) by (simp add: xs image_Un)
  then have "f x \<noteq> i" if "x \<in> set (ys @ zs)" for x
    using that assms(3) by (metis imageI)
  then have "filter (\<lambda>x. f x = i) ys = []" "filter (\<lambda>x. f x = i) zs = []"
    by (simp_all add: filter_empty_conv)
  then show ?thesis using assms(3) by (simp add: xs)
qed

text \<open>
  C8. Moving a booking keeps what it is and where it came from: the same appointment, customer,
  service and idempotency key, confirmed at the start asked for, no longer pending, with the
  original start recorded, is the only row with its identifier; no other appointment changes and
  none of them collides with it.
\<close>

theorem reschedule_result:
  assumes "booking_invariant wdb" and "reschedule_booking_atomic env rdb wdb bid cid aid date_text time_text r = Inr (c, db')"
    and "lock_customer_appointment rdb bid cid aid = Inr a" and "a \<in> set (db_appointments wdb)"
  shows "\<exists>m. filter (\<lambda>x. ap_id x = aid) (db_appointments db') = [m] \<and> c = confirmation_of m
    \<and> ap_id m = aid \<and> ap_customer m = cid \<and> ap_service m = ap_service a
    \<and> ap_idempotency_key m = ap_idempotency_key a \<and> ap_status m = ''confirmed''
    \<and> \<not> pending_reschedule m
    \<and> dict_get (ap_details m) ''reschedule_original_starts_at''
        = Some (detail_or_none (ap_details a) ''reschedule_original_starts_at'')
    \<and> filter (\<lambda>x. ap_id x \<noteq> aid) (db_appointments db') = filter (\<lambda>x. ap_id x \<noteq> aid) (db_appointments wdb)
    \<and> (\<forall>x \<in> set (db_appointments wdb). ap_id x \<noteq> aid \<longrightarrow> \<not> excludes m x)"
  using assms(2)
proof (rule rescheduleE)
  fix a' d t b s z plan ids entries
  assume l: "lock_customer_appointment rdb bid cid aid = Inr a'"
    and tr: "try_moves wdb (map (\<lambda>emp. moved_appointment env a' emp (to_utc z (combine d t)) r plan) ids)
       = Inr (c, db')"
  have a': "a' = a" using l assms(3) by simp
  note a = lock_customer_appointmentD [OF assms(3)]
  from try_moves_result [OF tr] obtain emp where
    u: "update_appointment wdb (moved_appointment env a emp (to_utc z (combine d t)) r plan) = Inr db'"
    and c: "c = confirmation_of (moved_appointment env a emp (to_utc z (combine d t)) r plan)"
    by (auto simp: a')
  let ?m = "moved_appointment env a emp (to_utc z (combine d t)) r plan"
  note mem = update_appointment_mem [OF u assms(4), simplified]
  have free: "\<forall>x \<in> set (db_appointments wdb). ap_id x \<noteq> aid \<longrightarrow> \<not> excludes ?m x"
    using update_appointmentD [OF u] a by (auto simp: violation_None clash_def)
  have "booking_invariant db'" using reschedule_keeps assms(1,2) by blast
  then have "distinct (map ap_id (db_appointments db'))" by (auto simp: booking_invariant_def intro: apart_ids)
  then have only: "filter (\<lambda>x. ap_id x = aid) (db_appointments db') = [?m]"
    using mem a by (intro filter_only_id) auto
  show ?thesis
    using mem only a c free moved_appointment_details by (intro exI [of _ ?m]) (simp_all add: pending_reschedule_def)
qed

section \<open>From the listing to the booking\<close>

text \<open>What foreign keys and generated identifiers guarantee.\<close>

definition owners_ok :: "booking_db \<Rightarrow> bool" where
  "owners_ok db \<longleftrightarrow>
     distinct (map em_id (db_employees db))
     \<and> list_all (\<lambda>a. list_ex (\<lambda>e. em_id e = ap_employee a \<and> em_business e = ap_business a)
          (db_employees db)) (db_appointments db)"

definition fresh_ok :: "booking_env \<Rightarrow> booking_db \<Rightarrow> (uuid \<Rightarrow> uuid) \<Rightarrow> bool" where
  "fresh_ok env db fresh \<longleftrightarrow>
     (\<forall>emp. list_all (\<lambda>a. ap_id a \<noteq> fresh emp) (db_appointments db)
        \<and> list_all (\<lambda>n. nt_appointment n \<noteq> fresh emp) (db_notifications db)
        \<and> list_all (\<lambda>e. pe_key e \<noteq> ''automatic_booking:'' @ be_uuid_text env (fresh emp))
            (db_push_events db))"

definition key_unused :: "booking_db \<Rightarrow> booking_requirements \<Rightarrow> bool" where
  "key_unused db r \<longleftrightarrow>
     br_idempotency_key r = None
     \<or> list_all (\<lambda>a. ap_idempotency_key a \<noteq> br_idempotency_key r) (db_appointments db)"

lemma owner_of_eligible:
  assumes "owners_ok db" "emp \<in> set (eligible_employees db bid sid)"
    and "a \<in> set (db_appointments db)" "ap_employee a = emp"
  shows "ap_business a = bid"
proof -
  from assms(2) obtain e where e: "e \<in> set (db_employees db)" "em_id e = emp" "em_business e = bid"
    by (auto simp: eligible_employees_def)
  from assms(1,3,4) obtain f where f: "f \<in> set (db_employees db)" "em_id f = emp" "em_business f = ap_business a"
    by (auto simp: owners_ok_def list_all_iff list_ex_iff)
  have "inj_on em_id (set (db_employees db))" using assms(1) by (simp add: owners_ok_def distinct_map)
  then have "e = f" using e(1,2) f(1,2) by (simp add: inj_on_def)
  with e f show ?thesis by simp
qed

lemma attempt_succeeds:
  assumes "violation (db_appointments db) a = None"
    and "list_all (\<lambda>n. nt_appointment n \<noteq> ap_id a) (db_notifications db)"
    and "list_all (\<lambda>e. pe_key e \<noteq> ''automatic_booking:'' @ be_uuid_text env (ap_id a)) (db_push_events db)"
  shows "\<exists>db'. attempt env r db a = Inr db'"
proof -
  have "\<not> list_ex (same_notification \<lparr>nt_business = ap_business a, nt_appointment = ap_id a,
      nt_event = ''automatic_booking_confirmed'', nt_read_at = None\<rparr>) (db_notifications db)"
    using assms(2) by (auto simp: list_all_iff list_ex_iff same_notification_def)
  moreover have "\<not> list_ex (\<lambda>x. pe_key x = ''automatic_booking:'' @ be_uuid_text env (ap_id a)) (db_push_events db)"
    using assms(3) by (simp only: list_all_iff list_ex_iff) blast
  ultimately show ?thesis
    using assms(1) unfolding attempt_def insert_appointment_def insert_notification_def insert_push_event_def
    by simp
qed

lemma candidate_plan_for_mem:
  assumes "(emp, c, p) \<in> set entries" "steady z"
  obtains p' where "candidate_plan_for z entries emp (to_utc z c) = Some p'" "(emp, c, p') \<in> set entries"
proof -
  let ?m = "rev (map (\<lambda>(e, c, p). ((e, to_utc z c), p)) entries)"
  have "((emp, to_utc z c), p) \<in> set ?m" using assms(1) by force
  from weak_map_of_SomeI [OF this] obtain p' where p': "map_of ?m (emp, to_utc z c) = Some p'" ..
  from map_of_SomeD [OF this] obtain c' where "(emp, c', p') \<in> set entries" "to_utc z c' = to_utc z c"
    by auto
  then have "(emp, c, p') \<in> set entries" using assms(2) by (simp add: steady_inj)
  with p' show thesis by (intro that) (simp_all add: candidate_plan_for_def)
qed

lemma new_appointment_checks:
  assumes "0 < se_duration (bp_service p)" "0 \<le> bp_before p" "0 \<le> bp_after p" "requirements_ok r"
  shows "violated_check (new_appointment i bid cid sid emp st r p) = None"
proof -
  have "0 < minutes (se_duration (bp_service p))" using assms(1) by simp
  moreover have q: "0 < quantity_recorded r"
    using assms(4)
    by (auto simp: quantity_recorded_def requirements_ok_def mk_requirements_def split: option.splits if_splits)
  moreover have "access_condition_value v \<in> {''normal'', ''difficult'', ''unknown''}" for v by (cases v) simp_all
  moreover have "pricing_type_value v \<in> {''fixed'', ''estimated'', ''human_quote''}" for v
    by (cases v) simp_all
  ultimately show ?thesis
    using assms by (simp add: not_le violated_check_def new_appointment_def apply_snapshot_def)
qed

text \<open>
  C6. What is listed can be booked: a customer who picks any time the agenda listed for a date
  gets it. The confirmation succeeds, at exactly that start, as long as nothing was committed in
  between.
\<close>

theorem listed_time_confirms:
  assumes "list_times (be_zones env) (be_provider env) (be_now env) db bid sid selected r = Inr opts"
    and "t \<in> set opts" and "load_business_service db bid sid = Inr (b, s)"
    and "timezone_of (be_zones env) (bz_timezone b) = Inr z" and "steady z"
    and "provider_ok (be_provider env)" and "service_row_ok s" and "tables_ok db b"
    and "owners_ok db" and "fresh_ok env db fresh" and "requirements_ok r" and "key_unused db r"
  shows "\<exists>c db' d tod. confirm env fresh db db bid cid sid selected (bo_id t) r = Inr (c, db')
    \<and> parse_date selected = Inr d \<and> parse_time (bo_id t) = Inr tod
    \<and> cn_starts c = to_utc z (combine d tod)"
proof -
  obtain d tod plan ids entries where
    d: "parse_date selected = Inr d" "minimum_bookable_date z (be_now env) \<le> d" "parse_time (bo_id t) = Inr tod"
    and plan: "plan_for (be_provider env) db b s r = Inr plan" and ids: "ids \<noteq> []"
    and ex: "employees_for_exact_start (be_zones env) (be_provider env) (be_now env) db b s r plan d tod None
        = Inr (ids, to_utc z (combine d tod), entries)"
    using listed_time_found [OF assms(1-8)] by blast
  have st: "available_starts (be_zones env) (be_provider env) (be_now env) db b s r plan d d None = Inr entries"
    and idsd: "ids = employees_at z entries (combine d tod)"
    using ex assms(4) by (auto simp: employees_for_exact_start_def Let_def split: sum.splits if_splits)
  note base = plan_for_base [OF assms(6,7) plan]
  obtain items where bp: "build_plan (be_provider env) items b s r = Inr plan"
    using plan by (auto simp: plan_for_def split: sum.splits)
  have bid: "bz_id b = bid" using assms(3)
    by (auto simp: load_business_service_def dest!: first_Some split: option.splits if_splits)
  obtain emp rest where emp: "ids = emp # rest" using ids by (cases ids) auto
  then have "emp \<in> set (employees_at z entries (combine d tod))" using idsd by (metis list.set_intros(1))
  then obtain p0 where "(emp, combine d tod, p0) \<in> set entries" by (auto simp: employees_at_def)
  then obtain p where p: "candidate_plan_for z entries emp (to_utc z (combine d tod)) = Some p"
    "(emp, combine d tod, p) \<in> set entries"
    using candidate_plan_for_mem assms(5) by metis
  let ?a = "new_appointment (fresh emp) bid cid sid emp (to_utc z (combine d tod)) r p"
  obtain cap rng where off: "emp \<in> set (cp_employees cap)" "fst rng = emp"
      "load_capacity db (bz_id b) (sv_id s) (day_start z d) (day_start z (d + 1)) None = Inr cap"
      "slot_offered (slot_request_for z (be_provider env) (be_now env) b r plan cap) d rng (combine d tod) p"
    by (rule offered_inside_day [OF st p(2) assms(4,5) base assms(8)]) (metis order_antisym)
  have p_ok: "bp_service p = bp_service plan" "0 \<le> bp_before p" "0 \<le> bp_after p"
    using off(4) by (auto simp: slot_offered_def Let_def candidate_plan_def split: prod.splits
        dest: schedule_aware_planE(1-3) [OF base])
  have "emp \<in> set (eligible_employees db (bz_id b) (sv_id s))"
    using off(1,3) by (auto elim!: load_capacityE)
  then have own: "x \<in> set (db_appointments db) \<Longrightarrow> ap_employee x = emp \<Longrightarrow> ap_business x = bid" for x
    using owner_of_eligible [OF assms(9)] bid by metis
  have "\<not> clash ?a x" if x: "x \<in> set (db_appointments db)" for x
  proof -
    have "\<not> excludes ?a x"
      using offered_start_free [OF st p(2) assms(4-7) bp assms(8)] own [OF x] x bid p_ok(1)
      by (auto simp: excludes_def overlaps_def reserved_start_def [of ?a] reserved_end_def [of ?a]
          minutes_add algebra_simps)
    moreover have "\<not> same_key ?a x"
      using assms(12) x by (auto simp: key_unused_def same_key_def list_all_iff)
    moreover have "ap_id x \<noteq> ap_id ?a" using assms(10) x by (simp add: fresh_ok_def list_all_iff)
    ultimately show ?thesis by (simp add: clash_def)
  qed
  moreover have "violated_check ?a = None"
    using base p_ok assms(11) by (intro new_appointment_checks) (simp_all add: base_plan_def)
  ultimately have "violation (db_appointments db) ?a = None" by (simp add: violation_None)
  moreover have "list_all (\<lambda>n. nt_appointment n \<noteq> ap_id ?a) (db_notifications db)"
    "list_all (\<lambda>e. pe_key e \<noteq> ''automatic_booking:'' @ be_uuid_text env (ap_id ?a)) (db_push_events db)"
    using assms(10) by (simp_all add: fresh_ok_def)
  ultimately obtain db' where "attempt env r db ?a = Inr db'"
    using attempt_succeeds by blast
  moreover have "find_idempotent db bid cid key = None" if "key_of r = Some key" for key
    using assms(12) key_ofD [OF that]
    by (auto simp: find_idempotent_def filter_empty_conv key_unused_def list_all_iff)
  ultimately have "confirm env fresh db db bid cid sid selected (bo_id t) r = Inr (confirmation_of ?a, db')"
    using d plan ex assms(3,4) p(1)
    by (simp add: confirm_def emp employee_plan_def not_less split: option.split)
  then show ?thesis using d by (intro exI) (auto simp: confirmation_of_def)
qed

section \<open>The sample shop takes a booking\<close>

definition sample_env :: booking_env where
  "sample_env =
     \<lparr>be_zones = sample_zones, be_provider = None, be_now = sample_now,
      be_uuid_text = (\<lambda>u. str_of_int (int u)), be_parse_uuid = (\<lambda>s. None),
      be_iso = (\<lambda>u. str_of_int u)\<rparr>"

definition sample_fresh :: "uuid \<Rightarrow> uuid" where "sample_fresh emp = 200 + emp"

definition sample_booked :: appointment where
  "sample_booked = new_appointment 207 1 41 5 7 (to_utc sample_zone sample_start) sample_request sample_plan"

definition sample_booked_db :: booking_db where
  "sample_booked_db = sample_db
     \<lparr>db_appointments := [sample_appointment, sample_booked],
      db_notifications := [\<lparr>nt_business = 1, nt_appointment = 207,
         nt_event = ''automatic_booking_confirmed'', nt_read_at = None\<rparr>],
      db_push_events := [\<lparr>pe_business = 1, pe_key = ''automatic_booking:207'',
         pe_type = ''automatic_booking'', pe_path = ''/app/agenda''\<rparr>]\<rparr>"

lemma sample_confirm:
  "confirm sample_env sample_fresh sample_db sample_db 1 41 5 ''2026-03-09'' ''14:00'' sample_request
   = Inr (confirmation_of sample_booked, sample_booked_db)"
  by code_simp

lemma sample_reachable: "reachable_db sample_db"
proof -
  have "reachable_db (sample_db\<lparr>db_appointments := []\<rparr>)"
    by (rule reachable_db.start) (simp_all add: sample_db_def)
  moreover have "insert_appointment (sample_db\<lparr>db_appointments := []\<rparr>) sample_appointment = Inr sample_db"
    by code_simp
  ultimately show ?thesis by (blast intro: reachable_db.step panel_inserts)
qed

lemma sample_booked_reachable: "reachable_db sample_booked_db"
  using sample_reachable confirms [OF sample_confirm] by (rule reachable_db.step)

theorem no_double_booking_witness:
  "ap_status sample_appointment = ''confirmed'' \<and> ap_status sample_booked = ''confirmed''
   \<and> (reserved_end sample_appointment \<le> reserved_start sample_booked
      \<or> reserved_end sample_booked \<le> reserved_start sample_appointment)"
proof -
  have ne: "sample_appointment \<noteq> sample_booked" by code_simp
  have confirmed: "ap_status sample_appointment = ''confirmed''" "ap_status sample_booked = ''confirmed''"
    "ap_employee sample_appointment = ap_employee sample_booked"
    by (simp_all add: sample_booked_def sample_appointment_def)
  show ?thesis
    using no_double_booking [OF sample_booked_reachable _ _ ne] confirmed by (simp add: sample_booked_db_def)
qed

theorem confirm_result_witness:
  "length (db_appointments sample_booked_db) = length (db_appointments sample_db) + 1"
proof -
  have "sample_booked_db \<noteq> sample_db" by code_simp
  with confirm_result [OF sample_confirm] show ?thesis by auto
qed

lemma sample_key: "key_of sample_request = Some ''conversa-2''"
  by code_simp

theorem confirm_idempotent_witness:
  "confirm sample_env sample_fresh sample_booked_db sample_booked_db 1 41 9 ''2026-04-01'' ''08:00''
     (sample_request\<lparr>br_quantity := Some 4\<rparr>) = Inr (confirmation_of sample_booked, sample_booked_db)"
proof -
  have "key_of (sample_request\<lparr>br_quantity := Some 4\<rparr>) = Some ''conversa-2''" by code_simp
  then show ?thesis
    using confirm_idempotent [OF reachable_invariant [OF sample_reachable] sample_confirm sample_key] by blast
qed

theorem concurrent_confirm_collapses_witness:
  "confirm sample_env (\<lambda>emp. 300 + emp) sample_db sample_booked_db 1 41 5 ''2026-03-09'' ''14:00''
     sample_request = Inr (confirmation_of sample_booked, sample_booked_db)"
proof -
  have "find_idempotent sample_db 1 41 ''conversa-2'' = None" by code_simp
  from concurrent_confirm_collapses [OF reachable_invariant [OF sample_reachable] sample_confirm
      sample_key this, of "\<lambda>emp. 300 + emp"]
  show ?thesis by (simp add: sample_booked_db_def sample_booked_def sample_appointment_def)
qed

definition sample_cancelled_db :: booking_db where
  "sample_cancelled_db = sample_booked_db
     \<lparr>db_appointments := [sample_appointment, sample_booked\<lparr>ap_status := ''cancelled''\<rparr>],
      db_notifications := [\<lparr>nt_business = 1, nt_appointment = 207,
         nt_event = ''automatic_booking_confirmed'', nt_read_at = Some sample_now\<rparr>]\<rparr>"

theorem cancel_frees_witness:
  "cancel_booking sample_env sample_cancelled_db 1 41 207
   = Inr (confirmation_of sample_booked, sample_cancelled_db)"
proof -
  have "cancel_booking sample_env sample_booked_db 1 41 207
      = Inr (confirmation_of sample_booked, sample_cancelled_db)" by code_simp
  from cancel_frees [OF reachable_invariant [OF sample_booked_reachable] this, of sample_env]
  show ?thesis by blast
qed

theorem reschedule_result_witness:
  "\<exists>m db'. reschedule_booking_atomic sample_env sample_booked_db sample_booked_db 1 41 207
       ''2026-03-16'' ''10:00'' sample_request = Inr (confirmation_of m, db')
     \<and> ap_id m = 207 \<and> ap_idempotency_key m = Some ''conversa-2''"
proof -
  let ?m = "moved_appointment sample_env sample_booked 7
      (to_utc sample_zone (combine (sample_monday + 7) (minutes 600))) sample_request sample_plan"
  let ?db = "sample_booked_db\<lparr>db_appointments := [sample_appointment, ?m]\<rparr>"
  have run: "reschedule_booking_atomic sample_env sample_booked_db sample_booked_db 1 41 207
      ''2026-03-16'' ''10:00'' sample_request = Inr (confirmation_of ?m, ?db)" by code_simp
  have lock: "lock_customer_appointment sample_booked_db 1 41 207 = Inr sample_booked" by code_simp
  have "sample_booked \<in> set (db_appointments sample_booked_db)" by (simp add: sample_booked_db_def)
  from reschedule_result [OF reachable_invariant [OF sample_booked_reachable] run lock this] obtain m where m:
    "confirmation_of ?m = confirmation_of m" "ap_id m = 207"
    "ap_idempotency_key m = ap_idempotency_key sample_booked" by blast
  have "ap_idempotency_key sample_booked = Some ''conversa-2''" by code_simp
  with m run show ?thesis by metis
qed

theorem listed_time_confirms_witness:
  "\<exists>c db'. confirm sample_env sample_fresh sample_db sample_db 1 41 5 ''2026-03-09'' ''14:00''
     sample_request = Inr (c, db') \<and> cn_starts c = to_utc sample_zone sample_start"
proof -
  have env: "be_zones sample_env = sample_zones" "be_provider sample_env = None" "be_now sample_env = sample_now"
    by (simp_all add: sample_env_def)
  have oks: "owners_ok sample_db" "requirements_ok sample_request" "key_unused sample_db sample_request"
    "parse_date ''2026-03-09'' = Inr sample_monday" "parse_time ''14:00'' = Inr (minutes 840)"
    by code_simp+
  have fresh: "fresh_ok sample_env sample_db sample_fresh"
    by (simp add: fresh_ok_def sample_db_def sample_fresh_def sample_appointment_def)
  show ?thesis
    using listed_time_confirms [of sample_env sample_db 1 5 "''2026-03-09''" sample_request
        "[\<lparr>bo_id = ''14:00'', bo_label = ''14:00''\<rparr>]" "\<lparr>bo_id = ''14:00'', bo_label = ''14:00''\<rparr>"
        sample_shop sample_service sample_zone sample_fresh 41]
      sample_times sample_service_loaded sample_timezone sample_service_ok sample_tables_ok oks fresh
    by (auto simp: env sample_start_def)
qed

section \<open>Where moving falls short\<close>

text \<open>
  A neighbour at the same address right after the slot. The plan computed for the slot needs no
  travel after it; the base plan of the request does.
\<close>

definition sample_neighbour :: appointment where
  "sample_neighbour = sample_appointment
     \<lparr>ap_starts := to_utc sample_zone (combine sample_monday (minutes 675)),
      ap_ends := to_utc sample_zone (combine sample_monday (minutes 735)), ap_before := 0,
      ap_address := Some [(''address_line'', PStr ''R 2'')]\<rparr>"

definition sample_moving :: appointment where
  "sample_moving = sample_appointment
     \<lparr>ap_id := 101, ap_customer := 41, ap_idempotency_key := None,
      ap_starts := to_utc sample_zone (combine sample_monday (minutes 840)),
      ap_ends := to_utc sample_zone (combine sample_monday (minutes 900))\<rparr>"

definition sample_moving_request :: booking_requirements where
  "sample_moving_request = sample_request
     \<lparr>br_idempotency_key := None,
      br_address := Some \<lparr>address_line = ''R 2'', sa_number = None, sa_complement = None,
        sa_neighborhood = None, sa_city = None, sa_state = None, sa_postal_code = None\<rparr>\<rparr>"

definition sample_moving_db :: booking_db where
  "sample_moving_db = sample_db
     \<lparr>db_appointments := [sample_neighbour, sample_moving],
      db_businesses := [sample_shop\<lparr>bz_origin_address := Some ''R 9''\<rparr>]\<rparr>"

text \<open>
  Moving reserves the wrong travel: \<open>reschedule_booking_atomic\<close> stores the base plan of
  the request where \<open>confirm\<close> stores the plan computed for the technician and the slot. A
  time that the agenda lists, and that a new booking gets, is refused when an existing booking of
  the same customer moves to it.
\<close>

theorem move_refuses_listed_time:
  "list_times sample_zones None sample_now sample_moving_db 1 5 ''2026-03-09'' sample_moving_request
     = Inr [\<lparr>bo_id = ''10:00'', bo_label = ''10:00''\<rparr>]
   \<and> (\<exists>c db'. confirm sample_env sample_fresh sample_moving_db sample_moving_db 1 41 5 ''2026-03-09'' ''10:00''
         sample_moving_request = Inr (c, db'))
   \<and> reschedule_booking_atomic sample_env sample_moving_db sample_moving_db 1 41 101 ''2026-03-09'' ''10:00''
       sample_moving_request = Inl (SlotUnavailable ''Selected slot is unavailable'')"
proof (intro conjI)
  have "case confirm sample_env sample_fresh sample_moving_db sample_moving_db 1 41 5 ''2026-03-09'' ''10:00''
         sample_moving_request of Inl e \<Rightarrow> False | Inr cd \<Rightarrow> True" by code_simp
  then show "\<exists>c db'. confirm sample_env sample_fresh sample_moving_db sample_moving_db 1 41 5 ''2026-03-09''
      ''10:00'' sample_moving_request = Inr (c, db')" by (auto split: sum.splits)
qed code_simp+

end
