(* ===== verification/LoginLimiter.thy ===== *)
theory LoginLimiter
  imports Prelude Complex_Main
begin

text \<open>
  The sliding-window limiter of \<open>app/auth/rate_limit.py\<close> that guards logins and password
  resets. The clock is a rational number of seconds; \<open>token_hash\<close>, a digest, is a parameter.
\<close>

section \<open>The limiter\<close>

record limiter_config =
  lc_global_limit :: int
  lc_global_window :: int
  lc_email_limit :: int
  lc_email_window :: int
  lc_max_buckets :: int

text \<open>A dictionary is its list of items in insertion order, a deque its list from the left.\<close>

record limiter =
  lm_global :: "rat list"
  lm_emails :: "(string \<times> rat list) list"

definition new_limiter :: limiter where
  "new_limiter = \<lparr>lm_global = [], lm_emails = []\<rparr>"

definition login_limits :: limiter_config where
  "login_limits = \<lparr>lc_global_limit = 120, lc_global_window = 60, lc_email_limit = 8,
     lc_email_window = 15 * 60, lc_max_buckets = 4096\<rparr>"

definition password_reset_limits :: limiter_config where
  "password_reset_limits = \<lparr>lc_global_limit = 60, lc_global_window = 60, lc_email_limit = 5,
     lc_email_window = 60 * 60, lc_max_buckets = 4096\<rparr>"

definition prune :: "rat \<Rightarrow> int \<Rightarrow> rat list \<Rightarrow> rat list" where
  "prune now window bucket = dropWhile (\<lambda>t. t \<le> now - of_int window) bucket"

text \<open>\<open>_limited\<close>: the whole seconds of the \<open>Retry-After\<close> header.\<close>

definition retry_seconds :: "rat list \<Rightarrow> rat \<Rightarrow> int \<Rightarrow> int" where
  "retry_seconds bucket now window =
     max 1 (ceiling (case bucket of t # _ \<Rightarrow> t + of_int window - now | [] \<Rightarrow> 1))"

datatype verdict = Admitted | TooMany int

fun emails_get :: "(string \<times> rat list) list \<Rightarrow> string \<Rightarrow> rat list option" where
  "emails_get [] k = None"
| "emails_get ((k', b) # es) k = (if k' = k then Some b else emails_get es k)"

fun emails_put :: "(string \<times> rat list) list \<Rightarrow> string \<Rightarrow> rat list \<Rightarrow> (string \<times> rat list) list" where
  "emails_put [] k b = [(k, b)]"
| "emails_put ((k', b') # es) k b = (if k' = k then (k, b) # es else (k', b') # emails_put es k b)"

definition emails_pop :: "(string \<times> rat list) list \<Rightarrow> string \<Rightarrow> (string \<times> rat list) list" where
  "emails_pop es k = filter (\<lambda>e. fst e \<noteq> k) es"

definition cleanup_emails ::
  "limiter_config \<Rightarrow> rat \<Rightarrow> (string \<times> rat list) list \<Rightarrow> (string \<times> rat list) list" where
  "cleanup_emails c now es =
     (if int (length es) \<le> lc_max_buckets c then es
      else
        let live = filter (\<lambda>e. snd e \<noteq> []) (map (\<lambda>(k, b). (k, prune now (lc_email_window c) b)) es)
        in drop (length live - nat (lc_max_buckets c)) live)"

definition acquire ::
  "(string \<Rightarrow> string) \<Rightarrow> limiter_config \<Rightarrow> rat \<Rightarrow> string \<Rightarrow> limiter \<Rightarrow> verdict \<times> limiter" where
  "acquire hash c now email s =
     (let key = hash email;
          g = prune now (lc_global_window c) (lm_global s)
      in if lc_global_limit c \<le> int (length g)
         then (TooMany (retry_seconds g now (lc_global_window c)), s\<lparr>lm_global := g\<rparr>)
         else
           let b = prune now (lc_email_window c) (case emails_get (lm_emails s) key of Some b \<Rightarrow> b | None \<Rightarrow> [])
           in if lc_email_limit c \<le> int (length b)
              then (TooMany (retry_seconds b now (lc_email_window c)),
                    \<lparr>lm_global = g, lm_emails = emails_put (lm_emails s) key b\<rparr>)
              else (Admitted,
                    \<lparr>lm_global = g @ [now],
                     lm_emails = cleanup_emails c now (emails_put (lm_emails s) key (b @ [now]))\<rparr>))"

definition succeed :: "(string \<Rightarrow> string) \<Rightarrow> string \<Rightarrow> limiter \<Rightarrow> limiter" where
  "succeed hash email s = s\<lparr>lm_emails := emails_pop (lm_emails s) (hash email)\<rparr>"

section \<open>Runs of the limiter\<close>

text \<open>
  A run interleaves attempts and successful logins at times that do not decrease. It keeps the
  attempts admitted, with their keys, and for each key those since its last successful login.
\<close>

record limiter_run =
  lr_state :: limiter
  lr_clock :: rat
  lr_log :: "rat list"
  lr_since :: "string \<Rightarrow> rat list"

definition initial_run :: "rat \<Rightarrow> limiter_run" where
  "initial_run t = \<lparr>lr_state = new_limiter, lr_clock = t, lr_log = [], lr_since = (\<lambda>_. [])\<rparr>"

inductive limiter_step ::
  "(string \<Rightarrow> string) \<Rightarrow> limiter_config \<Rightarrow> limiter_run \<Rightarrow> limiter_run \<Rightarrow> bool" for hash c where
  admitted: "lr_clock w \<le> now \<Longrightarrow> acquire hash c now email (lr_state w) = (Admitted, s) \<Longrightarrow>
    limiter_step hash c w
      \<lparr>lr_state = s, lr_clock = now, lr_log = lr_log w @ [now],
       lr_since = (lr_since w)(hash email := lr_since w (hash email) @ [now])\<rparr>"
| refused: "lr_clock w \<le> now \<Longrightarrow> acquire hash c now email (lr_state w) = (TooMany n, s) \<Longrightarrow>
    limiter_step hash c w (w\<lparr>lr_state := s, lr_clock := now\<rparr>)"
| success: "lr_clock w \<le> now \<Longrightarrow>
    limiter_step hash c w
      (w\<lparr>lr_state := succeed hash email (lr_state w), lr_clock := now,
         lr_since := (lr_since w)(hash email := [])\<rparr>)"

inductive limiter_reachable ::
  "(string \<Rightarrow> string) \<Rightarrow> limiter_config \<Rightarrow> limiter_run \<Rightarrow> bool" for hash c where
  start: "limiter_reachable hash c (initial_run t)"
| step: "limiter_reachable hash c w \<Longrightarrow> limiter_step hash c w w' \<Longrightarrow> limiter_reachable hash c w'"

inductive_cases limiter_stepE: "limiter_step hash c w w'"

text \<open>How many of the times lie in the window of \<open>width\<close> seconds that ends at \<open>t\<close>.\<close>

definition in_window :: "rat \<Rightarrow> int \<Rightarrow> rat list \<Rightarrow> nat" where
  "in_window t width ts = length (filter (\<lambda>u. t - of_int width < u \<and> u \<le> t) ts)"

section \<open>Lists and windows\<close>

lemma emails_get_map_of: "emails_get es k = map_of es k"
  by (induction es k rule: emails_get.induct) auto

lemma map_of_emails_put: "map_of (emails_put es k b) = (map_of es)(k \<mapsto> b)"
  by (induction es k b rule: emails_put.induct) (auto simp: fun_eq_iff)

lemma keys_emails_put: "set (map fst (emails_put es k b)) = insert k (set (map fst es))"
  by (induction es k b rule: emails_put.induct) auto

lemma distinct_emails_put: "distinct (map fst es) \<Longrightarrow> distinct (map fst (emails_put es k b))"
  by (induction es k b rule: emails_put.induct) (use keys_emails_put in auto)

lemma map_of_emails_pop: "map_of (emails_pop es k) = (map_of es)(k := None)"
  by (induction es) (auto simp: emails_pop_def fun_eq_iff)

lemma distinct_emails_pop: "distinct (map fst es) \<Longrightarrow> distinct (map fst (emails_pop es k))"
  by (simp add: emails_pop_def distinct_map_filter)

lemma prune_sorted:
  "sorted b \<Longrightarrow> prune now window b = filter (\<lambda>t. now - of_int window < t) b"
  unfolding prune_def
  by (induction b) (auto simp: not_le filter_id_conv order_less_le_trans)

lemma in_window_append: "in_window t w (xs @ ys) = in_window t w xs + in_window t w ys"
  by (simp add: in_window_def)

lemma in_window_single:
  "in_window t w [u] = (if t - of_int w < u \<and> u \<le> t then 1 else 0)"
  by (simp add: in_window_def)

lemma filter_length_le:
  "(\<And>u. u \<in> set xs \<Longrightarrow> P u \<Longrightarrow> Q u) \<Longrightarrow> length (filter P xs) \<le> length (filter Q xs)"
  by (induction xs) (auto simp: le_SucI)

lemma in_window_split:
  "in_window t (w + v) xs \<le> in_window t w xs + in_window (t - of_int w) v xs"
  by (induction xs) (auto simp: in_window_def)

text \<open>A bound on every window bounds every longer one.\<close>

lemma in_window_times:
  assumes "\<And>t. int (in_window t w xs) \<le> l"
  shows "int (in_window t (int k * w) xs) \<le> int k * l"
proof (induction k arbitrary: t)
  case (Suc k)
  have "int (in_window t (w + int k * w) xs) \<le> int (in_window t w xs) + int (in_window (t - of_int w) (int k * w) xs)"
    using in_window_split [of t w "int k * w" xs] by linarith
  also have "\<dots> \<le> l + int k * l" using assms Suc by (intro add_mono) auto
  finally show ?case by (simp add: algebra_simps)
qed (simp add: in_window_def)

lemma in_window_wider: "w \<le> v \<Longrightarrow> in_window t w xs \<le> in_window t v xs"
  unfolding in_window_def by (rule filter_length_le) (auto intro: le_less_trans [rotated])

text \<open>Admitting one more at \<open>now\<close> when the window that ends there has room.\<close>

lemma in_window_admit:
  assumes "\<And>t. int (in_window t w xs) \<le> l" and "int (length (filter (\<lambda>u. now - of_int w < u) xs)) < l"
  shows "int (in_window t w (xs @ [now])) \<le> l"
proof (cases "now \<le> t \<and> t - of_int w < now")
  case True
  have "in_window t w xs \<le> length (filter (\<lambda>u. now - of_int w < u) xs)"
    unfolding in_window_def by (rule filter_length_le) (use True in auto)
  then show ?thesis using assms(2) True by (simp add: in_window_append in_window_single)
next
  case False
  then show ?thesis using assms(1) by (auto simp: in_window_append in_window_single)
qed

section \<open>The global budget\<close>

definition global_ok :: "limiter_config \<Rightarrow> limiter_run \<Rightarrow> bool" where
  "global_ok c w \<longleftrightarrow>
     sorted (lr_log w) \<and> (\<forall>u \<in> set (lr_log w). u \<le> lr_clock w)
     \<and> (\<exists>cut. cut \<le> lr_clock w - of_int (lc_global_window c)
          \<and> lm_global (lr_state w) = filter (\<lambda>t. cut < t) (lr_log w))
     \<and> (\<forall>t. int (in_window t (lc_global_window c) (lr_log w)) \<le> lc_global_limit c)"

lemma acquire_global:
  assumes "acquire hash c now email s = (v, s')"
  shows "lm_global s' = (case v of Admitted \<Rightarrow> prune now (lc_global_window c) (lm_global s) @ [now]
      | TooMany n \<Rightarrow> prune now (lc_global_window c) (lm_global s))"
    and "v = Admitted \<Longrightarrow> int (length (prune now (lc_global_window c) (lm_global s))) < lc_global_limit c"
  using assms by (auto simp: acquire_def Let_def split: if_splits)

lemma global_prune:
  assumes "global_ok c w" "lr_clock w \<le> now"
  shows "prune now (lc_global_window c) (lm_global (lr_state w))
    = filter (\<lambda>t. now - of_int (lc_global_window c) < t) (lr_log w)"
proof -
  obtain cut where cut: "cut \<le> lr_clock w - of_int (lc_global_window c)"
    "lm_global (lr_state w) = filter (\<lambda>t. cut < t) (lr_log w)" "sorted (lr_log w)"
    using assms(1) by (auto simp: global_ok_def)
  have "(cut < t \<and> now - of_int (lc_global_window c) < t) = (now - of_int (lc_global_window c) < t)" for t
    using cut(1) assms(2) by auto
  then show ?thesis by (simp add: cut(2) prune_sorted sorted_wrt_filter cut(3) conj_commute)
qed

lemma global_ok_step:
  assumes "limiter_step hash c w w'" "global_ok c w" "0 < lc_global_window c"
  shows "global_ok c w'"
  using assms(1)
proof (rule limiter_stepE)
  fix now email s
  assume w': "w' = \<lparr>lr_state = s, lr_clock = now, lr_log = lr_log w @ [now],
       lr_since = (lr_since w)(hash email := lr_since w (hash email) @ [now])\<rparr>"
    and now: "lr_clock w \<le> now" and acq: "acquire hash c now email (lr_state w) = (Admitted, s)"
  let ?W = "lc_global_window c"
  note pr = global_prune [OF assms(2) now]
  have short: "int (length (filter (\<lambda>t. now - of_int ?W < t) (lr_log w))) < lc_global_limit c"
    using acquire_global(2) [OF acq] by (simp add: pr)
  have old: "sorted (lr_log w)" "\<forall>u \<in> set (lr_log w). u \<le> lr_clock w"
    "\<forall>t. int (in_window t ?W (lr_log w)) \<le> lc_global_limit c"
    using assms(2) by (auto simp: global_ok_def)
  have bound: "int (in_window t ?W (lr_log w @ [now])) \<le> lc_global_limit c" for t
    by (rule in_window_admit) (use old(3) short in auto)
  have "0 < (of_int ?W :: rat)" using assms(3) by simp
  moreover have "lm_global s = filter (\<lambda>t. now - of_int ?W < t) (lr_log w) @ [now]"
    using acquire_global(1) [OF acq] pr by simp
  ultimately show ?thesis
    using bound old now assms(3)
    by (auto simp: w' global_ok_def sorted_append intro!: exI [of _ "now - of_int ?W"])
next
  fix now email n s
  assume w': "w' = w\<lparr>lr_state := s, lr_clock := now\<rparr>"
    and now: "lr_clock w \<le> now" and acq: "acquire hash c now email (lr_state w) = (TooMany n, s)"
  show ?thesis
    using acquire_global(1) [OF acq] global_prune [OF assms(2) now] assms(2) now
    by (auto simp: w' global_ok_def intro!: exI [of _ "now - of_int (lc_global_window c)"])
next
  fix now email
  assume "w' = w\<lparr>lr_state := succeed hash email (lr_state w), lr_clock := now,
         lr_since := (lr_since w)(hash email := [])\<rparr>" "lr_clock w \<le> now"
  moreover have "\<And>cut. cut \<le> lr_clock w - of_int (lc_global_window c) \<Longrightarrow> lr_clock w \<le> now \<Longrightarrow>
      cut \<le> now - of_int (lc_global_window c)" by simp
  ultimately show ?thesis
    using assms(2) unfolding global_ok_def succeed_def
    by (auto intro: order_trans) (metis order_trans diff_right_mono)
qed

lemma global_ok_reachable:
  assumes "limiter_reachable hash c w" "0 < lc_global_window c" "0 \<le> lc_global_limit c"
  shows "global_ok c w"
  using assms(1)
proof induction
  case (start t)
  then show ?case using assms(3)
    by (auto simp: initial_run_def new_limiter_def global_ok_def in_window_def)
next
  case (step w w')
  then show ?case using global_ok_step assms(2) by blast
qed

text \<open>
  C19. The global budget holds in every window: whatever the addresses and the times of the
  attempts, and whoever succeeds in between, no window of \<open>global_window_seconds\<close> contains more
  admitted attempts than \<open>global_limit\<close>.
\<close>

theorem global_budget:
  assumes "limiter_reachable hash c w" and "0 < lc_global_window c" and "0 \<le> lc_global_limit c"
  shows "int (in_window t (lc_global_window c) (lr_log w)) \<le> lc_global_limit c"
  using global_ok_reachable [OF assms] by (simp add: global_ok_def)

section \<open>The budget of an address\<close>

definition bucket_of :: "limiter \<Rightarrow> string \<Rightarrow> rat list" where
  "bucket_of s k = (case map_of (lm_emails s) k of Some b \<Rightarrow> b | None \<Rightarrow> [])"

definition recent :: "rat \<Rightarrow> int \<Rightarrow> rat list \<Rightarrow> rat list" where
  "recent now width ts = filter (\<lambda>t. now - of_int width < t) ts"

text \<open>
  Each bucket holds what its window needs of the admissions of its key, and these are admissions
  of the log.
\<close>

definition emails_ok :: "limiter_config \<Rightarrow> limiter_run \<Rightarrow> bool" where
  "emails_ok c w \<longleftrightarrow>
     distinct (map fst (lm_emails (lr_state w)))
     \<and> (\<forall>k. sorted (lr_since w k) \<and> (\<forall>u \<in> set (lr_since w k). u \<le> lr_clock w)
          \<and> sorted (bucket_of (lr_state w) k)
          \<and> recent (lr_clock w) (lc_email_window c) (bucket_of (lr_state w) k)
              = recent (lr_clock w) (lc_email_window c) (lr_since w k)
          \<and> (\<forall>t. int (in_window t (lc_email_window c) (lr_since w k)) \<le> lc_email_limit c))
     \<and> (\<forall>t K. finite K \<longrightarrow> (\<Sum>k\<in>K. in_window t (lc_email_window c) (lr_since w k))
          \<le> in_window t (lc_email_window c) (lr_log w))"

lemma recent_later: "t \<le> t' \<Longrightarrow> recent t' v (recent t v xs) = recent t' v xs"
  unfolding recent_def by (auto intro!: filter_cong)

lemma recent_cong_later:
  "recent t v xs = recent t v ys \<Longrightarrow> t \<le> t' \<Longrightarrow> recent t' v xs = recent t' v ys"
  by (metis recent_later)

text \<open>The cleanup keeps every live bucket when there are not too many of them.\<close>

definition live_buckets :: "limiter_config \<Rightarrow> rat \<Rightarrow> (string \<times> rat list) list \<Rightarrow> (string \<times> rat list) list" where
  "live_buckets c now es = filter (\<lambda>e. snd e \<noteq> []) (map (\<lambda>(k, b). (k, prune now (lc_email_window c) b)) es)"

lemma map_of_live_buckets:
  "distinct (map fst es) \<Longrightarrow>
   (case map_of (live_buckets c now es) k of Some b \<Rightarrow> b | None \<Rightarrow> [])
   = prune now (lc_email_window c) (case map_of es k of Some b \<Rightarrow> b | None \<Rightarrow> [])"
proof (induction es)
  case (Cons e es)
  obtain k' b where e: "e = (k', b)" by (cases e)
  show ?case
  proof (cases "k' = k")
    case True
    then have "k \<notin> set (map fst (live_buckets c now es))"
      using Cons.prems by (force simp: e live_buckets_def)
    then have "map_of (live_buckets c now es) k = None"
      by (simp add: map_of_eq_None_iff)
    then show ?thesis using True by (auto simp: e live_buckets_def)
  qed (use Cons in \<open>auto simp: e live_buckets_def\<close>)
qed (simp add: live_buckets_def prune_def)

lemma distinct_live_buckets:
  "distinct (map fst es) \<Longrightarrow> distinct (map fst (live_buckets c now es))"
proof -
  have "map fst (map (\<lambda>(k, b). (k, prune now (lc_email_window c) b)) es) = map fst es"
    by (simp add: case_prod_beta comp_def)
  then show "distinct (map fst es) \<Longrightarrow> distinct (map fst (live_buckets c now es))"
    unfolding live_buckets_def by (metis distinct_map_filter)
qed

lemma cleanup_keeps:
  assumes "distinct (map fst es)" "int (length (live_buckets c now es)) \<le> lc_max_buckets c"
  shows "(case map_of (cleanup_emails c now es) k of Some b \<Rightarrow> b | None \<Rightarrow> [])
      \<in> {case map_of es k of Some b \<Rightarrow> b | None \<Rightarrow> [],
         prune now (lc_email_window c) (case map_of es k of Some b \<Rightarrow> b | None \<Rightarrow> [])}"
    "distinct (map fst (cleanup_emails c now es))"
proof -
  have "cleanup_emails c now es = es \<or> cleanup_emails c now es = live_buckets c now es"
    using assms(2) by (auto simp: cleanup_emails_def live_buckets_def Let_def)
  then show "(case map_of (cleanup_emails c now es) k of Some b \<Rightarrow> b | None \<Rightarrow> [])
      \<in> {case map_of es k of Some b \<Rightarrow> b | None \<Rightarrow> [],
         prune now (lc_email_window c) (case map_of es k of Some b \<Rightarrow> b | None \<Rightarrow> [])}"
    "distinct (map fst (cleanup_emails c now es))"
    using map_of_live_buckets [OF assms(1)] distinct_live_buckets [OF assms(1)] assms(1) by auto
qed

lemma acquire_emails:
  assumes "acquire hash c now email s = (v, s')" "distinct (map fst (lm_emails s))"
  defines "b \<equiv> prune now (lc_email_window c) (bucket_of s (hash email))"
  shows "v = Admitted \<Longrightarrow> int (length b) < lc_email_limit c
      \<and> lm_emails s' = cleanup_emails c now (emails_put (lm_emails s) (hash email) (b @ [now]))"
    and "v \<noteq> Admitted \<Longrightarrow> lm_emails s' = lm_emails s \<or> lm_emails s' = emails_put (lm_emails s) (hash email) b"
  using assms(1)
  by (auto simp: acquire_def Let_def b_def bucket_of_def emails_get_map_of split: if_splits)

lemma emails_ok_admitted:
  assumes ok: "emails_ok c w" and now: "lr_clock w \<le> now" and ew: "0 < lc_email_window c"
    and acq: "acquire hash c now email (lr_state w) = (Admitted, s)"
    and log: "\<And>t. int (in_window t (lc_global_window c) (lr_log w @ [now])) \<le> lc_global_limit c"
    and cap: "lc_email_window c \<le> int m * lc_global_window c" "int m * lc_global_limit c \<le> lc_max_buckets c"
  shows "emails_ok c \<lparr>lr_state = s, lr_clock = now, lr_log = lr_log w @ [now],
       lr_since = (lr_since w)(hash email := lr_since w (hash email) @ [now])\<rparr>"
proof -
  let ?k = "hash email" and ?W = "lc_email_window c" and ?es = "lm_emails (lr_state w)"
  let ?since = "(lr_since w)(?k := lr_since w ?k @ [now])"
  define b where "b = prune now ?W (bucket_of (lr_state w) ?k)"
  define es1 where "es1 = emails_put ?es ?k (b @ [now])"
  define b1 where "b1 k = (if k = ?k then b @ [now] else bucket_of (lr_state w) k)" for k
  note parts = ok [unfolded emails_ok_def]
  have dist: "distinct (map fst ?es)" using parts by blast
  have srt: "sorted (lr_since w k)" and bs: "sorted (bucket_of (lr_state w) k)" for k
    using parts by blast+
  have le: "u \<in> set (lr_since w k) \<Longrightarrow> u \<le> now" for k u
    using parts now by (meson order_trans)
  have rec: "recent now ?W (bucket_of (lr_state w) k) = recent now ?W (lr_since w k)" for k
    using parts recent_cong_later [OF _ now] by blast
  have win: "int (in_window t ?W (lr_since w k)) \<le> lc_email_limit c" for k t
    using parts by blast
  have sums: "finite K \<Longrightarrow> (\<Sum>k\<in>K. in_window t ?W (lr_since w k)) \<le> in_window t ?W (lr_log w)" for t K
    using parts by blast
  note ems = acquire_emails(1) [OF acq dist refl, folded b_def es1_def]
  have b: "b = recent now ?W (lr_since w ?k)"
    using rec [of ?k] by (simp add: b_def prune_sorted [OF bs] recent_def)
  have b1: "sorted (b1 k)" "recent now ?W (b1 k) = recent now ?W (?since k)"
    "(case map_of es1 k of Some x \<Rightarrow> x | None \<Rightarrow> []) = b1 k" for k
  proof -
    have "\<forall>u \<in> set b. u \<le> now" using le by (auto simp: b recent_def)
    then show "sorted (b1 k)" using srt bs by (auto simp: b1_def b recent_def sorted_append sorted_wrt_filter)
    show "recent now ?W (b1 k) = recent now ?W (?since k)"
      using rec ew by (auto simp: b1_def b recent_def)
    show "(case map_of es1 k of Some x \<Rightarrow> x | None \<Rightarrow> []) = b1 k"
      by (simp add: es1_def map_of_emails_put b1_def bucket_of_def)
  qed
  have dist1: "distinct (map fst es1)" using dist by (simp add: es1_def distinct_emails_put)
  have since_le: "u \<in> set (?since k) \<Longrightarrow> u \<le> now" for k u using le by (auto split: if_splits)
  have sums': "(\<Sum>k\<in>K. in_window t ?W (?since k)) \<le> in_window t ?W (lr_log w @ [now])" if "finite K" for t K
  proof -
    have "(\<Sum>k\<in>K. in_window t ?W (?since k))
        = (\<Sum>k\<in>K. in_window t ?W (lr_since w k) + (if k = ?k then in_window t ?W [now] else 0))"
      by (rule sum.cong) (auto simp: in_window_append)
    also have "\<dots> \<le> in_window t ?W (lr_log w) + in_window t ?W [now]"
      using sums [OF that, of t] that by (auto simp: sum.distrib sum.delta trans_le_add1)
    finally show ?thesis by (simp add: in_window_append)
  qed
  have few: "int (length (live_buckets c now es1)) \<le> lc_max_buckets c"
  proof -
    let ?L = "fst ` set (live_buckets c now es1)"
    have "1 \<le> in_window now ?W (?since k)" if "k \<in> ?L" for k
    proof -
      have "map_of (live_buckets c now es1) k \<noteq> None" using that by (auto simp: map_of_eq_None_iff)
      then obtain x where x: "map_of (live_buckets c now es1) k = Some x" by blast
      have "(k, x) \<in> set (live_buckets c now es1)" by (rule map_of_SomeD [OF x])
      then have "(case map_of (live_buckets c now es1) k of Some x \<Rightarrow> x | None \<Rightarrow> []) \<noteq> []"
        using x by (simp add: live_buckets_def)
      then have "recent now ?W (b1 k) \<noteq> []"
        unfolding map_of_live_buckets [OF dist1] b1(3)
        by (simp add: prune_sorted [OF b1(1)] recent_def)
      then have "recent now ?W (?since k) \<noteq> []" using b1(2) by simp
      moreover have "in_window now ?W (?since k) = length (recent now ?W (?since k))"
        using since_le [of _ k] unfolding in_window_def recent_def
        by (intro arg_cong [of _ _ length] filter_cong) auto
      ultimately show ?thesis by (simp add: Suc_le_eq)
    qed
    then have "card ?L \<le> (\<Sum>k\<in>?L. in_window now ?W (?since k))"
      using sum_mono [of ?L "\<lambda>_. 1" "\<lambda>k. in_window now ?W (?since k)"] by simp
    also have "\<dots> \<le> in_window now ?W (lr_log w @ [now])" by (rule sums') simp
    also have "\<dots> \<le> in_window now (int m * lc_global_window c) (lr_log w @ [now])"
      using cap(1) by (rule in_window_wider)
    finally have "int (card ?L) \<le> int m * lc_global_limit c"
      using in_window_times [OF log, of now m] by linarith
    moreover have "card ?L = length (live_buckets c now es1)"
      using distinct_card [OF distinct_live_buckets [OF dist1]] by simp
    ultimately show ?thesis using cap(2) by simp
  qed
  have bucket: "bucket_of s k \<in> {b1 k, prune now ?W (b1 k)}" and dist2: "distinct (map fst (lm_emails s))" for k
    using cleanup_keeps [OF dist1 few] ems b1(3) by (auto simp: bucket_of_def es1_def)
  have "sorted (bucket_of s k)" for k
    using bucket [of k] b1(1) [of k] by (auto simp: prune_sorted [OF b1(1)] sorted_wrt_filter)
  moreover have "recent now ?W (bucket_of s k) = recent now ?W (?since k)" for k
    using bucket [of k] b1(2) [of k] by (auto simp: prune_sorted [OF b1(1)] recent_def)
  moreover have "int (in_window t ?W (?since k)) \<le> lc_email_limit c" for t k
  proof (cases "k = ?k")
    case True
    have "int (length b) < lc_email_limit c" using ems by simp
    then show ?thesis using True win by (auto intro!: in_window_admit simp: b recent_def)
  qed (use win in simp)
  moreover have "sorted (?since k)" for k using srt le by (auto simp: sorted_append)
  ultimately show ?thesis
    using dist2 sums' since_le unfolding emails_ok_def by simp
qed

lemma emails_ok_refused:
  assumes ok: "emails_ok c w" and now: "lr_clock w \<le> now"
    and acq: "acquire hash c now email (lr_state w) = (TooMany n, s)"
  shows "emails_ok c (w\<lparr>lr_state := s, lr_clock := now\<rparr>)"
proof -
  let ?W = "lc_email_window c"
  note parts = ok [unfolded emails_ok_def]
  have dist: "distinct (map fst (lm_emails (lr_state w)))" using parts by blast
  have srt: "sorted (bucket_of (lr_state w) k)" for k using parts by blast
  have "lm_emails s = lm_emails (lr_state w)
      \<or> lm_emails s = emails_put (lm_emails (lr_state w)) (hash email) (prune now ?W (bucket_of (lr_state w) (hash email)))"
    using acquire_emails(2) [OF acq dist] by simp
  then have "distinct (map fst (lm_emails s))"
    and bucket: "bucket_of s k \<in> {bucket_of (lr_state w) k, prune now ?W (bucket_of (lr_state w) k)}" for k
    using dist by (auto simp: distinct_emails_put bucket_of_def map_of_emails_put)
  moreover have "sorted (bucket_of s k) \<and> recent now ?W (bucket_of s k) = recent now ?W (lr_since w k)" for k
  proof -
    have "recent now ?W (bucket_of (lr_state w) k) = recent now ?W (lr_since w k)"
      using parts recent_cong_later [OF _ now] by blast
    moreover have "sorted (bucket_of s k)"
      using bucket [of k] srt [of k] by (auto simp: prune_sorted [OF srt] sorted_wrt_filter simp del: filter_filter)
    ultimately show ?thesis using bucket [of k]
      by (auto simp: prune_sorted [OF srt] recent_def)
  qed
  moreover have "u \<in> set (lr_since w k) \<Longrightarrow> u \<le> now" for u k using parts now by (meson order_trans)
  ultimately show ?thesis using parts unfolding emails_ok_def by simp
qed

lemma emails_ok_success:
  assumes ok: "emails_ok c w" and now: "lr_clock w \<le> now" and limit: "0 \<le> lc_email_limit c"
  shows "emails_ok c (w\<lparr>lr_state := succeed hash email (lr_state w), lr_clock := now,
      lr_since := (lr_since w)(hash email := [])\<rparr>)"
proof -
  let ?W = "lc_email_window c" and ?since = "(lr_since w)(hash email := [])"
  let ?s = "succeed hash email (lr_state w)"
  note parts = ok [unfolded emails_ok_def]
  have bucket: "bucket_of ?s k = (if k = hash email then [] else bucket_of (lr_state w) k)" for k
    by (simp add: bucket_of_def succeed_def map_of_emails_pop)
  have "(\<Sum>k\<in>K. in_window t ?W (?since k)) \<le> in_window t ?W (lr_log w)" if "finite K" for t K
  proof -
    have "(\<Sum>k\<in>K. in_window t ?W (?since k)) \<le> (\<Sum>k\<in>K. in_window t ?W (lr_since w k))"
      by (rule sum_mono) (simp add: in_window_def)
    also have "\<dots> \<le> in_window t ?W (lr_log w)" using parts that by blast
    finally show ?thesis .
  qed
  moreover have "distinct (map fst (lm_emails ?s))"
    using parts by (simp add: succeed_def distinct_emails_pop)
  moreover have "recent now ?W (bucket_of (lr_state w) k) = recent now ?W (lr_since w k)" for k
    using parts recent_cong_later [OF _ now] by blast
  moreover have "u \<in> set (lr_since w k) \<Longrightarrow> u \<le> now" for u k using parts now by (meson order_trans)
  ultimately show ?thesis
    using parts limit unfolding emails_ok_def by (simp add: bucket recent_def in_window_def)
qed

lemma emails_ok_reachable:
  assumes "limiter_reachable hash c w"
    and wf: "0 < lc_global_window c" "0 \<le> lc_global_limit c" "0 < lc_email_window c" "0 \<le> lc_email_limit c"
    and cap: "lc_email_window c \<le> int m * lc_global_window c" "int m * lc_global_limit c \<le> lc_max_buckets c"
  shows "emails_ok c w"
  using assms(1)
proof induction
  case (start t)
  then show ?case using wf(4)
    by (auto simp: initial_run_def new_limiter_def emails_ok_def in_window_def bucket_of_def recent_def)
next
  case (step w w')
  note after = global_ok_step [OF step.hyps(2) global_ok_reachable [OF step.hyps(1) wf(1,2)] wf(1)]
  show ?case
    using step.hyps(2)
  proof (cases rule: limiter_step.cases)
    case (admitted now email s)
    then have "\<And>t. int (in_window t (lc_global_window c) (lr_log w @ [now])) \<le> lc_global_limit c"
      using after by (simp add: global_ok_def)
    then show ?thesis
      using emails_ok_admitted [OF step.IH admitted(2) wf(3) admitted(3) _ cap] admitted(1) by simp
  next
    case (refused now email n s)
    then show ?thesis using emails_ok_refused [OF step.IH] by simp
  next
    case (success now email)
    then show ?thesis using emails_ok_success [OF step.IH _ wf(4)] by simp
  qed
qed

text \<open>
  C13. The budget of an address holds in every window too, although the table of buckets is
  bounded and forgets the oldest ones: with the settings of the two limiters of the program, no
  window of \<open>email_window_seconds\<close> contains more than \<open>email_limit\<close> attempts admitted for an
  address since its last successful login. The eviction never drops a live bucket, because the
  global budget keeps the number of live buckets below \<open>max_email_buckets\<close>.
\<close>

theorem email_budget:
  assumes "limiter_reachable hash c w" and "c \<in> {login_limits, password_reset_limits}"
  shows "int (in_window t (lc_email_window c) (lr_since w k)) \<le> lc_email_limit c"
proof -
  have "emails_ok c w"
    using assms(2) emails_ok_reachable [OF assms(1), of 15] emails_ok_reachable [OF assms(1), of 60]
    by (auto simp: login_limits_def password_reset_limits_def)
  then show ?thesis by (simp add: emails_ok_def)
qed

section \<open>Runs that exist\<close>

definition repeated_attempts :: "nat \<Rightarrow> limiter_run" where
  "repeated_attempts n = ((\<lambda>w. \<lparr>lr_state = snd (acquire (\<lambda>e. e) login_limits 1 ''ana@x'' (lr_state w)),
      lr_clock = 1, lr_log = lr_log w @ [1],
      lr_since = (lr_since w)(''ana@x'' := lr_since w ''ana@x'' @ [1])\<rparr>) ^^ n) (initial_run 1)"

lemma repeated_state:
  "n \<le> 8 \<Longrightarrow> lr_state (repeated_attempts n) = \<lparr>lm_global = replicate n 1,
     lm_emails = (if n = 0 then [] else [(''ana@x'', replicate n 1)])\<rparr> \<and> lr_clock (repeated_attempts n) = 1"
proof (induction n)
  case (Suc n)
  have pr: "0 < w \<Longrightarrow> prune 1 w (replicate n 1) = replicate n 1" for w
    by (cases n) (simp_all add: prune_def)
  have snoc: "replicate n (1::rat) @ [1] = 1 # replicate n 1"
    by (metis replicate_append_same replicate_Suc)
  from Suc have s: "lr_state (repeated_attempts n) = \<lparr>lm_global = replicate n 1,
      lm_emails = (if n = 0 then [] else [(''ana@x'', replicate n 1)])\<rparr>" by simp
  have "repeated_attempts (Suc n) = \<lparr>lr_state = snd (acquire (\<lambda>e. e) login_limits 1 ''ana@x'' (lr_state (repeated_attempts n))),
      lr_clock = 1, lr_log = lr_log (repeated_attempts n) @ [1],
      lr_since = (lr_since (repeated_attempts n))(''ana@x'' := lr_since (repeated_attempts n) ''ana@x'' @ [1])\<rparr>"
    by (simp add: repeated_attempts_def)
  then show ?case
    using Suc.prems pr snoc
    by (auto simp: s acquire_def Let_def login_limits_def cleanup_emails_def prune_def)
qed (simp add: repeated_attempts_def initial_run_def new_limiter_def)

lemma repeated_reachable: "n \<le> 8 \<Longrightarrow> limiter_reachable (\<lambda>e. e) login_limits (repeated_attempts n)"
proof (induction n)
  case 0
  show ?case by (simp add: repeated_attempts_def limiter_reachable.start)
next
  case (Suc n)
  then have st: "lr_state (repeated_attempts n) = \<lparr>lm_global = replicate n 1,
      lm_emails = (if n = 0 then [] else [(''ana@x'', replicate n 1)])\<rparr>" "lr_clock (repeated_attempts n) = 1"
    using repeated_state [of n] by simp_all
  have pr: "0 < w \<Longrightarrow> prune 1 w (replicate n 1) = replicate n 1" for w
    by (cases n) (simp_all add: prune_def)
  have "fst (acquire (\<lambda>e. e) login_limits 1 ''ana@x'' (lr_state (repeated_attempts n))) = Admitted"
    using Suc.prems pr by (auto simp: st acquire_def Let_def login_limits_def prune_def)
  then have "acquire (\<lambda>e. e) login_limits 1 ''ana@x'' (lr_state (repeated_attempts n))
      = (Admitted, snd (acquire (\<lambda>e. e) login_limits 1 ''ana@x'' (lr_state (repeated_attempts n))))"
    by (simp add: prod_eq_iff)
  note step = limiter_step.admitted [OF _ this]
  have "limiter_step (\<lambda>e. e) login_limits (repeated_attempts n) (repeated_attempts (Suc n))"
    using step st(2) by (simp add: repeated_attempts_def)
  then show ?case using Suc by (blast intro: limiter_reachable.step Suc_leD)
qed

lemma repeated_count:
  "lr_log (repeated_attempts n) = replicate n 1" "lr_since (repeated_attempts n) ''ana@x'' = replicate n 1"
  by (induction n) (simp_all add: repeated_attempts_def initial_run_def replicate_append_same)

lemma repeated_window: "in_window 1 60 (replicate n 1) = n" "in_window 1 900 (replicate n 1) = n"
  by (simp_all add: in_window_def)

text \<open>The eighth attempt within one second is the last one admitted for an address.\<close>

theorem global_budget_witness:
  "limiter_reachable (\<lambda>e. e) login_limits (repeated_attempts 8)
   \<and> int (in_window 1 60 (lr_log (repeated_attempts 8))) = 8 \<and> (8 :: int) \<le> lc_global_limit login_limits"
  using repeated_reachable [of 8] global_budget [OF repeated_reachable [of 8], of 1]
  by (simp add: repeated_count repeated_window login_limits_def)

theorem email_budget_witness:
  "int (in_window 1 900 (lr_since (repeated_attempts 8) ''ana@x'')) = lc_email_limit login_limits
   \<and> fst (acquire (\<lambda>e. e) login_limits 1 ''ana@x'' (lr_state (repeated_attempts 8))) = TooMany 900"
  using email_budget [OF repeated_reachable [of 8], of 1 "''ana@x''"] repeated_state [of 8]
  by (simp add: repeated_count repeated_window login_limits_def acquire_def Let_def prune_def retry_seconds_def
      in_window_def numeral_eq_Suc)

end
