(* ===== verification/Contacts.thy ===== *)
theory Contacts
  imports Prelude
begin

text \<open>
  The identities and texts of \<open>app/automation/domain.py\<close>: the modes of an exclusion, the
  decisions of the policy, the preset windows of human control, the identifier of one WhatsApp
  contact with its historical aliases, and the texts of the assistant.
\<close>

section \<open>Errors and enumerations\<close>

text \<open>The exceptions of the messaging code, each with its message.\<close>

datatype messaging_error =
    InvalidValue string
  | NotFound string
  | NoRow
  | DuplicateRow string
  | TransientFailure string
  | RuntimeFailure string
  | IntegrityViolation string

datatype exclusion_mode = Ignore | HumanOnly

fun exclusion_mode_value :: "exclusion_mode \<Rightarrow> string" where
  "exclusion_mode_value Ignore = ''ignore''"
| "exclusion_mode_value HumanOnly = ''human_only''"

text \<open>\<open>ExclusionMode(text)\<close>.\<close>

definition exclusion_mode_of :: "string \<Rightarrow> messaging_error + exclusion_mode" where
  "exclusion_mode_of v =
     (if v = ''ignore'' then Inr Ignore else if v = ''human_only'' then Inr HumanOnly
      else Inl (InvalidValue v))"

datatype automation_decision = Allowed | Disabled | Ignored | DecidedHumanOnly | TemporarilySuppressed

fun decision_value :: "automation_decision \<Rightarrow> string" where
  "decision_value Allowed = ''allowed''"
| "decision_value Disabled = ''automation_disabled''"
| "decision_value Ignored = ''ignored''"
| "decision_value DecidedHumanOnly = ''human_only''"
| "decision_value TemporarilySuppressed = ''temporarily_suppressed''"

lemma exclusion_mode_of_value [simp]: "exclusion_mode_of (exclusion_mode_value m) = Inr m"
  by (cases m) (simp_all add: exclusion_mode_of_def)

lemma exclusion_mode_of_Inr: "exclusion_mode_of v = Inr m \<longleftrightarrow> v = exclusion_mode_value m"
  by (cases m) (auto simp: exclusion_mode_of_def)

section \<open>The window of human control\<close>

definition human_control_presets :: "int list" where
  "human_control_presets = [5, 10, 20, 30, 60, 120, 240, 360, 720, 1440, 2160]"

definition default_human_control_window :: int where
  "default_human_control_window = 2160"

text \<open>
  A boolean is refused although Python counts it among the integers; a float equal to a preset
  is found in the tuple.
\<close>

definition validate_human_control_window :: "pyval \<Rightarrow> messaging_error + pyval" where
  "validate_human_control_window v =
     (if (case v of
            PInt n \<Rightarrow> n \<in> set human_control_presets
          | PFloat s \<Rightarrow> s \<in> set (map (\<lambda>n. str_of_int n @ ''.0'') human_control_presets)
          | _ \<Rightarrow> False)
      then Inr v else Inl (InvalidValue ''Human control window must use an allowed preset''))"

section \<open>Identifiers of contacts\<close>

text \<open>\<open>^[1-9][0-9]{6,14}$\<close>, matched against the whole text.\<close>

definition individual_id :: "string \<Rightarrow> bool" where
  "individual_id s =
     (case s of
        [] \<Rightarrow> False
      | c # ds \<Rightarrow> is_digit c \<and> c \<noteq> CHR ''0'' \<and> list_all is_digit ds
          \<and> 6 \<le> length ds \<and> length ds \<le> 14)"

definition drop_plus :: "string \<Rightarrow> string" where
  "drop_plus s = (case s of [] \<Rightarrow> [] | c # r \<Rightarrow> if c = CHR ''+'' then r else s)"

definition normalize_whatsapp_id :: "string \<Rightarrow> messaging_error + string" where
  "normalize_whatsapp_id v =
     (let n = drop_plus (strip v)
      in if individual_id n then Inr n
         else Inl (InvalidValue ''WhatsApp identifier must represent one individual''))"

text \<open>\<open>str.isdigit\<close> holds of the superscript digits too, which \<open>int\<close> refuses.\<close>

definition py_isdigit :: "char \<Rightarrow> bool" where
  "py_isdigit c = (is_digit c \<or> code_point c \<in> {178, 179, 185})"

definition looks_like_brazil_national_number :: "string \<Rightarrow> bool" where
  "looks_like_brazil_national_number v =
     (if length v \<notin> {10, 11} \<or> \<not> list_all py_isdigit v then False
      else if \<not> list_all is_digit (take 2 v) then False
      else
        let area = parse_digits (take 2 v)
        in if \<not> (11 \<le> area \<and> area \<le> 99) then False
           else if length v = 11 then v ! 2 = CHR ''9''
           else v ! 2 \<in> set ''2345'')"

definition lookup_aliases :: "string \<Rightarrow> string list" where
  "lookup_aliases n =
     dedup (if starts_with n ''55'' \<and> looks_like_brazil_national_number (drop 2 n)
            then [n, drop 2 n]
            else if looks_like_brazil_national_number n then [''55'' @ n, n]
            else [n])"

definition whatsapp_id_lookup_aliases :: "string \<Rightarrow> messaging_error + string list" where
  "whatsapp_id_lookup_aliases v =
     (case normalize_whatsapp_id v of Inl e \<Rightarrow> Inl e | Inr n \<Rightarrow> Inr (lookup_aliases n))"

definition normalize_exclusion_id :: "string \<Rightarrow> messaging_error + string" where
  "normalize_exclusion_id v =
     (case whatsapp_id_lookup_aliases v of Inl e \<Rightarrow> Inl e | Inr xs \<Rightarrow> Inr (hd xs))"

section \<open>Texts of the assistant\<close>

definition default_greeting :: string where
  "default_greeting = ''Ol'' @ [CHR 0xE1] @ ''! Como posso ajudar com seu ar-condicionado?''"

definition default_fallback :: string where
  "default_fallback = ''Desculpa, n'' @ [CHR 0xE3] @ ''o entendi. como posso te ajudar?''"

definition default_handoff :: string where
  "default_handoff = ''Seu atendimento foi encaminhado para uma pessoa da equipe.''"

definition normalize_assistant_message :: "string \<Rightarrow> messaging_error + string" where
  "normalize_assistant_message v =
     (let n = join '' '' (split_ws v)
      in if n = [] \<or> 1000 < length n then Inl (InvalidValue ''Assistant message has an invalid length'')
         else if CHR ''<'' \<in> set n \<or> CHR ''>'' \<in> set n
         then Inl (InvalidValue ''Assistant message must be plain text'')
         else Inr n)"

section \<open>Aliases are the classes of contacts\<close>

lemma national_length:
  "looks_like_brazil_national_number n \<Longrightarrow> length n = 10 \<or> length n = 11"
  by (auto simp: looks_like_brazil_national_number_def Let_def split: if_splits)

lemma not_national_drop:
  "looks_like_brazil_national_number n \<Longrightarrow> \<not> looks_like_brazil_national_number (drop 2 n)"
  using national_length [of n] national_length [of "drop 2 n"] by auto

text \<open>The national part of an identifier, when it has one.\<close>

definition national_part :: "string \<Rightarrow> string" where
  "national_part n =
     (if starts_with n ''55'' \<and> looks_like_brazil_national_number (drop 2 n) then drop 2 n else n)"

lemma set_lookup_aliases:
  "set (lookup_aliases n) =
     (if looks_like_brazil_national_number (national_part n)
      then {''55'' @ national_part n, national_part n} else {n})"
proof -
  have "''55'' @ drop 2 n = n" if "starts_with n ''55''"
    using that by (auto simp: starts_with_def prefix_def)
  then show ?thesis
    by (auto simp: lookup_aliases_def national_part_def not_national_drop)
qed

lemma national_part_alias:
  assumes "m \<in> set (lookup_aliases n)"
  shows "national_part m = national_part n"
proof (cases "looks_like_brazil_national_number (national_part n)")
  case True
  then have "m = ''55'' @ national_part n \<or> m = national_part n"
    using assms by (simp add: set_lookup_aliases)
  then show ?thesis using True not_national_drop [OF True]
    by (auto simp: national_part_def [of m] starts_with_def)
next
  case False
  then show ?thesis using assms by (simp add: set_lookup_aliases)
qed

lemma aliases_of_alias:
  assumes "m \<in> set (lookup_aliases n)"
  shows "set (lookup_aliases m) = set (lookup_aliases n)"
proof (cases "looks_like_brazil_national_number (national_part n)")
  case True
  then show ?thesis using national_part_alias [OF assms] by (simp add: set_lookup_aliases)
next
  case False
  then show ?thesis using assms by (simp add: set_lookup_aliases)
qed

lemma hd_aliases: "hd (lookup_aliases n) =
   (if looks_like_brazil_national_number (national_part n) then ''55'' @ national_part n else n)"
proof -
  have "''55'' @ drop 2 n = n" if "starts_with n ''55''"
    using that by (auto simp: starts_with_def prefix_def)
  then show ?thesis by (simp add: lookup_aliases_def national_part_def not_national_drop)
qed

lemma individual_idD:
  "individual_id s \<Longrightarrow> s \<noteq> [] \<and> list_all is_digit s \<and> 7 \<le> length s \<and> length s \<le> 15"
  by (auto simp: individual_id_def split: list.splits)

lemma digit_not_space: "is_digit c \<Longrightarrow> \<not> py_isspace c"
  by (auto simp: is_digit_def py_isspace_def Let_def)

lemma strip_id: "list_all (\<lambda>c. \<not> py_isspace c) s \<Longrightarrow> strip s = s"
proof -
  have drop: "list_all (\<lambda>c. \<not> p c) t \<Longrightarrow> dropWhile p t = t" for p and t :: string
    by (cases t) auto
  assume "list_all (\<lambda>c. \<not> py_isspace c) s"
  moreover from this have "list_all (\<lambda>c. \<not> py_isspace c) (rev s)" by simp
  ultimately show "strip s = s" by (simp add: strip_def lstrip_def rstrip_def drop)
qed

lemma normalize_individual: "individual_id s \<Longrightarrow> normalize_whatsapp_id s = Inr s"
proof -
  assume s: "individual_id s"
  then have "strip s = s"
    using individual_idD [OF s] digit_not_space by (intro strip_id) (auto simp: list_all_iff)
  moreover have "drop_plus s = s"
    using s by (auto simp: drop_plus_def individual_id_def is_digit_def code_point_def split: list.splits)
  ultimately show ?thesis using s by (simp add: normalize_whatsapp_id_def)
qed

lemma national_head: "looks_like_brazil_national_number n \<Longrightarrow> n \<noteq> [] \<and> is_digit (hd n) \<and> hd n \<noteq> CHR ''0''"
proof -
  assume n: "looks_like_brazil_national_number n"
  then obtain a b r where n': "n = a # b # r"
    using national_length [OF n] by (cases n; cases "tl n") auto
  have "is_digit a" "is_digit b" "11 \<le> digit_val a * 10 + digit_val b"
    using n by (auto simp: n' looks_like_brazil_national_number_def parse_digits_def Let_def split: if_splits)
  then show ?thesis
    by (auto simp: n' digit_val_def is_digit_def code_point_def)
qed

lemma individual_alias:
  assumes "individual_id n" and "m \<in> set (lookup_aliases n)"
  shows "individual_id m"
proof (cases "looks_like_brazil_national_number (national_part n)")
  case True
  let ?p = "national_part n"
  have "list_all is_digit ?p"
    using individual_idD [OF assms(1)] by (auto simp: national_part_def list_all_iff dest: in_set_dropD)
  then have "individual_id ?p" "individual_id (''55'' @ ?p)"
    using national_head [OF True] national_length [OF True]
    by (auto simp: individual_id_def is_digit_def code_point_def split: list.splits)
  then show ?thesis using assms(2) True by (auto simp: set_lookup_aliases)
next
  case False
  then show ?thesis using assms by (simp add: set_lookup_aliases)
qed

lemma aliases_classes_parts:
  assumes "whatsapp_id_lookup_aliases v = Inr xs" and "whatsapp_id_lookup_aliases w = Inr ys"
  shows "set xs = set ys \<or> set xs \<inter> set ys = {}"
    and "\<And>a. a \<in> set xs \<Longrightarrow> individual_id a
      \<and> (\<exists>zs. whatsapp_id_lookup_aliases a = Inr zs \<and> set zs = set xs)"
    and "set xs \<inter> set ys \<noteq> {} \<Longrightarrow> normalize_exclusion_id v = normalize_exclusion_id w"
    and "\<exists>c. normalize_exclusion_id v = Inr c \<and> c \<in> set xs \<and> normalize_exclusion_id c = Inr c"
proof -
  obtain m n where m: "normalize_whatsapp_id v = Inr m" "xs = lookup_aliases m"
    and n: "normalize_whatsapp_id w = Inr n" "ys = lookup_aliases n"
    using assms by (auto simp: whatsapp_id_lookup_aliases_def split: sum.splits)
  have id: "individual_id m" using m(1)
    by (auto simp: normalize_whatsapp_id_def Let_def split: if_splits)
  show "set xs = set ys \<or> set xs \<inter> set ys = {}"
    using aliases_of_alias m n by blast
  have al: "whatsapp_id_lookup_aliases a = Inr (lookup_aliases a)" if "a \<in> set xs" for a
    using normalize_individual [OF individual_alias [OF id]] that
    by (simp add: m whatsapp_id_lookup_aliases_def)
  then show "individual_id a \<and> (\<exists>zs. whatsapp_id_lookup_aliases a = Inr zs \<and> set zs = set xs)"
    if "a \<in> set xs" for a
    using that individual_alias [OF id] aliases_of_alias by (simp add: m)
  have canon: "hd (lookup_aliases a) = hd (lookup_aliases b)" if "b \<in> set (lookup_aliases a)" for a b
    using that national_part_alias [OF that] by (auto simp: hd_aliases set_lookup_aliases split: if_splits)
  show "normalize_exclusion_id v = normalize_exclusion_id w" if shared: "set xs \<inter> set ys \<noteq> {}"
  proof -
    obtain a where "a \<in> set xs" "a \<in> set ys" using shared by blast
    then have "a \<in> set (lookup_aliases m)" "a \<in> set (lookup_aliases n)" by (simp_all add: m n)
    then show ?thesis using canon [of a m] canon [of a n] assms by (simp add: normalize_exclusion_id_def m n)
  qed
  let ?c = "hd (lookup_aliases m)"
  have c: "?c \<in> set xs" unfolding m(2) by (rule hd_in_set) (simp add: lookup_aliases_def)
  then have "hd (lookup_aliases ?c) = ?c" using canon [of ?c m] by (simp add: m)
  then have "normalize_exclusion_id v = Inr ?c" "normalize_exclusion_id ?c = Inr ?c"
    using assms(1) al [OF c] by (simp_all add: normalize_exclusion_id_def m(2))
  with c show "\<exists>c. normalize_exclusion_id v = Inr c \<and> c \<in> set xs \<and> normalize_exclusion_id c = Inr c"
    by blast
qed

text \<open>
  The aliases of the contacts are classes: two identifiers either have the same aliases or
  share none, every alias is an identifier of one individual that leads to the same aliases, and
  the canonical identifier of an exclusion is the same for all of them and is its own.
\<close>

theorem aliases_classes:
  assumes "whatsapp_id_lookup_aliases v = Inr xs" and "whatsapp_id_lookup_aliases w = Inr ys"
  shows "(set xs = set ys \<or> set xs \<inter> set ys = {})
    \<and> (\<forall>a \<in> set xs. individual_id a \<and> (\<exists>zs. whatsapp_id_lookup_aliases a = Inr zs \<and> set zs = set xs))
    \<and> (set xs \<inter> set ys \<noteq> {} \<longrightarrow> normalize_exclusion_id v = normalize_exclusion_id w)
    \<and> (\<exists>c. normalize_exclusion_id v = Inr c \<and> c \<in> set xs \<and> normalize_exclusion_id c = Inr c)"
  using aliases_classes_parts [OF assms] by blast

theorem aliases_classes_witness:
  "normalize_exclusion_id ''+5511987654321 '' = normalize_exclusion_id ''11987654321''
   \<and> normalize_exclusion_id ''11987654321'' = Inr ''5511987654321''"
proof -
  have v: "whatsapp_id_lookup_aliases ''+5511987654321 '' = Inr [''5511987654321'', ''11987654321'']"
    "whatsapp_id_lookup_aliases ''11987654321'' = Inr [''5511987654321'', ''11987654321'']"
    by code_simp+
  show ?thesis using aliases_classes [OF v] by (simp add: normalize_exclusion_id_def v)
qed

section \<open>Normal texts\<close>

lemma runs_aux_props:
  "x \<in> set (runs_aux p s acc) \<Longrightarrow> list_all p acc \<Longrightarrow> x \<noteq> [] \<and> list_all p x"
  by (induction p s acc rule: runs_aux.induct) (auto split: if_splits)

lemma runs_aux_append:
  "list_all p x \<Longrightarrow> runs_aux p (x @ s) acc = runs_aux p s (rev x @ acc)"
  by (induction x arbitrary: acc) auto

lemma runs_join:
  assumes "\<forall>x \<in> set xs. x \<noteq> [] \<and> list_all p x" and "\<not> p c"
  shows "runs p (join [c] xs) = xs"
  using assms(1)
proof (induction xs)
  case (Cons x xs)
  show ?case
  proof (cases xs)
    case Nil
    then show ?thesis using Cons.prems runs_aux_append [of p x "[]" "[]"] by (simp add: runs_def)
  next
    case (Cons y zs)
    then show ?thesis
      using Cons.prems Cons.IH runs_aux_append [of p x "c # join [c] (y # zs)" "[]"] assms(2)
      by (simp add: runs_def)
  qed
qed (simp add: runs_def)

lemma split_ws_join: "split_ws (join '' '' (split_ws v)) = split_ws v"
proof -
  have "\<forall>x \<in> set (split_ws v). x \<noteq> [] \<and> list_all (\<lambda>c. \<not> py_isspace c) x"
    using runs_aux_props unfolding split_ws_def runs_def by fastforce
  then show ?thesis
    unfolding split_ws_def [of "join _ _"]
    by (rule runs_join) (simp add: py_isspace_def code_point_def)
qed

lemma assistant_message_normal_stable:
  assumes "normalize_assistant_message v = Inr n"
  shows "normalize_assistant_message n = Inr n \<and> n \<noteq> []"
proof -
  have n: "n = join '' '' (split_ws v)" using assms
    by (auto simp: normalize_assistant_message_def Let_def split: if_splits)
  then have "join '' '' (split_ws n) = n" by (simp add: split_ws_join)
  then show ?thesis using assms by (auto simp: normalize_assistant_message_def Let_def n split: if_splits)
qed

lemma assistant_message_normal_parts:
  assumes "normalize_assistant_message v = Inr n"
  shows "normalize_assistant_message n = Inr n" and "n \<noteq> []" and "length n \<le> 1000"
    and "CHR ''<'' \<notin> set n" and "CHR ''>'' \<notin> set n"
  using assistant_message_normal_stable [OF assms] assms
  by (auto simp: normalize_assistant_message_def Let_def split: if_splits)

text \<open>
  A normalised message of the assistant is stable: it has between 1 and 1000 characters, no
  angle bracket, and normalising it again changes nothing.
\<close>

theorem assistant_message_normal:
  assumes "normalize_assistant_message v = Inr n"
  shows "normalize_assistant_message n = Inr n \<and> n \<noteq> [] \<and> length n \<le> 1000
    \<and> CHR ''<'' \<notin> set n \<and> CHR ''>'' \<notin> set n"
  using assistant_message_normal_parts [OF assms] by blast

theorem assistant_message_normal_witness:
  "normalize_assistant_message ''  Bom   dia! '' = Inr ''Bom dia!''
   \<and> normalize_assistant_message ''Bom dia!'' = Inr ''Bom dia!''"
proof -
  have "normalize_assistant_message ''  Bom   dia! '' = Inr ''Bom dia!''" by code_simp
  then show ?thesis using assistant_message_normal by blast
qed

end
