(* ===== verification/MessagingData.thy ===== *)
theory MessagingData
  imports Contacts Calendar
begin

text \<open>
  The rows of the messaging tables (\<open>app/models/domain.py\<close>, \<open>auth.py\<close>, \<open>billing.py\<close>), with
  the columns the messaging code reads or writes, and the database that holds them. A table is
  the list of its rows in the order of insertion; a null column is \<open>None\<close>.
\<close>

section \<open>Rows\<close>

record tenant =
  tn_id :: uuid
  tn_name :: string
  tn_active :: bool
  tn_timezone :: string
  tn_window :: int
  tn_assistant :: bool
  tn_greeting :: string
  tn_fallback :: string
  tn_handoff :: string
  tn_phone_id :: "string option"

record customer =
  cu_id :: uuid
  cu_business :: uuid
  cu_whatsapp_id :: string
  cu_name :: "string option"
  cu_name_source :: "string option"
  cu_profile_name :: "string option"

record conversation =
  cv_id :: uuid
  cv_business :: uuid
  cv_customer :: uuid
  cv_state :: string
  cv_context :: pydict
  cv_enabled :: bool
  cv_handoff :: string
  cv_last_interaction :: instant
  cv_suppressed_until :: "instant option"
  cv_suppression_reason :: "string option"
  cv_control_started :: "instant option"
  cv_last_human :: "instant option"
  cv_initiated_by :: "string option"
  cv_pinned :: "instant option"
  cv_last_read :: "instant option"
  cv_unread :: bool
  cv_deleted :: "instant option"

record exclusion =
  ex_id :: uuid
  ex_business :: uuid
  ex_whatsapp_id :: string
  ex_mode :: string
  ex_label :: "string option"
  ex_reason :: "string option"
  ex_active :: bool
  ex_created :: instant

record message =
  ms_id :: uuid
  ms_business :: uuid
  ms_conversation :: uuid
  ms_provider_id :: "string option"
  ms_direction :: string
  ms_type :: string
  ms_body :: "string option"
  ms_interactive_id :: "string option"
  ms_media_id :: "string option"
  ms_media_mime :: "string option"
  ms_media_filename :: "string option"
  ms_media_sha256 :: "string option"
  ms_payload :: "pydict option"
  ms_status :: string
  ms_sent_at :: "instant option"
  ms_key :: "string option"
  ms_created :: instant

record business_access =
  ba_business :: uuid
  ba_mode :: string
  ba_full :: bool

record subscription =
  sb_id :: uuid
  sb_business :: uuid
  sb_plan :: string
  sb_environment :: string
  sb_status :: string
  sb_access_until :: instant
  sb_created :: instant

record customer_outreach =
  co_id :: uuid
  co_business :: uuid
  co_customer :: uuid
  co_conversation :: uuid
  co_appointment :: "uuid option"
  co_type :: string
  co_due :: instant
  co_trigger :: instant
  co_status :: string
  co_label :: "string option"
  co_key :: string
  co_sent_at :: "instant option"
  co_responded_at :: "instant option"
  co_created :: instant

record webhook_row =
  pw_event_key :: string
  pw_business :: "uuid option"
  pw_provider_id :: "string option"
  pw_type :: string
  pw_status :: string
  pw_reason :: "string option"
  pw_failure_code :: "string option"
  pw_attempts :: int
  pw_processed_at :: "instant option"

record push_row =
  pu_event_key :: string
  pu_business :: uuid
  pu_type :: string
  pu_path :: string

record connection_row =
  cn_id :: uuid
  cn_business :: uuid
  cn_status :: string
  cn_phone_id :: "string option"

record messaging_db =
  md_tenants :: "tenant list"
  md_customers :: "customer list"
  md_conversations :: "conversation list"
  md_exclusions :: "exclusion list"
  md_messages :: "message list"
  md_access :: "business_access list"
  md_subscriptions :: "subscription list"
  md_outreach :: "customer_outreach list"
  md_webhooks :: "webhook_row list"
  md_pushes :: "push_row list"
  md_connections :: "connection_row list"

section \<open>Queries\<close>

text \<open>\<open>scalar_one_or_none\<close>, \<open>one\<close> and \<open>scalar_one\<close> of SQLAlchemy.\<close>

definition one_or_none :: "'a list \<Rightarrow> messaging_error + 'a option" where
  "one_or_none rows =
     (case rows of [] \<Rightarrow> Inr None | [r] \<Rightarrow> Inr (Some r) | _ \<Rightarrow> Inl (DuplicateRow ''Multiple rows were found''))"

definition exactly_one :: "'a list \<Rightarrow> messaging_error + 'a" where
  "exactly_one rows =
     (case rows of [] \<Rightarrow> Inl NoRow | [r] \<Rightarrow> Inr r | _ \<Rightarrow> Inl (DuplicateRow ''Multiple rows were found''))"

lemma one_or_none_Inr:
  "one_or_none rows = Inr r \<longleftrightarrow> (rows = [] \<and> r = None) \<or> (\<exists>x. rows = [x] \<and> r = Some x)"
  by (auto simp: one_or_none_def split: list.splits)

lemma exactly_one_Inr [simp]: "exactly_one rows = Inr r \<longleftrightarrow> rows = [r]"
  by (auto simp: exactly_one_def split: list.splits)

lemma exactly_one_single [simp]: "exactly_one [r] = Inr r"
  by simp

definition conversation_at :: "uuid \<Rightarrow> uuid \<Rightarrow> conversation \<Rightarrow> bool" where
  "conversation_at b c r \<longleftrightarrow> cv_business r = b \<and> cv_id r = c"

definition conversations_at :: "messaging_db \<Rightarrow> uuid \<Rightarrow> uuid \<Rightarrow> conversation list" where
  "conversations_at db b c = filter (conversation_at b c) (md_conversations db)"

text \<open>\<open>UPDATE conversations SET f WHERE business_id = b AND id = c AND p\<close>.\<close>

definition update_conversations ::
  "(conversation \<Rightarrow> bool) \<Rightarrow> (conversation \<Rightarrow> conversation) \<Rightarrow> messaging_db \<Rightarrow> messaging_db" where
  "update_conversations p f db =
     db\<lparr>md_conversations := update_where p f (md_conversations db)\<rparr>"

definition update_messages ::
  "(message \<Rightarrow> bool) \<Rightarrow> (message \<Rightarrow> message) \<Rightarrow> messaging_db \<Rightarrow> messaging_db" where
  "update_messages p f db = db\<lparr>md_messages := update_where p f (md_messages db)\<rparr>"

definition update_outreach ::
  "(customer_outreach \<Rightarrow> bool) \<Rightarrow> (customer_outreach \<Rightarrow> customer_outreach) \<Rightarrow> messaging_db \<Rightarrow> messaging_db" where
  "update_outreach p f db = db\<lparr>md_outreach := update_where p f (md_outreach db)\<rparr>"

lemma update_conversations_sel [simp, sql]:
  "md_tenants (update_conversations p f db) = md_tenants db"
  "md_customers (update_conversations p f db) = md_customers db"
  "md_exclusions (update_conversations p f db) = md_exclusions db"
  "md_messages (update_conversations p f db) = md_messages db"
  "md_access (update_conversations p f db) = md_access db"
  "md_subscriptions (update_conversations p f db) = md_subscriptions db"
  "md_outreach (update_conversations p f db) = md_outreach db"
  "md_webhooks (update_conversations p f db) = md_webhooks db"
  "md_pushes (update_conversations p f db) = md_pushes db"
  "md_connections (update_conversations p f db) = md_connections db"
  "md_conversations (update_conversations p f db) = update_where p f (md_conversations db)"
  by (simp_all add: update_conversations_def)

lemma update_messages_sel [simp, sql]:
  "md_tenants (update_messages p g db) = md_tenants db"
  "md_customers (update_messages p g db) = md_customers db"
  "md_exclusions (update_messages p g db) = md_exclusions db"
  "md_conversations (update_messages p g db) = md_conversations db"
  "md_access (update_messages p g db) = md_access db"
  "md_subscriptions (update_messages p g db) = md_subscriptions db"
  "md_outreach (update_messages p g db) = md_outreach db"
  "md_webhooks (update_messages p g db) = md_webhooks db"
  "md_pushes (update_messages p g db) = md_pushes db"
  "md_connections (update_messages p g db) = md_connections db"
  "md_messages (update_messages p g db) = update_where p g (md_messages db)"
  by (simp_all add: update_messages_def)

lemma update_outreach_sel [simp, sql]:
  "md_tenants (update_outreach p h db) = md_tenants db"
  "md_customers (update_outreach p h db) = md_customers db"
  "md_exclusions (update_outreach p h db) = md_exclusions db"
  "md_conversations (update_outreach p h db) = md_conversations db"
  "md_messages (update_outreach p h db) = md_messages db"
  "md_access (update_outreach p h db) = md_access db"
  "md_subscriptions (update_outreach p h db) = md_subscriptions db"
  "md_webhooks (update_outreach p h db) = md_webhooks db"
  "md_pushes (update_outreach p h db) = md_pushes db"
  "md_connections (update_outreach p h db) = md_connections db"
  "md_outreach (update_outreach p h db) = update_where p h (md_outreach db)"
  by (simp_all add: update_outreach_def)

text \<open>A query by key after an update that keeps the key.\<close>

lemma filter_update_where:
  assumes "\<And>x. q (f x) = q x"
  shows "filter q (update_where p f xs) = update_where p f (filter q xs)"
  by (induction xs) (auto simp: update_where_def assms)

lemma filter_update_where_other:
  assumes "\<And>x. p x \<Longrightarrow> \<not> q x" and "\<And>x. p x \<Longrightarrow> \<not> q (f x)"
  shows "filter q (update_where p f xs) = filter q xs"
  by (induction xs) (auto simp: update_where_def assms)

lemma update_where_single [simp]: "update_where p f [x] = [if p x then f x else x]"
  by (simp add: update_where_def)

lemma update_where_Nil [simp]: "update_where p f [] = []"
  by (simp add: update_where_def)

section \<open>Unique rows\<close>

text \<open>
  What the primary keys and the unique constraints of the tables keep: identifiers are unique
  everywhere, a business has one customer per contact, one conversation per customer and one
  exclusion per contact.
\<close>

definition keys_ok :: "messaging_db \<Rightarrow> bool" where
  "keys_ok db \<longleftrightarrow>
     distinct (map tn_id (md_tenants db))
     \<and> distinct (map cu_id (md_customers db))
     \<and> distinct (map (\<lambda>c. (cu_business c, cu_whatsapp_id c)) (md_customers db))
     \<and> distinct (map cv_id (md_conversations db))
     \<and> distinct (map (\<lambda>c. (cv_business c, cv_customer c)) (md_conversations db))
     \<and> distinct (map (\<lambda>e. (ex_business e, ex_whatsapp_id e)) (md_exclusions db))
     \<and> distinct (map ms_id (md_messages db))
     \<and> distinct (map ba_business (md_access db))
     \<and> distinct (map co_id (md_outreach db))
     \<and> distinct (map co_key (md_outreach db))
     \<and> distinct (map pw_event_key (md_webhooks db))"

lemma filter_key_single:
  assumes "distinct (map k xs)" and "\<And>x. q x \<Longrightarrow> k x = v"
  shows "filter q xs = [] \<or> (\<exists>x. filter q xs = [x])"
  using assms(1)
proof (induction xs)
  case (Cons x xs)
  show ?case
  proof (cases "q x")
    case True
    then have "filter q xs = []"
      using Cons.prems assms(2) by (force simp: filter_empty_conv)
    then show ?thesis using True by simp
  qed (use Cons in auto)
qed simp

lemma filter_key_mem:
  assumes "distinct (map k xs)" and "x \<in> set xs" and "\<And>y. q y \<Longrightarrow> k y = k x" and "q x"
  shows "filter q xs = [x]"
proof -
  have x: "x \<in> set (filter q xs)" using assms(2,4) by simp
  have "filter q xs = [] \<or> (\<exists>y. filter q xs = [y])"
    using assms(1,3) by (rule filter_key_single)
  then show ?thesis using x by (elim disjE exE) simp_all
qed

lemma conversations_at_single:
  "keys_ok db \<Longrightarrow> conversations_at db b c = [] \<or> (\<exists>r. conversations_at db b c = [r])"
  unfolding conversations_at_def keys_ok_def
  by (rule filter_key_single [of cv_id _ _ c]) (auto simp: conversation_at_def)

lemma conversations_at_update:
  "(\<And>x. cv_business (f x) = cv_business x \<and> cv_id (f x) = cv_id x) \<Longrightarrow>
   conversations_at (update_conversations p f db) b c = update_where p f (conversations_at db b c)"
  unfolding conversations_at_def update_conversations_sel
  by (rule filter_update_where) (simp add: conversation_at_def)

lemma conversations_at_other [simp]:
  "conversations_at (update_messages p g db) b c = conversations_at db b c"
  "conversations_at (update_outreach q h db) b c = conversations_at db b c"
  by (simp_all add: conversations_at_def)

end
