(* ===== verification/Automation.thy ===== *)
theory Automation
  imports MessagingData
begin

text \<open>
  When the assistant may answer: the SQL repository of \<open>app/repositories/automation.py\<close>, the
  policy and the administration of \<open>app/automation/service.py\<close>, and the request bodies of
  \<open>app/schemas/automation.py\<close>. The policy calls its repository through an interface, which is
  a record of operations here; the laws it needs are a locale that the SQL repository satisfies.
\<close>

section \<open>The repository\<close>

record conversation_control =
  cc_suppressed_until :: "instant option"
  cc_handoff :: string
  cc_enabled :: bool

definition get_active_exclusion_mode ::
  "messaging_db \<Rightarrow> uuid \<Rightarrow> string \<Rightarrow> messaging_error + exclusion_mode option" where
  "get_active_exclusion_mode db b w =
     (case one_or_none (map ex_mode (filter (\<lambda>e. ex_business e = b \<and> ex_whatsapp_id e = w \<and> ex_active e)
              (md_exclusions db))) of
        Inl e \<Rightarrow> Inl e
      | Inr None \<Rightarrow> Inr None
      | Inr (Some m) \<Rightarrow> (case exclusion_mode_of m of Inl e \<Rightarrow> Inl e | Inr x \<Rightarrow> Inr (Some x)))"

definition control_of :: "conversation \<Rightarrow> conversation_control" where
  "control_of r = \<lparr>cc_suppressed_until = cv_suppressed_until r, cc_handoff = cv_handoff r,
     cc_enabled = cv_enabled r\<rparr>"

definition lock_conversation_control ::
  "messaging_db \<Rightarrow> uuid \<Rightarrow> uuid \<Rightarrow> messaging_error + conversation_control" where
  "lock_conversation_control db b c =
     (case exactly_one (conversations_at db b c) of Inl e \<Rightarrow> Inl e | Inr r \<Rightarrow> Inr (control_of r))"

text \<open>The messages an automatic cancellation may fail: pending ones that no person wrote.\<close>

definition manual_key :: "string option \<Rightarrow> bool" where
  "manual_key k \<longleftrightarrow> (case k of None \<Rightarrow> False | Some s \<Rightarrow> starts_with s ''manual:outbound:'')"

definition pending_automatic :: "message \<Rightarrow> bool" where
  "pending_automatic m \<longleftrightarrow> ms_direction m = ''outbound'' \<and> ms_status m = ''pending'' \<and> \<not> manual_key (ms_key m)"

definition fail_message :: "message \<Rightarrow> message" where
  "fail_message m = m\<lparr>ms_status := ''failed''\<rparr>"

definition cancel_pending_outbounds :: "messaging_db \<Rightarrow> uuid \<Rightarrow> uuid \<Rightarrow> messaging_db" where
  "cancel_pending_outbounds db b c =
     update_messages (\<lambda>m. ms_business m = b \<and> ms_conversation m = c \<and> pending_automatic m) fail_message db"

definition cancel_pending_for_business :: "messaging_db \<Rightarrow> uuid \<Rightarrow> messaging_db" where
  "cancel_pending_for_business db b =
     update_messages (\<lambda>m. ms_business m = b \<and> pending_automatic m) fail_message db"

definition mark_human_only :: "messaging_db \<Rightarrow> uuid \<Rightarrow> uuid \<Rightarrow> messaging_db" where
  "mark_human_only db b c =
     cancel_pending_outbounds
       (update_conversations (\<lambda>r. conversation_at b c r \<and> cv_handoff r = ''none'')
          (\<lambda>r. r\<lparr>cv_handoff := ''human_only''\<rparr>) db) b c"

definition clear_human_only_marker :: "messaging_db \<Rightarrow> uuid \<Rightarrow> uuid \<Rightarrow> messaging_db" where
  "clear_human_only_marker db b c =
     update_conversations (\<lambda>r. conversation_at b c r \<and> cv_handoff r = ''human_only'')
       (\<lambda>r. r\<lparr>cv_handoff := ''none''\<rparr>) db"

definition clear_temporary_suppression :: "messaging_db \<Rightarrow> uuid \<Rightarrow> uuid \<Rightarrow> messaging_db" where
  "clear_temporary_suppression db b c =
     update_conversations (conversation_at b c)
       (\<lambda>r. r\<lparr>cv_suppressed_until := None, cv_suppression_reason := None\<rparr>) db"

text \<open>The conversations of the contact with one of these identifiers.\<close>

definition contact_conversation :: "messaging_db \<Rightarrow> uuid \<Rightarrow> string list \<Rightarrow> uuid \<Rightarrow> bool" where
  "contact_conversation db b ids c \<longleftrightarrow>
     list_ex (\<lambda>r. conversation_at b c r
        \<and> list_ex (\<lambda>u. cu_business u = cv_business r \<and> cu_id u = cv_customer r
             \<and> cu_whatsapp_id u \<in> set ids) (md_customers db)) (md_conversations db)"

definition clear_human_only_for_contact ::
  "messaging_db \<Rightarrow> uuid \<Rightarrow> string \<Rightarrow> messaging_error + messaging_db" where
  "clear_human_only_for_contact db b w =
     (case whatsapp_id_lookup_aliases w of Inl e \<Rightarrow> Inl e
      | Inr ids \<Rightarrow> Inr (update_conversations
          (\<lambda>r. cv_business r = b \<and> contact_conversation db b ids (cv_id r) \<and> cv_handoff r = ''human_only'')
          (\<lambda>r. r\<lparr>cv_handoff := ''none''\<rparr>) db))"

text \<open>Unlike the other two, this cancellation also fails what a person wrote.\<close>

definition cancel_pending_for_contact ::
  "messaging_db \<Rightarrow> uuid \<Rightarrow> string \<Rightarrow> messaging_error + messaging_db" where
  "cancel_pending_for_contact db b w =
     (case whatsapp_id_lookup_aliases w of Inl e \<Rightarrow> Inl e
      | Inr ids \<Rightarrow> Inr (update_messages
          (\<lambda>m. ms_business m = b \<and> ms_direction m = ''outbound'' \<and> ms_status m = ''pending''
             \<and> contact_conversation db b ids (ms_conversation m)) fail_message db))"

text \<open>
  A message written by a person. An update reads the old columns: one older than the last such
  message changes nothing but the interaction time.
\<close>

definition latest_human :: "instant \<Rightarrow> conversation \<Rightarrow> bool" where
  "latest_human t r \<longleftrightarrow> (case cv_last_human r of None \<Rightarrow> True | Some u \<Rightarrow> u \<le> t)"

definition human_message :: "instant \<Rightarrow> instant \<Rightarrow> conversation \<Rightarrow> conversation" where
  "human_message until t r =
     r\<lparr>cv_suppressed_until := (if latest_human t r then Some until else cv_suppressed_until r),
       cv_suppression_reason := (if latest_human t r then Some ''manual_business_message'' else cv_suppression_reason r),
       cv_control_started :=
         (if latest_human t r \<and> (case cv_suppressed_until r of None \<Rightarrow> True | Some u \<Rightarrow> u \<le> t)
          then Some t else cv_control_started r),
       cv_last_human := (if latest_human t r then Some t else cv_last_human r),
       cv_last_interaction := (if cv_last_interaction r < t then t else cv_last_interaction r)\<rparr>"

definition tenant_window :: "messaging_db \<Rightarrow> uuid \<Rightarrow> messaging_error + int" where
  "tenant_window db b =
     (case exactly_one (filter (\<lambda>n. tn_id n = b) (md_tenants db)) of Inl e \<Rightarrow> Inl e | Inr n \<Rightarrow> Inr (tn_window n))"

definition activate_human_control ::
  "messaging_db \<Rightarrow> uuid \<Rightarrow> uuid \<Rightarrow> instant \<Rightarrow> messaging_error + (instant option \<times> messaging_db)" where
  "activate_human_control db b c t =
     (case tenant_window db b of Inl e \<Rightarrow> Inl e
      | Inr w \<Rightarrow>
     (case lock_conversation_control db b c of Inl e \<Rightarrow> Inl e
      | Inr _ \<Rightarrow>
          let db1 = update_conversations (conversation_at b c) (human_message (t + minutes w) t) db;
              db2 = cancel_pending_outbounds db1 b c
          in (case exactly_one (conversations_at db1 b c) of Inl e \<Rightarrow> Inl e
              | Inr r \<Rightarrow> Inr (cv_suppressed_until r, db2))))"

section \<open>The policy\<close>

text \<open>\<open>AutomationPolicyRepository\<close>: the operations the policy calls.\<close>

record 's policy_repository =
  pr_exclusion :: "'s \<Rightarrow> uuid \<Rightarrow> string \<Rightarrow> messaging_error + exclusion_mode option"
  pr_control :: "'s \<Rightarrow> uuid \<Rightarrow> uuid \<Rightarrow> messaging_error + conversation_control"
  pr_mark :: "'s \<Rightarrow> uuid \<Rightarrow> uuid \<Rightarrow> 's"
  pr_clear :: "'s \<Rightarrow> uuid \<Rightarrow> uuid \<Rightarrow> 's"
  pr_activate :: "'s \<Rightarrow> uuid \<Rightarrow> uuid \<Rightarrow> instant \<Rightarrow> messaging_error + (instant option \<times> 's)"

definition sql_repository :: "messaging_db policy_repository" where
  "sql_repository = \<lparr>pr_exclusion = get_active_exclusion_mode, pr_control = lock_conversation_control,
     pr_mark = mark_human_only, pr_clear = clear_temporary_suppression,
     pr_activate = activate_human_control\<rparr>"

fun first_exclusion ::
  "'s policy_repository \<Rightarrow> 's \<Rightarrow> uuid \<Rightarrow> string list \<Rightarrow> messaging_error + exclusion_mode option" where
  "first_exclusion repo s b [] = Inr None"
| "first_exclusion repo s b (w # ws) =
     (case pr_exclusion repo s b w of
        Inl e \<Rightarrow> Inl e
      | Inr (Some m) \<Rightarrow> Inr (Some m)
      | Inr None \<Rightarrow> first_exclusion repo s b ws)"

definition active_exclusion ::
  "'s policy_repository \<Rightarrow> 's \<Rightarrow> uuid \<Rightarrow> string \<Rightarrow> messaging_error + exclusion_mode option" where
  "active_exclusion repo s b w =
     (case whatsapp_id_lookup_aliases w of Inl e \<Rightarrow> Inl e | Inr ids \<Rightarrow> first_exclusion repo s b ids)"

definition evaluate_customer_inbound ::
  "'s policy_repository \<Rightarrow> instant \<Rightarrow> uuid \<Rightarrow> uuid \<Rightarrow> exclusion_mode option \<Rightarrow> 's
   \<Rightarrow> messaging_error + (automation_decision \<times> 's)" where
  "evaluate_customer_inbound repo now b c mode s =
     (case mode of
        Some Ignore \<Rightarrow> Inr (Ignored, s)
      | Some HumanOnly \<Rightarrow> Inr (DecidedHumanOnly, pr_mark repo s b c)
      | None \<Rightarrow>
     (case pr_control repo s b c of
        Inl e \<Rightarrow> Inl e
      | Inr k \<Rightarrow>
          if \<not> cc_enabled k \<or> cc_handoff k = ''waiting'' then Inr (Disabled, s)
          else if cc_handoff k = ''human_only'' then Inr (DecidedHumanOnly, s)
          else (case cc_suppressed_until k of
             None \<Rightarrow> Inr (Allowed, s)
           | Some u \<Rightarrow> if now < u then Inr (TemporarilySuppressed, s)
                       else Inr (Allowed, pr_clear repo s b c))))"

definition register_manual_business_message ::
  "'s policy_repository \<Rightarrow> uuid \<Rightarrow> uuid \<Rightarrow> instant \<Rightarrow> 's \<Rightarrow> messaging_error + (instant option \<times> 's)" where
  "register_manual_business_message repo b c t s = pr_activate repo s b c t"

section \<open>Administration\<close>

text \<open>\<open>AutomationExclusionCreate\<close>, as its validator leaves it.\<close>

record exclusion_create =
  xc_whatsapp_id :: string
  xc_mode :: exclusion_mode
  xc_label :: "string option"
  xc_reason :: "string option"
  xc_active :: bool

definition mk_exclusion_create :: "exclusion_create \<Rightarrow> messaging_error + exclusion_create" where
  "mk_exclusion_create v =
     (case normalize_exclusion_id (xc_whatsapp_id v) of Inl e \<Rightarrow> Inl e
      | Inr w \<Rightarrow>
          if (case xc_label v of None \<Rightarrow> False | Some s \<Rightarrow> 255 < length s) then Inl (InvalidValue ''label'')
          else if (case xc_reason v of None \<Rightarrow> False | Some s \<Rightarrow> 2000 < length s) then Inl (InvalidValue ''reason'')
          else Inr (v\<lparr>xc_whatsapp_id := w\<rparr>))"

text \<open>\<open>AutomationExclusionUpdate\<close>: a field that is not set is \<open>None\<close>.\<close>

record exclusion_update =
  xu_mode :: "exclusion_mode option"
  xu_label :: "string option option"
  xu_reason :: "string option option"
  xu_active :: "bool option"

definition row_of_create :: "uuid \<Rightarrow> uuid \<Rightarrow> instant \<Rightarrow> exclusion_create \<Rightarrow> exclusion" where
  "row_of_create i b t v =
     \<lparr>ex_id = i, ex_business = b, ex_whatsapp_id = xc_whatsapp_id v, ex_mode = exclusion_mode_value (xc_mode v),
      ex_label = xc_label v, ex_reason = xc_reason v, ex_active = xc_active v, ex_created = t\<rparr>"

text \<open>The insert is refused by the unique constraint or by the check on the identifier.\<close>

definition insert_exclusion :: "messaging_db \<Rightarrow> exclusion \<Rightarrow> messaging_error + messaging_db" where
  "insert_exclusion db x =
     (if \<not> individual_id (ex_whatsapp_id x) then Inl (InvalidValue ''whatsapp_id_normalized'')
      else if list_ex (\<lambda>e. ex_business e = ex_business x \<and> ex_whatsapp_id e = ex_whatsapp_id x) (md_exclusions db)
      then Inl (DuplicateRow ''uq_business_automation_exclusions_business_whatsapp'')
      else Inr (db\<lparr>md_exclusions := md_exclusions db @ [x]\<rparr>))"

definition add_exclusion ::
  "uuid \<Rightarrow> instant \<Rightarrow> uuid \<Rightarrow> exclusion_create \<Rightarrow> messaging_db \<Rightarrow> messaging_error + (exclusion \<times> messaging_db)" where
  "add_exclusion i t b v db =
     (let x = row_of_create i b t v
      in case insert_exclusion db x of Inl e \<Rightarrow> Inl e
         | Inr db1 \<Rightarrow>
             if xc_active v
             then (case cancel_pending_for_contact db1 b (xc_whatsapp_id v) of Inl e \<Rightarrow> Inl e
                   | Inr db2 \<Rightarrow> Inr (x, db2))
             else Inr (x, db1))"

definition list_exclusions :: "messaging_db \<Rightarrow> uuid \<Rightarrow> exclusion list" where
  "list_exclusions db b = sort_key ex_created (filter (\<lambda>e. ex_business e = b) (md_exclusions db))"

definition get_exclusion :: "messaging_db \<Rightarrow> uuid \<Rightarrow> uuid \<Rightarrow> messaging_error + exclusion option" where
  "get_exclusion db b i = one_or_none (filter (\<lambda>e. ex_business e = b \<and> ex_id e = i) (md_exclusions db))"

definition delete_exclusion :: "messaging_db \<Rightarrow> uuid \<Rightarrow> uuid \<Rightarrow> messaging_db" where
  "delete_exclusion db b i =
     db\<lparr>md_exclusions := filter (\<lambda>e. \<not> (ex_business e = b \<and> ex_id e = i)) (md_exclusions db)\<rparr>"

definition apply_update :: "exclusion_update \<Rightarrow> exclusion \<Rightarrow> exclusion" where
  "apply_update v e =
     e\<lparr>ex_mode := (case xu_mode v of None \<Rightarrow> ex_mode e | Some m \<Rightarrow> exclusion_mode_value m),
       ex_label := (case xu_label v of None \<Rightarrow> ex_label e | Some l \<Rightarrow> l),
       ex_reason := (case xu_reason v of None \<Rightarrow> ex_reason e | Some r \<Rightarrow> r),
       ex_active := (case xu_active v of None \<Rightarrow> ex_active e | Some a \<Rightarrow> a)\<rparr>"

definition releases_human_only :: "exclusion \<Rightarrow> exclusion \<Rightarrow> bool" where
  "releases_human_only old x \<longleftrightarrow>
     (\<not> ex_active x \<and> (ex_mode old = ''human_only'' \<or> ex_mode x = ''human_only''))
     \<or> (ex_mode old = ''human_only'' \<and> ex_mode x \<noteq> ''human_only'')"

definition update_exclusion ::
  "uuid \<Rightarrow> uuid \<Rightarrow> exclusion_update \<Rightarrow> messaging_db \<Rightarrow> messaging_error + (exclusion option \<times> messaging_db)" where
  "update_exclusion b i v db =
     (case get_exclusion db b i of
        Inl e \<Rightarrow> Inl e
      | Inr None \<Rightarrow> Inr (None, db)
      | Inr (Some old) \<Rightarrow>
          let x = apply_update v old;
              db1 = db\<lparr>md_exclusions := update_where (\<lambda>e. ex_business e = b \<and> ex_id e = i) (\<lambda>_. x) (md_exclusions db)\<rparr>
          in (case (if ex_active x then cancel_pending_for_contact db1 b (ex_whatsapp_id x) else Inr db1) of
                Inl e \<Rightarrow> Inl e
              | Inr db2 \<Rightarrow>
             (case (if releases_human_only old x then clear_human_only_for_contact db2 b (ex_whatsapp_id x)
                    else Inr db2) of
                Inl e \<Rightarrow> Inl e
              | Inr db3 \<Rightarrow> Inr (Some x, db3))))"

definition update_tenant :: "uuid \<Rightarrow> (tenant \<Rightarrow> tenant) \<Rightarrow> messaging_db \<Rightarrow> bool \<times> messaging_db" where
  "update_tenant b f db =
     (list_ex (\<lambda>n. tn_id n = b) (md_tenants db),
      db\<lparr>md_tenants := update_where (\<lambda>n. tn_id n = b) f (md_tenants db)\<rparr>)"

definition set_human_control_window ::
  "uuid \<Rightarrow> int \<Rightarrow> messaging_db \<Rightarrow> messaging_error + (bool \<times> messaging_db)" where
  "set_human_control_window b n db =
     (case validate_human_control_window (PInt n) of Inl e \<Rightarrow> Inl e
      | Inr _ \<Rightarrow> Inr (update_tenant b (\<lambda>r. r\<lparr>tn_window := n\<rparr>) db))"

record automation_settings =
  as_window :: int
  as_assistant :: bool
  as_greeting :: string
  as_fallback :: string
  as_handoff :: string

text \<open>\<open>values.greeting or defaults.greeting\<close> and the validators of \<open>BusinessAutomationSettings\<close>.\<close>

definition or_default :: "string \<Rightarrow> string \<Rightarrow> string" where
  "or_default v d = (if v = [] then d else v)"

definition mk_settings :: "automation_settings \<Rightarrow> messaging_error + automation_settings" where
  "mk_settings v =
     (case validate_human_control_window (PInt (as_window v)) of Inl e \<Rightarrow> Inl e | Inr _ \<Rightarrow>
     (case normalize_assistant_message (as_greeting v) of Inl e \<Rightarrow> Inl e | Inr g \<Rightarrow>
     (case normalize_assistant_message (as_fallback v) of Inl e \<Rightarrow> Inl e | Inr f \<Rightarrow>
     (case normalize_assistant_message (as_handoff v) of Inl e \<Rightarrow> Inl e | Inr h \<Rightarrow>
        Inr (v\<lparr>as_greeting := g, as_fallback := f, as_handoff := h\<rparr>)))))"

definition get_effective_settings ::
  "messaging_db \<Rightarrow> uuid \<Rightarrow> messaging_error + automation_settings option" where
  "get_effective_settings db b =
     (case one_or_none (filter (\<lambda>n. tn_id n = b) (md_tenants db)) of
        Inl e \<Rightarrow> Inl e
      | Inr None \<Rightarrow> Inr None
      | Inr (Some n) \<Rightarrow>
          (case mk_settings \<lparr>as_window = tn_window n, as_assistant = tn_assistant n,
                  as_greeting = or_default (tn_greeting n) default_greeting,
                  as_fallback = or_default (tn_fallback n) default_fallback,
                  as_handoff = or_default (tn_handoff n) default_handoff\<rparr> of
             Inl e \<Rightarrow> Inl e | Inr s \<Rightarrow> Inr (Some s)))"

record settings_update =
  su_window :: "int option"
  su_assistant :: "bool option"
  su_greeting :: "string option"
  su_fallback :: "string option"
  su_handoff :: "string option"

definition set_field :: "('a \<Rightarrow> tenant \<Rightarrow> tenant) \<Rightarrow> 'a option \<Rightarrow> tenant \<Rightarrow> tenant" where
  "set_field f v n = (case v of None \<Rightarrow> n | Some x \<Rightarrow> f x n)"

definition apply_settings :: "settings_update \<Rightarrow> tenant \<Rightarrow> tenant" where
  "apply_settings v n =
     set_field (\<lambda>x n. n\<lparr>tn_handoff := x\<rparr>) (su_handoff v)
     (set_field (\<lambda>x n. n\<lparr>tn_fallback := x\<rparr>) (su_fallback v)
     (set_field (\<lambda>x n. n\<lparr>tn_greeting := x\<rparr>) (su_greeting v)
     (set_field (\<lambda>x n. n\<lparr>tn_assistant := x\<rparr>) (su_assistant v)
     (set_field (\<lambda>x n. n\<lparr>tn_window := x\<rparr>) (su_window v) n))))"

text \<open>The validators of \<open>BusinessAutomationSettingsUpdate\<close>.\<close>

definition normalize_field :: "string option \<Rightarrow> messaging_error + string option" where
  "normalize_field v =
     (case v of None \<Rightarrow> Inr None
      | Some s \<Rightarrow> (case normalize_assistant_message s of Inl e \<Rightarrow> Inl e | Inr n \<Rightarrow> Inr (Some n)))"

definition mk_settings_update :: "settings_update \<Rightarrow> messaging_error + settings_update" where
  "mk_settings_update v =
     (case (case su_window v of None \<Rightarrow> Inr PNone | Some n \<Rightarrow> validate_human_control_window (PInt n)) of
        Inl e \<Rightarrow> Inl e | Inr _ \<Rightarrow>
     (case normalize_field (su_greeting v) of Inl e \<Rightarrow> Inl e | Inr g \<Rightarrow>
     (case normalize_field (su_fallback v) of Inl e \<Rightarrow> Inl e | Inr f \<Rightarrow>
     (case normalize_field (su_handoff v) of Inl e \<Rightarrow> Inl e | Inr h \<Rightarrow>
        if su_window v = None \<and> su_assistant v = None \<and> g = None \<and> f = None \<and> h = None
        then Inl (InvalidValue ''At least one field is required'')
        else Inr (v\<lparr>su_greeting := g, su_fallback := f, su_handoff := h\<rparr>)))))"

definition update_settings ::
  "uuid \<Rightarrow> settings_update \<Rightarrow> messaging_db \<Rightarrow> messaging_error + (bool \<times> messaging_db)" where
  "update_settings b v db =
     (case (case su_window v of None \<Rightarrow> Inr PNone | Some n \<Rightarrow> validate_human_control_window (PInt n)) of
        Inl e \<Rightarrow> Inl e
      | Inr _ \<Rightarrow>
          let (updated, db1) = update_tenant b (apply_settings v) db
          in Inr (updated, if updated \<and> su_assistant v = Some False then cancel_pending_for_business db1 b else db1))"

end
