(* ===== verification/Policy.thy ===== *)
theory Policy
  imports Automation
begin

text \<open>
  What the policy of the assistant promises: its decision is the one of a small abstract
  machine per conversation, human control lasts exactly its window whatever the order in which
  the messages of the team arrive, and an exclusion is found under every alias of its contact.
\<close>

section \<open>The abstract machine of a conversation\<close>

definition decide :: "instant \<Rightarrow> exclusion_mode option \<Rightarrow> conversation_control \<Rightarrow> automation_decision" where
  "decide now mode k =
     (case mode of
        Some Ignore \<Rightarrow> Ignored
      | Some HumanOnly \<Rightarrow> DecidedHumanOnly
      | None \<Rightarrow>
          if \<not> cc_enabled k \<or> cc_handoff k = ''waiting'' then Disabled
          else if cc_handoff k = ''human_only'' then DecidedHumanOnly
          else if (\<exists>u. cc_suppressed_until k = Some u \<and> now < u) then TemporarilySuppressed
          else Allowed)"

definition marked :: "conversation_control \<Rightarrow> conversation_control" where
  "marked k = (if cc_handoff k = ''none'' then k\<lparr>cc_handoff := ''human_only''\<rparr> else k)"

definition settle :: "instant \<Rightarrow> exclusion_mode option \<Rightarrow> conversation_control \<Rightarrow> conversation_control" where
  "settle now mode k =
     (if mode = Some HumanOnly then marked k
      else if decide now mode k = Allowed then k\<lparr>cc_suppressed_until := None\<rparr>
      else k)"

lemma decide_marked: "decide now (Some HumanOnly) (marked k) = DecidedHumanOnly"
  by (simp add: decide_def)

lemma decide_settle: "decide now mode (settle now mode k) = decide now mode k"
proof (cases "mode = Some HumanOnly \<or> decide now mode k \<noteq> Allowed")
  case True
  then show ?thesis by (auto simp: settle_def decide_marked) (simp_all add: decide_def)
next
  case False
  then have "mode = None" by (auto simp: decide_def split: option.splits exclusion_mode.splits)
  with False show ?thesis by (auto simp: settle_def decide_def split: if_splits)
qed

text \<open>
  The contract of the repository: each operation changes one column of one conversation, and
  none touches the exclusions.
\<close>

locale policy_store =
  fixes repo :: "'s policy_repository"
    and valid :: "'s \<Rightarrow> bool"
  assumes mark: "valid s \<Longrightarrow> pr_control repo s b c = Inr k \<Longrightarrow>
        pr_control repo (pr_mark repo s b c) b c = Inr (marked k)"
    and clear: "valid s \<Longrightarrow> pr_control repo s b c = Inr k \<Longrightarrow>
        pr_control repo (pr_clear repo s b c) b c = Inr (k\<lparr>cc_suppressed_until := None\<rparr>)"
    and activate: "valid s \<Longrightarrow> pr_control repo s b c = Inr k \<Longrightarrow>
        pr_activate repo s b c t = Inr (u, s') \<Longrightarrow>
        pr_control repo s' b c = Inr (k\<lparr>cc_suppressed_until := u\<rparr>)"
    and apart: "(b', c') \<noteq> (b, c) \<Longrightarrow> pr_control repo (pr_mark repo s b c) b' c' = pr_control repo s b' c'"
      "(b', c') \<noteq> (b, c) \<Longrightarrow> pr_control repo (pr_clear repo s b c) b' c' = pr_control repo s b' c'"
      "(b', c') \<noteq> (b, c) \<Longrightarrow> pr_activate repo s b c t = Inr (u, s') \<Longrightarrow>
        pr_control repo s' b' c' = pr_control repo s b' c'"
    and exclusions: "pr_exclusion repo (pr_mark repo s b c) = pr_exclusion repo s"
      "pr_exclusion repo (pr_clear repo s b c) = pr_exclusion repo s"
      "pr_activate repo s b c t = Inr (u, s') \<Longrightarrow> pr_exclusion repo s' = pr_exclusion repo s"
    and valid: "valid s \<Longrightarrow> valid (pr_mark repo s b c)" "valid s \<Longrightarrow> valid (pr_clear repo s b c)"
      "valid s \<Longrightarrow> pr_activate repo s b c t = Inr (u, s') \<Longrightarrow> valid s'"
begin

lemma evaluate_refines:
  assumes "valid s" and "pr_control repo s b c = Inr k"
  obtains s' where "evaluate_customer_inbound repo now b c mode s = Inr (decide now mode k, s')"
    and "pr_control repo s' b c = Inr (settle now mode k)"
    and "\<And>b' c'. (b', c') \<noteq> (b, c) \<Longrightarrow> pr_control repo s' b' c' = pr_control repo s b' c'"
    and "pr_exclusion repo s' = pr_exclusion repo s" and "valid s'"
proof (cases mode)
  case (Some m)
  show thesis
  proof (cases m)
    case Ignore
    then show thesis using that [of s] assms Some
      by (simp add: evaluate_customer_inbound_def decide_def settle_def)
  next
    case HumanOnly
    then show thesis using that [of "pr_mark repo s b c"] assms Some mark apart exclusions valid
      by (simp add: evaluate_customer_inbound_def decide_def settle_def)
  qed
next
  case None
  show thesis
  proof (cases "decide now mode k = Allowed \<and> cc_suppressed_until k \<noteq> None")
    case True
    then have "evaluate_customer_inbound repo now b c mode s = Inr (decide now mode k, pr_clear repo s b c)"
      using None assms by (auto simp: evaluate_customer_inbound_def decide_def split: if_splits)
    then show thesis
      using that [of "pr_clear repo s b c"] True None assms clear apart exclusions valid
      by (simp add: settle_def)
  next
    case False
    then have "evaluate_customer_inbound repo now b c mode s = Inr (decide now mode k, s)"
      using None assms
      by (auto simp: evaluate_customer_inbound_def decide_def split: if_splits option.splits)
    moreover have "settle now mode k = k" using False None by (auto simp: settle_def)
    ultimately show thesis using that [of s] assms by simp
  qed
qed

text \<open>Evaluating again at the same time decides the same.\<close>

lemma evaluate_stable:
  assumes "valid s" and "pr_control repo s b c = Inr k"
    and "evaluate_customer_inbound repo now b c mode s = Inr (d, s')"
  shows "\<exists>s''. evaluate_customer_inbound repo now b c mode s' = Inr (d, s'')"
proof -
  obtain t where t: "evaluate_customer_inbound repo now b c mode s = Inr (decide now mode k, t)"
    "pr_control repo t b c = Inr (settle now mode k)" "valid t"
    using evaluate_refines [OF assms(1,2)] by metis
  obtain u where "evaluate_customer_inbound repo now b c mode t = Inr (decide now mode (settle now mode k), u)"
    using evaluate_refines [OF t(3,2)] by metis
  then show ?thesis using t(1) assms(3) by (simp add: decide_settle)
qed

text \<open>A registered message of the team suppresses the assistant until the answered time.\<close>

lemma registered_suppresses:
  assumes "valid s" and "pr_control repo s b c = Inr k"
    and "register_manual_business_message repo b c t s = Inr (Some u, s')" and "now < u"
  shows "\<exists>d s''. evaluate_customer_inbound repo now b c mode s' = Inr (d, s'') \<and> d \<noteq> Allowed"
proof -
  have act: "pr_activate repo s b c t = Inr (Some u, s')"
    using assms(3) by (simp add: register_manual_business_message_def)
  have "valid s'" "pr_control repo s' b c = Inr (k\<lparr>cc_suppressed_until := Some u\<rparr>)"
    using valid(3) [OF assms(1) act] activate [OF assms(1,2) act] by simp_all
  then obtain s'' where
    "evaluate_customer_inbound repo now b c mode s' = Inr (decide now mode (k\<lparr>cc_suppressed_until := Some u\<rparr>), s'')"
    using evaluate_refines by metis
  moreover have "decide now mode (k\<lparr>cc_suppressed_until := Some u\<rparr>) \<noteq> Allowed"
    using assms(4) by (auto simp: decide_def split: option.splits exclusion_mode.splits)
  ultimately show ?thesis by blast
qed

lemma first_exclusion_found:
  "first_exclusion repo s b ws = Inr None \<longleftrightarrow> (\<forall>w \<in> set ws. pr_exclusion repo s b w = Inr None)"
  by (induction ws) (auto split: sum.splits option.splits)

lemma first_exclusion_Some:
  "first_exclusion repo s b ws = Inr (Some m) \<Longrightarrow> \<exists>w \<in> set ws. pr_exclusion repo s b w = Inr (Some m)"
  by (induction ws) (auto split: sum.splits option.splits)

end

section \<open>The SQL repository satisfies the contract\<close>

lemma keys_ok_update [simp]:
  "(\<And>r. cv_id (f r) = cv_id r \<and> cv_business (f r) = cv_business r \<and> cv_customer (f r) = cv_customer r) \<Longrightarrow>
   keys_ok (update_conversations p f db) = keys_ok db"
  "(\<And>m. ms_id (g m) = ms_id m) \<Longrightarrow> keys_ok (update_messages q g db) = keys_ok db"
  by (simp_all add: keys_ok_def map_update_where)

lemma cancel_sel [simp]:
  "md_conversations (cancel_pending_outbounds db b c) = md_conversations db"
  "md_exclusions (cancel_pending_outbounds db b c) = md_exclusions db"
  "md_tenants (cancel_pending_outbounds db b c) = md_tenants db"
  "md_customers (cancel_pending_outbounds db b c) = md_customers db"
  "conversations_at (cancel_pending_outbounds db b c) b' c' = conversations_at db b' c'"
  "keys_ok (cancel_pending_outbounds db b c) = keys_ok db"
  by (simp_all add: cancel_pending_outbounds_def fail_message_def)

lemma failed_not_pending [simp]: "\<not> pending_automatic (fail_message m)"
  by (simp add: pending_automatic_def fail_message_def)

lemma cancelled_messages:
  assumes "m \<in> set (md_messages (cancel_pending_outbounds db b c))"
    and "ms_business m = b" and "ms_conversation m = c"
  shows "\<not> pending_automatic m"
  using assms by (auto simp: cancel_pending_outbounds_def update_where_def)

lemma kept_message:
  assumes "m \<in> set (md_messages db)" and "\<not> pending_automatic m"
  shows "m \<in> set (md_messages (cancel_pending_outbounds db b c))"
  using assms by (force simp: cancel_pending_outbounds_def update_where_def)

lemma update_conversations_apart:
  assumes "\<And>r. p r \<Longrightarrow> conversation_at b c r"
    and "\<And>r. cv_id (f r) = cv_id r \<and> cv_business (f r) = cv_business r" and "(b', c') \<noteq> (b, c)"
  shows "conversations_at (update_conversations p f db) b' c' = conversations_at db b' c'"
  unfolding conversations_at_def update_conversations_sel
  by (rule filter_update_where_other) (use assms in \<open>auto simp: conversation_at_def\<close>)

lemma mark_human_only_apart:
  "(b', c') \<noteq> (b, c) \<Longrightarrow> conversations_at (mark_human_only db b c) b' c' = conversations_at db b' c'"
  unfolding mark_human_only_def cancel_sel
  by (rule update_conversations_apart [of _ b c]) auto

lemma clear_temporary_suppression_apart:
  "(b', c') \<noteq> (b, c) \<Longrightarrow> conversations_at (clear_temporary_suppression db b c) b' c' = conversations_at db b' c'"
  unfolding clear_temporary_suppression_def
  by (rule update_conversations_apart [of _ b c]) auto

lemma lock_control_row:
  "lock_conversation_control db b c = Inr k \<longleftrightarrow> (\<exists>r. conversations_at db b c = [r] \<and> k = control_of r)"
  by (auto simp: lock_conversation_control_def split: sum.splits)

lemma conversation_at_row: "conversations_at db b c = [r] \<Longrightarrow> conversation_at b c r"
  unfolding conversations_at_def by (auto simp: filter_eq_Cons_iff)

lemma human_message_sel [simp]:
  "cv_id (human_message u t r) = cv_id r" "cv_business (human_message u t r) = cv_business r"
  "cv_customer (human_message u t r) = cv_customer r" "cv_enabled (human_message u t r) = cv_enabled r"
  "cv_handoff (human_message u t r) = cv_handoff r"
  by (simp_all add: human_message_def)

lemma activate_human_controlD:
  assumes "activate_human_control db b c t = Inr (u, db')"
  obtains n r where "filter (\<lambda>n. tn_id n = b) (md_tenants db) = [n]" and "conversations_at db b c = [r]"
    and "u = cv_suppressed_until (human_message (t + minutes (tn_window n)) t r)"
    and "db' = cancel_pending_outbounds
        (update_conversations (conversation_at b c) (human_message (t + minutes (tn_window n)) t) db) b c"
proof -
  obtain n where n: "filter (\<lambda>n. tn_id n = b) (md_tenants db) = [n]"
    using assms by (auto simp: activate_human_control_def tenant_window_def split: sum.splits)
  obtain r where r: "conversations_at db b c = [r]"
    using assms by (auto simp: activate_human_control_def lock_conversation_control_def split: sum.splits)
  show thesis
    using that [OF n r] assms conversation_at_row [OF r]
    by (simp add: activate_human_control_def tenant_window_def lock_conversation_control_def n r
        exactly_one_def conversations_at_update Let_def)
qed

lemma activate_row:
  assumes "activate_human_control db b c t = Inr (u, db')" and "conversations_at db b c = [r]"
  shows "\<exists>until. conversations_at db' b c = [human_message until t r]
    \<and> u = cv_suppressed_until (human_message until t r)"
  using assms(1)
proof (rule activate_human_controlD)
  fix n r'
  assume "conversations_at db b c = [r']" "u = cv_suppressed_until (human_message (t + minutes (tn_window n)) t r')"
    "db' = cancel_pending_outbounds
        (update_conversations (conversation_at b c) (human_message (t + minutes (tn_window n)) t) db) b c"
  then show ?thesis using assms(2) conversation_at_row [OF assms(2)]
    by (auto simp: conversations_at_update)
qed

lemma activate_other:
  assumes "activate_human_control db b c t = Inr (u, db')"
  shows "(b', c') \<noteq> (b, c) \<Longrightarrow> conversations_at db' b' c' = conversations_at db b' c'"
    and "md_exclusions db' = md_exclusions db" and "keys_ok db \<Longrightarrow> keys_ok db'"
  using assms
  by (auto elim!: activate_human_controlD simp: update_conversations_apart [where b = b and c = c])

interpretation sql_policy: policy_store sql_repository keys_ok
proof unfold_locales
  fix db b c k
  assume "pr_control sql_repository db b c = Inr k"
  then obtain r where r: "conversations_at db b c = [r]" "k = control_of r"
    by (auto simp: sql_repository_def lock_control_row)
  note at = conversation_at_row [OF r(1)]
  show "pr_control sql_repository (pr_mark sql_repository db b c) b c = Inr (marked k)"
    using r at by (simp add: sql_repository_def mark_human_only_def lock_control_row
        conversations_at_update marked_def control_of_def)
  show "pr_control sql_repository (pr_clear sql_repository db b c) b c = Inr (k\<lparr>cc_suppressed_until := None\<rparr>)"
    using r at by (simp add: sql_repository_def clear_temporary_suppression_def lock_control_row
        conversations_at_update control_of_def)
  fix t u db'
  assume "pr_activate sql_repository db b c t = Inr (u, db')"
  then show "pr_control sql_repository db' b c = Inr (k\<lparr>cc_suppressed_until := u\<rparr>)"
    using activate_row [OF _ r(1)] r(2)
    by (fastforce simp: sql_repository_def lock_control_row control_of_def)
next
  fix db b c b' c'
  assume ne: "(b', c') \<noteq> (b :: uuid, c :: uuid)"
  show "pr_control sql_repository (pr_mark sql_repository db b c) b' c' = pr_control sql_repository db b' c'"
    "pr_control sql_repository (pr_clear sql_repository db b c) b' c' = pr_control sql_repository db b' c'"
    using mark_human_only_apart [OF ne] clear_temporary_suppression_apart [OF ne]
    by (simp_all add: sql_repository_def lock_conversation_control_def)
  fix t u db'
  assume "pr_activate sql_repository db b c t = Inr (u, db')"
  then show "pr_control sql_repository db' b' c' = pr_control sql_repository db b' c'"
    using activate_other(1) [OF _ ne] by (simp add: sql_repository_def lock_conversation_control_def)
next
  fix db b c
  show "pr_exclusion sql_repository (pr_mark sql_repository db b c) = pr_exclusion sql_repository db"
    "pr_exclusion sql_repository (pr_clear sql_repository db b c) = pr_exclusion sql_repository db"
    by (simp_all add: sql_repository_def mark_human_only_def clear_temporary_suppression_def
        get_active_exclusion_mode_def fun_eq_iff)
  show "keys_ok db \<Longrightarrow> keys_ok (pr_mark sql_repository db b c)"
    "keys_ok db \<Longrightarrow> keys_ok (pr_clear sql_repository db b c)"
    by (simp_all add: sql_repository_def mark_human_only_def clear_temporary_suppression_def)
  fix t u db'
  assume "pr_activate sql_repository db b c t = Inr (u, db')"
  then have act: "activate_human_control db b c t = Inr (u, db')" by (simp add: sql_repository_def)
  show "pr_exclusion sql_repository db' = pr_exclusion sql_repository db"
    using activate_other(2) [OF act] by (simp add: sql_repository_def get_active_exclusion_mode_def fun_eq_iff)
  show "keys_ok db \<Longrightarrow> keys_ok db'" by (rule activate_other(3) [OF act])
qed

section \<open>A sample of the tables\<close>

definition sample_tenant :: tenant where
  "sample_tenant = \<lparr>tn_id = 10, tn_name = ''Clima Bom'', tn_active = True, tn_timezone = ''America/Sao_Paulo'',
     tn_window = 60, tn_assistant = True, tn_greeting = ''Bom dia!'', tn_fallback = [], tn_handoff = [],
     tn_phone_id = Some ''700''\<rparr>"

definition sample_customer :: customer where
  "sample_customer = \<lparr>cu_id = 20, cu_business = 10, cu_whatsapp_id = ''5511987654321'', cu_name = None,
     cu_name_source = None, cu_profile_name = Some ''Ana''\<rparr>"

definition sample_conversation :: conversation where
  "sample_conversation = \<lparr>cv_id = 30, cv_business = 10, cv_customer = 20, cv_state = ''START'', cv_context = [],
     cv_enabled = True, cv_handoff = ''none'', cv_last_interaction = 0, cv_suppressed_until = None,
     cv_suppression_reason = None, cv_control_started = None, cv_last_human = None,
     cv_initiated_by = Some ''customer'', cv_pinned = None, cv_last_read = None, cv_unread = False,
     cv_deleted = None\<rparr>"

definition sample_message :: message where
  "sample_message = \<lparr>ms_id = 40, ms_business = 10, ms_conversation = 30, ms_provider_id = None,
     ms_direction = ''outbound'', ms_type = ''text'', ms_body = Some ''Bom dia!'', ms_interactive_id = None,
     ms_media_id = None, ms_media_mime = None, ms_media_filename = None, ms_media_sha256 = None,
     ms_payload = None, ms_status = ''pending'', ms_sent_at = None,
     ms_key = Some ''reply:1'', ms_created = 0\<rparr>"

definition sample_exclusion :: exclusion where
  "sample_exclusion = \<lparr>ex_id = 50, ex_business = 10, ex_whatsapp_id = ''11987654321'', ex_mode = ''human_only'',
     ex_label = None, ex_reason = None, ex_active = True, ex_created = 0\<rparr>"

definition sample_messaging :: messaging_db where
  "sample_messaging = \<lparr>md_tenants = [sample_tenant], md_customers = [sample_customer],
     md_conversations = [sample_conversation], md_exclusions = [sample_exclusion],
     md_messages = [sample_message, sample_message\<lparr>ms_id := 41, ms_key := Some ''manual:outbound:1''\<rparr>],
     md_access = [], md_subscriptions = [], md_outreach = [], md_webhooks = [], md_pushes = [], md_connections = []\<rparr>"

lemmas sample_rows = sample_messaging_def sample_tenant_def sample_customer_def sample_conversation_def
  sample_message_def sample_exclusion_def

lemma sample_keys [simp]: "keys_ok sample_messaging"
  by (simp add: keys_ok_def sample_rows)

lemma sample_at [simp]: "conversations_at sample_messaging 10 30 = [sample_conversation]"
  by (simp add: conversations_at_def conversation_at_def sample_rows)

section \<open>Properties\<close>

text \<open>
  C19. The SQL policy implements the abstract machine: whatever the exclusion found, the decision
  for an inbound message is the one of the machine on the conversation's control, the control
  afterwards is the machine's next state, and no other conversation changes.
\<close>

theorem policy_refines:
  assumes "keys_ok db" and "lock_conversation_control db b c = Inr k"
  shows "\<exists>db'. evaluate_customer_inbound sql_repository now b c mode db = Inr (decide now mode k, db')
    \<and> lock_conversation_control db' b c = Inr (settle now mode k)
    \<and> (\<forall>b' c'. (b', c') = (b, c) \<or> lock_conversation_control db' b' c' = lock_conversation_control db b' c')
    \<and> keys_ok db'"
proof -
  have "pr_control sql_repository db b c = Inr k" using assms(2) by (simp add: sql_repository_def)
  from sql_policy.evaluate_refines [OF assms(1) this] obtain db' where
    ev: "evaluate_customer_inbound sql_repository now b c mode db = Inr (decide now mode k, db')"
    and at: "pr_control sql_repository db' b c = Inr (settle now mode k)"
    and other: "\<And>b' c'. (b', c') \<noteq> (b, c) \<Longrightarrow> pr_control sql_repository db' b' c' = pr_control sql_repository db b' c'"
    and ok: "keys_ok db'" by metis
  have "\<forall>b' c'. (b', c') = (b, c) \<or> lock_conversation_control db' b' c' = lock_conversation_control db b' c'"
    using other unfolding sql_repository_def policy_repository.simps by blast
  moreover have "lock_conversation_control db' b c = Inr (settle now mode k)"
    using at by (simp add: sql_repository_def)
  ultimately show ?thesis using ev ok by blast
qed

theorem policy_refines_witness:
  "\<exists>db'. evaluate_customer_inbound sql_repository 7 10 30 None sample_messaging = Inr (Allowed, db')"
  using policy_refines [OF sample_keys, of 10 30 "control_of sample_conversation" 7 None]
  by (simp add: lock_conversation_control_def) (auto simp: decide_def control_of_def sample_conversation_def)

lemma human_control_window_parts:
  assumes "keys_ok db" and "conversations_at db b c = [r]" and "latest_human t r"
    and "cv_enabled r" and "cv_handoff r = ''none''"
    and "register_manual_business_message sql_repository b c t db = Inr (u, db')"
    and "tenant_window db b = Inr w"
  shows "u = Some (t + minutes w)"
    and "\<exists>db''. evaluate_customer_inbound sql_repository now b c None db'
      = Inr (if now < t + minutes w then TemporarilySuppressed else Allowed, db'')"
    and "\<forall>m \<in> set (md_messages db'). ms_business m = b \<and> ms_conversation m = c \<longrightarrow> \<not> pending_automatic m"
    and "\<forall>m \<in> set (md_messages db). manual_key (ms_key m) \<longrightarrow> m \<in> set (md_messages db')"
proof -
  have act: "activate_human_control db b c t = Inr (u, db')"
    using assms(6) by (simp add: register_manual_business_message_def sql_repository_def)
  obtain n r' where n': "filter (\<lambda>n. tn_id n = b) (md_tenants db) = [n]" "conversations_at db b c = [r']"
    "u = cv_suppressed_until (human_message (t + minutes (tn_window n)) t r')"
    "db' = cancel_pending_outbounds
        (update_conversations (conversation_at b c) (human_message (t + minutes (tn_window n)) t) db) b c"
    using act by (rule activate_human_controlD)
  then have n: "u = cv_suppressed_until (human_message (t + minutes w) t r)"
    "db' = cancel_pending_outbounds
        (update_conversations (conversation_at b c) (human_message (t + minutes w) t) db) b c"
    using assms(2,7) by (simp_all add: tenant_window_def)
  show u: "u = Some (t + minutes w)" using n(1) assms(3) by (simp add: human_message_def)
  obtain until where row: "conversations_at db' b c = [human_message until t r]"
    and until: "u = cv_suppressed_until (human_message until t r)"
    using activate_row [OF act assms(2)] by blast
  have "lock_conversation_control db' b c = Inr \<lparr>cc_suppressed_until = u, cc_handoff = ''none'', cc_enabled = True\<rparr>"
    using row until assms(4,5) by (simp add: lock_control_row control_of_def)
  from policy_refines [OF activate_other(3) [OF act assms(1)] this, of now None]
  show "\<exists>db''. evaluate_customer_inbound sql_repository now b c None db'
      = Inr (if now < t + minutes w then TemporarilySuppressed else Allowed, db'')"
    by (auto simp: decide_def u)
  show "\<forall>m \<in> set (md_messages db'). ms_business m = b \<and> ms_conversation m = c \<longrightarrow> \<not> pending_automatic m"
    using cancelled_messages unfolding n(2) by blast
  show "\<forall>m \<in> set (md_messages db). manual_key (ms_key m) \<longrightarrow> m \<in> set (md_messages db')"
    using kept_message [of _ "update_conversations p f db" for p f] unfolding n(2)
    by (simp add: pending_automatic_def)
qed

text \<open>
  C20. Human control lasts its window: a message the team sent at \<open>t\<close>, unless a later one is
  known, keeps the assistant silent in its conversation before \<open>t\<close> plus the window of the
  business and no longer; its pending automatic messages are failed, and what a person wrote is
  kept.
\<close>

theorem human_control_window:
  assumes "keys_ok db" and "conversations_at db b c = [r]" and "latest_human t r"
    and "cv_enabled r" and "cv_handoff r = ''none''"
    and "register_manual_business_message sql_repository b c t db = Inr (u, db')"
    and "tenant_window db b = Inr w"
  shows "u = Some (t + minutes w)
    \<and> (\<forall>now. \<exists>db''. evaluate_customer_inbound sql_repository now b c None db'
          = Inr (if now < t + minutes w then TemporarilySuppressed else Allowed, db''))
    \<and> (\<forall>m \<in> set (md_messages db'). ms_business m = b \<and> ms_conversation m = c \<longrightarrow> \<not> pending_automatic m)
    \<and> (\<forall>m \<in> set (md_messages db). manual_key (ms_key m) \<longrightarrow> m \<in> set (md_messages db'))"
  using human_control_window_parts [OF assms] by blast

lemma sample_window: "tenant_window sample_messaging 10 = Inr 60"
  by (simp add: tenant_window_def sample_rows)

lemma sample_registered:
  "register_manual_business_message sql_repository 10 30 5 sample_messaging
   = Inr (Some (5 + minutes 60), cancel_pending_outbounds
       (update_conversations (conversation_at 10 30) (human_message (5 + minutes 60) 5) sample_messaging) 10 30)"
proof -
  have "conversations_at (update_conversations (conversation_at 10 30) (human_message (5 + minutes 60) 5) sample_messaging) 10 30
      = [human_message (5 + minutes 60) 5 sample_conversation]"
    using conversation_at_row [OF sample_at] by (simp add: conversations_at_update)
  moreover have "cv_suppressed_until (human_message (5 + minutes 60) 5 sample_conversation) = Some (5 + minutes 60)"
    by (simp add: human_message_def latest_human_def sample_conversation_def)
  ultimately show ?thesis
    by (simp add: register_manual_business_message_def sql_repository_def activate_human_control_def sample_window
      lock_conversation_control_def Let_def)
qed

theorem human_control_window_witness:
  "\<exists>u db'. register_manual_business_message sql_repository 10 30 5 sample_messaging = Inr (u, db')
     \<and> (\<exists>db''. evaluate_customer_inbound sql_repository 6 10 30 None db' = Inr (TemporarilySuppressed, db''))"
proof -
  have "latest_human 5 sample_conversation" "cv_enabled sample_conversation" "cv_handoff sample_conversation = ''none''"
    by (simp_all add: sample_conversation_def latest_human_def)
  note window = human_control_window [OF sample_keys sample_at this sample_registered sample_window]
  have "(6 :: int) < 5 + minutes 60" by (simp add: minutes_def minute_us_def)
  then have "\<exists>db''. evaluate_customer_inbound sql_repository 6 10 30 None (cancel_pending_outbounds
       (update_conversations (conversation_at 10 30) (human_message (5 + minutes 60) 5) sample_messaging) 10 30)
      = Inr (TemporarilySuppressed, db'')"
    using conjunct1 [OF conjunct2 [OF window], THEN spec, of 6] by simp
  then show ?thesis using sample_registered by blast
qed

lemma echoes_commute_parts:
  assumes "conversations_at db b c = [r]"
    and "register_manual_business_message sql_repository b c t1 db = Inr (u1, d1)"
    and "register_manual_business_message sql_repository b c t2 d1 = Inr (u2, d2)"
    and "register_manual_business_message sql_repository b c t2 db = Inr (v1, e1)"
    and "register_manual_business_message sql_repository b c t1 e1 = Inr (v2, e2)"
  shows "\<exists>p q. conversations_at d2 b c = [p] \<and> conversations_at e2 b c = [q]
      \<and> p\<lparr>cv_control_started := None\<rparr> = q\<lparr>cv_control_started := None\<rparr>"
    and "md_messages d2 = md_messages e2"
proof -
  have step: "\<exists>n. filter (\<lambda>n. tn_id n = b) (md_tenants x) = [n] \<and> y = cancel_pending_outbounds
        (update_conversations (conversation_at b c) (human_message (t + minutes (tn_window n)) t) x) b c"
    if "register_manual_business_message sql_repository b c t x = Inr (u, y)" for t x u y
    using that by (auto simp: register_manual_business_message_def sql_repository_def elim!: activate_human_controlD)
  obtain n where n: "filter (\<lambda>n. tn_id n = b) (md_tenants db) = [n]"
    and d1: "d1 = cancel_pending_outbounds
        (update_conversations (conversation_at b c) (human_message (t1 + minutes (tn_window n)) t1) db) b c"
    using step [OF assms(2)] by blast
  have d2: "d2 = cancel_pending_outbounds
        (update_conversations (conversation_at b c) (human_message (t2 + minutes (tn_window n)) t2) d1) b c"
    using step [OF assms(3)] n by (auto simp: d1)
  have e1: "e1 = cancel_pending_outbounds
        (update_conversations (conversation_at b c) (human_message (t2 + minutes (tn_window n)) t2) db) b c"
    using step [OF assms(4)] n by auto
  have e2: "e2 = cancel_pending_outbounds
        (update_conversations (conversation_at b c) (human_message (t1 + minutes (tn_window n)) t1) e1) b c"
    using step [OF assms(5)] n by (auto simp: e1)
  let ?f = "\<lambda>t. human_message (t + minutes (tn_window n)) t"
  have rows: "conversations_at d2 b c = [?f t2 (?f t1 r)]" "conversations_at e2 b c = [?f t1 (?f t2 r)]"
    using assms(1) conversation_at_row [OF assms(1)]
    by (simp_all add: d1 d2 e1 e2 conversations_at_update conversation_at_def)
  have "(?f t2 (?f t1 r))\<lparr>cv_control_started := None\<rparr> = (?f t1 (?f t2 r))\<lparr>cv_control_started := None\<rparr>"
    by (cases "cv_last_human r") (auto simp: human_message_def latest_human_def)
  then show "\<exists>p q. conversations_at d2 b c = [p] \<and> conversations_at e2 b c = [q]
      \<and> p\<lparr>cv_control_started := None\<rparr> = q\<lparr>cv_control_started := None\<rparr>"
    using rows by blast
  show "md_messages d2 = md_messages e2" by (simp add: d1 d2 e1 e2 cancel_pending_outbounds_def)
qed

text \<open>
  The order in which two messages of the team arrive does not matter: registering them in
  either order leaves the same control, reasons and times of the conversation (only the start of
  the control period may differ) and the same messages.
\<close>

theorem echoes_commute:
  assumes "conversations_at db b c = [r]"
    and "register_manual_business_message sql_repository b c t1 db = Inr (u1, d1)"
    and "register_manual_business_message sql_repository b c t2 d1 = Inr (u2, d2)"
    and "register_manual_business_message sql_repository b c t2 db = Inr (v1, e1)"
    and "register_manual_business_message sql_repository b c t1 e1 = Inr (v2, e2)"
  shows "(\<exists>p q. conversations_at d2 b c = [p] \<and> conversations_at e2 b c = [q]
        \<and> p\<lparr>cv_control_started := None\<rparr> = q\<lparr>cv_control_started := None\<rparr>)
    \<and> md_messages d2 = md_messages e2"
  using echoes_commute_parts [OF assms] by blast

lemma sample_registered_exists:
  assumes "conversations_at x 10 30 = [r]" and "md_tenants x = [sample_tenant]"
  shows "\<exists>u y. register_manual_business_message sql_repository 10 30 t x = Inr (u, y)
    \<and> (\<exists>r. conversations_at y 10 30 = [r]) \<and> md_tenants y = [sample_tenant]"
  using assms conversation_at_row [OF assms(1)]
  by (simp add: register_manual_business_message_def sql_repository_def activate_human_control_def tenant_window_def
      lock_conversation_control_def conversations_at_update Let_def sample_tenant_def)

theorem echoes_commute_witness:
  "\<exists>u1 d1 u2 d2 v1 e1 v2 e2.
     register_manual_business_message sql_repository 10 30 9 sample_messaging = Inr (u1, d1)
   \<and> register_manual_business_message sql_repository 10 30 5 d1 = Inr (u2, d2)
   \<and> register_manual_business_message sql_repository 10 30 5 sample_messaging = Inr (v1, e1)
   \<and> register_manual_business_message sql_repository 10 30 9 e1 = Inr (v2, e2)
   \<and> md_messages d2 = md_messages e2"
proof -
  have tn: "md_tenants sample_messaging = [sample_tenant]" by (simp add: sample_messaging_def)
  obtain u1 d1 where d1: "register_manual_business_message sql_repository 10 30 9 sample_messaging = Inr (u1, d1)"
    "\<exists>r. conversations_at d1 10 30 = [r]" "md_tenants d1 = [sample_tenant]"
    using sample_registered_exists [OF sample_at tn] by blast
  obtain u2 d2 where d2: "register_manual_business_message sql_repository 10 30 5 d1 = Inr (u2, d2)"
    using sample_registered_exists d1 by blast
  obtain v1 e1 where e1: "register_manual_business_message sql_repository 10 30 5 sample_messaging = Inr (v1, e1)"
    "\<exists>r. conversations_at e1 10 30 = [r]" "md_tenants e1 = [sample_tenant]"
    using sample_registered_exists [OF sample_at tn] by blast
  obtain v2 e2 where e2: "register_manual_business_message sql_repository 10 30 9 e1 = Inr (v2, e2)"
    using sample_registered_exists e1 by blast
  show ?thesis using echoes_commute [OF sample_at d1(1) d2 e1(1) e2] d1 d2 e1 e2 by blast
qed

end
