(* ===== verification/PolicyAdmin.thy ===== *)
theory PolicyAdmin
  imports Policy
begin

text \<open>
  What the administration of the assistant promises: an active exclusion is found under every
  alias of its contact and silences it, lifting the exclusion of a contact gives it back to the
  assistant, and the settings that are written are the ones that are read.
\<close>

section \<open>Exclusions\<close>

text \<open>The check constraint on the column \<open>mode\<close>.\<close>

definition modes_ok :: "messaging_db \<Rightarrow> bool" where
  "modes_ok db \<longleftrightarrow> (\<forall>e \<in> set (md_exclusions db). ex_mode e = ''ignore'' \<or> ex_mode e = ''human_only'')"

definition active_at :: "uuid \<Rightarrow> string \<Rightarrow> exclusion \<Rightarrow> bool" where
  "active_at b w e \<longleftrightarrow> ex_business e = b \<and> ex_whatsapp_id e = w \<and> ex_active e"

lemma mode_query:
  assumes "keys_ok db" and "modes_ok db"
  obtains "get_active_exclusion_mode db b w = Inr None"
      and "\<And>e. e \<in> set (md_exclusions db) \<Longrightarrow> \<not> active_at b w e"
  | e m where "e \<in> set (md_exclusions db)" and "active_at b w e" and "ex_mode e = exclusion_mode_value m"
      and "get_active_exclusion_mode db b w = Inr (Some m)"
proof -
  have dist: "distinct (map (\<lambda>e. (ex_business e, ex_whatsapp_id e)) (md_exclusions db))"
    using assms(1) by (simp add: keys_ok_def)
  let ?rows = "filter (active_at b w) (md_exclusions db)"
  have query: "get_active_exclusion_mode db b w =
     (case one_or_none (map ex_mode ?rows) of
        Inl e \<Rightarrow> Inl e
      | Inr None \<Rightarrow> Inr None
      | Inr (Some m) \<Rightarrow> (case exclusion_mode_of m of Inl e \<Rightarrow> Inl e | Inr x \<Rightarrow> Inr (Some x)))"
    by (simp add: get_active_exclusion_mode_def active_at_def [abs_def])
  have "?rows = [] \<or> (\<exists>e. ?rows = [e])"
    by (rule filter_key_single [OF dist, of _ "(b, w)"]) (simp add: active_at_def)
  then show thesis
  proof
    assume none: "?rows = []"
    then have "get_active_exclusion_mode db b w = Inr None" by (simp add: query one_or_none_def)
    moreover have "\<not> active_at b w e" if "e \<in> set (md_exclusions db)" for e
      using none that by (simp add: filter_empty_conv)
    ultimately show thesis by (rule that(1))
  next
    assume "\<exists>e. ?rows = [e]"
    then obtain e where e: "?rows = [e]" by blast
    then have "e \<in> set ?rows" by simp
    then have mem: "e \<in> set (md_exclusions db)" "active_at b w e" by simp_all
    then obtain m where m: "ex_mode e = exclusion_mode_value m"
      using assms(2) unfolding modes_ok_def by (metis exclusion_mode_value.simps)
    then show thesis using that(2) [OF mem m] e by (simp add: query one_or_none_def)
  qed
qed

lemma exclusion_found_parts:
  assumes "keys_ok db" and "modes_ok db" and "whatsapp_id_lookup_aliases w = Inr ids"
  shows "active_exclusion sql_repository db b w = Inr None
     \<longleftrightarrow> (\<forall>e \<in> set (md_exclusions db). ex_business e = b \<and> ex_active e \<longrightarrow> ex_whatsapp_id e \<notin> set ids)"
    and "\<exists>m. active_exclusion sql_repository db b w = Inr m
     \<and> (m = None \<or> (\<exists>e \<in> set (md_exclusions db). ex_business e = b \<and> ex_active e
          \<and> ex_whatsapp_id e \<in> set ids \<and> m = Some (if ex_mode e = ''ignore'' then Ignore else HumanOnly)))"
proof -
  have ex: "active_exclusion sql_repository db b w = first_exclusion sql_repository db b ids"
    by (simp add: active_exclusion_def assms(3))
  have row: "pr_exclusion sql_repository db b v = Inr None
      \<longleftrightarrow> (\<forall>e \<in> set (md_exclusions db). \<not> active_at b v e)" for v
    by (rule mode_query [OF assms(1,2), of b v]) (auto simp: sql_repository_def)
  show "active_exclusion sql_repository db b w = Inr None
     \<longleftrightarrow> (\<forall>e \<in> set (md_exclusions db). ex_business e = b \<and> ex_active e \<longrightarrow> ex_whatsapp_id e \<notin> set ids)"
    unfolding ex sql_policy.first_exclusion_found row by (auto simp: active_at_def)
  have total: "\<exists>m. pr_exclusion sql_repository db b v = Inr m" for v
    by (rule mode_query [OF assms(1,2), of b v]) (auto simp: sql_repository_def)
  have "\<exists>m. first_exclusion sql_repository db b vs = Inr m" for vs
  proof (induction vs)
    case (Cons v vs)
    obtain m where "pr_exclusion sql_repository db b v = Inr m" using total by blast
    then show ?case using Cons by (cases m) simp_all
  qed simp
  then obtain m where m: "active_exclusion sql_repository db b w = Inr m" unfolding ex by blast
  have "\<exists>e \<in> set (md_exclusions db). ex_business e = b \<and> ex_active e
          \<and> ex_whatsapp_id e \<in> set ids \<and> m = Some (if ex_mode e = ''ignore'' then Ignore else HumanOnly)"
    if some: "m \<noteq> None"
  proof -
    obtain x where x: "m = Some x" using some by blast
    have "first_exclusion sql_repository db b ids = Inr (Some x)" using m x ex by simp
    from sql_policy.first_exclusion_Some [OF this]
    obtain v where v: "v \<in> set ids" "get_active_exclusion_mode db b v = Inr (Some x)"
      by (auto simp: sql_repository_def)
    obtain e where e: "e \<in> set (md_exclusions db)" "active_at b v e" "ex_mode e = exclusion_mode_value x"
      using mode_query [OF assms(1,2), of b v] v(2) by (metis Inr_inject option.distinct(1) option.inject)
    have "ex_business e = b \<and> ex_active e \<and> ex_whatsapp_id e \<in> set ids
        \<and> m = Some (if ex_mode e = ''ignore'' then Ignore else HumanOnly)"
      using e(2,3) v(1) x by (cases x) (auto simp: active_at_def)
    then show ?thesis using e(1) by blast
  qed
  then show "\<exists>m. active_exclusion sql_repository db b w = Inr m
     \<and> (m = None \<or> (\<exists>e \<in> set (md_exclusions db). ex_business e = b \<and> ex_active e
          \<and> ex_whatsapp_id e \<in> set ids \<and> m = Some (if ex_mode e = ''ignore'' then Ignore else HumanOnly)))"
    using m by (cases "m = None") auto
qed

text \<open>
  No alias hides a contact: the policy finds an exclusion exactly when some active exclusion
  of the business is stored under one of the contact's identifiers, historical ones included,
  and the mode it answers is the mode of such a row.
\<close>

theorem exclusion_found:
  assumes "keys_ok db" and "modes_ok db" and "whatsapp_id_lookup_aliases w = Inr ids"
  shows "(active_exclusion sql_repository db b w = Inr None
     \<longleftrightarrow> (\<forall>e \<in> set (md_exclusions db). ex_business e = b \<and> ex_active e \<longrightarrow> ex_whatsapp_id e \<notin> set ids))
    \<and> (\<exists>m. active_exclusion sql_repository db b w = Inr m
     \<and> (m = None \<or> (\<exists>e \<in> set (md_exclusions db). ex_business e = b \<and> ex_active e
          \<and> ex_whatsapp_id e \<in> set ids \<and> m = Some (if ex_mode e = ''ignore'' then Ignore else HumanOnly))))"
  using exclusion_found_parts [OF assms] by blast

lemma sample_aliases:
  "whatsapp_id_lookup_aliases ''5511987654321'' = Inr [''5511987654321'', ''11987654321'']"
  "whatsapp_id_lookup_aliases ''11987654321'' = Inr [''5511987654321'', ''11987654321'']"
  by code_simp+

lemma sample_modes: "modes_ok sample_messaging"
  by (simp add: modes_ok_def sample_rows)

theorem exclusion_found_witness:
  "active_exclusion sql_repository sample_messaging 10 ''5511987654321'' \<noteq> Inr None"
  using exclusion_found [OF sample_keys sample_modes sample_aliases(1), of 10]
  by (simp add: sample_rows)

section \<open>Lifting an exclusion\<close>

lemma contact_conversation_row:
  assumes "conversations_at db b c = [r]" and "u \<in> set (md_customers db)" and "cu_business u = b"
    and "cu_id u = cv_customer r" and "cu_whatsapp_id u \<in> set ids"
  shows "contact_conversation db b ids c"
proof -
  have "r \<in> set (filter (conversation_at b c) (md_conversations db))"
    using assms(1) by (simp add: conversations_at_def)
  then have "r \<in> set (md_conversations db)" "conversation_at b c r" by simp_all
  moreover have "cv_business r = b" using \<open>conversation_at b c r\<close> by (simp add: conversation_at_def)
  ultimately show ?thesis
    using assms(2-) unfolding contact_conversation_def list_ex_iff by blast
qed

lemma cancel_contactD:
  assumes "cancel_pending_for_contact db b w = Inr db'"
  shows "md_conversations db' = md_conversations db" and "md_customers db' = md_customers db"
    and "conversations_at db' b' c = conversations_at db b' c"
  using assms by (auto simp: cancel_pending_for_contact_def split: sum.splits)

text \<open>
  Lifting the exclusion of a contact gives the conversation back: when an exclusion that
  keeps a contact for people only is made inactive, the update succeeds and the conversation of
  the contact, found under any alias, is no longer marked, so the next inbound message is decided
  by the conversation's own switches.
\<close>

theorem lifting_releases:
  assumes "get_exclusion db b i = Inr (Some old)" and "ex_mode old = ''human_only''"
    and "xu_active v = Some False" and "whatsapp_id_lookup_aliases (ex_whatsapp_id old) = Inr ids"
    and "conversations_at db b c = [r]" and "cv_handoff r = ''human_only''"
    and "u \<in> set (md_customers db)" and "cu_business u = b" and "cu_id u = cv_customer r"
    and "cu_whatsapp_id u \<in> set ids"
  shows "\<exists>x db'. update_exclusion b i v db = Inr (Some x, db') \<and> \<not> ex_active x
    \<and> lock_conversation_control db' b c = Inr ((control_of r)\<lparr>cc_handoff := ''none''\<rparr>)"
proof -
  define x where "x = apply_update v old"
  define db1 where "db1 = db\<lparr>md_exclusions :=
      update_where (\<lambda>e. ex_business e = b \<and> ex_id e = i) (\<lambda>_. x) (md_exclusions db)\<rparr>"
  have x: "\<not> ex_active x" "ex_whatsapp_id x = ex_whatsapp_id old" "releases_human_only old x"
    using assms(2,3) by (simp_all add: x_def apply_update_def releases_human_only_def)
  have at: "conversations_at db1 b c = [r]" "contact_conversation db1 b ids c"
    using assms(5) contact_conversation_row [OF assms(5,7-10)]
    by (simp_all add: db1_def conversations_at_def contact_conversation_def)
  let ?p = "\<lambda>r. cv_business r = b \<and> contact_conversation db1 b ids (cv_id r) \<and> cv_handoff r = ''human_only''"
  let ?db' = "update_conversations ?p (\<lambda>r. r\<lparr>cv_handoff := ''none''\<rparr>) db1"
  have "clear_human_only_for_contact db1 b (ex_whatsapp_id x) = Inr ?db'"
    by (simp add: clear_human_only_for_contact_def x(2) assms(4))
  then have "update_exclusion b i v db = Inr (Some x, ?db')"
    using x by (simp add: update_exclusion_def assms(1) Let_def flip: x_def db1_def)
  moreover have "conversations_at ?db' b c = [r\<lparr>cv_handoff := ''none''\<rparr>]"
    using at assms(6) conversation_at_row [OF assms(5)]
    by (simp add: conversations_at_update conversation_at_def)
  then have "lock_conversation_control ?db' b c = Inr ((control_of r)\<lparr>cc_handoff := ''none''\<rparr>)"
    by (simp add: lock_control_row control_of_def)
  ultimately show ?thesis using x(1) by blast
qed

definition lifting :: exclusion_update where
  "lifting = \<lparr>xu_mode = None, xu_label = None, xu_reason = None, xu_active = Some False\<rparr>"

theorem lifting_releases_witness:
  "\<exists>x db'. update_exclusion 10 50 lifting (mark_human_only sample_messaging 10 30) = Inr (Some x, db')
    \<and> lock_conversation_control db' 10 30 = Inr (control_of sample_conversation)"
proof -
  have at: "conversations_at (mark_human_only sample_messaging 10 30) 10 30
      = [sample_conversation\<lparr>cv_handoff := ''human_only''\<rparr>]"
    using conversation_at_row [OF sample_at]
    by (simp add: mark_human_only_def conversations_at_update) (simp add: sample_conversation_def)
  have ex: "get_exclusion (mark_human_only sample_messaging 10 30) 10 50 = Inr (Some sample_exclusion)"
    by (simp add: mark_human_only_def get_exclusion_def) (simp add: sample_rows one_or_none_def)
  have cu: "sample_customer \<in> set (md_customers (mark_human_only sample_messaging 10 30))"
    by (simp add: mark_human_only_def) (simp add: sample_messaging_def)
  have k: "(control_of (sample_conversation\<lparr>cv_handoff := ''human_only''\<rparr>))\<lparr>cc_handoff := ''none''\<rparr>
      = control_of sample_conversation"
    by (simp add: control_of_def sample_conversation_def)
  have "xu_active lifting = Some False" "ex_mode sample_exclusion = ''human_only''"
    "ex_whatsapp_id sample_exclusion = ''11987654321''" "cu_business sample_customer = 10"
    "cu_id sample_customer = cv_customer (sample_conversation\<lparr>cv_handoff := ''human_only''\<rparr>)"
    "cu_whatsapp_id sample_customer \<in> set [''5511987654321'', ''11987654321'']"
    by (simp_all add: lifting_def sample_exclusion_def sample_customer_def sample_conversation_def)
  then show ?thesis
    using lifting_releases [OF ex _ _ _ at _ cu, of lifting "[''5511987654321'', ''11987654321'']"]
    by (fastforce simp: sample_aliases k)
qed

section \<open>Settings\<close>

definition tenant_ok :: "tenant \<Rightarrow> bool" where
  "tenant_ok n \<longleftrightarrow> tn_window n \<in> set human_control_presets
     \<and> (\<forall>m \<in> {tn_greeting n, tn_fallback n, tn_handoff n}. m = [] \<or> normalize_assistant_message m = Inr m)"

lemma default_messages_normal:
  "normalize_assistant_message default_greeting = Inr default_greeting"
  "normalize_assistant_message default_fallback = Inr default_fallback"
  "normalize_assistant_message default_handoff = Inr default_handoff"
  by code_simp+

lemma validate_window_PInt: "validate_human_control_window (PInt n) = Inr v \<longleftrightarrow> n \<in> set human_control_presets \<and> v = PInt n"
  by (auto simp: validate_human_control_window_def)

definition effective :: "tenant \<Rightarrow> automation_settings" where
  "effective n = \<lparr>as_window = tn_window n, as_assistant = tn_assistant n,
     as_greeting = or_default (tn_greeting n) default_greeting,
     as_fallback = or_default (tn_fallback n) default_fallback,
     as_handoff = or_default (tn_handoff n) default_handoff\<rparr>"

lemma effective_settings:
  assumes "filter (\<lambda>n. tn_id n = b) (md_tenants db) = [n]" and "tenant_ok n"
  shows "get_effective_settings db b = Inr (Some (effective n))"
proof -
  have "normalize_assistant_message (or_default (tn_greeting n) default_greeting) = Inr (or_default (tn_greeting n) default_greeting)"
    "normalize_assistant_message (or_default (tn_fallback n) default_fallback) = Inr (or_default (tn_fallback n) default_fallback)"
    "normalize_assistant_message (or_default (tn_handoff n) default_handoff) = Inr (or_default (tn_handoff n) default_handoff)"
    using assms(2) default_messages_normal by (auto simp: tenant_ok_def or_default_def)
  moreover have "validate_human_control_window (PInt (tn_window n)) = Inr (PInt (tn_window n))"
    using assms(2) by (simp add: validate_window_PInt tenant_ok_def)
  ultimately show ?thesis
    by (simp add: get_effective_settings_def assms(1) one_or_none_def mk_settings_def effective_def)
qed

lemma normalized_field:
  "normalize_field v = Inr n \<Longrightarrow> n = None \<or> (\<exists>s. n = Some s \<and> normalize_assistant_message s = Inr s \<and> s \<noteq> [])"
  using assistant_message_normal_stable
  by (auto simp: normalize_field_def split: option.splits sum.splits)

lemma apply_settings_sel:
  "tn_id (apply_settings v n) = tn_id n"
  "tn_window (apply_settings v n) = (case su_window v of None \<Rightarrow> tn_window n | Some x \<Rightarrow> x)"
  "tn_assistant (apply_settings v n) = (case su_assistant v of None \<Rightarrow> tn_assistant n | Some x \<Rightarrow> x)"
  "tn_greeting (apply_settings v n) = (case su_greeting v of None \<Rightarrow> tn_greeting n | Some x \<Rightarrow> x)"
  "tn_fallback (apply_settings v n) = (case su_fallback v of None \<Rightarrow> tn_fallback n | Some x \<Rightarrow> x)"
  "tn_handoff (apply_settings v n) = (case su_handoff v of None \<Rightarrow> tn_handoff n | Some x \<Rightarrow> x)"
  by (auto simp: apply_settings_def set_field_def split: option.splits)

lemma settings_updateD:
  assumes "mk_settings_update v = Inr v'"
  shows "su_window v' = None \<or> (\<exists>n. su_window v' = Some n \<and> n \<in> set human_control_presets)"
    and "m \<in> {su_greeting v', su_fallback v', su_handoff v'} \<Longrightarrow>
      m = None \<or> (\<exists>s. m = Some s \<and> normalize_assistant_message s = Inr s \<and> s \<noteq> [])"
  using assms
  by (auto simp: mk_settings_update_def validate_window_PInt dest: normalized_field
      split: sum.splits option.splits if_splits)

lemma or_default_case:
  "x \<noteq> Some [] \<Longrightarrow> or_default (case x of None \<Rightarrow> y | Some g \<Rightarrow> g) d = (case x of None \<Rightarrow> or_default y d | Some g \<Rightarrow> g)"
  by (cases x) (simp_all add: or_default_def)

lemma settings_roundtrip_parts:
  assumes "filter (\<lambda>n. tn_id n = b) (md_tenants db) = [n]" and "tenant_ok n"
    and "mk_settings_update v = Inr v'"
  shows "\<exists>db' s. update_settings b v' db = Inr (True, db') \<and> get_effective_settings db' b = Inr (Some s)
    \<and> as_window s = (case su_window v' of None \<Rightarrow> tn_window n | Some w \<Rightarrow> w)
    \<and> as_assistant s = (case su_assistant v' of None \<Rightarrow> tn_assistant n | Some a \<Rightarrow> a)
    \<and> as_greeting s = (case su_greeting v' of None \<Rightarrow> as_greeting (effective n) | Some g \<Rightarrow> g)
    \<and> as_fallback s = (case su_fallback v' of None \<Rightarrow> as_fallback (effective n) | Some f \<Rightarrow> f)
    \<and> as_handoff s = (case su_handoff v' of None \<Rightarrow> as_handoff (effective n) | Some h \<Rightarrow> h)"
    and "tenant_ok (apply_settings v' n)"
proof -
  let ?n = "apply_settings v' n"
  note v = settings_updateD [OF assms(3)]
  show ok: "tenant_ok ?n"
    using assms(2) v(1) v(2) [of "su_greeting v'"] v(2) [of "su_fallback v'"] v(2) [of "su_handoff v'"]
    by (auto simp: tenant_ok_def apply_settings_sel)
  have mem: "list_ex (\<lambda>n. tn_id n = b) (md_tenants db)"
    using assms(1) by (force simp: list_ex_iff filter_eq_Cons_iff)
  obtain db' where db': "update_settings b v' db = Inr (True, db')"
    and tenants: "md_tenants db' = update_where (\<lambda>n. tn_id n = b) (apply_settings v') (md_tenants db)"
    using v(1) mem
    by (auto simp: update_settings_def update_tenant_def validate_window_PInt cancel_pending_for_business_def
        validate_human_control_window_def)
  have "tn_id n = b" using assms(1) by (auto simp: filter_eq_Cons_iff)
  then have "filter (\<lambda>n. tn_id n = b) (md_tenants db') = [?n]"
    unfolding tenants by (subst filter_update_where) (simp_all add: apply_settings_sel assms(1))
  note read = effective_settings [OF this ok]
  have nonempty: "m \<in> {su_greeting v', su_fallback v', su_handoff v'} \<Longrightarrow> m \<noteq> Some []" for m
    using v(2) [of m] by auto
  have sel: "as_window (effective ?n) = (case su_window v' of None \<Rightarrow> tn_window n | Some w \<Rightarrow> w)"
    "as_assistant (effective ?n) = (case su_assistant v' of None \<Rightarrow> tn_assistant n | Some a \<Rightarrow> a)"
    "as_greeting (effective ?n) = (case su_greeting v' of None \<Rightarrow> as_greeting (effective n) | Some g \<Rightarrow> g)"
    "as_fallback (effective ?n) = (case su_fallback v' of None \<Rightarrow> as_fallback (effective n) | Some f \<Rightarrow> f)"
    "as_handoff (effective ?n) = (case su_handoff v' of None \<Rightarrow> as_handoff (effective n) | Some h \<Rightarrow> h)"
    using nonempty [of "su_greeting v'"] nonempty [of "su_fallback v'"] nonempty [of "su_handoff v'"]
    by (simp_all add: effective_def apply_settings_sel or_default_case cong: option.case_cong)
  show "\<exists>db' s. update_settings b v' db = Inr (True, db') \<and> get_effective_settings db' b = Inr (Some s)
    \<and> as_window s = (case su_window v' of None \<Rightarrow> tn_window n | Some w \<Rightarrow> w)
    \<and> as_assistant s = (case su_assistant v' of None \<Rightarrow> tn_assistant n | Some a \<Rightarrow> a)
    \<and> as_greeting s = (case su_greeting v' of None \<Rightarrow> as_greeting (effective n) | Some g \<Rightarrow> g)
    \<and> as_fallback s = (case su_fallback v' of None \<Rightarrow> as_fallback (effective n) | Some f \<Rightarrow> f)
    \<and> as_handoff s = (case su_handoff v' of None \<Rightarrow> as_handoff (effective n) | Some h \<Rightarrow> h)"
    using db' read sel by blast
qed

text \<open>
  What is set is what is read: an accepted change of the settings is stored, the settings
  can be read afterwards, each field that was set has the normalised value that was given, every
  other field is as before, and the stored row is well formed again.
\<close>

theorem settings_roundtrip:
  assumes "filter (\<lambda>n. tn_id n = b) (md_tenants db) = [n]" and "tenant_ok n"
    and "mk_settings_update v = Inr v'"
  shows "(\<exists>db' s. update_settings b v' db = Inr (True, db') \<and> get_effective_settings db' b = Inr (Some s)
    \<and> as_window s = (case su_window v' of None \<Rightarrow> tn_window n | Some w \<Rightarrow> w)
    \<and> as_assistant s = (case su_assistant v' of None \<Rightarrow> tn_assistant n | Some a \<Rightarrow> a)
    \<and> as_greeting s = (case su_greeting v' of None \<Rightarrow> as_greeting (effective n) | Some g \<Rightarrow> g)
    \<and> as_fallback s = (case su_fallback v' of None \<Rightarrow> as_fallback (effective n) | Some f \<Rightarrow> f)
    \<and> as_handoff s = (case su_handoff v' of None \<Rightarrow> as_handoff (effective n) | Some h \<Rightarrow> h))
    \<and> tenant_ok (apply_settings v' n)"
  using settings_roundtrip_parts [OF assms] by blast

definition sample_change :: settings_update where
  "sample_change = \<lparr>su_window = Some 30, su_assistant = None, su_greeting = Some '' Oi   ! '',
     su_fallback = None, su_handoff = None\<rparr>"

lemma sample_change_ok: "mk_settings_update sample_change = Inr (sample_change\<lparr>su_greeting := Some ''Oi !''\<rparr>)"
  by code_simp

lemma sample_tenant_ok: "tenant_ok sample_tenant"
proof -
  have "normalize_assistant_message ''Bom dia!'' = Inr ''Bom dia!''" by code_simp
  then show ?thesis by (simp add: tenant_ok_def sample_tenant_def human_control_presets_def)
qed

theorem settings_roundtrip_witness:
  "\<exists>db' s. update_settings 10 (sample_change\<lparr>su_greeting := Some ''Oi !''\<rparr>) sample_messaging = Inr (True, db')
    \<and> get_effective_settings db' 10 = Inr (Some s) \<and> as_window s = 30 \<and> as_greeting s = ''Oi !''"
proof -
  have "filter (\<lambda>n. tn_id n = 10) (md_tenants sample_messaging) = [sample_tenant]"
    by (simp add: sample_messaging_def sample_tenant_def)
  from settings_roundtrip [OF this sample_tenant_ok sample_change_ok]
  show ?thesis by (auto simp: sample_change_def)
qed

end
