(* ===== verification/Uuids.thy ===== *)
theory Uuids
  imports Prelude
begin

text \<open>
  The texts of identifiers: \<open>str(uuid)\<close>, \<open>uuid.hex\<close> and the constructor \<open>uuid.UUID(text)\<close> of
  the standard library, which drops the prefixes \<open>urn:\<close> and \<open>uuid:\<close>, braces at the ends and
  every hyphen, wants 32 characters and reads them as a hexadecimal number.
\<close>

section \<open>Hexadecimal digits\<close>

definition hex_char :: "nat \<Rightarrow> char" where
  "hex_char d = ''0123456789abcdef'' ! d"

fun hex_digits :: "nat \<Rightarrow> nat \<Rightarrow> string" where
  "hex_digits 0 n = []"
| "hex_digits (Suc k) n = hex_digits k (n div 16) @ [hex_char (n mod 16)]"

definition hex_val :: "char \<Rightarrow> nat option" where
  "hex_val c =
     (let n = code_point c
      in if 48 \<le> n \<and> n \<le> 57 then Some (n - 48)
         else if 97 \<le> n \<and> n \<le> 102 then Some (n - 87)
         else if 65 \<le> n \<and> n \<le> 70 then Some (n - 55) else None)"

text \<open>\<open>int(s, 16)\<close>: a sign, the prefix 0x, and single underscores between the digits.\<close>

fun hex_number :: "nat \<Rightarrow> bool \<Rightarrow> string \<Rightarrow> nat option" where
  "hex_number a digit [] = (if digit then Some a else None)"
| "hex_number a digit (c # s) =
     (if c = CHR ''_'' then (if digit then hex_number a False s else None)
      else case hex_val c of None \<Rightarrow> None | Some v \<Rightarrow> hex_number (16 * a + v) True s)"

definition drop_0x :: "string \<Rightarrow> string" where
  "drop_0x s =
     (case s of
        a # b # r \<Rightarrow> if a = CHR ''0'' \<and> (b = CHR ''x'' \<or> b = CHR ''X'')
                    then (case r of [] \<Rightarrow> r | c # r' \<Rightarrow> if c = CHR ''_'' then r' else r) else s
      | _ \<Rightarrow> s)"

definition int16 :: "string \<Rightarrow> int option" where
  "int16 raw =
     (let s = strip raw;
          (neg, ds) = (case s of [] \<Rightarrow> (False, s)
             | c # r \<Rightarrow> if c = CHR ''-'' then (True, r) else if c = CHR ''+'' then (False, r) else (False, s))
      in case hex_number 0 False (drop_0x ds) of
           None \<Rightarrow> None | Some n \<Rightarrow> Some ((if neg then -1 else 1) * int n))"

section \<open>Texts\<close>

definition uuid_hex :: "uuid \<Rightarrow> string" where
  "uuid_hex u = hex_digits 32 u"

definition uuid_text :: "uuid \<Rightarrow> string" where
  "uuid_text u =
     (let h = uuid_hex u
      in take 8 h @ ''-'' @ take 4 (drop 8 h) @ ''-'' @ take 4 (drop 12 h) @ ''-''
         @ take 4 (drop 16 h) @ ''-'' @ drop 20 h)"

text \<open>\<open>s.replace(p, '')\<close> for a text that is not empty.\<close>

function remove_all :: "string \<Rightarrow> string \<Rightarrow> string" where
  "remove_all p [] = []"
| "remove_all p (c # s) =
     (if p \<noteq> [] \<and> prefix p (c # s) then remove_all p (drop (length p) (c # s)) else c # remove_all p s)"
  by pat_completeness auto
termination
  by (relation "measure (\<lambda>(p, s). length s)") (auto simp del: drop_Suc_Cons intro: diff_less)

declare remove_all.simps [simp del]

definition strip_braces :: "string \<Rightarrow> string" where
  "strip_braces s =
     (let p = (\<lambda>c. c = CHR ''{'' \<or> c = CHR ''}'') in rev (dropWhile p (rev (dropWhile p s))))"

definition uuid_limit :: int where "uuid_limit = 2 ^ 128"

definition parse_uuid :: "string \<Rightarrow> uuid option" where
  "parse_uuid s =
     (let h = filter (\<lambda>c. c \<noteq> CHR ''-'') (strip_braces (remove_all ''uuid:'' (remove_all ''urn:'' s)))
      in if length h \<noteq> 32 then None
         else (case int16 h of None \<Rightarrow> None
               | Some n \<Rightarrow> if 0 \<le> n \<and> n < uuid_limit then Some (nat n) else None))"

section \<open>Round trip\<close>

lemma hex_char_cases:
  assumes "d < 16"
  shows "hex_char d \<in> set ''0123456789abcdef''" and "hex_val (hex_char d) = Some d"
proof -
  have "d \<in> set [0..<16]" using assms by simp
  then show "hex_char d \<in> set ''0123456789abcdef''" "hex_val (hex_char d) = Some d"
    unfolding hex_char_def hex_val_def code_point_def Let_def by (auto simp: upt_rec)
qed

lemma set_hex_digits: "set (hex_digits k n) \<subseteq> set ''0123456789abcdef''"
  by (induction k n rule: hex_digits.induct) (use hex_char_cases in auto)

lemma length_hex_digits [simp]: "length (hex_digits k n) = k"
  by (induction k n rule: hex_digits.induct) auto

lemma hex_number_append:
  "hex_number a True (s @ [c]) = (case hex_number a True s of None \<Rightarrow> None
     | Some v \<Rightarrow> (case hex_val c of None \<Rightarrow> None | Some d \<Rightarrow> Some (16 * v + d)))"
  if "c \<noteq> CHR ''_''" "CHR ''_'' \<notin> set s"
  using that
  by (induction s arbitrary: a) (auto split: option.splits)

lemma hex_number_digits:
  assumes "0 < k"
  shows "hex_number 0 False (hex_digits k n) = Some (n mod 16 ^ k)"
  using assms
proof (induction k n rule: hex_digits.induct)
  case (2 k n)
  have c: "hex_char (n mod 16) \<noteq> CHR ''_''" "hex_val (hex_char (n mod 16)) = Some (n mod 16)"
    using hex_char_cases [of "n mod 16"] by auto
  show ?case
  proof (cases "k = 0")
    case True
    then show ?thesis using c by simp
  next
    case False
    then have IH: "hex_number 0 False (hex_digits k (n div 16)) = Some (n div 16 mod 16 ^ k)" using 2 by simp
    obtain d r where h: "hex_digits k (n div 16) = d # r"
      using False by (cases "hex_digits k (n div 16)") (auto dest: arg_cong [of _ _ length])
    have no: "CHR ''_'' \<notin> set (d # r)" using set_hex_digits [of k "n div 16"] h by auto
    have "hex_number 0 False (d # r @ [hex_char (n mod 16)]) = Some (16 * (n div 16 mod 16 ^ k) + n mod 16)"
      using IH no c by (auto simp: h hex_number_append split: option.splits)
    moreover have "16 * (n div 16 mod 16 ^ k) + n mod 16 = n mod 16 ^ Suc k"
      by (simp add: mod_mult2_eq)
    ultimately show ?thesis by (simp add: h)
  qed
qed simp

lemma remove_all_id:
  assumes "p \<noteq> []" and "hd p \<notin> set s"
  shows "remove_all p s = s"
  using assms(2)
proof (induction s)
  case (Cons c s)
  then have "\<not> prefix p (c # s)" using assms(1) by (cases p) auto
  then show ?case using Cons by (simp add: remove_all.simps)
qed (simp add: remove_all.simps)

lemma dropWhile_all_not: "\<forall>c \<in> set s. \<not> p c \<Longrightarrow> dropWhile p s = s"
  by (cases s) auto

lemma strip_braces_id:
  assumes "CHR ''{'' \<notin> set s" "CHR ''}'' \<notin> set s"
  shows "strip_braces s = s"
proof -
  let ?p = "\<lambda>c. c = CHR ''{'' \<or> c = CHR ''}''"
  have "\<forall>c \<in> set s. \<not> ?p c" using assms by blast
  then show ?thesis by (simp add: strip_braces_def dropWhile_all_not)
qed

lemma set_uuid_hex: "set (uuid_hex u) \<subseteq> set ''0123456789abcdef''"
  unfolding uuid_hex_def by (rule set_hex_digits)

lemma uuid_text_chars: "set (uuid_text u) \<subseteq> insert CHR ''-'' (set ''0123456789abcdef'')"
proof -
  let ?h = "uuid_hex u"
  have "c \<in> set ?h \<or> c = CHR ''-''" if "c \<in> set (uuid_text u)" for c
    using that by (auto simp: uuid_text_def Let_def dest: in_set_takeD in_set_dropD)
  then show ?thesis using set_uuid_hex [of u] by blast
qed

lemma filter_dashes_id: "CHR ''-'' \<notin> set s \<Longrightarrow> filter (\<lambda>c. c \<noteq> CHR ''-'') s = s"
  by (auto simp: filter_id_conv)

lemma dashes_uuid_text: "filter (\<lambda>c. c \<noteq> CHR ''-'') (uuid_text u) = uuid_hex u"
proof -
  let ?h = "uuid_hex u"
  have no: "CHR ''-'' \<notin> set ?h" using set_uuid_hex [of u] by auto
  have part: "filter (\<lambda>c. c \<noteq> CHR ''-'') (take i (drop j ?h)) = take i (drop j ?h)"
    "filter (\<lambda>c. c \<noteq> CHR ''-'') (take i ?h) = take i ?h"
    "filter (\<lambda>c. c \<noteq> CHR ''-'') (drop j ?h) = drop j ?h" for i j
    using no by (auto intro!: filter_dashes_id dest: in_set_takeD in_set_dropD)
  have "take 8 ?h @ take 4 (drop 8 ?h) @ take 4 (drop 12 ?h) @ take 4 (drop 16 ?h) @ drop 20 ?h = ?h"
  proof -
    have s: "take a (drop i ?h) @ drop (a + i) ?h = drop i ?h" for a i
      by (metis append_take_drop_id drop_drop)
    show ?thesis using s [of 4 8] s [of 4 12] s [of 4 16] by simp
  qed
  then show ?thesis by (simp add: uuid_text_def Let_def part)
qed

lemma strip_hex: "set s \<subseteq> set ''0123456789abcdef'' \<Longrightarrow> strip s = s"
proof -
  assume s: "set s \<subseteq> set ''0123456789abcdef''"
  have "\<not> py_isspace c" if "c \<in> set s" for c
    using s that by (auto simp: py_isspace_def code_point_def)
  then show "strip s = s" by (simp add: strip_def lstrip_def rstrip_def dropWhile_all_not)
qed

text \<open>What \<open>str\<close> prints for an identifier, and its \<open>hex\<close>, parse back to it.\<close>

lemma int16_hex:
  assumes "u < 2 ^ 128"
  shows "int16 (uuid_hex u) = Some (int u)"
proof -
  have num: "hex_number 0 False (uuid_hex u) = Some u"
    using hex_number_digits [of 32 u] assms by (simp add: uuid_hex_def)
  have "length (uuid_hex u) = 32" by (simp add: uuid_hex_def)
  then obtain a b r where h: "uuid_hex u = a # b # r"
    by (cases "uuid_hex u"; cases "tl (uuid_hex u)") auto
  have ab: "a \<in> set ''0123456789abcdef''" "b \<in> set ''0123456789abcdef''"
    using set_uuid_hex [of u] by (auto simp: h)
  have "drop_0x (a # b # r) = a # b # r" using ab(2) by (auto simp: drop_0x_def)
  then show ?thesis
    using num ab(1) strip_hex [OF set_uuid_hex, of u] by (auto simp: int16_def h)
qed

lemma parse_uuid_text:
  assumes "u < 2 ^ 128"
  shows "parse_uuid (uuid_text u) = Some u"
proof -
  have "int u < int (2 ^ 128)" using assms by (simp only: of_nat_less_iff)
  then have limit: "int u < uuid_limit" by (simp add: uuid_limit_def)
  have no: "c \<notin> set (uuid_text u)" if "c \<in> set ''u{}''" for c
    using uuid_text_chars [of u] that by auto
  have "remove_all ''urn:'' (uuid_text u) = uuid_text u" "remove_all ''uuid:'' (uuid_text u) = uuid_text u"
    by (rule remove_all_id; use no in simp)+
  then have "filter (\<lambda>c. c \<noteq> CHR ''-'') (strip_braces (remove_all ''uuid:'' (remove_all ''urn:'' (uuid_text u)))) = uuid_hex u"
    using no by (simp add: strip_braces_id dashes_uuid_text)
  then show ?thesis
    using int16_hex [OF assms] limit by (simp add: parse_uuid_def uuid_hex_def)
qed

lemma uuid_text_inj: "u < 2 ^ 128 \<Longrightarrow> v < 2 ^ 128 \<Longrightarrow> uuid_text u = uuid_text v \<longleftrightarrow> u = v"
  using parse_uuid_text by (metis option.inject)

end
