(* ===== verification/OutboundQueue.thy ===== *)
theory OutboundQueue
  imports Automation Plans Uuids
begin

text \<open>
  The queue of outgoing messages (\<open>app/repositories/outbound_tasks.py\<close>,
  \<open>app/whatsapp/retry_policy.py\<close>) and the status callbacks that put a message back into it
  (\<open>app/repositories/cloud_tasks.py\<close>). Times come from two clocks, the transaction's
  (\<open>func.now()\<close>) and Python's; the text PostgreSQL prints for a JSON number with a fraction, an
  array or an object is a parameter.
\<close>

section \<open>The surroundings\<close>

record messaging_env =
  me_environment :: environment
  me_brazil :: zone
  me_json :: "pyval \<Rightarrow> string"

record clocks =
  ck_tx :: instant
  ck_now :: instant

text \<open>\<open>payload ->> key\<close>: absent keys and JSON nulls give SQL's null.\<close>

definition json_text :: "(pyval \<Rightarrow> string) \<Rightarrow> pyval \<Rightarrow> string option" where
  "json_text render v =
     (case v of
        PNone \<Rightarrow> None
      | PBool b \<Rightarrow> Some (if b then ''true'' else ''false'')
      | PInt n \<Rightarrow> Some (str_of_int n)
      | PStr s \<Rightarrow> Some s
      | _ \<Rightarrow> Some (render v))"

definition payload_get :: "pydict option \<Rightarrow> string \<Rightarrow> pyval option" where
  "payload_get p k = (case p of None \<Rightarrow> None | Some d \<Rightarrow> dict_get d k)"

definition payload_text :: "(pyval \<Rightarrow> string) \<Rightarrow> pydict option \<Rightarrow> string \<Rightarrow> string option" where
  "payload_text render p k = (case payload_get p k of None \<Rightarrow> None | Some v \<Rightarrow> json_text render v)"

section \<open>Retries\<close>

definition retry_key :: string where "retry_key = ''_alovia_retry_attempt''"

definition max_retries :: int where "max_retries = 3"

definition retryable_types :: "string list" where
  "retryable_types = [''text'', ''image'', ''interactive_button'', ''interactive_list'']"

definition current_retry_attempt :: "pydict option \<Rightarrow> int" where
  "current_retry_attempt p =
     (case payload_get p retry_key of
        None \<Rightarrow> 0
      | Some v \<Rightarrow> (case py_int v of None \<Rightarrow> 0 | Some n \<Rightarrow> if 0 \<le> n then n else 0))"

definition with_attempt :: "message \<Rightarrow> message" where
  "with_attempt m =
     m\<lparr>ms_payload := Some (dict_set (case ms_payload m of None \<Rightarrow> [] | Some d \<Rightarrow> d) retry_key
          (PInt (current_retry_attempt (ms_payload m) + 1))),
       ms_status := ''pending''\<rparr>"

section \<open>Reading a message for sending\<close>

record stored_outbound =
  so_message :: uuid
  so_business :: uuid
  so_recipient :: string
  so_type :: string
  so_body :: "string option"
  so_payload :: "pydict option"
  so_status :: string
  so_provider :: "string option"
  so_automation_blocked :: bool
  so_quota_blocked :: bool
  so_window_blocked :: bool
  so_quota_plan :: "string option"
  so_quota_used :: "int option"
  so_quota_limit :: "int option"

definition automation_blocked ::
  "string option \<Rightarrow> pydict option \<Rightarrow> bool \<Rightarrow> bool \<Rightarrow> bool \<Rightarrow> bool" where
  "automation_blocked key payload active_ignore standard entitlement =
     (if entitlement then True
      else if active_ignore then True
      else if manual_key key \<or> payload_get payload ''_alovia_transition'' = Some (PStr ''handoff'') then False
      else standard)"

definition basic_service_window_blocked ::
  "string option \<Rightarrow> string \<Rightarrow> instant option \<Rightarrow> instant \<Rightarrow> bool" where
  "basic_service_window_blocked plan mtype latest_inbound now =
     (if plan \<noteq> Some ''basic'' \<or> mtype = ''reaction'' then False
      else if mtype = ''template'' then True
      else (case latest_inbound of None \<Rightarrow> True | Some t \<Rightarrow> t < now - minutes (24 * 60)))"

definition outbound_at :: "messaging_db \<Rightarrow> uuid \<Rightarrow> message list" where
  "outbound_at db i = filter (\<lambda>m. ms_id m = i \<and> ms_direction m = ''outbound'') (md_messages db)"

definition exclusion_exists :: "messaging_db \<Rightarrow> uuid \<Rightarrow> string list \<Rightarrow> bool \<Rightarrow> bool" where
  "exclusion_exists db b ids ignore_only \<longleftrightarrow>
     list_ex (\<lambda>e. ex_business e = b \<and> ex_whatsapp_id e \<in> set ids \<and> ex_active e
        \<and> (ignore_only \<longrightarrow> ex_mode e = ''ignore'')) (md_exclusions db)"

definition standard_blocked :: "messaging_db \<Rightarrow> instant \<Rightarrow> tenant \<Rightarrow> conversation \<Rightarrow> customer \<Rightarrow> bool" where
  "standard_blocked db tx n r u \<longleftrightarrow>
     \<not> cv_enabled r \<or> \<not> tn_assistant n \<or> cv_handoff r = ''human_only''
     \<or> (case cv_suppressed_until r of None \<Rightarrow> False | Some s \<Rightarrow> tx < s)
     \<or> exclusion_exists db (cv_business r) [cu_whatsapp_id u] False"

definition latest_inbound :: "messaging_db \<Rightarrow> uuid \<Rightarrow> uuid \<Rightarrow> instant option" where
  "latest_inbound db b c =
     max_by id (map ms_created (filter (\<lambda>m. ms_business m = b \<and> ms_conversation m = c
         \<and> ms_direction m = ''inbound'') (md_messages db)))"

text \<open>The join of a message with its conversation, its customer and its business.\<close>

definition message_scope ::
  "messaging_db \<Rightarrow> message \<Rightarrow> (conversation \<times> customer \<times> tenant) list" where
  "message_scope db m =
     concat (map (\<lambda>r. concat (map (\<lambda>u. map (\<lambda>n. (r, u, n))
          (filter (\<lambda>n. tn_id n = ms_business m) (md_tenants db)))
        (filter (\<lambda>u. cu_business u = cv_business r \<and> cu_id u = cv_customer r) (md_customers db))))
      (conversations_at db (ms_business m) (ms_conversation m)))"

definition stored_of :: "message \<Rightarrow> string \<Rightarrow> bool \<Rightarrow> bool \<Rightarrow> bool \<Rightarrow> usage option \<Rightarrow> stored_outbound" where
  "stored_of m recipient blocked quota window u =
     \<lparr>so_message = ms_id m, so_business = ms_business m, so_recipient = recipient, so_type = ms_type m,
      so_body = ms_body m, so_payload = ms_payload m, so_status = ms_status m, so_provider = ms_provider_id m,
      so_automation_blocked = blocked, so_quota_blocked = quota, so_window_blocked = window,
      so_quota_plan = (case u of None \<Rightarrow> None | Some x \<Rightarrow> us_plan x),
      so_quota_used = (case u of None \<Rightarrow> None | Some x \<Rightarrow> Some (us_used x)),
      so_quota_limit = (case u of None \<Rightarrow> None | Some x \<Rightarrow> us_limit x)\<rparr>"

definition message_blocked ::
  "messaging_env \<Rightarrow> clocks \<Rightarrow> messaging_db \<Rightarrow> message \<Rightarrow> conversation \<Rightarrow> customer \<Rightarrow> tenant \<Rightarrow> string list \<Rightarrow> bool" where
  "message_blocked env ck db m r u n ids =
     automation_blocked (ms_key m) (ms_payload m)
       (exclusion_exists db (ms_business m) [cu_whatsapp_id u] True
          \<or> exclusion_exists db (ms_business m) ids True)
       (standard_blocked db (ck_tx ck) n r u \<or> exclusion_exists db (ms_business m) ids False)
       (\<not> active_operational_access_exists db (ms_business m)
            (billing_provider_environment (me_environment env)) (ck_tx ck))"

definition lock_message ::
  "messaging_env \<Rightarrow> clocks \<Rightarrow> messaging_db \<Rightarrow> uuid \<Rightarrow> messaging_error + stored_outbound option" where
  "lock_message env ck db i =
     (case one_or_none (outbound_at db i) of
        Inl e \<Rightarrow> Inl e
      | Inr None \<Rightarrow> Inr None
      | Inr (Some m) \<Rightarrow>
     (if conversations_at db (ms_business m) (ms_conversation m) = [] then Inr None else
     (case one_or_none (message_scope db m) of
        Inl e \<Rightarrow> Inl e
      | Inr None \<Rightarrow> Inr None
      | Inr (Some (r, u, n)) \<Rightarrow>
     (case whatsapp_id_lookup_aliases (cu_whatsapp_id u) of
        Inl e \<Rightarrow> Inl e
      | Inr ids \<Rightarrow>
          let blocked = message_blocked env ck db m r u n ids
          in if ms_status m = ''pending'' \<and> \<not> blocked \<and> ms_type m \<noteq> ''reaction''
             then (case message_usage_snapshot (me_environment env) (me_brazil env) db (ms_business m) True (ck_now ck) of
                Inl e \<Rightarrow> Inl e
              | Inr s \<Rightarrow> Inr (Some (stored_of m (cu_whatsapp_id u) blocked (exhausted s)
                  (us_plan s = Some ''basic''
                     \<and> basic_service_window_blocked (us_plan s) (ms_type m)
                         (latest_inbound db (ms_business m) (ms_conversation m)) (ck_now ck)) (Some s))))
             else Inr (Some (stored_of m (cu_whatsapp_id u) blocked False False None))))))"

section \<open>What is pending\<close>

definition first_of_sequence :: "messaging_env \<Rightarrow> message \<Rightarrow> bool" where
  "first_of_sequence env m \<longleftrightarrow>
     (case payload_text (me_json env) (ms_payload m) ''_alovia_sequence_index'' of
        None \<Rightarrow> True | Some s \<Rightarrow> s = ''0'')"

definition list_pending_for_provider_ids :: "messaging_env \<Rightarrow> messaging_db \<Rightarrow> string list \<Rightarrow> uuid list" where
  "list_pending_for_provider_ids env db ids =
     (if ids = [] then []
      else dedup (concat (map (\<lambda>i. map ms_id (filter (\<lambda>m. ms_business m = ms_business i
             \<and> ms_conversation m = ms_conversation i \<and> ms_direction m = ''outbound''
             \<and> ms_status m = ''pending'' \<and> first_of_sequence env m) (md_messages db)))
         (filter (\<lambda>i. ms_direction i = ''inbound''
             \<and> (case ms_provider_id i of None \<Rightarrow> False | Some p \<Rightarrow> p \<in> set ids)) (md_messages db)))))"

definition list_pending_for_event ::
  "messaging_env \<Rightarrow> messaging_db \<Rightarrow> string \<Rightarrow> messaging_error + uuid list" where
  "list_pending_for_event env db key =
     (case one_or_none (map pw_provider_id (filter (\<lambda>w. pw_event_key w = key
              \<and> starts_with (pw_type w) ''message.inbound.'') (md_webhooks db))) of
        Inl e \<Rightarrow> Inl e
      | Inr None \<Rightarrow> Inr []
      | Inr (Some None) \<Rightarrow> Inr []
      | Inr (Some (Some p)) \<Rightarrow> Inr (list_pending_for_provider_ids env db [p]))"

definition was_delivered :: "message \<Rightarrow> bool" where
  "was_delivered m \<longleftrightarrow> ms_status m = ''sent'' \<or> ms_status m = ''delivered'' \<or> ms_status m = ''read''"

text \<open>The place of a message in its sequence: group, index and count.\<close>

definition sequence_place :: "pydict option \<Rightarrow> (string \<times> int \<times> int) option" where
  "sequence_place p =
     (case (payload_get p ''_alovia_sequence_group'', payload_get p ''_alovia_sequence_index'',
            payload_get p ''_alovia_sequence_count'') of
        (Some g, Some i, Some c) \<Rightarrow>
          (case (py_str g, py_int i, py_int c) of
             (Some grp, Some index, Some count) \<Rightarrow>
               if index < 0 \<or> count \<le> index + 1 then None else Some (grp, index, count)
           | _ \<Rightarrow> None)
      | _ \<Rightarrow> None)"

definition next_sequence_message_id ::
  "messaging_env \<Rightarrow> messaging_db \<Rightarrow> uuid \<Rightarrow> messaging_error + uuid option" where
  "next_sequence_message_id env db i =
     (case one_or_none (outbound_at db i) of
        Inl e \<Rightarrow> Inl e
      | Inr None \<Rightarrow> Inr None
      | Inr (Some m) \<Rightarrow>
          if ms_payload m = None then Inr None
          else if \<not> was_delivered m
             \<and> \<not> (ms_status m = ''failed''
                  \<and> (payload_get (ms_payload m) ''_alovia_optional'' = Some (PBool True)
                     \<or> payload_get (ms_payload m) ''_alovia_sequence_optional'' = Some (PBool True)))
          then Inr None
          else (case sequence_place (ms_payload m) of
             None \<Rightarrow> Inr None
           | Some (grp, index, _) \<Rightarrow>
               Inr (first (map ms_id (filter (\<lambda>x. ms_business x = ms_business m
                   \<and> ms_conversation x = ms_conversation m \<and> ms_direction x = ''outbound''
                   \<and> ms_status x = ''pending''
                   \<and> payload_text (me_json env) (ms_payload x) ''_alovia_sequence_group'' = Some grp
                   \<and> payload_text (me_json env) (ms_payload x) ''_alovia_sequence_index'' = Some (str_of_int (index + 1)))
                 (md_messages db))))))"

section \<open>Outcomes\<close>

definition mark_retry_pending :: "messaging_db \<Rightarrow> uuid \<Rightarrow> int option \<times> messaging_db" where
  "mark_retry_pending db i =
     (case first (outbound_at db i) of
        None \<Rightarrow> (None, db)
      | Some m \<Rightarrow>
          if max_retries \<le> current_retry_attempt (ms_payload m)
          then (None, update_messages (\<lambda>x. ms_id x = i) fail_message db)
          else (Some (current_retry_attempt (ms_payload m) + 1),
                update_messages (\<lambda>x. ms_id x = i) with_attempt db))"

definition candidate_of :: "message option \<Rightarrow> (uuid \<times> int) option" where
  "candidate_of row =
     (case row of
        None \<Rightarrow> None
      | Some m \<Rightarrow> if current_retry_attempt (ms_payload m) \<le> 0 then None
                  else Some (ms_id m, current_retry_attempt (ms_payload m)))"

definition retry_candidate_for_event :: "messaging_db \<Rightarrow> string \<Rightarrow> (uuid \<times> int) option" where
  "retry_candidate_for_event db key =
     candidate_of (first (filter (\<lambda>m. ms_direction m = ''outbound'' \<and> ms_status m = ''pending''
        \<and> list_ex (\<lambda>w. pw_event_key w = key \<and> pw_type w = ''message.status.failed''
             \<and> pw_provider_id w \<noteq> None \<and> pw_provider_id w = ms_provider_id m) (md_webhooks db)) (md_messages db)))"

definition retry_candidate_for_message :: "messaging_db \<Rightarrow> uuid \<Rightarrow> (uuid \<times> int) option" where
  "retry_candidate_for_message db i =
     candidate_of (first (filter (\<lambda>m. ms_status m = ''pending'') (outbound_at db i)))"

definition outreach_of_payload :: "pydict option \<Rightarrow> uuid option" where
  "outreach_of_payload p =
     (case payload_get p ''_alovia_outreach_id'' of Some (PStr s) \<Rightarrow> parse_uuid s | _ \<Rightarrow> None)"

definition outreach_context :: "pyval option \<Rightarrow> uuid \<Rightarrow> pydict \<Rightarrow> pydict" where
  "outreach_context kind oid context =
     (if kind = Some (PStr ''incomplete_24h'')
      then dict_set (dict_set context ''inactivity_followup_pending_response'' (PBool True))
             ''inactivity_followup_outreach_id'' (PStr (uuid_text oid))
      else if kind = Some (PStr ''cleaning_6m'')
      then dict_set (dict_set context ''cleaning_outreach_pending_response'' (PBool True))
             ''cleaning_outreach_id'' (PStr (uuid_text oid))
      else context)"

definition final_of_sequence :: "pydict option \<Rightarrow> bool" where
  "final_of_sequence p \<longleftrightarrow>
     (case (payload_get p ''_alovia_sequence_count'', payload_get p ''_alovia_sequence_index'') of
        (Some c, Some i) \<Rightarrow>
          (case (py_int c, py_int i) of (Some count, Some index) \<Rightarrow> index = count - 1 | _ \<Rightarrow> True)
      | _ \<Rightarrow> True)"

definition settle_outreach :: "uuid \<Rightarrow> string \<Rightarrow> instant option \<Rightarrow> messaging_db \<Rightarrow> messaging_db" where
  "settle_outreach oid status sent db =
     update_outreach (\<lambda>x. co_id x = oid \<and> co_status x = ''pending'')
       (\<lambda>x. x\<lparr>co_status := status, co_sent_at := (case sent of None \<Rightarrow> co_sent_at x | Some t \<Rightarrow> Some t)\<rparr>) db"

definition message_sent :: "string \<Rightarrow> instant \<Rightarrow> message \<Rightarrow> message" where
  "message_sent pid tx m =
     m\<lparr>ms_provider_id := Some pid, ms_status := ''sent'',
       ms_sent_at := Some (case ms_sent_at m of None \<Rightarrow> tx | Some t \<Rightarrow> t)\<rparr>"

definition mark_sent :: "instant \<Rightarrow> messaging_db \<Rightarrow> uuid \<Rightarrow> string \<Rightarrow> messaging_db" where
  "mark_sent tx db i pid =
     (let at = filter (\<lambda>m. ms_id m = i) (md_messages db);
          payload = (case first at of None \<Rightarrow> None | Some m \<Rightarrow> ms_payload m);
          db1 = update_messages (\<lambda>m. ms_id m = i) (message_sent pid tx) db
      in case outreach_of_payload payload of
           None \<Rightarrow> db1
         | Some oid \<Rightarrow>
             let kind = payload_get payload ''_alovia_outreach_type'';
                 db2 = update_conversations
                   (\<lambda>r. list_ex (\<lambda>m. ms_business m = cv_business r \<and> ms_conversation m = cv_id r) at)
                   (\<lambda>r. r\<lparr>cv_context := outreach_context kind oid (cv_context r)\<rparr>) db1
             in if final_of_sequence payload then settle_outreach oid ''sent'' (Some tx) db2 else db2)"

definition mark_failed :: "messaging_db \<Rightarrow> uuid \<Rightarrow> messaging_db" where
  "mark_failed db i =
     (let payload = (case first (filter (\<lambda>m. ms_id m = i) (md_messages db)) of None \<Rightarrow> None | Some m \<Rightarrow> ms_payload m);
          db1 = update_messages (\<lambda>m. ms_id m = i) fail_message db
      in case outreach_of_payload payload of
           None \<Rightarrow> db1
         | Some oid \<Rightarrow> settle_outreach oid ''failed'' None db1)"

text \<open>
  A status reported by the provider: a late failure never turns a delivered message back, a
  retryable one goes back to the queue while attempts are left.
\<close>

definition reported :: "string \<Rightarrow> message \<Rightarrow> message" where
  "reported status m =
     (if status = ''failed'' \<and> (ms_status m = ''delivered'' \<or> ms_status m = ''read'') then m
      else if status = ''failed'' \<and> ms_direction m = ''outbound'' \<and> ms_type m \<in> set retryable_types
         \<and> current_retry_attempt (ms_payload m) < max_retries
      then with_attempt m
      else m\<lparr>ms_status := status\<rparr>)"

definition report_status :: "messaging_db \<Rightarrow> string \<Rightarrow> string \<Rightarrow> messaging_db" where
  "report_status db pid status = update_messages (\<lambda>m. ms_provider_id m = Some pid) (reported status) db"

end
