(* ===== verification/OutboundWorker.thy ===== *)
theory OutboundWorker
  imports OutboundQueue
begin

text \<open>
  The task that sends one message (\<open>app/tasks/outbound.py\<close>). The WhatsApp client is a parameter:
  a function from the request to the provider's answer, or none when the sender of the business
  is not configured. The repository is an interface, a record of operations here. The result
  carries the requests made to the client, in order. A transient failure raises out of the
  transaction, which rolls back: the new state is the old one.
\<close>

section \<open>Requests to the provider\<close>

datatype outgoing =
    SendText string "string option"
  | SendTemplate string string string "string list"
  | SendReaction string string string
  | SendImage string string "string option"
  | SendButtons string "string option" "pyval option"
  | SendList string "string option" "pyval option"

datatype answer = Accepted string | TemporaryError | InvalidResponse | PermanentError | ValidationError

definition collective_suffixes :: "string list" where
  "collective_suffixes = [''@g.us'', ''@broadcast'', ''@newsletter'', ''@community'', ''@channel'']"

definition is_individual_whatsapp_id :: "string \<Rightarrow> bool" where
  "is_individual_whatsapp_id v =
     (let n = casefold (strip v)
      in if list_ex (\<lambda>x. suffix x n) collective_suffixes then False else individual_id n)"

fun all_strings :: "pyval list \<Rightarrow> string list option" where
  "all_strings [] = Some []"
| "all_strings (v # vs) =
     (case (py_str v, all_strings vs) of (Some s, Some ss) \<Rightarrow> Some (s # ss) | _ \<Rightarrow> None)"

definition body_parameters :: "pydict \<Rightarrow> string list option" where
  "body_parameters d =
     (case dict_get d ''body_parameters'' of
        None \<Rightarrow> Some []
      | Some (PList vs) \<Rightarrow> all_strings vs
      | _ \<Rightarrow> None)"

text \<open>
  The request for a message; none when the payload is refused before any request
  (\<open>WhatsAppValidationError\<close>).
\<close>

definition outgoing_of :: "stored_outbound \<Rightarrow> outgoing option" where
  "outgoing_of m =
     (if so_type m = ''text'' then Some (SendText (so_recipient m) (so_body m))
      else case so_payload m of
        None \<Rightarrow> None
      | Some d \<Rightarrow>
          if so_type m = ''template''
          then (case (dict_get d ''template_name'', dict_get d ''language_code'', body_parameters d) of
                  (Some (PStr name), Some (PStr code), Some ps) \<Rightarrow> Some (SendTemplate (so_recipient m) name code ps)
                | _ \<Rightarrow> None)
          else if so_type m = ''reaction''
          then (case (dict_get d ''message_id'', dict_get d ''emoji'') of
                  (Some (PStr target), Some (PStr emoji)) \<Rightarrow> Some (SendReaction (so_recipient m) target emoji)
                | _ \<Rightarrow> None)
          else if so_type m = ''image''
          then (case dict_get d ''image_url'' of
                  Some (PStr url) \<Rightarrow> Some (SendImage (so_recipient m) url
                     (case so_body m of None \<Rightarrow> None | Some b \<Rightarrow> if b = [] then None else Some b))
                | _ \<Rightarrow> None)
          else if so_type m = ''interactive_button''
          then Some (SendButtons (so_recipient m) (so_body m) (dict_get d ''buttons''))
          else if so_type m = ''interactive_list''
          then Some (SendList (so_recipient m) (so_body m) (dict_get d ''sections''))
          else None)"

section \<open>The plain text of an interactive message\<close>

definition title_of :: "pyval \<Rightarrow> string list" where
  "title_of item =
     (case item of
        PDict d \<Rightarrow> (case dict_get d ''title'' of
            Some (PStr t) \<Rightarrow> if strip t = [] then [] else [strip t]
          | _ \<Rightarrow> [])
      | _ \<Rightarrow> [])"

definition section_titles :: "pyval \<Rightarrow> string list" where
  "section_titles s =
     (case s of
        PDict d \<Rightarrow> (case dict_get d ''rows'' of
            Some (PList rows) \<Rightarrow> concat (map title_of rows)
          | _ \<Rightarrow> [])
      | _ \<Rightarrow> [])"

definition interactive_labels :: "stored_outbound \<Rightarrow> string list" where
  "interactive_labels m =
     (case so_payload m of
        None \<Rightarrow> []
      | Some d \<Rightarrow>
          if so_type m = ''interactive_button''
          then (case dict_get d ''buttons'' of Some (PList items) \<Rightarrow> concat (map title_of items) | _ \<Rightarrow> [])
          else if so_type m = ''interactive_list''
          then (case dict_get d ''sections'' of Some (PList ss) \<Rightarrow> concat (map section_titles ss) | _ \<Rightarrow> [])
          else [])"

definition plain_text_fallback :: "stored_outbound \<Rightarrow> string" where
  "plain_text_fallback m =
     (let body = strip (case so_body m of None \<Rightarrow> [] | Some b \<Rightarrow> b);
          labels = interactive_labels m;
          text = (if labels \<noteq> []
             then (let options = join '' | '' (dedup labels)
                   in if body \<noteq> [] then body @ [CHR 0x0A, CHR 0x0A] @ ''Responda com: '' @ options
                      else ''Responda com: '' @ options)
             else if body \<noteq> [] then body else ''Por favor, responda em texto para continuar.'')
      in take 4096 text)"

text \<open>The answer after the fallback, and the requests that were made.\<close>

definition deliver :: "(outgoing \<Rightarrow> answer) \<Rightarrow> stored_outbound \<Rightarrow> answer \<times> outgoing list" where
  "deliver client m =
     (let (a, calls) = (case outgoing_of m of None \<Rightarrow> (ValidationError, []) | Some r \<Rightarrow> (client r, [r]))
      in if a = ValidationError \<and> (so_type m = ''interactive_button'' \<or> so_type m = ''interactive_list'')
         then (let r = SendText (so_recipient m) (Some (plain_text_fallback m)) in (client r, calls @ [r]))
         else (a, calls))"

section \<open>The task\<close>

datatype outbound_result = ResultSent | ResultFailed | ResultSkipped | ResultRetry

record 's outbound_repository =
  or_lock :: "'s \<Rightarrow> uuid \<Rightarrow> messaging_error + stored_outbound option"
  or_sent :: "'s \<Rightarrow> uuid \<Rightarrow> string \<Rightarrow> 's"
  or_failed :: "'s \<Rightarrow> uuid \<Rightarrow> 's"
  or_retry :: "'s \<Rightarrow> uuid \<Rightarrow> int option \<times> 's"

definition sql_outbound :: "messaging_env \<Rightarrow> clocks \<Rightarrow> messaging_db outbound_repository" where
  "sql_outbound env ck = \<lparr>or_lock = lock_message env ck, or_sent = mark_sent (ck_tx ck),
     or_failed = mark_failed, or_retry = mark_retry_pending\<rparr>"

text \<open>What the task records for the answer of the provider.\<close>

definition finish_delivery ::
  "'s outbound_repository \<Rightarrow> uuid \<Rightarrow> 's \<Rightarrow> answer \<Rightarrow> (messaging_error + outbound_result) \<times> 's" where
  "finish_delivery repo i s a =
     (case a of
        Accepted pid \<Rightarrow> (Inr ResultSent, or_sent repo s i pid)
      | TemporaryError \<Rightarrow>
          (Inl (TransientFailure ''WhatsApp outbound delivery is temporarily unavailable''), s)
      | InvalidResponse \<Rightarrow>
          (Inl (TransientFailure ''WhatsApp outbound delivery is temporarily unavailable''), s)
      | PermanentError \<Rightarrow>
          (case or_retry repo s i of (n, s') \<Rightarrow> (Inr (if n \<noteq> None then ResultRetry else ResultFailed), s'))
      | ValidationError \<Rightarrow> (Inr ResultFailed, or_failed repo s i))"

definition process_outbound_message ::
  "'s outbound_repository \<Rightarrow> (uuid \<Rightarrow> (outgoing \<Rightarrow> answer) option) \<Rightarrow> uuid \<Rightarrow> 's
   \<Rightarrow> (messaging_error + outbound_result) \<times> 's \<times> outgoing list" where
  "process_outbound_message repo resolver i s =
     (case or_lock repo s i of
        Inl e \<Rightarrow> (Inl e, s, [])
      | Inr None \<Rightarrow> (Inr ResultSkipped, s, [])
      | Inr (Some m) \<Rightarrow>
          if so_status m \<noteq> ''pending'' then (Inr ResultSkipped, s, [])
          else if so_automation_blocked m then (Inr ResultFailed, or_failed repo s (so_message m), [])
          else if so_window_blocked m then (Inr ResultFailed, or_failed repo s (so_message m), [])
          else if so_quota_blocked m then (Inr ResultFailed, or_failed repo s (so_message m), [])
          else if \<not> is_individual_whatsapp_id (so_recipient m)
          then (Inr ResultFailed, or_failed repo s (so_message m), [])
          else (case resolver (so_business m) of
             None \<Rightarrow> (Inl (TransientFailure ''WhatsApp sender is not configured''), s, [])
           | Some client \<Rightarrow>
               (case deliver client m of (a, calls) \<Rightarrow>
                 (case finish_delivery repo (so_message m) s a of (res, s') \<Rightarrow> (res, s', calls)))))"

section \<open>What is put on the task queue\<close>

text \<open>
  The identifiers handed to the task queue, in order: \<open>dict.fromkeys\<close> drops repetitions.
\<close>

definition enqueue_message_ids :: "uuid list \<Rightarrow> uuid list" where
  "enqueue_message_ids ids = dedup ids"

record inbound_event =
  ie_provider_id :: string
  ie_whatsapp_id :: string

definition enqueue_for_events :: "messaging_env \<Rightarrow> messaging_db \<Rightarrow> inbound_event list \<Rightarrow> uuid list \<times> uuid list" where
  "enqueue_for_events env db events =
     (let ids = map ie_provider_id (filter (\<lambda>e. is_individual_whatsapp_id (ie_whatsapp_id e)) events)
      in if ids = [] then ([], [])
         else let found = list_pending_for_provider_ids env db ids in (found, enqueue_message_ids found))"

definition enqueue_for_event ::
  "messaging_env \<Rightarrow> messaging_db \<Rightarrow> string \<Rightarrow> messaging_error + (uuid list \<times> uuid list)" where
  "enqueue_for_event env db key =
     (case list_pending_for_event env db key of Inl e \<Rightarrow> Inl e
      | Inr found \<Rightarrow> Inr (found, enqueue_message_ids found))"

text \<open>The candidate of a retry is enqueued with its attempt; the next message of a sequence plainly.\<close>

definition enqueue_retry_for_event :: "messaging_db \<Rightarrow> string \<Rightarrow> (uuid \<times> int) option \<times> (uuid \<times> int) list" where
  "enqueue_retry_for_event db key =
     (let c = retry_candidate_for_event db key in (c, case c of None \<Rightarrow> [] | Some x \<Rightarrow> [x]))"

definition enqueue_retry_for_message :: "messaging_db \<Rightarrow> uuid \<Rightarrow> (uuid \<times> int) option \<times> (uuid \<times> int) list" where
  "enqueue_retry_for_message db i =
     (let c = retry_candidate_for_message db i in (c, case c of None \<Rightarrow> [] | Some x \<Rightarrow> [x]))"

definition enqueue_next_sequence ::
  "messaging_env \<Rightarrow> messaging_db \<Rightarrow> uuid \<Rightarrow> messaging_error + (uuid option \<times> uuid list)" where
  "enqueue_next_sequence env db i =
     (case next_sequence_message_id env db i of Inl e \<Rightarrow> Inl e
      | Inr n \<Rightarrow> Inr (n, case n of None \<Rightarrow> [] | Some x \<Rightarrow> [x]))"

end
