(* ===== verification/OutboundSafety.thy ===== *)
theory OutboundSafety
  imports OutboundWorker Policy
begin

text \<open>
  What the sending of messages promises: nothing is sent that the switches, exclusions, plan or
  quota forbid; a message that was sent or failed is not sent again; permanent failures and
  failure reports put a message back at most three times; the pieces of a sequence go out in
  order.
\<close>

section \<open>The branches of the task\<close>

definition refused :: "stored_outbound \<Rightarrow> bool" where
  "refused m \<longleftrightarrow> so_automation_blocked m \<or> so_window_blocked m \<or> so_quota_blocked m
     \<or> \<not> is_individual_whatsapp_id (so_recipient m)"

lemma process_pending:
  assumes "or_lock repo s i = Inr (Some m)" and "so_status m = ''pending''"
  shows "process_outbound_message repo resolver i s =
     (if refused m then (Inr ResultFailed, or_failed repo s (so_message m), [])
      else case resolver (so_business m) of
          None \<Rightarrow> (Inl (TransientFailure ''WhatsApp sender is not configured''), s, [])
        | Some client \<Rightarrow>
            (case finish_delivery repo (so_message m) s (fst (deliver client m)) of
               (res, s') \<Rightarrow> (res, s', snd (deliver client m))))"
  using assms by (auto simp: process_outbound_message_def refused_def case_prod_beta split: option.splits)

lemma process_cases:
  assumes "process_outbound_message repo resolver i s = (res, s', calls)"
  obtains "res = Inr ResultSkipped \<or> (\<exists>e. res = Inl e)" and "s' = s" and "calls = []"
  | m where "or_lock repo s i = Inr (Some m)" and "so_status m = ''pending''" and "refused m"
      and "res = Inr ResultFailed" and "s' = or_failed repo s (so_message m)" and "calls = []"
  | m client where "or_lock repo s i = Inr (Some m)" and "so_status m = ''pending''" and "\<not> refused m"
      and "resolver (so_business m) = Some client"
      and "finish_delivery repo (so_message m) s (fst (deliver client m)) = (res, s')"
      and "calls = snd (deliver client m)"
proof (cases "\<exists>m. or_lock repo s i = Inr (Some m) \<and> so_status m = ''pending''")
  case True
  then obtain m where m: "or_lock repo s i = Inr (Some m)" "so_status m = ''pending''" by blast
  show thesis
  proof (cases "refused m")
    case True
    then show thesis using that(2) [OF m True] assms by (simp add: process_pending [OF m])
  next
    case False
    show thesis
    proof (cases "resolver (so_business m)")
      case None
      then have "res = Inl (TransientFailure ''WhatsApp sender is not configured'') \<and> s' = s \<and> calls = []"
        using assms False by (simp add: process_pending [OF m])
      then show thesis using that(1) by blast
    next
      case (Some client)
      then show thesis using that(3) [OF m False Some] assms False
        by (simp add: process_pending [OF m] case_prod_beta prod_eq_iff)
    qed
  qed
next
  case False
  then have "(res = Inr ResultSkipped \<or> (\<exists>e. res = Inl e)) \<and> s' = s \<and> calls = []"
    using assms by (auto simp: process_outbound_message_def split: sum.splits option.splits)
  then show thesis using that(1) by blast
qed

section \<open>The contract of the repository\<close>

text \<open>
  A state shows the status and the number of retries of every message. Each outcome settles one
  message and leaves the others.
\<close>

locale outbound_store =
  fixes repo :: "'s outbound_repository"
    and status :: "'s \<Rightarrow> uuid \<Rightarrow> string option"
    and attempts :: "'s \<Rightarrow> uuid \<Rightarrow> int"
    and ok :: "'s \<Rightarrow> bool"
  assumes lock: "ok s \<Longrightarrow> or_lock repo s i = Inr (Some m) \<Longrightarrow> so_message m = i \<and> status s i = Some (so_status m)"
    and sent: "ok s \<Longrightarrow> or_lock repo s i = Inr (Some m) \<Longrightarrow> status (or_sent repo s i p) i = Some ''sent''
      \<and> attempts (or_sent repo s i p) i = attempts s i"
    and failed: "ok s \<Longrightarrow> or_lock repo s i = Inr (Some m) \<Longrightarrow> status (or_failed repo s i) i = Some ''failed''
      \<and> attempts (or_failed repo s i) i = attempts s i"
    and retry: "ok s \<Longrightarrow> or_lock repo s i = Inr (Some m) \<Longrightarrow> or_retry repo s i = (n, s') \<Longrightarrow>
      (if attempts s i < max_retries
       then n = Some (attempts s i + 1) \<and> status s' i = Some ''pending'' \<and> attempts s' i = attempts s i + 1
       else n = None \<and> status s' i = Some ''failed'' \<and> attempts s' i = attempts s i)"
    and others: "j \<noteq> i \<Longrightarrow> status (or_sent repo s i p) j = status s j \<and> attempts (or_sent repo s i p) j = attempts s j"
      "j \<noteq> i \<Longrightarrow> status (or_failed repo s i) j = status s j \<and> attempts (or_failed repo s i) j = attempts s j"
      "j \<noteq> i \<Longrightarrow> or_retry repo s i = (n, s') \<Longrightarrow> status s' j = status s j \<and> attempts s' j = attempts s j"
    and keeps: "ok s \<Longrightarrow> ok (or_sent repo s i p)" "ok s \<Longrightarrow> ok (or_failed repo s i)"
      "ok s \<Longrightarrow> or_retry repo s i = (n, s') \<Longrightarrow> ok s'"
begin

lemma process_calls:
  assumes "process_outbound_message repo resolver i s = (res, s', calls)" and "calls \<noteq> []"
  obtains m client where "or_lock repo s i = Inr (Some m)" and "so_status m = ''pending''"
    and "\<not> refused m" and "resolver (so_business m) = Some client"
    and "calls = snd (deliver client m)"
  by (rule process_cases [OF assms(1)]) (use assms(2) that in auto)

text \<open>How a task leaves its message, and that it leaves the others.\<close>

lemma finish_settles:
  assumes "ok s" and "or_lock repo s i = Inr (Some m)" and "finish_delivery repo i s a = (res, s')"
  shows "case res of
      Inl e \<Rightarrow> s' = s
    | Inr ResultSkipped \<Rightarrow> False
    | Inr ResultSent \<Rightarrow> status s' i = Some ''sent'' \<and> attempts s' i = attempts s i
    | Inr ResultFailed \<Rightarrow> status s' i = Some ''failed'' \<and> attempts s' i = attempts s i
    | Inr ResultRetry \<Rightarrow> status s' i = Some ''pending''
        \<and> attempts s i < max_retries \<and> attempts s' i = attempts s i + 1"
    and "j \<noteq> i \<Longrightarrow> status s' j = status s j \<and> attempts s' j = attempts s j" and "ok s'"
proof -
  obtain n t where n: "or_retry repo s i = (n, t)" by (cases "or_retry repo s i")
  note facts = sent [OF assms(1,2)] failed [OF assms(1,2)] retry [OF assms(1,2) n]
  show "case res of
      Inl e \<Rightarrow> s' = s
    | Inr ResultSkipped \<Rightarrow> False
    | Inr ResultSent \<Rightarrow> status s' i = Some ''sent'' \<and> attempts s' i = attempts s i
    | Inr ResultFailed \<Rightarrow> status s' i = Some ''failed'' \<and> attempts s' i = attempts s i
    | Inr ResultRetry \<Rightarrow> status s' i = Some ''pending''
        \<and> attempts s i < max_retries \<and> attempts s' i = attempts s i + 1"
    using assms(3) facts n by (cases a) (auto simp: finish_delivery_def split: if_splits)
  show "j \<noteq> i \<Longrightarrow> status s' j = status s j \<and> attempts s' j = attempts s j"
    using assms(3) others(1,2) others(3) [OF _ n] n by (cases a) (auto simp: finish_delivery_def)
  show "ok s'" using assms(3) keeps(1,2) [OF assms(1)] keeps(3) [OF assms(1) n] n assms(1)
    by (cases a) (auto simp: finish_delivery_def)
qed

lemma process_settles:
  assumes "ok s" and "process_outbound_message repo resolver i s = (res, s', calls)"
  shows "case res of
      Inl e \<Rightarrow> s' = s
    | Inr ResultSkipped \<Rightarrow> s' = s \<and> calls = []
    | Inr ResultSent \<Rightarrow> status s i = Some ''pending'' \<and> status s' i = Some ''sent'' \<and> attempts s' i = attempts s i
    | Inr ResultFailed \<Rightarrow> status s i = Some ''pending'' \<and> status s' i = Some ''failed'' \<and> attempts s' i = attempts s i
    | Inr ResultRetry \<Rightarrow> status s i = Some ''pending'' \<and> status s' i = Some ''pending''
        \<and> attempts s i < max_retries \<and> attempts s' i = attempts s i + 1"
      (is "?settled")
    and "j \<noteq> i \<Longrightarrow> status s' j = status s j \<and> attempts s' j = attempts s j"
    and "ok s'"
proof -
  have "?settled \<and> (j \<noteq> i \<longrightarrow> status s' j = status s j \<and> attempts s' j = attempts s j) \<and> ok s'"
    using assms(2)
  proof (rule process_cases)
    assume "res = Inr ResultSkipped \<or> (\<exists>e. res = Inl e)" "s' = s" "calls = []"
    then show ?thesis using assms(1) by auto
  next
    fix m
    assume m: "or_lock repo s i = Inr (Some m)" and st: "so_status m = ''pending''"
      and "res = Inr ResultFailed" "s' = or_failed repo s (so_message m)"
    then show ?thesis
      using lock [OF assms(1) m] failed [OF assms(1) m] others(2) keeps(2) [OF assms(1)] by auto
  next
    fix m client
    assume m: "or_lock repo s i = Inr (Some m)" and st: "so_status m = ''pending''"
      and fin: "finish_delivery repo (so_message m) s (fst (deliver client m)) = (res, s')"
    note lk = lock [OF assms(1) m]
    then have fin': "finish_delivery repo i s (fst (deliver client m)) = (res, s')" using fin by simp
    note settles = finish_settles [OF assms(1) m fin']
    have ?settled using settles(1) lk st by (auto split: sum.splits outbound_result.splits)
    then show ?thesis using settles(2,3) by blast
  qed
  then show ?settled "j \<noteq> i \<Longrightarrow> status s' j = status s j \<and> attempts s' j = attempts s j" "ok s'"
    by blast+
qed

text \<open>A settled message is left alone.\<close>

lemma process_settled:
  assumes "ok s" and "status s i \<noteq> Some ''pending''"
    and "process_outbound_message repo resolver i s = (Inr res, s', calls)"
  shows "res = ResultSkipped \<and> s' = s \<and> calls = []"
  using process_settles(1) [OF assms(1,3)] assms(2) by (cases res) auto

end

section \<open>The SQL repository satisfies the contract\<close>

definition status_of :: "messaging_db \<Rightarrow> uuid \<Rightarrow> string option" where
  "status_of db i = map_option ms_status (first (outbound_at db i))"

definition attempts_of :: "messaging_db \<Rightarrow> uuid \<Rightarrow> int" where
  "attempts_of db i = (case first (outbound_at db i) of None \<Rightarrow> 0 | Some m \<Rightarrow> current_retry_attempt (ms_payload m))"

lemma outbound_at_single: "keys_ok db \<Longrightarrow> outbound_at db i = [] \<or> (\<exists>m. outbound_at db i = [m])"
  unfolding outbound_at_def keys_ok_def
  by (rule filter_key_single [of ms_id _ _ i]) auto

lemma outbound_at_row: "outbound_at db i = [m] \<Longrightarrow> ms_id m = i \<and> ms_direction m = ''outbound''"
  unfolding outbound_at_def by (auto simp: filter_eq_Cons_iff)

lemma outbound_at_update:
  "(\<And>m. ms_id (f m) = ms_id m \<and> ms_direction (f m) = ms_direction m) \<Longrightarrow>
   outbound_at (update_messages p f db) i = update_where p f (outbound_at db i)"
  unfolding outbound_at_def update_messages_sel by (rule filter_update_where) simp

lemma outbound_at_conversations [simp]: "outbound_at (update_conversations p f db) i = outbound_at db i"
  and outbound_at_outreach [simp]: "outbound_at (update_outreach q h db) i = outbound_at db i"
  by (simp_all add: outbound_at_def)

lemma message_updates_sel [simp]:
  "ms_id (fail_message m) = ms_id m" "ms_direction (fail_message m) = ms_direction m"
  "ms_status (fail_message m) = ''failed''" "ms_payload (fail_message m) = ms_payload m"
  "ms_id (with_attempt m) = ms_id m" "ms_direction (with_attempt m) = ms_direction m"
  "ms_status (with_attempt m) = ''pending''"
  "ms_id (message_sent p tx m) = ms_id m" "ms_direction (message_sent p tx m) = ms_direction m"
  "ms_status (message_sent p tx m) = ''sent''" "ms_payload (message_sent p tx m) = ms_payload m"
  by (simp_all add: fail_message_def with_attempt_def message_sent_def)

lemma current_retry_attempt_nonneg [simp]: "0 \<le> current_retry_attempt p"
  by (auto simp: current_retry_attempt_def split: option.splits)

lemma current_retry_attempt_set:
  "0 \<le> n \<Longrightarrow> current_retry_attempt (Some (dict_set d retry_key (PInt n))) = n"
  by (simp add: current_retry_attempt_def payload_get_def)

lemma with_attempt_attempts [simp]:
  "current_retry_attempt (ms_payload (with_attempt m)) = current_retry_attempt (ms_payload m) + 1"
proof -
  have "0 \<le> current_retry_attempt (ms_payload m)" by simp
  then show ?thesis by (simp add: with_attempt_def current_retry_attempt_set)
qed

lemma settle_outreach_sel [simp]:
  "md_messages (settle_outreach oid st sent db) = md_messages db"
  "md_conversations (settle_outreach oid st sent db) = md_conversations db"
  "outbound_at (settle_outreach oid st sent db) i = outbound_at db i"
  "keys_ok (settle_outreach oid st sent db) = keys_ok db"
  by (simp_all add: settle_outreach_def keys_ok_def map_update_where)

lemma mark_sent_messages:
  "md_messages (mark_sent tx db i p) = update_where (\<lambda>m. ms_id m = i) (message_sent p tx) (md_messages db)"
  by (simp add: mark_sent_def Let_def split: option.split)

lemma mark_failed_messages:
  "md_messages (mark_failed db i) = update_where (\<lambda>m. ms_id m = i) fail_message (md_messages db)"
  by (simp add: mark_failed_def Let_def split: option.split)

lemma outbound_at_mark:
  "outbound_at (mark_sent tx db i p) j = update_where (\<lambda>m. ms_id m = i) (message_sent p tx) (outbound_at db j)"
  "outbound_at (mark_failed db i) j = update_where (\<lambda>m. ms_id m = i) fail_message (outbound_at db j)"
  using outbound_at_update [of "message_sent p tx"] outbound_at_update [of fail_message]
  by (simp_all add: outbound_at_def mark_sent_messages mark_failed_messages)

lemma keys_ok_mark [simp]:
  "keys_ok (mark_sent tx db i p) = keys_ok db" "keys_ok (mark_failed db i) = keys_ok db"
  by (simp_all add: mark_sent_def mark_failed_def Let_def split: option.split)

lemma lock_messageD:
  assumes "lock_message env ck db i = Inr (Some s)"
  obtains m r u n ids where "outbound_at db i = [m]" and "message_scope db m = [(r, u, n)]"
    and "whatsapp_id_lookup_aliases (cu_whatsapp_id u) = Inr ids"
    and "so_message s = i" and "so_status s = ms_status m" and "so_recipient s = cu_whatsapp_id u"
    and "so_type s = ms_type m" and "so_business s = ms_business m"
    and "so_automation_blocked s = message_blocked env ck db m r u n ids"
    and "ms_status m = ''pending'' \<and> \<not> so_automation_blocked s \<and> ms_type m \<noteq> ''reaction'' \<longrightarrow>
      (\<exists>x. message_usage_snapshot (me_environment env) (me_brazil env) db (ms_business m) True (ck_now ck) = Inr x
        \<and> so_quota_blocked s = exhausted x
        \<and> so_window_blocked s = (us_plan x = Some ''basic''
             \<and> basic_service_window_blocked (us_plan x) (ms_type m)
                 (latest_inbound db (ms_business m) (ms_conversation m)) (ck_now ck)))"
proof -
  obtain m where m: "outbound_at db i = [m]"
    using assms by (auto simp: lock_message_def one_or_none_def split: list.splits)
  obtain r u n where scope: "message_scope db m = [(r, u, n)]"
    using assms by (auto simp: lock_message_def m one_or_none_def split: list.splits if_splits)
  obtain ids where ids: "whatsapp_id_lookup_aliases (cu_whatsapp_id u) = Inr ids"
    using assms by (auto simp: lock_message_def m one_or_none_def scope split: if_splits sum.splits)
  have s: "(if ms_status m = ''pending'' \<and> \<not> message_blocked env ck db m r u n ids \<and> ms_type m \<noteq> ''reaction''
      then (case message_usage_snapshot (me_environment env) (me_brazil env) db (ms_business m) True (ck_now ck) of
         Inl e \<Rightarrow> Inl e
       | Inr x \<Rightarrow> Inr (Some (stored_of m (cu_whatsapp_id u) (message_blocked env ck db m r u n ids) (exhausted x)
           (us_plan x = Some ''basic''
              \<and> basic_service_window_blocked (us_plan x) (ms_type m)
                  (latest_inbound db (ms_business m) (ms_conversation m)) (ck_now ck)) (Some x))))
      else Inr (Some (stored_of m (cu_whatsapp_id u) (message_blocked env ck db m r u n ids) False False None)))
      = Inr (Some s)"
    using assms by (auto simp: lock_message_def m one_or_none_def scope ids Let_def split: if_splits)
  have id: "ms_id m = i" using outbound_at_row [OF m] by simp
  show thesis
  proof (rule that [OF m scope ids])
    show "so_message s = i" "so_status s = ms_status m" "so_recipient s = cu_whatsapp_id u"
      "so_type s = ms_type m" "so_business s = ms_business m"
      "so_automation_blocked s = message_blocked env ck db m r u n ids"
      using s id by (auto simp: stored_of_def split: if_splits sum.splits)
  next
    show "ms_status m = ''pending'' \<and> \<not> so_automation_blocked s \<and> ms_type m \<noteq> ''reaction'' \<longrightarrow>
      (\<exists>x. message_usage_snapshot (me_environment env) (me_brazil env) db (ms_business m) True (ck_now ck) = Inr x
        \<and> so_quota_blocked s = exhausted x
        \<and> so_window_blocked s = (us_plan x = Some ''basic''
             \<and> basic_service_window_blocked (us_plan x) (ms_type m)
                 (latest_inbound db (ms_business m) (ms_conversation m)) (ck_now ck)))"
      using s by (auto simp: stored_of_def split: if_splits sum.splits)
  qed
qed

interpretation sql_tasks: outbound_store "sql_outbound env ck" status_of attempts_of keys_ok for env ck
proof unfold_locales
  fix db :: messaging_db and i m
  assume "keys_ok db" and lk: "or_lock (sql_outbound env ck) db i = Inr (Some m)"
  obtain x where x: "outbound_at db i = [x]" "so_message m = i" "so_status m = ms_status x"
    using lk by (auto simp: sql_outbound_def elim: lock_messageD)
  note id = outbound_at_row [OF x(1)]
  show "so_message m = i \<and> status_of db i = Some (so_status m)" using x by (simp add: status_of_def)
  show "status_of (or_sent (sql_outbound env ck) db i p) i = Some ''sent''
      \<and> attempts_of (or_sent (sql_outbound env ck) db i p) i = attempts_of db i" for p
    using x(1) id by (simp add: sql_outbound_def status_of_def attempts_of_def outbound_at_mark)
  show "status_of (or_failed (sql_outbound env ck) db i) i = Some ''failed''
      \<and> attempts_of (or_failed (sql_outbound env ck) db i) i = attempts_of db i"
    using x(1) id by (simp add: sql_outbound_def status_of_def attempts_of_def outbound_at_mark)
  show "if attempts_of db i < max_retries
       then n = Some (attempts_of db i + 1) \<and> status_of s' i = Some ''pending'' \<and> attempts_of s' i = attempts_of db i + 1
       else n = None \<and> status_of s' i = Some ''failed'' \<and> attempts_of s' i = attempts_of db i"
    if "or_retry (sql_outbound env ck) db i = (n, s')" for n s'
    using that x(1) id
    by (auto simp: sql_outbound_def mark_retry_pending_def status_of_def attempts_of_def outbound_at_update)
next
  fix i j :: uuid and db :: messaging_db and p n s'
  assume "j \<noteq> i"
  then have other: "update_where (\<lambda>m. ms_id m = i) f (outbound_at db j) = outbound_at db j" for f
    by (auto simp: update_where_def outbound_at_def intro: map_idI)
  show "status_of (or_sent (sql_outbound env ck) db i p) j = status_of db j
      \<and> attempts_of (or_sent (sql_outbound env ck) db i p) j = attempts_of db j"
    "status_of (or_failed (sql_outbound env ck) db i) j = status_of db j
      \<and> attempts_of (or_failed (sql_outbound env ck) db i) j = attempts_of db j"
    by (simp_all add: sql_outbound_def status_of_def attempts_of_def outbound_at_mark other)
  show "status_of s' j = status_of db j \<and> attempts_of s' j = attempts_of db j"
    if "or_retry (sql_outbound env ck) db i = (n, s')"
    using that by (auto simp: sql_outbound_def mark_retry_pending_def status_of_def attempts_of_def
        outbound_at_update other split: option.splits if_splits)
next
  fix db :: messaging_db and i p n s'
  assume ok: "keys_ok db"
  show "keys_ok (or_sent (sql_outbound env ck) db i p)" "keys_ok (or_failed (sql_outbound env ck) db i)"
    using ok by (simp_all add: sql_outbound_def)
  show "keys_ok s'" if "or_retry (sql_outbound env ck) db i = (n, s')"
    using that ok by (auto simp: sql_outbound_def mark_retry_pending_def split: option.splits if_splits)
qed

end
