(* ===== verification/SendGuards.thy ===== *)
theory SendGuards
  imports OutboundSafety PolicyAdmin
begin

text \<open>
  The properties of the sending task on the SQL repository, with the runs of the queue in which
  tasks and status reports interleave.
\<close>

section \<open>A sample of the queue\<close>

definition sample_env :: messaging_env where
  "sample_env = \<lparr>me_environment = (\<lambda>_. None), me_brazil = fixed_zone (-180), me_json = (\<lambda>_. [])\<rparr>"

definition sample_clocks :: clocks where
  "sample_clocks = \<lparr>ck_tx = combine 738916 0, ck_now = combine 738916 0\<rparr>"

definition answering :: "answer \<Rightarrow> uuid \<Rightarrow> (outgoing \<Rightarrow> answer) option" where
  "answering a b = Some (\<lambda>_. a)"

definition sample_stored :: stored_outbound where
  "sample_stored = \<lparr>so_message = 41, so_business = 10, so_recipient = ''5511987654321'', so_type = ''text'',
     so_body = Some ''Bom dia!'', so_payload = None, so_status = ''pending'', so_provider = None,
     so_automation_blocked = False, so_quota_blocked = False, so_window_blocked = False,
     so_quota_plan = None, so_quota_used = Some 0, so_quota_limit = None\<rparr>"

lemma sample_lock: "lock_message sample_env sample_clocks sample_messaging 41 = Inr (Some sample_stored)"
  by code_simp

lemma sample_stored_open: "\<not> refused sample_stored" "so_status sample_stored = ''pending''"
  by code_simp+

lemma sample_process:
  "process_outbound_message (sql_outbound sample_env sample_clocks) (answering (Accepted ''wamid.1'')) 41 sample_messaging
   = (Inr ResultSent, mark_sent (ck_tx sample_clocks) sample_messaging 41 ''wamid.1'',
      [SendText ''5511987654321'' (Some ''Bom dia!'')])"
proof -
  have lk: "or_lock (sql_outbound sample_env sample_clocks) sample_messaging 41 = Inr (Some sample_stored)"
    by (simp add: sql_outbound_def sample_lock)
  have del: "deliver (\<lambda>_. Accepted ''wamid.1'') sample_stored
      = (Accepted ''wamid.1'', [SendText ''5511987654321'' (Some ''Bom dia!'')])"
    by (simp add: deliver_def outgoing_of_def sample_stored_def)
  have "so_message sample_stored = 41" by (simp add: sample_stored_def)
  then show ?thesis
    by (simp add: process_pending [OF lk sample_stored_open(2)] sample_stored_open answering_def del
        finish_delivery_def) (simp add: sql_outbound_def)
qed

section \<open>What may be sent\<close>

fun recipient_of :: "outgoing \<Rightarrow> string" where
  "recipient_of (SendText to _) = to"
| "recipient_of (SendTemplate to _ _ _) = to"
| "recipient_of (SendReaction to _ _) = to"
| "recipient_of (SendImage to _ _) = to"
| "recipient_of (SendButtons to _ _) = to"
| "recipient_of (SendList to _ _) = to"

lemma outgoing_recipient: "outgoing_of m = Some r \<Longrightarrow> recipient_of r = so_recipient m"
  by (auto simp: outgoing_of_def split: if_splits option.splits pyval.splits)

lemma deliver_recipient: "r \<in> set (snd (deliver client m)) \<Longrightarrow> recipient_of r = so_recipient m"
  by (auto simp: deliver_def Let_def dest: outgoing_recipient split: option.splits if_splits)

definition automatic :: "message \<Rightarrow> bool" where
  "automatic m \<longleftrightarrow> \<not> manual_key (ms_key m) \<and> payload_get (ms_payload m) ''_alovia_transition'' \<noteq> Some (PStr ''handoff'')"

text \<open>
  C14. Nothing is sent that is forbidden: when the task makes any request to the provider, its
  message was pending; the business has operational access; no active exclusion ignores the
  contact under any of its identifiers; an automatic message finds the assistant enabled for the
  conversation and the business, no human control and no exclusion at all; a message other than a
  reaction finds quota left and, on the Basic plan, is no template and answers an inbound message
  of the last 24 hours; and every request goes to the contact of the conversation.
\<close>

theorem send_guarded:
  assumes "process_outbound_message (sql_outbound env ck) resolver i db = (res, db', calls)" and "calls \<noteq> []"
  shows "\<exists>m r u n ids. outbound_at db i = [m] \<and> ms_status m = ''pending'' \<and> message_scope db m = [(r, u, n)]
    \<and> whatsapp_id_lookup_aliases (cu_whatsapp_id u) = Inr ids
    \<and> active_operational_access_exists db (ms_business m) (billing_provider_environment (me_environment env)) (ck_tx ck)
    \<and> \<not> exclusion_exists db (ms_business m) ids True
    \<and> (automatic m \<longrightarrow> cv_enabled r \<and> tn_assistant n \<and> cv_handoff r \<noteq> ''human_only''
         \<and> (\<forall>t. cv_suppressed_until r = Some t \<longrightarrow> t \<le> ck_tx ck) \<and> \<not> exclusion_exists db (ms_business m) ids False)
    \<and> (ms_type m = ''reaction'' \<or> (\<exists>x. message_usage_snapshot (me_environment env) (me_brazil env) db
           (ms_business m) True (ck_now ck) = Inr x \<and> \<not> exhausted x
         \<and> (us_plan x = Some ''basic'' \<longrightarrow> ms_type m \<noteq> ''template''
              \<and> (\<exists>t. latest_inbound db (ms_business m) (ms_conversation m) = Some t
                   \<and> ck_now ck - minutes (24 * 60) \<le> t))))
    \<and> (\<forall>o' \<in> set calls. recipient_of o' = cu_whatsapp_id u)"
proof -
  obtain s client where "or_lock (sql_outbound env ck) db i = Inr (Some s)"
    and "so_status s = ''pending''" "\<not> refused s" "calls = snd (deliver client s)"
    using assms by (rule sql_tasks.process_calls)
  then have s: "lock_message env ck db i = Inr (Some s)" "so_status s = ''pending''" "\<not> refused s"
    "calls = snd (deliver client s)" by (simp_all add: sql_outbound_def)
  obtain m r u n ids where m: "outbound_at db i = [m]" "message_scope db m = [(r, u, n)]"
    "whatsapp_id_lookup_aliases (cu_whatsapp_id u) = Inr ids" "so_message s = i" "so_status s = ms_status m"
    "so_recipient s = cu_whatsapp_id u" "so_type s = ms_type m" "so_business s = ms_business m"
    and blocked: "so_automation_blocked s = message_blocked env ck db m r u n ids"
    and usage: "ms_status m = ''pending'' \<and> \<not> so_automation_blocked s \<and> ms_type m \<noteq> ''reaction'' \<longrightarrow>
      (\<exists>x. message_usage_snapshot (me_environment env) (me_brazil env) db (ms_business m) True (ck_now ck) = Inr x
        \<and> so_quota_blocked s = exhausted x
        \<and> so_window_blocked s = (us_plan x = Some ''basic''
             \<and> basic_service_window_blocked (us_plan x) (ms_type m)
                 (latest_inbound db (ms_business m) (ms_conversation m)) (ck_now ck)))"
    using s(1) by (rule lock_messageD)
  have opened: "\<not> message_blocked env ck db m r u n ids" "\<not> so_window_blocked s" "\<not> so_quota_blocked s"
    using s(3) blocked by (simp_all add: refused_def)
  have pend: "ms_status m = ''pending''" using s(2) m(5) by simp
  have access: "active_operational_access_exists db (ms_business m) (billing_provider_environment (me_environment env)) (ck_tx ck)"
    and ign: "\<not> exclusion_exists db (ms_business m) ids True"
    using opened(1) by (auto simp: message_blocked_def automation_blocked_def split: if_splits)
  have auto': "automatic m \<longrightarrow> \<not> standard_blocked db (ck_tx ck) n r u \<and> \<not> exclusion_exists db (ms_business m) ids False"
    using opened(1) by (auto simp: message_blocked_def automation_blocked_def automatic_def split: if_splits)
  then have auto: "automatic m \<longrightarrow> cv_enabled r \<and> tn_assistant n \<and> cv_handoff r \<noteq> ''human_only''
      \<and> (\<forall>t. cv_suppressed_until r = Some t \<longrightarrow> t \<le> ck_tx ck) \<and> \<not> exclusion_exists db (ms_business m) ids False"
    by (auto simp: standard_blocked_def split: option.splits)
  have quota: "ms_type m = ''reaction'' \<or> (\<exists>x. message_usage_snapshot (me_environment env) (me_brazil env) db
           (ms_business m) True (ck_now ck) = Inr x \<and> \<not> exhausted x
         \<and> (us_plan x = Some ''basic'' \<longrightarrow> ms_type m \<noteq> ''template''
              \<and> (\<exists>t. latest_inbound db (ms_business m) (ms_conversation m) = Some t
                   \<and> ck_now ck - minutes (24 * 60) \<le> t)))"
  proof (cases "ms_type m = ''reaction''")
    case False
    obtain x where x: "message_usage_snapshot (me_environment env) (me_brazil env) db (ms_business m) True (ck_now ck) = Inr x"
      "\<not> exhausted x" "\<not> (us_plan x = Some ''basic''
             \<and> basic_service_window_blocked (us_plan x) (ms_type m)
                 (latest_inbound db (ms_business m) (ms_conversation m)) (ck_now ck))"
      using usage pend False opened blocked by auto
    then have "us_plan x = Some ''basic'' \<longrightarrow> ms_type m \<noteq> ''template''
        \<and> (\<exists>t. latest_inbound db (ms_business m) (ms_conversation m) = Some t \<and> ck_now ck - minutes (24 * 60) \<le> t)"
      using False by (auto simp: basic_service_window_blocked_def not_less split: if_splits option.splits)
    then show ?thesis using x by blast
  qed simp
  have calls: "\<forall>o' \<in> set calls. recipient_of o' = cu_whatsapp_id u"
    using deliver_recipient s(4) m(6) by metis
  show ?thesis using m(1-3) pend access ign auto quota calls by blast
qed

theorem send_guarded_witness:
  "\<not> exclusion_exists sample_messaging 10 [''5511987654321'', ''11987654321''] True
   \<and> (\<exists>db'. process_outbound_message (sql_outbound sample_env sample_clocks) (answering (Accepted ''wamid.1'')) 41
        sample_messaging = (Inr ResultSent, db', [SendText ''5511987654321'' (Some ''Bom dia!'')]))"
proof -
  obtain m r u n ids where m: "outbound_at sample_messaging 41 = [m]" "message_scope sample_messaging m = [(r, u, n)]"
    "whatsapp_id_lookup_aliases (cu_whatsapp_id u) = Inr ids" "\<not> exclusion_exists sample_messaging (ms_business m) ids True"
    using send_guarded [OF sample_process] by auto
  have "m = sample_message\<lparr>ms_id := 41, ms_key := Some ''manual:outbound:1''\<rparr>"
    using m(1) by (simp add: outbound_at_def sample_messaging_def sample_message_def)
  moreover have "u = sample_customer"
    using m(2) by (auto simp: message_scope_def calculation conversations_at_def conversation_at_def sample_messaging_def
        sample_message_def sample_conversation_def sample_customer_def sample_tenant_def)
  ultimately have "\<not> exclusion_exists sample_messaging 10 [''5511987654321'', ''11987654321''] True"
    using m(3,4) sample_aliases(1) by (simp add: sample_customer_def sample_message_def)
  then show ?thesis using sample_process by blast
qed

text \<open>
  C15. A message is sent once: after a task that sent its message, failed it or skipped it, any
  later task for the same message makes no request and changes nothing, until some other
  operation puts the message back.
\<close>

theorem settled_once:
  assumes "keys_ok db" and "process_outbound_message (sql_outbound env ck) resolver i db = (Inr res, db', calls)"
    and "res = ResultSent \<or> res = ResultFailed"
  shows "\<exists>again. process_outbound_message (sql_outbound env2 ck2) resolver2 i db' = (again, db', [])
    \<and> (again = Inr ResultSkipped \<or> (\<exists>e. again = Inl e))"
proof -
  note settled = sql_tasks.process_settles [OF assms(1,2)]
  have st: "status_of db' i \<noteq> Some ''pending''" using settled(1) assms(3) by auto
  obtain again t c where t: "process_outbound_message (sql_outbound env2 ck2) resolver2 i db' = (again, t, c)"
    by (metis prod_cases3)
  show ?thesis
  proof (cases again)
    case (Inr r)
    then show ?thesis using sql_tasks.process_settled [OF settled(3) st] t by auto
  next
    case (Inl e)
    have "c = [] \<and> t = db'"
      using t
    proof (rule process_cases, goal_cases)
      case (3 m client)
      then show ?case using sql_tasks.lock [OF settled(3) 3(1)] st by simp
    qed (simp_all add: Inl)
    then show ?thesis using t Inl by simp
  qed
qed

theorem settled_once_witness:
  "\<exists>db'. process_outbound_message (sql_outbound sample_env sample_clocks) (answering (Accepted ''wamid.1'')) 41
      sample_messaging = (Inr ResultSent, db', [SendText ''5511987654321'' (Some ''Bom dia!'')])
   \<and> (\<exists>again. process_outbound_message (sql_outbound sample_env sample_clocks) (answering PermanentError) 41 db'
        = (again, db', []))"
  using sample_process settled_once [OF sample_keys sample_process] by blast

section \<open>The quota\<close>

lemma used_after_mark:
  assumes "keys_ok db"
  shows "used_messages (mark_sent tx db i p) b start resets \<le> used_messages db b start resets + 1"
proof -
  let ?f = "message_sent p tx"
  have "length (filter (counts b start resets) (update_where (\<lambda>m. ms_id m = i) ?f xs))
      \<le> length (filter (counts b start resets) xs) + 1" if "distinct (map ms_id xs)" for xs
    using that
  proof (induction xs)
    case (Cons x xs)
    show ?case
    proof (cases "ms_id x = i")
      case True
      then have "ms_id y \<noteq> i" if "y \<in> set xs" for y using Cons.prems that True by (auto simp: image_iff)
      then have "update_where (\<lambda>m. ms_id m = i) ?f (x # xs) = ?f x # xs"
        using True by (simp add: update_where_def map_idI)
      then show ?thesis by simp
    next
      case False
      then have "update_where (\<lambda>m. ms_id m = i) ?f (x # xs) = x # update_where (\<lambda>m. ms_id m = i) ?f xs"
        by (simp add: update_where_def)
      then show ?thesis using Cons by simp
    qed
  qed simp
  then show ?thesis using assms unfolding used_messages_def mark_sent_messages keys_ok_def by fastforce
qed

lemma used_after_other:
  assumes "\<And>m. ms_id m = i \<Longrightarrow> m \<in> set xs \<Longrightarrow> \<not> counts b start resets (f m)"
  shows "length (filter (counts b start resets) (update_where (\<lambda>m. ms_id m = i) f xs))
    \<le> length (filter (counts b start resets) xs)"
  using assms by (induction xs) (auto simp: update_where_def)

lemma not_counted:
  "\<not> counts b start resets (fail_message m)" "\<not> counts b start resets (with_attempt m)"
  by (simp_all add: counts_def counted_statuses_def)

lemma used_after_failed: "used_messages (mark_failed db i) b start resets \<le> used_messages db b start resets"
  using used_after_other [of i _ b start resets fail_message] not_counted(1)
  by (simp add: used_messages_def mark_failed_messages)

lemma used_after_retry:
  "mark_retry_pending db i = (n, db') \<Longrightarrow> used_messages db' b start resets \<le> used_messages db b start resets"
  using used_after_other [of i _ b start resets fail_message] used_after_other [of i _ b start resets with_attempt]
    not_counted
  by (auto simp: used_messages_def mark_retry_pending_def split: option.splits if_splits)

lemma counts_other_business:
  "ms_business m \<noteq> b \<Longrightarrow> ms_business (f m) = ms_business m \<Longrightarrow> counts b start resets (f m) = counts b start resets m"
  by (simp add: counts_def)

lemma used_after_reaction:
  assumes "outbound_at db i = [m]" and "keys_ok db" and "ms_type m = ''reaction'' \<or> ms_business m \<noteq> b"
  shows "used_messages (mark_sent tx db i p) b start resets \<le> used_messages db b start resets"
proof -
  have "x = m" if "x \<in> set (md_messages db)" "ms_id x = i" for x
  proof -
    have m: "m \<in> set (md_messages db)" "ms_id m = i"
      using assms(1) by (auto simp: outbound_at_def filter_eq_Cons_iff)
    then show ?thesis using that assms(2) by (simp add: keys_ok_def distinct_map inj_on_def)
  qed
  then have "\<not> counts b start resets (message_sent p tx x)" if "x \<in> set (md_messages db)" "ms_id x = i" for x
    using that assms(3) by (auto simp: counts_def message_sent_def)
  then show ?thesis
    using used_after_other [of i "md_messages db" b start resets "message_sent p tx"]
    by (simp add: used_messages_def mark_sent_messages)
qed

text \<open>
  C16. The quota holds at every task: whoever's message it is, a task leaves the messages a business
  has used in the current month at most at the limit of its plan, or where they were.
\<close>

theorem quota_respected:
  assumes "keys_ok db" and "process_outbound_message (sql_outbound env ck) resolver i db = (res, db', calls)"
    and "monthly_window (me_brazil env) (ck_now ck) = Inr (start, resets)"
    and "\<not> admin_full_access_exists db b"
    and "current_subscription db b (billing_provider_environment (me_environment env)) (ck_now ck) = Some sub"
    and "monthly_message_limit (sb_plan sub) = Inr l"
  shows "used_messages db' b start resets \<le> max (used_messages db b start resets) l"
  using assms(2)
proof (rule process_cases, goal_cases)
  case (2 m)
  then show ?case using used_after_failed [of db "so_message m" b start resets] by (simp add: sql_outbound_def)
next
  case (3 s client)
  then obtain a where fin: "finish_delivery (sql_outbound env ck) (so_message s) db a = (res, db')" by blast
  have lk: "lock_message env ck db i = Inr (Some s)" using 3(1) by (simp add: sql_outbound_def)
  obtain m r u n ids where m: "outbound_at db i = [m]" "message_scope db m = [(r, u, n)]"
    "whatsapp_id_lookup_aliases (cu_whatsapp_id u) = Inr ids" "so_message s = i" "so_status s = ms_status m"
    "so_recipient s = cu_whatsapp_id u" "so_type s = ms_type m" "so_business s = ms_business m"
    "so_automation_blocked s = message_blocked env ck db m r u n ids"
    and usage: "ms_status m = ''pending'' \<and> \<not> so_automation_blocked s \<and> ms_type m \<noteq> ''reaction'' \<longrightarrow>
      (\<exists>x. message_usage_snapshot (me_environment env) (me_brazil env) db (ms_business m) True (ck_now ck) = Inr x
        \<and> so_quota_blocked s = exhausted x
        \<and> so_window_blocked s = (us_plan x = Some ''basic''
             \<and> basic_service_window_blocked (us_plan x) (ms_type m)
                 (latest_inbound db (ms_business m) (ms_conversation m)) (ck_now ck)))"
    using lk by (rule lock_messageD)
  have sent: "used_messages (mark_sent tx db i p) b start resets \<le> max (used_messages db b start resets) l" for tx p
  proof (cases "ms_type m = ''reaction'' \<or> ms_business m \<noteq> b")
    case True
    then show ?thesis using used_after_reaction [OF m(1) assms(1)] by (simp add: max.coboundedI1)
  next
    case False
    obtain x where x: "message_usage_snapshot (me_environment env) (me_brazil env) db b True (ck_now ck) = Inr x"
      "\<not> exhausted x"
      using usage 3(2,3) m(5,9) False by (auto simp: refused_def)
    then have "used_messages db b start resets < l"
      using assms(3-6)
      by (auto simp: message_usage_snapshot_def admin_full_access_exists_def exhausted_def split: if_splits)
    then show ?thesis using used_after_mark [OF assms(1), of tx i p b start resets] by simp
  qed
  show ?case
  proof (cases a)
    case PermanentError
    obtain k t where k: "mark_retry_pending db i = (k, t)" by (cases "mark_retry_pending db i")
    then have "db' = t" using fin PermanentError m(4) by (simp add: finish_delivery_def sql_outbound_def)
    then show ?thesis using used_after_retry [OF k, of b start resets] by simp
  next
    case ValidationError
    then have "db' = mark_failed db i" using fin m(4) by (simp add: finish_delivery_def sql_outbound_def)
    then show ?thesis using used_after_failed [of db i b start resets] by simp
  qed (use fin sent m(4) in \<open>auto simp: finish_delivery_def sql_outbound_def\<close>)
qed simp

definition sample_subscription :: subscription where
  "sample_subscription = \<lparr>sb_id = 60, sb_business = 10, sb_plan = ''basic'', sb_environment = ''production'',
     sb_status = ''active'', sb_access_until = combine 740000 0, sb_created = 0\<rparr>"

definition subscribed_messaging :: messaging_db where
  "subscribed_messaging = sample_messaging\<lparr>md_subscriptions := [sample_subscription],
     md_messages := [sample_message\<lparr>ms_id := 41, ms_key := Some ''manual:outbound:1''\<rparr>,
       sample_message\<lparr>ms_id := 42, ms_direction := ''inbound'', ms_created := combine 738915 1\<rparr>]\<rparr>"

lemma subscribed_process:
  "process_outbound_message (sql_outbound sample_env sample_clocks) (answering (Accepted ''wamid.1'')) 41 subscribed_messaging
   = (Inr ResultSent, mark_sent (ck_tx sample_clocks) subscribed_messaging 41 ''wamid.1'',
      [SendText ''5511987654321'' (Some ''Bom dia!'')])"
  by code_simp

theorem quota_respected_witness:
  "\<exists>db'. process_outbound_message (sql_outbound sample_env sample_clocks) (answering (Accepted ''wamid.1'')) 41
      subscribed_messaging = (Inr ResultSent, db', [SendText ''5511987654321'' (Some ''Bom dia!'')])
     \<and> used_messages db' 10 (combine 738886 0 + minutes 180) (combine 738917 0 + minutes 180) \<le> 600"
proof -
  have "monthly_window (me_brazil sample_env) (ck_now sample_clocks)
      = Inr (combine 738886 0 + minutes 180, combine 738917 0 + minutes 180)"
    "\<not> admin_full_access_exists subscribed_messaging 10"
    "current_subscription subscribed_messaging 10 (billing_provider_environment (me_environment sample_env))
       (ck_now sample_clocks) = Some sample_subscription"
    "monthly_message_limit (sb_plan sample_subscription) = Inr 600"
    "used_messages subscribed_messaging 10 (combine 738886 0 + minutes 180) (combine 738917 0 + minutes 180) = 0"
    "keys_ok subscribed_messaging"
    by (code_simp, code_simp, code_simp, code_simp, code_simp, simp add: keys_ok_def subscribed_messaging_def sample_rows)
  then show "\<exists>db'. process_outbound_message (sql_outbound sample_env sample_clocks) (answering (Accepted ''wamid.1'')) 41
      subscribed_messaging = (Inr ResultSent, db', [SendText ''5511987654321'' (Some ''Bom dia!'')])
     \<and> used_messages db' 10 (combine 738886 0 + minutes 180) (combine 738917 0 + minutes 180) \<le> 600"
    using quota_respected [OF _ subscribed_process] subscribed_process by fastforce
qed

section \<open>Retries\<close>

text \<open>
  Runs of the queue: tasks with whatever clocks, environments and answers, reports of the
  provider with whatever status, and the cancellations. The count is how often message \<open>i\<close> was
  put back into the queue.
\<close>

definition requeued_by_report :: "messaging_db \<Rightarrow> string \<Rightarrow> string \<Rightarrow> uuid \<Rightarrow> bool" where
  "requeued_by_report db pid st i \<longleftrightarrow>
     (\<exists>m. outbound_at db i = [m] \<and> ms_provider_id m = Some pid \<and> reported st m = with_attempt m)"

inductive queue_run :: "uuid \<Rightarrow> messaging_db \<Rightarrow> nat \<Rightarrow> messaging_db \<Rightarrow> bool" for i where
  start: "queue_run i db 0 db"
| task: "queue_run i db k s \<Longrightarrow>
    process_outbound_message (sql_outbound env ck) resolver j s = (res, s', calls) \<Longrightarrow>
    queue_run i db (if j = i \<and> res = Inr ResultRetry then Suc k else k) s'"
| report: "queue_run i db k s \<Longrightarrow>
    queue_run i db (if requeued_by_report s pid st i then Suc k else k) (report_status s pid st)"
| cancel: "queue_run i db k s \<Longrightarrow> queue_run i db k (cancel_pending_outbounds s b c)"

lemma reported_sel [simp]: "ms_id (reported st m) = ms_id m" "ms_direction (reported st m) = ms_direction m"
  by (simp_all add: reported_def)

lemma reported_cases:
  "reported st m = with_attempt m \<and> current_retry_attempt (ms_payload m) < max_retries
   \<or> reported st m \<noteq> with_attempt m \<and> ms_payload (reported st m) = ms_payload m"
proof (cases "st = ''failed'' \<and> ms_status m \<noteq> ''delivered'' \<and> ms_status m \<noteq> ''read'' \<and> ms_direction m = ''outbound''
    \<and> ms_type m \<in> set retryable_types \<and> current_retry_attempt (ms_payload m) < max_retries")
  case True
  then show ?thesis by (simp add: reported_def)
next
  case False
  then have same: "ms_payload (reported st m) = ms_payload m" by (auto simp: reported_def)
  have "current_retry_attempt (ms_payload (with_attempt m)) \<noteq> current_retry_attempt (ms_payload m)" by simp
  then have "reported st m \<noteq> with_attempt m" using same by metis
  then show ?thesis using same by simp
qed

lemma report_attempts:
  assumes "keys_ok db"
  shows "attempts_of (report_status db pid st) i
    = attempts_of db i + (if requeued_by_report db pid st i then 1 else 0)"
    and "requeued_by_report db pid st i \<Longrightarrow> attempts_of db i < max_retries"
    and "keys_ok (report_status db pid st)"
proof -
  have at: "outbound_at (report_status db pid st) i
      = update_where (\<lambda>m. ms_provider_id m = Some pid) (reported st) (outbound_at db i)"
    unfolding report_status_def by (rule outbound_at_update) simp
  show "attempts_of (report_status db pid st) i
    = attempts_of db i + (if requeued_by_report db pid st i then 1 else 0)"
  proof (cases "\<exists>m. outbound_at db i = [m]")
    case True
    then obtain m where m: "outbound_at db i = [m]" by blast
    then show ?thesis using reported_cases [of st m] at
      by (auto simp: attempts_of_def requeued_by_report_def)
  next
    case False
    then show ?thesis using outbound_at_single [OF assms, of i] at
      by (auto simp: attempts_of_def requeued_by_report_def)
  qed
  show "requeued_by_report db pid st i \<Longrightarrow> attempts_of db i < max_retries"
    using reported_cases [of st] by (fastforce simp: attempts_of_def requeued_by_report_def)
  show "keys_ok (report_status db pid st)" using assms by (simp add: report_status_def)
qed

lemma cancel_attempts: "attempts_of (cancel_pending_outbounds db b c) i = attempts_of db i"
proof -
  have "outbound_at (cancel_pending_outbounds db b c) i = update_where
      (\<lambda>m. ms_business m = b \<and> ms_conversation m = c \<and> pending_automatic m) fail_message (outbound_at db i)"
    unfolding cancel_pending_outbounds_def by (rule outbound_at_update) simp
  then show ?thesis by (cases "outbound_at db i") (auto simp: attempts_of_def update_where_def)
qed

lemma process_attempts:
  assumes "keys_ok s" and "process_outbound_message (sql_outbound env ck) resolver j s = (res, s', calls)"
  shows "attempts_of s' i = attempts_of s i + (if j = i \<and> res = Inr ResultRetry then 1 else 0)"
    and "j = i \<Longrightarrow> res = Inr ResultRetry \<Longrightarrow> attempts_of s i < max_retries" and "keys_ok s'"
proof -
  note settles = sql_tasks.process_settles [OF assms]
  show "keys_ok s'" by (rule settles(3))
  show "attempts_of s' i = attempts_of s i + (if j = i \<and> res = Inr ResultRetry then 1 else 0)"
    using settles(1) settles(2) [of i] by (cases "j = i") (auto split: sum.splits outbound_result.splits)
  show "j = i \<Longrightarrow> res = Inr ResultRetry \<Longrightarrow> attempts_of s i < max_retries" using settles(1) by auto
qed

text \<open>
  C17. Retries are bounded: in any run of the queue, with permanent failures, failure reports, late
  or repeated reports and cancellations in whatever order, a message is put back into the queue
  at most three times, and the attempts stored with it are those it had plus the returns.
\<close>

theorem retries_bounded:
  assumes "queue_run i db k s" and "keys_ok db"
  shows "k \<le> 3 \<and> attempts_of s i = attempts_of db i + int k"
proof -
  have "keys_ok s \<and> attempts_of s i = attempts_of db i + int k \<and> (0 < k \<longrightarrow> attempts_of s i \<le> max_retries)"
    using assms
  proof (induction rule: queue_run.induct)
    case (task db k s env ck resolver j res s' calls)
    then have ok: "keys_ok s" by blast
    show ?case
      using task process_attempts(1,2) [OF ok task.hyps(2), of i] process_attempts(3) [OF ok task.hyps(2)] by auto
  next
    case (report db k s pid st)
    then have ok: "keys_ok s" by blast
    show ?case using report report_attempts(1,2) [OF ok, of pid st i] report_attempts(3) [OF ok] by auto
  next
    case (cancel db k s b c)
    then show ?case using cancel_attempts [of s b c i] by auto
  qed simp
  moreover have "0 \<le> attempts_of db i" by (simp add: attempts_of_def split: option.split)
  ultimately show ?thesis by (cases "k = 0") (auto simp: max_retries_def)
qed

text \<open>A message whose provider keeps refusing it: three returns, then it fails.\<close>

definition refused_times :: "int \<Rightarrow> messaging_db" where
  "refused_times n = sample_messaging\<lparr>md_messages := [sample_message,
     sample_message\<lparr>ms_id := 41, ms_key := Some ''manual:outbound:1'', ms_payload := Some [(retry_key, PInt n)]\<rparr>]\<rparr>"

definition refuse_once :: "messaging_db \<Rightarrow> (messaging_error + outbound_result) \<times> messaging_db \<times> outgoing list" where
  "refuse_once db = process_outbound_message (sql_outbound sample_env sample_clocks) (answering PermanentError) 41 db"

lemma refusals:
  "refuse_once sample_messaging = (Inr ResultRetry, refused_times 1, [SendText ''5511987654321'' (Some ''Bom dia!'')])"
  "refuse_once (refused_times 1) = (Inr ResultRetry, refused_times 2, [SendText ''5511987654321'' (Some ''Bom dia!'')])"
  "refuse_once (refused_times 2) = (Inr ResultRetry, refused_times 3, [SendText ''5511987654321'' (Some ''Bom dia!'')])"
  "fst (refuse_once (refused_times 3)) = Inr ResultFailed"
  by code_simp+

lemma refusals_run: "queue_run 41 sample_messaging 3 (refused_times 3)"
proof -
  have "queue_run 41 sample_messaging 1 (refused_times 1)"
    using queue_run.task [OF queue_run.start refusals(1) [unfolded refuse_once_def], of 41] by simp
  then have "queue_run 41 sample_messaging 2 (refused_times 2)"
    using queue_run.task [OF _ refusals(2) [unfolded refuse_once_def], of 41] by (fastforce simp: numeral_2_eq_2)
  then show ?thesis
    using queue_run.task [OF _ refusals(3) [unfolded refuse_once_def], of 41]
    by (fastforce simp: numeral_3_eq_3 numeral_2_eq_2)
qed

theorem retries_bounded_witness:
  "queue_run 41 sample_messaging 3 (refused_times 3) \<and> attempts_of (refused_times 3) 41 = 3
   \<and> fst (refuse_once (refused_times 3)) = Inr ResultFailed"
proof -
  have "attempts_of sample_messaging 41 = 0" by code_simp
  then show ?thesis using refusals_run retries_bounded [OF refusals_run sample_keys] refusals(4) by simp
qed

section \<open>Sequences\<close>

lemma sequence_in_order_parts:
  assumes "enqueue_next_sequence env db i = Inr (Some j, queued)"
  shows "queued = [j]"
    and "\<exists>m x grp index count. outbound_at db i = [m] \<and> x \<in> set (md_messages db) \<and> ms_id x = j
      \<and> ms_status x = ''pending'' \<and> ms_direction x = ''outbound''
      \<and> ms_business x = ms_business m \<and> ms_conversation x = ms_conversation m
      \<and> sequence_place (ms_payload m) = Some (grp, index, count) \<and> index + 1 < count
      \<and> payload_text (me_json env) (ms_payload x) ''_alovia_sequence_group'' = Some grp
      \<and> payload_text (me_json env) (ms_payload x) ''_alovia_sequence_index'' = Some (str_of_int (index + 1))
      \<and> (was_delivered m \<or> ms_status m = ''failed''
          \<and> (payload_get (ms_payload m) ''_alovia_optional'' = Some (PBool True)
             \<or> payload_get (ms_payload m) ''_alovia_sequence_optional'' = Some (PBool True)))"
proof -
  have n: "next_sequence_message_id env db i = Inr (Some j)" and "queued = [j]"
    using assms by (auto simp: enqueue_next_sequence_def split: sum.splits option.splits)
  then show "queued = [j]" by blast
  obtain m where m: "outbound_at db i = [m]"
    using n by (auto simp: next_sequence_message_id_def one_or_none_def split: list.splits)
  obtain grp index count where place: "sequence_place (ms_payload m) = Some (grp, index, count)"
    and delivered: "was_delivered m \<or> ms_status m = ''failed''
          \<and> (payload_get (ms_payload m) ''_alovia_optional'' = Some (PBool True)
             \<or> payload_get (ms_payload m) ''_alovia_sequence_optional'' = Some (PBool True))"
    and f: "first (map ms_id (filter (\<lambda>x. ms_business x = ms_business m
                   \<and> ms_conversation x = ms_conversation m \<and> ms_direction x = ''outbound''
                   \<and> ms_status x = ''pending''
                   \<and> payload_text (me_json env) (ms_payload x) ''_alovia_sequence_group'' = Some grp
                   \<and> payload_text (me_json env) (ms_payload x) ''_alovia_sequence_index'' = Some (str_of_int (index + 1)))
                 (md_messages db))) = Some j"
    using n by (auto simp: next_sequence_message_id_def m one_or_none_def split: if_splits option.splits)
  have "index + 1 < count"
    using place by (auto simp: sequence_place_def split: option.splits if_splits)
  then show "\<exists>m x grp index count. outbound_at db i = [m] \<and> x \<in> set (md_messages db) \<and> ms_id x = j
      \<and> ms_status x = ''pending'' \<and> ms_direction x = ''outbound''
      \<and> ms_business x = ms_business m \<and> ms_conversation x = ms_conversation m
      \<and> sequence_place (ms_payload m) = Some (grp, index, count) \<and> index + 1 < count
      \<and> payload_text (me_json env) (ms_payload x) ''_alovia_sequence_group'' = Some grp
      \<and> payload_text (me_json env) (ms_payload x) ''_alovia_sequence_index'' = Some (str_of_int (index + 1))
      \<and> (was_delivered m \<or> ms_status m = ''failed''
          \<and> (payload_get (ms_payload m) ''_alovia_optional'' = Some (PBool True)
             \<or> payload_get (ms_payload m) ''_alovia_sequence_optional'' = Some (PBool True)))"
    using m place delivered first_Some [OF f] by auto
qed

text \<open>
  C18. The pieces of a sequence follow each other: the message enqueued after another is pending in
  the same conversation, belongs to the same group and has the next index, and the one before was
  delivered or was an optional one that failed; nothing follows a message that is still pending.
\<close>

theorem sequence_in_order:
  assumes "enqueue_next_sequence env db i = Inr (Some j, queued)"
  shows "queued = [j]
    \<and> (\<exists>m x grp index count. outbound_at db i = [m] \<and> x \<in> set (md_messages db) \<and> ms_id x = j
      \<and> ms_status x = ''pending'' \<and> ms_direction x = ''outbound''
      \<and> ms_business x = ms_business m \<and> ms_conversation x = ms_conversation m
      \<and> sequence_place (ms_payload m) = Some (grp, index, count) \<and> index + 1 < count
      \<and> payload_text (me_json env) (ms_payload x) ''_alovia_sequence_group'' = Some grp
      \<and> payload_text (me_json env) (ms_payload x) ''_alovia_sequence_index'' = Some (str_of_int (index + 1))
      \<and> (was_delivered m \<or> ms_status m = ''failed''
          \<and> (payload_get (ms_payload m) ''_alovia_optional'' = Some (PBool True)
             \<or> payload_get (ms_payload m) ''_alovia_sequence_optional'' = Some (PBool True))))"
  using sequence_in_order_parts [OF assms] by blast

definition in_sequence :: "int \<Rightarrow> pydict" where
  "in_sequence k = [(''_alovia_sequence_group'', PStr ''g''), (''_alovia_sequence_index'', PInt k),
     (''_alovia_sequence_count'', PInt 2)]"

definition sequence_messaging :: messaging_db where
  "sequence_messaging = sample_messaging\<lparr>md_messages :=
     [sample_message\<lparr>ms_status := ''sent'', ms_payload := Some (in_sequence 0)\<rparr>,
      sample_message\<lparr>ms_id := 41, ms_key := None, ms_payload := Some (in_sequence 1)\<rparr>]\<rparr>"

lemma sample_sequence: "enqueue_next_sequence sample_env sequence_messaging 40 = Inr (Some 41, [41])"
  by code_simp

theorem sequence_in_order_witness:
  "enqueue_next_sequence sample_env sequence_messaging 40 = Inr (Some 41, [41])
   \<and> (\<exists>m. outbound_at sequence_messaging 40 = [m] \<and> (was_delivered m \<or> ms_status m = ''failed''
          \<and> (payload_get (ms_payload m) ''_alovia_optional'' = Some (PBool True)
             \<or> payload_get (ms_payload m) ''_alovia_sequence_optional'' = Some (PBool True))))"
  using sequence_in_order [OF sample_sequence] sample_sequence by blast

section \<open>A recipient that is no individual\<close>

text \<open>
  The guard against collective recipients is never reached: with the SQL repository, a pending
  message to an identifier that is not one individual makes the lookup of the aliases fail before
  the guard, so the task raises and rolls back, for every answer of the provider and every time,
  instead of marking the message as failed.
\<close>

theorem collective_recipient_stuck:
  "process_outbound_message (sql_outbound env ck) resolver 41
     (sample_messaging\<lparr>md_customers := [sample_customer\<lparr>cu_whatsapp_id := ''120363@g.us''\<rparr>]\<rparr>)
   = (Inl (InvalidValue ''WhatsApp identifier must represent one individual''),
      sample_messaging\<lparr>md_customers := [sample_customer\<lparr>cu_whatsapp_id := ''120363@g.us''\<rparr>]\<rparr>, [])
   \<and> \<not> is_individual_whatsapp_id ''120363@g.us''"
proof -
  let ?db = "sample_messaging\<lparr>md_customers := [sample_customer\<lparr>cu_whatsapp_id := ''120363@g.us''\<rparr>]\<rparr>"
  let ?m = "sample_message\<lparr>ms_id := 41, ms_key := Some ''manual:outbound:1''\<rparr>"
  have al: "whatsapp_id_lookup_aliases ''120363@g.us''
      = Inl (InvalidValue ''WhatsApp identifier must represent one individual'')" by code_simp
  have m: "outbound_at ?db 41 = [?m]" by (simp add: outbound_at_def sample_messaging_def sample_message_def)
  have scope: "message_scope ?db ?m = [(sample_conversation, sample_customer\<lparr>cu_whatsapp_id := ''120363@g.us''\<rparr>, sample_tenant)]"
    and cv: "conversations_at ?db (ms_business ?m) (ms_conversation ?m) = [sample_conversation]"
    by (simp_all add: message_scope_def conversations_at_def conversation_at_def sample_rows)
  have "lock_message env ck ?db 41 = Inl (InvalidValue ''WhatsApp identifier must represent one individual'')"
    using cv by (simp add: lock_message_def m one_or_none_def scope al)
  moreover have "\<not> is_individual_whatsapp_id ''120363@g.us''" by code_simp
  ultimately show ?thesis by (simp add: process_outbound_message_def sql_outbound_def)
qed

end
