(* ===== verification/WebhookPayload.thy ===== *)
theory WebhookPayload
  imports OutboundWorker Sha256
begin

text \<open>
  The payloads Meta posts to the webhook (\<open>app/whatsapp/webhook.py\<close>): the signature of the body,
  and the normalisation of the JSON document into events, which drops whatever is malformed and
  whatever belongs to a group, a channel or a broadcast.
\<close>

section \<open>Events\<close>

record inbound_message =
  im_key :: string
  im_event_type :: string
  im_phone_id :: string
  im_provider_id :: string
  im_whatsapp_id :: string
  im_type :: string
  im_body :: "string option"
  im_interactive_id :: "string option"
  im_media_id :: "string option"
  im_media_mime :: "string option"
  im_media_filename :: "string option"
  im_media_sha256 :: "string option"
  im_profile_name :: "string option"
  im_occurred_at :: "instant option"

record status_event =
  st_key :: string
  st_event_type :: string
  st_phone_id :: string
  st_provider_id :: string
  st_status :: string
  st_failure_code :: "string option"

record echo_event =
  ec_key :: string
  ec_event_type :: string
  ec_phone_id :: string
  ec_provider_id :: string
  ec_whatsapp_id :: string
  ec_type :: string
  ec_occurred_at :: instant

datatype webhook_event = Inbound inbound_message | Status status_event | Echo echo_event

fun event_key :: "webhook_event \<Rightarrow> string" where
  "event_key (Inbound e) = im_key e"
| "event_key (Status e) = st_key e"
| "event_key (Echo e) = ec_key e"

fun event_type :: "webhook_event \<Rightarrow> string" where
  "event_type (Inbound e) = im_event_type e"
| "event_type (Status e) = st_event_type e"
| "event_type (Echo e) = ec_event_type e"

fun event_phone_id :: "webhook_event \<Rightarrow> string" where
  "event_phone_id (Inbound e) = im_phone_id e"
| "event_phone_id (Status e) = st_phone_id e"
| "event_phone_id (Echo e) = ec_phone_id e"

fun event_provider_id :: "webhook_event \<Rightarrow> string" where
  "event_provider_id (Inbound e) = im_provider_id e"
| "event_provider_id (Status e) = st_provider_id e"
| "event_provider_id (Echo e) = ec_provider_id e"

section \<open>The signature\<close>

text \<open>
  The header is compared as ASCII bytes, so one that holds another character is refused before
  the comparison.
\<close>

definition is_ascii :: "string \<Rightarrow> bool" where
  "is_ascii s \<longleftrightarrow> list_all (\<lambda>c. code_point c < 128) s"

definition verify_meta_signature :: "nat list \<Rightarrow> string option \<Rightarrow> string \<Rightarrow> bool" where
  "verify_meta_signature body signature secret =
     (let given = (case signature of None \<Rightarrow> [] | Some s \<Rightarrow> s)
      in if is_ascii given then given = ''sha256='' @ hex_bytes (hmac_sha256 (utf8 secret) body) else False)"

definition build_event_key :: "string \<Rightarrow> string list \<Rightarrow> string" where
  "build_event_key kind parts = ''whatsapp:'' @ kind @ '':'' @ sha256_hex (join [CHR 0x1F] parts)"

section \<open>Fields\<close>

text \<open>\<open>d.get(k)\<close>, which answers \<open>None\<close> for a missing key.\<close>

definition dget :: "pydict \<Rightarrow> string \<Rightarrow> pyval" where
  "dget d k = (case dict_get d k of None \<Rightarrow> PNone | Some v \<Rightarrow> v)"

definition identifier_of :: "pyval \<Rightarrow> nat \<Rightarrow> string option" where
  "identifier_of v n =
     (case v of
        PStr s \<Rightarrow> (let t = strip s in if t = [] \<or> n < length t then None else Some t)
      | _ \<Rightarrow> None)"

definition unix_epoch :: int where
  "unix_epoch = 719163 * day_us"

text \<open>Python's dates end with the year 9999, and its \<open>int\<close> refuses more than 4300 digits.\<close>

definition unix_timestamp :: "pyval \<Rightarrow> instant option" where
  "unix_timestamp v =
     (case v of
        PStr s \<Rightarrow>
          if s = [] \<or> \<not> list_all is_digit s \<or> 4300 < length s \<or> 253402300799 < parse_digits s then None
          else Some (unix_epoch + parse_digits s * 1000000)
      | _ \<Rightarrow> None)"

definition meta_phone_number_id :: "pydict \<Rightarrow> string option" where
  "meta_phone_number_id v =
     (case dget v ''metadata'' of PDict m \<Rightarrow> identifier_of (dget m ''phone_number_id'') 255 | _ \<Rightarrow> None)"

text \<open>The last usable name of a contact wins.\<close>

definition profile_name :: "pyval \<Rightarrow> (string \<times> string) list" where
  "profile_name c =
     (case c of
        PDict d \<Rightarrow>
          (case (identifier_of (dget d ''wa_id'') 255, dget d ''profile'') of
             (Some w, PDict p) \<Rightarrow>
               (case dget p ''name'' of
                  PStr s \<Rightarrow> (let n = join '' '' (split_ws s) in if n \<noteq> [] \<and> length n \<le> 255 then [(w, n)] else [])
                | _ \<Rightarrow> [])
           | _ \<Rightarrow> [])
      | _ \<Rightarrow> [])"

definition profile_names :: "pydict \<Rightarrow> string \<Rightarrow> string option" where
  "profile_names v =
     (case dget v ''contacts'' of PList cs \<Rightarrow> map_of (rev (concat (map profile_name cs))) | _ \<Rightarrow> (\<lambda>_. None))"

section \<open>Groups, channels and broadcasts\<close>

definition collective_keys :: "string list" where
  "collective_keys = [''broadcast_id'', ''channel_id'', ''community_id'', ''group_id'', ''newsletter_id'']"

definition kind_keys :: "string list" where
  "kind_keys = [''chat_type'', ''conversation_type'', ''recipient_type'', ''source_type'']"

definition individual_kinds :: "string list" where
  "individual_kinds = [''1:1'', ''individual'', ''one_to_one'', ''personal'', ''person'', ''user'']"

text \<open>\<open>v in (None, "", False)\<close> compares with \<open>==\<close>, by which zero is \<open>False\<close>.\<close>

fun blank_indicator :: "pyval \<Rightarrow> bool" where
  "blank_indicator PNone = True"
| "blank_indicator (PStr s) = (s = [])"
| "blank_indicator (PBool b) = (\<not> b)"
| "blank_indicator (PInt n) = (n = 0)"
| "blank_indicator (PFloat s) = (s = ''0.0'' \<or> s = ''-0.0'')"
| "blank_indicator _ = False"

definition individual_kind :: "pyval \<Rightarrow> bool" where
  "individual_kind v = (case v of PStr s \<Rightarrow> casefold (strip s) \<in> set individual_kinds | _ \<Rightarrow> False)"

function has_collective_indicator :: "pydict \<Rightarrow> bool" where
  "has_collective_indicator [] = False"
| "has_collective_indicator ((k, v) # d) =
     ((casefold k \<in> set collective_keys \<and> \<not> blank_indicator v)
      \<or> (casefold k \<in> set kind_keys \<and> \<not> individual_kind v)
      \<or> ((casefold k = ''context'' \<or> casefold k = ''metadata'')
           \<and> (case v of PDict e \<Rightarrow> has_collective_indicator e | _ \<Rightarrow> False))
      \<or> has_collective_indicator d)"
  by pat_completeness auto
termination
  by (relation "measure (size_list (size_prod (\<lambda>_. 0) size))") auto

definition is_individual_message :: "pydict \<Rightarrow> pydict \<Rightarrow> string \<Rightarrow> bool" where
  "is_individual_message v raw w \<longleftrightarrow>
     is_individual_whatsapp_id w \<and> \<not> has_collective_indicator v \<and> \<not> has_collective_indicator raw"

section \<open>Messages\<close>

definition message_content :: "pydict \<Rightarrow> string \<Rightarrow> string option \<times> string option" where
  "message_content raw t =
     (if t = ''text'' then
        (case dget raw ''text'' of PDict c \<Rightarrow> (py_str (dget c ''body''), None) | _ \<Rightarrow> (None, None))
      else if t = ''interactive'' then
        (case dget raw ''interactive'' of
           PDict i \<Rightarrow>
             (case identifier_of (dget i ''type'') 64 of
                None \<Rightarrow> (None, None)
              | Some r \<Rightarrow>
                  (case dget i r of
                     PDict reply \<Rightarrow> (py_str (dget reply ''title''), identifier_of (dget reply ''id'') 255)
                   | _ \<Rightarrow> (None, None)))
         | _ \<Rightarrow> (None, None))
      else (case dget raw t of PDict c \<Rightarrow> (py_str (dget c ''caption''), None) | _ \<Rightarrow> (None, None)))"

definition media_types :: "string list" where
  "media_types = [''image'', ''audio'', ''video'', ''document'', ''sticker'']"

definition media_field :: "pydict \<Rightarrow> string \<Rightarrow> string \<Rightarrow> nat \<Rightarrow> string option" where
  "media_field raw t k n =
     (if t \<in> set media_types then (case dget raw t of PDict m \<Rightarrow> identifier_of (dget m k) n | _ \<Rightarrow> None)
      else None)"

definition normalize_message :: "pydict \<Rightarrow> string \<Rightarrow> pyval \<Rightarrow> webhook_event list" where
  "normalize_message value phone raw_message =
     (case raw_message of
        PDict raw \<Rightarrow>
          (case (identifier_of (dget raw ''id'') 255, identifier_of (dget raw ''from'') 255, identifier_of (dget raw ''type'') 40) of
             (Some pid, Some w, Some t) \<Rightarrow>
               if \<not> is_individual_message value raw w then []
               else [Inbound \<lparr>im_key = build_event_key ''inbound'' [pid],
                    im_event_type = ''message.inbound.'' @ t, im_phone_id = phone, im_provider_id = pid,
                    im_whatsapp_id = w, im_type = t, im_body = fst (message_content raw t),
                    im_interactive_id = snd (message_content raw t),
                    im_media_id = media_field raw t ''id'' 255,
                    im_media_mime = media_field raw t ''mime_type'' 128,
                    im_media_filename = media_field raw t ''filename'' 255,
                    im_media_sha256 = media_field raw t ''sha256'' 128,
                    im_profile_name = profile_names value w,
                    im_occurred_at = unix_timestamp (dget raw ''timestamp'')\<rparr>]
           | _ \<Rightarrow> [])
      | _ \<Rightarrow> [])"

definition normalize_messages :: "pydict \<Rightarrow> string \<Rightarrow> webhook_event list" where
  "normalize_messages value phone =
     (case dget value ''messages'' of PList ms \<Rightarrow> concat (map (normalize_message value phone) ms) | _ \<Rightarrow> [])"

section \<open>Statuses\<close>

definition supported_statuses :: "string list" where
  "supported_statuses = [''sent'', ''delivered'', ''read'', ''failed'']"

text \<open>\<open>str\<close> of a boolean is its name: \<open>isinstance (True, int)\<close> holds.\<close>

definition failure_code :: "pydict \<Rightarrow> string option" where
  "failure_code raw =
     (case dget raw ''errors'' of
        PList (PDict e # _) \<Rightarrow>
          (case dget e ''code'' of
             PInt n \<Rightarrow> Some (str_of_int n)
           | PBool b \<Rightarrow> Some (if b then ''True'' else ''False'')
           | PStr s \<Rightarrow> (let t = strip s in if t \<noteq> [] \<and> length t \<le> 64 \<and> is_ascii t then Some t else None)
           | _ \<Rightarrow> None)
      | _ \<Rightarrow> None)"

definition normalize_status :: "string \<Rightarrow> pyval \<Rightarrow> webhook_event list" where
  "normalize_status phone raw_status =
     (case raw_status of
        PDict raw \<Rightarrow>
          (case (identifier_of (dget raw ''id'') 255, identifier_of (dget raw ''status'') 32) of
             (Some pid, Some s) \<Rightarrow>
               if s \<in> set supported_statuses
               then [Status \<lparr>st_key = build_event_key ''status'' [pid, s], st_event_type = ''message.status.'' @ s,
                       st_phone_id = phone, st_provider_id = pid, st_status = s,
                       st_failure_code = failure_code raw\<rparr>]
               else []
           | _ \<Rightarrow> [])
      | _ \<Rightarrow> [])"

definition normalize_statuses :: "pydict \<Rightarrow> string \<Rightarrow> webhook_event list" where
  "normalize_statuses value phone =
     (case dget value ''statuses'' of PList ss \<Rightarrow> concat (map (normalize_status phone) ss) | _ \<Rightarrow> [])"

section \<open>Echoes of what the business writes\<close>

definition normalize_echo :: "pydict \<Rightarrow> string \<Rightarrow> pyval \<Rightarrow> webhook_event list" where
  "normalize_echo value phone raw_echo =
     (case raw_echo of
        PDict raw \<Rightarrow>
          (case (identifier_of (dget raw ''id'') 255, identifier_of (dget raw ''to'') 255, identifier_of (dget raw ''type'') 40,
                 unix_timestamp (dget raw ''timestamp'')) of
             (Some pid, Some w, Some t, Some occ) \<Rightarrow>
               if is_individual_message value raw w
               then [Echo \<lparr>ec_key = build_event_key ''business_echo'' [pid],
                       ec_event_type = ''message.business_echo.'' @ t, ec_phone_id = phone, ec_provider_id = pid,
                       ec_whatsapp_id = w, ec_type = t, ec_occurred_at = occ\<rparr>]
               else []
           | _ \<Rightarrow> [])
      | _ \<Rightarrow> [])"

definition normalize_echoes :: "pydict \<Rightarrow> string \<Rightarrow> webhook_event list" where
  "normalize_echoes value phone =
     (case dget value ''message_echoes'' of PList es \<Rightarrow> concat (map (normalize_echo value phone) es) | _ \<Rightarrow> [])"

section \<open>The document\<close>

record webhook_payload =
  wp_object :: string
  wp_entry :: "pydict list"

definition normalize_change :: "pyval \<Rightarrow> webhook_event list" where
  "normalize_change change =
     (case change of
        PDict c \<Rightarrow>
          (case dget c ''value'' of
             PDict value \<Rightarrow>
               (case meta_phone_number_id value of
                  None \<Rightarrow> []
                | Some phone \<Rightarrow>
                    if dget c ''field'' = PStr ''messages''
                    then normalize_messages value phone @ normalize_statuses value phone
                    else if dget c ''field'' = PStr ''smb_message_echoes'' then normalize_echoes value phone
                    else [])
           | _ \<Rightarrow> [])
      | _ \<Rightarrow> [])"

definition normalize_webhook_payload :: "webhook_payload \<Rightarrow> webhook_event list" where
  "normalize_webhook_payload p =
     (if wp_object p \<noteq> ''whatsapp_business_account'' then []
      else concat (map (\<lambda>entry. case dget entry ''changes'' of
             PList cs \<Rightarrow> concat (map normalize_change cs) | _ \<Rightarrow> []) (wp_entry p)))"

text \<open>
  Reviews of a business account. Of the letters whose capital is written with other ones only the
  sharp s is in range, and no decision spells it.
\<close>

definition upper_char :: "char \<Rightarrow> string" where
  "upper_char c =
     (let n = code_point c
      in if (97 \<le> n \<and> n \<le> 122) \<or> (224 \<le> n \<and> n \<le> 254 \<and> n \<noteq> 247) then [char_of_nat (n - 32)]
         else if n = 223 then ''SS'' else [c])"

definition upper :: "string \<Rightarrow> string" where
  "upper s = concat (map upper_char s)"

definition review_update :: "string \<Rightarrow> pyval \<Rightarrow> (string \<times> string) list" where
  "review_update waba change =
     (case change of
        PDict c \<Rightarrow>
          if dget c ''field'' \<noteq> PStr ''account_review_update'' then []
          else (case dget c ''value'' of
             PDict v \<Rightarrow>
               (case identifier_of (dget v ''decision'') 32 of
                  None \<Rightarrow> []
                | Some d \<Rightarrow> if upper d \<in> {''APPROVED'', ''REJECTED'', ''DECLINED''} then [(waba, upper d)] else [])
           | _ \<Rightarrow> [])
      | _ \<Rightarrow> [])"

definition normalize_waba_review_updates :: "webhook_payload \<Rightarrow> (string \<times> string) list" where
  "normalize_waba_review_updates p =
     (if wp_object p \<noteq> ''whatsapp_business_account'' then []
      else concat (map (\<lambda>entry.
             case identifier_of (dget entry ''id'') 255 of
               None \<Rightarrow> []
             | Some waba \<Rightarrow>
                 (case dget entry ''changes'' of PList cs \<Rightarrow> concat (map (review_update waba) cs) | _ \<Rightarrow> []))
           (wp_entry p)))"

section \<open>What an event can hold\<close>

lemma identifier_of_Some: "identifier_of v n = Some t \<Longrightarrow> t \<noteq> [] \<and> length t \<le> n"
  by (auto simp: identifier_of_def Let_def split: pyval.splits if_splits)

lemma length_event_key: "length (build_event_key kind parts) = 74 + length kind"
  by (simp add: build_event_key_def)

definition fits :: "nat \<Rightarrow> string option \<Rightarrow> bool" where
  "fits n v \<longleftrightarrow> (case v of None \<Rightarrow> True | Some s \<Rightarrow> length s \<le> n)"

lemma fits_None [simp]: "fits n None"
  by (simp add: fits_def)

lemma identifier_of_Some_sym: "Some t = identifier_of v n \<Longrightarrow> t \<noteq> [] \<and> length t \<le> n"
  using identifier_of_Some [of v n t] by simp

lemma fits_identifier: "fits n (identifier_of v n)"
  using identifier_of_Some by (fastforce simp: fits_def split: option.splits)

lemma fits_media: "fits n (media_field raw t k n)"
  by (simp add: media_field_def fits_identifier split: pyval.split)

lemma fits_interactive: "fits 255 (snd (message_content raw t))"
  using fits_identifier [of 255] fits_None
  by (simp add: message_content_def split: pyval.split option.split)

lemma profile_name_short: "(w, n) \<in> set (profile_name c) \<Longrightarrow> length n \<le> 255"
  by (auto simp: profile_name_def Let_def split: pyval.splits option.splits prod.splits if_splits)

lemma fits_profile: "fits 255 (profile_names v w)"
  by (auto simp: profile_names_def fits_def split: pyval.splits option.splits
      dest!: map_of_SomeD profile_name_short)

text \<open>
  An event as the tables accept it: the texts fit their columns, the key is the digest of what
  identifies the event, the contact is one person, and the status is a known one.
\<close>

fun event_ok :: "webhook_event \<Rightarrow> bool" where
  "event_ok (Inbound m) \<longleftrightarrow>
     is_individual_whatsapp_id (im_whatsapp_id m) \<and> length (im_whatsapp_id m) \<le> 255
     \<and> im_key m = build_event_key ''inbound'' [im_provider_id m]
     \<and> im_event_type m = ''message.inbound.'' @ im_type m \<and> length (im_type m) \<le> 40
     \<and> fits 255 (im_interactive_id m) \<and> fits 255 (im_media_id m) \<and> fits 128 (im_media_mime m)
     \<and> fits 255 (im_media_filename m) \<and> fits 128 (im_media_sha256 m) \<and> fits 255 (im_profile_name m)"
| "event_ok (Status s) \<longleftrightarrow>
     st_status s \<in> set supported_statuses
     \<and> st_key s = build_event_key ''status'' [st_provider_id s, st_status s]
     \<and> st_event_type s = ''message.status.'' @ st_status s"
| "event_ok (Echo e) \<longleftrightarrow>
     is_individual_whatsapp_id (ec_whatsapp_id e) \<and> length (ec_whatsapp_id e) \<le> 255
     \<and> ec_key e = build_event_key ''business_echo'' [ec_provider_id e]
     \<and> ec_event_type e = ''message.business_echo.'' @ ec_type e \<and> length (ec_type e) \<le> 40"

definition columns_ok :: "webhook_event \<Rightarrow> bool" where
  "columns_ok e \<longleftrightarrow> event_provider_id e \<noteq> [] \<and> length (event_provider_id e) \<le> 255
     \<and> event_phone_id e \<noteq> [] \<and> length (event_phone_id e) \<le> 255
     \<and> length (event_type e) \<le> 64 \<and> length (event_key e) \<le> 255"

lemma message_ok:
  assumes "e \<in> set (normalize_message v phone raw)" and "phone \<noteq> []" "length phone \<le> 255"
  shows "event_ok e \<and> columns_ok e"
  using assms
  by (auto simp: normalize_message_def columns_ok_def length_event_key is_individual_message_def
      fits_media fits_interactive fits_profile
      dest!: identifier_of_Some_sym split: pyval.splits option.splits if_splits)

lemma status_ok:
  assumes "e \<in> set (normalize_status phone raw)" and "phone \<noteq> []" "length phone \<le> 255"
  shows "event_ok e \<and> columns_ok e"
  using assms
  by (auto simp: normalize_status_def columns_ok_def length_event_key
      dest!: identifier_of_Some_sym split: pyval.splits option.splits if_splits)

lemma echo_ok:
  assumes "e \<in> set (normalize_echo v phone raw)" and "phone \<noteq> []" "length phone \<le> 255"
  shows "event_ok e \<and> columns_ok e"
  using assms
  by (auto simp: normalize_echo_def columns_ok_def length_event_key is_individual_message_def
      dest!: identifier_of_Some_sym split: pyval.splits option.splits if_splits)

lemma meta_phone_Some: "meta_phone_number_id v = Some p \<Longrightarrow> p \<noteq> [] \<and> length p \<le> 255"
  by (auto simp: meta_phone_number_id_def split: pyval.splits dest: identifier_of_Some)

lemma values_ok:
  assumes "meta_phone_number_id v = Some phone"
  shows "e \<in> set (normalize_messages v phone) \<Longrightarrow> event_ok e \<and> columns_ok e"
    and "e \<in> set (normalize_statuses v phone) \<Longrightarrow> event_ok e \<and> columns_ok e"
    and "e \<in> set (normalize_echoes v phone) \<Longrightarrow> event_ok e \<and> columns_ok e"
  using meta_phone_Some [OF assms] message_ok status_ok echo_ok
  by (auto simp: normalize_messages_def normalize_statuses_def normalize_echoes_def split: pyval.splits)

lemma change_ok: "e \<in> set (normalize_change c) \<Longrightarrow> event_ok e \<and> columns_ok e"
  unfolding normalize_change_def by (auto split: pyval.splits option.splits if_splits dest: values_ok [OF sym])

text \<open>
  C29. Whatever document Meta posts, each event that is normalised from it has a provider id, a phone
  number id, a type and a key that fit their columns, and its key is the digest of its provider id
  (and status), so a repeated delivery has the same key. A message and an echo are from or to one
  person, and what else they carry fits its columns; a status is one of the four that are known. The
  failure code of a status is left out: it need not fit its column.
\<close>

theorem normalized_events_ok:
  assumes "e \<in> set (normalize_webhook_payload p)"
  shows "event_ok e \<and> columns_ok e"
  using assms change_ok
  by (auto simp: normalize_webhook_payload_def split: if_splits pyval.splits)

text \<open>A document with a message of a person and the same message in a group.\<close>

definition sample_raw :: pydict where
  "sample_raw = [(''id'', PStr '' wamid.1''), (''from'', PStr ''5511987654321''), (''type'', PStr ''text''),
     (''timestamp'', PStr ''0''), (''text'', PDict [(''body'', PStr ''Oi'')])]"

definition sample_document :: webhook_payload where
  "sample_document = \<lparr>wp_object = ''whatsapp_business_account'', wp_entry = [[(''changes'', PList [PDict
     [(''field'', PStr ''messages''), (''value'', PDict [(''metadata'', PDict [(''phone_number_id'', PStr ''700'')]),
       (''messages'', PList [PDict sample_raw, PDict ((''Group_ID'', PStr ''g'') # sample_raw)])])]])]]\<rparr>"

definition sample_inbound :: inbound_message where
  "sample_inbound = \<lparr>im_key = build_event_key ''inbound'' [''wamid.1''], im_event_type = ''message.inbound.text'',
     im_phone_id = ''700'', im_provider_id = ''wamid.1'', im_whatsapp_id = ''5511987654321'', im_type = ''text'',
     im_body = Some ''Oi'', im_interactive_id = None, im_media_id = None, im_media_mime = None,
     im_media_filename = None, im_media_sha256 = None, im_profile_name = None, im_occurred_at = Some unix_epoch\<rparr>"

lemma sample_fields:
  "identifier_of (PStr '' wamid.1'') 255 = Some ''wamid.1''"
  "identifier_of (PStr ''5511987654321'') 255 = Some ''5511987654321''"
  "identifier_of (PStr ''text'') 40 = Some ''text''" "identifier_of (PStr ''700'') 255 = Some ''700''"
  "is_individual_whatsapp_id ''5511987654321''"
  "\<not> has_collective_indicator sample_raw" "has_collective_indicator ((''Group_ID'', PStr ''g'') # sample_raw)"
  "\<not> has_collective_indicator [(''metadata'', PDict [(''phone_number_id'', PStr ''700'')]),
       (''messages'', PList [PDict sample_raw, PDict ((''Group_ID'', PStr ''g'') # sample_raw)])]"
  "unix_timestamp (PStr ''0'') = Some unix_epoch"
  by code_simp+

lemma sample_raw_fields:
  "dget sample_raw ''id'' = PStr '' wamid.1''" "dget sample_raw ''from'' = PStr ''5511987654321''"
  "dget sample_raw ''type'' = PStr ''text''" "dget sample_raw ''timestamp'' = PStr ''0''"
  "dget sample_raw ''text'' = PDict [(''body'', PStr ''Oi'')]"
  by code_simp+

lemma sample_group_fields: "k \<noteq> ''Group_ID'' \<Longrightarrow> dget ((''Group_ID'', PStr ''g'') # sample_raw) k = dget sample_raw k"
  by (simp add: dget_def dict_get_def)

lemma sample_content:
  "message_content sample_raw ''text'' = (Some ''Oi'', None)" "media_field raw ''text'' k n = None"
  by (simp_all add: message_content_def sample_raw_fields media_field_def media_types_def)
    (simp add: dget_def dict_get_def)

lemma sample_normalized: "normalize_webhook_payload sample_document = [Inbound sample_inbound]"
  by (simp add: normalize_webhook_payload_def sample_document_def dget_def dict_get_def normalize_change_def
      meta_phone_number_id_def sample_fields normalize_messages_def normalize_statuses_def
      del: has_collective_indicator.simps)
    (simp add: normalize_message_def is_individual_message_def sample_fields sample_raw_fields sample_group_fields
      sample_content sample_inbound_def profile_names_def dget_def [of "[x, y]" for x y] dict_get_def
      del: has_collective_indicator.simps)

theorem normalized_events_ok_witness:
  "is_individual_whatsapp_id (im_whatsapp_id sample_inbound) \<and> length (im_event_type sample_inbound) \<le> 64"
  using normalized_events_ok [of "Inbound sample_inbound" sample_document]
  by (simp add: sample_normalized columns_ok_def)

end
