(* ===== verification/Inbox.thy ===== *)
theory Inbox
  imports WebhookPayload "HOL-Library.Product_Lexorder"
begin

text \<open>
  What arrives: the repository of received events (\<open>app/repositories/whatsapp_webhook.py\<close>), the
  response of a customer to a proactive message (\<open>mark_outreach_response\<close> of
  \<open>app/automation/lifecycle.py\<close>), the lookup of the business a phone number belongs to
  (\<open>app/repositories/whatsapp_connections.py\<close>) and the persistence of the events of one request
  (\<open>app/whatsapp/processor.py\<close>). An operation that raises gives an error and no database, because
  its transaction is rolled back.
\<close>

section \<open>Insertions\<close>

text \<open>The clocks and the fresh identifiers of one transaction.\<close>

record arrival =
  ar_tx :: instant
  ar_now :: instant
  ar_customer :: uuid
  ar_conversation :: uuid
  ar_message :: uuid

definition insert_message :: "message \<Rightarrow> messaging_db \<Rightarrow> messaging_error + messaging_db" where
  "insert_message m db =
     (if list_ex (\<lambda>x. ms_id x = ms_id m) (md_messages db) then Inl (IntegrityViolation ''pk_messages'')
      else if ms_provider_id m \<noteq> None \<and> list_ex (\<lambda>x. ms_provider_id x = ms_provider_id m) (md_messages db)
      then Inl (IntegrityViolation ''uq_messages_provider_message_id_present'')
      else if ms_key m \<noteq> None \<and> list_ex (\<lambda>x. ms_key x = ms_key m) (md_messages db)
      then Inl (IntegrityViolation ''uq_messages_idempotency_key_present'')
      else Inr (db\<lparr>md_messages := md_messages db @ [m]\<rparr>))"

section \<open>Received events\<close>

text \<open>The check constraint on the failure code of the provider.\<close>

definition code_char :: "char \<Rightarrow> bool" where
  "code_char c \<longleftrightarrow> is_digit c \<or> is_lower_az c \<or> (65 \<le> code_point c \<and> code_point c \<le> 90)
     \<or> c = CHR ''.'' \<or> c = CHR ''_'' \<or> c = CHR ''-''"

definition failure_code_allowed :: "string option \<Rightarrow> bool" where
  "failure_code_allowed v \<longleftrightarrow>
     (case v of None \<Rightarrow> True | Some s \<Rightarrow> s \<noteq> [] \<and> length s \<le> 64 \<and> list_all code_char s)"

fun event_failure_code :: "webhook_event \<Rightarrow> string option" where
  "event_failure_code (Status s) = st_failure_code s"
| "event_failure_code _ = None"

definition row_of_event :: "webhook_event \<Rightarrow> webhook_row" where
  "row_of_event e = \<lparr>pw_event_key = event_key e, pw_business = None, pw_provider_id = Some (event_provider_id e),
     pw_type = event_type e, pw_status = ''processing'', pw_reason = None,
     pw_failure_code = event_failure_code e, pw_attempts = 1, pw_processed_at = None\<rparr>"

definition events_at :: "messaging_db \<Rightarrow> string \<Rightarrow> webhook_row list" where
  "events_at db key = filter (\<lambda>w. pw_event_key w = key) (md_webhooks db)"

definition claim_event :: "webhook_event \<Rightarrow> messaging_db \<Rightarrow> messaging_error + (bool \<times> messaging_db)" where
  "claim_event e db =
     (if \<not> failure_code_allowed (event_failure_code e)
      then Inl (IntegrityViolation ''processed_webhook_provider_failure_code_sanitized'')
      else if events_at db (event_key e) \<noteq> [] then Inr (False, db)
      else Inr (True, db\<lparr>md_webhooks := md_webhooks db @ [row_of_event e]\<rparr>))"

definition get_event_status :: "messaging_db \<Rightarrow> string \<Rightarrow> messaging_error + string option" where
  "get_event_status db key = one_or_none (map pw_status (events_at db key))"

definition update_events :: "string \<Rightarrow> (webhook_row \<Rightarrow> webhook_row) \<Rightarrow> messaging_db \<Rightarrow> messaging_db" where
  "update_events key f db = db\<lparr>md_webhooks := update_where (\<lambda>w. pw_event_key w = key) f (md_webhooks db)\<rparr>"

definition settle_event ::
  "string \<Rightarrow> instant option \<Rightarrow> uuid option \<Rightarrow> string option \<Rightarrow> webhook_row \<Rightarrow> webhook_row" where
  "settle_event status processed b reason w =
     w\<lparr>pw_status := status, pw_processed_at := processed,
       pw_business := (if b \<noteq> None then b else pw_business w),
       pw_reason := (if reason \<noteq> None then reason else pw_reason w)\<rparr>"

definition queue_event :: "string \<Rightarrow> uuid option \<Rightarrow> string option \<Rightarrow> messaging_db \<Rightarrow> messaging_db" where
  "queue_event key b reason = update_events key (settle_event ''queued'' None b reason)"

definition complete_event ::
  "instant \<Rightarrow> string \<Rightarrow> string \<Rightarrow> uuid option \<Rightarrow> string option \<Rightarrow> messaging_db \<Rightarrow> messaging_db" where
  "complete_event tx key status b reason = update_events key (settle_event status (Some tx) b reason)"

section \<open>The business of a phone number\<close>

definition find_business_id :: "messaging_env \<Rightarrow> instant \<Rightarrow> messaging_db \<Rightarrow> string \<Rightarrow> uuid option" where
  "find_business_id env tx db phone =
     (let legacy = first (map tn_id (filter (\<lambda>n. tn_phone_id n = Some phone) (md_tenants db)));
          known = filter (\<lambda>c. cn_phone_id c = Some phone) (md_connections db);
          connected = first (map cn_business (filter (\<lambda>c. cn_status c = ''connected'') known));
          candidate =
            (case connected of
               Some b \<Rightarrow> if legacy \<noteq> None \<and> legacy \<noteq> Some b then None else Some b
             | None \<Rightarrow>
                 if known \<noteq> [] then None
                 else (case legacy of
                    None \<Rightarrow> None
                  | Some b \<Rightarrow> if list_ex (\<lambda>c. cn_business c = b) (md_connections db) then None else Some b))
      in case candidate of
           None \<Rightarrow> None
         | Some b \<Rightarrow>
             if active_operational_access_exists db b (billing_provider_environment (me_environment env)) tx
             then Some b else None)"

section \<open>Customers and conversations\<close>

definition new_customer :: "uuid \<Rightarrow> uuid \<Rightarrow> string \<Rightarrow> string option \<Rightarrow> customer" where
  "new_customer i b w profile = \<lparr>cu_id = i, cu_business = b, cu_whatsapp_id = w, cu_name = None,
     cu_name_source = None, cu_profile_name = profile\<rparr>"

definition contact_at :: "uuid \<Rightarrow> string \<Rightarrow> customer \<Rightarrow> bool" where
  "contact_at b w u \<longleftrightarrow> cu_business u = b \<and> cu_whatsapp_id u = w"

definition get_or_create_customer_id ::
  "uuid \<Rightarrow> uuid \<Rightarrow> string \<Rightarrow> string option \<Rightarrow> messaging_db \<Rightarrow> messaging_error + (uuid \<times> messaging_db)" where
  "get_or_create_customer_id fresh b w profile db =
     (if \<not> list_ex (contact_at b w) (md_customers db) then
        (if list_ex (\<lambda>u. cu_id u = fresh) (md_customers db) then Inl (IntegrityViolation ''pk_customers'')
         else Inr (fresh, db\<lparr>md_customers := md_customers db @ [new_customer fresh b w profile]\<rparr>))
      else
        (let db1 = (if profile = None then db
                    else db\<lparr>md_customers := update_where (contact_at b w)
                             (\<lambda>u. u\<lparr>cu_profile_name := profile\<rparr>) (md_customers db)\<rparr>)
         in and_then (exactly_one (filter (contact_at b w) (md_customers db1))) (\<lambda>u. Inr (cu_id u, db1))))"

definition new_conversation :: "uuid \<Rightarrow> uuid \<Rightarrow> uuid \<Rightarrow> string \<Rightarrow> instant \<Rightarrow> conversation" where
  "new_conversation i b u initiated tx = \<lparr>cv_id = i, cv_business = b, cv_customer = u, cv_state = ''START'',
     cv_context = [], cv_enabled = True, cv_handoff = ''none'', cv_last_interaction = tx,
     cv_suppressed_until = None, cv_suppression_reason = None, cv_control_started = None, cv_last_human = None,
     cv_initiated_by = Some initiated, cv_pinned = None, cv_last_read = None, cv_unread = False,
     cv_deleted = None\<rparr>"

definition customer_conversation :: "uuid \<Rightarrow> uuid \<Rightarrow> conversation \<Rightarrow> bool" where
  "customer_conversation b u r \<longleftrightarrow> cv_business r = b \<and> cv_customer r = u"

text \<open>A deleted conversation comes back as a new one, with its identifier and its history.\<close>

definition resurrect :: "string \<Rightarrow> instant \<Rightarrow> conversation \<Rightarrow> conversation" where
  "resurrect initiated tx r =
     r\<lparr>cv_deleted := None, cv_state := ''START'', cv_context := [], cv_enabled := True, cv_handoff := ''none'',
       cv_suppressed_until := None, cv_suppression_reason := None, cv_control_started := None,
       cv_last_human := None, cv_pinned := None, cv_unread := False, cv_initiated_by := Some initiated,
       cv_last_interaction := tx\<rparr>"

definition get_or_create_conversation_id ::
  "uuid \<Rightarrow> uuid \<Rightarrow> uuid \<Rightarrow> string \<Rightarrow> instant \<Rightarrow> messaging_db \<Rightarrow> messaging_error + (uuid \<times> messaging_db)" where
  "get_or_create_conversation_id fresh b u initiated tx db =
     (let found = filter (customer_conversation b u) (md_conversations db)
      in if found = [] then
           (if list_ex (\<lambda>r. cv_id r = fresh) (md_conversations db) then Inl (IntegrityViolation ''pk_conversations'')
            else Inr (fresh, db\<lparr>md_conversations := md_conversations db @ [new_conversation fresh b u initiated tx]\<rparr>))
         else
           (let db1 = update_conversations (\<lambda>r. customer_conversation b u r \<and> cv_deleted r \<noteq> None)
                        (resurrect initiated tx) db
            in and_then (one_or_none (filter (\<lambda>r. cv_deleted r \<noteq> None) found))
              (\<lambda>r. case r of
                   Some x \<Rightarrow> Inr (cv_id x, db1)
                 | None \<Rightarrow>
                     (case first found of
                        None \<Rightarrow> Inl (RuntimeFailure ''Conversation disappeared during get-or-create'')
                      | Some x \<Rightarrow> Inr (cv_id x, db1)))))"

definition touch_conversation :: "instant \<Rightarrow> uuid \<Rightarrow> messaging_db \<Rightarrow> messaging_db" where
  "touch_conversation tx c = update_conversations (\<lambda>r. cv_id r = c) (\<lambda>r. r\<lparr>cv_last_interaction := tx\<rparr>)"

section \<open>The answer to a proactive message\<close>

definition decline_phrases :: "string list" where
  "decline_phrases = [''nao tenho interesse'', [CHR ''n'', CHR 0xE3, CHR ''o''] @ '' tenho interesse'',
     ''nao quero'', [CHR ''n'', CHR 0xE3, CHR ''o''] @ '' quero'', ''pode deixar'', ''agora nao'',
     ''agora n'' @ [CHR 0xE3, CHR ''o'']]"

definition declines :: "string option \<Rightarrow> bool" where
  "declines body =
     (let n = join '' '' (split_ws (casefold (case body of None \<Rightarrow> [] | Some s \<Rightarrow> s)))
      in list_ex (contains n) decline_phrases)"

text \<open>The last outreach that was sent, or the last one that is still pending.\<close>

definition open_outreach :: "messaging_db \<Rightarrow> uuid \<Rightarrow> uuid \<Rightarrow> customer_outreach option" where
  "open_outreach db b c =
     max_by (\<lambda>w. (co_sent_at w \<noteq> None, (case co_sent_at w of None \<Rightarrow> 0 | Some t \<Rightarrow> t), co_created w))
       (filter (\<lambda>w. co_business w = b \<and> co_conversation w = c
          \<and> (co_status w = ''pending'' \<or> co_status w = ''sent'')) (md_outreach db))"

definition mark_outreach_response ::
  "messaging_env \<Rightarrow> uuid \<Rightarrow> uuid \<Rightarrow> string option \<Rightarrow> instant \<Rightarrow> messaging_db \<Rightarrow> messaging_db" where
  "mark_outreach_response env b c body t db =
     (case open_outreach db b c of
        None \<Rightarrow> db
      | Some w \<Rightarrow>
          (let settle = (\<lambda>status. update_outreach (\<lambda>x. co_id x = co_id w)
                 (\<lambda>x. x\<lparr>co_status := status, co_responded_at := Some t\<rparr>))
           in if co_status w = ''pending''
              then update_messages (\<lambda>m. ms_business m = b \<and> ms_conversation m = c \<and> ms_direction m = ''outbound''
                     \<and> ms_status m = ''pending''
                     \<and> payload_text (me_json env) (ms_payload m) ''_alovia_outreach_id'' = Some (uuid_text (co_id w)))
                     fail_message (settle ''skipped'' db)
              else settle (if declines body then ''declined'' else ''responded'') db))"

section \<open>The message\<close>

definition inbound_row :: "arrival \<Rightarrow> uuid \<Rightarrow> uuid \<Rightarrow> inbound_message \<Rightarrow> message" where
  "inbound_row ar b c e =
     \<lparr>ms_id = ar_message ar, ms_business = b, ms_conversation = c, ms_provider_id = Some (im_provider_id e),
      ms_direction = ''inbound'', ms_type = im_type e, ms_body = im_body e,
      ms_interactive_id = im_interactive_id e, ms_media_id = im_media_id e, ms_media_mime = im_media_mime e,
      ms_media_filename = im_media_filename e, ms_media_sha256 = im_media_sha256 e, ms_payload = None,
      ms_status = ''received'', ms_sent_at = None, ms_key = None,
      ms_created = (case im_occurred_at e of None \<Rightarrow> ar_tx ar | Some t \<Rightarrow> t)\<rparr>"

definition insert_push :: "string \<Rightarrow> uuid \<Rightarrow> string \<Rightarrow> string \<Rightarrow> messaging_db \<Rightarrow> messaging_db" where
  "insert_push key b kind path db =
     (if list_ex (\<lambda>p. pu_event_key p = key) (md_pushes db) then db
      else db\<lparr>md_pushes := md_pushes db @ [\<lparr>pu_event_key = key, pu_business = b, pu_type = kind, pu_path = path\<rparr>]\<rparr>)"

definition persist_inbound_message ::
  "messaging_env \<Rightarrow> arrival \<Rightarrow> uuid \<Rightarrow> uuid \<Rightarrow> inbound_message \<Rightarrow> messaging_db \<Rightarrow> messaging_error + messaging_db" where
  "persist_inbound_message env ar b c e db =
     and_then (insert_message (inbound_row ar b c e) db)
       (\<lambda>db1. Inr (mark_outreach_response env b c (im_body e)
           (case im_occurred_at e of None \<Rightarrow> ar_now ar | Some t \<Rightarrow> t)
           (insert_push (im_key e) b ''inbound_message'' (''/app/conversas/'' @ uuid_text c) db1)))"

definition assistant_processable :: "inbound_message \<Rightarrow> bool" where
  "assistant_processable e \<longleftrightarrow>
     im_interactive_id e \<noteq> None
     \<or> (im_type e \<in> {''image'', ''audio'', ''video''} \<and> im_media_id e \<noteq> None \<and> im_media_id e \<noteq> Some [])
     \<or> (case im_body e of None \<Rightarrow> False | Some s \<Rightarrow> strip s \<noteq> [])"

definition update_message_status :: "uuid \<Rightarrow> string \<Rightarrow> string \<Rightarrow> messaging_db \<Rightarrow> messaging_db" where
  "update_message_status b pid status =
     update_messages (\<lambda>m. ms_business m = b \<and> ms_provider_id m = Some pid) (\<lambda>m. m\<lparr>ms_status := status\<rparr>)"

section \<open>Persisting the events of a request\<close>

definition store_inbound ::
  "messaging_env \<Rightarrow> arrival \<Rightarrow> uuid \<Rightarrow> inbound_message \<Rightarrow> messaging_db
   \<Rightarrow> messaging_error + (uuid \<times> uuid \<times> messaging_db)" where
  "store_inbound env ar b e db =
     and_then (get_or_create_customer_id (ar_customer ar) b (im_whatsapp_id e) (im_profile_name e) db)
       (\<lambda>(u, db1). and_then (get_or_create_conversation_id (ar_conversation ar) b u ''customer'' (ar_tx ar) db1)
       (\<lambda>(c, db2). and_then (persist_inbound_message env ar b c e (touch_conversation (ar_tx ar) c db2))
       (\<lambda>db3. Inr (u, c, db3))))"

definition persist_inbound ::
  "messaging_env \<Rightarrow> arrival \<Rightarrow> uuid \<Rightarrow> inbound_message \<Rightarrow> messaging_db \<Rightarrow> messaging_error + (bool \<times> messaging_db)" where
  "persist_inbound env ar b e db =
     and_then (active_exclusion sql_repository db b (im_whatsapp_id e))
       (\<lambda>mode. if mode = Some Ignore
          then Inr (False, complete_event (ar_tx ar) (im_key e) ''ignored'' (Some b) (Some ''automation_excluded'') db)
          else and_then (store_inbound env ar b e db)
       (\<lambda>(u, c, db1). if \<not> assistant_processable e
          then Inr (True, complete_event (ar_tx ar) (im_key e) ''ignored'' (Some b) (Some ''unsupported_inbound'') db1)
          else and_then (evaluate_customer_inbound sql_repository (ar_now ar) b c mode db1)
       (\<lambda>(d, db2). if d \<noteq> Allowed
          then Inr (True, complete_event (ar_tx ar) (im_key e) ''ignored'' (Some b) (Some (decision_value d)) db2)
          else Inr (True, queue_event (im_key e) (Some b) (Some ''automation_queued'') db2))))"

definition register_echo ::
  "arrival \<Rightarrow> uuid \<Rightarrow> echo_event \<Rightarrow> exclusion_mode option \<Rightarrow> messaging_db \<Rightarrow> messaging_error + messaging_db" where
  "register_echo ar b e mode db =
     and_then (get_or_create_customer_id (ar_customer ar) b (ec_whatsapp_id e) None db)
       (\<lambda>(u, db1). and_then (get_or_create_conversation_id (ar_conversation ar) b u ''business'' (ar_tx ar) db1)
       (\<lambda>(c, db2). and_then (if mode = Some HumanOnly
            then evaluate_customer_inbound sql_repository (ar_now ar) b c mode db2 else Inr (Allowed, db2))
       (\<lambda>(d, db3). and_then (register_manual_business_message sql_repository b c (ec_occurred_at e) db3)
       (\<lambda>(t, db4). Inr db4))))"

definition persist_echo ::
  "arrival \<Rightarrow> uuid \<Rightarrow> echo_event \<Rightarrow> messaging_db \<Rightarrow> messaging_error + (bool \<times> messaging_db)" where
  "persist_echo ar b e db =
     and_then (active_exclusion sql_repository db b (ec_whatsapp_id e))
       (\<lambda>mode. if mode = Some Ignore
          then Inr (False, complete_event (ar_tx ar) (ec_key e) ''ignored'' (Some b) (Some ''automation_excluded'') db)
          else and_then (register_echo ar b e mode db)
       (\<lambda>db1. Inr (False, complete_event (ar_tx ar) (ec_key e) ''processed'' (Some b)
            (Some ''manual_business_message'') db1)))"

text \<open>A message or an echo of a group is skipped before its event is claimed.\<close>

fun collective_event :: "webhook_event \<Rightarrow> bool" where
  "collective_event (Inbound e) \<longleftrightarrow> \<not> is_individual_whatsapp_id (im_whatsapp_id e)"
| "collective_event (Echo e) \<longleftrightarrow> \<not> is_individual_whatsapp_id (ec_whatsapp_id e)"
| "collective_event (Status s) \<longleftrightarrow> False"

definition waiting_status :: "string option \<Rightarrow> bool" where
  "waiting_status s \<longleftrightarrow> s = Some ''queued'' \<or> s = Some ''processing''"

definition persist_event ::
  "messaging_env \<Rightarrow> arrival \<Rightarrow> webhook_event \<Rightarrow> messaging_db \<Rightarrow> messaging_error + (bool \<times> messaging_db)" where
  "persist_event env ar e db =
     and_then (claim_event e db)
       (\<lambda>(claimed, db1). if \<not> claimed
          then and_then (get_event_status db1 (event_key e)) (\<lambda>s. Inr (waiting_status s, db1))
          else (case find_business_id env (ar_tx ar) db1 (event_phone_id e) of
             None \<Rightarrow> Inr (False, complete_event (ar_tx ar) (event_key e) ''ignored'' None (Some ''business_not_found'') db1)
           | Some b \<Rightarrow>
               (case e of
                  Inbound m \<Rightarrow> persist_inbound env ar b m db1
                | Echo m \<Rightarrow> persist_echo ar b m db1
                | Status s \<Rightarrow> Inr (True, queue_event (event_key e) (Some b) (Some ''message_status_queued'') db1))))"

text \<open>
  The events of a request, each in its own transaction: one that raises stops the request, and
  what was committed before stays. A violation of the key of the events, which the claim itself
  avoids, is answered by reading the status again.
\<close>

fun persist_webhook_events ::
  "messaging_env \<Rightarrow> (arrival \<times> webhook_event) list \<Rightarrow> string list \<Rightarrow> messaging_db
   \<Rightarrow> (messaging_error + string list) \<times> messaging_db" where
  "persist_webhook_events env [] keys db = (Inr keys, db)"
| "persist_webhook_events env ((ar, e) # es) keys db =
     (if collective_event e then persist_webhook_events env es keys db
      else
        (let r = (case persist_event env ar e db of
                    Inl err \<Rightarrow>
                      if err = IntegrityViolation ''uq_processed_webhooks_event_key''
                      then and_then (get_event_status db (event_key e)) (\<lambda>s. Inr (waiting_status s, db))
                      else Inl err
                  | Inr x \<Rightarrow> Inr x)
         in case r of
              Inl err \<Rightarrow> (Inl err, db)
            | Inr (enqueue, db') \<Rightarrow>
                persist_webhook_events env es
                  (if enqueue \<and> event_key e \<notin> set keys then keys @ [event_key e] else keys) db'))"

end
