(* ===== verification/EventWorker.thy ===== *)
theory EventWorker
  imports Inbox
begin

text \<open>
  The task of a received event (\<open>app/tasks/worker.py\<close>) and the repository it reads
  (\<open>app/repositories/cloud_tasks.py\<close>): messages that follow each other within three seconds are
  one turn, and only the task of the last one answers. The dialogue that answers is an argument,
  as it is in the code, and so is the interpreter's judgement whether a text is substantive.
  The processing without a queue (\<open>app/whatsapp/processor.py\<close>) is here too.
\<close>

section \<open>Inputs of the dialogue\<close>

record conversation_input =
  in_business :: uuid
  in_customer :: uuid
  in_conversation :: uuid
  in_provider_id :: string
  in_type :: string
  in_body :: "string option"
  in_interactive_id :: "string option"
  in_whatsapp_id :: "string option"

type_synonym engine = "conversation_input \<Rightarrow> messaging_db \<Rightarrow> messaging_error + messaging_db"

text \<open>The join of an inbound message with its conversation and its customer.\<close>

record loaded_row =
  lr_message :: message
  lr_conversation :: conversation
  lr_customer :: customer

definition inbound_rows :: "messaging_db \<Rightarrow> string \<Rightarrow> loaded_row list" where
  "inbound_rows db pid =
     concat (map (\<lambda>m. concat (map (\<lambda>r. map (\<lambda>u. \<lparr>lr_message = m, lr_conversation = r, lr_customer = u\<rparr>)
          (filter (\<lambda>u. cu_business u = cv_business r \<and> cu_id u = cv_customer r) (md_customers db)))
        (conversations_at db (ms_business m) (ms_conversation m))))
      (filter (\<lambda>m. ms_provider_id m = Some pid \<and> ms_direction m = ''inbound'') (md_messages db)))"

definition load_inbound_row :: "messaging_db \<Rightarrow> string \<Rightarrow> messaging_error + loaded_row option" where
  "load_inbound_row db pid = one_or_none (inbound_rows db pid)"

definition provider_id_of :: "message \<Rightarrow> string" where
  "provider_id_of m = (case ms_provider_id m of None \<Rightarrow> [] | Some p \<Rightarrow> p)"

definition input_of :: "loaded_row \<Rightarrow> string option \<Rightarrow> conversation_input" where
  "input_of r body =
     \<lparr>in_business = ms_business (lr_message r), in_customer = cv_customer (lr_conversation r),
      in_conversation = ms_conversation (lr_message r), in_provider_id = provider_id_of (lr_message r),
      in_type = ms_type (lr_message r), in_body = (if body = None then ms_body (lr_message r) else body),
      in_interactive_id = ms_interactive_id (lr_message r), in_whatsapp_id = Some (cu_whatsapp_id (lr_customer r))\<rparr>"

definition load_inbound :: "messaging_db \<Rightarrow> string \<Rightarrow> messaging_error + conversation_input option" where
  "load_inbound db pid = and_then (load_inbound_row db pid) (\<lambda>r. Inr (map_option (\<lambda>x. input_of x None) r))"

section \<open>Turns\<close>

definition turn_window :: int where
  "turn_window = 3000000"

text \<open>The text fragments of the conversation of a message.\<close>

definition same_conversation :: "message \<Rightarrow> message \<Rightarrow> bool" where
  "same_conversation m x \<longleftrightarrow> ms_business x = ms_business m \<and> ms_conversation x = ms_conversation m"

definition fragment :: "message \<Rightarrow> message \<Rightarrow> bool" where
  "fragment m x \<longleftrightarrow> same_conversation m x \<and> ms_direction x = ''inbound'' \<and> ms_type x = ''text''
     \<and> ms_provider_id x \<noteq> None"

definition arrival_key :: "message \<Rightarrow> instant \<times> string" where
  "arrival_key m = (ms_created m, provider_id_of m)"

definition newer_fragment :: "message \<Rightarrow> message \<Rightarrow> bool" where
  "newer_fragment m x \<longleftrightarrow> fragment m x \<and> arrival_key m < arrival_key x \<and> ms_created x \<le> ms_created m + turn_window"

definition last_outbound :: "messaging_db \<Rightarrow> message \<Rightarrow> instant option" where
  "last_outbound db m =
     max_by id (map ms_created (filter (\<lambda>x. same_conversation m x \<and> ms_direction x = ''outbound''
        \<and> ms_created x \<le> ms_created m) (md_messages db)))"

definition turn_messages :: "messaging_db \<Rightarrow> message \<Rightarrow> message list" where
  "turn_messages db m =
     take 20 (rev (sort_key arrival_key (filter (\<lambda>x. fragment m x \<and> ms_created x \<le> ms_created m
        \<and> (case last_outbound db m of None \<Rightarrow> True | Some t \<Rightarrow> t < ms_created x)) (md_messages db))))"

fun turn_bodies :: "instant \<Rightarrow> message list \<Rightarrow> string list" where
  "turn_bodies previous [] = []"
| "turn_bodies previous (x # xs) =
     (if turn_window < previous - ms_created x then []
      else (case ms_body x of None \<Rightarrow> [] | Some s \<Rightarrow> if strip s \<noteq> [] then [strip s] else [])
           @ turn_bodies (ms_created x) xs)"

definition newline :: string where
  "newline = [CHR 0x0A]"

definition combined_body :: "messaging_db \<Rightarrow> message \<Rightarrow> string option" where
  "combined_body db m =
     (let bodies = rev (turn_bodies (ms_created m) (turn_messages db m))
      in if bodies \<noteq> [] then Some (join newline bodies) else ms_body m)"

definition load_inbound_turn :: "messaging_db \<Rightarrow> string \<Rightarrow> messaging_error + conversation_input option" where
  "load_inbound_turn db pid =
     and_then (load_inbound_row db pid)
       (\<lambda>r. case r of
            None \<Rightarrow> Inr None
          | Some row \<Rightarrow>
              (let m = lr_message row
               in if ms_type m \<noteq> ''text'' \<or> ms_interactive_id m \<noteq> None then Inr (Some (input_of row None))
                  else if list_ex (newer_fragment m) (md_messages db) then Inr None
                  else Inr (Some (input_of row (combined_body db m)))))"

definition prefer_latest_substantive_fragment ::
  "(string \<Rightarrow> bool) \<Rightarrow> conversation_input \<Rightarrow> conversation_input \<Rightarrow> conversation_input" where
  "prefer_latest_substantive_fragment substantive latest aggregated =
     (if in_type latest \<noteq> ''text'' \<or> in_type aggregated \<noteq> ''text'' \<or> in_body latest = None
         \<or> strip (the (in_body latest)) = [] \<or> in_body latest = in_body aggregated
      then aggregated
      else if substantive (the (in_body latest))
           \<and> \<not> substantive (case in_body aggregated of None \<Rightarrow> [] | Some s \<Rightarrow> s)
      then latest else aggregated)"

section \<open>The task\<close>

definition mark_attempt_started :: "string \<Rightarrow> messaging_db \<Rightarrow> messaging_db" where
  "mark_attempt_started key =
     update_events key (\<lambda>w. w\<lparr>pw_status := ''processing'', pw_attempts := pw_attempts w + 1\<rparr>)"

definition settled_status :: "string \<Rightarrow> bool" where
  "settled_status s \<longleftrightarrow> s = ''processed'' \<or> s = ''ignored''"

text \<open>What a task answers, the database it leaves and the input it gave to the dialogue.\<close>

type_synonym task_result = "messaging_error + (bool \<times> messaging_db \<times> conversation_input option)"

definition answer_inbound ::
  "engine \<Rightarrow> clocks \<Rightarrow> string \<Rightarrow> conversation_input \<Rightarrow> messaging_db \<Rightarrow> task_result" where
  "answer_inbound engine ck key i db =
     and_then (engine i db)
       (\<lambda>db1. Inr (True, complete_event (ck_tx ck) key ''processed'' (Some (in_business i))
            (Some ''automation_processed'') db1, Some i))"

definition decide_inbound ::
  "engine \<Rightarrow> clocks \<Rightarrow> string \<Rightarrow> conversation_input \<Rightarrow> messaging_db \<Rightarrow> task_result" where
  "decide_inbound engine ck key i db =
     (case in_whatsapp_id i of
        None \<Rightarrow> Inr (False, complete_event (ck_tx ck) key ''ignored'' (Some (in_business i))
                  (Some ''inbound_identity_unavailable'') db, None)
      | Some w \<Rightarrow>
          and_then (active_exclusion sql_repository db (in_business i) w)
            (\<lambda>mode. and_then (evaluate_customer_inbound sql_repository (ck_now ck) (in_business i)
                       (in_conversation i) mode db)
            (\<lambda>(d, db1). if d \<noteq> Allowed
               then Inr (False, complete_event (ck_tx ck) key ''ignored'' (Some (in_business i))
                      (Some (decision_value d)) db1, None)
               else answer_inbound engine ck key i db1)))"

definition process_inbound ::
  "engine \<Rightarrow> (string \<Rightarrow> bool) \<Rightarrow> clocks \<Rightarrow> string \<Rightarrow> webhook_row \<Rightarrow> messaging_db \<Rightarrow> task_result" where
  "process_inbound engine substantive ck key w db =
     (case pw_provider_id w of
        None \<Rightarrow> Inl (TransientFailure ''Task event data is unavailable'')
      | Some pid \<Rightarrow>
          and_then (load_inbound db pid)
            (\<lambda>latest. case latest of
               None \<Rightarrow> Inl (TransientFailure ''Task event data is unavailable'')
             | Some l \<Rightarrow>
                 and_then (load_inbound_turn db pid)
                   (\<lambda>turn. case turn of
                      None \<Rightarrow> Inr (False, complete_event (ck_tx ck) key ''processed'' (pw_business w)
                                (Some ''debounced_fragment_merged'') db, None)
                    | Some a \<Rightarrow>
                        decide_inbound engine ck key (prefer_latest_substantive_fragment substantive l a) db)))"

definition status_prefix :: string where
  "status_prefix = ''message.status.''"

definition process_cloud_task_event ::
  "engine \<Rightarrow> (string \<Rightarrow> bool) \<Rightarrow> clocks \<Rightarrow> string \<Rightarrow> messaging_db \<Rightarrow> task_result" where
  "process_cloud_task_event engine substantive ck key db =
     and_then (one_or_none (events_at db key))
       (\<lambda>event. case event of
          None \<Rightarrow> Inr (False, db, None)
        | Some w \<Rightarrow>
            if settled_status (pw_status w) then Inr (False, db, None)
            else
              (let db1 = mark_attempt_started key db;
                   status = drop (length status_prefix) (pw_type w)
               in if starts_with (pw_type w) ''message.inbound.''
                  then process_inbound engine substantive ck key w db1
                  else if starts_with (pw_type w) status_prefix \<and> pw_provider_id w \<noteq> None
                          \<and> status \<in> set supported_statuses
                  then Inr (True, complete_event (ck_tx ck) key ''processed'' (pw_business w)
                         (Some ''message_status_processed'')
                         (report_status db1 (the (pw_provider_id w)) status), None)
                  else Inr (False, complete_event (ck_tx ck) key ''ignored'' (pw_business w)
                         (Some ''unsupported_event_type'') db1, None)))"

section \<open>Without a task queue\<close>

text \<open>
  The request persists its events and works on their keys at once, each in its own transaction;
  the first error stops it.
\<close>

fun process_keys ::
  "engine \<Rightarrow> (string \<Rightarrow> bool) \<Rightarrow> clocks \<Rightarrow> string list \<Rightarrow> messaging_db
   \<Rightarrow> (messaging_error + unit) \<times> messaging_db" where
  "process_keys engine substantive ck [] db = (Inr (), db)"
| "process_keys engine substantive ck (k # ks) db =
     (case process_cloud_task_event engine substantive ck k db of
        Inl e \<Rightarrow> (Inl e, db)
      | Inr (b, db', i) \<Rightarrow> process_keys engine substantive ck ks db')"

definition process_persisted_turns ::
  "messaging_env \<Rightarrow> engine \<Rightarrow> (string \<Rightarrow> bool) \<Rightarrow> clocks \<Rightarrow> (arrival \<times> webhook_event) list \<Rightarrow> messaging_db
   \<Rightarrow> (messaging_error + unit) \<times> messaging_db" where
  "process_persisted_turns env engine substantive ck events db =
     (case persist_webhook_events env events [] db of
        (Inl e, db1) \<Rightarrow> (Inl e, db1)
      | (Inr keys, db1) \<Rightarrow> process_keys engine substantive ck keys db1)"

text \<open>With a repository of the caller, the message is answered in the transaction that stores it.\<close>

definition input_of_event :: "uuid \<Rightarrow> uuid \<Rightarrow> uuid \<Rightarrow> inbound_message \<Rightarrow> conversation_input" where
  "input_of_event b u c e =
     \<lparr>in_business = b, in_customer = u, in_conversation = c, in_provider_id = im_provider_id e,
      in_type = im_type e, in_body = im_body e, in_interactive_id = im_interactive_id e,
      in_whatsapp_id = Some (im_whatsapp_id e)\<rparr>"

definition process_inbound_now ::
  "messaging_env \<Rightarrow> engine option \<Rightarrow> arrival \<Rightarrow> uuid \<Rightarrow> inbound_message \<Rightarrow> messaging_db \<Rightarrow> messaging_error + messaging_db" where
  "process_inbound_now env engine ar b e db =
     (let done = (\<lambda>status reason d. complete_event (ar_tx ar) (im_key e) status (Some b) (Some reason) d)
      in and_then (active_exclusion sql_repository db b (im_whatsapp_id e))
       (\<lambda>mode. if mode = Some Ignore then Inr (done ''ignored'' ''automation_excluded'' db)
          else and_then (store_inbound env ar b e db)
       (\<lambda>(u, c, db1). if \<not> assistant_processable e then Inr (done ''ignored'' ''unsupported_inbound'' db1)
          else and_then (evaluate_customer_inbound sql_repository (ar_now ar) b c mode db1)
       (\<lambda>(d, db2). if d \<noteq> Allowed then Inr (done ''ignored'' (decision_value d) db2)
          else and_then (case engine of None \<Rightarrow> Inr db2 | Some f \<Rightarrow> f (input_of_event b u c e) db2)
       (\<lambda>db3. Inr (done ''processed'' ''automation_processed'' db3))))))"

definition process_event_now ::
  "messaging_env \<Rightarrow> engine option \<Rightarrow> arrival \<Rightarrow> webhook_event \<Rightarrow> messaging_db \<Rightarrow> messaging_error + messaging_db" where
  "process_event_now env engine ar e db =
     and_then (claim_event e db)
       (\<lambda>(claimed, db1). if \<not> claimed then Inr db1
          else (case find_business_id env (ar_tx ar) db1 (event_phone_id e) of
             None \<Rightarrow> Inr (complete_event (ar_tx ar) (event_key e) ''ignored'' None (Some ''business_not_found'') db1)
           | Some b \<Rightarrow>
               (case e of
                  Inbound m \<Rightarrow> process_inbound_now env engine ar b m db1
                | Echo m \<Rightarrow> and_then (persist_echo ar b m db1) (\<lambda>(q, db2). Inr db2)
                | Status s \<Rightarrow> Inr (complete_event (ar_tx ar) (st_key s) ''processed'' (Some b)
                    (Some ''message_status_processed'')
                    (update_message_status b (st_provider_id s) (st_status s) db1)))))"

fun process_webhook_events ::
  "messaging_env \<Rightarrow> engine option \<Rightarrow> (arrival \<times> webhook_event) list \<Rightarrow> messaging_db
   \<Rightarrow> (messaging_error + unit) \<times> messaging_db" where
  "process_webhook_events env engine [] db = (Inr (), db)"
| "process_webhook_events env engine ((ar, e) # es) db =
     (if collective_event e then process_webhook_events env engine es db
      else (case process_event_now env engine ar e db of
         Inl err \<Rightarrow> if err = IntegrityViolation ''uq_processed_webhooks_event_key''
                    then process_webhook_events env engine es db else (Inl err, db)
       | Inr db' \<Rightarrow> process_webhook_events env engine es db'))"

end
