(* ===== verification/EventSafety.thy ===== *)
theory EventSafety
  imports EventWorker Policy
begin

text \<open>
  What the received events keep: every operation but those on the event itself leaves the table of
  events as it is, so an event is claimed once, settled once and answered at most once; and an
  answer is given only where the policy allows it.
\<close>

section \<open>The table of events\<close>

lemma update_events_sel [simp, sql]:
  "md_tenants (update_events k f db) = md_tenants db"
  "md_customers (update_events k f db) = md_customers db"
  "md_exclusions (update_events k f db) = md_exclusions db"
  "md_conversations (update_events k f db) = md_conversations db"
  "md_messages (update_events k f db) = md_messages db"
  "md_access (update_events k f db) = md_access db"
  "md_subscriptions (update_events k f db) = md_subscriptions db"
  "md_outreach (update_events k f db) = md_outreach db"
  "md_pushes (update_events k f db) = md_pushes db"
  "md_connections (update_events k f db) = md_connections db"
  "md_webhooks (update_events k f db) = update_where (\<lambda>w. pw_event_key w = k) f (md_webhooks db)"
  by (simp_all add: update_events_def)

lemma settle_event_key [simp]: "pw_event_key (settle_event s t b r w) = pw_event_key w"
  "pw_status (settle_event s t b r w) = s"
  by (simp_all add: settle_event_def)

lemma evaluate_webhooks:
  "evaluate_customer_inbound sql_repository now b c mode db = Inr (d, db') \<Longrightarrow> md_webhooks db' = md_webhooks db"
  by (auto simp: evaluate_customer_inbound_def sql_repository_def mark_human_only_def cancel_pending_outbounds_def
      clear_temporary_suppression_def split: option.splits exclusion_mode.splits sum.splits if_splits)

lemma register_webhooks:
  "register_manual_business_message sql_repository b c t db = Inr (u, db') \<Longrightarrow> md_webhooks db' = md_webhooks db"
  by (auto simp: register_manual_business_message_def sql_repository_def activate_human_control_def Let_def
      cancel_pending_outbounds_def split: sum.splits)

lemma customer_webhooks:
  "get_or_create_customer_id f b w p db = Inr (u, db') \<Longrightarrow> md_webhooks db' = md_webhooks db"
  by (auto simp: get_or_create_customer_id_def Let_def and_then_Inr split: if_splits)

lemma conversation_webhooks:
  "get_or_create_conversation_id f b u i tx db = Inr (c, db') \<Longrightarrow> md_webhooks db' = md_webhooks db"
  by (auto simp: get_or_create_conversation_id_def Let_def and_then_Inr split: if_splits option.splits)

lemma outreach_webhooks [simp]: "md_webhooks (mark_outreach_response env b c body t db) = md_webhooks db"
  by (simp add: mark_outreach_response_def Let_def split: option.split)

lemma persist_message_webhooks:
  "persist_inbound_message env ar b c e db = Inr db' \<Longrightarrow> md_webhooks db' = md_webhooks db"
  by (auto simp: persist_inbound_message_def and_then_Inr insert_message_def insert_push_def split: if_splits)

lemma store_webhooks:
  "store_inbound env ar b e db = Inr (u, c, db') \<Longrightarrow> md_webhooks db' = md_webhooks db"
  by (auto simp: store_inbound_def and_then_Inr touch_conversation_def
      dest!: customer_webhooks conversation_webhooks persist_message_webhooks split: prod.splits)

lemma echo_webhooks: "register_echo ar b e mode db = Inr db' \<Longrightarrow> md_webhooks db' = md_webhooks db"
  by (auto simp: register_echo_def and_then_Inr
      dest!: customer_webhooks conversation_webhooks evaluate_webhooks register_webhooks
      split: prod.splits if_splits)

text \<open>An operation settles an event when it sets the columns of its row and no other row.\<close>

definition settles :: "string set \<Rightarrow> string \<Rightarrow> messaging_db \<Rightarrow> messaging_db \<Rightarrow> bool" where
  "settles S key db db' \<longleftrightarrow> (\<exists>s t b r. s \<in> S
     \<and> md_webhooks db' = update_where (\<lambda>w. pw_event_key w = key) (settle_event s t b r) (md_webhooks db))"

lemma settles_complete: "s \<in> S \<Longrightarrow> settles S key db (complete_event tx key s b r db)"
  unfolding settles_def complete_event_def update_events_sel by blast

lemma settles_queue: "''queued'' \<in> S \<Longrightarrow> settles S key db (queue_event key b r db)"
  unfolding settles_def queue_event_def update_events_sel by blast

lemma settles_cong: "settles S key db1 x \<Longrightarrow> md_webhooks db1 = md_webhooks db \<Longrightarrow> settles S key db x"
  by (simp add: settles_def)

lemma persist_inbound_webhooks:
  assumes "persist_inbound env ar b e db = Inr (q, db')"
  shows "settles UNIV (im_key e) db db'"
  using assms
  by (auto simp: persist_inbound_def and_then_Inr settles_complete
      intro: settles_cong [OF settles_complete] settles_cong [OF settles_queue]
      dest!: store_webhooks evaluate_webhooks split: if_splits)

lemma persist_echo_webhooks:
  assumes "persist_echo ar b e db = Inr (q, db')"
  shows "settles UNIV (ec_key e) db db'"
  using assms
  by (auto simp: persist_echo_def and_then_Inr settles_complete
      intro: settles_cong [OF settles_complete] dest!: echo_webhooks split: if_splits)

lemma update_where_new:
  assumes "\<forall>x \<in> set xs. \<not> p x"
  shows "update_where p f (xs @ [y]) = xs @ [if p y then f y else y]"
proof -
  have "map (\<lambda>x. if p x then f x else x) xs = xs" using assms by (intro map_idI) auto
  then show ?thesis by (simp add: update_where_def)
qed

lemma events_at_Nil: "events_at db k = [] \<longleftrightarrow> (\<forall>w \<in> set (md_webhooks db). pw_event_key w \<noteq> k)"
  by (auto simp: events_at_def filter_empty_conv)

text \<open>A delivery changes nothing when its event is known, and adds one row for it otherwise.\<close>

lemma persist_event_rows:
  assumes "persist_event env ar e db = Inr (q, db')"
  shows "events_at db (event_key e) \<noteq> [] \<and> db' = db
    \<or> events_at db (event_key e) = [] \<and> (\<exists>w. pw_event_key w = event_key e \<and> md_webhooks db' = md_webhooks db @ [w])"
proof (cases "events_at db (event_key e) = []")
  case False
  then show ?thesis using assms by (auto simp: persist_event_def and_then_Inr claim_event_def split: if_splits)
next
  case True
  then have new: "\<forall>w \<in> set (md_webhooks db). pw_event_key w \<noteq> event_key e" by (simp add: events_at_Nil)
  let ?db = "db\<lparr>md_webhooks := md_webhooks db @ [row_of_event e]\<rparr>"
  have row: "pw_event_key (row_of_event e) = event_key e" by (simp add: row_of_event_def)
  have "claim_event e db = Inr (True, ?db)"
    using assms True by (auto simp: persist_event_def claim_event_def split: if_splits)
  then have step: "(case find_business_id env (ar_tx ar) ?db (event_phone_id e) of
      None \<Rightarrow> Inr (False, complete_event (ar_tx ar) (event_key e) ''ignored'' None (Some ''business_not_found'') ?db)
    | Some b \<Rightarrow> (case e of Inbound m \<Rightarrow> persist_inbound env ar b m ?db | Echo m \<Rightarrow> persist_echo ar b m ?db
        | Status s \<Rightarrow> Inr (True, queue_event (event_key e) (Some b) (Some ''message_status_queued'') ?db))) = Inr (q, db')"
    using assms by (simp add: persist_event_def)
  have "settles UNIV (event_key e) ?db db'"
  proof (cases "find_business_id env (ar_tx ar) ?db (event_phone_id e)")
    case None
    then show ?thesis using step by (auto simp: settles_complete)
  next
    case (Some b)
    then show ?thesis using step
      by (cases e) (auto simp: settles_queue dest: persist_inbound_webhooks persist_echo_webhooks)
  qed
  then show ?thesis using True new row by (auto simp: settles_def update_where_new)
qed

section \<open>The task\<close>

definition keeps_events :: "engine \<Rightarrow> bool" where
  "keeps_events engine \<longleftrightarrow> (\<forall>i db db'. engine i db = Inr db' \<longrightarrow> md_webhooks db' = md_webhooks db)"

lemma decide_rows:
  assumes "keeps_events engine" and "decide_inbound engine ck key i db = Inr (r, db', call)"
  shows "settles {''processed'', ''ignored''} key db db'"
  using assms
  by (auto simp: decide_inbound_def answer_inbound_def and_then_Inr settles_complete keeps_events_def
      intro: settles_cong [OF settles_complete]
      dest!: evaluate_webhooks split: option.splits if_splits)

lemma process_inbound_rows:
  assumes "keeps_events engine" and "process_inbound engine sub ck key w db = Inr (r, db', call)"
  shows "settles {''processed'', ''ignored''} key db db'"
  using assms(2)
  by (auto simp: process_inbound_def and_then_Inr settles_complete
      dest: decide_rows [OF assms(1)] split: option.splits)

lemma update_where_twice:
  assumes "\<And>x. p (f x) = p x"
  shows "update_where p g (update_where p f xs) = update_where p (g \<circ> f) xs"
  using assms by (auto simp: update_where_def)

lemma process_event_rows:
  assumes "keeps_events engine" and "process_cloud_task_event engine sub ck key db = Inr (r, db', call)"
  shows "(db' = db \<and> call = None \<and> (events_at db key = [] \<or> (\<exists>w. events_at db key = [w] \<and> settled_status (pw_status w))))
    \<or> (\<exists>w g. events_at db key = [w] \<and> \<not> settled_status (pw_status w)
        \<and> (\<forall>x. pw_event_key (g x) = pw_event_key x \<and> settled_status (pw_status (g x)))
        \<and> md_webhooks db' = update_where (\<lambda>w. pw_event_key w = key) g (md_webhooks db))"
proof -
  let ?p = "\<lambda>w. pw_event_key w = key"
  let ?f = "\<lambda>w. w\<lparr>pw_status := ''processing'', pw_attempts := pw_attempts w + 1\<rparr>"
  have db1: "md_webhooks (mark_attempt_started key db) = update_where ?p ?f (md_webhooks db)"
    by (simp add: mark_attempt_started_def)
  consider "events_at db key = []" | w where "events_at db key = [w]"
    using assms(2) by (auto simp: process_cloud_task_event_def and_then_Inr one_or_none_Inr)
  then show ?thesis
  proof cases
    case 1
    then show ?thesis using assms(2) by (auto simp: process_cloud_task_event_def and_then_Inr one_or_none_def)
  next
    case w: 2
    show ?thesis
    proof (cases "settled_status (pw_status w)")
      case True
      then show ?thesis using w assms(2) by (auto simp: process_cloud_task_event_def one_or_none_def)
    next
      case False
      have report: "settles S key x (complete_event tx key st b' r' (report_status x p s'))" if "st \<in> S" for S x tx st b' r' p s'
        using settles_cong [OF settles_complete [OF that]] by (simp add: report_status_def)
      have "settles {''processed'', ''ignored''} key (mark_attempt_started key db) db'"
        using w False assms(2) process_inbound_rows [OF assms(1)]
        by (auto simp: process_cloud_task_event_def one_or_none_def Let_def settles_complete report split: if_splits)
      then obtain s t b rs where s: "settled_status s" and rows: "md_webhooks db' =
          update_where ?p (settle_event s t b rs \<circ> ?f) (md_webhooks db)"
        by (auto simp: settles_def db1 update_where_twice settled_status_def)
      show ?thesis
        using w False s rows by (intro disjI2 exI [of _ w] exI [of _ "settle_event s t b rs \<circ> ?f"]) auto
    qed
  qed
qed

section \<open>At most one answer\<close>

text \<open>
  Any interleaving of deliveries, of tasks of any keys, repeated ones included, and of operations
  that do not touch the table of events; the log holds the key of each call of the dialogue that
  was committed.
\<close>

inductive event_run :: "engine \<Rightarrow> messaging_db \<Rightarrow> string list \<Rightarrow> messaging_db \<Rightarrow> bool" for engine db where
  start: "event_run engine db [] db"
| deliver: "event_run engine db log s \<Longrightarrow> persist_event env ar e s = Inr (q, s') \<Longrightarrow> event_run engine db log s'"
| work: "event_run engine db log s \<Longrightarrow> process_cloud_task_event engine sub ck key s = Inr (r, s', call)
    \<Longrightarrow> event_run engine db (if call = None then log else key # log) s'"
| other: "event_run engine db log s \<Longrightarrow> md_webhooks s' = md_webhooks s \<Longrightarrow> event_run engine db log s'"

definition settled_at :: "messaging_db \<Rightarrow> string \<Rightarrow> bool" where
  "settled_at db k \<longleftrightarrow> events_at db k \<noteq> [] \<and> (\<forall>w \<in> set (events_at db k). settled_status (pw_status w))"

lemma settled_append:
  "settled_at db k \<Longrightarrow> md_webhooks db' = md_webhooks db @ [w] \<Longrightarrow> events_at db (pw_event_key w) = [] \<Longrightarrow> settled_at db' k"
  by (auto simp: settled_at_def events_at_def filter_empty_conv)

lemma settled_update:
  assumes "md_webhooks db' = update_where (\<lambda>w. pw_event_key w = key) g (md_webhooks db)"
    and "\<And>x. pw_event_key (g x) = pw_event_key x" and "\<And>x. settled_status (pw_status (g x))"
    and "settled_at db k \<or> (k = key \<and> events_at db key \<noteq> [])"
  shows "settled_at db' k"
proof -
  have "events_at db' k = update_where (\<lambda>w. pw_event_key w = key) g (events_at db k)"
    unfolding events_at_def assms(1) by (rule filter_update_where) (simp add: assms(2))
  then show ?thesis
    using assms(3,4) by (auto simp: settled_at_def update_where_def events_at_def)
qed

lemma event_run_settled:
  assumes "event_run engine db log s" and "keeps_events engine"
  shows "distinct log \<and> (\<forall>k \<in> set log. settled_at s k)"
  using assms(1)
proof (induction rule: event_run.induct)
  case (deliver log s env ar e q s')
  then show ?case using persist_event_rows [OF deliver.hyps(2)] settled_append by metis
next
  case (work log s sub ck key r s' call)
  show ?case
    using process_event_rows [OF assms(2) work.hyps(2)]
  proof (elim disjE exE conjE)
    fix w g
    assume w: "events_at s key = [w]" "\<not> settled_status (pw_status w)"
      and g: "\<forall>x. pw_event_key (g x) = pw_event_key x \<and> settled_status (pw_status (g x))"
        "md_webhooks s' = update_where (\<lambda>w. pw_event_key w = key) g (md_webhooks s)"
    have new: "key \<notin> set log" using work.IH w by (auto simp: settled_at_def)
    have "settled_at s' k" if "settled_at s k \<or> k = key" for k
      using settled_update [OF g(2), of k] g(1) w(1) that by auto
    then show ?thesis using new work.IH by auto
  qed (use work.IH in auto)
next
  case (other log s s')
  then show ?case by (simp add: settled_at_def events_at_def)
qed simp

text \<open>
  C21. A message of a customer is answered at most once: however often Meta delivers an event and
  the queue runs its task, in any order with any other work, the dialogue commits at most one
  answer for it, and an event that was answered stays settled.
\<close>

theorem answered_once:
  assumes "event_run engine db log s" and "keeps_events engine"
  shows "count_list log k \<le> 1 \<and> (k \<in> set log \<longrightarrow> (\<forall>w \<in> set (events_at s k). settled_status (pw_status w)))"
proof -
  have "distinct log" "\<forall>k \<in> set log. settled_at s k" using event_run_settled [OF assms] by auto
  moreover have "distinct xs \<Longrightarrow> count_list xs k \<le> 1" for xs :: "string list"
    by (induction xs) (auto simp: count_list_0_iff)
  ultimately show ?thesis by (auto simp: settled_at_def)
qed

end
