(* ===== verification/AnswerGuards.thy ===== *)
theory AnswerGuards
  imports EventSafety "HOL-Library.Multiset"
begin

text \<open>
  When a received message is answered and with what: the guards of the task, the turn of a burst of
  fragments, repeated deliveries, and two ways in which the code loses what a customer wrote or what
  the provider reported.
\<close>

section \<open>A sample of received events\<close>

definition sample_row :: "string \<Rightarrow> string \<Rightarrow> webhook_row" where
  "sample_row key pid = \<lparr>pw_event_key = key, pw_business = Some 10, pw_provider_id = Some pid,
     pw_type = ''message.inbound.text'', pw_status = ''queued'', pw_reason = None, pw_failure_code = None,
     pw_attempts = 1, pw_processed_at = None\<rparr>"

definition sample_fragment :: "uuid \<Rightarrow> string \<Rightarrow> string \<Rightarrow> instant \<Rightarrow> message" where
  "sample_fragment i pid body t = sample_message\<lparr>ms_id := i, ms_provider_id := Some pid, ms_direction := ''inbound'',
     ms_body := Some body, ms_status := ''received'', ms_key := None, ms_created := t\<rparr>"

definition sample_received :: "message list \<Rightarrow> webhook_row list \<Rightarrow> messaging_db" where
  "sample_received ms ws = sample_messaging\<lparr>md_exclusions := [], md_messages := ms, md_webhooks := ws\<rparr>"

definition sample_inbox :: messaging_db where
  "sample_inbox = sample_received [sample_fragment 42 ''p'' ''Oi'' 0] [sample_row ''k'' ''p'']"

definition echoing :: engine where
  "echoing i db = Inr db"

definition work_sample :: "messaging_db \<Rightarrow> task_result" where
  "work_sample = process_cloud_task_event echoing (\<lambda>_. True) \<lparr>ck_tx = 0, ck_now = 0\<rparr> ''k''"

lemma echoing_keeps [simp]: "keeps_events echoing"
  by (simp add: keeps_events_def echoing_def)

lemma sample_answered: "case work_sample sample_inbox of
    Inl e \<Rightarrow> False
  | Inr (r, s, call) \<Rightarrow> r \<and> call \<noteq> None \<and> map pw_status (events_at s ''k'') = [''processed'']"
  by code_simp

theorem answered_once_witness:
  "\<exists>s. event_run echoing sample_inbox [''k''] s \<and> count_list [''k''] ''k'' \<le> 1
     \<and> (\<forall>w \<in> set (events_at s ''k''). settled_status (pw_status w))"
proof -
  obtain r s i where work: "work_sample sample_inbox = Inr (r, s, Some i)"
    using sample_answered by (auto split: sum.splits)
  have run: "event_run echoing sample_inbox [''k''] s"
    using event_run.work [OF event_run.start work [unfolded work_sample_def]] by simp
  then show ?thesis using answered_once [OF run echoing_keeps, of "''k''"] by auto
qed

section \<open>The guards of an answer\<close>

lemma policy_cong:
  assumes "md_exclusions db' = md_exclusions db" "md_conversations db' = md_conversations db"
  shows "active_exclusion sql_repository db' b w = active_exclusion sql_repository db b w"
    and "lock_conversation_control db' b c = lock_conversation_control db b c"
proof -
  have "first_exclusion sql_repository db' b ids = first_exclusion sql_repository db b ids" for ids
    by (induction ids) (auto simp: sql_repository_def get_active_exclusion_mode_def assms split: sum.split option.split)
  then show "active_exclusion sql_repository db' b w = active_exclusion sql_repository db b w"
    by (simp add: active_exclusion_def split: sum.split)
  show "lock_conversation_control db' b c = lock_conversation_control db b c"
    by (simp add: lock_conversation_control_def conversations_at_def assms)
qed

lemma evaluate_Allowed:
  assumes "evaluate_customer_inbound sql_repository now b c mode db = Inr (Allowed, db')"
  shows "mode = None \<and> (\<exists>k. lock_conversation_control db b c = Inr k \<and> cc_enabled k
     \<and> cc_handoff k \<noteq> ''waiting'' \<and> cc_handoff k \<noteq> ''human_only''
     \<and> (\<forall>u. cc_suppressed_until k = Some u \<longrightarrow> u \<le> now))"
  using assms
  by (auto simp: evaluate_customer_inbound_def sql_repository_def
      split: option.splits exclusion_mode.splits sum.splits if_splits)

lemma inbound_rowsD:
  assumes "load_inbound_row db pid = Inr (Some row)"
  shows "lr_message row \<in> set (md_messages db) \<and> ms_provider_id (lr_message row) = Some pid
    \<and> ms_direction (lr_message row) = ''inbound''
    \<and> lr_conversation row \<in> set (conversations_at db (ms_business (lr_message row)) (ms_conversation (lr_message row)))
    \<and> lr_customer row \<in> set (md_customers db) \<and> cu_id (lr_customer row) = cv_customer (lr_conversation row)"
proof -
  have "row \<in> set (inbound_rows db pid)"
    using assms by (auto simp: load_inbound_row_def one_or_none_Inr)
  then show ?thesis by (auto simp: inbound_rows_def)
qed

lemma load_inbound_row_cong:
  assumes "md_messages db' = md_messages db" "md_conversations db' = md_conversations db" "md_customers db' = md_customers db"
  shows "load_inbound_row db' pid = load_inbound_row db pid"
  by (simp add: load_inbound_row_def inbound_rows_def conversations_at_def assms)

lemma attempt_sel [simp]:
  "md_messages (mark_attempt_started k db) = md_messages db"
  "md_conversations (mark_attempt_started k db) = md_conversations db"
  "md_customers (mark_attempt_started k db) = md_customers db"
  "md_exclusions (mark_attempt_started k db) = md_exclusions db"
  by (simp_all add: mark_attempt_started_def)

lemma turn_input:
  assumes "load_inbound db pid = Inr (Some l)" and "load_inbound_turn db pid = Inr (Some a)"
    and "i = prefer_latest_substantive_fragment sub l a"
  shows "\<exists>row body. load_inbound_row db pid = Inr (Some row) \<and> i = input_of row body
    \<and> (ms_type (lr_message row) = ''text'' \<and> ms_interactive_id (lr_message row) = None
         \<longrightarrow> (\<forall>x \<in> set (md_messages db). \<not> newer_fragment (lr_message row) x))"
  using assms
  by (auto simp: load_inbound_def load_inbound_turn_def and_then_Inr prefer_latest_substantive_fragment_def
      Let_def list_ex_iff split: option.splits if_splits)

text \<open>
  C22. Who is answered: the dialogue is called only for a received message of the event that is not
  settled, that no later fragment of the same burst follows, whose contact has no active exclusion
  under any identifier, and whose conversation has the assistant on, waits for nobody and is
  under no human control at that moment; what it gets is the business, the conversation and the
  customer of that message.
\<close>

theorem answer_guarded:
  assumes "process_cloud_task_event engine sub ck key db = Inr (r, db', Some i)"
  shows "\<exists>w pid row k. events_at db key = [w] \<and> \<not> settled_status (pw_status w)
    \<and> starts_with (pw_type w) ''message.inbound.'' \<and> pw_provider_id w = Some pid
    \<and> load_inbound_row db pid = Inr (Some row)
    \<and> (ms_type (lr_message row) = ''text'' \<and> ms_interactive_id (lr_message row) = None
         \<longrightarrow> (\<forall>x \<in> set (md_messages db). \<not> newer_fragment (lr_message row) x))
    \<and> in_business i = ms_business (lr_message row) \<and> in_conversation i = ms_conversation (lr_message row)
    \<and> in_customer i = cu_id (lr_customer row)
    \<and> active_exclusion sql_repository db (in_business i) (cu_whatsapp_id (lr_customer row)) = Inr None
    \<and> lock_conversation_control db (in_business i) (in_conversation i) = Inr k
    \<and> cc_enabled k \<and> cc_handoff k \<noteq> ''waiting'' \<and> cc_handoff k \<noteq> ''human_only''
    \<and> (\<forall>u. cc_suppressed_until k = Some u \<longrightarrow> u \<le> ck_now ck)"
proof -
  let ?db = "mark_attempt_started key db"
  obtain w where at: "events_at db key = [w]"
    using assms by (auto simp: process_cloud_task_event_def and_then_Inr one_or_none_Inr)
  then have w: "events_at db key = [w]" "\<not> settled_status (pw_status w)"
      "starts_with (pw_type w) ''message.inbound.''"
    and p: "process_inbound engine sub ck key w ?db = Inr (r, db', Some i)"
    using assms by (auto simp: process_cloud_task_event_def one_or_none_def Let_def split: if_splits)
  obtain pid l a where pid: "pw_provider_id w = Some pid" and l: "load_inbound ?db pid = Inr (Some l)"
    and a: "load_inbound_turn ?db pid = Inr (Some a)"
    and d: "decide_inbound engine ck key (prefer_latest_substantive_fragment sub l a) ?db = Inr (r, db', Some i)"
    using p by (auto simp: process_inbound_def and_then_Inr split: option.splits)
  obtain x wid db1 mode where wid: "in_whatsapp_id i = Some wid"
    and mode: "active_exclusion sql_repository ?db (in_business i) wid = Inr mode"
    and ev: "evaluate_customer_inbound sql_repository (ck_now ck) (in_business i) (in_conversation i) mode ?db = Inr (Allowed, db1)"
    and i: "i = prefer_latest_substantive_fragment sub l a"
    using d by (auto simp: decide_inbound_def answer_inbound_def and_then_Inr split: option.splits if_splits)
  obtain row body where row: "load_inbound_row ?db pid = Inr (Some row)" "i = input_of row body"
    and last: "ms_type (lr_message row) = ''text'' \<and> ms_interactive_id (lr_message row) = None
         \<longrightarrow> (\<forall>x \<in> set (md_messages ?db). \<not> newer_fragment (lr_message row) x)"
    using turn_input [OF l a i] by blast
  have row': "load_inbound_row db pid = Inr (Some row)" using row(1) by (simp add: load_inbound_row_cong [of ?db db])
  have "wid = cu_whatsapp_id (lr_customer row)" using wid row(2) by (simp add: input_of_def)
  then show ?thesis
    using w pid row' last evaluate_Allowed [OF ev] mode inbound_rowsD [OF row']
    by (auto simp: policy_cong [of ?db db] row(2) input_of_def)
qed

theorem answer_guarded_witness:
  "active_exclusion sql_repository sample_inbox 10 ''5511987654321'' = Inr None"
proof -
  obtain r s i where work: "work_sample sample_inbox = Inr (r, s, Some i)"
    using sample_answered by (auto split: sum.splits)
  from answer_guarded [OF work [unfolded work_sample_def]] obtain pid row
    where row: "load_inbound_row sample_inbox pid = Inr (Some row)" and b: "in_business i = ms_business (lr_message row)"
      and e: "active_exclusion sql_repository sample_inbox (in_business i) (cu_whatsapp_id (lr_customer row)) = Inr None"
    by (elim exE conjE)
  have "lr_message row \<in> set (md_messages sample_inbox)" "lr_customer row \<in> set (md_customers sample_inbox)"
    using inbound_rowsD [OF row] by simp_all
  then show ?thesis using b e
    by (simp add: sample_inbox_def sample_received_def sample_messaging_def sample_customer_def sample_fragment_def
        sample_message_def)
qed

end
