(* ===== verification/Turns.thy ===== *)
theory Turns
  imports AnswerGuards
begin

text \<open>
  The turns of a conversation: of the fragments of a burst exactly the last one is answered, with
  the text of all of them, unless something was sent in between.
\<close>

section \<open>A burst\<close>

definition stripped_body :: "message \<Rightarrow> string" where
  "stripped_body x = strip (the (ms_body x))"

definition spoken :: "message \<Rightarrow> bool" where
  "spoken x \<longleftrightarrow> ms_body x \<noteq> None \<and> stripped_body x \<noteq> []"

lemma turn_bodies_chain:
  assumes "successively (\<lambda>x y. ms_created x - ms_created y \<le> turn_window) (a # xs)" and "list_all spoken xs"
  shows "turn_bodies (ms_created a) xs = map stripped_body xs"
  using assms
  by (induction xs arbitrary: a) (auto simp: spoken_def stripped_body_def)

text \<open>
  The fragments of a conversation in the order of their arrival, those that an answer followed
  first: nothing was sent after the burst began. A turn reads at most twenty messages.
\<close>

definition burst :: "messaging_db \<Rightarrow> message list \<Rightarrow> message list \<Rightarrow> bool" where
  "burst db old bs \<longleftrightarrow> bs \<noteq> [] \<and> length bs \<le> 20
     \<and> mset (filter (fragment (last bs)) (md_messages db)) = mset (old @ bs)
     \<and> sorted_wrt (\<lambda>x y. arrival_key x < arrival_key y) (old @ bs)
     \<and> successively (\<lambda>x y. ms_created y - ms_created x \<le> turn_window) bs
     \<and> list_all (\<lambda>x. spoken x \<and> ms_interactive_id x = None) bs
     \<and> (\<forall>x \<in> set old. \<exists>w \<in> set (md_messages db). same_conversation (last bs) w \<and> ms_direction w = ''outbound''
          \<and> ms_created x \<le> ms_created w)
     \<and> (\<forall>w \<in> set (md_messages db). same_conversation (last bs) w \<and> ms_direction w = ''outbound''
          \<longrightarrow> ms_created w < ms_created (hd bs))"

definition loadable :: "messaging_db \<Rightarrow> message \<Rightarrow> bool" where
  "loadable db x \<longleftrightarrow> (\<exists>row. load_inbound_row db (provider_id_of x) = Inr (Some row) \<and> lr_message row = x)"

lemma arrival_created: "arrival_key x < arrival_key y \<Longrightarrow> ms_created x \<le> ms_created y"
  by (auto simp: arrival_key_def)

lemma burst_members:
  assumes "burst db old bs" and "x \<in> set bs"
  shows "x \<in> set (md_messages db) \<and> fragment (last bs) x"
proof -
  have "set (filter (fragment (last bs)) (md_messages db)) = set (old @ bs)"
    using assms(1) by (metis burst_def set_mset_mset)
  then show ?thesis using assms(2) by auto
qed

lemma fragment_trans: "fragment l x \<Longrightarrow> fragment l y \<Longrightarrow> fragment x y"
  by (simp add: fragment_def same_conversation_def)

lemma burst_hd_le: "burst db old bs \<Longrightarrow> x \<in> set bs \<Longrightarrow> ms_created (hd bs) \<le> ms_created x"
  by (cases bs) (auto simp: burst_def sorted_wrt_append dest: arrival_created)

lemma burst_le_last:
  assumes "burst db old bs" and "x \<in> set (old @ bs)" and "x \<noteq> last bs"
  shows "arrival_key x < arrival_key (last bs)"
proof -
  obtain ys l where bs: "bs = ys @ [l]" using assms(1) by (cases bs rule: rev_cases) (auto simp: burst_def)
  then have "sorted_wrt (\<lambda>x y. arrival_key x < arrival_key y) (old @ ys @ [l])" using assms(1) by (simp add: burst_def)
  then show ?thesis using assms(2,3) by (auto simp: bs sorted_wrt_append)
qed

lemma burst_newer:
  assumes "burst db old bs" and "x \<in> set (butlast bs)"
  shows "\<exists>y \<in> set (md_messages db). newer_fragment x y"
proof -
  obtain k where k: "k < length (butlast bs)" "x = butlast bs ! k" using assms(2) by (auto simp: in_set_conv_nth)
  let ?y = "bs ! Suc k"
  have len: "Suc k < length bs" and x: "x = bs ! k" using k by (auto simp: nth_butlast)
  have "sorted_wrt (\<lambda>x y. arrival_key x < arrival_key y) bs" using assms(1) by (auto simp: burst_def sorted_wrt_append)
  then have less: "arrival_key x < arrival_key ?y" using len x by (simp add: sorted_wrt_iff_nth_less)
  have "ms_created ?y - ms_created x \<le> turn_window"
    using assms(1) len x by (auto simp: burst_def successively_conv_nth)
  moreover have "x \<in> set bs" "?y \<in> set bs" using len x by auto
  then have "?y \<in> set (md_messages db)" "fragment x ?y"
    using burst_members [OF assms(1)] by (auto intro: fragment_trans)
  ultimately show ?thesis using less by (auto simp: newer_fragment_def)
qed

lemma burst_last_newest:
  assumes "burst db old bs"
  shows "\<not> list_ex (newer_fragment (last bs)) (md_messages db)"
proof
  assume "list_ex (newer_fragment (last bs)) (md_messages db)"
  then obtain y where y: "y \<in> set (filter (fragment (last bs)) (md_messages db))" "arrival_key (last bs) < arrival_key y"
    by (auto simp: list_ex_iff newer_fragment_def)
  have "set (filter (fragment (last bs)) (md_messages db)) = set (old @ bs)"
    using assms by (metis burst_def set_mset_mset)
  then have "y \<in> set (old @ bs)" using y(1) by (simp del: set_append)
  then show False using burst_le_last [OF assms, of y] y(2) by (metis order.asym order.irrefl)
qed

lemma burst_turn_messages:
  assumes "burst db old bs"
  shows "turn_messages db (last bs) = rev bs"
proof -
  let ?l = "last bs"
  let ?after = "\<lambda>x. case last_outbound db ?l of None \<Rightarrow> True | Some t \<Rightarrow> t < ms_created x"
  let ?out = "\<lambda>w. w \<in> set (md_messages db) \<and> same_conversation ?l w \<and> ms_direction w = ''outbound''"
  have l: "?l \<in> set bs" using assms by (simp add: burst_def)
  have before: "ms_created w < ms_created (hd bs)" if "?out w" for w using assms that by (auto simp: burst_def)
  have le_l: "ms_created x \<le> ms_created ?l" if "x \<in> set (old @ bs)" for x
    using burst_le_last [OF assms that] arrival_created by (cases "x = ?l") auto
  have keep: "ms_created x \<le> ms_created ?l \<and> ?after x" if "x \<in> set bs" for x
  proof -
    have "?after x"
    proof (cases "last_outbound db ?l")
      case (Some t)
      then obtain w where "?out w" "ms_created w = t"
        unfolding last_outbound_def by (drule_tac max_by_Some) auto
      then show ?thesis using Some before burst_hd_le [OF assms that] by fastforce
    qed simp
    then show ?thesis using le_l that by simp
  qed
  have drop: "\<not> ?after x" if x: "x \<in> set old" for x
  proof -
    obtain w where w: "?out w" "ms_created x \<le> ms_created w" using assms x by (auto simp: burst_def)
    have "ms_created w \<le> ms_created ?l" using before [OF w(1)] burst_hd_le [OF assms l] by simp
    then have mem: "ms_created w \<in> set (map ms_created (filter (\<lambda>x. same_conversation ?l x \<and> ms_direction x = ''outbound''
        \<and> ms_created x \<le> ms_created ?l) (md_messages db)))" using w(1) by auto
    then have "last_outbound db ?l \<noteq> None" unfolding last_outbound_def max_by_None by force
    then obtain t where t: "last_outbound db ?l = Some t" by blast
    have "ms_created w \<le> t" using bspec [OF conjunct2 [OF max_by_Some [OF t [unfolded last_outbound_def]]] mem] by simp
    then show ?thesis using t w(2) by simp
  qed
  have "filter (\<lambda>x. ms_created x \<le> ms_created ?l \<and> ?after x) (old @ bs) = bs"
    using keep drop by (auto simp: filter_empty_conv filter_id_conv)
  moreover have "mset (filter (fragment ?l) (md_messages db)) = mset (old @ bs)" using assms by (simp add: burst_def)
  then have "mset (filter (\<lambda>x. ms_created x \<le> ms_created ?l \<and> ?after x) (filter (fragment ?l) (md_messages db)))
      = mset (filter (\<lambda>x. ms_created x \<le> ms_created ?l \<and> ?after x) (old @ bs))"
    by (metis mset_filter)
  ultimately have ms: "mset (filter (\<lambda>x. fragment ?l x \<and> ms_created x \<le> ms_created ?l \<and> ?after x) (md_messages db)) = mset bs"
    by (simp add: filter_filter conj_ac)
  have sorted: "sorted_wrt (\<lambda>x y. arrival_key x < arrival_key y) bs" using assms by (auto simp: burst_def sorted_wrt_append)
  then have "sorted_wrt (<) (map arrival_key bs)" by (simp add: sorted_wrt_map)
  then have key: "sorted (map arrival_key bs)" "distinct (map arrival_key bs)"
    by (simp_all add: strict_sorted_iff)
  have "set bs = set (filter (\<lambda>x. fragment ?l x \<and> ms_created x \<le> ms_created ?l \<and> ?after x) (md_messages db))"
    using ms by (metis set_mset_mset)
  then have "sort_key arrival_key (filter (\<lambda>x. fragment ?l x \<and> ms_created x \<le> ms_created ?l \<and> ?after x) (md_messages db)) = bs"
    using ms key by (intro sort_key_inj_key_eq) (auto simp: distinct_map)
  then show ?thesis using assms by (simp add: turn_messages_def burst_def)
qed

text \<open>
  C23. One answer for a burst. Take at most twenty text messages of a contact, none of them blank, that
  follow each other within three seconds, with nothing sent since the first of them and something
  sent since every earlier text message of the conversation. The task of every one but the last
  leaves the answer to a later one, and the last one is given the text of all of them in the order
  they were written. Of a longer burst the query reads the last twenty only.
\<close>

theorem burst_answered_by_last:
  assumes "burst db old bs" and "list_all (loadable db) bs"
  shows "(\<forall>x \<in> set (butlast bs). load_inbound_turn db (provider_id_of x) = Inr None)
    \<and> (\<exists>i. load_inbound_turn db (provider_id_of (last bs)) = Inr (Some i)
         \<and> in_body i = Some (join newline (map stripped_body bs)))"
proof (intro conjI ballI)
  fix x assume x: "x \<in> set (butlast bs)"
  then have mem: "x \<in> set bs" by (rule in_set_butlastD)
  obtain row where "load_inbound_row db (provider_id_of x) = Inr (Some row)" "lr_message row = x"
    using assms(2) mem by (auto simp: list_all_iff loadable_def)
  moreover have "ms_type x = ''text''" "ms_interactive_id x = None"
    using burst_members [OF assms(1) mem] assms(1) mem by (auto simp: fragment_def burst_def list_all_iff)
  ultimately show "load_inbound_turn db (provider_id_of x) = Inr None"
    using burst_newer [OF assms(1) x] by (auto simp: load_inbound_turn_def list_ex_iff)
next
  have ne: "bs \<noteq> []" using assms(1) by (simp add: burst_def)
  then have mem: "last bs \<in> set bs" by simp
  obtain row where row: "load_inbound_row db (provider_id_of (last bs)) = Inr (Some row)" "lr_message row = last bs"
    using assms(2) mem by (auto simp: list_all_iff loadable_def)
  have is_text: "ms_type (last bs) = ''text''" "ms_interactive_id (last bs) = None"
    using burst_members [OF assms(1) mem] assms(1) mem by (auto simp: fragment_def burst_def list_all_iff)
  have revs: "rev bs = last bs # rev (butlast bs)" using ne by (metis append_butlast_last_id rev_eq_Cons_iff rev_rev_ident)
  have "successively (\<lambda>x y. ms_created x - ms_created y \<le> turn_window) (rev bs)"
    using assms(1) by (simp add: successively_rev burst_def)
  moreover have "list_all spoken (rev bs)" using assms(1) by (auto simp: burst_def list_all_iff)
  ultimately have "turn_bodies (ms_created (last bs)) (rev bs) = map stripped_body (rev bs)"
    using turn_bodies_chain [of "last bs" "last bs # rev (butlast bs)"]
    unfolding revs by (simp add: turn_window_def del: turn_bodies.simps)
  then have "combined_body db (last bs) = Some (join newline (map stripped_body bs))"
    using ne by (simp add: combined_body_def burst_turn_messages [OF assms(1)] rev_map)
  then show "\<exists>i. load_inbound_turn db (provider_id_of (last bs)) = Inr (Some i)
      \<and> in_body i = Some (join newline (map stripped_body bs))"
    using row is_text burst_last_newest [OF assms(1)] by (auto simp: load_inbound_turn_def input_of_def Let_def)
qed

text \<open>Two fragments within three seconds.\<close>

definition sample_burst :: "message list" where
  "sample_burst = [sample_fragment 42 ''a'' ''Quero limpeza'' 0, sample_fragment 43 ''b'' ''amanha'' 2000000]"

definition burst_inbox :: "message list \<Rightarrow> messaging_db" where
  "burst_inbox extra = sample_received (sample_burst @ extra) []"

lemma sample_loadable: "list_all (loadable (burst_inbox [])) sample_burst"
  by (simp add: loadable_def load_inbound_row_def inbound_rows_def burst_inbox_def sample_burst_def sample_received_def
      sample_fragment_def sample_rows provider_id_of_def conversations_at_def conversation_at_def one_or_none_def)

lemma sample_is_burst: "burst (burst_inbox []) [] sample_burst"
  by (simp add: burst_def burst_inbox_def sample_burst_def sample_received_def sample_fragment_def fragment_def
      same_conversation_def sample_message_def arrival_key_def turn_window_def spoken_def stripped_body_def) code_simp

theorem burst_answered_by_last_witness:
  "load_inbound_turn (burst_inbox []) ''a'' = Inr None
   \<and> (\<exists>i. load_inbound_turn (burst_inbox []) ''b'' = Inr (Some i)
        \<and> in_body i = Some (''Quero limpeza'' @ newline @ ''amanha''))"
proof -
  have "stripped_body (hd sample_burst) = ''Quero limpeza''" "stripped_body (last sample_burst) = ''amanha''" by code_simp+
  then show ?thesis
    using burst_answered_by_last [OF sample_is_burst sample_loadable]
    by (simp add: sample_burst_def sample_fragment_def provider_id_of_def)
qed

section \<open>What is lost\<close>

text \<open>
  A fragment can be lost: when the assistant's previous answer is stored between two fragments
  that follow each other within three seconds, the task of the first leaves the answer to the
  second, and the turn of the second starts after the stored answer, so nothing the dialogue ever
  receives holds the first.
\<close>

theorem fragment_lost:
  "load_inbound_turn (burst_inbox [sample_message\<lparr>ms_created := 1000000\<rparr>]) ''a'' = Inr None
   \<and> (case load_inbound_turn (burst_inbox [sample_message\<lparr>ms_created := 1000000\<rparr>]) ''b'' of
        Inr (Some i) \<Rightarrow> in_body i = Some ''amanha'' | _ \<Rightarrow> False)"
  by code_simp

end
