(* ===== verification/Deliveries.thy ===== *)
theory Deliveries
  imports AnswerGuards
begin

text \<open>
  What deliveries keep: a contact has one customer and one conversation however often and in
  whatever order its messages and echoes arrive, and delivering a request again changes nothing.
\<close>

section \<open>Unique rows\<close>

lemma keys_ok_outreach [simp]:
  "(\<And>x. co_id (h x) = co_id x \<and> co_key (h x) = co_key x) \<Longrightarrow> keys_ok (update_outreach p h db) = keys_ok db"
  by (simp add: keys_ok_def map_update_where)

lemma keys_ok_events [simp]:
  "(\<And>x. pw_event_key (h x) = pw_event_key x) \<Longrightarrow> keys_ok (update_events k h db) = keys_ok db"
  by (simp add: keys_ok_def map_update_where)

lemma keys_ok_settle [simp]:
  "keys_ok (complete_event tx key s b r db) = keys_ok db" "keys_ok (queue_event key b r db) = keys_ok db"
  by (simp_all add: complete_event_def queue_event_def)

lemma keys_ok_claim: "keys_ok db \<Longrightarrow> claim_event e db = Inr (q, db') \<Longrightarrow> keys_ok db'"
  by (auto simp: claim_event_def keys_ok_def row_of_event_def events_at_Nil split: if_splits) blast

lemma keys_ok_customer:
  "keys_ok db \<Longrightarrow> get_or_create_customer_id f b w p db = Inr (u, db') \<Longrightarrow> keys_ok db'"
  by (auto simp: get_or_create_customer_id_def keys_ok_def new_customer_def contact_at_def and_then_Inr list_ex_iff
      map_update_where Let_def split: if_splits)

lemma keys_ok_conversation:
  "keys_ok db \<Longrightarrow> get_or_create_conversation_id f b u i tx db = Inr (c, db') \<Longrightarrow> keys_ok db'"
  by (auto simp: get_or_create_conversation_id_def Let_def keys_ok_def new_conversation_def customer_conversation_def
      filter_empty_conv and_then_Inr list_ex_iff resurrect_def map_update_where split: if_splits option.splits)

lemma keys_ok_response [simp]: "keys_ok (mark_outreach_response env b c body t db) = keys_ok db"
  by (simp add: mark_outreach_response_def Let_def fail_message_def split: option.split)

lemma keys_ok_push [simp]: "keys_ok (insert_push key b kind path db) = keys_ok db"
  by (simp add: insert_push_def keys_ok_def)

lemma keys_ok_insert: "keys_ok db \<Longrightarrow> insert_message m db = Inr db' \<Longrightarrow> keys_ok db'"
  by (auto simp: insert_message_def keys_ok_def list_ex_iff split: if_splits) blast+

lemma keys_ok_persist_message:
  "keys_ok db \<Longrightarrow> persist_inbound_message env ar b c e db = Inr db' \<Longrightarrow> keys_ok db'"
  by (auto simp: persist_inbound_message_def and_then_Inr dest: keys_ok_insert)

lemma keys_ok_touch [simp]: "keys_ok (touch_conversation tx c db) = keys_ok db"
  by (simp add: touch_conversation_def)

lemma keys_ok_evaluate:
  "keys_ok db \<Longrightarrow> evaluate_customer_inbound sql_repository now b c mode db = Inr (d, db') \<Longrightarrow> keys_ok db'"
  by (auto simp: evaluate_customer_inbound_def sql_repository_def mark_human_only_def
      clear_temporary_suppression_def split: option.splits exclusion_mode.splits sum.splits if_splits)

lemma keys_ok_register:
  "keys_ok db \<Longrightarrow> register_manual_business_message sql_repository b c t db = Inr (u, db') \<Longrightarrow> keys_ok db'"
  using sql_policy.valid(3) by (simp add: register_manual_business_message_def)

lemma keys_ok_store: "keys_ok db \<Longrightarrow> store_inbound env ar b e db = Inr (u, c, db') \<Longrightarrow> keys_ok db'"
  by (auto simp: store_inbound_def and_then_Inr
      dest!: keys_ok_customer [rotated] keys_ok_conversation [rotated] keys_ok_persist_message [rotated])

lemma keys_ok_inbound: "keys_ok db \<Longrightarrow> persist_inbound env ar b e db = Inr (q, db') \<Longrightarrow> keys_ok db'"
  by (auto simp: persist_inbound_def and_then_Inr dest!: keys_ok_store [rotated] keys_ok_evaluate [rotated] split: if_splits)

lemma keys_ok_echo: "keys_ok db \<Longrightarrow> persist_echo ar b e db = Inr (q, db') \<Longrightarrow> keys_ok db'"
  by (auto simp: persist_echo_def register_echo_def and_then_Inr
      dest!: keys_ok_customer [rotated] keys_ok_conversation [rotated] keys_ok_evaluate [rotated] keys_ok_register [rotated]
      split: if_splits)

lemma keys_ok_persist: "keys_ok db \<Longrightarrow> persist_event env ar e db = Inr (q, db') \<Longrightarrow> keys_ok db'"
  by (auto simp: persist_event_def and_then_Inr dest!: keys_ok_claim [rotated] keys_ok_inbound [rotated] keys_ok_echo [rotated]
      split: if_splits option.splits webhook_event.splits)

lemma keys_ok_status: "keys_ok db \<Longrightarrow> persist_webhook_events env es ks db = (r, db') \<Longrightarrow> keys_ok db'"
  by (induction env es ks db rule: persist_webhook_events.induct)
    (auto simp: Let_def and_then_Inr dest: keys_ok_persist split: if_splits sum.splits prod.splits)

text \<open>
  One conversation per contact: whatever a request delivers, in any order, and wherever an
  error stops it, a business keeps one customer for each contact and one conversation for each
  customer, and identifiers and event keys stay unique.
\<close>

theorem inbox_keys:
  assumes "keys_ok db" and "persist_webhook_events env es [] db = (r, db')"
  shows "keys_ok db' \<and> distinct (map (\<lambda>u. (cu_business u, cu_whatsapp_id u)) (md_customers db'))
    \<and> distinct (map (\<lambda>c. (cv_business c, cv_customer c)) (md_conversations db'))"
  using keys_ok_status [OF assms] by (simp add: keys_ok_def)

section \<open>Repeated deliveries\<close>

definition known :: "messaging_db \<Rightarrow> webhook_event \<Rightarrow> bool" where
  "known db e \<longleftrightarrow> collective_event e \<or> (failure_code_allowed (event_failure_code e) \<and> events_at db (event_key e) \<noteq> [])"

lemma persist_known:
  assumes "keys_ok db" and "known db e" and "\<not> collective_event e"
  shows "\<exists>q. persist_event env ar e db = Inr (q, db)"
proof -
  have "distinct (map pw_event_key (md_webhooks db))" using assms(1) by (simp add: keys_ok_def)
  then have "events_at db (event_key e) = [] \<or> (\<exists>w. events_at db (event_key e) = [w])"
    unfolding events_at_def by (rule filter_key_single) simp
  then obtain w where "events_at db (event_key e) = [w]" using assms(2,3) by (auto simp: known_def)
  then show ?thesis
    using assms by (simp add: persist_event_def claim_event_def known_def get_event_status_def one_or_none_def)
qed

lemma repeat_known:
  "keys_ok db \<Longrightarrow> \<forall>e \<in> snd ` set es. known db e \<Longrightarrow> \<exists>ks'. persist_webhook_events env es ks db = (Inr ks', db)"
proof (induction es arbitrary: ks)
  case (Cons x es)
  obtain ar e where x: "x = (ar, e)" by fastforce
  show ?case
  proof (cases "collective_event e")
    case False
    then obtain q where "persist_event env ar e db = Inr (q, db)" using persist_known Cons.prems x by fastforce
    then show ?thesis using Cons x False by simp
  qed (use Cons x in simp)
qed simp

lemma known_mono:
  assumes "persist_event env ar e db = Inr (q, db')" and "known db e'"
  shows "known db' e'"
  using persist_event_rows [OF assms(1)] assms(2) by (auto simp: known_def events_at_def)

lemma persist_knows: "persist_event env ar e db = Inr (q, db') \<Longrightarrow> known db' e"
  using persist_event_rows [of env ar e db q db']
  by (auto simp: known_def events_at_def persist_event_def and_then_Inr claim_event_def split: if_splits)

text \<open>The claim is the only statement that could violate the key of the events, and it cannot.\<close>

definition no_key_error :: "messaging_error + 'a \<Rightarrow> bool" where
  "no_key_error r \<longleftrightarrow> r \<noteq> Inl (IntegrityViolation ''uq_processed_webhooks_event_key'')"

lemma no_key_error_simps [simp]:
  "no_key_error (Inr x)" "no_key_error (Inl e) \<longleftrightarrow> e \<noteq> IntegrityViolation ''uq_processed_webhooks_event_key''"
  by (simp_all add: no_key_error_def)

lemma no_key_error_and_then:
  "no_key_error r \<Longrightarrow> (\<And>x. r = Inr x \<Longrightarrow> no_key_error (f x)) \<Longrightarrow> no_key_error (and_then r f)"
  by (cases r) (auto simp: no_key_error_def)

lemma no_key_error_rows [simp]: "no_key_error (one_or_none xs)" "no_key_error (exactly_one xs)"
  by (auto simp: one_or_none_def exactly_one_def split: list.split)

lemma no_key_error_aliases [simp]: "no_key_error (whatsapp_id_lookup_aliases w)"
  by (auto simp: whatsapp_id_lookup_aliases_def normalize_whatsapp_id_def Let_def split: sum.splits if_splits)

lemma no_key_error_mode [simp]: "no_key_error (exclusion_mode_of m)"
  by (simp add: exclusion_mode_of_def)

lemma no_key_error_sum:
  "no_key_error r \<Longrightarrow> (\<And>x. no_key_error (f x)) \<Longrightarrow> no_key_error (case r of Inl e \<Rightarrow> Inl e | Inr x \<Rightarrow> f x)"
  by (cases r) auto

lemma no_key_error_exclusion [simp]: "no_key_error (active_exclusion sql_repository db b w)"
proof -
  have "no_key_error (pr_exclusion sql_repository db b w)" for w
    by (auto simp: sql_repository_def get_active_exclusion_mode_def intro!: no_key_error_sum split: option.split)
  then have "no_key_error (first_exclusion sql_repository db b ids)" for ids
    by (induction ids) (auto intro!: no_key_error_sum split: option.split)
  then show ?thesis by (auto simp: active_exclusion_def intro!: no_key_error_sum)
qed

lemma no_key_error_lock [simp]: "no_key_error (lock_conversation_control db b c)"
  by (auto simp: lock_conversation_control_def intro!: no_key_error_sum)

lemma no_key_error_evaluate [simp]: "no_key_error (evaluate_customer_inbound sql_repository now b c mode db)"
  by (auto simp: evaluate_customer_inbound_def sql_repository_def intro!: no_key_error_sum
      split: option.split exclusion_mode.split)

lemma no_key_error_register [simp]: "no_key_error (register_manual_business_message sql_repository b c t db)"
  by (auto simp: register_manual_business_message_def sql_repository_def activate_human_control_def tenant_window_def Let_def
      intro!: no_key_error_sum)

lemma no_key_error_customer [simp]: "no_key_error (get_or_create_customer_id f b w p db)"
  by (simp add: get_or_create_customer_id_def Let_def no_key_error_and_then)

lemma no_key_error_conversation [simp]: "no_key_error (get_or_create_conversation_id f b u i tx db)"
  by (auto simp: get_or_create_conversation_id_def Let_def intro!: no_key_error_and_then split: option.split)

lemma no_key_error_insert [simp]: "no_key_error (insert_message m db)"
  by (simp add: insert_message_def)

lemma no_key_error_store [simp]: "no_key_error (store_inbound env ar b e db)"
  by (auto simp: store_inbound_def persist_inbound_message_def intro!: no_key_error_and_then)

lemma no_key_error_inbound [simp]: "no_key_error (persist_inbound env ar b e db)"
  by (auto simp: persist_inbound_def intro!: no_key_error_and_then)

lemma no_key_error_echo [simp]: "no_key_error (persist_echo ar b e db)"
  by (auto simp: persist_echo_def register_echo_def intro!: no_key_error_and_then)

lemma no_key_error_persist: "no_key_error (persist_event env ar e db)"
  unfolding persist_event_def claim_event_def get_event_status_def
  by (intro no_key_error_and_then) (auto intro!: no_key_error_and_then split: option.split webhook_event.split)

lemma delivered_known:
  assumes "persist_webhook_events env es ks db = (Inr ks', db')"
  shows "(\<forall>e. known db e \<longrightarrow> known db' e) \<and> (\<forall>e \<in> snd ` set es. known db' e)"
  using assms
proof (induction env es ks db rule: persist_webhook_events.induct)
  case (2 env ar e es ks db)
  show ?case
  proof (cases "collective_event e")
    case True
    then show ?thesis using 2 by (auto simp: known_def)
  next
    case False
    have no: "persist_event env ar e db \<noteq> Inl (IntegrityViolation ''uq_processed_webhooks_event_key'')"
      using no_key_error_persist [of env ar e db] by (simp add: no_key_error_def)
    then obtain q db1 where step: "persist_event env ar e db = Inr (q, db1)"
      using 2 False by (auto split: sum.splits if_splits)
    then have "(\<forall>x. known db1 x \<longrightarrow> known db' x) \<and> (\<forall>x \<in> snd ` set es. known db' x)"
      using 2 False by auto
    then show ?thesis using known_mono [OF step] persist_knows [OF step] by auto
  qed
qed simp

text \<open>
  C24. Delivering a request again is harmless: once a request was accepted, delivering the same
  events, alone or with their order changed, at any later clock, is accepted and leaves the
  tables exactly as they are.
\<close>

theorem redelivery_idempotent:
  assumes "keys_ok db" and "persist_webhook_events env es [] db = (Inr keys, db')"
    and "snd ` set again \<subseteq> snd ` set es"
  shows "\<exists>keys'. persist_webhook_events env' again [] db' = (Inr keys', db')"
  using repeat_known [of db' again env' "[]"] delivered_known [OF assms(2)] keys_ok_status [OF assms(1,2)] assms(3)
  by blast

text \<open>A message of a new contact, delivered to the phone number of the sample business.\<close>

definition sample_arrival :: arrival where
  "sample_arrival = \<lparr>ar_tx = 5, ar_now = 5, ar_customer = 21, ar_conversation = 31, ar_message = 44\<rparr>"

definition sample_event :: webhook_event where
  "sample_event = Inbound \<lparr>im_key = ''k'', im_event_type = ''message.inbound.text'', im_phone_id = ''700'',
     im_provider_id = ''p'', im_whatsapp_id = ''5511912345678'', im_type = ''text'', im_body = Some ''Oi'',
     im_interactive_id = None, im_media_id = None, im_media_mime = None, im_media_filename = None,
     im_media_sha256 = None, im_profile_name = None, im_occurred_at = None\<rparr>"

definition sample_surroundings :: messaging_env where
  "sample_surroundings = \<lparr>me_environment = (\<lambda>_. None), me_brazil = fixed_zone (-180), me_json = (\<lambda>_. [])\<rparr>"

definition deliver_sample :: "(messaging_error + string list) \<times> messaging_db" where
  "deliver_sample = persist_webhook_events sample_surroundings [(sample_arrival, sample_event)] [] sample_messaging"

lemma sample_delivered: "case deliver_sample of (r, db) \<Rightarrow> r = Inr [''k''] \<and> length (md_customers db) = 2
    \<and> length (md_messages db) = 3 \<and> map pw_status (md_webhooks db) = [''queued'']"
  by code_simp

theorem inbox_keys_witness:
  "\<exists>db. fst deliver_sample = Inr [''k''] \<and> snd deliver_sample = db \<and> length (md_customers db) = 2
     \<and> distinct (map (\<lambda>u. (cu_business u, cu_whatsapp_id u)) (md_customers db))"
  using sample_delivered inbox_keys [OF sample_keys, of sample_surroundings "[(sample_arrival, sample_event)]"
      "fst deliver_sample" "snd deliver_sample"]
  by (auto simp: deliver_sample_def split: prod.splits)

theorem redelivery_idempotent_witness:
  "\<exists>keys. persist_webhook_events sample_surroundings [(sample_arrival\<lparr>ar_tx := 9\<rparr>, sample_event)] [] (snd deliver_sample)
     = (Inr keys, snd deliver_sample)"
proof -
  have "persist_webhook_events sample_surroundings [(sample_arrival, sample_event)] [] sample_messaging
      = (Inr [''k''], snd deliver_sample)"
    using sample_delivered by (auto simp: deliver_sample_def split: prod.splits)
  from redelivery_idempotent [OF sample_keys this, of "[(sample_arrival\<lparr>ar_tx := 9\<rparr>, sample_event)]"] show ?thesis
    by (simp del: persist_webhook_events.simps)
qed

section \<open>A status that is never recorded\<close>

text \<open>
  A failure code the normalisation accepts and the table refuses: the error code of a failed
  delivery may hold a blank, the constraint on its column forbids one, so the claim of the event
  raises, the request fails, the events after it are not stored, and every new delivery of the
  request fails in the same way.
\<close>

theorem spaced_code_stuck:
  "failure_code [(''errors'', PList [PDict [(''code'', PStr ''131 026'')]])] = Some ''131 026''
   \<and> persist_webhook_events env ((ar, Status (s\<lparr>st_failure_code := Some ''131 026''\<rparr>)) # events) keys db
       = (Inl (IntegrityViolation ''processed_webhook_provider_failure_code_sanitized''), db)"
proof
  show "failure_code [(''errors'', PList [PDict [(''code'', PStr ''131 026'')]])] = Some ''131 026''" by code_simp
  have "\<not> failure_code_allowed (Some ''131 026'')" by code_simp
  then show "persist_webhook_events env ((ar, Status (s\<lparr>st_failure_code := Some ''131 026''\<rparr>)) # events) keys db
       = (Inl (IntegrityViolation ''processed_webhook_provider_failure_code_sanitized''), db)"
    by (simp add: persist_event_def claim_event_def)
qed

end
