(* ===== verification/Lifecycle.thy ===== *)
theory Lifecycle
  imports Inbox BookingDomain
begin

text \<open>
  The follow-ups that a timer creates (\<open>app/automation/lifecycle.py\<close>): one for a conversation
  that stopped before a booking, one six months after a completed appointment. Both queries
  order their rows and cut them to a batch before the rows that already had a follow-up are
  skipped. The rows of the agenda (appointments and services) are arguments, the zone database
  is a parameter, and the fresh identifiers of a run are a function of the row and a number.
\<close>

section \<open>Times\<close>

definition two_digits :: "int \<Rightarrow> string" where
  "two_digits n = zero_pad 2 n"

text \<open>\<open>isoformat()\<close> of an instant in UTC.\<close>

definition iso_instant :: "instant \<Rightarrow> string" where
  "iso_instant t =
     (let u = wall_tod t;
          s = u div 1000000;
          us = u mod 1000000
      in iso_date (wall_date t) @ ''T'' @ two_digits (s div 3600) @ '':'' @ two_digits (s div 60 mod 60)
         @ '':'' @ two_digits (s mod 60) @ (if us = 0 then [] else ''.'' @ zero_pad 6 us) @ ''+00:00'')"

text \<open>\<open>strftime("%d/%m/%Y")\<close>.\<close>

definition brazilian_date :: "date \<Rightarrow> string" where
  "brazilian_date n =
     (let (y, m, d) = ymd_of n in two_digits d @ ''/'' @ two_digits m @ ''/'' @ str_of_int y)"

definition inactivity_delay :: int where "inactivity_delay = minutes (24 * 60)"

definition cleaning_cycle_delay :: int where "cleaning_cycle_delay = 180 * day_us"

definition outreach_batch_limit :: nat where "outreach_batch_limit = 100"

definition terminal_conversation_states :: "string list" where
  "terminal_conversation_states = [''COMPLETED'', ''POST_BOOKING_HELP'', ''HUMAN_HANDOFF'']"

definition proactive_outreach_enabled :: "environment \<Rightarrow> bool" where
  "proactive_outreach_enabled env = (env_flag env ''ALOVIA_PROACTIVE_OUTREACH_ENABLED'' \<in> set flag_values)"

section \<open>Rows and messages\<close>

definition outreach_exists :: "messaging_db \<Rightarrow> string \<Rightarrow> bool" where
  "outreach_exists db key = list_ex (\<lambda>w. co_key w = key) (md_outreach db)"

definition insert_outreach :: "customer_outreach \<Rightarrow> messaging_db \<Rightarrow> messaging_error + messaging_db" where
  "insert_outreach w db =
     (if list_ex (\<lambda>x. co_id x = co_id w) (md_outreach db) then Inl (IntegrityViolation ''pk_customer_outreach'')
      else if outreach_exists db (co_key w)
      then Inl (IntegrityViolation ''uq_customer_outreach_idempotency_key'')
      else Inr (db\<lparr>md_outreach := md_outreach db @ [w]\<rparr>))"

definition outreach_payload :: "customer_outreach \<Rightarrow> (string \<times> int \<times> int) option \<Rightarrow> pydict" where
  "outreach_payload w sequence =
     [(''_alovia_outreach_id'', PStr (uuid_text (co_id w))), (''_alovia_outreach_type'', PStr (co_type w))]
     @ (case sequence of None \<Rightarrow> []
        | Some (grp, index, count) \<Rightarrow>
            [(''_alovia_sequence_group'', PStr grp), (''_alovia_sequence_index'', PInt index),
             (''_alovia_sequence_count'', PInt count)])"

definition outreach_message ::
  "instant \<Rightarrow> uuid \<Rightarrow> customer_outreach \<Rightarrow> string \<Rightarrow> string \<Rightarrow> (string \<times> int \<times> int) option \<Rightarrow> message" where
  "outreach_message tx i w body suff sequence =
     \<lparr>ms_id = i, ms_business = co_business w, ms_conversation = co_conversation w, ms_provider_id = None,
      ms_direction = ''outbound'', ms_type = ''text'', ms_body = Some body, ms_interactive_id = None,
      ms_media_id = None, ms_media_mime = None, ms_media_filename = None, ms_media_sha256 = None,
      ms_payload = Some (outreach_payload w sequence), ms_status = ''pending'', ms_sent_at = None,
      ms_key = Some (co_key w @ '':'' @ suff), ms_created = tx\<rparr>"

definition service_label_from_context :: "service list \<Rightarrow> uuid \<Rightarrow> pydict \<Rightarrow> string option" where
  "service_label_from_context services b context =
     (case dict_get context ''service_id'' of
        Some (PStr raw) \<Rightarrow>
          (case parse_uuid raw of
             None \<Rightarrow> None
           | Some i \<Rightarrow> first (map sv_name (filter (\<lambda>s. sv_business s = b \<and> sv_id s = i) services)))
      | _ \<Rightarrow> None)"

section \<open>Who may be addressed\<close>

definition conversation_open :: "instant \<Rightarrow> conversation \<Rightarrow> bool" where
  "conversation_open now r \<longleftrightarrow>
     cv_enabled r \<and> cv_handoff r = ''none'' \<and> cv_deleted r = None
     \<and> (case cv_suppressed_until r of None \<Rightarrow> True | Some s \<Rightarrow> s \<le> now)"

definition business_open ::
  "messaging_env \<Rightarrow> messaging_db \<Rightarrow> instant \<Rightarrow> uuid \<Rightarrow> tenant \<Rightarrow> customer \<Rightarrow> bool" where
  "business_open env db now b n u \<longleftrightarrow>
     tn_active n \<and> tn_assistant n
     \<and> active_operational_access_exists db b (billing_provider_environment (me_environment env)) now
     \<and> \<not> exclusion_exists db b [cu_whatsapp_id u] False"

section \<open>Conversations that stopped\<close>

type_synonym stopped = "conversation \<times> customer \<times> tenant"

definition conversation_rows :: "messaging_db \<Rightarrow> stopped list" where
  "conversation_rows db =
     concat (map (\<lambda>r. concat (map (\<lambda>u. map (\<lambda>n. (r, u, n))
          (filter (\<lambda>n. tn_id n = cv_business r) (md_tenants db)))
        (filter (\<lambda>u. cu_business u = cv_business r \<and> cu_id u = cv_customer r) (md_customers db))))
      (md_conversations db))"

definition stopped_candidate :: "messaging_env \<Rightarrow> messaging_db \<Rightarrow> instant \<Rightarrow> stopped \<Rightarrow> bool" where
  "stopped_candidate env db now row =
     (case row of (r, u, n) \<Rightarrow>
        cv_last_interaction r \<le> now - inactivity_delay
        \<and> cv_state r \<notin> set terminal_conversation_states
        \<and> conversation_open now r \<and> business_open env db now (cv_business r) n u)"

definition stopped_candidates :: "messaging_env \<Rightarrow> messaging_db \<Rightarrow> instant \<Rightarrow> stopped list" where
  "stopped_candidates env db now =
     sort_key (\<lambda>(r, u, n). cv_last_interaction r)
       (filter (stopped_candidate env db now) (conversation_rows db))"

definition followup_key :: "conversation \<Rightarrow> string" where
  "followup_key r = ''outreach:incomplete24h:'' @ uuid_text (cv_id r) @ '':'' @ iso_instant (cv_last_interaction r)"

definition followup_body :: "string option \<Rightarrow> string" where
  "followup_body label =
     (let subject = (case label of None \<Rightarrow> [] | Some s \<Rightarrow> s);
          a = CHR 0xE1; c = CHR 0xE7; e = CHR 0xEA
      in ''Ol'' @ [a] @ ''! Ficou alguma d'' @ [CHR 0xFA] @ ''vida sobre ''
         @ (if subject = [] then ''o atendimento que voc'' @ [e] @ '' iniciou'' else subject)
         @ ''? Se algo no servi'' @ [c] @ ''o, no aparelho ou no valor n'' @ [CHR 0xE3]
         @ ''o ficou como voc'' @ [e] @ '' esperava, me conte e eu ajudo a continuar seu atendimento.'')"

definition followup_outreach :: "instant \<Rightarrow> uuid \<Rightarrow> string option \<Rightarrow> conversation \<Rightarrow> customer_outreach" where
  "followup_outreach tx i label r =
     \<lparr>co_id = i, co_business = cv_business r, co_customer = cv_customer r, co_conversation = cv_id r,
      co_appointment = None, co_type = ''incomplete_24h'',
      co_due = cv_last_interaction r + inactivity_delay, co_trigger = cv_last_interaction r,
      co_status = ''pending'', co_label = label, co_key = followup_key r, co_sent_at = None,
      co_responded_at = None, co_created = tx\<rparr>"

text \<open>A conversation whose booking is under way, or that had its follow-up, is skipped.\<close>

definition followup_skipped :: "messaging_db \<Rightarrow> conversation \<Rightarrow> bool" where
  "followup_skipped db r \<longleftrightarrow>
     (case dict_get (cv_context r) ''appointment_id'' of None \<Rightarrow> False | Some v \<Rightarrow> py_truthy v)
     \<or> outreach_exists db (followup_key r)"

fun follow_up ::
  "service list \<Rightarrow> instant \<Rightarrow> (nat \<Rightarrow> nat \<Rightarrow> uuid) \<Rightarrow> stopped list \<Rightarrow> uuid list \<Rightarrow> messaging_db
   \<Rightarrow> messaging_error + (uuid list \<times> messaging_db)" where
  "follow_up services tx fresh [] created db = Inr (created, db)"
| "follow_up services tx fresh ((r, u, n) # rows) created db =
     (if followup_skipped db r then follow_up services tx fresh rows created db
      else
        (let label = service_label_from_context services (cv_business r) (cv_context r);
             k = length rows;
             w = followup_outreach tx (fresh k 0) label r
         in and_then (insert_outreach w db)
         (\<lambda>db1. and_then (insert_message (outreach_message tx (fresh k 1) w (followup_body label) ''message'' None) db1)
         (\<lambda>db2. follow_up services tx fresh rows (created @ [fresh k 1]) db2))))"

definition create_incomplete_followups ::
  "messaging_env \<Rightarrow> service list \<Rightarrow> instant \<Rightarrow> (nat \<Rightarrow> nat \<Rightarrow> uuid) \<Rightarrow> instant \<Rightarrow> nat \<Rightarrow> messaging_db
   \<Rightarrow> messaging_error + (uuid list \<times> messaging_db)" where
  "create_incomplete_followups env services tx fresh now limit db =
     follow_up services tx fresh (take limit (stopped_candidates env db now)) [] db"

section \<open>Completed appointments\<close>

record cleaning_row =
  cl_appointment :: appointment
  cl_service :: service
  cl_customer :: customer
  cl_conversation :: conversation
  cl_tenant :: tenant

text \<open>The end of the last completed appointment of a customer.\<close>

definition latest_completed :: "appointment list \<Rightarrow> uuid \<Rightarrow> uuid \<Rightarrow> instant option" where
  "latest_completed appts b u =
     max_by id (map ap_ends (filter (\<lambda>a. ap_status a = ''completed'' \<and> ap_business a = b \<and> ap_customer a = u) appts))"

definition cleaning_rows ::
  "appointment list \<Rightarrow> service list \<Rightarrow> messaging_db \<Rightarrow> cleaning_row list" where
  "cleaning_rows appts services db =
     [\<lparr>cl_appointment = a, cl_service = s, cl_customer = u, cl_conversation = r, cl_tenant = n\<rparr>.
        a \<leftarrow> filter (\<lambda>a. latest_completed appts (ap_business a) (ap_customer a) = Some (ap_ends a)) appts,
        s \<leftarrow> filter (\<lambda>s. sv_business s = ap_business a \<and> sv_id s = ap_service a) services,
        u \<leftarrow> filter (\<lambda>u. cu_business u = ap_business a \<and> cu_id u = ap_customer a) (md_customers db),
        r \<leftarrow> filter (\<lambda>r. cv_business r = ap_business a \<and> cv_customer r = ap_customer a) (md_conversations db),
        n \<leftarrow> filter (\<lambda>n. tn_id n = ap_business a) (md_tenants db)]"

definition future_appointment :: "appointment list \<Rightarrow> instant \<Rightarrow> appointment \<Rightarrow> bool" where
  "future_appointment appts now a =
     list_ex (\<lambda>x. ap_business x = ap_business a \<and> ap_customer x = ap_customer a
        \<and> ap_status x = ''confirmed'' \<and> now \<le> ap_starts x) appts"

definition cleaning_candidate ::
  "messaging_env \<Rightarrow> appointment list \<Rightarrow> messaging_db \<Rightarrow> instant \<Rightarrow> cleaning_row \<Rightarrow> bool" where
  "cleaning_candidate env appts db now row =
     (let a = cl_appointment row
      in ap_status a = ''completed'' \<and> ap_ends a \<le> now - cleaning_cycle_delay
         \<and> conversation_open now (cl_conversation row)
         \<and> business_open env db now (ap_business a) (cl_tenant row) (cl_customer row)
         \<and> plus_features_access_exists db (ap_business a)
             (billing_provider_environment (me_environment env)) now
         \<and> \<not> future_appointment appts now a)"

definition cleaning_candidates ::
  "messaging_env \<Rightarrow> appointment list \<Rightarrow> service list \<Rightarrow> messaging_db \<Rightarrow> instant \<Rightarrow> cleaning_row list" where
  "cleaning_candidates env appts services db now =
     sort_key (\<lambda>row. ap_ends (cl_appointment row))
       (filter (cleaning_candidate env appts db now) (cleaning_rows appts services db))"

definition cleaning_key :: "appointment \<Rightarrow> string" where
  "cleaning_key a = ''outreach:cleaning6m:'' @ uuid_text (ap_id a)"

definition cleaning_outreach :: "instant \<Rightarrow> uuid \<Rightarrow> cleaning_row \<Rightarrow> customer_outreach" where
  "cleaning_outreach tx i row =
     (let a = cl_appointment row
      in \<lparr>co_id = i, co_business = ap_business a, co_customer = ap_customer a,
          co_conversation = cv_id (cl_conversation row), co_appointment = Some (ap_id a),
          co_type = ''cleaning_6m'', co_due = ap_ends a + cleaning_cycle_delay, co_trigger = ap_ends a,
          co_status = ''pending'', co_label = Some (sv_name (cl_service row)), co_key = cleaning_key a,
          co_sent_at = None, co_responded_at = None, co_created = tx\<rparr>)"

definition first_name_of :: "customer \<Rightarrow> string" where
  "first_name_of u =
     (let name = (case cu_name u of None \<Rightarrow> [] | Some s \<Rightarrow> s);
          profile = (case cu_profile_name u of None \<Rightarrow> [] | Some s \<Rightarrow> s)
      in if name \<noteq> [] then name else if profile \<noteq> [] then profile else ''tudo bem'')"

definition cleaning_greeting :: "zone \<Rightarrow> cleaning_row \<Rightarrow> string" where
  "cleaning_greeting z row =
     ''Ol'' @ [CHR 0xE1] @ '', '' @ first_name_of (cl_customer row) @ ''! Aqui '' @ [CHR 0xE9] @ '' a ''
     @ tn_name (cl_tenant row) @ ''. No dia ''
     @ brazilian_date (wall_date (to_wall z (ap_starts (cl_appointment row))))
     @ '' fizemos seu atendimento de '' @ sv_name (cl_service row) @ ''.''"

definition cleaning_care :: "tenant \<Rightarrow> string" where
  "cleaning_care n =
     ''Passando para lembrar que a limpeza peri'' @ [CHR 0xF3] @ ''dica ajuda a evitar ac'' @ [CHR 0xFA]
     @ ''mulo de sujeira, mau cheiro e perda de efici'' @ [CHR 0xEA] @ ''ncia. Aqui na '' @ tn_name n
     @ '', cuidamos dos nossos clientes como fam'' @ [CHR 0xED]
     @ ''lia. Se quiser, posso verificar um hor'' @ [CHR 0xE1] @ ''rio para uma limpeza.''"

fun clean_up ::
  "(string \<Rightarrow> zone option) \<Rightarrow> instant \<Rightarrow> (nat \<Rightarrow> nat \<Rightarrow> uuid) \<Rightarrow> cleaning_row list \<Rightarrow> uuid list \<Rightarrow> messaging_db
   \<Rightarrow> messaging_error + (uuid list \<times> messaging_db)" where
  "clean_up zones tx fresh [] created db = Inr (created, db)"
| "clean_up zones tx fresh (row # rows) created db =
     (if outreach_exists db (cleaning_key (cl_appointment row)) then clean_up zones tx fresh rows created db
      else
        (let k = length rows;
             w = cleaning_outreach tx (fresh k 0) row;
             grp = ''outreach-'' @ uuid_hex (co_id w)
         in and_then (insert_outreach w db)
         (\<lambda>db1. case zones (tn_timezone (cl_tenant row)) of
              None \<Rightarrow> Inl (NotFound (tn_timezone (cl_tenant row)))
            | Some z \<Rightarrow>
                and_then (insert_message (outreach_message tx (fresh k 1) w (cleaning_greeting z row)
                    ''message:0'' (Some (grp, 0, 2))) db1)
         (\<lambda>db2. and_then (insert_message (outreach_message tx (fresh k 2) w (cleaning_care (cl_tenant row))
                    ''message:1'' (Some (grp, 1, 2))) db2)
         (\<lambda>db3. clean_up zones tx fresh rows (created @ [fresh k 1]) db3)))))"

definition create_cleaning_followups ::
  "messaging_env \<Rightarrow> (string \<Rightarrow> zone option) \<Rightarrow> appointment list \<Rightarrow> service list \<Rightarrow> instant
   \<Rightarrow> (nat \<Rightarrow> nat \<Rightarrow> uuid) \<Rightarrow> instant \<Rightarrow> nat \<Rightarrow> messaging_db \<Rightarrow> messaging_error + (uuid list \<times> messaging_db)" where
  "create_cleaning_followups env zones appts services tx fresh now limit db =
     clean_up zones tx fresh (take limit (cleaning_candidates env appts services db now)) [] db"

section \<open>One run of the timer\<close>

definition create_due_lifecycle_outreach ::
  "messaging_env \<Rightarrow> (string \<Rightarrow> zone option) \<Rightarrow> appointment list \<Rightarrow> service list \<Rightarrow> instant
   \<Rightarrow> (nat \<Rightarrow> nat \<Rightarrow> nat \<Rightarrow> uuid) \<Rightarrow> instant \<Rightarrow> nat \<Rightarrow> messaging_db \<Rightarrow> messaging_error + (uuid list \<times> messaging_db)" where
  "create_due_lifecycle_outreach env zones appts services tx fresh now limit db =
     (if \<not> proactive_outreach_enabled (me_environment env) then Inr ([], db)
      else and_then (create_incomplete_followups env services tx (fresh 0) now limit db)
        (\<lambda>(ids, db1).
           let remaining = limit - length ids
           in if remaining = 0 then Inr (ids, db1)
              else and_then (create_cleaning_followups env zones appts services tx (fresh 1) now remaining db1)
                (\<lambda>(more_ids, db2). Inr (ids @ more_ids, db2))))"

definition mark_outreach_sent :: "uuid \<Rightarrow> instant \<Rightarrow> messaging_db \<Rightarrow> messaging_db" where
  "mark_outreach_sent oid sent = settle_outreach oid ''sent'' (Some sent)"

end
