(* ===== verification/Outreach.thy ===== *)
theory Outreach
  imports Lifecycle Policy
begin

text \<open>
  What the follow-ups of the timer guarantee: only conversations in which the assistant may speak
  are addressed, no silence and no appointment is followed up twice, running again creates
  nothing, and the batch keeps the oldest conversations in front of the others for ever.
\<close>

section \<open>What a run adds\<close>

definition same_but_outreach :: "messaging_db \<Rightarrow> messaging_db \<Rightarrow> bool" where
  "same_but_outreach db db' \<longleftrightarrow>
     prefix (md_outreach db) (md_outreach db') \<and> prefix (md_messages db) (md_messages db')
     \<and> md_tenants db' = md_tenants db \<and> md_customers db' = md_customers db
     \<and> md_conversations db' = md_conversations db \<and> md_exclusions db' = md_exclusions db
     \<and> md_access db' = md_access db \<and> md_subscriptions db' = md_subscriptions db
     \<and> md_webhooks db' = md_webhooks db \<and> md_pushes db' = md_pushes db
     \<and> md_connections db' = md_connections db"

lemma same_but_outreach_refl [simp]: "same_but_outreach db db"
  by (simp add: same_but_outreach_def)

lemma same_but_outreach_trans [trans]:
  "same_but_outreach a b \<Longrightarrow> same_but_outreach b c \<Longrightarrow> same_but_outreach a c"
  by (auto simp: same_but_outreach_def)

lemma outreach_kept:
  "same_but_outreach db db' \<Longrightarrow> outreach_exists db key \<Longrightarrow> outreach_exists db' key"
  by (auto simp: same_but_outreach_def outreach_exists_def prefix_def)

lemma insert_outreach_Inr:
  assumes "insert_outreach w db = Inr db'"
  shows "db' = db\<lparr>md_outreach := md_outreach db @ [w]\<rparr>" and "co_id w \<notin> co_id ` set (md_outreach db)"
    and "co_key w \<notin> co_key ` set (md_outreach db)"
  using assms by (auto simp: insert_outreach_def outreach_exists_def list_ex_iff split: if_splits)

lemma insert_message_Inr:
  assumes "insert_message m db = Inr db'"
  shows "db' = db\<lparr>md_messages := md_messages db @ [m]\<rparr>" and "ms_id m \<notin> ms_id ` set (md_messages db)"
  using assms by (force simp: insert_message_def list_ex_iff split: if_splits)+

lemma insert_same [intro]:
  "insert_outreach w db = Inr db' \<Longrightarrow> same_but_outreach db db'"
  "insert_message m db = Inr db' \<Longrightarrow> same_but_outreach db db'"
  by (auto simp: same_but_outreach_def dest!: insert_outreach_Inr(1) insert_message_Inr(1))

section \<open>A rule for each batch\<close>

text \<open>A message of an outreach: pending, in its conversation and with its identifier.\<close>

definition announces :: "customer_outreach \<Rightarrow> message \<Rightarrow> bool" where
  "announces w m \<longleftrightarrow>
     ms_business m = co_business w \<and> ms_conversation m = co_conversation w \<and> ms_direction m = ''outbound''
     \<and> ms_status m = ''pending'' \<and> ms_type m = ''text''
     \<and> payload_get (ms_payload m) ''_alovia_outreach_id'' = Some (PStr (uuid_text (co_id w)))"

lemma announces_outreach_message [simp]: "announces w (outreach_message tx i w body suff q)"
  by (simp add: announces_def outreach_message_def outreach_payload_def payload_get_def dict_get_def)

lemma follow_up_rule:
  assumes "follow_up services tx fresh rows created db = Inr (ids, db')" and "P db"
    and step: "\<And>db db1 db2 r u n w m. (r, u, n) \<in> set rows \<Longrightarrow> P db \<Longrightarrow> \<not> followup_skipped db r \<Longrightarrow>
      w = followup_outreach tx (co_id w) (co_label w) r \<Longrightarrow> announces w m \<Longrightarrow>
      insert_outreach w db = Inr db1 \<Longrightarrow> insert_message m db1 = Inr db2 \<Longrightarrow> P db2"
  shows "P db'"
  using assms
proof (induction rows arbitrary: created db)
  case (Cons row rows)
  obtain r u n where row: "row = (r, u, n)" by (cases row)
  let ?label = "service_label_from_context services (cv_business r) (cv_context r)"
  let ?w = "followup_outreach tx (fresh (length rows) 0) ?label r"
  let ?m = "outreach_message tx (fresh (length rows) 1) ?w (followup_body ?label) ''message'' None"
  have IH: "P db'" if "follow_up services tx fresh rows c d = Inr (ids, db')" "P d" for c d
    using Cons.IH [OF that] Cons.prems(3) by (meson list.set_intros(2))
  show ?case
  proof (cases "followup_skipped db r")
    case True
    then show ?thesis using Cons.prems IH row by simp
  next
    case False
    then obtain db1 db2 where s: "insert_outreach ?w db = Inr db1" "insert_message ?m db1 = Inr db2"
      "follow_up services tx fresh rows (created @ [fresh (length rows) 1]) db2 = Inr (ids, db')"
      using Cons.prems(1) by (auto simp: row Let_def elim!: and_then_InrE)
    have "P db2"
      by (rule Cons.prems(3) [of r u n db ?w ?m db1])
        (use False s Cons.prems(2) row in \<open>auto simp: followup_outreach_def\<close>)
    then show ?thesis using IH s(3) by blast
  qed
qed simp

lemma clean_up_rule:
  assumes "clean_up zones tx fresh rows created db = Inr (ids, db')" and "P db"
    and step: "\<And>db db1 db2 db3 row w m m'. row \<in> set rows \<Longrightarrow> P db \<Longrightarrow>
      w = cleaning_outreach tx (co_id w) row \<Longrightarrow> announces w m \<Longrightarrow> announces w m' \<Longrightarrow>
      insert_outreach w db = Inr db1 \<Longrightarrow> insert_message m db1 = Inr db2 \<Longrightarrow> insert_message m' db2 = Inr db3 \<Longrightarrow> P db3"
  shows "P db'"
  using assms
proof (induction rows arbitrary: created db)
  case (Cons row rows)
  let ?w = "cleaning_outreach tx (fresh (length rows) 0) row"
  let ?g = "''outreach-'' @ uuid_hex (co_id ?w)"
  have IH: "P db'" if "clean_up zones tx fresh rows c d = Inr (ids, db')" "P d" for c d
    using Cons.IH [OF that] Cons.prems(3) by (meson list.set_intros(2))
  show ?case
  proof (cases "outreach_exists db (cleaning_key (cl_appointment row))")
    case True
    then show ?thesis using Cons.prems IH by simp
  next
    case False
    then obtain z db1 db2 db3 where s: "insert_outreach ?w db = Inr db1"
      "insert_message (outreach_message tx (fresh (length rows) 1) ?w (cleaning_greeting z row) ''message:0''
         (Some (?g, 0, 2))) db1 = Inr db2"
      "insert_message (outreach_message tx (fresh (length rows) 2) ?w (cleaning_care (cl_tenant row)) ''message:1''
         (Some (?g, 1, 2))) db2 = Inr db3"
      "clean_up zones tx fresh rows (created @ [fresh (length rows) 1]) db3 = Inr (ids, db')"
      using Cons.prems(1) by (auto simp: Let_def elim!: and_then_InrE split: option.splits)
    have "P db3"
      by (rule Cons.prems(3) [OF _ Cons.prems(2) _ _ _ s(1-3)]) (auto simp: cleaning_outreach_def Let_def)
    then show ?thesis using IH s(4) by blast
  qed
qed simp

section \<open>Who is addressed\<close>

definition speakable :: "messaging_env \<Rightarrow> messaging_db \<Rightarrow> instant \<Rightarrow> customer_outreach \<Rightarrow> bool" where
  "speakable env db now w \<longleftrightarrow>
     (\<exists>r \<in> set (md_conversations db). \<exists>u \<in> set (md_customers db). \<exists>n \<in> set (md_tenants db).
        cv_id r = co_conversation w \<and> cv_business r = co_business w \<and> cv_customer r = co_customer w
        \<and> cu_id u = co_customer w \<and> cu_business u = co_business w \<and> tn_id n = co_business w
        \<and> conversation_open now r \<and> business_open env db now (co_business w) n u)"

lemma speakableI:
  assumes "r \<in> set (md_conversations db)" "u \<in> set (md_customers db)" "n \<in> set (md_tenants db)"
    "cv_id r = co_conversation w" "cv_business r = co_business w" "cv_customer r = co_customer w"
    "cu_id u = co_customer w" "cu_business u = co_business w" "tn_id n = co_business w"
    "conversation_open now r" "business_open env db now (co_business w) n u"
  shows "speakable env db now w"
  using assms unfolding speakable_def by blast

lemma conversation_rows_iff:
  "(r, u, n) \<in> set (conversation_rows db) \<longleftrightarrow>
     r \<in> set (md_conversations db) \<and> u \<in> set (md_customers db) \<and> n \<in> set (md_tenants db)
     \<and> cu_business u = cv_business r \<and> cu_id u = cv_customer r \<and> tn_id n = cv_business r"
  by (auto simp: conversation_rows_def)

lemma stopped_candidates_iff:
  "(r, u, n) \<in> set (stopped_candidates env db now) \<longleftrightarrow>
     (r, u, n) \<in> set (conversation_rows db) \<and> stopped_candidate env db now (r, u, n)"
  by (simp add: stopped_candidates_def)

lemma followup_speakable:
  "(r, u, n) \<in> set (stopped_candidates env db now) \<Longrightarrow>
   speakable env db now (followup_outreach tx i label r) \<and> co_due (followup_outreach tx i label r) \<le> now"
  by (auto simp: stopped_candidates_iff conversation_rows_iff stopped_candidate_def speakable_def
      followup_outreach_def)

lemma cleaning_candidates_iff:
  "row \<in> set (cleaning_candidates env appts services db now) \<longleftrightarrow>
     row \<in> set (cleaning_rows appts services db) \<and> cleaning_candidate env appts db now row"
  by (simp add: cleaning_candidates_def)

lemma cleaning_speakable:
  "row \<in> set (cleaning_candidates env appts services db now) \<Longrightarrow>
   speakable env db now (cleaning_outreach tx i row) \<and> co_due (cleaning_outreach tx i row) \<le> now"
  by (auto simp: cleaning_candidates_iff cleaning_rows_def cleaning_candidate_def cleaning_outreach_def Let_def
      intro!: speakableI)

lemma speakable_same: "same_but_outreach db db' \<Longrightarrow> speakable env db' now w = speakable env db now w"
  by (simp add: speakable_def business_open_def same_but_outreach_def exclusion_exists_def
      active_operational_access_exists_def admin_full_access_exists_def legacy_paid_access_exists_def
      active_subscription_exists_def)

text \<open>What holds of the outreach after a run, and of the messages it added.\<close>

definition run_adds :: "messaging_env \<Rightarrow> instant \<Rightarrow> messaging_db \<Rightarrow> messaging_db \<Rightarrow> bool" where
  "run_adds env now db db' \<longleftrightarrow>
     same_but_outreach db db'
     \<and> (\<forall>w \<in> set (md_outreach db'). w \<in> set (md_outreach db)
          \<or> speakable env db now w \<and> co_due w \<le> now \<and> co_status w = ''pending''
            \<and> co_key w \<notin> co_key ` set (md_outreach db))
     \<and> (\<forall>m \<in> set (md_messages db'). m \<in> set (md_messages db)
          \<or> (\<exists>w \<in> set (md_outreach db'). w \<notin> set (md_outreach db) \<and> announces w m))"

lemma run_adds_refl [simp]: "run_adds env now db db"
  by (simp add: run_adds_def)

lemma run_adds_same: "run_adds env now db db' \<Longrightarrow> same_but_outreach db db'"
  by (simp add: run_adds_def)

lemma run_adds_outreach:
  assumes "run_adds env now db d" and "insert_outreach w d = Inr d'"
    and "speakable env db now w" and "co_due w \<le> now" and "co_status w = ''pending''"
  shows "run_adds env now db d'" and "w \<in> set (md_outreach d')" and "w \<notin> set (md_outreach db)"
proof -
  have sub: "set (md_outreach db) \<subseteq> set (md_outreach d)"
    using assms(1) by (auto simp: run_adds_def same_but_outreach_def prefix_def)
  show "w \<in> set (md_outreach d')" using insert_outreach_Inr(1) [OF assms(2)] by simp
  show "w \<notin> set (md_outreach db)" using insert_outreach_Inr(3) [OF assms(2)] sub by blast
  have "same_but_outreach db d'"
    using insert_same(1) [OF assms(2)] assms(1) same_but_outreach_trans run_adds_same by blast
  then show "run_adds env now db d'"
    using assms insert_outreach_Inr(3) [OF assms(2)] sub
    by (auto simp: run_adds_def insert_outreach_Inr(1) [OF assms(2)])
qed

lemma run_adds_message:
  assumes "run_adds env now db d" and "insert_message m d = Inr d'"
    and "w \<in> set (md_outreach d)" and "w \<notin> set (md_outreach db)" and "announces w m"
  shows "run_adds env now db d'"
proof -
  have "same_but_outreach db d'"
    using insert_same(2) [OF assms(2)] assms(1) same_but_outreach_trans run_adds_same by blast
  then show ?thesis
    using assms(1,3-5) by (auto simp: run_adds_def insert_message_Inr(1) [OF assms(2)])
qed

lemma incomplete_adds:
  assumes "create_incomplete_followups env services tx fresh now limit db = Inr (ids, db')"
  shows "run_adds env now db db'"
  using assms unfolding create_incomplete_followups_def
proof (rule follow_up_rule)
  fix d d1 d2 r u n w m
  assume a: "(r, u, n) \<in> set (take limit (stopped_candidates env db now))" "run_adds env now db d"
    "w = followup_outreach tx (co_id w) (co_label w) r" "announces w m"
    "insert_outreach w d = Inr d1" "insert_message m d1 = Inr d2"
  have s: "speakable env db now w" "co_due w \<le> now"
    using followup_speakable [OF in_set_takeD [OF a(1)], of tx "co_id w" "co_label w"] a(3) by simp_all
  have p: "co_status w = ''pending''" by (subst a(3)) (simp add: followup_outreach_def)
  note d1 = run_adds_outreach [OF a(2,5) s p]
  show "run_adds env now db d2" using run_adds_message [OF d1(1) a(6) d1(2,3) a(4)] .
qed simp

lemma cleaning_adds:
  assumes "create_cleaning_followups env zones appts services tx fresh now limit d0 = Inr (ids, db')"
    and "run_adds env now db d0"
  shows "run_adds env now db db'"
  using assms(1) unfolding create_cleaning_followups_def
proof (rule clean_up_rule)
  fix d d1 d2 d3 row w m m'
  assume a: "row \<in> set (take limit (cleaning_candidates env appts services d0 now))" "run_adds env now db d"
    "w = cleaning_outreach tx (co_id w) row" "announces w m" "announces w m'"
    "insert_outreach w d = Inr d1" "insert_message m d1 = Inr d2" "insert_message m' d2 = Inr d3"
  have s: "speakable env db now w" "co_due w \<le> now"
    using cleaning_speakable [OF in_set_takeD [OF a(1)], of tx "co_id w"] a(3)
      speakable_same [OF run_adds_same [OF assms(2)]] by simp_all
  have p: "co_status w = ''pending''" by (subst a(3)) (simp add: cleaning_outreach_def Let_def)
  note d1 = run_adds_outreach [OF a(2,6) s p]
  have d2: "run_adds env now db d2" using run_adds_message [OF d1(1) a(7) d1(2,3) a(4)] .
  have "w \<in> set (md_outreach d2)" using d1(2) insert_message_Inr(1) [OF a(7)] by simp
  then show "run_adds env now db d3" using run_adds_message [OF d2 a(8) _ d1(3) a(5)] by simp
qed (use assms in simp)

text \<open>
  C30. A run of the timer speaks only where the assistant may: every follow-up it adds is due, belongs
  to a conversation that is under no human control, neither deleted nor silenced, of an active
  business with the assistant on and access to operate, whose contact has no active exclusion
  under its identifier; its key is new; the messages it adds are the pending texts of these
  follow-ups, and nothing else changes.
\<close>

theorem followups_guarded:
  assumes "create_due_lifecycle_outreach env zones appts services tx fresh now limit db = Inr (ids, db')"
  shows "run_adds env now db db'"
  using assms incomplete_adds cleaning_adds
  by (auto simp: create_due_lifecycle_outreach_def Let_def split: if_splits elim!: and_then_InrE)

section \<open>Running again\<close>

lemma skipped_kept:
  "same_but_outreach db db' \<Longrightarrow> followup_skipped db r \<Longrightarrow> followup_skipped db' r"
  by (auto simp: followup_skipped_def dest: outreach_kept)

lemma follow_up_same:
  "follow_up services tx fresh rows created db = Inr (ids, db') \<Longrightarrow> same_but_outreach db db'"
  by (erule follow_up_rule) (auto intro: same_but_outreach_trans [OF same_but_outreach_trans] insert_same)

lemma outreach_exists_inserted:
  "insert_outreach w db = Inr db' \<Longrightarrow> outreach_exists db' (co_key w)"
  by (auto simp: outreach_exists_def dest: insert_outreach_Inr(1))

lemma follow_up_serves:
  assumes "follow_up services tx fresh rows created db = Inr (ids, db')" and "(r, u, n) \<in> set rows"
  shows "followup_skipped db' r"
  using assms
proof (induction rows arbitrary: created db)
  case (Cons row rows)
  obtain q v t where row: "row = (q, v, t)" by (cases row)
  show ?case
  proof (cases "followup_skipped db q")
    case True
    then have "follow_up services tx fresh rows created db = Inr (ids, db')"
      using Cons.prems(1) row by simp
    then show ?thesis using Cons.IH Cons.prems(2) row skipped_kept [OF follow_up_same True] by auto
  next
    case False
    obtain w c db1 db2 m where s: "co_key w = followup_key q" "insert_outreach w db = Inr db1"
      "insert_message m db1 = Inr db2" "follow_up services tx fresh rows c db2 = Inr (ids, db')"
    proof -
      let ?label = "service_label_from_context services (cv_business q) (cv_context q)"
      let ?w = "followup_outreach tx (fresh (length rows) 0) ?label q"
      have "co_key ?w = followup_key q" by (simp add: followup_outreach_def)
      then show thesis
        using Cons.prems(1) False by (auto simp: row Let_def elim!: and_then_InrE intro: that)
    qed
    have "same_but_outreach db1 db'"
      using insert_same(2) [OF s(3)] follow_up_same [OF s(4)] by (rule same_but_outreach_trans)
    then have "outreach_exists db' (followup_key q)"
      using outreach_exists_inserted [OF s(2)] s(1) outreach_kept by simp
    then show ?thesis using Cons.IH [OF s(4)] Cons.prems(2) row by (auto simp: followup_skipped_def)
  qed
qed simp

lemma follow_up_nothing:
  "\<forall>(r, u, n) \<in> set rows. followup_skipped db r \<Longrightarrow>
   follow_up services tx fresh rows created db = Inr (created, db)"
  by (induction rows) auto

lemma stopped_candidates_same:
  assumes "same_but_outreach db db'"
  shows "stopped_candidates env db' now = stopped_candidates env db now"
proof -
  have "stopped_candidate env db' now = stopped_candidate env db now"
    using assms
    by (auto simp: fun_eq_iff stopped_candidate_def business_open_def same_but_outreach_def exclusion_exists_def
        active_operational_access_exists_def admin_full_access_exists_def legacy_paid_access_exists_def
        active_subscription_exists_def)
  then show ?thesis
    using assms by (simp add: stopped_candidates_def conversation_rows_def same_but_outreach_def)
qed

text \<open>
  Running the timer again for the same moment creates no follow-up for a conversation, at any
  later transaction, and leaves the tables as they are: a conversation is followed up once for
  each silence.
\<close>

theorem followups_once:
  assumes "create_incomplete_followups env services tx fresh now limit db = Inr (ids, db')"
  shows "create_incomplete_followups env services' tx' fresh' now limit db' = Inr ([], db')"
proof -
  let ?rows = "take limit (stopped_candidates env db now)"
  have "stopped_candidates env db' now = stopped_candidates env db now"
    using stopped_candidates_same [OF follow_up_same] assms by (simp add: create_incomplete_followups_def)
  moreover have "\<forall>(r, u, n) \<in> set ?rows. followup_skipped db' r"
    using follow_up_serves assms unfolding create_incomplete_followups_def by blast
  ultimately show ?thesis by (simp add: create_incomplete_followups_def follow_up_nothing)
qed

section \<open>The oldest stay in front\<close>

definition starving_conversation :: "uuid \<Rightarrow> uuid \<Rightarrow> instant \<Rightarrow> conversation" where
  "starving_conversation i u t = new_conversation i 10 u ''customer'' t"

definition starving_db :: messaging_db where
  "starving_db = sample_messaging
     \<lparr>md_customers := [sample_customer, sample_customer\<lparr>cu_id := 22, cu_whatsapp_id := ''5511955554444''\<rparr>],
      md_conversations := [starving_conversation 30 (cu_id sample_customer) 0, starving_conversation 31 22 5],
      md_exclusions := [], md_messages := [],
      md_outreach := [(followup_outreach 9 50 None (starving_conversation 30 (cu_id sample_customer) 0))
        \<lparr>co_status := ''sent''\<rparr>]\<rparr>"

lemma starving_keys: "followup_key (starving_conversation 30 20 0) \<noteq> followup_key (starving_conversation 31 22 5)"
  by code_simp

lemma starving_candidates:
  assumes "5 + inactivity_delay \<le> now"
  shows "stopped_candidates env starving_db now =
    [(starving_conversation 30 20 0, sample_customer, sample_tenant),
     (starving_conversation 31 22 5, sample_customer\<lparr>cu_id := 22, cu_whatsapp_id := ''5511955554444''\<rparr>, sample_tenant)]"
  using assms
  by (simp add: stopped_candidates_def conversation_rows_def starving_db_def sample_rows starving_conversation_def
      new_conversation_def stopped_candidate_def conversation_open_def business_open_def exclusion_exists_def
      terminal_conversation_states_def active_operational_access_exists_def legacy_paid_access_exists_def)

text \<open>
  The batch starves the conversations behind it. The query takes the oldest conversations and the
  loop skips those that had their follow-up, but a conversation that does not answer stays among
  the oldest. Here the batch has one place: the first conversation was followed up and stays
  silent, and the second, which is due and never had a follow-up, gets none in any later run.
\<close>

theorem followups_starve:
  "create_incomplete_followups env services tx fresh (5 + inactivity_delay + int k) 1 starving_db = Inr ([], starving_db)
   \<and> (\<exists>u n. (starving_conversation 31 22 5, u, n) \<in> set (stopped_candidates env starving_db (5 + inactivity_delay + int k)))
   \<and> \<not> followup_skipped starving_db (starving_conversation 31 22 5)"
proof -
  have "followup_skipped starving_db (starving_conversation 30 20 0)"
    by (simp add: followup_skipped_def outreach_exists_def starving_db_def followup_outreach_def sample_customer_def)
  moreover have "\<not> followup_skipped starving_db (starving_conversation 31 22 5)"
    using starving_keys
    by (simp add: followup_skipped_def outreach_exists_def starving_db_def followup_outreach_def sample_customer_def
        starving_conversation_def new_conversation_def dict_get_def)
  ultimately show ?thesis
    using starving_candidates [of "5 + inactivity_delay + int k" env]
    by (auto simp: create_incomplete_followups_def)
qed

section \<open>A run on concrete rows\<close>

definition timer_env :: messaging_env where
  "timer_env = \<lparr>me_environment = (\<lambda>k. if k = ''ALOVIA_PROACTIVE_OUTREACH_ENABLED'' then Some ''true'' else None),
     me_brazil = fixed_zone (-180), me_json = (\<lambda>_. [])\<rparr>"

definition timer_ids :: "nat \<Rightarrow> nat \<Rightarrow> uuid" where
  "timer_ids i j = 100 + 3 * i + j"

definition timer_db :: messaging_db where
  "timer_db = starving_db\<lparr>md_outreach := []\<rparr>"

definition timer_run :: "messaging_error + (uuid list \<times> messaging_db)" where
  "timer_run = create_due_lifecycle_outreach timer_env (\<lambda>_. None) [] [] 7 (\<lambda>p i j. timer_ids i (j + 1000 * p))
     (5 + inactivity_delay) 5 timer_db"

lemma timer_run_result:
  "case timer_run of Inl e \<Rightarrow> False | Inr (ids, db) \<Rightarrow> ids = [104, 101] \<and> length (md_outreach db) = 2 \<and> length (md_messages db) = 2"
  by code_simp

theorem followups_guarded_witness:
  "\<exists>db. timer_run = Inr ([104, 101], db) \<and> length (md_outreach db) = 2 \<and> run_adds timer_env (5 + inactivity_delay) timer_db db"
proof -
  obtain db where r: "timer_run = Inr ([104, 101], db)" "length (md_outreach db) = 2"
    using timer_run_result by (auto split: sum.splits)
  then show ?thesis using followups_guarded unfolding timer_run_def by blast
qed

definition silence_run :: "messaging_error + (uuid list \<times> messaging_db)" where
  "silence_run = create_incomplete_followups timer_env [] 7 timer_ids (5 + inactivity_delay) 5 timer_db"

lemma silence_run_result:
  "case silence_run of Inl e \<Rightarrow> False | Inr (ids, db) \<Rightarrow> ids = [104, 101] \<and> length (md_outreach db) = 2"
  by code_simp

theorem followups_once_witness:
  "\<exists>db. silence_run = Inr ([104, 101], db)
     \<and> create_incomplete_followups timer_env [] 9 (\<lambda>i j. 900 + i + j) (5 + inactivity_delay) 5 db = Inr ([], db)"
proof -
  obtain db where r: "silence_run = Inr ([104, 101], db)"
    using silence_run_result by (auto split: sum.splits)
  then show ?thesis using followups_once unfolding silence_run_def by blast
qed

end
