(* ===== verification/IsoFormat.thy ===== *)
theory IsoFormat
  imports Calendar
begin

text \<open>
  \<open>date.fromisoformat\<close> and \<open>datetime.fromisoformat\<close> of Python 3.12, which the code applies to
  dates of the payment provider: calendar and week dates, extended and basic, and a time with an
  optional offset. The parsers follow the ones of the interpreter, quirks included (a compact
  date ignores what follows it, a fraction may follow any field).
\<close>

section \<open>Dates\<close>

definition digits_at :: "nat \<Rightarrow> nat \<Rightarrow> string \<Rightarrow> int option" where
  "digits_at i n s =
     (let ds = take n (drop i s)
      in if length ds = n \<and> list_all is_digit ds then Some (parse_digits ds) else None)"

definition char_at :: "nat \<Rightarrow> string \<Rightarrow> char option" where
  "char_at i s = (if i < length s then Some (s ! i) else None)"

text \<open>The day of an ISO week date; a year has 53 weeks when it starts on a Thursday, or on a
  Wednesday and is a leap year.\<close>

definition week_one_monday :: "int \<Rightarrow> date" where
  "week_one_monday y =
     (let jan1 = ordinal_of y 1 1; w = weekday jan1; monday = jan1 - w
      in if 3 < w then monday + 7 else monday)"

definition iso_week_date :: "int \<Rightarrow> int \<Rightarrow> int \<Rightarrow> date option" where
  "iso_week_date y w d =
     (let long = (let jan1 = weekday (ordinal_of y 1 1) in jan1 = 3 \<or> (jan1 = 2 \<and> is_leap y));
          n = week_one_monday y + 7 * (w - 1) + (d - 1)
      in if y < 1 \<or> w < 1 \<or> 53 < w \<or> (w = 53 \<and> \<not> long) \<or> d < 1 \<or> 7 < d \<or> \<not> date_range n then None else Some n)"

definition parse_date_part :: "string \<Rightarrow> date option" where
  "parse_date_part s =
     (case digits_at 0 4 s of None \<Rightarrow> None
      | Some y \<Rightarrow>
          (let sep = (char_at 4 s = Some (CHR ''-'')); p = (if sep then 5 else 4)
           in if char_at p s = Some (CHR ''W'') then
                (case digits_at (p + 1) 2 s of None \<Rightarrow> None
                 | Some w \<Rightarrow>
                     if length s \<le> p + 3 then iso_week_date y w 1
                     else if sep \<and> char_at (p + 3) s \<noteq> Some (CHR ''-'') then None
                     else (case digits_at (if sep then p + 4 else p + 3) 1 s of None \<Rightarrow> None
                           | Some d \<Rightarrow> iso_week_date y w d))
              else
                (case digits_at p 2 s of None \<Rightarrow> None
                 | Some m \<Rightarrow>
                     if sep \<and> char_at (p + 2) s \<noteq> Some (CHR ''-'') then None
                     else (case digits_at (if sep then p + 3 else p + 2) 2 s of None \<Rightarrow> None
                           | Some d \<Rightarrow> if valid_ymd y m d then Some (ordinal_of y m d) else None))))"

definition date_fromisoformat :: "string \<Rightarrow> date option" where
  "date_fromisoformat s = (if length s = 7 \<or> length s = 8 \<or> length s = 10 then parse_date_part s else None)"

section \<open>Times\<close>

text \<open>What is left after a fraction, and its microseconds.\<close>

definition parse_fraction :: "string \<Rightarrow> (int \<times> bool) option" where
  "parse_fraction f =
     (let n = min 6 (length f)
      in case digits_at 0 n f of None \<Rightarrow> None
         | Some v \<Rightarrow> Some (v * 10 ^ (6 - n), dropWhile is_digit (drop n f) \<noteq> []))"

text \<open>The fields of a clock time (at most \<open>k\<close>), its microseconds, and whether anything is left.\<close>

fun clock_fields :: "nat \<Rightarrow> bool \<Rightarrow> bool \<Rightarrow> string \<Rightarrow> (int list \<times> int \<times> bool) option" where
  "clock_fields 0 ini sep s = map_option (\<lambda>(us, r). ([], us, r)) (parse_fraction s)"
| "clock_fields (Suc k) ini sep s =
     (case digits_at 0 2 s of None \<Rightarrow> None
      | Some v \<Rightarrow>
          (case drop 2 s of
             [] \<Rightarrow> Some ([v], 0, False)
           | c # rest \<Rightarrow>
               (let sep' = (if ini then c = CHR '':'' else sep);
                    cons = map_option (\<lambda>(vs, us, r). (v # vs, us, r))
                in if rest = [] then Some ([v], 0, True)
                   else if sep' \<and> c = CHR '':'' then cons (clock_fields k False sep' rest)
                   else if c = CHR ''.'' \<or> c = CHR '','' then cons (map_option (\<lambda>(us, r). ([], us, r)) (parse_fraction rest))
                   else if \<not> sep' then cons (clock_fields k False sep' (c # rest))
                   else None)))"

definition clock_us :: "int list \<Rightarrow> int \<Rightarrow> int" where
  "clock_us vs us =
     (let f = (\<lambda>i. if i < length vs then vs ! i else 0)
      in (f 0 * 3600 + f 1 * 60 + f 2) * 1000000 + us)"

definition valid_clock :: "int list \<Rightarrow> bool" where
  "valid_clock vs \<longleftrightarrow>
     (0 < length vs \<longrightarrow> vs ! 0 < 24) \<and> (1 < length vs \<longrightarrow> vs ! 1 < 60) \<and> (2 < length vs \<longrightarrow> vs ! 2 < 60)"

definition zone_mark :: "char \<Rightarrow> bool" where
  "zone_mark c \<longleftrightarrow> c = CHR ''+'' \<or> c = CHR ''-'' \<or> c = CHR ''Z''"

text \<open>The time of day and, when the text has one, the offset from UTC.\<close>

definition parse_time_part :: "string \<Rightarrow> (tod \<times> int option) option" where
  "parse_time_part s =
     (let clock = takeWhile (\<lambda>c. \<not> zone_mark c) s; tz = drop (length clock) s
      in case clock_fields 3 True True clock of
           None \<Rightarrow> None
         | Some (vs, us, left) \<Rightarrow>
             if \<not> valid_clock vs then None
             else (case tz of
                [] \<Rightarrow> if left then None else Some (clock_us vs us, None)
              | m # off \<Rightarrow>
                  if m = CHR ''Z'' then (if off = [] then Some (clock_us vs us, Some 0) else None)
                  else (case clock_fields 3 True True off of
                     None \<Rightarrow> None
                   | Some (os, ous, rest) \<Rightarrow>
                       let o_us = clock_us os ous
                       in if rest \<or> day_us \<le> o_us then None
                          else Some (clock_us vs us, Some (if m = CHR ''-'' then - o_us else o_us)))))"

definition separator_location :: "string \<Rightarrow> nat" where
  "separator_location s =
     (if length s = 7 then 7
      else if char_at 4 s = Some (CHR ''-'') then
        (if char_at 5 s = Some (CHR ''W'') then
           (if char_at 8 s = Some (CHR ''-'') then
              (case char_at 10 s of None \<Rightarrow> 10 | Some c \<Rightarrow> if is_digit c then 8 else 10)
            else 8)
         else 10)
      else if char_at 4 s = Some (CHR ''W'') then
        (let pos = 7 + length (takeWhile is_digit (drop 7 s))
         in if pos < 9 then pos else if even pos then 7 else 8)
      else 8)"

text \<open>The wall-clock moment and its offset, when the text has one.\<close>

definition datetime_fromisoformat :: "string \<Rightarrow> (wall \<times> int option) option" where
  "datetime_fromisoformat s =
     (if length s < 7 then None
      else
        (let k = separator_location s
         in case parse_date_part (take k s) of None \<Rightarrow> None
            | Some d \<Rightarrow>
                if length s = k then Some (combine d 0, None) else if length s < k then None
                else (case parse_time_part (drop (k + 1) s) of None \<Rightarrow> None
                      | Some (t, off) \<Rightarrow> Some (combine d t, off))))"

section \<open>Texts that are parsed back\<close>

lemma date_fromisoformat_extended:
  assumes "parse_iso_date s = Some n" shows "date_fromisoformat s = Some n"
proof -
  let ?ds = "take 4 s @ take 2 (drop 5 s) @ drop 8 s"
  have s: "length s = 10" "s ! 4 = CHR ''-''" "s ! 7 = CHR ''-''" "list_all is_digit ?ds"
    and n: "valid_ymd (parse_digits (take 4 s)) (parse_digits (take 2 (drop 5 s))) (parse_digits (drop 8 s))"
      "n = ordinal_of (parse_digits (take 4 s)) (parse_digits (take 2 (drop 5 s))) (parse_digits (drop 8 s))"
    using assms by (auto simp: parse_iso_date_def Let_def split: if_splits)
  have "s ! 5 \<in> set (take 2 (drop 5 s))"
    using s(1) by (auto simp: in_set_conv_nth intro!: exI [of _ 0])
  then have "is_digit (s ! 5)" using s(4) by (auto simp: list_all_iff)
  then have w: "s ! 5 \<noteq> CHR ''W''" by (auto simp: is_digit_def code_point_def)
  have all: "list_all is_digit (take 4 s)" "list_all is_digit (take 2 (drop 5 s))" "list_all is_digit (drop 8 s)"
    using s(4) by simp_all
  show ?thesis
    using s w n all by (simp add: date_fromisoformat_def parse_date_part_def digits_at_def char_at_def Let_def)
qed

lemma date_fromisoformat_text: "date_range n \<Longrightarrow> date_fromisoformat (iso_date n) = Some n"
  by (simp add: date_fromisoformat_extended parse_iso_date_text)

end
