(* ===== verification/BillingData.thy ===== *)
theory BillingData
  imports Plans Decimals IsoFormat Uuids
begin

text \<open>
  The rows of commercial payments (\<open>app/models/billing.py\<close>, \<open>BusinessAccess\<close> of
  \<open>app/models/auth.py\<close>), their constraints, the amounts and cycles of the provider's payloads,
  and the queries \<open>app/billing/service.py\<close> shares. The session flushes before every query, so a
  query sees what the transaction wrote; the constraints of the tables are checked when the
  transaction commits, and a violation discards all of it. One reading of the clock stands for
  the readings of one operation.
\<close>

section \<open>Rows\<close>

record billing_checkout =
  bc_id :: uuid
  bc_business :: uuid
  bc_key :: uuid
  bc_plan :: string
  bc_cycle :: string
  bc_method :: string
  bc_environment :: string
  bc_amount :: int
  bc_status :: string
  bc_session :: "string option"
  bc_url :: "string option"
  bc_authorization :: "string option"
  bc_qr_code :: "string option"
  bc_conciliation :: "string option"
  bc_qr_payload :: "string option"
  bc_qr_expires :: "instant option"
  bc_expires :: "instant option"
  bc_paid :: "instant option"
  bc_customer :: "string option"
  bc_subscription :: "string option"
  bc_payment :: "string option"
  bc_payer_name :: "string option"
  bc_payer_email :: "string option"
  bc_payer_phone :: "string option"
  bc_created :: instant

record commercial_subscription =
  cs_id :: uuid
  cs_business :: uuid
  cs_checkout :: uuid
  cs_plan :: string
  cs_cycle :: string
  cs_method :: string
  cs_environment :: string
  cs_status :: string
  cs_subscription :: "string option"
  cs_authorization :: "string option"
  cs_qr_code :: "string option"
  cs_customer :: "string option"
  cs_access_until :: instant
  cs_canceled :: "instant option"
  cs_cancellation_requested :: "instant option"
  cs_refund_status :: string
  cs_refund_requested :: "instant option"
  cs_refunded :: "instant option"
  cs_created :: instant

record access_row =
  ac_business :: uuid
  ac_mode :: string
  ac_full :: bool
  ac_history :: bool

record billing_event =
  be_id :: string
  be_type :: string
  be_environment :: string
  be_business :: "uuid option"
  be_amount :: "int option"
  be_resource_type :: string
  be_resource :: "string option"
  be_payment :: "string option"
  be_authorization :: "string option"
  be_processed :: "instant option"

record billing_db =
  bd_checkouts :: "billing_checkout list"
  bd_subscriptions :: "commercial_subscription list"
  bd_access :: "access_row list"
  bd_events :: "billing_event list"
  bd_pushes :: "push_row list"

text \<open>Errors: a response of the interface, a constraint of a table, an exception nobody catches.\<close>

datatype billing_error = HttpError int string | ConstraintError string | UncaughtError string

text \<open>The rows the entitlements read (\<open>Plans\<close>).\<close>

definition entitlement_row :: "commercial_subscription \<Rightarrow> subscription" where
  "entitlement_row s = \<lparr>sb_id = cs_id s, sb_business = cs_business s, sb_plan = cs_plan s,
     sb_environment = cs_environment s, sb_status = cs_status s, sb_access_until = cs_access_until s,
     sb_created = cs_created s\<rparr>"

definition entitled :: "billing_db \<Rightarrow> uuid \<Rightarrow> string \<Rightarrow> instant \<Rightarrow> bool" where
  "entitled db b environment t = list_ex (\<lambda>s. subscription_active b environment t (entitlement_row s)) (bd_subscriptions db)"

section \<open>Constraints\<close>

definition present_values :: "('a \<Rightarrow> 'b option) \<Rightarrow> 'a list \<Rightarrow> 'b list" where
  "present_values f xs = List.map_filter f xs"

definition unique_present :: "('a \<Rightarrow> 'b option) \<Rightarrow> 'a list \<Rightarrow> bool" where
  "unique_present f xs = distinct (present_values f xs)"

definition payment_key :: "billing_checkout \<Rightarrow> (string \<times> string) option" where
  "payment_key c = map_option (Pair (bc_environment c)) (bc_payment c)"

definition referenced :: "commercial_subscription \<Rightarrow> bool" where
  "referenced s \<longleftrightarrow> cs_subscription s \<noteq> None \<or> cs_authorization s \<noteq> None \<or> cs_qr_code s \<noteq> None"

definition checkout_constraints :: "billing_checkout list \<Rightarrow> (string \<times> bool) list" where
  "checkout_constraints cs =
     [(''pk_billing_checkouts'', distinct (map bc_id cs)),
      (''uq_billing_checkouts_business_env_idempotency'',
         distinct (map (\<lambda>c. (bc_business c, bc_environment c, bc_key c)) cs)),
      (''billing_checkout_amount_positive'', list_all (\<lambda>c. 0 < bc_amount c) cs),
      (''ix_billing_checkouts_provider_checkout_id'', unique_present bc_session cs),
      (''ix_billing_checkouts_provider_authorization_id'', unique_present bc_authorization cs),
      (''ix_billing_checkouts_provider_pix_qr_code_id'', unique_present bc_qr_code cs),
      (''uq_billing_checkouts_env_provider_payment_id'', unique_present payment_key cs)]"

definition subscription_constraints :: "commercial_subscription list \<Rightarrow> (string \<times> bool) list" where
  "subscription_constraints ss =
     [(''pk_commercial_subscriptions'', distinct (map cs_id ss)),
      (''commercial_subscriptions_checkout_id_key'', distinct (map cs_checkout ss)),
      (''commercial_subscription_provider_reference_required'', list_all referenced ss),
      (''ix_commercial_subscriptions_provider_subscription_id'', unique_present cs_subscription ss),
      (''ix_commercial_subscriptions_provider_authorization_id'', unique_present cs_authorization ss),
      (''ix_commercial_subscriptions_provider_pix_qr_code_id'', unique_present cs_qr_code ss)]"

definition row_constraints :: "billing_db \<Rightarrow> (string \<times> bool) list" where
  "row_constraints db =
     checkout_constraints (bd_checkouts db) @ subscription_constraints (bd_subscriptions db)
     @ [(''pk_business_access'', distinct (map ac_business (bd_access db))),
        (''pk_billing_webhook_events'', distinct (map be_id (bd_events db))),
        (''billing_webhook_event_amount_positive'',
           list_all (\<lambda>e. case be_amount e of None \<Rightarrow> True | Some n \<Rightarrow> 0 < n) (bd_events db)),
        (''uq_web_push_events_event_key'', distinct (map pu_event_key (bd_pushes db)))]"

text \<open>\<open>commit\<close>: the first constraint that fails raises.\<close>

definition commit :: "billing_db \<Rightarrow> billing_error + billing_db" where
  "commit db =
     (case filter (\<lambda>(n, ok). \<not> ok) (row_constraints db) of
        [] \<Rightarrow> Inr db
      | (n, ok) # rest \<Rightarrow> Inl (ConstraintError n))"

definition billing_keys_ok :: "billing_db \<Rightarrow> bool" where
  "billing_keys_ok db = list_all snd (row_constraints db)"

lemma commit_Inr: "commit db = Inr db' \<longleftrightarrow> db' = db \<and> billing_keys_ok db"
proof -
  have "filter (\<lambda>(n, ok). \<not> ok) (row_constraints db) = [] \<longleftrightarrow> billing_keys_ok db"
    by (auto simp: billing_keys_ok_def filter_empty_conv list_all_iff)
  then show ?thesis
    unfolding commit_def by (cases "filter (\<lambda>(n, ok). \<not> ok) (row_constraints db)") auto
qed

section \<open>Context\<close>

text \<open>The environment of the process, the clock, the zone of Brazil and a fresh identifier.\<close>

record billing_context =
  cx_environment :: environment
  cx_now :: instant
  cx_brazil :: zone
  cx_fresh :: uuid

definition provider_environment :: "billing_context \<Rightarrow> string" where
  "provider_environment cx = billing_provider_environment (cx_environment cx)"

section \<open>Amounts, dates and cycles\<close>

text \<open>
  \<open>_payment_value_cents\<close> and \<open>_payment_amount_cents\<close>: a value that is no number, has more than
  28 digits or is not positive gives nothing; a quiet NaN passes the rounding and raises in the
  comparison.
\<close>

definition signalling_nan :: "pyval \<Rightarrow> bool" where
  "signalling_nan v =
     (case v of
        PStr s \<Rightarrow> prefix ''s'' (snd (split_sign (casefold (filter (\<lambda>c. c \<noteq> CHR ''_'') (strip s)))))
      | _ \<Rightarrow> False)"

definition payment_value_cents :: "pyval \<Rightarrow> billing_error + int option" where
  "payment_value_cents v =
     (case decimal_of_value v of
        None \<Rightarrow> Inr None
      | Some (DInf neg) \<Rightarrow> Inr None
      | Some DNaN \<Rightarrow> if signalling_nan v then Inr None else Inl (UncaughtError ''InvalidOperation'')
      | Some (DFin d) \<Rightarrow>
          if coef d = 0 \<or> 30 < expo d then Inr None
          else let q = quantize_with round_half_up d
               in if 10 ^ 28 \<le> \<bar>coef q\<bar> then Inr None
                  else if coef q \<le> 0 then Inr None else Inr (Some (coef q)))"

definition payload_value :: "pydict \<Rightarrow> string \<Rightarrow> pyval" where
  "payload_value p k = (case dict_get p k of None \<Rightarrow> PNone | Some v \<Rightarrow> v)"

text \<open>A text of a payload that is present and has a bounded length.\<close>

definition text_value :: "pydict \<Rightarrow> string \<Rightarrow> string option" where
  "text_value p k = (case dict_get p k of Some (PStr s) \<Rightarrow> Some s | _ \<Rightarrow> None)"

definition reference_value :: "nat \<Rightarrow> pydict \<Rightarrow> string \<Rightarrow> string option" where
  "reference_value n p k =
     (case text_value p k of None \<Rightarrow> None | Some s \<Rightarrow> if 0 < length s \<and> length s \<le> n then Some s else None)"

definition parse_due_date :: "pyval \<Rightarrow> date option" where
  "parse_due_date v = (case v of PStr s \<Rightarrow> date_fromisoformat (take 10 s) | _ \<Rightarrow> None)"

definition parse_provider_datetime :: "zone \<Rightarrow> pyval \<Rightarrow> instant option" where
  "parse_provider_datetime brazil v =
     (case v of
        PStr s \<Rightarrow>
          if 40 < length s then None
          else (let k = length (takeWhile (\<lambda>c. c \<noteq> CHR '' '') s);
                    t = (if k < length s then s[k := CHR ''T''] else s)
                in case datetime_fromisoformat t of
                     None \<Rightarrow> None
                   | Some (w, None) \<Rightarrow> Some (to_utc brazil w)
                   | Some (w, Some off) \<Rightarrow> Some (w - off))
      | _ \<Rightarrow> None)"

text \<open>The same day \<open>months\<close> later, or the last day of that month.\<close>

definition cycle_end :: "instant \<Rightarrow> string \<Rightarrow> billing_error + instant" where
  "cycle_end anchor cycle =
     (case cycle_months cycle of
        Inl e \<Rightarrow> Inl (UncaughtError ''KeyError'')
      | Inr months \<Rightarrow>
          (let (y, m, d) = ymd_of (wall_date anchor);
               k = m - 1 + months;
               year = y + k div 12;
               month = k mod 12 + 1
           in if 9999 < year then Inl (UncaughtError ''ValueError'')
              else Inr (combine (ordinal_of year month (min d (days_in_month year month))) (wall_tod anchor))))"

section \<open>Queries\<close>

definition checkout_at :: "billing_db \<Rightarrow> uuid \<Rightarrow> billing_checkout option" where
  "checkout_at db i = first (filter (\<lambda>c. bc_id c = i) (bd_checkouts db))"

definition modify_checkout :: "uuid \<Rightarrow> (billing_checkout \<Rightarrow> billing_checkout) \<Rightarrow> billing_db \<Rightarrow> billing_db" where
  "modify_checkout i f db = db\<lparr>bd_checkouts := update_where (\<lambda>c. bc_id c = i) f (bd_checkouts db)\<rparr>"

definition modify_subscription ::
  "uuid \<Rightarrow> (commercial_subscription \<Rightarrow> commercial_subscription) \<Rightarrow> billing_db \<Rightarrow> billing_db" where
  "modify_subscription i f db = db\<lparr>bd_subscriptions := update_where (\<lambda>s. cs_id s = i) f (bd_subscriptions db)\<rparr>"

definition find_checkout ::
  "billing_context \<Rightarrow> billing_db \<Rightarrow> (billing_checkout \<Rightarrow> bool) \<Rightarrow> billing_checkout option" where
  "find_checkout cx db p =
     first (filter (\<lambda>c. p c \<and> bc_environment c = provider_environment cx) (bd_checkouts db))"

definition find_subscription ::
  "billing_context \<Rightarrow> billing_db \<Rightarrow> (commercial_subscription \<Rightarrow> bool) \<Rightarrow> commercial_subscription option" where
  "find_subscription cx db p =
     first (filter (\<lambda>s. p s \<and> cs_environment s = provider_environment cx) (bd_subscriptions db))"

definition subscription_for_checkout ::
  "billing_context \<Rightarrow> billing_db \<Rightarrow> uuid \<Rightarrow> commercial_subscription option" where
  "subscription_for_checkout cx db i = find_subscription cx db (\<lambda>s. cs_checkout s = i)"

definition active_subscription_for_business ::
  "billing_context \<Rightarrow> billing_db \<Rightarrow> uuid \<Rightarrow> commercial_subscription option" where
  "active_subscription_for_business cx db b =
     max_by cs_created (filter (\<lambda>s. cs_business s = b \<and> cs_environment s = provider_environment cx
        \<and> (cs_status s = ''active'' \<or> cs_status s = ''canceled'') \<and> cx_now cx < cs_access_until s)
       (bd_subscriptions db))"

definition latest_subscription_for_business ::
  "billing_context \<Rightarrow> billing_db \<Rightarrow> uuid \<Rightarrow> commercial_subscription option" where
  "latest_subscription_for_business cx db b =
     max_by cs_created (filter (\<lambda>s. cs_business s = b \<and> cs_environment s = provider_environment cx)
       (bd_subscriptions db))"

definition access_of :: "billing_db \<Rightarrow> uuid \<Rightarrow> access_row option" where
  "access_of db b = first (filter (\<lambda>a. ac_business a = b) (bd_access db))"

definition modify_access :: "uuid \<Rightarrow> (access_row \<Rightarrow> access_row) \<Rightarrow> billing_db \<Rightarrow> billing_db" where
  "modify_access b f db = db\<lparr>bd_access := update_where (\<lambda>a. ac_business a = b) f (bd_access db)\<rparr>"

text \<open>The history flag of the business; a sandbox never changes it.\<close>

definition record_operational_history :: "billing_context \<Rightarrow> uuid \<Rightarrow> billing_db \<Rightarrow> billing_db" where
  "record_operational_history cx b db =
     (if provider_environment cx \<noteq> ''production'' then db
      else if access_of db b = None
      then db\<lparr>bd_access := bd_access db @ [\<lparr>ac_business = b, ac_mode = ''free'', ac_full = False, ac_history = True\<rparr>]\<rparr>
      else modify_access b (\<lambda>a. a\<lparr>ac_history := True\<rparr>) db)"

definition return_business_to_free :: "billing_context \<Rightarrow> uuid \<Rightarrow> billing_db \<Rightarrow> billing_db" where
  "return_business_to_free cx b db =
     (if provider_environment cx \<noteq> ''production'' then db
      else if access_of db b = None
      then db\<lparr>bd_access := bd_access db @ [\<lparr>ac_business = b, ac_mode = ''free'', ac_full = False, ac_history = True\<rparr>]\<rparr>
      else modify_access b (\<lambda>a. (if ac_full a then a else a\<lparr>ac_mode := ''free''\<rparr>)\<lparr>ac_history := True\<rparr>) db)"

end
