(* ===== verification/AsaasPort.thy ===== *)
theory AsaasPort
  imports BillingData
begin

text \<open>
  The client of the payment provider (\<open>app/billing/asaas.py\<close>): the request of every method, how
  its answer is read, and the three errors a caller can tell apart. What the provider answers is a
  parameter, a function of the exchanges so far and of the request; the exchanges are the state of
  the client. Headers and time limits are left out.
\<close>

section \<open>Exchanges\<close>

record asaas_request =
  rq_method :: string
  rq_path :: string
  rq_json :: pyval
  rq_params :: pydict

datatype body = EmptyBody | Json pyval | NotJson

datatype asaas_answer = Answered int body | TimedOut | TransportFailed

type_synonym exchange = "asaas_request \<times> asaas_answer"

datatype gateway_error = CardRejected | GatewayTimeout | GatewayFailure

text \<open>What the provider answers, and the host of its hosted checkouts.\<close>

record asaas_port =
  ap_answer :: "exchange list \<Rightarrow> asaas_request \<Rightarrow> asaas_answer"
  ap_host :: string

type_synonym 'a gateway_call = "exchange list \<Rightarrow> (gateway_error + 'a) \<times> exchange list"

record request_options =
  op_decline_on_400 :: bool
  op_empty :: bool
  op_not_found :: bool

definition plain_options :: request_options where
  "plain_options = \<lparr>op_decline_on_400 = False, op_empty = False, op_not_found = False\<rparr>"

definition read_body :: "request_options \<Rightarrow> body \<Rightarrow> gateway_error + pydict" where
  "read_body os b =
     (if op_empty os \<and> b = EmptyBody then Inr []
      else (case b of Json (PDict d) \<Rightarrow> Inr d | _ \<Rightarrow> Inl GatewayFailure))"

definition read_answer :: "request_options \<Rightarrow> asaas_answer \<Rightarrow> gateway_error + pydict" where
  "read_answer os a =
     (case a of
        TimedOut \<Rightarrow> Inl GatewayTimeout
      | TransportFailed \<Rightarrow> Inl GatewayFailure
      | Answered code b \<Rightarrow>
          if op_not_found os \<and> code = 404 then Inr []
          else if 200 \<le> code \<and> code \<le> 299 then read_body os b
          else if op_decline_on_400 os \<and> code = 400 then Inl CardRejected
          else Inl GatewayFailure)"

definition json_request :: "asaas_port \<Rightarrow> request_options \<Rightarrow> asaas_request \<Rightarrow> pydict gateway_call" where
  "json_request port os rq h =
     (let a = ap_answer port h rq in (read_answer os a, h @ [(rq, a)]))"

text \<open>A method sends one request and reads the document of its answer.\<close>

definition ask ::
  "asaas_port \<Rightarrow> request_options \<Rightarrow> asaas_request \<Rightarrow> (pydict \<Rightarrow> gateway_error + 'a) \<Rightarrow> 'a gateway_call" where
  "ask port os rq parse h = (case json_request port os rq h of (r, h') \<Rightarrow> (and_then r parse, h'))"

definition refuse :: "'a gateway_call" where
  "refuse h = (Inl GatewayFailure, h)"

section \<open>Reading an answer\<close>

definition need :: "'a option \<Rightarrow> gateway_error + 'a" where
  "need v = (case v of None \<Rightarrow> Inl GatewayFailure | Some x \<Rightarrow> Inr x)"

definition filled_text :: "nat \<Rightarrow> pydict \<Rightarrow> string \<Rightarrow> string option" where
  "filled_text n d k =
     (case text_value d k of None \<Rightarrow> None | Some s \<Rightarrow> if strip s \<noteq> [] \<and> length s \<le> n then Some s else None)"

definition prefixed_text :: "string \<Rightarrow> nat \<Rightarrow> pydict \<Rightarrow> string \<Rightarrow> string option" where
  "prefixed_text p n d k =
     (case text_value d k of None \<Rightarrow> None | Some s \<Rightarrow> if prefix p s \<and> length s \<le> n then Some s else None)"

definition dict_rows :: "pydict \<Rightarrow> gateway_error + pydict list" where
  "dict_rows d =
     (case dict_get d ''data'' of
        Some (PList vs) \<Rightarrow> Inr (List.map_filter (\<lambda>v. case v of PDict r \<Rightarrow> Some r | _ \<Rightarrow> None) vs)
      | _ \<Rightarrow> Inl GatewayFailure)"

definition first_present :: "('a \<Rightarrow> 'b option) \<Rightarrow> 'a list \<Rightarrow> 'b option" where
  "first_present f xs = first (List.map_filter f xs)"

text \<open>
  \<open>_safe_checkout_url\<close> with \<open>urllib.parse.urlsplit\<close>: white space and control characters in front
  and tabs and line ends anywhere are dropped; the authority ends at the path, query or fragment. A
  bracketed host is an IP address or raises, and the hosts of the provider are names.
\<close>

definition safe_checkout_url :: "string \<Rightarrow> string \<Rightarrow> bool" where
  "safe_checkout_url host raw \<longleftrightarrow>
     (let u = filter (\<lambda>c. c \<notin> {CHR 0x09, CHR 0x0A, CHR 0x0D}) (dropWhile (\<lambda>c. code_point c \<le> 32) raw);
          s = takeWhile (\<lambda>c. c \<noteq> CHR '':'') u;
          r = drop (length s + 1) u;
          netloc = takeWhile (\<lambda>c. c \<notin> {CHR ''/'', CHR ''?'', CHR ''#''}) (drop 2 r)
      in length s < length u \<and> casefold s = ''https'' \<and> take 2 r = ''//''
         \<and> list_all (\<lambda>c. c \<notin> {CHR ''@'', CHR ''['', CHR '']''}) netloc
         \<and> casefold (takeWhile (\<lambda>c. c \<noteq> CHR '':'') netloc) = host)"

definition id_char :: "char \<Rightarrow> bool" where
  "id_char c \<longleftrightarrow> is_digit c \<or> is_lower_az c \<or> (65 \<le> code_point c \<and> code_point c \<le> 90) \<or> c = CHR ''_'' \<or> c = CHR ''-''"

definition plain_id :: "string \<Rightarrow> bool" where
  "plain_id s \<longleftrightarrow> s \<noteq> [] \<and> length s \<le> 100 \<and> list_all id_char s"

text \<open>The \<open>repr\<close> of an amount of cents divided by 100.\<close>

definition cents_text :: "int \<Rightarrow> string" where
  "cents_text n =
     (let q = str_of_int (n div 100); r = n mod 100
      in if r mod 10 = 0 then q @ ''.'' @ str_of_int (r div 10) else q @ ''.'' @ zero_pad 2 r)"

definition cents_value :: "int \<Rightarrow> pyval" where
  "cents_value n = PFloat (cents_text n)"

section \<open>Requests\<close>

definition get_request :: "string \<Rightarrow> pydict \<Rightarrow> asaas_request" where
  "get_request path params = \<lparr>rq_method = ''GET'', rq_path = path, rq_json = PNone, rq_params = params\<rparr>"

definition body_request :: "string \<Rightarrow> string \<Rightarrow> pydict \<Rightarrow> asaas_request" where
  "body_request method path json = \<lparr>rq_method = method, rq_path = path, rq_json = PDict json, rq_params = []\<rparr>"

definition delete_request :: "string \<Rightarrow> asaas_request" where
  "delete_request path = \<lparr>rq_method = ''DELETE'', rq_path = path, rq_json = PNone, rq_params = []\<rparr>"

definition delete_options :: request_options where
  "delete_options = \<lparr>op_decline_on_400 = False, op_empty = True, op_not_found = True\<rparr>"

section \<open>Customers\<close>

definition customer_id :: "pydict \<Rightarrow> string option" where
  "customer_id d = prefixed_text ''cus_'' 80 d ''id''"

definition find_customer :: "asaas_port \<Rightarrow> string \<Rightarrow> string \<Rightarrow> string option gateway_call" where
  "find_customer port reference cpf =
     ask port plain_options
       (get_request ''/customers''
          [(''externalReference'', PStr reference), (''cpfCnpj'', PStr cpf), (''limit'', PInt 10)])
       (\<lambda>d. and_then (dict_rows d) (\<lambda>rows. Inr (first_present customer_id rows)))"

definition create_customer ::
  "asaas_port \<Rightarrow> string \<Rightarrow> string \<Rightarrow> string \<Rightarrow> string \<Rightarrow> string gateway_call" where
  "create_customer port name cpf email reference =
     ask port plain_options
       (body_request ''POST'' ''/customers''
          [(''name'', PStr name), (''cpfCnpj'', PStr cpf), (''email'', PStr email),
           (''externalReference'', PStr reference), (''notificationDisabled'', PBool False)])
       (\<lambda>d. need (customer_id d))"

section \<open>Checkouts and Pix\<close>

record hosted_checkout =
  hc_id :: string
  hc_url :: string

definition create_hosted_checkout :: "asaas_port \<Rightarrow> pydict \<Rightarrow> hosted_checkout gateway_call" where
  "create_hosted_checkout port json =
     ask port plain_options (body_request ''POST'' ''/checkouts'' json)
       (\<lambda>d. and_then (need (filled_text 80 d ''id''))
          (\<lambda>i. Inr \<lparr>hc_id = i, hc_url =
             (case text_value d ''link'' of
                Some link \<Rightarrow> if safe_checkout_url (ap_host port) link then link
                   else ''https://'' @ ap_host port @ ''/checkoutSession/show?id='' @ i
              | None \<Rightarrow> ''https://'' @ ap_host port @ ''/checkoutSession/show?id='' @ i)\<rparr>))"

definition pix_key :: "pydict \<Rightarrow> string option" where
  "pix_key d =
     (if dict_get d ''status'' \<noteq> Some (PStr ''ACTIVE'') then None else map_option strip (filled_text 200 d ''key''))"

definition active_pix_address_key :: "asaas_port \<Rightarrow> string gateway_call" where
  "active_pix_address_key port =
     ask port plain_options
       (get_request ''/pix/addressKeys'' [(''status'', PStr ''ACTIVE''), (''limit'', PInt 100)])
       (\<lambda>d. and_then (dict_rows d) (\<lambda>rows. need (first_present pix_key rows)))"

record static_qr =
  sq_id :: string
  sq_payload :: string
  sq_expires :: instant

definition create_static_pix ::
  "asaas_port \<Rightarrow> billing_context \<Rightarrow> string \<Rightarrow> string \<Rightarrow> int \<Rightarrow> string \<Rightarrow> int \<Rightarrow> static_qr gateway_call" where
  "create_static_pix port cx key description cents reference seconds =
     ask port plain_options
       (body_request ''POST'' ''/pix/qrCodes/static''
          [(''addressKey'', PStr key), (''description'', PStr description), (''value'', cents_value cents),
           (''format'', PStr ''PAYLOAD''), (''expirationSeconds'', PInt seconds),
           (''allowsMultiplePayments'', PBool False), (''externalReference'', PStr reference)])
       (\<lambda>d. and_then (need (filled_text 100 d ''id''))
          (\<lambda>i. and_then (need (filled_text 8000 d ''payload''))
          (\<lambda>payload. Inr \<lparr>sq_id = i, sq_payload = payload,
             sq_expires = (case parse_provider_datetime (cx_brazil cx) (payload_value d ''expirationDate'') of
                None \<Rightarrow> cx_now cx + 1000000 * seconds | Some t \<Rightarrow> t)\<rparr>)))"

definition delete_static_pix :: "asaas_port \<Rightarrow> string \<Rightarrow> pydict gateway_call" where
  "delete_static_pix port i =
     (if \<not> plain_id i then refuse else ask port delete_options (delete_request (''/pix/qrCodes/static/'' @ i)) Inr)"

record pix_authorization =
  pz_id :: string
  pz_subscription :: "string option"
  pz_payload :: string
  pz_conciliation :: "string option"
  pz_expires :: "instant option"

definition short_text :: "nat \<Rightarrow> pydict \<Rightarrow> string \<Rightarrow> string option" where
  "short_text n d k = (case text_value d k of None \<Rightarrow> None | Some s \<Rightarrow> if length s \<le> n then Some s else None)"

definition create_pix_authorization :: "asaas_port \<Rightarrow> billing_context \<Rightarrow> pydict \<Rightarrow> pix_authorization gateway_call" where
  "create_pix_authorization port cx json =
     ask port plain_options (body_request ''POST'' ''/pix/automatic/authorizations'' json)
       (\<lambda>d. and_then (need (filled_text 100 d ''id''))
          (\<lambda>i. and_then (need (case dict_get d ''immediateQrCode'' of Some (PDict q) \<Rightarrow> Some q | _ \<Rightarrow> None))
          (\<lambda>q. and_then (need (filled_text 8000 d ''payload''))
          (\<lambda>payload. Inr \<lparr>pz_id = i, pz_subscription = filled_text 80 d ''subscriptionId'', pz_payload = payload,
             pz_conciliation = short_text 100 q ''conciliationIdentifier'',
             pz_expires = parse_provider_datetime (cx_brazil cx) (payload_value q ''expirationDate'')\<rparr>))))"

definition cancel_pix_authorization :: "asaas_port \<Rightarrow> string \<Rightarrow> pydict gateway_call" where
  "cancel_pix_authorization port i =
     (if \<not> plain_id i then refuse
      else ask port delete_options (delete_request (''/pix/automatic/authorizations/'' @ i)) Inr)"

section \<open>Subscriptions and payments\<close>

definition sub_id_ok :: "string \<Rightarrow> bool" where
  "sub_id_ok i \<longleftrightarrow> prefix ''sub_'' i \<and> length i \<le> 80"

definition pay_id_ok :: "string \<Rightarrow> bool" where
  "pay_id_ok i \<longleftrightarrow> prefix ''pay_'' i \<and> length i \<le> 100"

definition card_options :: request_options where
  "card_options = \<lparr>op_decline_on_400 = True, op_empty = False, op_not_found = False\<rparr>"

definition create_card_subscription :: "asaas_port \<Rightarrow> pydict \<Rightarrow> string gateway_call" where
  "create_card_subscription port json =
     ask port card_options (body_request ''POST'' ''/subscriptions'' json)
       (\<lambda>d. need (prefixed_text ''sub_'' 80 d ''id''))"

definition asaas_find_subscription :: "asaas_port \<Rightarrow> string \<Rightarrow> string option gateway_call" where
  "asaas_find_subscription port reference =
     ask port plain_options
       (get_request ''/subscriptions'' [(''externalReference'', PStr reference), (''limit'', PInt 2)])
       (\<lambda>d. and_then (dict_rows d) (\<lambda>rows. Inr (first_present (\<lambda>r. prefixed_text ''sub_'' 80 r ''id'') rows)))"

definition update_subscription_value :: "asaas_port \<Rightarrow> string \<Rightarrow> int \<Rightarrow> pydict gateway_call" where
  "update_subscription_value port i cents =
     (if \<not> sub_id_ok i \<or> cents \<le> 0 then refuse
      else ask port plain_options
        (body_request ''PUT'' (''/subscriptions/'' @ i)
           [(''value'', cents_value cents), (''updatePendingPayments'', PBool True)]) Inr)"

definition cancel_subscription :: "asaas_port \<Rightarrow> string \<Rightarrow> pydict gateway_call" where
  "cancel_subscription port i =
     (if \<not> sub_id_ok i then refuse else ask port delete_options (delete_request (''/subscriptions/'' @ i)) Inr)"

definition refund_request :: "string \<Rightarrow> asaas_request" where
  "refund_request i = body_request ''POST'' (''/payments/'' @ i @ ''/refund'') []"

definition refund_payment :: "asaas_port \<Rightarrow> string \<Rightarrow> pydict gateway_call" where
  "refund_payment port i = (if \<not> pay_id_ok i then refuse else ask port plain_options (refund_request i) Inr)"

definition payment_details :: "asaas_port \<Rightarrow> string \<Rightarrow> pydict gateway_call" where
  "payment_details port i =
     (if \<not> pay_id_ok i then refuse else ask port plain_options (get_request (''/payments/'' @ i) []) Inr)"

definition payments_for_checkout :: "asaas_port \<Rightarrow> string \<Rightarrow> pydict list gateway_call" where
  "payments_for_checkout port i =
     ask port plain_options (get_request ''/payments'' [(''checkoutSession'', PStr i), (''limit'', PInt 20)]) dict_rows"

definition payments_for_subscription :: "asaas_port \<Rightarrow> string \<Rightarrow> pydict list gateway_call" where
  "payments_for_subscription port i =
     ask port plain_options (get_request (''/subscriptions/'' @ i @ ''/payments'') []) dict_rows"

definition payments_for_static_pix :: "asaas_port \<Rightarrow> string \<Rightarrow> pydict list gateway_call" where
  "payments_for_static_pix port i =
     (if \<not> plain_id i then refuse
      else ask port plain_options (get_request ''/payments'' [(''pixQrCodeId'', PStr i), (''limit'', PInt 10)]) dict_rows)"

end
