(* ===== verification/BillingEvents.thy ===== *)
theory BillingEvents
  imports BillingData
begin

text \<open>
  The notifications of the payment provider: what a payment, an authorization of automatic Pix, a
  subscription or a checkout event changes (\<open>apply_*\<close>, \<open>_capture_*\<close>, \<open>_activate_*\<close> of
  \<open>app/billing/service.py\<close>), and the processing of one notification
  (\<open>app/billing/webhooks.py\<close>). A handler works on the rows of the transaction and commits
  them, and the mark of the processed event is committed after it. One step here is both commits:
  what an exception of the handler discards is discarded, and a process that dies between the two
  commits is not modelled.
\<close>

section \<open>Kinds of events\<close>

definition checkout_events :: "string list" where
  "checkout_events = [''CHECKOUT_CREATED'', ''CHECKOUT_PAID'', ''CHECKOUT_CANCELED'', ''CHECKOUT_EXPIRED'']"

definition subscription_events :: "string list" where
  "subscription_events = [''SUBSCRIPTION_CREATED'', ''SUBSCRIPTION_UPDATED'', ''SUBSCRIPTION_INACTIVATED'',
     ''SUBSCRIPTION_DELETED'']"

definition payment_events :: "string list" where
  "payment_events = [''PAYMENT_CREATED'', ''PAYMENT_UPDATED'', ''PAYMENT_CONFIRMED'', ''PAYMENT_RECEIVED'',
     ''PAYMENT_OVERDUE'', ''PAYMENT_REFUNDED'', ''PAYMENT_PARTIALLY_REFUNDED'', ''PAYMENT_REFUND_IN_PROGRESS'',
     ''PAYMENT_REFUND_DENIED'', ''PAYMENT_CHARGEBACK_REQUESTED'', ''PAYMENT_AWAITING_CHARGEBACK_REVERSAL'']"

definition authorization_prefix :: string where
  "authorization_prefix = ''PIX_AUTOMATIC_RECURRING_AUTHORIZATION_''"

definition pix_authorization_events :: "string list" where
  "pix_authorization_events = map ((@) authorization_prefix)
     [''CREATED'', ''ACTIVATED'', ''CANCELLED'', ''EXPIRED'', ''REFUSED'']"

definition pix_payment_instruction_events :: "string list" where
  "pix_payment_instruction_events = map ((@) ''PIX_AUTOMATIC_RECURRING_PAYMENT_INSTRUCTION_'')
     [''CREATED'', ''SCHEDULED'', ''REFUSED'', ''CANCELLED'']"

definition supported_events :: "string list" where
  "supported_events = checkout_events @ subscription_events @ payment_events @ pix_authorization_events
     @ pix_payment_instruction_events"

definition settled_payment :: "string \<Rightarrow> bool" where
  "settled_payment event \<longleftrightarrow> event = ''PAYMENT_CONFIRMED'' \<or> event = ''PAYMENT_RECEIVED''"

section \<open>Activation\<close>

definition new_subscription ::
  "billing_context \<Rightarrow> billing_checkout \<Rightarrow> string option \<Rightarrow> string option \<Rightarrow> instant \<Rightarrow> commercial_subscription" where
  "new_subscription cx c authorization qr until =
     \<lparr>cs_id = cx_fresh cx, cs_business = bc_business c, cs_checkout = bc_id c, cs_plan = bc_plan c,
      cs_cycle = bc_cycle c, cs_method = bc_method c, cs_environment = provider_environment cx,
      cs_status = ''active'', cs_subscription = bc_subscription c, cs_authorization = authorization,
      cs_qr_code = qr, cs_customer = bc_customer c, cs_access_until = until, cs_canceled = None,
      cs_cancellation_requested = None, cs_refund_status = ''none'', cs_refund_requested = None,
      cs_refunded = None, cs_created = cx_now cx\<rparr>"

definition add_subscription ::
  "billing_context \<Rightarrow> billing_checkout \<Rightarrow> string option \<Rightarrow> string option \<Rightarrow> instant \<Rightarrow> billing_db \<Rightarrow> billing_db" where
  "add_subscription cx c authorization qr until db =
     record_operational_history cx (bc_business c)
       (db\<lparr>bd_subscriptions := bd_subscriptions db @ [new_subscription cx c authorization qr until]\<rparr>)"

definition reactivated :: "billing_checkout \<Rightarrow> instant \<Rightarrow> commercial_subscription \<Rightarrow> commercial_subscription" where
  "reactivated c until s =
     s\<lparr>cs_status := ''active'', cs_subscription := bc_subscription c, cs_customer := bc_customer c,
       cs_access_until := max (cs_access_until s) until\<rparr>"

definition truthy_text :: "string option \<Rightarrow> bool" where
  "truthy_text v \<longleftrightarrow> v \<noteq> None \<and> v \<noteq> Some []"

definition activate_credit_card ::
  "billing_context \<Rightarrow> uuid \<Rightarrow> billing_db \<Rightarrow> billing_error + billing_db" where
  "activate_credit_card cx i db =
     (case checkout_at db i of None \<Rightarrow> Inr db
      | Some c \<Rightarrow>
          if bc_method c \<noteq> ''credit_card'' \<or> bc_status c \<noteq> ''paid'' \<or> \<not> truthy_text (bc_subscription c)
          then Inr db
          else and_then (cycle_end (cx_now cx) (bc_cycle c))
            (\<lambda>until. case subscription_for_checkout cx db i of
               None \<Rightarrow>
                 if active_subscription_for_business cx db (bc_business c) \<noteq> None then Inr db
                 else Inr (add_subscription cx c None None until db)
             | Some s \<Rightarrow>
                 Inr (record_operational_history cx (bc_business c)
                   (modify_subscription (cs_id s) (reactivated c until) db))))"

definition activate_common_pix ::
  "billing_context \<Rightarrow> uuid \<Rightarrow> billing_db \<Rightarrow> billing_error + billing_db" where
  "activate_common_pix cx i db =
     (case checkout_at db i of None \<Rightarrow> Inr db
      | Some c \<Rightarrow>
          if bc_method c \<noteq> ''pix'' \<or> bc_status c \<noteq> ''paid''
             \<or> \<not> (truthy_text (bc_qr_code c) \<or> truthy_text (bc_subscription c))
          then Inr db
          else and_then (cycle_end (cx_now cx) (bc_cycle c))
            (\<lambda>until. case subscription_for_checkout cx db i of
               None \<Rightarrow>
                 if active_subscription_for_business cx db (bc_business c) \<noteq> None then Inr db
                 else Inr (add_subscription cx c None (bc_qr_code c) until db)
             | Some s \<Rightarrow>
                 Inr (record_operational_history cx (bc_business c)
                   (modify_subscription (cs_id s)
                     (\<lambda>x. (reactivated c until x)\<lparr>cs_qr_code := bc_qr_code c\<rparr>) db))))"

definition paid_now :: "billing_context \<Rightarrow> billing_checkout \<Rightarrow> billing_checkout" where
  "paid_now cx c =
     c\<lparr>bc_status := ''paid'', bc_paid := Some (case bc_paid c of None \<Rightarrow> cx_now cx | Some t \<Rightarrow> t)\<rparr>"

definition activate_paid_checkout ::
  "billing_context \<Rightarrow> string \<Rightarrow> billing_db \<Rightarrow> billing_error + billing_db" where
  "activate_paid_checkout cx session db =
     (case find_checkout cx db (\<lambda>c. bc_session c = Some session) of
        None \<Rightarrow> Inr db
      | Some c \<Rightarrow>
          if bc_method c \<noteq> ''credit_card'' then Inr db
          else activate_credit_card cx (bc_id c)
            (if bc_status c \<noteq> ''paid'' then modify_checkout (bc_id c) (paid_now cx) db else db))"

section \<open>What a payment refers to\<close>

definition capture_initial_payment_id :: "string \<Rightarrow> pydict \<Rightarrow> billing_checkout \<Rightarrow> billing_checkout" where
  "capture_initial_payment_id event p c =
     (if \<not> settled_payment event then c
      else (case reference_value 100 p ''id'' of
              None \<Rightarrow> c
            | Some i \<Rightarrow> if bc_payment c = None then c\<lparr>bc_payment := Some i\<rparr> else c))"

definition bind_customer_id :: "pydict \<Rightarrow> string \<Rightarrow> billing_checkout \<Rightarrow> billing_checkout" where
  "bind_customer_id p k c =
     (case reference_value 80 p k of None \<Rightarrow> c | Some i \<Rightarrow> c\<lparr>bc_customer := Some i\<rparr>)"

definition common_pix_checkout :: "billing_context \<Rightarrow> pydict \<Rightarrow> billing_db \<Rightarrow> billing_checkout option" where
  "common_pix_checkout cx p db =
     (case reference_value 100 p ''pixQrCodeId'' of
        Some q \<Rightarrow> find_checkout cx db (\<lambda>c. bc_qr_code c = Some q \<and> bc_method c = ''pix'')
      | None \<Rightarrow>
          (case reference_value 80 p ''subscription'' of
             Some s \<Rightarrow> find_checkout cx db (\<lambda>c. bc_subscription c = Some s \<and> bc_method c = ''pix'')
           | None \<Rightarrow> None))"

definition checkout_reference :: "billing_checkout \<Rightarrow> string" where
  "checkout_reference c = ''alovia:'' @ uuid_text (bc_id c)"

text \<open>A Pix payment of the exact amount settles its checkout.\<close>

definition capture_common_pix ::
  "billing_context \<Rightarrow> string \<Rightarrow> pydict \<Rightarrow> billing_db \<Rightarrow> billing_error + (uuid option \<times> billing_db)" where
  "capture_common_pix cx event p db =
     (if \<not> settled_payment event then Inr (None, db)
      else (case common_pix_checkout cx p db of
         None \<Rightarrow> Inr (None, db)
       | Some c \<Rightarrow>
           and_then (payment_value_cents (payload_value p ''value''))
             (\<lambda>cents. if cents \<noteq> Some (bc_amount c) then Inr (None, db)
                else if (case text_value p ''externalReference'' of None \<Rightarrow> False
                         | Some r \<Rightarrow> r \<noteq> [] \<and> r \<noteq> checkout_reference c)
                then Inr (None, db)
                else Inr (Some (bc_id c),
                  modify_checkout (bc_id c)
                    (\<lambda>x. paid_now cx (capture_initial_payment_id event p (bind_customer_id p ''customer'' x))) db))))"

definition pix_checkout_for_payment :: "billing_context \<Rightarrow> pydict \<Rightarrow> billing_db \<Rightarrow> billing_checkout option" where
  "pix_checkout_for_payment cx p db =
     (if payload_value p ''pixAutomaticAuthorizationId'' \<noteq> PNone then
        (case reference_value 100 p ''pixAutomaticAuthorizationId'' of None \<Rightarrow> None
         | Some a \<Rightarrow> find_checkout cx db (\<lambda>c. bc_authorization c = Some a \<and> bc_method c = ''pix_automatic''))
      else if payload_value p ''subscription'' \<noteq> PNone then
        (case reference_value 80 p ''subscription'' of None \<Rightarrow> None
         | Some s \<Rightarrow> find_checkout cx db (\<lambda>c. bc_subscription c = Some s \<and> bc_method c = ''pix_automatic''))
      else
        (let e = payload_value p ''externalReference'';
             r = (if py_truthy e then e else payload_value p ''contractId'')
         in case r of
              PStr t \<Rightarrow>
                (case parse_uuid (if prefix ''alovia:'' t then drop 7 t else t) of None \<Rightarrow> None
                 | Some i \<Rightarrow>
                     (case checkout_at db i of None \<Rightarrow> None
                      | Some c \<Rightarrow>
                          if bc_method c = ''pix_automatic'' \<and> bc_environment c = provider_environment cx
                          then Some c else None))
            | _ \<Rightarrow> None))"

text \<open>The first payment of an automatic Pix is noted; only the authorization activates.\<close>

definition pix_initial_matches :: "pydict \<Rightarrow> billing_checkout \<Rightarrow> bool" where
  "pix_initial_matches p c \<longleftrightarrow>
     (let a = payload_value p ''pixAutomaticAuthorizationId''; s = payload_value p ''subscription''
      in (a \<noteq> PNone \<longrightarrow> text_value p ''pixAutomaticAuthorizationId'' = bc_authorization c)
         \<and> (a = PNone \<and> s \<noteq> PNone \<longrightarrow> text_value p ''subscription'' = bc_subscription c))"

definition capture_pix_initial ::
  "billing_context \<Rightarrow> string \<Rightarrow> pydict \<Rightarrow> billing_db \<Rightarrow> billing_error + billing_db" where
  "capture_pix_initial cx event p db =
     (if \<not> settled_payment event then Inr db
      else (case pix_checkout_for_payment cx p db of
         None \<Rightarrow> Inr db
       | Some c \<Rightarrow>
           if \<not> pix_initial_matches p c then Inr db
           else and_then (payment_value_cents (payload_value p ''value''))
             (\<lambda>cents. if cents \<noteq> Some (bc_amount c) then Inr db
                else Inr (modify_checkout (bc_id c)
                  (\<lambda>x. (if bc_paid x = None then capture_initial_payment_id event p x else x)
                     \<lparr>bc_paid := Some (case bc_paid x of None \<Rightarrow> cx_now cx | Some t \<Rightarrow> t)\<rparr>) db))))"

definition card_checkout_for_payment ::
  "billing_context \<Rightarrow> pydict \<Rightarrow> string \<Rightarrow> billing_db \<Rightarrow> billing_checkout option" where
  "card_checkout_for_payment cx p sub db =
     (let by_session = (case reference_value 80 p ''checkoutSession'' of None \<Rightarrow> None
            | Some k \<Rightarrow> find_checkout cx db (\<lambda>c. bc_session c = Some k \<and> bc_method c = ''credit_card''))
      in if by_session \<noteq> None then by_session
         else find_checkout cx db (\<lambda>c. bc_subscription c = Some sub \<and> bc_method c = ''credit_card''))"

text \<open>Any event of a payment of a card subscription with the amount of its checkout.\<close>

definition capture_credit_card_refs ::
  "billing_context \<Rightarrow> string \<Rightarrow> pydict \<Rightarrow> billing_db \<Rightarrow> billing_error + (uuid option \<times> billing_db)" where
  "capture_credit_card_refs cx event p db =
     (case reference_value 80 p ''subscription'' of
        None \<Rightarrow> Inr (None, db)
      | Some sub \<Rightarrow>
     (case card_checkout_for_payment cx p sub db of
        None \<Rightarrow> Inr (None, db)
      | Some c \<Rightarrow>
          and_then (payment_value_cents (payload_value p ''value''))
            (\<lambda>cents. if cents \<noteq> Some (bc_amount c) then Inr (None, db)
               else Inr (Some (bc_id c),
                 modify_checkout (bc_id c)
                   (\<lambda>x. let y = bind_customer_id p ''customer'' (x\<lparr>bc_subscription := Some sub\<rparr>)
                        in if payload_value p ''checkoutSession'' \<noteq> PNone \<or> bc_paid y = None
                           then capture_initial_payment_id event p y else y) db))))"

definition nonempty_text :: "pydict \<Rightarrow> string \<Rightarrow> string option" where
  "nonempty_text p k = (case text_value p k of None \<Rightarrow> None | Some s \<Rightarrow> if s = [] then None else Some s)"

definition or_else :: "'a option \<Rightarrow> 'a option \<Rightarrow> 'a option" where
  "or_else a b = (if a \<noteq> None then a else b)"

definition subscription_by ::
  "billing_context \<Rightarrow> billing_db \<Rightarrow> pydict \<Rightarrow> string \<Rightarrow> (commercial_subscription \<Rightarrow> string option)
   \<Rightarrow> commercial_subscription option" where
  "subscription_by cx db p k f =
     (case nonempty_text p k of None \<Rightarrow> None | Some v \<Rightarrow> find_subscription cx db (\<lambda>s. f s = Some v))"

definition subscription_of_customer ::
  "billing_context \<Rightarrow> billing_db \<Rightarrow> string \<Rightarrow> commercial_subscription option" where
  "subscription_of_customer cx db u =
     max_by cs_created (filter (\<lambda>s. cs_customer s = Some u \<and> cs_method s = ''pix_automatic''
        \<and> cs_environment s = provider_environment cx) (bd_subscriptions db))"

definition subscription_for_payment ::
  "billing_context \<Rightarrow> pydict \<Rightarrow> billing_db \<Rightarrow> commercial_subscription option" where
  "subscription_for_payment cx p db =
     or_else (case nonempty_text p ''id'' of None \<Rightarrow> None
        | Some i \<Rightarrow> (case find_checkout cx db (\<lambda>c. bc_payment c = Some i) of None \<Rightarrow> None
            | Some c \<Rightarrow> subscription_for_checkout cx db (bc_id c)))
    (or_else (subscription_by cx db p ''subscription'' cs_subscription)
    (or_else (subscription_by cx db p ''pixQrCodeId'' cs_qr_code)
     (if nonempty_text p ''pixAutomaticAuthorizationId'' \<noteq> None
      then subscription_by cx db p ''pixAutomaticAuthorizationId'' cs_authorization
      else (case nonempty_text p ''customer'' of None \<Rightarrow> None
            | Some u \<Rightarrow> subscription_of_customer cx db u))))"

section \<open>Payment events\<close>

definition amount_of_offer :: "billing_context \<Rightarrow> commercial_subscription \<Rightarrow> billing_error + int" where
  "amount_of_offer cx s =
     (case get_offer (cx_environment cx) (cs_plan s) (cs_cycle s) of
        Inl e \<Rightarrow> Inl (UncaughtError ''BillingCatalogConfigurationError'') | Inr o' \<Rightarrow> Inr (of_amount o'))"

definition extended :: "instant \<Rightarrow> commercial_subscription \<Rightarrow> commercial_subscription" where
  "extended until s = s\<lparr>cs_access_until := max (cs_access_until s) until, cs_status := ''active''\<rparr>"

definition payment_settled ::
  "billing_context \<Rightarrow> pydict \<Rightarrow> commercial_subscription \<Rightarrow> billing_db \<Rightarrow> billing_error + billing_db" where
  "payment_settled cx p s db =
     and_then (amount_of_offer cx s)
       (\<lambda>expected. and_then (payment_value_cents (payload_value p ''value''))
       (\<lambda>cents. if cents \<noteq> Some expected then Inr db
          else and_then (cycle_end
              (case parse_due_date (payload_value p ''dueDate'') of None \<Rightarrow> cx_now cx | Some d \<Rightarrow> combine d 0) (cs_cycle s))
            (\<lambda>until. Inr (record_operational_history cx (cs_business s)
               (modify_subscription (cs_id s) (extended until) db)))))"

definition overdue_key :: "billing_context \<Rightarrow> string \<Rightarrow> string" where
  "overdue_key cx i = ''billing-overdue:'' @ provider_environment cx @ '':'' @ i"

definition payment_overdue ::
  "billing_context \<Rightarrow> pydict \<Rightarrow> commercial_subscription \<Rightarrow> billing_db \<Rightarrow> string option \<times> billing_db" where
  "payment_overdue cx p s db =
     (let db1 = modify_subscription (cs_id s) (\<lambda>x. x\<lparr>cs_status := ''past_due''\<rparr>) db
      in case reference_value 100 p ''id'' of
           None \<Rightarrow> (None, db1)
         | Some i \<Rightarrow>
             if cs_status s = ''past_due'' then (None, db1)
             else (Some (overdue_key cx i),
                   db1\<lparr>bd_pushes := bd_pushes db1 @ [\<lparr>pu_event_key = overdue_key cx i, pu_business = cs_business s,
                     pu_type = ''billing_action'', pu_path = ''/app/mais/plano''\<rparr>]\<rparr>))"

text \<open>The payment is the one that settled the checkout of the subscription.\<close>

definition initial_payment :: "pydict \<Rightarrow> commercial_subscription \<Rightarrow> billing_db \<Rightarrow> bool" where
  "initial_payment p s db \<longleftrightarrow>
     (case (checkout_at db (cs_checkout s), text_value p ''id'') of
        (Some c, Some i) \<Rightarrow> bc_payment c = Some i | _ \<Rightarrow> False)"

definition refund_progress ::
  "string \<Rightarrow> pydict \<Rightarrow> commercial_subscription \<Rightarrow> billing_db \<Rightarrow> billing_db" where
  "refund_progress event p s db =
     (if initial_payment p s db
      then modify_subscription (cs_id s) (\<lambda>x. x\<lparr>cs_refund_status :=
             (if event = ''PAYMENT_REFUND_IN_PROGRESS'' then ''requested'' else ''reconcile_required'')\<rparr>) db
      else db)"

definition suspended :: "instant \<Rightarrow> commercial_subscription \<Rightarrow> commercial_subscription" where
  "suspended now s = s\<lparr>cs_status := ''suspended'', cs_access_until := min (cs_access_until s) now\<rparr>"

definition refunded :: "instant \<Rightarrow> commercial_subscription \<Rightarrow> commercial_subscription" where
  "refunded now s = s\<lparr>cs_refund_status := ''refunded'',
     cs_refunded := Some (case cs_refunded s of None \<Rightarrow> now | Some t \<Rightarrow> t)\<rparr>"

definition payment_reversed ::
  "billing_context \<Rightarrow> string \<Rightarrow> pydict \<Rightarrow> commercial_subscription \<Rightarrow> billing_db \<Rightarrow> billing_db" where
  "payment_reversed cx event p s db =
     (let db1 = modify_subscription (cs_id s) (suspended (cx_now cx)) db
      in if event = ''PAYMENT_REFUNDED'' \<and> initial_payment p s db1
         then return_business_to_free cx (cs_business s)
                (modify_subscription (cs_id s) (refunded (cx_now cx)) db1)
         else db1)"

definition apply_to_subscription ::
  "billing_context \<Rightarrow> string \<Rightarrow> pydict \<Rightarrow> commercial_subscription \<Rightarrow> billing_db
   \<Rightarrow> billing_error + (string option \<times> billing_db)" where
  "apply_to_subscription cx event p s db =
     (if settled_payment event then and_then (payment_settled cx p s db) (\<lambda>db1. Inr (None, db1))
      else if event = ''PAYMENT_OVERDUE'' then Inr (payment_overdue cx p s db)
      else if event \<in> {''PAYMENT_REFUND_IN_PROGRESS'', ''PAYMENT_PARTIALLY_REFUNDED'', ''PAYMENT_REFUND_DENIED''}
      then Inr (None, refund_progress event p s db)
      else if event \<in> {''PAYMENT_REFUNDED'', ''PAYMENT_CHARGEBACK_REQUESTED'', ''PAYMENT_AWAITING_CHARGEBACK_REVERSAL''}
      then Inr (None, payment_reversed cx event p s db)
      else Inr (None, db))"

definition capture_common_pix_and_activate ::
  "billing_context \<Rightarrow> string \<Rightarrow> pydict \<Rightarrow> billing_db \<Rightarrow> billing_error + billing_db" where
  "capture_common_pix_and_activate cx event p db =
     and_then (capture_common_pix cx event p db)
       (\<lambda>(found, db1). case found of None \<Rightarrow> Inr db1 | Some i \<Rightarrow> activate_common_pix cx i db1)"

definition native_paid :: "billing_context \<Rightarrow> string \<Rightarrow> billing_checkout \<Rightarrow> billing_checkout" where
  "native_paid cx event c = (if bc_session c = None \<and> settled_payment event then paid_now cx c else c)"

definition capture_card_and_activate ::
  "billing_context \<Rightarrow> string \<Rightarrow> pydict \<Rightarrow> billing_db \<Rightarrow> billing_error + billing_db" where
  "capture_card_and_activate cx event p db =
     and_then (capture_credit_card_refs cx event p db)
       (\<lambda>(found, db1). case found of None \<Rightarrow> Inr db1
          | Some i \<Rightarrow> activate_credit_card cx i (modify_checkout i (native_paid cx event) db1))"

definition apply_payment_event ::
  "billing_context \<Rightarrow> string \<Rightarrow> pydict \<Rightarrow> billing_db \<Rightarrow> billing_error + (string option \<times> billing_db)" where
  "apply_payment_event cx event p db =
     and_then (capture_common_pix_and_activate cx event p db)
       (\<lambda>db1. and_then (capture_pix_initial cx event p db1)
       (\<lambda>db2. and_then (capture_card_and_activate cx event p db2)
       (\<lambda>db3. case subscription_for_payment cx p db3 of
            None \<Rightarrow> Inr (None, db3)
          | Some s \<Rightarrow> apply_to_subscription cx event p s db3)))"

section \<open>Subscription events\<close>

definition canceled_now :: "instant \<Rightarrow> commercial_subscription \<Rightarrow> commercial_subscription" where
  "canceled_now now s = s\<lparr>cs_status := ''canceled'', cs_canceled := Some now\<rparr>"

definition apply_subscription_event :: "billing_context \<Rightarrow> string \<Rightarrow> pydict \<Rightarrow> billing_db \<Rightarrow> billing_db" where
  "apply_subscription_event cx event p db =
     (case text_value p ''id'' of None \<Rightarrow> db
      | Some i \<Rightarrow>
     (case find_subscription cx db (\<lambda>s. cs_subscription s = Some i) of None \<Rightarrow> db
      | Some s \<Rightarrow>
          if event = ''SUBSCRIPTION_INACTIVATED'' \<or> event = ''SUBSCRIPTION_DELETED''
          then modify_subscription (cs_id s) (canceled_now (cx_now cx)) db
          else if (event = ''SUBSCRIPTION_CREATED'' \<or> event = ''SUBSCRIPTION_UPDATED'')
             \<and> payload_value p ''status'' = PStr ''ACTIVE''
             \<and> cs_status s \<noteq> ''suspended'' \<and> cs_status s \<noteq> ''past_due''
          then modify_subscription (cs_id s) (\<lambda>x. x\<lparr>cs_status := ''active''\<rparr>) db
          else db))"

section \<open>Authorizations of automatic Pix\<close>

text \<open>
  A reference of the provider is bound once; another one stops the event, and what was bound
  before stays.
\<close>

definition bind_authorization :: "string \<Rightarrow> billing_checkout \<Rightarrow> billing_checkout \<times> bool" where
  "bind_authorization i c =
     (if bc_authorization c \<noteq> None \<and> bc_authorization c \<noteq> Some i then (c, False)
      else (c\<lparr>bc_authorization := Some i\<rparr>, True))"

definition bind_subscription :: "pydict \<Rightarrow> billing_checkout \<Rightarrow> billing_checkout \<times> bool" where
  "bind_subscription p c =
     (case reference_value 80 p ''subscriptionId'' of None \<Rightarrow> (c, True)
      | Some i \<Rightarrow> if bc_subscription c \<noteq> None \<and> bc_subscription c \<noteq> Some i then (c, False)
                  else (c\<lparr>bc_subscription := Some i\<rparr>, True))"

definition bind_customer :: "pydict \<Rightarrow> billing_checkout \<Rightarrow> billing_checkout \<times> bool" where
  "bind_customer p c =
     (case reference_value 80 p ''customerId'' of None \<Rightarrow> (c, True)
      | Some i \<Rightarrow> if bc_customer c \<noteq> None \<and> bc_customer c \<noteq> Some i then (c, False)
                  else (c\<lparr>bc_customer := Some i\<rparr>, True))"

definition bind_references :: "string \<Rightarrow> pydict \<Rightarrow> billing_checkout \<Rightarrow> billing_checkout \<times> bool" where
  "bind_references i p c =
     (case bind_authorization i c of (c1, ok1) \<Rightarrow>
        if \<not> ok1 then (c1, False)
        else (case bind_subscription p c1 of (c2, ok2) \<Rightarrow>
          if \<not> ok2 then (c2, False) else bind_customer p c2))"

definition bind_qr_expiration :: "zone \<Rightarrow> pydict \<Rightarrow> billing_checkout \<Rightarrow> billing_checkout" where
  "bind_qr_expiration brazil immediate c =
     (case parse_provider_datetime brazil (payload_value immediate ''expirationDate'') of None \<Rightarrow> c
      | Some t \<Rightarrow> c\<lparr>bc_qr_expires := Some t, bc_expires := Some t\<rparr>)"

definition bind_conciliation :: "pydict \<Rightarrow> billing_checkout \<Rightarrow> billing_checkout" where
  "bind_conciliation immediate c =
     (case reference_value 100 immediate ''conciliationIdentifier'' of None \<Rightarrow> c
      | Some i \<Rightarrow> c\<lparr>bc_conciliation := Some i\<rparr>)"

definition bind_qr_payload :: "string option \<Rightarrow> billing_checkout \<Rightarrow> billing_checkout" where
  "bind_qr_payload payload c =
     (case payload of None \<Rightarrow> c
      | Some t \<Rightarrow> if strip t \<noteq> [] \<and> length t \<le> 8000 then c\<lparr>bc_qr_payload := Some t\<rparr> else c)"

definition bind_qr_code :: "zone \<Rightarrow> pydict \<Rightarrow> billing_checkout \<Rightarrow> billing_checkout" where
  "bind_qr_code brazil p c =
     (let immediate = (case dict_get p ''immediateQrCode'' of Some (PDict d) \<Rightarrow> Some d | _ \<Rightarrow> None);
          payload = or_else (text_value p ''payload'')
            (case immediate of None \<Rightarrow> None | Some d \<Rightarrow> text_value d ''payload'')
      in bind_qr_payload payload
           (case immediate of None \<Rightarrow> c | Some d \<Rightarrow> bind_conciliation d (bind_qr_expiration brazil d c)))"

definition authorization_checkout ::
  "billing_context \<Rightarrow> string \<Rightarrow> pydict \<Rightarrow> billing_db \<Rightarrow> billing_checkout option" where
  "authorization_checkout cx i p db =
     or_else (find_checkout cx db (\<lambda>c. bc_authorization c = Some i \<and> bc_method c = ''pix_automatic''))
       (case text_value p ''contractId'' of None \<Rightarrow> None
        | Some h \<Rightarrow>
            if length h \<noteq> 32 \<or> \<not> list_all (\<lambda>ch. hex_val ch \<noteq> None) h then None
            else (case parse_uuid h of None \<Rightarrow> None
              | Some u \<Rightarrow> (case checkout_at db u of None \<Rightarrow> None
                  | Some c \<Rightarrow> if bc_method c = ''pix_automatic'' \<and> bc_environment c = provider_environment cx
                              then Some c else None)))"

definition valid_pix_authorization :: "billing_checkout \<Rightarrow> pydict \<Rightarrow> billing_error + bool" where
  "valid_pix_authorization c p =
     (if truthy_text (bc_customer c) \<and> text_value p ''customerId'' \<noteq> None
         \<and> text_value p ''customerId'' \<noteq> bc_customer c
      then Inr False
      else and_then (payment_value_cents (payload_value p ''value'')) (\<lambda>cents. Inr (cents = Some (bc_amount c))))"

definition reauthorized ::
  "billing_checkout \<Rightarrow> string \<Rightarrow> instant \<Rightarrow> commercial_subscription \<Rightarrow> commercial_subscription" where
  "reauthorized c i until s =
     s\<lparr>cs_status := ''active'', cs_authorization := Some i,
       cs_subscription := (if truthy_text (bc_subscription c) then bc_subscription c else cs_subscription s),
       cs_customer := bc_customer c, cs_access_until := max (cs_access_until s) until\<rparr>"

definition authorization_activated ::
  "billing_context \<Rightarrow> string \<Rightarrow> pydict \<Rightarrow> billing_checkout \<Rightarrow> billing_db \<Rightarrow> billing_error + billing_db" where
  "authorization_activated cx i p c db =
     and_then (valid_pix_authorization c p)
       (\<lambda>ok. if \<not> ok then Inr (modify_checkout (bc_id c) (\<lambda>x. x\<lparr>bc_status := ''failed''\<rparr>) db)
          else
            (let db1 = modify_checkout (bc_id c) (paid_now cx) db
             in case subscription_for_checkout cx db1 (bc_id c) of
                  None \<Rightarrow>
                    if active_subscription_for_business cx db1 (bc_business c) \<noteq> None then Inr db1
                    else and_then (cycle_end (cx_now cx) (bc_cycle c))
                      (\<lambda>until. Inr (add_subscription cx c (Some i) None until db1))
                | Some s \<Rightarrow> and_then (cycle_end (cx_now cx) (bc_cycle c))
                      (\<lambda>until. Inr (record_operational_history cx (bc_business c)
                         (modify_subscription (cs_id s) (reauthorized c i until) db1)))))"

definition authorization_ended :: "billing_context \<Rightarrow> string \<Rightarrow> billing_checkout \<Rightarrow> billing_db \<Rightarrow> billing_db" where
  "authorization_ended cx status c db =
     (let db1 = (case subscription_for_checkout cx db (bc_id c) of None \<Rightarrow> db
                 | Some s \<Rightarrow> modify_subscription (cs_id s) (canceled_now (cx_now cx)) db)
      in if bc_status c \<noteq> ''paid'' then modify_checkout (bc_id c) (\<lambda>x. x\<lparr>bc_status := status\<rparr>) db1 else db1)"

definition apply_bound_authorization ::
  "billing_context \<Rightarrow> string \<Rightarrow> string \<Rightarrow> pydict \<Rightarrow> billing_checkout \<Rightarrow> billing_db \<Rightarrow> billing_error + billing_db" where
  "apply_bound_authorization cx event i p c db =
     (if event = authorization_prefix @ ''ACTIVATED'' then authorization_activated cx i p c db
      else if event = authorization_prefix @ ''CREATED''
      then Inr (modify_checkout (bc_id c) (\<lambda>x. x\<lparr>bc_status := ''active''\<rparr>) db)
      else if event = authorization_prefix @ ''CANCELLED'' then Inr (authorization_ended cx ''canceled'' c db)
      else if event = authorization_prefix @ ''EXPIRED'' then Inr (authorization_ended cx ''expired'' c db)
      else if event = authorization_prefix @ ''REFUSED'' \<and> bc_status c \<noteq> ''paid''
      then Inr (modify_checkout (bc_id c) (\<lambda>x. x\<lparr>bc_status := ''failed''\<rparr>) db)
      else Inr db)"

definition apply_pix_authorization_event ::
  "billing_context \<Rightarrow> string \<Rightarrow> pydict \<Rightarrow> billing_db \<Rightarrow> billing_error + billing_db" where
  "apply_pix_authorization_event cx event p db =
     (case reference_value 100 p ''id'' of None \<Rightarrow> Inr db
      | Some i \<Rightarrow>
     (case authorization_checkout cx i p db of None \<Rightarrow> Inr db
      | Some c \<Rightarrow>
          (case bind_references i p c of (c1, ok) \<Rightarrow>
             if \<not> ok then Inr (modify_checkout (bc_id c) (\<lambda>_. c1) db)
             else
               (let c2 = bind_qr_code (cx_brazil cx) p c1
                in apply_bound_authorization cx event i p c2 (modify_checkout (bc_id c) (\<lambda>_. c2) db)))))"

section \<open>One notification\<close>

definition event_storage_id :: "string \<Rightarrow> string \<Rightarrow> string" where
  "event_storage_id environment i = (if environment = ''production'' then i else environment @ '':'' @ i)"

definition payload_dict :: "pydict \<Rightarrow> string \<Rightarrow> pydict" where
  "payload_dict p k = (case dict_get p k of Some (PDict d) \<Rightarrow> d | _ \<Rightarrow> [])"

definition resource_of :: "pydict \<Rightarrow> string \<Rightarrow> string \<times> pydict" where
  "resource_of p event =
     (if event \<in> set checkout_events then (''checkout'', payload_dict p ''checkout'')
      else if event \<in> set subscription_events then (''subscription'', payload_dict p ''subscription'')
      else if event \<in> set pix_authorization_events then (''pix_authorization'', payload_dict p ''authorization'')
      else if event \<in> set pix_payment_instruction_events
      then (''pix_payment_instruction'', payload_dict p ''paymentInstruction'')
      else (''payment'', payload_dict p ''payment''))"

definition pix_instruction_refs :: "string \<Rightarrow> pydict \<Rightarrow> string option \<times> string option" where
  "pix_instruction_refs event r =
     (if event \<notin> set pix_payment_instruction_events then (None, None)
      else (if py_truthy (payload_value r ''paymentId'') then reference_value 100 r ''paymentId''
            else reference_value 100 r ''payment'',
            reference_value 100 (payload_dict r ''authorization'') ''id''))"

definition business_by_checkout ::
  "billing_context \<Rightarrow> billing_db \<Rightarrow> (billing_checkout \<Rightarrow> string option) \<Rightarrow> string option \<Rightarrow> uuid option" where
  "business_by_checkout cx db f v =
     (case v of None \<Rightarrow> None | Some i \<Rightarrow> map_option bc_business (find_checkout cx db (\<lambda>c. f c = Some i)))"

definition business_by_subscription ::
  "billing_context \<Rightarrow> billing_db \<Rightarrow> (commercial_subscription \<Rightarrow> string option) \<Rightarrow> string option \<Rightarrow> uuid option" where
  "business_by_subscription cx db f v =
     (case v of None \<Rightarrow> None | Some i \<Rightarrow> map_option cs_business (find_subscription cx db (\<lambda>s. f s = Some i)))"

definition business_for_resource ::
  "billing_context \<Rightarrow> billing_db \<Rightarrow> string \<Rightarrow> pydict \<Rightarrow> string option \<Rightarrow> string option \<Rightarrow> uuid option" where
  "business_for_resource cx db event r payment authorization =
     (if event \<in> set checkout_events then business_by_checkout cx db bc_session (text_value r ''id'')
      else if event \<in> set subscription_events
      then business_by_subscription cx db cs_subscription (text_value r ''id'')
      else if event \<in> set payment_events then
        or_else (business_by_subscription cx db cs_subscription (text_value r ''subscription''))
       (or_else (business_by_subscription cx db cs_authorization (text_value r ''pixAutomaticAuthorizationId''))
       (or_else (business_by_checkout cx db bc_session (text_value r ''checkoutSession''))
         (if truthy_text payment then business_by_checkout cx db bc_payment payment else None)))
      else if event \<in> set pix_authorization_events then
        or_else (business_by_subscription cx db cs_authorization (text_value r ''id''))
          (business_by_checkout cx db bc_authorization (text_value r ''id''))
      else if event \<in> set pix_payment_instruction_events then
        or_else (business_by_subscription cx db cs_authorization authorization)
          (business_by_checkout cx db bc_authorization authorization)
      else None)"

text \<open>An event of a hosted checkout.\<close>

definition apply_checkout_event ::
  "billing_context \<Rightarrow> string \<Rightarrow> pydict \<Rightarrow> billing_db \<Rightarrow> billing_error + billing_db" where
  "apply_checkout_event cx event r db =
     (case text_value r ''id'' of None \<Rightarrow> Inr db
      | Some i \<Rightarrow>
     (case find_checkout cx db (\<lambda>c. bc_session c = Some i) of None \<Rightarrow> Inr db
      | Some c \<Rightarrow>
          if event = ''CHECKOUT_PAID'' then activate_paid_checkout cx i db
          else
            (let set_status = (\<lambda>st. modify_checkout (bc_id c) (\<lambda>x. x\<lparr>bc_status := st\<rparr>) db)
             in if event = ''CHECKOUT_CREATED'' then Inr (set_status ''active'')
                else if event = ''CHECKOUT_CANCELED'' then Inr (set_status ''canceled'')
                else if event = ''CHECKOUT_EXPIRED'' then Inr (set_status ''expired'')
                else Inr db)))"

definition apply_event ::
  "billing_context \<Rightarrow> string \<Rightarrow> pydict \<Rightarrow> billing_db \<Rightarrow> billing_error + (string option \<times> billing_db)" where
  "apply_event cx event r db =
     (if event \<in> set checkout_events then and_then (apply_checkout_event cx event r db) (\<lambda>db1. Inr (None, db1))
      else if event \<in> set subscription_events then Inr (None, apply_subscription_event cx event r db)
      else if event \<in> set payment_events then apply_payment_event cx event r db
      else if event \<in> set pix_authorization_events
      then and_then (apply_pix_authorization_event cx event r db) (\<lambda>db1. Inr (None, db1))
      else Inr (None, db))"

definition event_at :: "billing_db \<Rightarrow> string \<Rightarrow> billing_event option" where
  "event_at db key = first (filter (\<lambda>e. be_id e = key) (bd_events db))"

definition modify_event :: "string \<Rightarrow> (billing_event \<Rightarrow> billing_event) \<Rightarrow> billing_db \<Rightarrow> billing_db" where
  "modify_event key f db = db\<lparr>bd_events := update_where (\<lambda>e. be_id e = key) f (bd_events db)\<rparr>"

text \<open>What is known of a notification before it is applied.\<close>

record notice =
  nt_key :: string
  nt_type :: string
  nt_resource :: pydict
  nt_row :: billing_event

definition read_notice :: "billing_context \<Rightarrow> string \<Rightarrow> string \<Rightarrow> pydict \<Rightarrow> billing_db \<Rightarrow> billing_error + notice" where
  "read_notice cx key event p db =
     (let (kind, r) = resource_of p event;
          i = (case text_value r ''id'' of None \<Rightarrow> None | Some t \<Rightarrow> if 100 < length t then None else Some t);
          (instruction_payment, authorization) = pix_instruction_refs event r;
          payment = (if event \<in> set payment_events \<and> i \<noteq> None then i else instruction_payment)
      in and_then (if event \<in> set payment_events then payment_value_cents (payload_value r ''value'') else Inr None)
        (\<lambda>amount. Inr \<lparr>nt_key = key, nt_type = event, nt_resource = r,
           nt_row = \<lparr>be_id = key, be_type = event, be_environment = provider_environment cx,
             be_business = business_for_resource cx db event r payment authorization,
             be_amount = amount, be_resource_type = kind, be_resource = i, be_payment = payment,
             be_authorization = authorization, be_processed = None\<rparr>\<rparr>))"

definition refreshed_event :: "billing_event \<Rightarrow> billing_event \<Rightarrow> billing_event" where
  "refreshed_event new e =
     e\<lparr>be_environment := be_environment new, be_business := or_else (be_business e) (be_business new),
       be_amount := or_else (be_amount e) (be_amount new), be_payment := be_payment new,
       be_authorization := be_authorization new\<rparr>"

definition finish_event :: "billing_context \<Rightarrow> notice \<Rightarrow> billing_db \<Rightarrow> billing_error + billing_db" where
  "finish_event cx n db =
     (let row = nt_row n;
          found = business_for_resource cx db (nt_type n) (nt_resource n) (be_payment row) (be_authorization row)
      in commit (modify_event (nt_key n)
           (\<lambda>e. e\<lparr>be_business := or_else (be_business e) found, be_processed := Some (cx_now cx)\<rparr>) db))"

definition notice_key :: "billing_context \<Rightarrow> pydict \<Rightarrow> (string \<times> string) option" where
  "notice_key cx p =
     (case (nonempty_text p ''id'', nonempty_text p ''event'') of
        (Some i, Some event) \<Rightarrow>
          (let key = event_storage_id (provider_environment cx) i
           in if 80 < length event \<or> event \<notin> set supported_events \<or> 160 < length key then None
              else Some (key, event))
      | _ \<Rightarrow> None)"

definition store_notice :: "notice \<Rightarrow> billing_db \<Rightarrow> billing_error + billing_db" where
  "store_notice n db =
     (if event_at db (nt_key n) \<noteq> None then Inr (modify_event (nt_key n) (refreshed_event (nt_row n)) db)
      else commit (db\<lparr>bd_events := bd_events db @ [nt_row n]\<rparr>))"

definition settle_notice :: "billing_context \<Rightarrow> notice \<Rightarrow> billing_db \<Rightarrow> billing_error + (string option \<times> billing_db)" where
  "settle_notice cx n db =
     and_then (apply_event cx (nt_type n) (nt_resource n) db)
       (\<lambda>(action, db1). and_then (finish_event cx n db1) (\<lambda>db2. Inr (action, db2)))"

text \<open>
  The answer and the rows that are committed: the event is recorded first, in a transaction of its
  own, and what the event changes is committed with its mark, or, when the handler raises, not at all.
\<close>

definition process_notice ::
  "billing_context \<Rightarrow> pydict \<Rightarrow> billing_db \<Rightarrow> (billing_error + string list) \<times> billing_db" where
  "process_notice cx p db =
     (case notice_key cx p of
        None \<Rightarrow> (Inr [], db)
      | Some (key, event) \<Rightarrow>
          if (case event_at db key of None \<Rightarrow> False | Some e \<Rightarrow> be_processed e \<noteq> None) then (Inr [], db)
          else (case read_notice cx key event p db of
             Inl e \<Rightarrow> (Inl e, db)
           | Inr n \<Rightarrow>
               (case store_notice n db of
                  Inl e \<Rightarrow> (Inl e, db)
                | Inr db1 \<Rightarrow>
                    (case settle_notice cx n db1 of
                       Inl e \<Rightarrow> (Inl e, if event_at db key \<noteq> None then db else db1)
                     | Inr (action, db2) \<Rightarrow> (Inr (case action of None \<Rightarrow> [] | Some a \<Rightarrow> [a]), db2)))))"

end
