(* ===== verification/BillingSession.thy ===== *)
theory BillingSession
  imports AsaasPort BillingEvents
begin

text \<open>
  One request to \<open>BillingService\<close>: the committed rows, the rows as the transaction sees them, and
  the exchanges with the payment provider. A step answers a value or raises; \<open>save\<close> is the commit,
  which checks the constraints, and \<open>undo\<close> the rollback. What a request leaves uncommitted is
  discarded when its session closes (\<open>serve\<close>).
\<close>

section \<open>Steps\<close>

record session =
  ss_saved :: billing_db
  ss_rows :: billing_db
  ss_calls :: "exchange list"

type_synonym 'a billing_step = "session \<Rightarrow> (billing_error + 'a) \<times> session"

definition result :: "'a \<Rightarrow> 'a billing_step" where
  "result x w = (Inr x, w)"

definition raising :: "billing_error \<Rightarrow> 'a billing_step" where
  "raising e w = (Inl e, w)"

definition after :: "'a billing_step \<Rightarrow> ('a \<Rightarrow> 'b billing_step) \<Rightarrow> 'b billing_step" where
  "after m f w = (case m w of (Inl e, w') \<Rightarrow> (Inl e, w') | (Inr x, w') \<Rightarrow> f x w')"

definition try_value :: "billing_error + 'a \<Rightarrow> 'a billing_step" where
  "try_value r w = (r, w)"

definition look :: "(billing_db \<Rightarrow> 'a) \<Rightarrow> 'a billing_step" where
  "look f w = (Inr (f (ss_rows w)), w)"

definition change :: "(billing_db \<Rightarrow> billing_db) \<Rightarrow> unit billing_step" where
  "change f w = (Inr (), w\<lparr>ss_rows := f (ss_rows w)\<rparr>)"

definition undo :: "unit billing_step" where
  "undo w = (Inr (), w\<lparr>ss_rows := ss_saved w\<rparr>)"

definition save :: "unit billing_step" where
  "save w = (case commit (ss_rows w) of
     Inl e \<Rightarrow> (Inl e, w\<lparr>ss_rows := ss_saved w\<rparr>)
   | Inr db \<Rightarrow> (Inr (), w\<lparr>ss_saved := db\<rparr>))"

text \<open>\<open>try: call except AsaasGatewayError\<close>.\<close>

definition call :: "'a gateway_call \<Rightarrow> (gateway_error \<Rightarrow> 'b billing_step) \<Rightarrow> ('a \<Rightarrow> 'b billing_step) \<Rightarrow> 'b billing_step" where
  "call g handler f w =
     (case g (ss_calls w) of
        (Inl e, h) \<Rightarrow> handler e (w\<lparr>ss_calls := h\<rparr>)
      | (Inr x, h) \<Rightarrow> f x (w\<lparr>ss_calls := h\<rparr>))"

definition chain :: "'a gateway_call \<Rightarrow> ('a \<Rightarrow> 'b gateway_call) \<Rightarrow> 'b gateway_call" where
  "chain g f h = (case g h of (Inl e, h') \<Rightarrow> (Inl e, h') | (Inr x, h') \<Rightarrow> f x h')"

definition http :: "int \<Rightarrow> string \<Rightarrow> 'a billing_step" where
  "http code detail = raising (HttpError code detail)"

text \<open>\<open>await self.db.rollback()\<close> before the response.\<close>

definition refused :: "int \<Rightarrow> string \<Rightarrow> 'a billing_step" where
  "refused code detail = after undo (\<lambda>_. http code detail)"

text \<open>The rows an object of the session stands for now.\<close>

definition checkout_now :: "billing_checkout \<Rightarrow> billing_checkout billing_step" where
  "checkout_now c = look (\<lambda>db. case checkout_at db (bc_id c) of None \<Rightarrow> c | Some x \<Rightarrow> x)"

definition subscription_at :: "billing_db \<Rightarrow> uuid \<Rightarrow> commercial_subscription option" where
  "subscription_at db i = first (filter (\<lambda>s. cs_id s = i) (bd_subscriptions db))"

definition subscription_now :: "commercial_subscription \<Rightarrow> commercial_subscription billing_step" where
  "subscription_now s = look (\<lambda>db. case subscription_at db (cs_id s) of None \<Rightarrow> s | Some x \<Rightarrow> x)"

definition set_checkout :: "billing_checkout \<Rightarrow> (billing_checkout \<Rightarrow> billing_checkout) \<Rightarrow> unit billing_step" where
  "set_checkout c f = change (modify_checkout (bc_id c) f)"

definition set_subscription ::
  "commercial_subscription \<Rightarrow> (commercial_subscription \<Rightarrow> commercial_subscription) \<Rightarrow> unit billing_step" where
  "set_subscription s f = change (modify_subscription (cs_id s) f)"

text \<open>The steps are evaluated on a session only.\<close>

lemmas session_steps [code] =
  http_def [THEN fun_cong] refused_def [THEN fun_cong] checkout_now_def [THEN fun_cong]
  subscription_now_def [THEN fun_cong] set_checkout_def [THEN fun_cong] set_subscription_def [THEN fun_cong]

definition serve :: "'a billing_step \<Rightarrow> billing_db \<times> exchange list \<Rightarrow> (billing_error + 'a) \<times> (billing_db \<times> exchange list)" where
  "serve m = (\<lambda>(db, h). case m \<lparr>ss_saved = db, ss_rows = db, ss_calls = h\<rparr> of
     (r, w) \<Rightarrow> (r, (ss_saved w, ss_calls w)))"

section \<open>The service\<close>

text \<open>
  The context, the client of the provider, and whether the WhatsApp connection of a business is in
  use (\<open>WhatsAppConnectionRepository\<close>).
\<close>

record billing_service =
  sv_context :: billing_context
  sv_port :: asaas_port
  sv_connected :: "uuid \<Rightarrow> bool"

definition sv_now :: "billing_service \<Rightarrow> instant" where
  "sv_now sv = cx_now (sv_context sv)"

definition sv_env :: "billing_service \<Rightarrow> environment" where
  "sv_env sv = cx_environment (sv_context sv)"

definition checkout_ttl_seconds :: int where
  "checkout_ttl_seconds = 15 * 60"

definition is_expired :: "billing_service \<Rightarrow> billing_checkout \<Rightarrow> bool" where
  "is_expired sv c \<longleftrightarrow> (case bc_expires c of None \<Rightarrow> False | Some t \<Rightarrow> t \<le> sv_now sv)"

text \<open>Membership of a JSON value in a set of texts; a list or an object is not hashable.\<close>

definition member_text :: "pyval \<Rightarrow> string list \<Rightarrow> billing_error + bool" where
  "member_text v xs =
     (case v of
        PStr s \<Rightarrow> Inr (s \<in> set xs)
      | PList vs \<Rightarrow> Inl (UncaughtError ''TypeError'')
      | PDict d \<Rightarrow> Inl (UncaughtError ''TypeError'')
      | _ \<Rightarrow> Inr False)"

definition price_of :: "billing_service \<Rightarrow> string \<Rightarrow> string \<Rightarrow> billing_error + offer" where
  "price_of sv plan cycle =
     (case get_offer (sv_env sv) plan cycle of
        Inr o' \<Rightarrow> Inr o'
      | Inl (InvalidValue t) \<Rightarrow>
          Inl (UncaughtError (if t = ''Unknown commercial offer'' then ''ValueError'' else ''BillingCatalogConfigurationError''))
      | Inl e \<Rightarrow> Inl (UncaughtError ''ValueError''))"

definition own_checkout :: "billing_service \<Rightarrow> uuid \<Rightarrow> uuid \<Rightarrow> billing_db \<Rightarrow> billing_checkout option" where
  "own_checkout sv b i db =
     (case checkout_at db i of None \<Rightarrow> None
      | Some c \<Rightarrow> if bc_business c = b \<and> bc_environment c = provider_environment (sv_context sv) then Some c else None)"

end
