(* ===== verification/Checkouts.thy ===== *)
theory Checkouts
  imports BillingSession
begin

text \<open>
  Checkouts (\<open>create_checkout\<close>, \<open>pay_credit_card\<close>, \<open>checkout_status\<close>, \<open>cancel_checkout\<close> of
  \<open>app/billing/service.py\<close>): a business has one open attempt to pay at a time, a repeated request is
  answered from the rows, and a card is charged under one lock. The requests are those the schemas
  of \<open>app/billing/schemas.py\<close> have admitted.
\<close>

section \<open>Requests and answers\<close>

record checkout_request =
  cq_plan :: string
  cq_cycle :: string
  cq_method :: string
  cq_origin :: string
  cq_payer_name :: "string option"
  cq_payer_cpf :: "string option"
  cq_payer_phone :: "string option"

record checkout_response =
  cr_id :: uuid
  cr_method :: string
  cr_mode :: string
  cr_url :: "string option"
  cr_authorization :: "string option"
  cr_payload :: "string option"
  cr_pix_expires :: "instant option"
  cr_expires :: "instant option"
  cr_plan :: string
  cr_cycle :: string
  cr_amount :: int
  cr_received :: bool

definition is_pix :: "string \<Rightarrow> bool" where
  "is_pix m \<longleftrightarrow> m = ''pix'' \<or> m = ''pix_automatic''"

definition checkout_response :: "billing_checkout \<Rightarrow> checkout_response" where
  "checkout_response c =
     \<lparr>cr_id = bc_id c, cr_method = bc_method c,
      cr_mode = (if is_pix (bc_method c) then ''pix'' else if truthy_text (bc_url c) then ''hosted'' else ''native''),
      cr_url = bc_url c, cr_authorization = bc_authorization c, cr_payload = bc_qr_payload c,
      cr_pix_expires = bc_qr_expires c, cr_expires = bc_expires c, cr_plan = bc_plan c, cr_cycle = bc_cycle c,
      cr_amount = bc_amount c, cr_received = (bc_paid c \<noteq> None)\<rparr>"

definition set_status :: "string \<Rightarrow> billing_checkout \<Rightarrow> billing_checkout" where
  "set_status st c = c\<lparr>bc_status := st\<rparr>"

text \<open>Save and answer with the checkout as it is.\<close>

definition answer_checkout :: "billing_checkout \<Rightarrow> checkout_response billing_step" where
  "answer_checkout c = after save (\<lambda>_. after (checkout_now c) (\<lambda>x. result (checkout_response x)))"

section \<open>A repeated request\<close>

definition fill_payer :: "checkout_request \<Rightarrow> string \<Rightarrow> billing_checkout \<Rightarrow> billing_checkout" where
  "fill_payer q email c =
     c\<lparr>bc_payer_name := (if bc_payer_name c = None \<and> truthy_text (cq_payer_name q) then cq_payer_name q else bc_payer_name c),
       bc_payer_email := (if bc_payer_email c = None then Some email else bc_payer_email c),
       bc_payer_phone := (if bc_payer_phone c = None \<and> truthy_text (cq_payer_phone q) then cq_payer_phone q else bc_payer_phone c)\<rparr>"

definition repeated_checkout ::
  "billing_service \<Rightarrow> checkout_request \<Rightarrow> string \<Rightarrow> billing_checkout \<Rightarrow> checkout_response billing_step" where
  "repeated_checkout sv q email c =
     after (set_checkout c (fill_payer q email)) (\<lambda>_.
       if bc_plan c \<noteq> cq_plan q \<or> bc_cycle c \<noteq> cq_cycle q \<or> bc_method c \<noteq> cq_method q
       then refused 409 ''Idempotency key already used''
       else if is_pix (bc_method c) \<and> bc_paid c \<noteq> None then answer_checkout c
       else if bc_method c = ''pix'' \<and> bc_status c = ''active'' \<and> is_expired sv c \<and> bc_paid c = None
       then after (set_checkout c (set_status ''expired'')) (\<lambda>_.
            after save (\<lambda>_. http 409 ''Pix checkout expired; start a new payment''))
       else if bc_status c = ''active'' \<or> bc_status c = ''paid'' then answer_checkout c
       else refused 409 ''Checkout is still being prepared'')"

section \<open>The open checkout of the business\<close>

definition blocks :: "billing_checkout \<Rightarrow> bool" where
  "blocks c \<longleftrightarrow>
     bc_status c = ''creating'' \<or> bc_status c = ''active''
     \<or> bc_method c = ''pix_automatic'' \<and> bc_paid c \<noteq> None \<and> bc_status c \<noteq> ''paid''
     \<or> bc_method c = ''pix_automatic'' \<and> bc_status c = ''expired'' \<and> bc_authorization c \<noteq> None
     \<or> bc_method c = ''pix'' \<and> bc_status c = ''expired'' \<and> bc_subscription c \<noteq> None"

definition blocking_checkout :: "billing_context \<Rightarrow> uuid \<Rightarrow> billing_db \<Rightarrow> billing_checkout option" where
  "blocking_checkout cx b db =
     max_by bc_created (filter (\<lambda>c. bc_business c = b \<and> bc_environment c = provider_environment cx \<and> blocks c)
       (bd_checkouts db))"

definition reusable_pix :: "billing_service \<Rightarrow> billing_checkout \<Rightarrow> bool" where
  "reusable_pix sv c \<longleftrightarrow>
     (bc_status c = ''creating'' \<or> bc_status c = ''active'') \<and> bc_paid c = None \<and> truthy_text (bc_authorization c)
     \<and> truthy_text (bc_qr_payload c) \<and> (case bc_expires c of None \<Rightarrow> False | Some t \<Rightarrow> sv_now sv < t)"

text \<open>An unpaid Pix that blocks is retired when it expired or when it is of the old recurring kind.\<close>

definition open_pix_text :: string where
  "open_pix_text = ''An active Pix checkout already exists; cancel it or wait for expiration''"

definition retire_pix ::
  "billing_service \<Rightarrow> billing_checkout option \<Rightarrow> billing_checkout option billing_step" where
  "retire_pix sv blocking =
     (case blocking of None \<Rightarrow> result None
      | Some c \<Rightarrow>
          if bc_method c \<noteq> ''pix'' \<or> bc_paid c \<noteq> None then result (Some c)
          else if truthy_text (bc_qr_code c)
          then (if is_expired sv c then after (set_checkout c (set_status ''expired'')) (\<lambda>_. result None)
                else refused 409 open_pix_text)
          else (case bc_subscription c of
                  None \<Rightarrow> result (Some c)
                | Some i \<Rightarrow>
                    if i = [] then result (Some c)
                    else call (cancel_subscription (sv_port sv) i)
                      (\<lambda>_. refused 502 ''Legacy Pix checkout could not be retired safely'')
                      (\<lambda>_. after (set_checkout c (set_status ''canceled'')) (\<lambda>_. result None))))"

definition same_offer :: "checkout_request \<Rightarrow> billing_checkout \<Rightarrow> bool" where
  "same_offer q c \<longleftrightarrow> bc_plan c = cq_plan q \<and> bc_cycle c = cq_cycle q"

text \<open>What still blocks answers the request, refuses it, or is out of date.\<close>

definition settle_blocking ::
  "billing_service \<Rightarrow> checkout_request \<Rightarrow> billing_checkout option \<Rightarrow> checkout_response option billing_step" where
  "settle_blocking sv q blocking =
     (case blocking of None \<Rightarrow> result None
      | Some c \<Rightarrow>
          let answered = after (answer_checkout c) (\<lambda>r. result (Some r))
          in if bc_paid c \<noteq> None
             then (if is_pix (cq_method q) \<and> bc_method c = cq_method q \<and> same_offer q c then answered
                   else refused 409 ''Initial Pix payment is awaiting authorization reconciliation'')
             else if bc_method c = ''credit_card''
             then (if bc_subscription c = None \<and> is_expired sv c
                   then after (set_checkout c (set_status ''expired'')) (\<lambda>_. result None)
                   else if cq_method q \<noteq> ''credit_card'' \<or> \<not> same_offer q c \<or> bc_status c \<noteq> ''active''
                   then refused 409 ''A card checkout is already active''
                   else answered)
             else if bc_method c = ''pix'' then refused 409 open_pix_text
             else if bc_method c = ''pix_automatic''
             then (if cq_method q = ''pix_automatic'' \<and> reusable_pix sv c
                   then (if \<not> same_offer q c then refused 409 ''Another Pix Automatic checkout is already active''
                         else answered)
                   else refused 409 ''Cancel the active Pix Automatic checkout before starting another payment'')
             else refused 409 ''Another checkout is already active'')"

section \<open>Preparing a checkout at the provider\<close>

definition cycle_label_pt :: "string \<Rightarrow> string" where
  "cycle_label_pt cycle =
     (if cycle = ''monthly'' then ''mensal'' else if cycle = ''quarterly'' then ''trimestral''
      else if cycle = ''annual'' then ''anual'' else cycle)"

text \<open>\<open>strftime("%Y-%m-%d %H:%M:%S")\<close> of the clock, and the date in Brazil.\<close>

definition clock_text :: "instant \<Rightarrow> string" where
  "clock_text t =
     (let s = wall_tod t div 1000000
      in iso_date (wall_date t) @ '' '' @ zero_pad 2 (s div 3600) @ '':'' @ zero_pad 2 (s div 60 mod 60)
         @ '':'' @ zero_pad 2 (s mod 60))"

definition brazil_today :: "billing_service \<Rightarrow> string" where
  "brazil_today sv = iso_date (wall_date (to_wall (cx_brazil (sv_context sv)) (sv_now sv)))"

definition hosted_card_payload :: "billing_service \<Rightarrow> billing_checkout \<Rightarrow> offer \<Rightarrow> string \<Rightarrow> pydict" where
  "hosted_card_payload sv c o' origin =
     (let back = (\<lambda>state. PStr (origin @ ''/app/checkout/retorno?state='' @ state @ ''&checkout='' @ uuid_text (bc_id c)))
      in [(''billingTypes'', PList [PStr ''CREDIT_CARD'']), (''chargeTypes'', PList [PStr ''RECURRENT'']),
          (''minutesToExpire'', PInt 15), (''externalReference'', PStr (checkout_reference c)),
          (''callback'', PDict [(''successUrl'', back ''success''), (''cancelUrl'', back ''canceled''),
             (''expiredUrl'', back ''expired'')]),
          (''items'', PList [PDict
             [(''externalReference'', PStr (''alovia-plan:'' @ of_plan o' @ '':'' @ of_cycle o')),
              (''name'', PStr (''ALOVIA '' @ of_plan_name o')),
              (''description'', PStr (''Assinatura '' @ of_plan_name o' @ '' - '' @ cycle_label_pt (of_cycle o'))),
              (''quantity'', PInt 1), (''value'', cents_value (of_amount o'))]]),
          (''subscription'', PDict [(''cycle'', PStr (of_asaas_cycle o')),
             (''nextDueDate'', PStr (clock_text (sv_now sv)))])])"

text \<open>What a prepared checkout gains.\<close>

type_synonym checkout_update = "billing_checkout \<Rightarrow> billing_checkout"

definition prepare_credit_card ::
  "billing_service \<Rightarrow> billing_checkout \<Rightarrow> offer \<Rightarrow> string \<Rightarrow> checkout_update gateway_call" where
  "prepare_credit_card sv c o' origin =
     chain (create_hosted_checkout (sv_port sv) (hosted_card_payload sv c o' origin))
       (\<lambda>hc h. (Inr (\<lambda>x. x\<lparr>bc_session := Some (hc_id hc), bc_url := Some (hc_url hc)\<rparr>), h))"

definition prepare_common_pix :: "billing_service \<Rightarrow> billing_checkout \<Rightarrow> offer \<Rightarrow> checkout_update gateway_call" where
  "prepare_common_pix sv c o' =
     chain (active_pix_address_key (sv_port sv)) (\<lambda>key.
     chain (create_static_pix (sv_port sv) (sv_context sv) key (''ALOVIA '' @ of_plan_name o') (of_amount o')
              (checkout_reference c) checkout_ttl_seconds)
       (\<lambda>qr h. (Inr (\<lambda>x. x\<lparr>bc_qr_code := Some (sq_id qr), bc_subscription := None, bc_customer := None,
          bc_qr_payload := Some (sq_payload qr), bc_qr_expires := Some (sq_expires qr),
          bc_expires := Some (sq_expires qr)\<rparr>), h)))"

text \<open>The customer of the business at the provider.\<close>

definition provider_customer ::
  "billing_service \<Rightarrow> uuid \<Rightarrow> string \<Rightarrow> string \<Rightarrow> string \<Rightarrow> string gateway_call" where
  "provider_customer sv b name cpf email =
     (let reference = ''alovia:'' @ uuid_text b
      in chain (find_customer (sv_port sv) reference cpf) (\<lambda>found.
           case found of
             Some i \<Rightarrow> (\<lambda>h. (Inr i, h))
           | None \<Rightarrow> create_customer (sv_port sv) name cpf email reference))"

definition pix_automatic_payload :: "billing_service \<Rightarrow> billing_checkout \<Rightarrow> offer \<Rightarrow> string \<Rightarrow> pydict" where
  "pix_automatic_payload sv c o' customer =
     [(''frequency'', PStr (of_pix_frequency o')), (''contractId'', PStr (uuid_hex (bc_id c))),
      (''startDate'', PStr (brazil_today sv)), (''value'', cents_value (of_amount o')),
      (''description'', PStr (''ALOVIA '' @ of_plan_name o')), (''customerId'', PStr customer),
      (''immediateQrCode'', PDict [(''originalValue'', cents_value (of_amount o')),
         (''expirationSeconds'', PInt checkout_ttl_seconds)]),
      (''paymentCreationMode'', PStr ''SUBSCRIPTION''), (''retryPolicy'', PStr ''ALLOW_THREE_IN_SEVEN_DAYS'')]"

definition prepare_pix_automatic ::
  "billing_service \<Rightarrow> billing_checkout \<Rightarrow> offer \<Rightarrow> string \<Rightarrow> string \<Rightarrow> string \<Rightarrow> checkout_update gateway_call" where
  "prepare_pix_automatic sv c o' name cpf email =
     chain (provider_customer sv (bc_business c) name cpf email) (\<lambda>customer.
     chain (create_pix_authorization (sv_port sv) (sv_context sv) (pix_automatic_payload sv c o' customer))
       (\<lambda>z h. (Inr (\<lambda>x. x\<lparr>bc_customer := Some customer, bc_authorization := Some (pz_id z),
          bc_subscription := pz_subscription z, bc_qr_payload := Some (pz_payload z),
          bc_conciliation := pz_conciliation z, bc_qr_expires := pz_expires z,
          bc_expires := or_else (pz_expires z) (bc_expires x)\<rparr>), h)))"

definition or_empty :: "string option \<Rightarrow> string" where
  "or_empty v = (case v of None \<Rightarrow> [] | Some s \<Rightarrow> s)"

definition prepare ::
  "billing_service \<Rightarrow> checkout_request \<Rightarrow> string \<Rightarrow> offer \<Rightarrow> billing_checkout \<Rightarrow> checkout_update gateway_call" where
  "prepare sv q email o' c =
     (if cq_method q = ''pix_automatic''
      then prepare_pix_automatic sv c o' (or_empty (cq_payer_name q)) (or_empty (cq_payer_cpf q)) email
      else if cq_method q = ''pix'' then prepare_common_pix sv c o'
      else prepare_credit_card sv c o' (cq_origin q))"

section \<open>A new checkout\<close>

definition new_checkout ::
  "billing_service \<Rightarrow> uuid \<Rightarrow> string \<Rightarrow> uuid \<Rightarrow> checkout_request \<Rightarrow> offer \<Rightarrow> billing_checkout" where
  "new_checkout sv b email key q o' =
     \<lparr>bc_id = cx_fresh (sv_context sv), bc_business = b, bc_key = key, bc_plan = of_plan o', bc_cycle = of_cycle o',
      bc_method = cq_method q, bc_environment = provider_environment (sv_context sv), bc_amount = of_amount o',
      bc_status = ''creating'', bc_session = None, bc_url = None, bc_authorization = None, bc_qr_code = None,
      bc_conciliation = None, bc_qr_payload = None, bc_qr_expires = None,
      bc_expires = Some (sv_now sv + 1000000 * checkout_ttl_seconds), bc_paid = None, bc_customer = None,
      bc_subscription = None, bc_payment = None, bc_payer_name = cq_payer_name q, bc_payer_email = Some email,
      bc_payer_phone = cq_payer_phone q, bc_created = sv_now sv\<rparr>"

definition add_checkout :: "billing_checkout \<Rightarrow> unit billing_step" where
  "add_checkout c = change (\<lambda>db. db\<lparr>bd_checkouts := bd_checkouts db @ [c]\<rparr>)"

definition unprepared :: "billing_checkout \<Rightarrow> gateway_error \<Rightarrow> checkout_response billing_step" where
  "unprepared c e =
     (if e = GatewayTimeout \<and> bc_method c = ''pix_automatic''
      then after (set_checkout c (set_status ''creating'')) (\<lambda>_.
           after save (\<lambda>_. http 502 ''Pix Automatic authorization is being reconciled''))
      else after (set_checkout c (set_status ''failed'')) (\<lambda>_.
           after save (\<lambda>_. http 502 ''Payment checkout is temporarily unavailable'')))"

definition open_checkout ::
  "billing_service \<Rightarrow> checkout_request \<Rightarrow> string \<Rightarrow> offer \<Rightarrow> billing_checkout \<Rightarrow> checkout_response billing_step" where
  "open_checkout sv q email o' c =
     after (add_checkout c) (\<lambda>_.
       if cq_method q = ''credit_card'' \<and> native_card_checkout_is_enabled (sv_env sv)
       then after (set_checkout c (set_status ''active'')) (\<lambda>_. answer_checkout c)
       else call (prepare sv q email o' c) (unprepared c)
         (\<lambda>f. after (set_checkout c f) (\<lambda>_.
              after (set_checkout c (set_status ''active'')) (\<lambda>_. answer_checkout c))))"

definition checkout_with_key :: "billing_service \<Rightarrow> uuid \<Rightarrow> uuid \<Rightarrow> billing_db \<Rightarrow> billing_checkout option" where
  "checkout_with_key sv b key db =
     find_checkout (sv_context sv) db (\<lambda>c. bc_business c = b \<and> bc_key c = key)"

text \<open>A business that never operated connects its WhatsApp first.\<close>

definition needs_connection :: "billing_service \<Rightarrow> uuid \<Rightarrow> billing_db \<Rightarrow> bool" where
  "needs_connection sv b db \<longleftrightarrow>
     (case access_of db b of None \<Rightarrow> False | Some a \<Rightarrow> \<not> ac_full a \<and> \<not> ac_history a) \<and> \<not> sv_connected sv b"

definition first_checkout ::
  "billing_service \<Rightarrow> uuid \<Rightarrow> string \<Rightarrow> uuid \<Rightarrow> checkout_request \<Rightarrow> offer \<Rightarrow> checkout_response billing_step" where
  "first_checkout sv b email key q o' =
     after (look (\<lambda>db. active_subscription_for_business (sv_context sv) db b)) (\<lambda>active.
     if active \<noteq> None then refused 409 ''Commercial subscription is already active''
     else
     after (look (needs_connection sv b)) (\<lambda>unconnected.
     if unconnected then http 409 ''WhatsApp connection required before checkout''
     else
     after (look (blocking_checkout (sv_context sv) b)) (\<lambda>blocking.
     after (retire_pix sv blocking) (\<lambda>left.
     after (settle_blocking sv q left) (\<lambda>answer.
       case answer of
         Some r \<Rightarrow> result r
       | None \<Rightarrow> open_checkout sv q email o' (new_checkout sv b email key q o'))))))"

definition create_checkout ::
  "billing_service \<Rightarrow> uuid \<Rightarrow> string \<Rightarrow> uuid \<Rightarrow> checkout_request \<Rightarrow> string list \<Rightarrow> checkout_response billing_step" where
  "create_checkout sv b email key q origins =
     (if cq_origin q \<notin> set origins then http 400 ''Invalid return origin''
      else if \<not> plan_is_enabled (sv_env sv) (cq_plan q) then http 409 ''Plan is not available yet''
      else if \<not> payment_method_is_enabled (sv_env sv) (cq_method q) then http 409 ''Payment method is not available yet''
      else (case price_of sv (cq_plan q) (cq_cycle q) of
         Inl e \<Rightarrow> if e = UncaughtError ''BillingCatalogConfigurationError''
                  then http 503 ''Billing configuration is unavailable'' else raising e
       | Inr o' \<Rightarrow>
           after (look (checkout_with_key sv b key)) (\<lambda>existing.
             case existing of
               Some c \<Rightarrow> repeated_checkout sv q email c
             | None \<Rightarrow> first_checkout sv b email key q o')))"

section \<open>Charging a card\<close>

record card_request =
  cd_payer_name :: string
  cd_cpf :: string
  cd_postal_code :: string
  cd_number :: string
  cd_complement :: "string option"
  cd_phone :: string
  cd_holder :: string
  cd_card :: string
  cd_month :: string
  cd_year :: string
  cd_ccv :: string

record card_response =
  kr_id :: uuid
  kr_status :: string
  kr_expires :: "instant option"

definition card_response :: "billing_checkout \<Rightarrow> card_response" where
  "card_response c = \<lparr>kr_id = bc_id c, kr_status = bc_status c, kr_expires = bc_expires c\<rparr>"

definition opt_text :: "string option \<Rightarrow> pyval" where
  "opt_text v = (case v of None \<Rightarrow> PNone | Some s \<Rightarrow> PStr s)"

definition card_payload ::
  "billing_service \<Rightarrow> billing_checkout \<Rightarrow> offer \<Rightarrow> string \<Rightarrow> string \<Rightarrow> string \<Rightarrow> card_request \<Rightarrow> pydict" where
  "card_payload sv c o' customer email ip k =
     [(''customer'', PStr customer), (''billingType'', PStr ''CREDIT_CARD''), (''value'', cents_value (of_amount o')),
      (''nextDueDate'', PStr (brazil_today sv)), (''cycle'', PStr (of_asaas_cycle o')),
      (''description'', PStr (''ALOVIA '' @ of_plan_name o')), (''externalReference'', PStr (checkout_reference c)),
      (''creditCard'', PDict [(''holderName'', PStr (cd_holder k)), (''number'', PStr (cd_card k)),
         (''expiryMonth'', PStr (cd_month k)), (''expiryYear'', PStr (cd_year k)), (''ccv'', PStr (cd_ccv k))]),
      (''creditCardHolderInfo'', PDict [(''name'', PStr (cd_payer_name k)), (''email'', PStr email),
         (''cpfCnpj'', PStr (cd_cpf k)), (''postalCode'', PStr (cd_postal_code k)),
         (''addressNumber'', PStr (cd_number k)), (''addressComplement'', opt_text (cd_complement k)),
         (''phone'', PNone), (''mobilePhone'', PStr (cd_phone k))]),
      (''remoteIp'', PStr ip)]"

text \<open>The first settled payment of the right amount pays the checkout.\<close>

definition settled_checkout :: "billing_service \<Rightarrow> pydict \<Rightarrow> billing_checkout \<Rightarrow> billing_checkout" where
  "settled_checkout sv p c =
     bind_customer_id p ''customer'' (paid_now (sv_context sv) (capture_initial_payment_id ''PAYMENT_CONFIRMED'' p c))"

fun settle_first :: "billing_service \<Rightarrow> billing_checkout \<Rightarrow> pydict list \<Rightarrow> unit billing_step" where
  "settle_first sv c [] = result ()"
| "settle_first sv c (p # ps) =
     after (try_value (payment_value_cents (payload_value p ''value''))) (\<lambda>cents.
       if cents \<noteq> Some (bc_amount c) then settle_first sv c ps
       else after (try_value (member_text (payload_value p ''status'') [''CONFIRMED'', ''RECEIVED''])) (\<lambda>settled.
         if \<not> settled then settle_first sv c ps
         else after (set_checkout c (settled_checkout sv p)) (\<lambda>_.
              after (look (activate_credit_card (sv_context sv) (bc_id c))) (\<lambda>r.
              after (try_value r) (\<lambda>db.
              after (change (\<lambda>_. db)) (\<lambda>_. save))))))"

definition reconcile_native_payment :: "billing_service \<Rightarrow> billing_checkout \<Rightarrow> unit billing_step" where
  "reconcile_native_payment sv c =
     after (checkout_now c) (\<lambda>x.
       if \<not> truthy_text (bc_subscription x) \<or> bc_status x = ''paid'' then result ()
       else call (payments_for_subscription (sv_port sv) (or_empty (bc_subscription x)))
              (\<lambda>_. result ()) (settle_first sv x))"

definition bound_card :: "string \<Rightarrow> billing_checkout \<Rightarrow> billing_checkout" where
  "bound_card i c = c\<lparr>bc_subscription := Some i, bc_status := ''active''\<rparr>"

definition bind_card :: "billing_service \<Rightarrow> billing_checkout \<Rightarrow> string \<Rightarrow> unit billing_step" where
  "bind_card sv c i =
     after (set_checkout c (bound_card i)) (\<lambda>_. after save (\<lambda>_. reconcile_native_payment sv c))"

definition recover_native_subscription :: "billing_service \<Rightarrow> billing_checkout \<Rightarrow> bool billing_step" where
  "recover_native_subscription sv c =
     call (asaas_find_subscription (sv_port sv) (checkout_reference c)) (\<lambda>_. result False)
       (\<lambda>found. case found of
          None \<Rightarrow> result False
        | Some i \<Rightarrow> if i = [] then result False else after (bind_card sv c i) (\<lambda>_. result True))"

definition card_answer :: "billing_checkout \<Rightarrow> card_response billing_step" where
  "card_answer c = after (checkout_now c) (\<lambda>x. result (card_response x))"

definition uncertain_card :: "billing_service \<Rightarrow> billing_checkout \<Rightarrow> card_response billing_step" where
  "uncertain_card sv c =
     after (recover_native_subscription sv c) (\<lambda>recovered.
       if recovered then card_answer c
       else after save (\<lambda>_. http 502 ''Payment confirmation is still being reconciled''))"

definition charging :: "string \<Rightarrow> string \<Rightarrow> card_request \<Rightarrow> billing_checkout \<Rightarrow> billing_checkout" where
  "charging customer email k c =
     c\<lparr>bc_customer := Some customer,
       bc_payer_name := (if truthy_text (bc_payer_name c) then bc_payer_name c else Some (cd_payer_name k)),
       bc_payer_email := (if truthy_text (bc_payer_email c) then bc_payer_email c else Some email),
       bc_payer_phone := (if truthy_text (bc_payer_phone c) then bc_payer_phone c else Some (cd_phone k)),
       bc_status := ''creating''\<rparr>"

definition charge_card ::
  "billing_service \<Rightarrow> billing_checkout \<Rightarrow> string \<Rightarrow> string \<Rightarrow> card_request \<Rightarrow> card_response billing_step" where
  "charge_card sv c email ip k =
     call (provider_customer sv (bc_business c) (cd_payer_name k) (cd_cpf k) email)
       (\<lambda>_. refused 502 ''Payment service is temporarily unavailable'')
       (\<lambda>customer.
          after (set_checkout c (charging customer email k)) (\<lambda>_.
          after (try_value (price_of sv (bc_plan c) (bc_cycle c))) (\<lambda>o'.
          call (create_card_subscription (sv_port sv) (card_payload sv c o' customer email ip k))
            (\<lambda>e. if e = CardRejected
                 then after (set_checkout c (set_status ''active'')) (\<lambda>_. after save (\<lambda>_.
                      http 422 ''Card was not authorized. Check the data or use another card.''))
                 else uncertain_card sv c)
            (\<lambda>i. after (bind_card sv c i) (\<lambda>_. card_answer c)))))"

definition admin_full_access_is_active :: "uuid \<Rightarrow> billing_db \<Rightarrow> bool" where
  "admin_full_access_is_active b db \<longleftrightarrow>
     (case access_of db b of None \<Rightarrow> False | Some a \<Rightarrow> ac_full a \<or> ac_mode a = ''paid'')"

definition pay_open_card ::
  "billing_service \<Rightarrow> billing_checkout \<Rightarrow> string \<Rightarrow> string \<Rightarrow> card_request \<Rightarrow> card_response billing_step" where
  "pay_open_card sv c email ip k =
     (if is_expired sv c
      then (if bc_status c \<noteq> ''creating''
            then after (set_checkout c (set_status ''expired'')) (\<lambda>_. after save (\<lambda>_. http 409 ''Checkout expired''))
            else http 409 ''Checkout expired'')
      else if bc_status c \<in> {''canceled'', ''expired'', ''failed''} then refused 409 ''Checkout is no longer available''
      else if truthy_text (bc_subscription c) then result ((card_response c)\<lparr>kr_status := ''active''\<rparr>)
      else if bc_status c = ''creating''
      then after (recover_native_subscription sv c) (\<lambda>recovered.
             if recovered then card_answer c else http 409 ''Payment confirmation is still being reconciled'')
      else charge_card sv c email ip k)"

definition pay_own_card ::
  "billing_service \<Rightarrow> billing_checkout \<Rightarrow> string \<Rightarrow> string \<Rightarrow> card_request \<Rightarrow> card_response billing_step" where
  "pay_own_card sv c email ip k =
     (if bc_url c \<noteq> None then refused 409 ''Checkout is not a native card session''
      else if bc_status c = ''paid'' then result ((card_response c)\<lparr>kr_status := ''paid''\<rparr>)
      else after (look (\<lambda>db. active_subscription_for_business (sv_context sv) db (bc_business c))) (\<lambda>active.
        if (case active of None \<Rightarrow> False | Some s \<Rightarrow> cs_checkout s \<noteq> bc_id c)
        then refused 409 ''Commercial subscription is already active''
        else pay_open_card sv c email ip k))"

definition pay_credit_card ::
  "billing_service \<Rightarrow> uuid \<Rightarrow> string \<Rightarrow> uuid \<Rightarrow> card_request \<Rightarrow> string \<Rightarrow> card_response billing_step" where
  "pay_credit_card sv b email i k ip =
     (if \<not> native_card_checkout_is_enabled (sv_env sv) then http 409 ''Native card checkout is not available yet''
      else after (look (admin_full_access_is_active b)) (\<lambda>full.
        if full then http 409 ''Admin full access is active; a paid plan is not required''
        else after (look (own_checkout sv b i)) (\<lambda>found.
          case found of
            None \<Rightarrow> refused 404 ''Checkout not found''
          | Some c \<Rightarrow> if bc_method c \<noteq> ''credit_card'' then refused 404 ''Checkout not found''
                       else pay_own_card sv c email ip k)))"

section \<open>Status and cancellation of a checkout\<close>

record checkout_state =
  ck_id :: uuid
  ck_status :: string
  ck_method :: string
  ck_plan :: string
  ck_cycle :: string
  ck_amount :: int
  ck_expires :: "instant option"
  ck_received :: bool

definition checkout_state :: "billing_checkout \<Rightarrow> checkout_state" where
  "checkout_state c =
     \<lparr>ck_id = bc_id c, ck_status = bc_status c, ck_method = bc_method c, ck_plan = bc_plan c, ck_cycle = bc_cycle c,
      ck_amount = bc_amount c, ck_expires = bc_expires c, ck_received = (bc_paid c \<noteq> None)\<rparr>"

definition answer_state :: "billing_checkout \<Rightarrow> checkout_state billing_step" where
  "answer_state c = after (checkout_now c) (\<lambda>x. result (checkout_state x))"

definition lapses :: "billing_service \<Rightarrow> billing_checkout \<Rightarrow> bool" where
  "lapses sv c \<longleftrightarrow>
     bc_status c = ''active'' \<and> is_expired sv c \<and> bc_paid c = None
     \<and> (bc_method c = ''credit_card'' \<or> bc_method c = ''pix'' \<and> bc_qr_code c \<noteq> None)"

definition checkout_status :: "billing_service \<Rightarrow> uuid \<Rightarrow> uuid \<Rightarrow> checkout_state billing_step" where
  "checkout_status sv b i =
     after (look (own_checkout sv b i)) (\<lambda>found.
       case found of
         None \<Rightarrow> http 404 ''Checkout not found''
       | Some c \<Rightarrow>
           if lapses sv c
           then after (set_checkout c (set_status ''expired'')) (\<lambda>_. after save (\<lambda>_. answer_state c))
           else answer_state c)"

definition cancel_at_provider :: "billing_service \<Rightarrow> billing_checkout \<Rightarrow> pydict gateway_call" where
  "cancel_at_provider sv c =
     (if bc_method c = ''pix_automatic'' \<and> truthy_text (bc_authorization c)
      then cancel_pix_authorization (sv_port sv) (or_empty (bc_authorization c))
      else if bc_method c = ''pix'' \<and> truthy_text (bc_qr_code c)
      then delete_static_pix (sv_port sv) (or_empty (bc_qr_code c))
      else if bc_method c = ''pix'' \<and> truthy_text (bc_subscription c)
      then cancel_subscription (sv_port sv) (or_empty (bc_subscription c))
      else (\<lambda>h. (Inr [], h)))"

definition cancel_checkout :: "billing_service \<Rightarrow> uuid \<Rightarrow> uuid \<Rightarrow> checkout_state billing_step" where
  "cancel_checkout sv b i =
     after (look (own_checkout sv b i)) (\<lambda>found.
       case found of
         None \<Rightarrow> refused 404 ''Checkout not found''
       | Some c \<Rightarrow>
           if \<not> is_pix (bc_method c) then refused 409 ''Only Pix checkout can be canceled''
           else if bc_status c = ''paid'' \<or> bc_paid c \<noteq> None
           then refused 409 ''Initial Pix payment cannot be canceled automatically''
           else if bc_status c = ''canceled'' \<or> bc_status c = ''failed'' then after save (\<lambda>_. answer_state c)
           else call (cancel_at_provider sv c)
             (\<lambda>_. refused 502 ''Pix cancellation is temporarily unavailable'')
             (\<lambda>_. after (set_checkout c (set_status ''canceled'')) (\<lambda>_. after save (\<lambda>_. answer_state c))))"

text \<open>The steps are evaluated on a session only.\<close>

lemmas checkout_steps [code] =
  answer_checkout_def [THEN fun_cong] repeated_checkout_def [THEN fun_cong] retire_pix_def [THEN fun_cong]
  settle_blocking_def [THEN fun_cong] add_checkout_def [THEN fun_cong] unprepared_def [THEN fun_cong]
  open_checkout_def [THEN fun_cong] first_checkout_def [THEN fun_cong] create_checkout_def [THEN fun_cong]
  reconcile_native_payment_def [THEN fun_cong] bind_card_def [THEN fun_cong]
  recover_native_subscription_def [THEN fun_cong] card_answer_def [THEN fun_cong]
  uncertain_card_def [THEN fun_cong] charge_card_def [THEN fun_cong] pay_open_card_def [THEN fun_cong]
  pay_own_card_def [THEN fun_cong] pay_credit_card_def [THEN fun_cong] answer_state_def [THEN fun_cong]
  checkout_status_def [THEN fun_cong] cancel_checkout_def [THEN fun_cong] settle_first.simps [THEN fun_cong]

end
