(* ===== verification/Subscriptions.thy ===== *)
theory Subscriptions
  imports Checkouts
begin

text \<open>
  The subscription of a business (\<open>app/billing/service.py\<close>): its status with the state of a refund
  at the provider, the upgrade, the cancellation and the refund of the seven-day guarantee. The
  intention of a refund is saved before the provider is asked, so that a repeated request cannot
  ask a second time.
\<close>

section \<open>The state of a refund at the provider\<close>

definition refund_states :: "string list" where
  "refund_states = [''DONE'', ''PENDING'', ''CANCELLED'', ''AWAITING_CRITICAL_ACTION_AUTHORIZATION'']"

fun refund_entry :: "pyval \<Rightarrow> billing_error + (string \<times> int) option" where
  "refund_entry (PDict d) =
     and_then (payment_value_cents (payload_value d ''value''))
       (\<lambda>cents. and_then (member_text (payload_value d ''status'') refund_states)
          (\<lambda>known. Inr (case (known, cents, text_value d ''status'') of
             (True, Some n, Some st) \<Rightarrow> Some (st, n) | _ \<Rightarrow> None)))"
| "refund_entry _ = Inr None"

fun refund_entries :: "pyval list \<Rightarrow> billing_error + (string \<times> int) list" where
  "refund_entries [] = Inr []"
| "refund_entries (v # vs) =
     and_then (refund_entry v) (\<lambda>e. and_then (refund_entries vs)
       (\<lambda>es. Inr (case e of None \<Rightarrow> es | Some x \<Rightarrow> x # es)))"

definition total_of :: "string \<Rightarrow> (string \<times> int) list \<Rightarrow> int" where
  "total_of st es = sum_list (map snd (filter (\<lambda>(s, n). s = st) es))"

definition refund_verdict :: "int \<Rightarrow> (string \<times> int) list \<Rightarrow> string" where
  "refund_verdict amount es =
     (let finished = total_of ''DONE'' es; pending = total_of ''PENDING'' es
      in if es = [] then ''unknown''
         else if amount \<le> finished then ''done''
         else if amount \<le> total_of ''AWAITING_CRITICAL_ACTION_AUTHORIZATION'' es then ''awaiting_authorization''
         else if amount \<le> finished + pending \<and> 0 < pending then ''pending''
         else if 0 < finished \<or> 0 < pending then ''partial''
         else if 0 < total_of ''CANCELLED'' es then ''cancelled''
         else ''unknown'')"

definition provider_refund_status :: "pydict \<Rightarrow> int \<Rightarrow> billing_error + string option" where
  "provider_refund_status payment amount =
     (case dict_get payment ''refunds'' of
        Some (PList vs) \<Rightarrow>
          if vs = [] then Inr None
          else and_then (refund_entries vs) (\<lambda>es. Inr (Some (refund_verdict amount es)))
      | _ \<Rightarrow> Inr None)"

definition set_refund :: "string \<Rightarrow> commercial_subscription \<Rightarrow> commercial_subscription" where
  "set_refund st s = s\<lparr>cs_refund_status := st\<rparr>"

definition refunded_now :: "instant \<Rightarrow> commercial_subscription \<Rightarrow> commercial_subscription" where
  "refunded_now now s = suspended now (refunded now s)"

text \<open>What the provider says of the refund is taken over.\<close>

definition apply_refund_status ::
  "billing_service \<Rightarrow> commercial_subscription \<Rightarrow> string option \<Rightarrow> unit billing_step" where
  "apply_refund_status sv s verdict =
     (if verdict = Some ''done''
      then after (set_subscription s (refunded_now (sv_now sv))) (\<lambda>_.
           after (change (return_business_to_free (sv_context sv) (cs_business s))) (\<lambda>_. save))
      else if verdict = Some ''awaiting_authorization'' \<or> verdict = Some ''pending''
      then (if cs_refund_status s \<noteq> ''requested''
            then after (set_subscription s (set_refund ''requested'')) (\<lambda>_. save) else result ())
      else if verdict = Some ''cancelled'' \<or> verdict = Some ''partial''
      then (if cs_refund_status s \<noteq> ''reconcile_required''
            then after (set_subscription s (set_refund ''reconcile_required'')) (\<lambda>_. save) else result ())
      else result ())"

definition reconcile_provider_refund ::
  "billing_service \<Rightarrow> commercial_subscription \<Rightarrow> billing_checkout option \<Rightarrow> string option billing_step" where
  "reconcile_provider_refund sv s checkout =
     (if cs_refund_status s = ''refunded'' then result (Some ''done'')
      else if cs_refund_status s \<noteq> ''requested'' \<and> cs_refund_status s \<noteq> ''reconcile_required'' then result None
      else (case checkout of
         None \<Rightarrow> result (Some ''unknown'')
       | Some c \<Rightarrow>
           if \<not> truthy_text (bc_payment c) then result (Some ''unknown'')
           else call (payment_details (sv_port sv) (or_empty (bc_payment c)))
             (\<lambda>_. result (Some ''unknown''))
             (\<lambda>payment. after (try_value (provider_refund_status payment (bc_amount c)))
                (\<lambda>verdict. after (apply_refund_status sv s verdict) (\<lambda>_. result verdict)))))"

section \<open>The status of the subscription\<close>

record subscription_state =
  su_status :: string
  su_method :: "string option"
  su_plan :: "string option"
  su_cycle :: "string option"
  su_access_until :: "instant option"
  su_canceled :: "instant option"
  su_cancellation_requested :: "instant option"
  su_guarantee_until :: "instant option"
  su_guarantee_eligible :: bool
  su_refund_status :: string
  su_provider_refund :: "string option"
  su_refund_deadline :: "instant option"

definition no_subscription_state :: subscription_state where
  "no_subscription_state =
     \<lparr>su_status = ''none'', su_method = None, su_plan = None, su_cycle = None, su_access_until = None,
      su_canceled = None, su_cancellation_requested = None, su_guarantee_until = None,
      su_guarantee_eligible = False, su_refund_status = ''none'', su_provider_refund = None,
      su_refund_deadline = None\<rparr>"

definition hours :: "int \<Rightarrow> int" where
  "hours n = n * 60 * minute_us"

definition first_paid_checkout :: "billing_context \<Rightarrow> uuid \<Rightarrow> billing_db \<Rightarrow> billing_checkout option" where
  "first_paid_checkout cx b db =
     min_by (\<lambda>c. (case bc_paid c of None \<Rightarrow> 0 | Some t \<Rightarrow> t, bc_created c, bc_id c))
       (filter (\<lambda>c. bc_business c = b \<and> bc_environment c = provider_environment cx \<and> bc_paid c \<noteq> None)
         (bd_checkouts db))"

definition guarantee_until ::
  "billing_context \<Rightarrow> billing_checkout option \<Rightarrow> instant option" where
  "guarantee_until cx checkout =
     (case checkout of None \<Rightarrow> None
      | Some c \<Rightarrow> if bc_environment c = provider_environment cx then map_option (\<lambda>t. t + hours (7 * 24)) (bc_paid c) else None)"

definition guarantee_eligible ::
  "billing_context \<Rightarrow> billing_db \<Rightarrow> commercial_subscription \<Rightarrow> billing_checkout option \<Rightarrow> bool" where
  "guarantee_eligible cx db s checkout \<longleftrightarrow>
     (case (checkout, guarantee_until cx checkout) of
        (Some c, Some t) \<Rightarrow>
          map_option bc_id (first_paid_checkout cx (cs_business s) db) = Some (bc_id c) \<and> cx_now cx \<le> t
          \<and> cs_refund_status s \<noteq> ''refunded''
      | _ \<Rightarrow> False)"

definition subscription_state ::
  "billing_context \<Rightarrow> billing_db \<Rightarrow> commercial_subscription \<Rightarrow> billing_checkout option \<Rightarrow> string option
   \<Rightarrow> subscription_state" where
  "subscription_state cx db s checkout verdict =
     \<lparr>su_status = cs_status s, su_method = Some (cs_method s), su_plan = Some (cs_plan s),
      su_cycle = Some (cs_cycle s), su_access_until = Some (cs_access_until s), su_canceled = cs_canceled s,
      su_cancellation_requested = cs_cancellation_requested s, su_guarantee_until = guarantee_until cx checkout,
      su_guarantee_eligible = guarantee_eligible cx db s checkout, su_refund_status = cs_refund_status s,
      su_provider_refund = verdict,
      su_refund_deadline = (if cs_refund_status s = ''refunded'' then None
         else map_option (\<lambda>t. t + hours 24) (cs_refund_requested s))\<rparr>"

definition subscription_response ::
  "billing_service \<Rightarrow> commercial_subscription \<Rightarrow> subscription_state billing_step" where
  "subscription_response sv s =
     after (subscription_now s) (\<lambda>x.
     after (look (\<lambda>db. checkout_at db (cs_checkout x))) (\<lambda>checkout.
     after (reconcile_provider_refund sv x checkout) (\<lambda>verdict.
     after (subscription_now s) (\<lambda>y.
       look (\<lambda>db. subscription_state (sv_context sv) db y checkout verdict)))))"

section \<open>Ending the recurrence at the provider\<close>

definition cancel_provider_recurrence :: "billing_service \<Rightarrow> commercial_subscription \<Rightarrow> pydict gateway_call" where
  "cancel_provider_recurrence sv s =
     (let recurring = cancel_subscription (sv_port sv) (or_empty (cs_subscription s))
      in if cs_method s = ''credit_card''
         then (if \<not> truthy_text (cs_subscription s) then refuse else recurring)
         else if cs_method s = ''pix_automatic''
         then (if truthy_text (cs_authorization s)
               then cancel_pix_authorization (sv_port sv) (or_empty (cs_authorization s))
               else if truthy_text (cs_subscription s) then recurring else refuse)
         else if cs_method s = ''pix'' \<and> truthy_text (cs_subscription s) then recurring
         else (\<lambda>h. (Inr [], h)))"

definition ended :: "instant \<Rightarrow> commercial_subscription \<Rightarrow> commercial_subscription" where
  "ended now s =
     s\<lparr>cs_status := ''canceled'', cs_canceled := Some (case cs_canceled s of None \<Rightarrow> now | Some t \<Rightarrow> t)\<rparr>"

section \<open>Upgrade\<close>

definition upgraded :: "commercial_subscription \<Rightarrow> commercial_subscription" where
  "upgraded s = s\<lparr>cs_plan := ''plus''\<rparr>"

definition upgrade_basic ::
  "billing_service \<Rightarrow> commercial_subscription \<Rightarrow> subscription_state billing_step" where
  "upgrade_basic sv s =
     (if cs_cycle s \<noteq> ''monthly'' then refused 409 ''Upgrade is available at renewal for this billing cycle''
      else if cs_refund_status s \<noteq> ''none'' \<or> cs_cancellation_requested s \<noteq> None
      then refused 409 ''Subscription change is unavailable while a financial request is pending''
      else if cs_method s \<noteq> ''credit_card'' \<and> cs_method s \<noteq> ''pix_automatic''
      then refused 409 ''Upgrade is available at renewal for this payment method''
      else if \<not> truthy_text (cs_subscription s) then refused 409 ''Provider subscription reference is unavailable''
      else if \<not> plan_is_enabled (sv_env sv) ''plus'' then refused 409 ''Plan is not available yet''
      else after (try_value (price_of sv ''plus'' ''monthly'')) (\<lambda>o'.
           call (update_subscription_value (sv_port sv) (or_empty (cs_subscription s)) (of_amount o'))
             (\<lambda>_. refused 502 ''Plan upgrade is temporarily unavailable'')
             (\<lambda>_. after (set_subscription s upgraded) (\<lambda>_. after save (\<lambda>_. subscription_response sv s)))))"

definition upgrade_subscription_to_plus :: "billing_service \<Rightarrow> uuid \<Rightarrow> subscription_state billing_step" where
  "upgrade_subscription_to_plus sv b =
     after (look (\<lambda>db. latest_subscription_for_business (sv_context sv) db b)) (\<lambda>found.
       case found of
         None \<Rightarrow> refused 404 ''Commercial subscription not found''
       | Some s \<Rightarrow>
           if cs_status s \<noteq> ''active'' then refused 409 ''Only an active subscription can be upgraded''
           else if cs_plan s = ''plus'' then after save (\<lambda>_. subscription_response sv s)
           else if cs_plan s \<noteq> ''basic'' then refused 409 ''Current plan cannot be upgraded''
           else upgrade_basic sv s)"

section \<open>Cancellation\<close>

definition cancellation_requested :: "instant \<Rightarrow> commercial_subscription \<Rightarrow> commercial_subscription" where
  "cancellation_requested now s =
     s\<lparr>cs_cancellation_requested := Some (case cs_cancellation_requested s of None \<Rightarrow> now | Some t \<Rightarrow> t)\<rparr>"

definition request_subscription_cancellation ::
  "billing_service \<Rightarrow> uuid \<Rightarrow> subscription_state billing_step" where
  "request_subscription_cancellation sv b =
     after (look (\<lambda>db. latest_subscription_for_business (sv_context sv) db b)) (\<lambda>found.
       case found of
         None \<Rightarrow> refused 404 ''Commercial subscription not found''
       | Some s \<Rightarrow>
           if cs_status s = ''canceled'' \<or> cs_status s = ''suspended''
           then after save (\<lambda>_. subscription_response sv s)
           else
           after (set_subscription s (cancellation_requested (sv_now sv))) (\<lambda>_.
             if cs_method s = ''pix'' \<and> cs_subscription s = None
             then after (set_subscription s (canceled_now (sv_now sv))) (\<lambda>_.
                  after save (\<lambda>_. subscription_response sv s))
             else after save (\<lambda>_.
                  call (cancel_provider_recurrence sv s)
                    (\<lambda>_. http 502 ''Cancellation is pending confirmation; retry safely'')
                    (\<lambda>_. after (set_subscription s (ended (sv_now sv))) (\<lambda>_.
                         after save (\<lambda>_. subscription_response sv s))))))"

section \<open>The payment of a checkout\<close>

definition payment_matches :: "int \<Rightarrow> pydict \<Rightarrow> billing_error + string option" where
  "payment_matches amount p =
     (case reference_value 100 p ''id'' of
        None \<Rightarrow> Inr None
      | Some i \<Rightarrow>
          and_then (member_text (payload_value p ''status'') [''CONFIRMED'', ''RECEIVED'', ''REFUNDED''])
            (\<lambda>settled. if \<not> settled then Inr None
               else and_then (payment_value_cents (payload_value p ''value''))
                 (\<lambda>cents. Inr (if cents = Some amount then Some i else None))))"

fun matching_payments :: "int \<Rightarrow> pydict list \<Rightarrow> billing_error + string list" where
  "matching_payments amount [] = Inr []"
| "matching_payments amount (p # ps) =
     and_then (payment_matches amount p) (\<lambda>m. and_then (matching_payments amount ps)
       (\<lambda>ms. Inr (case m of None \<Rightarrow> ms | Some i \<Rightarrow> i # ms)))"

definition payments_of_checkout :: "billing_service \<Rightarrow> billing_checkout \<Rightarrow> pydict list gateway_call" where
  "payments_of_checkout sv c =
     (if bc_method c = ''pix'' \<and> truthy_text (bc_qr_code c)
      then payments_for_static_pix (sv_port sv) (or_empty (bc_qr_code c))
      else if truthy_text (bc_session c) then payments_for_checkout (sv_port sv) (or_empty (bc_session c))
      else if truthy_text (bc_subscription c)
      then payments_for_subscription (sv_port sv) (or_empty (bc_subscription c))
      else refuse)"

definition resolve_initial_payment :: "billing_service \<Rightarrow> billing_checkout \<Rightarrow> string option billing_step" where
  "resolve_initial_payment sv c =
     call (payments_of_checkout sv c) (\<lambda>_. result None)
       (\<lambda>ps. after (try_value (matching_payments (bc_amount c) ps))
          (\<lambda>ms. result (case dedup ms of [i] \<Rightarrow> Some i | _ \<Rightarrow> None)))"

definition note_payment :: "string option \<Rightarrow> billing_checkout \<Rightarrow> billing_checkout" where
  "note_payment v c = c\<lparr>bc_payment := v\<rparr>"

text \<open>The payment the checkout knows, or the only one of the provider that matches it.\<close>

definition payment_of_checkout :: "billing_service \<Rightarrow> billing_checkout \<Rightarrow> string option billing_step" where
  "payment_of_checkout sv c =
     (if bc_payment c \<noteq> None then result (bc_payment c)
      else after (resolve_initial_payment sv c) (\<lambda>v.
           after (set_checkout c (note_payment v)) (\<lambda>_. result v)))"

section \<open>The guarantee\<close>

definition refund_intended :: "string \<Rightarrow> instant \<Rightarrow> commercial_subscription \<Rightarrow> commercial_subscription" where
  "refund_intended st now s =
     (cancellation_requested now s)\<lparr>cs_refund_status := st,
       cs_refund_requested := Some (case cs_refund_requested s of None \<Rightarrow> now | Some t \<Rightarrow> t)\<rparr>"

text \<open>The provider is asked; when its answer is uncertain, the refund is left to be reconciled.\<close>

definition submit_refund ::
  "billing_service \<Rightarrow> commercial_subscription \<Rightarrow> string \<Rightarrow> unit billing_step" where
  "submit_refund sv s payment =
     call (refund_payment (sv_port sv) payment)
       (\<lambda>_. after (set_subscription s (set_refund ''reconcile_required'')) (\<lambda>_. save))
       (\<lambda>_. result ())"

definition refund_payment_of ::
  "billing_service \<Rightarrow> commercial_subscription \<Rightarrow> string \<Rightarrow> unit billing_step" where
  "refund_payment_of sv s payment =
     after (set_subscription s (refund_intended ''requested'' (sv_now sv))) (\<lambda>_.
     after save (\<lambda>_.
       call (cancel_provider_recurrence sv s)
         (\<lambda>_. after (set_subscription s (set_refund ''reconcile_required'')) (\<lambda>_. save))
         (\<lambda>_. after (set_subscription s (ended (sv_now sv))) (\<lambda>_.
              after save (\<lambda>_. submit_refund sv s payment)))))"

text \<open>A refund whose recurrence was not ended yet is taken up again.\<close>

definition resubmit_refund ::
  "billing_service \<Rightarrow> commercial_subscription \<Rightarrow> string \<Rightarrow> unit billing_step" where
  "resubmit_refund sv s payment =
     call (cancel_provider_recurrence sv s) (\<lambda>_. result ())
       (\<lambda>_. after (set_subscription s (\<lambda>x. set_refund ''requested'' (ended (sv_now sv) x))) (\<lambda>_.
            after save (\<lambda>_. submit_refund sv s payment)))"

definition resume_refund :: "billing_service \<Rightarrow> commercial_subscription \<Rightarrow> unit billing_step" where
  "resume_refund sv s =
     after (look (\<lambda>db. checkout_at db (cs_checkout s))) (\<lambda>checkout.
       case checkout of
         None \<Rightarrow> result ()
       | Some c \<Rightarrow>
           (case bc_payment c of
              Some p \<Rightarrow> resubmit_refund sv s p
            | None \<Rightarrow>
                after (payment_of_checkout sv c) (\<lambda>found.
                after save (\<lambda>_.
                  case found of None \<Rightarrow> result () | Some p \<Rightarrow> resubmit_refund sv s p))))"

definition ongoing :: "commercial_subscription \<Rightarrow> bool" where
  "ongoing s \<longleftrightarrow> cs_status s \<noteq> ''canceled'' \<and> cs_status s \<noteq> ''suspended''"

definition subscription_status :: "billing_service \<Rightarrow> uuid \<Rightarrow> subscription_state billing_step" where
  "subscription_status sv b =
     after (look (\<lambda>db. latest_subscription_for_business (sv_context sv) db b)) (\<lambda>found.
       case found of
         None \<Rightarrow> result no_subscription_state
       | Some s \<Rightarrow>
           after (if cs_refund_status s = ''reconcile_required'' \<and> ongoing s then resume_refund sv s else result ())
             (\<lambda>_. subscription_response sv s))"

definition refund_checkout ::
  "billing_service \<Rightarrow> commercial_subscription \<Rightarrow> billing_checkout \<Rightarrow> unit billing_step" where
  "refund_checkout sv s c =
     after (payment_of_checkout sv c) (\<lambda>found.
       case found of
         None \<Rightarrow> after (set_subscription s (refund_intended ''reconcile_required'' (sv_now sv))) (\<lambda>_. save)
       | Some p \<Rightarrow> refund_payment_of sv s p)"

definition start_refund :: "billing_service \<Rightarrow> commercial_subscription \<Rightarrow> subscription_state billing_step" where
  "start_refund sv s =
     after (subscription_response sv s) (\<lambda>st.
       if \<not> su_guarantee_eligible st then refused 409 ''Seven-day guarantee is no longer available''
       else after (subscription_now s) (\<lambda>x.
         if cs_status x = ''suspended'' then refused 409 ''Subscription is already suspended''
         else after (look (\<lambda>db. checkout_at db (cs_checkout x))) (\<lambda>checkout.
           case checkout of
             None \<Rightarrow> refused 409 ''Payment reference requires support review''
           | Some c \<Rightarrow> after (refund_checkout sv x c) (\<lambda>_. subscription_response sv x))))"

definition request_guarantee_refund :: "billing_service \<Rightarrow> uuid \<Rightarrow> subscription_state billing_step" where
  "request_guarantee_refund sv b =
     after (look (\<lambda>db. latest_subscription_for_business (sv_context sv) db b)) (\<lambda>found.
       case found of
         None \<Rightarrow> refused 404 ''Commercial subscription not found''
       | Some s \<Rightarrow>
           if cs_refund_status s = ''requested'' \<or> cs_refund_status s = ''refunded''
           then after save (\<lambda>_. subscription_response sv s)
           else if cs_refund_status s = ''reconcile_required''
           then after (if ongoing s then resume_refund sv s else result ()) (\<lambda>_. subscription_response sv s)
           else start_refund sv s)"

text \<open>The steps are evaluated on a session only.\<close>

lemmas subscription_steps [code] =
  apply_refund_status_def [THEN fun_cong] reconcile_provider_refund_def [THEN fun_cong]
  subscription_response_def [THEN fun_cong] upgrade_basic_def [THEN fun_cong]
  upgrade_subscription_to_plus_def [THEN fun_cong] request_subscription_cancellation_def [THEN fun_cong]
  resolve_initial_payment_def [THEN fun_cong] payment_of_checkout_def [THEN fun_cong]
  submit_refund_def [THEN fun_cong] refund_payment_of_def [THEN fun_cong] resubmit_refund_def [THEN fun_cong]
  resume_refund_def [THEN fun_cong] subscription_status_def [THEN fun_cong] refund_checkout_def [THEN fun_cong]
  start_refund_def [THEN fun_cong] request_guarantee_refund_def [THEN fun_cong]

end
