(* ===== verification/BillingSafety.thy ===== *)
theory BillingSafety
  imports BillingEvents
begin

text \<open>
  What the notifications of the payment provider may do: how the rows of checkouts and
  subscriptions evolve, that a subscription is backed by a paid checkout, that a sandbox does not
  touch production, and that a notification is applied once.
\<close>

section \<open>How rows evolve\<close>

text \<open>What a checkout asks for: its amount, its hosted session and its method.\<close>

type_synonym checkout_terms = "int \<times> string option \<times> string"

definition terms :: "billing_checkout \<Rightarrow> checkout_terms" where
  "terms c = (bc_amount c, bc_session c, bc_method c)"

text \<open>
  What may make a checkout paid: the end of its own hosted card session, or a confirmed payment or an
  activated authorization with exactly its amount.
\<close>

definition pays :: "string \<Rightarrow> pydict \<Rightarrow> checkout_terms \<Rightarrow> bool" where
  "pays event p = (\<lambda>(n, session, method).
     event = ''CHECKOUT_PAID'' \<and> method = ''credit_card'' \<and> session \<noteq> None \<and> session = text_value p ''id''
     \<or> (settled_payment event \<or> event = authorization_prefix @ ''ACTIVATED'')
        \<and> payment_value_cents (payload_value p ''value'') = Inr (Some n))"

definition kept_checkout :: "string \<Rightarrow> (checkout_terms \<Rightarrow> bool) \<Rightarrow> billing_checkout \<Rightarrow> billing_checkout \<Rightarrow> bool" where
  "kept_checkout E Q c c' \<longleftrightarrow>
     bc_id c' = bc_id c \<and> bc_business c' = bc_business c \<and> bc_plan c' = bc_plan c
     \<and> bc_cycle c' = bc_cycle c \<and> bc_method c' = bc_method c \<and> bc_environment c' = bc_environment c
     \<and> bc_amount c' = bc_amount c \<and> bc_session c' = bc_session c \<and> (bc_environment c \<noteq> E \<longrightarrow> c' = c)
     \<and> (bc_paid c \<noteq> None \<longrightarrow> bc_paid c' = bc_paid c)
     \<and> (bc_paid c = None \<longrightarrow> bc_paid c' = None \<or> Q (terms c))
     \<and> (bc_status c' = ''paid'' \<longrightarrow> bc_status c = ''paid'' \<or> bc_paid c' \<noteq> None)"

definition kept_subscription :: "string \<Rightarrow> commercial_subscription \<Rightarrow> commercial_subscription \<Rightarrow> bool" where
  "kept_subscription E s s' \<longleftrightarrow>
     cs_id s' = cs_id s \<and> cs_business s' = cs_business s \<and> cs_checkout s' = cs_checkout s
     \<and> cs_plan s' = cs_plan s \<and> cs_cycle s' = cs_cycle s \<and> cs_method s' = cs_method s
     \<and> cs_environment s' = cs_environment s \<and> cs_created s' = cs_created s
     \<and> (cs_environment s \<noteq> E \<longrightarrow> s' = s)"

text \<open>A subscription is backed by a checkout of its business that was paid.\<close>

definition backed :: "billing_db \<Rightarrow> commercial_subscription \<Rightarrow> bool" where
  "backed db s \<longleftrightarrow>
     (\<exists>c \<in> set (bd_checkouts db). bc_id c = cs_checkout s \<and> bc_business c = cs_business s
        \<and> bc_environment c = cs_environment s \<and> bc_paid c \<noteq> None)"

definition checkouts_ok :: "billing_db \<Rightarrow> bool" where
  "checkouts_ok db \<longleftrightarrow> distinct (map bc_id (bd_checkouts db))
     \<and> (\<forall>c \<in> set (bd_checkouts db). bc_status c = ''paid'' \<longrightarrow> bc_paid c \<noteq> None)"

definition subscriptions_evolve :: "string \<Rightarrow> billing_db \<Rightarrow> billing_db \<Rightarrow> bool" where
  "subscriptions_evolve E db db' \<longleftrightarrow>
     (\<exists>olds news. bd_subscriptions db' = olds @ news
        \<and> list_all2 (kept_subscription E) (bd_subscriptions db) olds
        \<and> (\<forall>s \<in> set news. cs_environment s = E \<and> backed db' s))"

definition rows_evolve :: "string \<Rightarrow> (checkout_terms \<Rightarrow> bool) \<Rightarrow> billing_db \<Rightarrow> billing_db \<Rightarrow> bool" where
  "rows_evolve E Q db db' \<longleftrightarrow>
     list_all2 (kept_checkout E Q) (bd_checkouts db) (bd_checkouts db')
     \<and> subscriptions_evolve E db db'
     \<and> (E \<noteq> ''production'' \<longrightarrow> bd_access db' = bd_access db)"

definition subscription_ids :: "billing_db \<Rightarrow> uuid list" where
  "subscription_ids db = map cs_id (bd_subscriptions db)"

text \<open>
  The rows evolve whenever the identifiers of the result are distinct, which the commit checks;
  the identifiers only grow.
\<close>

definition evolves :: "string \<Rightarrow> (checkout_terms \<Rightarrow> bool) \<Rightarrow> billing_db \<Rightarrow> billing_db \<Rightarrow> bool" where
  "evolves E Q db db' \<longleftrightarrow>
     prefix (subscription_ids db) (subscription_ids db') \<and> bd_events db' = bd_events db
     \<and> (checkouts_ok db \<and> distinct (subscription_ids db') \<longrightarrow> checkouts_ok db' \<and> rows_evolve E Q db db')"

lemma kept_checkout_refl [simp]: "kept_checkout E Q c c"
  by (simp add: kept_checkout_def)

lemma kept_subscription_refl [simp]: "kept_subscription E s s"
  by (simp add: kept_subscription_def)

lemma kept_checkout_trans: "kept_checkout E Q a b \<Longrightarrow> kept_checkout E Q b c \<Longrightarrow> kept_checkout E Q a c"
  by (auto simp: kept_checkout_def terms_def)

lemma kept_subscription_trans:
  "kept_subscription E a b \<Longrightarrow> kept_subscription E b c \<Longrightarrow> kept_subscription E a c"
  by (auto simp: kept_subscription_def)

lemma backed_kept:
  assumes "list_all2 (kept_checkout E Q) (bd_checkouts db) (bd_checkouts db')" "backed db s"
    "kept_subscription E s s'"
  shows "backed db' s'"
proof -
  from assms(2) obtain c where c: "c \<in> set (bd_checkouts db)" "bc_id c = cs_checkout s"
    "bc_business c = cs_business s" "bc_environment c = cs_environment s" "bc_paid c \<noteq> None"
    by (auto simp: backed_def)
  then obtain c' where "c' \<in> set (bd_checkouts db')" "kept_checkout E Q c c'"
    using assms(1) by (metis in_set_conv_nth list_all2_conv_all_nth)
  then show ?thesis using c assms(3) by (auto simp: backed_def kept_checkout_def kept_subscription_def)
qed

lemma subscriptions_evolveI:
  "bd_subscriptions db' = olds @ news \<Longrightarrow> list_all2 (kept_subscription E) (bd_subscriptions db) olds \<Longrightarrow>
   (\<And>s. s \<in> set news \<Longrightarrow> cs_environment s = E \<and> backed db' s) \<Longrightarrow> subscriptions_evolve E db db'"
  by (auto simp: subscriptions_evolve_def)

lemma subscriptions_evolve_kept:
  "list_all2 (kept_subscription E) (bd_subscriptions db) (bd_subscriptions db') \<Longrightarrow> subscriptions_evolve E db db'"
  by (rule subscriptions_evolveI [where news = "[]"]) auto

lemma rows_evolve_refl [simp]: "rows_evolve E Q db db"
  by (auto simp: rows_evolve_def list_all2_same intro: subscriptions_evolve_kept)

lemma list_all2_right:
  "list_all2 R xs ys \<Longrightarrow> y \<in> set ys \<Longrightarrow> \<exists>x \<in> set xs. R x y"
  by (metis in_set_conv_nth list_all2_conv_all_nth)

lemma rows_evolve_trans:
  assumes "rows_evolve E Q a b" "rows_evolve E Q b c" shows "rows_evolve E Q a c"
proof -
  from assms(1) obtain olds news where ab: "bd_subscriptions b = olds @ news"
    "list_all2 (kept_subscription E) (bd_subscriptions a) olds" "\<forall>s \<in> set news. cs_environment s = E \<and> backed b s"
    by (auto simp: rows_evolve_def subscriptions_evolve_def)
  from assms(2) obtain olds' news' where bc: "bd_subscriptions c = olds' @ news'"
    "list_all2 (kept_subscription E) (olds @ news) olds'" "\<forall>s \<in> set news'. cs_environment s = E \<and> backed c s"
    using ab(1) by (auto simp: rows_evolve_def subscriptions_evolve_def)
  obtain o1 o2 where o: "olds' = o1 @ o2" "list_all2 (kept_subscription E) olds o1"
    "list_all2 (kept_subscription E) news o2"
    using bc(2) by (auto simp: list_all2_append1)
  have checkouts: "list_all2 (kept_checkout E Q) (bd_checkouts a) (bd_checkouts b)"
    "list_all2 (kept_checkout E Q) (bd_checkouts b) (bd_checkouts c)"
    using assms by (auto simp: rows_evolve_def)
  have "cs_environment s = E \<and> backed c s" if s: "s \<in> set o2" for s
    using list_all2_right [OF o(3) s] ab(3) backed_kept [OF checkouts(2)] by (auto simp: kept_subscription_def)
  moreover have "list_all2 (kept_subscription E) (bd_subscriptions a) o1"
    by (rule list_all2_trans [OF kept_subscription_trans ab(2) o(2)])
  ultimately have "subscriptions_evolve E a c"
    by (intro subscriptions_evolveI [of c o1 "o2 @ news'"]) (use bc o(1) in auto)
  moreover have "list_all2 (kept_checkout E Q) (bd_checkouts a) (bd_checkouts c)"
    by (rule list_all2_trans [OF kept_checkout_trans checkouts])
  ultimately show ?thesis using assms by (auto simp: rows_evolve_def)
qed

lemma evolves_refl [simp]: "evolves E Q db db"
  by (simp add: evolves_def)

lemma evolves_trans [trans]: "evolves E Q a b \<Longrightarrow> evolves E Q b c \<Longrightarrow> evolves E Q a c"
proof -
  assume ab: "evolves E Q a b" and bc: "evolves E Q b c"
  have "distinct (subscription_ids b)" if "distinct (subscription_ids c)"
    using bc that by (auto simp: evolves_def prefix_def)
  then show ?thesis
    using ab bc by (auto simp: evolves_def intro: rows_evolve_trans dest: prefix_order.order_trans)
qed

section \<open>Primitive changes\<close>

lemma map_update_id: "(\<And>x. p x \<Longrightarrow> g (f x) = g x) \<Longrightarrow> map g (update_where p f xs) = map g xs"
  by (simp add: update_where_def)

lemma list_all2_update:
  "(\<And>x. x \<in> set xs \<Longrightarrow> R x (if p x then f x else x)) \<Longrightarrow> list_all2 R xs (update_where p f xs)"
  by (simp add: update_where_def list_all2_map2 list_all2_same)

lemma same_id:
  "distinct (map g xs) \<Longrightarrow> x \<in> set xs \<Longrightarrow> y \<in> set xs \<Longrightarrow> g x = g y \<Longrightarrow> x = y"
  by (auto simp: distinct_map inj_on_def)

lemma checkouts_ok_kept:
  assumes "list_all2 (kept_checkout E Q) (bd_checkouts db) (bd_checkouts db')" "checkouts_ok db"
  shows "checkouts_ok db'"
proof -
  have "map bc_id (bd_checkouts db') = map bc_id (bd_checkouts db)"
    using assms(1) by (auto simp: list_all2_conv_all_nth kept_checkout_def intro!: nth_equalityI)
  moreover have "bc_status c = ''paid'' \<longrightarrow> bc_paid c \<noteq> None" if "c \<in> set (bd_checkouts db')" for c
    using list_all2_right [OF assms(1) that] assms(2) by (auto simp: checkouts_ok_def kept_checkout_def)
  ultimately show ?thesis using assms(2) by (simp add: checkouts_ok_def)
qed

lemma evolvesI:
  assumes "prefix (subscription_ids db) (subscription_ids db')" and "bd_events db' = bd_events db"
    and "checkouts_ok db \<Longrightarrow> distinct (subscription_ids db') \<Longrightarrow>
      list_all2 (kept_checkout E Q) (bd_checkouts db) (bd_checkouts db') \<and> subscriptions_evolve E db db'
      \<and> (E \<noteq> ''production'' \<longrightarrow> bd_access db' = bd_access db)"
  shows "evolves E Q db db'"
  using assms checkouts_ok_kept unfolding evolves_def rows_evolve_def by blast

lemma evolves_checkout:
  assumes "c \<in> set (bd_checkouts db)" "kept_checkout E Q c (f c)"
  shows "evolves E Q db (modify_checkout (bc_id c) f db)"
proof (rule evolvesI)
  assume ok: "checkouts_ok db"
  have "kept_checkout E Q x (if bc_id x = bc_id c then f x else x)" if "x \<in> set (bd_checkouts db)" for x
    using same_id [of bc_id "bd_checkouts db" x c] that assms ok by (auto simp: checkouts_ok_def)
  then show "list_all2 (kept_checkout E Q) (bd_checkouts db) (bd_checkouts (modify_checkout (bc_id c) f db))
      \<and> subscriptions_evolve E db (modify_checkout (bc_id c) f db)
      \<and> (E \<noteq> ''production'' \<longrightarrow> bd_access (modify_checkout (bc_id c) f db) = bd_access db)"
    by (auto simp: modify_checkout_def list_all2_update list_all2_same intro!: subscriptions_evolve_kept)
qed (simp_all add: subscription_ids_def modify_checkout_def)

lemma evolves_subscription:
  assumes "s \<in> set (bd_subscriptions db)" "cs_environment s = E"
    and "\<And>x. kept_subscription (cs_environment x) x (f x)"
  shows "evolves E Q db (modify_subscription (cs_id s) f db)"
proof (rule evolvesI)
  let ?db = "modify_subscription (cs_id s) f db"
  have ids: "subscription_ids ?db = subscription_ids db"
    using assms(3) by (simp add: subscription_ids_def modify_subscription_def map_update_id kept_subscription_def)
  then show "prefix (subscription_ids db) (subscription_ids ?db)" by simp
  assume "distinct (subscription_ids ?db)"
  then have "kept_subscription E x (if cs_id x = cs_id s then f x else x)" if "x \<in> set (bd_subscriptions db)" for x
    using same_id [of cs_id "bd_subscriptions db" x s] that assms ids by (auto simp: subscription_ids_def)
  then show "list_all2 (kept_checkout E Q) (bd_checkouts db) (bd_checkouts ?db)
      \<and> subscriptions_evolve E db ?db \<and> (E \<noteq> ''production'' \<longrightarrow> bd_access ?db = bd_access db)"
    by (auto simp: modify_subscription_def list_all2_update list_all2_same intro!: subscriptions_evolve_kept)
qed (simp add: modify_subscription_def)

lemma evolves_other [simp]:
  "bd_checkouts db' = bd_checkouts db \<Longrightarrow> bd_subscriptions db' = bd_subscriptions db \<Longrightarrow>
   bd_events db' = bd_events db \<Longrightarrow> (E \<noteq> ''production'' \<longrightarrow> bd_access db' = bd_access db) \<Longrightarrow> evolves E Q db db'"
  by (rule evolvesI) (auto simp: subscription_ids_def list_all2_same intro!: subscriptions_evolve_kept)

lemma evolves_history: "evolves (provider_environment cx) Q db (record_operational_history cx b db)"
  by (rule evolves_other) (auto simp: record_operational_history_def modify_access_def)

lemma evolves_free: "evolves (provider_environment cx) Q db (return_business_to_free cx b db)"
  by (rule evolves_other) (auto simp: return_business_to_free_def modify_access_def)

lemma evolves_add_subscription:
  assumes "checkouts_ok db \<Longrightarrow> \<exists>c' \<in> set (bd_checkouts db). bc_id c' = bc_id c \<and> bc_business c' = bc_business c
      \<and> bc_environment c' = provider_environment cx \<and> bc_paid c' \<noteq> None"
  shows "evolves (provider_environment cx) Q db (add_subscription cx c a q until db)"
proof -
  let ?E = "provider_environment cx"
  let ?s = "new_subscription cx c a q until"
  let ?db = "db\<lparr>bd_subscriptions := bd_subscriptions db @ [?s]\<rparr>"
  have "evolves ?E Q db ?db"
  proof (rule evolvesI)
    assume "checkouts_ok db"
    then have "cs_environment ?s = ?E \<and> backed ?db ?s"
      using assms by (auto simp: new_subscription_def backed_def)
    then have "subscriptions_evolve ?E db ?db"
      by (intro subscriptions_evolveI [of _ "bd_subscriptions db" "[?s]"]) (auto simp: list_all2_same)
    then show "list_all2 (kept_checkout ?E Q) (bd_checkouts db) (bd_checkouts ?db) \<and> subscriptions_evolve ?E db ?db
        \<and> (?E \<noteq> ''production'' \<longrightarrow> bd_access ?db = bd_access db)"
      by (simp add: list_all2_same)
  qed (simp_all add: subscription_ids_def)
  then show ?thesis unfolding add_subscription_def using evolves_history by (rule evolves_trans)
qed

lemma find_checkout_Some:
  "find_checkout cx db p = Some c \<Longrightarrow>
   c \<in> set (bd_checkouts db) \<and> p c \<and> bc_environment c = provider_environment cx"
  by (auto simp: find_checkout_def dest!: first_Some)

lemma find_subscription_Some:
  "find_subscription cx db p = Some s \<Longrightarrow>
   s \<in> set (bd_subscriptions db) \<and> p s \<and> cs_environment s = provider_environment cx"
  by (auto simp: find_subscription_def dest!: first_Some)

lemma subscription_for_checkout_Some:
  "subscription_for_checkout cx db i = Some s \<Longrightarrow>
   s \<in> set (bd_subscriptions db) \<and> cs_checkout s = i \<and> cs_environment s = provider_environment cx"
  unfolding subscription_for_checkout_def by (drule find_subscription_Some) auto

lemma checkout_at_Some: "checkout_at db i = Some c \<Longrightarrow> c \<in> set (bd_checkouts db) \<and> bc_id c = i"
  by (auto simp: checkout_at_def dest!: first_Some)

section \<open>Handlers\<close>

text \<open>What the changes of a subscription keep.\<close>

lemma kept_changes [simp]:
  "kept_subscription (cs_environment x) x (reactivated c until x)"
  "kept_subscription (cs_environment x) x ((reactivated c until x)\<lparr>cs_qr_code := q\<rparr>)"
  "kept_subscription (cs_environment x) x (extended until x)"
  "kept_subscription (cs_environment x) x (suspended now x)"
  "kept_subscription (cs_environment x) x (refunded now x)"
  "kept_subscription (cs_environment x) x (canceled_now now x)"
  "kept_subscription (cs_environment x) x (reauthorized c i until x)"
  "kept_subscription (cs_environment x) x (x\<lparr>cs_status := st\<rparr>)"
  "kept_subscription (cs_environment x) x (x\<lparr>cs_refund_status := st\<rparr>)"
  by (simp_all add: kept_subscription_def reactivated_def extended_def suspended_def refunded_def canceled_now_def
      reauthorized_def)

text \<open>A checkout of this environment, by its identifier.\<close>

definition ours :: "billing_context \<Rightarrow> billing_db \<Rightarrow> uuid \<Rightarrow> bool" where
  "ours cx db i \<longleftrightarrow> (checkouts_ok db \<longrightarrow>
     (\<forall>c \<in> set (bd_checkouts db). bc_id c = i \<longrightarrow> bc_environment c = provider_environment cx))"

lemma ours_found:
  "c \<in> set (bd_checkouts db) \<Longrightarrow> bc_environment c = provider_environment cx \<Longrightarrow> ours cx db (bc_id c)"
  using same_id by (fastforce simp: ours_def checkouts_ok_def)

lemma activation_evolves:
  assumes c: "checkout_at db i = Some c" and ours: "ours cx db i" and "bc_status c = ''paid''"
  shows "evolves (provider_environment cx) Q db (add_subscription cx c a q until db)"
  using checkout_at_Some [OF c] assms
  by (intro evolves_add_subscription) (auto simp: ours_def checkouts_ok_def)

lemma renewal_evolves:
  assumes "subscription_for_checkout cx db i = Some s" and "\<And>x. kept_subscription (cs_environment x) x (f x)"
  shows "evolves (provider_environment cx) Q db
    (record_operational_history cx b (modify_subscription (cs_id s) f db))"
  using subscription_for_checkout_Some [OF assms(1)] assms(2)
  by (intro evolves_trans [OF evolves_subscription evolves_history]) auto

lemma evolves_activation:
  assumes ours: "ours cx db i" and c: "checkout_at db i = Some c" and paid: "bc_status c = ''paid''"
    and run: "(case subscription_for_checkout cx db i of
        None \<Rightarrow> if active then Inr db else Inr (add_subscription cx c a q until db)
      | Some s \<Rightarrow> Inr (record_operational_history cx b (modify_subscription (cs_id s) f db)))
      = (Inr db' :: billing_error + billing_db)"
    and kept: "\<And>x. kept_subscription (cs_environment x) x (f x)"
  shows "evolves (provider_environment cx) Q db db'"
proof (cases "subscription_for_checkout cx db i")
  case None
  then show ?thesis using run activation_evolves [OF c ours paid] by (auto split: if_splits)
next
  case (Some s)
  then show ?thesis using run renewal_evolves [OF Some kept] by auto
qed

lemma evolves_activate_card:
  assumes "activate_credit_card cx i db = Inr db'" and ours: "ours cx db i"
  shows "evolves (provider_environment cx) Q db db'"
proof (cases "checkout_at db i")
  case (Some c)
  show ?thesis
  proof (cases "bc_method c \<noteq> ''credit_card'' \<or> bc_status c \<noteq> ''paid'' \<or> \<not> truthy_text (bc_subscription c)")
    case True
    then show ?thesis using assms(1) Some by (simp add: activate_credit_card_def)
  next
    case False
    then show ?thesis
      using assms(1) evolves_activation [OF ours Some]
      by (auto simp: activate_credit_card_def Some and_then_Inr)
  qed
qed (use assms in \<open>simp add: activate_credit_card_def\<close>)

lemma evolves_activate_pix:
  assumes "activate_common_pix cx i db = Inr db'" and ours: "ours cx db i"
  shows "evolves (provider_environment cx) Q db db'"
proof (cases "checkout_at db i")
  case (Some c)
  show ?thesis
  proof (cases "bc_method c \<noteq> ''pix'' \<or> bc_status c \<noteq> ''paid''
      \<or> \<not> (truthy_text (bc_qr_code c) \<or> truthy_text (bc_subscription c))")
    case True
    then show ?thesis using assms(1) Some by (simp add: activate_common_pix_def)
  next
    case False
    then show ?thesis
      using assms(1) evolves_activation [OF ours Some]
      by (auto simp: activate_common_pix_def Some and_then_Inr)
  qed
qed (use assms in \<open>simp add: activate_common_pix_def\<close>)

text \<open>What the changes of a checkout keep.\<close>

lemma kept_paid_now [simp]: "kept_checkout E Q c (paid_now cx c)" if "bc_environment c = E" "Q (terms c)"
  using that by (auto simp: kept_checkout_def paid_now_def split: option.splits)

lemma kept_capture [simp]: "kept_checkout E Q c (capture_initial_payment_id event p c)" if "bc_environment c = E"
  using that by (auto simp: kept_checkout_def capture_initial_payment_id_def split: option.splits)

lemma kept_bind [simp]: "kept_checkout E Q c (bind_customer_id p k c)" if "bc_environment c = E"
  using that by (auto simp: kept_checkout_def bind_customer_id_def split: option.splits)

lemma kept_fields:
  assumes "bc_environment c = E"
  shows "kept_checkout E Q c (c\<lparr>bc_qr_expires := a, bc_expires := a\<rparr>)"
    "kept_checkout E Q c (c\<lparr>bc_conciliation := b\<rparr>)"
    "kept_checkout E Q c (c\<lparr>bc_qr_payload := b\<rparr>)"
    "kept_checkout E Q c (c\<lparr>bc_authorization := b\<rparr>)"
    "kept_checkout E Q c (c\<lparr>bc_subscription := b\<rparr>)"
    "kept_checkout E Q c (c\<lparr>bc_customer := b\<rparr>)"
  using assms by (simp_all add: kept_checkout_def)

lemma kept_env: "kept_checkout E Q c c' \<Longrightarrow> bc_environment c' = bc_environment c"
  by (simp add: kept_checkout_def)

lemma find_step:
  assumes "find_checkout cx db q = Some c" "kept_checkout (provider_environment cx) Q c (f c)"
  shows "evolves (provider_environment cx) Q db (modify_checkout (bc_id c) f db)"
    and "ours cx (modify_checkout (bc_id c) f db) (bc_id c)"
proof -
  note c = find_checkout_Some [OF assms(1)]
  then show ev: "evolves (provider_environment cx) Q db (modify_checkout (bc_id c) f db)"
    using evolves_checkout assms(2) by blast
  show "ours cx (modify_checkout (bc_id c) f db) (bc_id c)"
    unfolding ours_def
  proof (intro impI ballI)
    fix x assume ok: "checkouts_ok (modify_checkout (bc_id c) f db)"
      and x: "x \<in> set (bd_checkouts (modify_checkout (bc_id c) f db))" "bc_id x = bc_id c"
    have "f c \<in> set (bd_checkouts (modify_checkout (bc_id c) f db))"
      using c by (auto simp: modify_checkout_def update_where_def)
    moreover have "bc_id (f c) = bc_id c" "bc_environment (f c) = provider_environment cx"
      using assms(2) c by (simp_all add: kept_checkout_def)
    ultimately show "bc_environment x = provider_environment cx"
      using same_id [of bc_id "bd_checkouts (modify_checkout (bc_id c) f db)" x "f c"] ok x
      by (auto simp: checkouts_ok_def)
  qed
qed

text \<open>Each handler lets the rows evolve.\<close>

lemma kept_settle: "kept_checkout (provider_environment cx) Q c
    (paid_now cx (capture_initial_payment_id event p (bind_customer_id p k c)))"
  if env: "bc_environment c = provider_environment cx" and pay: "Q (terms c)"
proof -
  let ?E = "provider_environment cx"
  let ?b = "bind_customer_id p k c"
  let ?c = "capture_initial_payment_id event p ?b"
  have b: "kept_checkout ?E Q c ?b" using env by (rule kept_bind)
  have c: "kept_checkout ?E Q c ?c" using b kept_capture kept_checkout_trans kept_env env by metis
  then have "bc_environment ?c = ?E" "Q (terms ?c)" using env pay by (simp_all add: kept_checkout_def terms_def)
  then show ?thesis using c kept_checkout_trans kept_paid_now by blast
qed

lemma evolves_common_pix:
  assumes "capture_common_pix_and_activate cx event p db = Inr db'"
  shows "evolves (provider_environment cx) (pays event p) db db'"
proof -
  from assms obtain found db1 where r: "capture_common_pix cx event p db = Inr (found, db1)"
    "(case found of None \<Rightarrow> Inr db1 | Some i \<Rightarrow> activate_common_pix cx i db1) = Inr db'"
    by (auto simp: capture_common_pix_and_activate_def and_then_Inr)
  show ?thesis
  proof (cases found)
    case None
    then have "db1 = db"
      using r(1) by (auto simp: capture_common_pix_def and_then_Inr split: if_splits option.splits)
    then show ?thesis using r None by simp
  next
    case (Some i)
    then obtain c where c: "common_pix_checkout cx p db = Some c" "i = bc_id c"
      "db1 = modify_checkout (bc_id c)
         (\<lambda>x. paid_now cx (capture_initial_payment_id event p (bind_customer_id p ''customer'' x))) db"
      "pays event p (terms c)"
      using r(1) by (auto simp: capture_common_pix_def and_then_Inr pays_def terms_def split: if_splits option.splits)
    then obtain q where q: "find_checkout cx db q = Some c"
      by (auto simp: common_pix_checkout_def split: option.splits)
    have env: "bc_environment c = provider_environment cx" using find_checkout_Some [OF q] by simp
    note step = find_step [where f = "\<lambda>x. paid_now cx (capture_initial_payment_id event p (bind_customer_id p ''customer'' x))",
      OF q kept_settle [where Q = "pays event p", OF env c(4)]]
    show ?thesis
      using evolves_trans [OF step(1) evolves_activate_pix [OF _ step(2)]] r(2) Some c by auto
  qed
qed

lemma pix_checkout_ours:
  assumes "pix_checkout_for_payment cx p db = Some c"
  shows "c \<in> set (bd_checkouts db) \<and> bc_environment c = provider_environment cx"
  using assms find_checkout_Some [of cx db _ c] checkout_at_Some [of db _ c]
  unfolding pix_checkout_for_payment_def Let_def
  by (force split: if_splits option.splits pyval.splits)

lemma evolves_pix_initial:
  assumes "capture_pix_initial cx event p db = Inr db'"
  shows "evolves (provider_environment cx) (pays event p) db db'"
proof (cases "db' = db")
  case False
  with assms obtain c where c: "pix_checkout_for_payment cx p db = Some c"
    "db' = modify_checkout (bc_id c)
       (\<lambda>x. (if bc_paid x = None then capture_initial_payment_id event p x else x)
          \<lparr>bc_paid := Some (case bc_paid x of None \<Rightarrow> cx_now cx | Some t \<Rightarrow> t)\<rparr>) db"
    "pays event p (terms c)"
    by (auto simp: capture_pix_initial_def and_then_Inr pays_def terms_def split: if_splits option.splits)
  note o = pix_checkout_ours [OF c(1)]
  show ?thesis
    unfolding c(2)
    by (rule evolves_checkout)
      (use o c(3) in \<open>auto simp: kept_checkout_def capture_initial_payment_id_def split: option.splits\<close>)
qed simp

lemma card_checkout_found:
  assumes "card_checkout_for_payment cx p sub db = Some c"
  obtains q where "find_checkout cx db q = Some c"
  using assms by (auto simp: card_checkout_for_payment_def Let_def split: if_splits option.splits)

definition card_refs :: "string \<Rightarrow> string \<Rightarrow> pydict \<Rightarrow> billing_checkout \<Rightarrow> billing_checkout" where
  "card_refs event sub p x =
     (let y = bind_customer_id p ''customer'' (x\<lparr>bc_subscription := Some sub\<rparr>)
      in if payload_value p ''checkoutSession'' \<noteq> PNone \<or> bc_paid y = None
         then capture_initial_payment_id event p y else y)"

lemma kept_card_refs:
  assumes "bc_environment c = E" shows "kept_checkout E Q c (card_refs event sub p c)"
proof -
  let ?x = "c\<lparr>bc_subscription := Some sub\<rparr>"
  let ?y = "bind_customer_id p ''customer'' ?x"
  have x: "kept_checkout E Q c ?x" using assms by (rule kept_fields)
  have "kept_checkout E Q ?x ?y" by (rule kept_bind) (simp add: assms)
  with x have y: "kept_checkout E Q c ?y" by (rule kept_checkout_trans)
  have "kept_checkout E Q ?y (capture_initial_payment_id event p ?y)"
    by (rule kept_capture) (use kept_env [OF y] assms in simp)
  with y have "kept_checkout E Q c (capture_initial_payment_id event p ?y)" by (rule kept_checkout_trans)
  with y show ?thesis unfolding card_refs_def Let_def by simp
qed

lemma kept_native:
  "bc_environment c = E \<Longrightarrow> (settled_payment event \<longrightarrow> Q (terms c)) \<Longrightarrow> kept_checkout E Q c (native_paid cx event c)"
  by (simp add: native_paid_def)

lemma modify_checkout_twice:
  "(\<And>x. bc_id (f x) = bc_id x) \<Longrightarrow> modify_checkout i g (modify_checkout i f db) = modify_checkout i (\<lambda>x. g (f x)) db"
  by (auto simp: modify_checkout_def update_where_def)

lemma bc_id_card_refs [simp]: "bc_id (card_refs event sub p x) = bc_id x"
  using kept_card_refs [of x "bc_environment x"] by (simp add: kept_checkout_def)

lemma evolves_card:
  assumes "capture_card_and_activate cx event p db = Inr db'"
  shows "evolves (provider_environment cx) (pays event p) db db'"
proof -
  from assms obtain found db1 where r: "capture_credit_card_refs cx event p db = Inr (found, db1)"
    "(case found of None \<Rightarrow> Inr db1
       | Some i \<Rightarrow> activate_credit_card cx i (modify_checkout i (native_paid cx event) db1)) = Inr db'"
    by (auto simp: capture_card_and_activate_def and_then_Inr)
  show ?thesis
  proof (cases found)
    case None
    then have "db1 = db"
      using r(1) by (auto simp: capture_credit_card_refs_def and_then_Inr split: if_splits option.splits)
    then show ?thesis using r None by simp
  next
    case (Some i)
    then obtain sub c where c: "card_checkout_for_payment cx p sub db = Some c" "i = bc_id c"
      "db1 = modify_checkout (bc_id c) (card_refs event sub p) db"
      "payment_value_cents (payload_value p ''value'') = Inr (Some (bc_amount c))"
      using r(1)
      by (auto simp: capture_credit_card_refs_def and_then_Inr card_refs_def [abs_def] split: if_splits option.splits)
    then obtain q where q: "find_checkout cx db q = Some c" using card_checkout_found by blast
    have env: "bc_environment c = provider_environment cx" using find_checkout_Some [OF q] by simp
    have "kept_checkout (provider_environment cx) (pays event p) c (native_paid cx event (card_refs event sub p c))"
    proof (rule kept_checkout_trans [OF kept_card_refs [OF env] kept_native])
      show "bc_environment (card_refs event sub p c) = provider_environment cx"
        using kept_env [OF kept_card_refs [OF env]] env by simp
      have "terms (card_refs event sub p c) = terms c"
        using kept_card_refs [OF env] by (simp add: kept_checkout_def terms_def)
      then show "settled_payment event \<longrightarrow> pays event p (terms (card_refs event sub p c))"
        using c(4) by (simp add: pays_def terms_def)
    qed
    note step = find_step [where f = "\<lambda>x. native_paid cx event (card_refs event sub p x)", OF q this]
    have "activate_credit_card cx (bc_id c)
        (modify_checkout (bc_id c) (\<lambda>x. native_paid cx event (card_refs event sub p x)) db) = Inr db'"
      using r(2) Some c by (simp add: modify_checkout_twice)
    then show ?thesis using evolves_trans [OF step(1) evolves_activate_card [OF _ step(2)]] by blast
  qed
qed

text \<open>The rest of a payment event works on the subscription it found.\<close>

lemma subscription_for_payment_Some:
  assumes "subscription_for_payment cx p db = Some s"
  shows "s \<in> set (bd_subscriptions db) \<and> cs_environment s = provider_environment cx"
proof -
  have "subscription_by cx db p k f = Some s \<Longrightarrow> ?thesis" for k f
    by (auto simp: subscription_by_def dest: find_subscription_Some split: option.splits)
  moreover have "subscription_of_customer cx db u = Some s \<Longrightarrow> ?thesis" for u
    by (auto simp: subscription_of_customer_def dest!: max_by_Some)
  moreover have "subscription_for_checkout cx db i = Some s \<Longrightarrow> ?thesis" for i
    by (auto dest: subscription_for_checkout_Some)
  ultimately show ?thesis
    using assms by (auto simp: subscription_for_payment_def or_else_def split: if_splits option.splits)
qed

lemma evolves_modify:
  assumes "s \<in> set (bd_subscriptions db) \<and> cs_environment s = E" "\<And>x. kept_subscription (cs_environment x) x (f x)"
  shows "evolves E Q db (modify_subscription (cs_id s) f db)"
  using assms by (intro evolves_subscription) auto

lemma evolves_settled:
  assumes "payment_settled cx p s db = Inr db'" "s \<in> set (bd_subscriptions db) \<and> cs_environment s = provider_environment cx"
  shows "evolves (provider_environment cx) Q db db'"
  using assms(1) evolves_trans [OF evolves_modify [OF assms(2)] evolves_history]
  by (auto simp: payment_settled_def and_then_Inr split: if_splits)

lemma evolves_overdue:
  assumes "s \<in> set (bd_subscriptions db) \<and> cs_environment s = provider_environment cx"
  shows "evolves (provider_environment cx) Q db (snd (payment_overdue cx p s db))"
proof -
  let ?db1 = "modify_subscription (cs_id s) (\<lambda>x. x\<lparr>cs_status := ''past_due''\<rparr>) db"
  have "evolves (provider_environment cx) Q db ?db1" using assms by (rule evolves_modify) simp
  moreover have "evolves (provider_environment cx) Q ?db1 (snd (payment_overdue cx p s db))"
    by (rule evolves_other) (auto simp: payment_overdue_def Let_def split: option.splits)
  ultimately show ?thesis by (rule evolves_trans)
qed

lemma modified_member:
  assumes "s \<in> set (bd_subscriptions db)" "\<And>x. cs_id (f x) = cs_id x"
  shows "f s \<in> set (bd_subscriptions (modify_subscription (cs_id s) f db))"
  using assms by (auto simp: modify_subscription_def update_where_def)

lemma evolves_reversed:
  assumes "s \<in> set (bd_subscriptions db) \<and> cs_environment s = provider_environment cx"
  shows "evolves (provider_environment cx) Q db (payment_reversed cx event p s db)"
proof -
  let ?f = "suspended (cx_now cx)"
  let ?db1 = "modify_subscription (cs_id s) ?f db"
  have one: "evolves (provider_environment cx) Q db ?db1" using assms by (rule evolves_modify) simp
  have "?f s \<in> set (bd_subscriptions ?db1) \<and> cs_environment (?f s) = provider_environment cx"
    using assms modified_member [of s db ?f] by (simp add: suspended_def)
  then have "evolves (provider_environment cx) Q ?db1 (modify_subscription (cs_id (?f s)) (refunded (cx_now cx)) ?db1)"
    by (rule evolves_modify) simp
  then have "evolves (provider_environment cx) Q ?db1 (modify_subscription (cs_id s) (refunded (cx_now cx)) ?db1)"
    by (simp add: suspended_def)
  from evolves_trans [OF one evolves_trans [OF this evolves_free]] one show ?thesis
    unfolding payment_reversed_def Let_def by simp
qed

lemma evolves_apply_to_subscription:
  assumes "apply_to_subscription cx event p s db = Inr (a, db')"
    "s \<in> set (bd_subscriptions db) \<and> cs_environment s = provider_environment cx"
  shows "evolves (provider_environment cx) Q db db'"
proof -
  have "evolves (provider_environment cx) Q db (refund_progress event p s db)"
    using evolves_modify [OF assms(2)] by (simp add: refund_progress_def)
  moreover have "payment_settled cx p s db = Inr db'" if "settled_payment event"
    using assms(1) that by (auto simp: apply_to_subscription_def elim!: and_then_InrE)
  moreover have "db' \<in> {snd (payment_overdue cx p s db), refund_progress event p s db, payment_reversed cx event p s db, db}"
    if "\<not> settled_payment event"
    using assms(1) that unfolding apply_to_subscription_def
    by (simp split: if_splits)
  ultimately show ?thesis
    using evolves_settled [OF _ assms(2)] evolves_overdue [OF assms(2), where p = p] evolves_reversed [OF assms(2), where event = event and p = p]
    by (cases "settled_payment event") auto
qed

lemma evolves_payment_event:
  assumes "apply_payment_event cx event p db = Inr (a, db')"
  shows "evolves (provider_environment cx) (pays event p) db db'"
proof -
  obtain db1 db2 db3 where r: "capture_common_pix_and_activate cx event p db = Inr db1"
    "capture_pix_initial cx event p db1 = Inr db2" "capture_card_and_activate cx event p db2 = Inr db3"
    "(case subscription_for_payment cx p db3 of None \<Rightarrow> Inr (None, db3)
      | Some s \<Rightarrow> apply_to_subscription cx event p s db3) = Inr (a, db')"
    using assms by (auto simp: apply_payment_event_def elim!: and_then_InrE)
  have "evolves (provider_environment cx) (pays event p) db3 db'"
    using r(4) evolves_apply_to_subscription subscription_for_payment_Some by (auto split: option.splits)
  then show ?thesis
    using evolves_common_pix [OF r(1)] evolves_pix_initial [OF r(2)] evolves_card [OF r(3)]
    by (meson evolves_trans)
qed

lemma evolves_subscription_event:
  "evolves (provider_environment cx) Q db (apply_subscription_event cx event p db)"
proof (cases "apply_subscription_event cx event p db = db")
  case False
  then obtain i s where s: "find_subscription cx db (\<lambda>s. cs_subscription s = Some i) = Some s" "text_value p ''id'' = Some i"
    by (auto simp: apply_subscription_event_def split: option.splits)
  then have m: "s \<in> set (bd_subscriptions db) \<and> cs_environment s = provider_environment cx"
    using find_subscription_Some by blast
  show ?thesis
    using evolves_modify [OF m] s by (auto simp: apply_subscription_event_def)
qed simp

lemma kept_bindings:
  assumes "bc_environment c = E"
  shows "kept_checkout E Q c (fst (bind_authorization i c))" "kept_checkout E Q c (fst (bind_subscription p c))"
    "kept_checkout E Q c (fst (bind_customer p c))"
  using kept_fields [OF assms]
  by (simp_all add: bind_authorization_def bind_subscription_def bind_customer_def split: option.splits)

lemma kept_references:
  assumes "bind_references i p c = (c', ok)" "bc_environment c = E"
  shows "kept_checkout E Q c c'"
proof -
  obtain c1 ok1 c2 ok2 where b: "bind_authorization i c = (c1, ok1)" "bind_subscription p c1 = (c2, ok2)"
    by (metis surj_pair)
  have k1: "kept_checkout E Q c c1" using kept_bindings(1) [OF assms(2), where i = i] b(1) by simp
  then have e1: "bc_environment c1 = E" using kept_env assms(2) by simp
  have k2: "kept_checkout E Q c c2"
    using kept_checkout_trans [OF k1] kept_bindings(2) [OF e1, where p = p] b(2) by simp
  then have e2: "bc_environment c2 = E" using kept_env assms(2) by simp
  have "kept_checkout E Q c (fst (bind_customer p c2))"
    using kept_checkout_trans [OF k2] kept_bindings(3) [OF e2] by simp
  then show ?thesis using assms(1) b k1 k2 by (auto simp: bind_references_def split: if_splits)
qed

lemma kept_qr_bindings:
  assumes "bc_environment c = E"
  shows "kept_checkout E Q c (bind_qr_expiration z d c)" "kept_checkout E Q c (bind_conciliation d c)"
    "kept_checkout E Q c (bind_qr_payload v c)"
  using kept_fields [OF assms]
  by (simp_all add: bind_qr_expiration_def bind_conciliation_def bind_qr_payload_def split: option.split)

lemma kept_chain:
  "kept_checkout E Q x y \<Longrightarrow> bc_environment x = E \<Longrightarrow> (bc_environment y = E \<Longrightarrow> kept_checkout E Q y w) \<Longrightarrow>
   kept_checkout E Q x w"
  using kept_checkout_trans kept_env by metis

lemma kept_qr_code:
  assumes "bc_environment c = E" shows "kept_checkout E Q c (bind_qr_code z p c)"
proof -
  have "kept_checkout E Q c (case q of None \<Rightarrow> c | Some d \<Rightarrow> bind_conciliation d (bind_qr_expiration z d c))" for q
    using kept_chain [OF kept_qr_bindings(1) assms kept_qr_bindings(2)] assms by (cases q) simp_all
  then show ?thesis
    unfolding bind_qr_code_def Let_def by (rule kept_chain) (rule assms, rule kept_qr_bindings(3))
qed

lemma authorization_checkout_ours:
  assumes "authorization_checkout cx i p db = Some c"
  shows "c \<in> set (bd_checkouts db) \<and> bc_environment c = provider_environment cx"
  using assms find_checkout_Some [of cx db _ c] checkout_at_Some [of db _ c]
  unfolding authorization_checkout_def or_else_def
  by (force split: if_splits option.splits)

lemma replaced_member:
  assumes "c \<in> set (bd_checkouts db)"
  shows "c' \<in> set (bd_checkouts (modify_checkout (bc_id c) (\<lambda>_. c') db))"
  using assms by (auto simp: modify_checkout_def update_where_def)

lemma evolves_status:
  assumes "c \<in> set (bd_checkouts db)" "bc_environment c = E" "st \<noteq> ''paid''"
  shows "evolves E Q db (modify_checkout (bc_id c) (\<lambda>x. x\<lparr>bc_status := st\<rparr>) db)"
  using assms by (intro evolves_checkout) (auto simp: kept_checkout_def)

lemma evolves_authorization_activated:
  assumes "authorization_activated cx i p c db = Inr db'"
    and pay: "\<And>n x m. payment_value_cents (payload_value p ''value'') = Inr (Some n) \<Longrightarrow> Q (n, x, m)"
    and c: "c \<in> set (bd_checkouts db)" "bc_environment c = provider_environment cx"
  shows "evolves (provider_environment cx) Q db db'"
proof -
  let ?E = "provider_environment cx"
  let ?db1 = "modify_checkout (bc_id c) (paid_now cx) db"
  obtain ok where ok: "valid_pix_authorization c p = Inr ok"
    using assms(1) by (auto simp: authorization_activated_def elim!: and_then_InrE)
  show ?thesis
  proof (cases ok)
    case False
    then show ?thesis
      using assms(1) ok evolves_status [OF c, of "''failed''"]
      by (simp add: authorization_activated_def)
  next
    case True
    have one: "evolves ?E Q db ?db1" 
    proof (rule evolves_checkout [OF c(1)], rule kept_paid_now [OF c(2)])
      show "Q (terms c)"
        using ok True pay by (auto simp: valid_pix_authorization_def terms_def split: if_splits elim!: and_then_InrE)
    qed
    have "paid_now cx c \<in> set (bd_checkouts ?db1)"
      using c(1) by (auto simp: modify_checkout_def update_where_def)
    then have "evolves ?E Q ?db1 (add_subscription cx c (Some i) None until ?db1)" for until
      by (intro evolves_add_subscription) (use c(2) in \<open>auto simp: paid_now_def intro!: bexI [of _ "paid_now cx c"]\<close>)
    moreover have "evolves ?E Q ?db1 (record_operational_history cx (bc_business c)
        (modify_subscription (cs_id s) (reauthorized c i until) ?db1))"
      if "subscription_for_checkout cx ?db1 (bc_id c) = Some s" for s until
      using that by (rule renewal_evolves) simp
    ultimately have "evolves ?E Q ?db1 db'"
      using assms(1) ok True
      by (auto simp: authorization_activated_def Let_def split: option.splits if_splits elim!: and_then_InrE)
    then show ?thesis using one evolves_trans by blast
  qed
qed

lemma evolves_authorization_ended:
  assumes c: "c \<in> set (bd_checkouts db)" "bc_environment c = provider_environment cx" and "st \<noteq> ''paid''"
  shows "evolves (provider_environment cx) Q db (authorization_ended cx st c db)"
proof -
  let ?E = "provider_environment cx"
  let ?db1 = "(case subscription_for_checkout cx db (bc_id c) of None \<Rightarrow> db
                 | Some s \<Rightarrow> modify_subscription (cs_id s) (canceled_now (cx_now cx)) db)"
  have one: "evolves ?E Q db ?db1"
  proof (cases "subscription_for_checkout cx db (bc_id c)")
    case (Some s)
    then have "s \<in> set (bd_subscriptions db) \<and> cs_environment s = ?E" using subscription_for_checkout_Some by blast
    from evolves_modify [OF this kept_changes(6)] show ?thesis unfolding Some by simp
  qed simp
  have "bd_checkouts ?db1 = bd_checkouts db" by (simp add: modify_subscription_def split: option.split)
  then have "c \<in> set (bd_checkouts ?db1)" using c(1) by simp
  note two = evolves_trans [OF one evolves_status [OF this c(2) assms(3)]]
  show ?thesis unfolding authorization_ended_def Let_def by (simp only: one two split: if_split) simp
qed

lemma evolves_bound_authorization:
  assumes "apply_bound_authorization cx event i p c db = Inr db'"
    and c: "c \<in> set (bd_checkouts db)" "bc_environment c = provider_environment cx"
  shows "evolves (provider_environment cx) (pays event p) db db'"
proof -
  have active: "evolves (provider_environment cx) (pays event p) db db'"
    if "event = authorization_prefix @ ''ACTIVATED''" "authorization_activated cx i p c db = Inr db'"
    by (rule evolves_authorization_activated [OF that(2) _ c]) (simp add: pays_def that(1))
  consider "event = authorization_prefix @ ''ACTIVATED''" "authorization_activated cx i p c db = Inr db'"
    | st where "st \<in> {''active'', ''failed''}" "db' = modify_checkout (bc_id c) (\<lambda>x. x\<lparr>bc_status := st\<rparr>) db"
    | st where "st \<in> {''canceled'', ''expired''}" "db' = authorization_ended cx st c db"
    | "db' = db"
    using assms(1) unfolding apply_bound_authorization_def by (simp split: if_splits) blast+
  then show ?thesis
  proof cases
    case 1
    then show ?thesis by (rule active)
  next
    case (2 st)
    then show ?thesis using evolves_status [OF c, of st] by auto
  next
    case (3 st)
    then show ?thesis using evolves_authorization_ended [OF c, of st] by auto
  qed simp
qed

lemma evolves_authorization_event:
  assumes "apply_pix_authorization_event cx event p db = Inr db'"
  shows "evolves (provider_environment cx) (pays event p) db db'"
proof (cases "db' = db")
  case False
  let ?E = "provider_environment cx"
  obtain i c where i: "reference_value 100 p ''id'' = Some i" and c: "authorization_checkout cx i p db = Some c"
    using assms False by (auto simp: apply_pix_authorization_event_def split: option.splits)
  obtain c1 ok where b: "bind_references i p c = (c1, ok)" by (cases "bind_references i p c")
  note o = authorization_checkout_ours [OF c]
  have k1: "kept_checkout ?E (pays event p) c c1" using kept_references [OF b] o by simp
  let ?c2 = "bind_qr_code (cx_brazil cx) p c1"
  let ?db2 = "modify_checkout (bc_id c) (\<lambda>_. ?c2) db"
  show ?thesis
  proof (cases ok)
    case False
    then have "db' = modify_checkout (bc_id c) (\<lambda>_. c1) db"
      using assms i c b by (simp add: apply_pix_authorization_event_def)
    then show ?thesis using o k1 by (simp add: evolves_checkout)
  next
    case True
    have k2: "kept_checkout ?E (pays event p) c ?c2"
      using kept_checkout_trans [OF k1 kept_qr_code] kept_env [OF k1] o by simp
    have one: "evolves ?E (pays event p) db ?db2" using o k2 by (intro evolves_checkout) auto
    have m: "?c2 \<in> set (bd_checkouts ?db2)" "bc_environment ?c2 = ?E"
      using replaced_member [of c db] o kept_env [OF k2] by simp_all
    have "apply_bound_authorization cx event i p ?c2 ?db2 = Inr db'"
      using assms i c b True by (simp add: apply_pix_authorization_event_def Let_def)
    from evolves_bound_authorization [OF this m] one show ?thesis using evolves_trans by blast
  qed
qed simp

lemma evolves_checkout_event:
  assumes "apply_checkout_event cx event r db = Inr db'"
  shows "evolves (provider_environment cx) (pays event r) db db'"
proof (cases "db' = db")
  case False
  let ?E = "provider_environment cx"
  obtain i c where i: "text_value r ''id'' = Some i" and c: "find_checkout cx db (\<lambda>c. bc_session c = Some i) = Some c"
    using assms False by (auto simp: apply_checkout_event_def split: option.splits)
  note o = find_checkout_Some [OF c]
  have st: "evolves ?E (pays event r) db (modify_checkout (bc_id c) (\<lambda>x. x\<lparr>bc_status := st\<rparr>) db)" if "st \<noteq> ''paid''" for st
    using o that by (intro evolves_status) auto
  show ?thesis
  proof (cases "event = ''CHECKOUT_PAID''")
    case True
    have paid: "activate_paid_checkout cx i db = Inr db'" using assms True i c by (simp add: apply_checkout_event_def)
    show ?thesis
    proof (cases "bc_status c = ''paid''")
      case paid': True
      then show ?thesis
        using paid c evolves_activate_card [of cx "bc_id c" db db'] ours_found [of c db cx] o
        by (auto simp: activate_paid_checkout_def split: if_splits)
    next
      case unpaid: False
      show ?thesis
      proof (cases "bc_method c = ''credit_card''")
        case card: True
        have "kept_checkout ?E (pays event r) c (paid_now cx c)"
          using o True card i by (intro kept_paid_now) (auto simp: pays_def terms_def)
        note step = find_step [where f = "paid_now cx", OF c this]
        show ?thesis
          using paid c unpaid evolves_trans [OF step(1) evolves_activate_card [OF _ step(2)]] o
          by (auto simp: activate_paid_checkout_def split: if_splits)
      next
        case other: False
        then show ?thesis using paid c by (simp add: activate_paid_checkout_def)
      qed
    qed
  next
    case False
    then show ?thesis
      using assms i c st [of "''active''"] st [of "''canceled''"] st [of "''expired''"]
      by (simp add: apply_checkout_event_def Let_def split: if_splits)
  qed
qed simp

lemma evolves_event:
  assumes "apply_event cx event r db = Inr (a, db')"
  shows "evolves (provider_environment cx) (pays event r) db db'"
proof -
  consider "apply_checkout_event cx event r db = Inr db'" | "db' = apply_subscription_event cx event r db"
    | "apply_payment_event cx event r db = Inr (a, db')" | "apply_pix_authorization_event cx event r db = Inr db'"
    | "db' = db"
    using assms unfolding apply_event_def by (auto split: if_splits elim!: and_then_InrE)
  then show ?thesis
    by cases (simp_all add: evolves_checkout_event evolves_subscription_event evolves_payment_event
      evolves_authorization_event)
qed

section \<open>One notification\<close>

text \<open>The event of a notification that is considered, and what it is about.\<close>

definition notice_event :: "billing_context \<Rightarrow> pydict \<Rightarrow> (string \<times> pydict) option" where
  "notice_event cx p = map_option (\<lambda>(key, event). (event, snd (resource_of p event))) (notice_key cx p)"

lemma read_notice_Inr:
  "read_notice cx key event p db = Inr n \<Longrightarrow> nt_key n = key \<and> nt_type n = event
     \<and> nt_resource n = snd (resource_of p event) \<and> be_id (nt_row n) = key \<and> be_processed (nt_row n) = None"
  by (auto simp: read_notice_def Let_def split: prod.splits elim!: and_then_InrE)

text \<open>The outcomes of a notification: nothing, the event recorded, or everything committed.\<close>

lemma store_notice_Inr:
  assumes "store_notice n db = Inr db'" "be_id (nt_row n) = nt_key n"
  shows "bd_checkouts db' = bd_checkouts db" "bd_subscriptions db' = bd_subscriptions db" "bd_access db' = bd_access db"
    "list_ex (\<lambda>e. be_id e = nt_key n) (bd_events db')"
    "event_at db (nt_key n) = None \<Longrightarrow> billing_keys_ok db'"
proof -
  show "bd_checkouts db' = bd_checkouts db" "bd_subscriptions db' = bd_subscriptions db" "bd_access db' = bd_access db"
    "event_at db (nt_key n) = None \<Longrightarrow> billing_keys_ok db'"
    using assms by (auto simp: store_notice_def modify_event_def commit_Inr split: if_splits)
  show "list_ex (\<lambda>e. be_id e = nt_key n) (bd_events db')"
  proof (cases "event_at db (nt_key n)")
    case None
    then show ?thesis using assms by (auto simp: store_notice_def commit_Inr)
  next
    case (Some e)
    then have "e \<in> set (bd_events db)" "be_id e = nt_key n" by (auto simp: event_at_def dest!: first_Some)
    moreover have "be_id (refreshed_event (nt_row n) e) = be_id e" by (simp add: refreshed_event_def)
    ultimately show ?thesis
      using assms(1) Some by (force simp: store_notice_def modify_event_def update_where_def list_ex_iff)
  qed
qed

lemma process_notice_cases:
  assumes "process_notice cx p db = (r, db')"
  obtains (nothing) "db' = db"
    | (recorded) key event n where "notice_key cx p = Some (key, event)" "read_notice cx key event p db = Inr n"
        "event_at db key = None" "store_notice n db = Inr db'"
    | (applied) key event n db1 a db2 where "notice_key cx p = Some (key, event)"
        "read_notice cx key event p db = Inr n" "store_notice n db = Inr db1"
        "apply_event cx event (nt_resource n) db1 = Inr (a, db2)" "finish_event cx n db2 = Inr db'"
  using assms unfolding process_notice_def
  by (auto simp: settle_notice_def read_notice_Inr split: option.splits if_splits sum.splits prod.splits elim!: and_then_InrE)

lemma finish_event_rows:
  assumes "finish_event cx n db = Inr db'"
  shows "bd_checkouts db' = bd_checkouts db" "bd_subscriptions db' = bd_subscriptions db" "bd_access db' = bd_access db"
    "billing_keys_ok db'"
  using assms by (auto simp: finish_event_def Let_def commit_Inr modify_event_def)

lemma keys_ok_ids: "billing_keys_ok db \<Longrightarrow> distinct (subscription_ids db)"
  by (simp add: billing_keys_ok_def row_constraints_def subscription_constraints_def subscription_ids_def)

lemma same_rows_evolve:
  assumes "bd_checkouts a = bd_checkouts a'" "bd_subscriptions a = bd_subscriptions a'" "bd_access a = bd_access a'"
    "bd_checkouts b = bd_checkouts b'" "bd_subscriptions b = bd_subscriptions b'" "bd_access b = bd_access b'"
    "rows_evolve E Q a b"
  shows "rows_evolve E Q a' b'"
  using assms by (simp add: rows_evolve_def subscriptions_evolve_def backed_def)

lemma notice_rows:
  assumes "process_notice cx p db = (r, db')" "billing_keys_ok db" "checkouts_ok db"
  shows "billing_keys_ok db' \<and> checkouts_ok db'
    \<and> rows_evolve (provider_environment cx)
        (\<lambda>n. \<exists>event x. notice_event cx p = Some (event, x) \<and> pays event x n) db db'"
  using assms(1)
proof (cases rule: process_notice_cases)
  case nothing
  then show ?thesis using assms by simp
next
  case (recorded key event n)
  then have k: "be_id (nt_row n) = nt_key n" "nt_key n = key" using read_notice_Inr by auto
  note st = store_notice_Inr [OF recorded(4) k(1)]
  then show ?thesis
    using assms k recorded(3) same_rows_evolve [OF _ _ _ _ _ _ rows_evolve_refl [of _ _ db]] by (simp add: checkouts_ok_def)
next
  case (applied key event n db1 a db2)
  let ?Q = "pays event (nt_resource n)"
  have k: "be_id (nt_row n) = nt_key n" using read_notice_Inr [OF applied(2)] by auto
  note st = store_notice_Inr [OF applied(3) k] and f = finish_event_rows [OF applied(5)]
  have "evolves (provider_environment cx) ?Q db1 db2" using evolves_event [OF applied(4)] .
  moreover have "distinct (subscription_ids db2)" "checkouts_ok db1"
    using keys_ok_ids [OF f(4)] f(2) assms(3) st by (simp_all add: subscription_ids_def checkouts_ok_def)
  ultimately have e: "checkouts_ok db2" "rows_evolve (provider_environment cx) ?Q db1 db2" by (auto simp: evolves_def)
  have "rows_evolve (provider_environment cx) ?Q db db'"
    by (rule same_rows_evolve [OF _ _ _ _ _ _ e(2)]) (simp_all add: st f)
  moreover have "notice_event cx p = Some (event, nt_resource n)"
    using applied(1) read_notice_Inr [OF applied(2)] by (simp add: notice_event_def)
  ultimately have "rows_evolve (provider_environment cx)
      (\<lambda>n. \<exists>event x. notice_event cx p = Some (event, x) \<and> pays event x n) db db'"
    by (auto simp: rows_evolve_def kept_checkout_def elim!: list_all2_mono)
  then show ?thesis using f e(1) by (simp add: checkouts_ok_def)
qed

end
