(* ===== verification/BillingInvariant.thy ===== *)
theory BillingInvariant
  imports Subscriptions BillingSafety
begin

text \<open>
  What every request to the billing service keeps, and the calculus its proof uses: \<open>wp m Q X w\<close>
  says that the step \<open>m\<close> from \<open>w\<close> ends in \<open>Q\<close> when it answers and in \<open>X\<close> when it raises, and is
  computed backwards through a step by equations.
\<close>

section \<open>Preconditions of steps\<close>

definition wp ::
  "'a billing_step \<Rightarrow> ('a \<Rightarrow> session \<Rightarrow> bool) \<Rightarrow> (session \<Rightarrow> bool) \<Rightarrow> session \<Rightarrow> bool" where
  "wp m Q X w = (case m w of (Inl e, w') \<Rightarrow> X w' | (Inr x, w') \<Rightarrow> Q x w')"

lemma wp_result [simp]: "wp (result x) Q X = Q x"
  by (simp add: fun_eq_iff wp_def result_def)

lemma wp_raising [simp]: "wp (raising e) Q X = X"
  by (simp add: fun_eq_iff wp_def raising_def)

lemma wp_http [simp]: "wp (http n t) Q X = X"
  by (simp add: http_def)

lemma wp_after [simp]: "wp (after m f) Q X w = wp m (\<lambda>x. wp (f x) Q X) X w"
  by (auto simp: wp_def after_def split: prod.splits sum.splits)

lemma wp_try_value [simp]: "wp (try_value r) Q X w = (case r of Inl e \<Rightarrow> X w | Inr x \<Rightarrow> Q x w)"
  by (simp add: wp_def try_value_def)

lemma wp_look [simp]: "wp (look f) Q X w = Q (f (ss_rows w)) w"
  by (simp add: wp_def look_def)

lemma wp_change [simp]: "wp (change f) Q X w = Q () (w\<lparr>ss_rows := f (ss_rows w)\<rparr>)"
  by (simp add: wp_def change_def)

lemma wp_undo [simp]: "wp undo Q X w = Q () (w\<lparr>ss_rows := ss_saved w\<rparr>)"
  by (simp add: wp_def undo_def)

lemma wp_refused [simp]: "wp (refused n t) Q X w = X (w\<lparr>ss_rows := ss_saved w\<rparr>)"
  by (simp add: refused_def)

lemma wp_save [simp]:
  "wp save Q X w =
     (if billing_keys_ok (ss_rows w) then Q () (w\<lparr>ss_saved := ss_rows w\<rparr>) else X (w\<lparr>ss_rows := ss_saved w\<rparr>))"
proof (cases "commit (ss_rows w)")
  case (Inl e)
  then show ?thesis using commit_Inr [of "ss_rows w" "ss_rows w"] by (simp add: wp_def save_def)
next
  case (Inr db)
  then show ?thesis using commit_Inr [of "ss_rows w" db] by (simp add: wp_def save_def)
qed

lemma wp_call [simp]:
  "wp (call g k f) Q X w =
     (case g (ss_calls w) of
        (Inl e, h) \<Rightarrow> wp (k e) Q X (w\<lparr>ss_calls := h\<rparr>)
      | (Inr x, h) \<Rightarrow> wp (f x) Q X (w\<lparr>ss_calls := h\<rparr>))"
  by (simp add: wp_def call_def split: prod.splits sum.splits)

lemma wp_set_checkout [simp]:
  "wp (set_checkout c f) Q X w = Q () (w\<lparr>ss_rows := modify_checkout (bc_id c) f (ss_rows w)\<rparr>)"
  by (simp add: set_checkout_def)

lemma wp_set_subscription [simp]:
  "wp (set_subscription s f) Q X w = Q () (w\<lparr>ss_rows := modify_subscription (cs_id s) f (ss_rows w)\<rparr>)"
  by (simp add: set_subscription_def)

lemma wp_mono: "wp m Q X w \<Longrightarrow> (\<And>x w'. Q x w' \<Longrightarrow> Q' x w') \<Longrightarrow> (\<And>w'. X w' \<Longrightarrow> X' w') \<Longrightarrow> wp m Q' X' w"
  by (auto simp: wp_def split: prod.splits sum.splits)

section \<open>Exchanges that move no money\<close>

definition refunds :: "string \<Rightarrow> exchange list \<Rightarrow> nat" where
  "refunds p h = length (filter (\<lambda>x. fst x = refund_request p) h)"

text \<open>A charge of a card for a reference, and whether the provider declined it.\<close>

definition charge_of :: "string \<Rightarrow> asaas_request \<Rightarrow> bool" where
  "charge_of r rq \<longleftrightarrow>
     rq_method rq = ''POST'' \<and> rq_path rq = ''/subscriptions''
     \<and> (case rq_json rq of PDict d \<Rightarrow> dict_get d ''externalReference'' = Some (PStr r) | _ \<Rightarrow> False)"

definition declined :: "asaas_answer \<Rightarrow> bool" where
  "declined a \<longleftrightarrow> (case a of Answered code b \<Rightarrow> code = 400 | _ \<Rightarrow> False)"

definition charges :: "string \<Rightarrow> exchange list \<Rightarrow> nat" where
  "charges r h = length (filter (\<lambda>(rq, a). charge_of r rq \<and> \<not> declined a) h)"

lemma refunds_append: "refunds p (h @ xs) = refunds p h + refunds p xs"
  by (simp add: refunds_def)

lemma charges_append: "charges r (h @ xs) = charges r h + charges r xs"
  by (simp add: charges_def)

definition quiet_request :: "asaas_request \<Rightarrow> bool" where
  "quiet_request rq \<longleftrightarrow> (\<forall>p. rq \<noteq> refund_request p) \<and> (\<forall>r. \<not> charge_of r rq)"

definition quiet_after :: "exchange list \<Rightarrow> exchange list \<Rightarrow> bool" where
  "quiet_after h h' \<longleftrightarrow> (\<forall>p. refunds p h' = refunds p h) \<and> (\<forall>r. charges r h' = charges r h)"

definition quiet :: "'a gateway_call \<Rightarrow> bool" where
  "quiet g \<longleftrightarrow> (\<forall>h. quiet_after h (snd (g h)))"

named_theorems quiets \<open>methods of the provider's client that move no money\<close>

lemma quietD: "quiet g \<Longrightarrow> g h = (r, h') \<Longrightarrow> quiet_after h h'"
  by (metis quiet_def snd_conv)

lemma quiet_after_trans: "quiet_after h h1 \<Longrightarrow> quiet_after h1 h2 \<Longrightarrow> quiet_after h h2"
  by (simp add: quiet_after_def)

lemma quiet_chain [quiets]:
  assumes "quiet g" "\<And>x. quiet (f x)"
  shows "quiet (chain g f)"
  unfolding quiet_def
proof
  fix h
  obtain r h1 where g: "g h = (r, h1)" by (cases "g h")
  show "quiet_after h (snd (chain g f h))"
  proof (cases r)
    case (Inr x)
    have "quiet_after h1 (snd (f x h1))" using assms(2) by (simp add: quiet_def)
    with quietD [OF assms(1) g] show ?thesis using Inr g by (auto simp: chain_def intro: quiet_after_trans)
  qed (use quietD [OF assms(1) g] g in \<open>simp add: chain_def\<close>)
qed

lemma quiet_answer [quiets]: "quiet (\<lambda>h. (r, h))"
  by (simp add: quiet_def quiet_after_def)

lemma quiet_refuse [quiets]: "quiet refuse"
  by (simp add: quiet_def quiet_after_def refuse_def)

lemma quiet_ask: "quiet_request rq \<Longrightarrow> quiet (ask port os rq parse)"
  by (auto simp: quiet_def quiet_after_def ask_def json_request_def Let_def refunds_def charges_def quiet_request_def)

lemma quiet_methods:
  "rq_method rq \<noteq> ''POST'' \<Longrightarrow> quiet_request rq"
  "rq_path rq \<in> {''/customers'', ''/checkouts'', ''/pix/qrCodes/static'', ''/pix/automatic/authorizations''}
     \<Longrightarrow> quiet_request rq"
  by (auto simp: quiet_request_def refund_request_def body_request_def charge_of_def)

lemma quiet_requests:
  "quiet_request (get_request path ps)" "quiet_request (delete_request path)"
  "quiet_request (body_request ''PUT'' path js)"
  "quiet_request (body_request ''POST'' ''/customers'' js)"
  "quiet_request (body_request ''POST'' ''/checkouts'' js)"
  "quiet_request (body_request ''POST'' ''/pix/qrCodes/static'' js)"
  "quiet_request (body_request ''POST'' ''/pix/automatic/authorizations'' js)"
  by (auto intro: quiet_methods simp: get_request_def delete_request_def body_request_def)

lemma quiet_gateway [quiets]:
  "quiet (find_customer port ref cpf)" "quiet (create_customer port name cpf email ref)"
  "quiet (create_hosted_checkout port js)" "quiet (active_pix_address_key port)"
  "quiet (create_static_pix port cx key desc n ref seconds)" "quiet (delete_static_pix port i)"
  "quiet (create_pix_authorization port cx js)" "quiet (cancel_pix_authorization port i)"
  "quiet (asaas_find_subscription port ref)" "quiet (update_subscription_value port i n)"
  "quiet (cancel_subscription port i)" "quiet (payment_details port i)"
  "quiet (payments_for_checkout port i)" "quiet (payments_for_subscription port i)"
  "quiet (payments_for_static_pix port i)"
  by (simp_all add: find_customer_def create_customer_def create_hosted_checkout_def active_pix_address_key_def
      create_static_pix_def delete_static_pix_def create_pix_authorization_def cancel_pix_authorization_def
      asaas_find_subscription_def update_subscription_value_def cancel_subscription_def payment_details_def
      payments_for_checkout_def payments_for_subscription_def payments_for_static_pix_def
      quiet_ask quiet_requests quiet_refuse)

lemma quiet_service [quiets]:
  "quiet (provider_customer sv b name cpf email)" "quiet (prepare sv q email o' c)"
  "quiet (cancel_at_provider sv c)" "quiet (cancel_provider_recurrence sv s)" "quiet (payments_of_checkout sv c)"
proof -
  show customer: "quiet (provider_customer sv b name cpf email)" for b name cpf email
    unfolding provider_customer_def Let_def
    by (intro quiet_chain quiet_gateway) (auto split: option.split intro: quiets)
  show "quiet (prepare sv q email o' c)"
    unfolding prepare_def prepare_pix_automatic_def prepare_common_pix_def prepare_credit_card_def
    by (auto intro!: quiets customer)
qed (auto simp: cancel_at_provider_def cancel_provider_recurrence_def payments_of_checkout_def Let_def intro: quiets)

section \<open>The invariant\<close>

text \<open>A checkout a card could be charged for, and a refund that must not be asked for again.\<close>

definition chargeable :: "billing_checkout \<Rightarrow> bool" where
  "chargeable c \<longleftrightarrow>
     bc_status c \<notin> {''creating'', ''paid'', ''canceled'', ''expired'', ''failed''} \<and> \<not> truthy_text (bc_subscription c)"

definition refund_closed :: "commercial_subscription \<Rightarrow> bool" where
  "refund_closed s \<longleftrightarrow> \<not> ongoing s \<and> cs_refund_status s \<in> {''requested'', ''reconcile_required'', ''refunded''}"

definition open_checkouts :: "string \<Rightarrow> uuid \<Rightarrow> billing_db \<Rightarrow> billing_checkout list" where
  "open_checkouts E b db = filter (\<lambda>c. bc_business c = b \<and> bc_environment c = E \<and> blocks c) (bd_checkouts db)"

definition backed_by :: "string \<Rightarrow> billing_db \<Rightarrow> commercial_subscription \<Rightarrow> bool" where
  "backed_by E db s \<longleftrightarrow>
     (\<exists>c \<in> set (bd_checkouts db). bc_id c = cs_checkout s \<and> bc_environment c = E \<and> bc_status c = ''paid'')"

text \<open>Some other checkout than \<open>i\<close> has the payment, and it is settled with a subscription for which \<open>P\<close> holds.\<close>

definition refunded_by :: "string \<Rightarrow> (commercial_subscription \<Rightarrow> bool) \<Rightarrow> billing_db \<Rightarrow> string \<Rightarrow> bool" where
  "refunded_by E P db p \<longleftrightarrow>
     (\<exists>s \<in> set (bd_subscriptions db). \<exists>c \<in> set (bd_checkouts db).
        cs_environment s = E \<and> bc_id c = cs_checkout s \<and> bc_environment c = E \<and> bc_payment c = Some p \<and> P s)"

text \<open>A status the CHECK constraint admits, and a Pix with a QR code of its own has no subscription.\<close>

definition sound_checkout :: "billing_checkout \<Rightarrow> bool" where
  "sound_checkout c \<longleftrightarrow>
     bc_status c \<in> {''creating'', ''active'', ''paid'', ''canceled'', ''expired'', ''failed''}
     \<and> (bc_method c = ''pix'' \<and> truthy_text (bc_qr_code c) \<longrightarrow> bc_subscription c = None)"

definition money_rows :: "string \<Rightarrow> exchange list \<Rightarrow> billing_db \<Rightarrow> bool" where
  "money_rows E h db \<longleftrightarrow>
     distinct (map bc_id (bd_checkouts db)) \<and> (\<forall>c \<in> set (bd_checkouts db). bc_id c < 2 ^ 128)
     \<and> distinct (map cs_id (bd_subscriptions db))
     \<and> distinct (map cs_checkout (filter (\<lambda>s. cs_environment s = E) (bd_subscriptions db)))
     \<and> (\<forall>s \<in> set (bd_subscriptions db). cs_environment s = E \<longrightarrow> backed_by E db s)
     \<and> (\<forall>c \<in> set (bd_checkouts db). sound_checkout c)
     \<and> (\<forall>b. length (open_checkouts E b db) \<le> 1)
     \<and> (\<forall>p. 0 < refunds p h \<longrightarrow> refunded_by E refund_closed db p)
     \<and> (\<forall>r. 0 < charges r h \<longrightarrow> r \<in> checkout_reference ` set (bd_checkouts db))
     \<and> (\<forall>c \<in> set (bd_checkouts db). chargeable c \<longrightarrow> charges (checkout_reference c) h = 0)"

definition money_once :: "exchange list \<Rightarrow> bool" where
  "money_once h \<longleftrightarrow> (\<forall>p. refunds p h \<le> 1) \<and> (\<forall>r. charges r h \<le> 1)"

definition money_ok :: "string \<Rightarrow> session \<Rightarrow> bool" where
  "money_ok E w \<longleftrightarrow>
     billing_keys_ok (ss_saved w) \<and> money_rows E (ss_calls w) (ss_saved w) \<and> money_rows E (ss_calls w) (ss_rows w)
     \<and> money_once (ss_calls w)"

end
