(* ===== verification/BillingSteps.thy ===== *)
theory BillingSteps
  imports BillingInvariant
begin

text \<open>
  The steps of the billing service that keep its invariant: changes of the rows that settle nothing
  (\<open>calm\<close>), the calculus of \<open>keeps\<close>, the rows a query finds, and the status, the upgrade and the
  cancellation of a subscription.
\<close>

section \<open>Changes of the rows\<close>

definition calm :: "exchange list \<Rightarrow> billing_checkout \<Rightarrow> billing_checkout \<Rightarrow> bool" where
  "calm h c c' \<longleftrightarrow>
     bc_id c' = bc_id c \<and> bc_business c' = bc_business c \<and> bc_environment c' = bc_environment c
     \<and> (bc_payment c \<noteq> None \<longrightarrow> bc_payment c' = bc_payment c) \<and> (bc_status c = ''paid'' \<longrightarrow> bc_status c' = ''paid'')
     \<and> (blocks c' \<longrightarrow> blocks c) \<and> (sound_checkout c \<longrightarrow> sound_checkout c')
     \<and> (chargeable c' \<longrightarrow> charges (checkout_reference c) h = 0)"

lemma money_rows_sound: "money_rows E h db \<Longrightarrow> c \<in> set (bd_checkouts db) \<Longrightarrow> sound_checkout c"
  by (simp add: money_rows_def)

lemma length_filter_weaker: "(\<And>x. x \<in> set xs \<Longrightarrow> P x \<Longrightarrow> Q x) \<Longrightarrow> length (filter P xs) \<le> length (filter Q xs)"
  by (induction xs) auto

lemma checkout_reference_cong: "bc_id c' = bc_id c \<Longrightarrow> checkout_reference c' = checkout_reference c"
  by (simp add: checkout_reference_def)

lemma money_rows_map:
  assumes m: "money_rows E h db" and g: "\<And>c. c \<in> set (bd_checkouts db) \<Longrightarrow> calm h c (g c)"
  shows "money_rows E h (db\<lparr>bd_checkouts := map g (bd_checkouts db)\<rparr>)" (is "money_rows E h ?db")
proof -
  have ids: "map bc_id (map g (bd_checkouts db)) = map bc_id (bd_checkouts db)"
    using g by (simp add: calm_def)
  have distinct: "distinct (map bc_id (map g (bd_checkouts db)))"
    unfolding ids using m by (simp add: money_rows_def)
  have c: "bc_id (g c) = bc_id c" "bc_environment (g c) = bc_environment c" "bc_status c = ''paid'' \<Longrightarrow> bc_status (g c) = ''paid''"
    "bc_payment c = Some p \<Longrightarrow> bc_payment (g c) = Some p" "checkout_reference (g c) = checkout_reference c"
    "sound_checkout (g c)" "chargeable (g c) \<Longrightarrow> charges (checkout_reference c) h = 0"
    if "c \<in> set (bd_checkouts db)" for c p
    using g [OF that] money_rows_sound [OF m that] by (auto simp: calm_def checkout_reference_def)
  have refs: "checkout_reference ` set (bd_checkouts ?db) = checkout_reference ` set (bd_checkouts db)"
    using c(5) by (simp add: image_image cong: image_cong)
  have backed: "backed_by E ?db s" if "backed_by E db s" for s
    using that c(1-3) unfolding backed_by_def by auto
  have refunded: "refunded_by E P ?db p" if "refunded_by E P db p" for P p
  proof -
    from that obtain s d where d: "s \<in> set (bd_subscriptions db)" "d \<in> set (bd_checkouts db)"
      "cs_environment s = E" "bc_id d = cs_checkout s" "bc_environment d = E" "bc_payment d = Some p" "P s"
      by (auto simp: refunded_by_def)
    then show ?thesis using c(1,2,4) [OF d(2)] unfolding refunded_by_def
      by (intro bexI [of _ s] bexI [of _ "g d"]) auto
  qed
  have open': "length (open_checkouts E b ?db) \<le> length (open_checkouts E b db)" for b
    using g by (auto simp: open_checkouts_def filter_map o_def calm_def intro!: length_filter_weaker)
  have opened: "\<forall>b. length (open_checkouts E b ?db) \<le> 1"
    using m le_trans [OF open'] by (auto simp: money_rows_def)
  have bounded: "\<forall>c \<in> set (bd_checkouts ?db). bc_id c < 2 ^ 128"
    using m c(1) by (auto simp: money_rows_def)
  have plain: "\<forall>c \<in> set (bd_checkouts ?db). sound_checkout c" using c(6) by auto
  have charged: "\<forall>c \<in> set (bd_checkouts ?db). chargeable c \<longrightarrow> charges (checkout_reference c) h = 0"
    using c(5,7) by auto
  show ?thesis
    using m backed refunded opened bounded plain charged refs distinct unfolding money_rows_def by simp
qed

lemma calm_refl: "money_rows E h db \<Longrightarrow> c \<in> set (bd_checkouts db) \<Longrightarrow> calm h c c"
  by (simp add: calm_def money_rows_def)

lemma money_rows_checkout:
  assumes "money_rows E h db" and "\<And>c. c \<in> set (bd_checkouts db) \<Longrightarrow> bc_id c = i \<Longrightarrow> calm h c (f c)"
  shows "money_rows E h (modify_checkout i f db)"
  unfolding modify_checkout_def update_where_def
  by (rule money_rows_map) (use assms calm_refl [OF assms(1)] in auto)

definition calm_subscription :: "commercial_subscription \<Rightarrow> commercial_subscription \<Rightarrow> bool" where
  "calm_subscription s s' \<longleftrightarrow>
     cs_id s' = cs_id s \<and> cs_checkout s' = cs_checkout s \<and> cs_environment s' = cs_environment s \<and> (refund_closed s \<longrightarrow> refund_closed s')"

lemma money_rows_subscription:
  assumes m: "money_rows E h db" and f: "\<And>s. calm_subscription s (f s)"
  shows "money_rows E h (modify_subscription i f db)" (is "money_rows E h ?db")
proof -
  let ?g = "\<lambda>s. if cs_id s = i then f s else s"
  have g: "calm_subscription s (?g s)" for s using f by (simp add: calm_subscription_def)
  have rows: "bd_subscriptions ?db = map ?g (bd_subscriptions db)" "bd_checkouts ?db = bd_checkouts db"
    by (simp_all add: modify_subscription_def update_where_def)
  have keys: "map cs_checkout (filter (\<lambda>s. cs_environment s = E) (map ?g xs))
      = map cs_checkout (filter (\<lambda>s. cs_environment s = E) xs)" for xs
    by (induction xs) (use f in \<open>auto simp: calm_subscription_def\<close>)
  have ids: "map cs_id (map ?g xs) = map cs_id xs" for xs using f by (simp add: calm_subscription_def)
  have distinct: "distinct (map cs_id (bd_subscriptions ?db))" unfolding rows ids using m by (simp add: money_rows_def)
  have backed: "\<forall>s \<in> set (bd_subscriptions ?db). cs_environment s = E \<longrightarrow> backed_by E ?db s"
    using m f by (auto simp: rows money_rows_def backed_by_def calm_subscription_def)
  have refunded: "refunded_by E refund_closed ?db p" if "refunded_by E refund_closed db p" for p
  proof -
    from that obtain s c where "s \<in> set (bd_subscriptions db)" "c \<in> set (bd_checkouts db)" "cs_environment s = E"
      "bc_id c = cs_checkout s" "bc_environment c = E" "bc_payment c = Some p" "refund_closed s"
      by (auto simp: refunded_by_def)
    then show ?thesis using g [of s] unfolding refunded_by_def rows
      by (intro bexI [of _ "?g s"] bexI [of _ c]) (simp_all add: calm_subscription_def)
  qed
  show ?thesis
    using m backed refunded distinct unfolding money_rows_def open_checkouts_def rows(2) by (simp add: rows(1) keys)
qed

lemma money_rows_quiet: "quiet_after h h' \<Longrightarrow> money_rows E h' db = money_rows E h db"
  by (simp add: quiet_after_def money_rows_def)

lemma money_rows_other: "bd_checkouts db' = bd_checkouts db \<Longrightarrow> bd_subscriptions db' = bd_subscriptions db
   \<Longrightarrow> money_rows E h db' = money_rows E h db"
  by (simp add: money_rows_def backed_by_def refunded_by_def open_checkouts_def)

section \<open>Steps that keep the invariant\<close>

lemma money_ok_rows: "money_ok E w \<Longrightarrow> money_rows E (ss_calls w) db \<Longrightarrow> money_ok E (w\<lparr>ss_rows := db\<rparr>)"
  by (simp add: money_ok_def)

lemma money_ok_checkout:
  assumes "money_ok E w"
    and "\<And>c. c \<in> set (bd_checkouts (ss_rows w)) \<Longrightarrow> bc_id c = i \<Longrightarrow> calm (ss_calls w) c (f c)"
  shows "money_ok E (w\<lparr>ss_rows := modify_checkout i f (ss_rows w)\<rparr>)"
  by (rule money_ok_rows [OF assms(1)], rule money_rows_checkout) (use assms in \<open>auto simp: money_ok_def\<close>)

lemma money_ok_subscription:
  assumes "money_ok E w" and "\<And>s. calm_subscription s (f s)"
  shows "money_ok E (w\<lparr>ss_rows := modify_subscription i f (ss_rows w)\<rparr>)"
  by (rule money_ok_rows [OF assms(1)], rule money_rows_subscription) (use assms in \<open>auto simp: money_ok_def\<close>)

lemma money_ok_undo: "money_ok E w \<Longrightarrow> money_ok E (w\<lparr>ss_rows := ss_saved w\<rparr>)"
  by (simp add: money_ok_def)

lemma money_ok_save: "money_ok E w \<Longrightarrow> billing_keys_ok (ss_rows w) \<Longrightarrow> money_ok E (w\<lparr>ss_saved := ss_rows w\<rparr>)"
  by (simp add: money_ok_def)

lemma money_once_quiet: "quiet_after h h' \<Longrightarrow> money_once h' = money_once h"
  by (simp add: quiet_after_def money_once_def)

lemma money_ok_quiet: "money_ok E w \<Longrightarrow> quiet_after (ss_calls w) h \<Longrightarrow> money_ok E (w\<lparr>ss_calls := h\<rparr>)"
  by (simp add: money_ok_def money_rows_quiet money_once_quiet)

lemma money_ok_call:
  assumes "money_ok E w" "quiet g"
    and "\<And>e h. quiet_after (ss_calls w) h \<Longrightarrow> money_ok E (w\<lparr>ss_calls := h\<rparr>) \<Longrightarrow> wp (k e) Q X (w\<lparr>ss_calls := h\<rparr>)"
    and "\<And>x h. quiet_after (ss_calls w) h \<Longrightarrow> money_ok E (w\<lparr>ss_calls := h\<rparr>) \<Longrightarrow> wp (f x) Q X (w\<lparr>ss_calls := h\<rparr>)"
  shows "wp (call g k f) Q X w"
  using assms quietD [OF assms(2)] money_ok_quiet [OF assms(1)] by (auto split: prod.splits sum.splits)

lemma money_ok_saves:
  assumes "money_ok E w" and "\<And>w'. money_ok E w' \<Longrightarrow> ss_rows w' = ss_rows w \<Longrightarrow> ss_calls w' = ss_calls w
     \<Longrightarrow> ss_saved w' = ss_rows w \<Longrightarrow> Q () w'"
  shows "wp save Q (money_ok E) w"
  using assms money_ok_save money_ok_undo by auto

definition keeps :: "string \<Rightarrow> 'a billing_step \<Rightarrow> bool" where
  "keeps E m \<longleftrightarrow> (\<forall>w. money_ok E w \<longrightarrow> wp m (\<lambda>_. money_ok E) (money_ok E) w)"

lemma keepsI: "(\<And>w. money_ok E w \<Longrightarrow> wp m (\<lambda>_. money_ok E) (money_ok E) w) \<Longrightarrow> keeps E m"
  by (simp add: keeps_def)

lemma keepsD: "keeps E m \<Longrightarrow> money_ok E w \<Longrightarrow> wp m (\<lambda>_. money_ok E) (money_ok E) w"
  by (simp add: keeps_def)

named_theorems kept \<open>steps that keep the invariant\<close>

lemma keeps_simple [kept]:
  "keeps E (result x)" "keeps E (raising e)" "keeps E (http n t)" "keeps E (refused n t)" "keeps E (look f)"
  "keeps E (try_value r)" "keeps E save"
  by (auto simp: keeps_def money_ok_undo money_ok_save split: sum.splits)

lemma keeps_after [kept]:
  assumes "keeps E m" "\<And>x. keeps E (f x)" shows "keeps E (after m f)"
proof (rule keepsI)
  fix w assume "money_ok E w"
  from keepsD [OF assms(1) this] show "wp (after m f) (\<lambda>_. money_ok E) (money_ok E) w"
    unfolding wp_after by (rule wp_mono) (use assms(2) in \<open>auto simp: keeps_def\<close>)
qed

lemma keeps_call [kept]:
  assumes "quiet g" "\<And>e. keeps E (k e)" "\<And>x. keeps E (f x)" shows "keeps E (call g k f)"
  by (rule keepsI, rule money_ok_call) (use assms in \<open>auto dest: keepsD\<close>)

lemma keeps_set_subscription [kept]: "(\<And>s. calm_subscription s (f s)) \<Longrightarrow> keeps E (set_subscription t f)"
  by (rule keepsI) (simp add: money_ok_subscription)

lemma keeps_set_checkout [kept]:
  "(\<And>h db c'. money_rows E h db \<Longrightarrow> c' \<in> set (bd_checkouts db) \<Longrightarrow> bc_id c' = bc_id c \<Longrightarrow> calm h c' (f c'))
   \<Longrightarrow> keeps E (set_checkout c f)"
  by (rule keepsI, unfold wp_set_checkout, rule money_ok_checkout) (auto simp: money_ok_def)

lemma keeps_if [kept]: "(b \<Longrightarrow> keeps E m) \<Longrightarrow> (\<not> b \<Longrightarrow> keeps E n) \<Longrightarrow> keeps E (if b then m else n)"
  by simp

lemma keeps_option [kept]:
  "keeps E m \<Longrightarrow> (\<And>x. v = Some x \<Longrightarrow> keeps E (f x)) \<Longrightarrow> keeps E (case v of None \<Rightarrow> m | Some x \<Rightarrow> f x)"
  by (cases v) auto

lemma keeps_change_other [kept]:
  "(\<And>db. bd_checkouts (f db) = bd_checkouts db \<and> bd_subscriptions (f db) = bd_subscriptions db) \<Longrightarrow> keeps E (change f)"
  by (rule keepsI) (simp add: money_ok_def money_rows_other [of "f db" db for db])

section \<open>Rows found\<close>

lemma first_row:
  assumes "distinct (map k xs)" "x \<in> set xs" shows "first (filter (\<lambda>y. k y = k x) xs) = Some x"
proof -
  obtain z zs where z: "filter (\<lambda>y. k y = k x) xs = z # zs" using assms(2) by (cases "filter (\<lambda>y. k y = k x) xs") (auto simp: filter_empty_conv)
  then have "z \<in> set (filter (\<lambda>y. k y = k x) xs)" by simp
  then have "z = x" using assms by (auto simp: distinct_map inj_on_def)
  then show ?thesis using z by simp
qed

lemma checkout_row: "money_rows E h db \<Longrightarrow> c \<in> set (bd_checkouts db) \<Longrightarrow> checkout_at db (bc_id c) = Some c"
  unfolding checkout_at_def by (rule first_row) (simp_all add: money_rows_def)

lemma subscription_row: "money_rows E h db \<Longrightarrow> s \<in> set (bd_subscriptions db) \<Longrightarrow> subscription_at db (cs_id s) = Some s"
  unfolding subscription_at_def by (rule first_row) (simp_all add: money_rows_def)

lemma checkout_unique:
  "money_rows E h db \<Longrightarrow> c \<in> set (bd_checkouts db) \<Longrightarrow> c' \<in> set (bd_checkouts db) \<Longrightarrow> bc_id c' = bc_id c \<Longrightarrow> c' = c"
  by (rule same_id [of bc_id]) (simp_all add: money_rows_def)

lemma latest_found:
  "latest_subscription_for_business cx db b = Some s
   \<Longrightarrow> s \<in> set (bd_subscriptions db) \<and> cs_environment s = provider_environment cx"
  unfolding latest_subscription_for_business_def by (drule max_by_Some) auto

lemma own_found:
  "own_checkout sv b i db = Some c
   \<Longrightarrow> c \<in> set (bd_checkouts db) \<and> bc_id c = i \<and> bc_business c = b \<and> bc_environment c = provider_environment (sv_context sv)"
  using checkout_at_Some [of db i] by (auto simp: own_checkout_def split: option.splits if_splits)

lemma found_paid:
  assumes "money_rows E h db" "s \<in> set (bd_subscriptions db)" "cs_environment s = E"
  obtains c where "c \<in> set (bd_checkouts db)" "bc_id c = cs_checkout s" "bc_environment c = E"
    "bc_status c = ''paid''" "checkout_at db (cs_checkout s) = Some c"
proof -
  from assms obtain c where c: "c \<in> set (bd_checkouts db)" "bc_id c = cs_checkout s" "bc_environment c = E" "bc_status c = ''paid''"
    by (auto simp: money_rows_def backed_by_def)
  with checkout_row [OF assms(1) c(1)] show thesis by (auto intro: that)
qed

section \<open>The status of a subscription\<close>

lemma calm_changes [kept]:
  "calm_subscription s (refunded_now t s)" "calm_subscription s (ended t s)" "calm_subscription s (canceled_now t s)"
  "calm_subscription s (cancellation_requested t s)" "calm_subscription s (upgraded s)"
  "st = ''requested'' \<or> st = ''reconcile_required'' \<Longrightarrow> calm_subscription s (set_refund st s)"
  "st = ''requested'' \<or> st = ''reconcile_required'' \<Longrightarrow> calm_subscription s (refund_intended st t s)"
  "st = ''requested'' \<or> st = ''reconcile_required'' \<Longrightarrow> calm_subscription s (set_refund st (ended t s))"
  by (auto simp: calm_subscription_def refund_closed_def ongoing_def refunded_now_def suspended_def refunded_def
      ended_def canceled_now_def cancellation_requested_def upgraded_def set_refund_def refund_intended_def)

lemma keeps_reconcile [kept]: "keeps E (reconcile_provider_refund sv s checkout)"
proof -
  have "keeps E (apply_refund_status sv s v)" for v
    unfolding apply_refund_status_def by (intro kept) (auto simp: return_business_to_free_def modify_access_def)
  then show ?thesis
    unfolding reconcile_provider_refund_def by (intro kept quiets)
qed

lemma keeps_response [kept]: "keeps E (subscription_response sv s)"
  unfolding subscription_response_def subscription_now_def by (intro kept)

lemma response_same:
  assumes "money_ok E w" "s \<in> set (bd_subscriptions (ss_rows w))"
    and "cs_refund_status s \<notin> {''requested'', ''reconcile_required''}"
  shows "wp (subscription_response sv s) (\<lambda>_ w'. w' = w) X w"
proof -
  have "subscription_at (ss_rows w) (cs_id s) = Some s"
    using subscription_row assms(1,2) by (auto simp: money_ok_def)
  then show ?thesis
    using assms(3) by (simp add: subscription_response_def subscription_now_def reconcile_provider_refund_def)
qed

lemma keeps_upgrade: "keeps E (upgrade_subscription_to_plus sv b)"
  unfolding upgrade_subscription_to_plus_def upgrade_basic_def by (intro kept quiets)

lemma keeps_cancellation: "keeps E (request_subscription_cancellation sv b)"
  unfolding request_subscription_cancellation_def by (intro kept quiets)

end
