(* ===== verification/CardSteps.thy ===== *)
theory CardSteps
  imports BillingSteps
begin

text \<open>
  Charging a card keeps the invariant: the checkout is no longer open to a charge before the provider
  is asked, and only a card the provider declined opens it again.
\<close>

section \<open>Activation\<close>

definition fresh_id :: "billing_context \<Rightarrow> billing_db \<Rightarrow> bool" where
  "fresh_id cx db \<longleftrightarrow>
     int (cx_fresh cx) < 2 ^ 128 \<and> cx_fresh cx \<notin> bc_id ` set (bd_checkouts db) \<and> cx_fresh cx \<notin> cs_id ` set (bd_subscriptions db)"

lemma fresh_checkout: "(\<And>c. bc_id (f c) = bc_id c) \<Longrightarrow> fresh_id cx (modify_checkout i f db) = fresh_id cx db"
proof -
  assume "\<And>c. bc_id (f c) = bc_id c"
  then have "bc_id ` (\<lambda>c. if bc_id c = i then f c else c) ` set (bd_checkouts db) = bc_id ` set (bd_checkouts db)"
    unfolding image_image by (intro image_cong) auto
  then show ?thesis by (simp add: fresh_id_def modify_checkout_def update_where_def)
qed

lemma money_rows_new_subscription:
  assumes m: "money_rows E h db" and db: "bd_checkouts db' = bd_checkouts db" "bd_subscriptions db' = bd_subscriptions db @ [n]"
    and n: "cs_environment n = E" "backed_by E db n" "cs_id n \<notin> cs_id ` set (bd_subscriptions db)"
    and alone: "\<And>s. s \<in> set (bd_subscriptions db) \<Longrightarrow> cs_environment s = E \<Longrightarrow> cs_checkout s \<noteq> cs_checkout n"
  shows "money_rows E h db'"
proof -
  have backed: "backed_by E db' = backed_by E db" by (simp add: backed_by_def db fun_eq_iff)
  have refunded: "refunded_by E P db' p" if "refunded_by E P db p" for P p
    using that unfolding refunded_by_def db by auto
  have open': "open_checkouts E b db' = open_checkouts E b db" for b by (simp add: open_checkouts_def db)
  have "cs_checkout n \<notin> cs_checkout ` set (filter (\<lambda>s. cs_environment s = E) (bd_subscriptions db))"
    using alone by fastforce
  then have distinct: "distinct (map cs_checkout (filter (\<lambda>s. cs_environment s = E) (bd_subscriptions db')))"
    using m n(1) unfolding db by (simp add: money_rows_def)
  have ids: "distinct (map cs_id (bd_subscriptions db'))" using m n(3) unfolding db by (auto simp: money_rows_def)
  show ?thesis
    using m n(1,2) distinct ids refunded unfolding money_rows_def backed open' db(1) by (auto simp: db(2))
qed

lemma rows_checkout: "bd_subscriptions (modify_checkout i f db) = bd_subscriptions db"
  by (simp add: modify_checkout_def)

lemma no_subscription_unpaid:
  assumes "money_rows E h db" "c \<in> set (bd_checkouts db)" "bc_status c \<noteq> ''paid''"
    and "s \<in> set (bd_subscriptions db)" "cs_environment s = E"
  shows "cs_checkout s \<noteq> bc_id c"
proof -
  from found_paid [OF assms(1,4,5)] obtain d where d: "d \<in> set (bd_checkouts db)" "bc_id d = cs_checkout s" "bc_status d = ''paid''"
    by blast
  show ?thesis using checkout_unique [OF assms(1,2) d(1)] d(2,3) assms(3) by metis
qed

text \<open>Activating a checkout that was paid just now.\<close>

lemma money_rows_activated:
  assumes m: "money_rows E h db" and c: "c \<in> set (bd_checkouts db)" "bc_environment c = E" "bc_status c = ''paid''"
    and alone: "\<And>s. s \<in> set (bd_subscriptions db) \<Longrightarrow> cs_environment s = E \<Longrightarrow> cs_checkout s \<noteq> bc_id c"
    and cx: "provider_environment cx = E" "cx_fresh cx \<notin> cs_id ` set (bd_subscriptions db)"
    and a: "activate_credit_card cx (bc_id c) db = Inr db'"
  shows "money_rows E h db'"
proof -
  have "subscription_for_checkout cx db (bc_id c) = None"
    using alone cx(1) subscription_for_checkout_Some [of cx db "bc_id c"] by (cases "subscription_for_checkout cx db (bc_id c)") auto
  then have "db' = db \<or> (\<exists>n. bd_checkouts db' = bd_checkouts db \<and> bd_subscriptions db' = bd_subscriptions db @ [n]
      \<and> cs_environment n = E \<and> cs_checkout n = bc_id c \<and> cs_id n = cx_fresh cx)"
    using a checkout_row [OF m c(1)] cx(1)
    by (auto simp: activate_credit_card_def add_subscription_def new_subscription_def record_operational_history_def
        modify_access_def and_then_Inr split: if_splits)
  then show ?thesis
  proof
    assume "\<exists>n. bd_checkouts db' = bd_checkouts db \<and> bd_subscriptions db' = bd_subscriptions db @ [n]
      \<and> cs_environment n = E \<and> cs_checkout n = bc_id c \<and> cs_id n = cx_fresh cx"
    then obtain n where n: "bd_checkouts db' = bd_checkouts db" "bd_subscriptions db' = bd_subscriptions db @ [n]"
      "cs_environment n = E" "cs_checkout n = bc_id c" "cs_id n = cx_fresh cx" by blast
    show ?thesis
      by (rule money_rows_new_subscription [OF m n(1,2,3)]) (use n c alone cx(2) in \<open>auto simp: backed_by_def\<close>)
  qed (use m in simp)
qed

section \<open>Settled payments\<close>

lemma settled_sel [simp]:
  "bc_id (settled_checkout sv p c) = bc_id c" "bc_business (settled_checkout sv p c) = bc_business c"
  "bc_environment (settled_checkout sv p c) = bc_environment c" "bc_status (settled_checkout sv p c) = ''paid''"
  "bc_payment c \<noteq> None \<Longrightarrow> bc_payment (settled_checkout sv p c) = bc_payment c"
  "bc_method (settled_checkout sv p c) = bc_method c" "bc_qr_code (settled_checkout sv p c) = bc_qr_code c"
  "bc_subscription (settled_checkout sv p c) = bc_subscription c" "bc_amount (settled_checkout sv p c) = bc_amount c"
  by (auto simp: settled_checkout_def bind_customer_id_def paid_now_def capture_initial_payment_id_def split: option.splits)

lemma calm_settled: "calm h c (settled_checkout sv p c)"
  by (simp add: calm_def blocks_def chargeable_def sound_checkout_def checkout_reference_def)

lemma settle_first_keeps:
  assumes w: "money_ok E w" and c: "c \<in> set (bd_checkouts (ss_rows w))" "bc_environment c = E" "bc_status c \<noteq> ''paid''"
    and sv: "provider_environment (sv_context sv) = E" "fresh_id (sv_context sv) (ss_rows w)"
  shows "wp (settle_first sv c ps) (\<lambda>_. money_ok E) (money_ok E) w"
proof (induction ps)
  case (Cons p ps)
  let ?f = "settled_checkout sv p"
  let ?w = "w\<lparr>ss_rows := modify_checkout (bc_id c) ?f (ss_rows w)\<rparr>"
  have m: "money_ok E ?w" by (rule money_ok_checkout [OF w]) (simp add: calm_settled)
  have c': "?f c \<in> set (bd_checkouts (ss_rows ?w))" using c(1) by (auto simp: modify_checkout_def update_where_def)
  have "money_ok E (?w\<lparr>ss_rows := db\<rparr>)" if "activate_credit_card (sv_context sv) (bc_id c) (ss_rows ?w) = Inr db" for db
  proof (rule money_ok_rows [OF m], rule money_rows_activated [OF _ c'])
    show "money_rows E (ss_calls ?w) (ss_rows ?w)" using m by (simp add: money_ok_def)
    show "cs_checkout s \<noteq> bc_id (?f c)" if "s \<in> set (bd_subscriptions (ss_rows ?w))" "cs_environment s = E" for s
      using no_subscription_unpaid [of E "ss_calls w" "ss_rows w" c s] w c that by (simp add: money_ok_def rows_checkout)
  qed (use c sv that in \<open>simp_all add: fresh_id_def rows_checkout\<close>)
  then have "money_ok E (w\<lparr>ss_rows := db\<rparr>)"
    if "activate_credit_card (sv_context sv) (bc_id c) (modify_checkout (bc_id c) ?f (ss_rows w)) = Inr db" for db
    using that by simp
  then show ?case
    using Cons w m money_ok_save money_ok_undo by (fastforce split: sum.splits)
qed (use w in simp)

lemma money_ok_row: "money_ok E w \<Longrightarrow> c \<in> set (bd_checkouts (ss_rows w)) \<Longrightarrow> checkout_at (ss_rows w) (bc_id c) = Some c"
  using checkout_row by (auto simp: money_ok_def)

lemma reconcile_keeps:
  assumes w: "money_ok E w" and c: "c \<in> set (bd_checkouts (ss_rows w))" "bc_environment c = E" "bc_id c = bc_id d"
    and sv: "provider_environment (sv_context sv) = E" "fresh_id (sv_context sv) (ss_rows w)"
  shows "wp (reconcile_native_payment sv d) (\<lambda>_. money_ok E) (money_ok E) w"
proof -
  have now: "checkout_at (ss_rows w) (bc_id d) = Some c" using money_ok_row [OF w c(1)] c(3) by simp
  have "wp (call (payments_for_subscription (sv_port sv) (or_empty (bc_subscription c))) (\<lambda>_. result ()) (settle_first sv c))
      (\<lambda>_. money_ok E) (money_ok E) w" if "bc_status c \<noteq> ''paid''"
    by (rule money_ok_call [OF w]) (use settle_first_keeps c sv that in \<open>auto intro: quiets\<close>)
  then show ?thesis
    using w now by (simp add: reconcile_native_payment_def checkout_now_def del: wp_call)
qed

section \<open>Binding the subscription of a card\<close>

text \<open>The rows may be committed; nothing is claimed of the rows committed before.\<close>

definition savable :: "string \<Rightarrow> session \<Rightarrow> bool" where
  "savable E w \<longleftrightarrow>
     billing_keys_ok (ss_rows w) \<and> money_rows E (ss_calls w) (ss_rows w) \<and> money_once (ss_calls w)"

lemma savable_save: "savable E w \<Longrightarrow> money_ok E (w\<lparr>ss_saved := ss_rows w\<rparr>)"
  by (simp add: savable_def money_ok_def)

lemma savable_quiet: "savable E w \<Longrightarrow> quiet_after (ss_calls w) h \<Longrightarrow> savable E (w\<lparr>ss_calls := h\<rparr>)"
  by (simp add: savable_def money_rows_quiet money_once_quiet)

lemma wp_save_savable: "savable E w \<Longrightarrow> wp save Q X w = Q () (w\<lparr>ss_saved := ss_rows w\<rparr>)"
  by (simp add: savable_def)

lemma keys_ok_checkout:
  assumes "\<And>c. bc_id (f c) = bc_id c \<and> bc_business (f c) = bc_business c \<and> bc_environment (f c) = bc_environment c
     \<and> bc_key (f c) = bc_key c \<and> bc_amount (f c) = bc_amount c \<and> bc_session (f c) = bc_session c
     \<and> bc_authorization (f c) = bc_authorization c \<and> bc_qr_code (f c) = bc_qr_code c \<and> bc_payment (f c) = bc_payment c"
  shows "billing_keys_ok (modify_checkout i f db) = billing_keys_ok db"
proof -
  let ?g = "\<lambda>c. if bc_id c = i then f c else c"
  have same: "map h (map ?g xs) = map h xs" if "\<And>c. h (f c) = h c" for h :: "billing_checkout \<Rightarrow> 'a" and xs
    using that by simp
  have every: "list_all P (map ?g xs) = list_all P xs" if "\<And>c. P (f c) = P c" for P xs
    using that by (induction xs) auto
  have present: "present_values h (map ?g xs) = present_values h xs" if "\<And>c. h (f c) = h c" for h :: "billing_checkout \<Rightarrow> 'a option" and xs
    using that by (induction xs) (auto simp: present_values_def List.map_filter_simps split: option.splits)
  show ?thesis
    unfolding billing_keys_ok_def row_constraints_def checkout_constraints_def modify_checkout_def update_where_def unique_present_def
    using assms by (simp add: same every present payment_key_def del: map_map)
qed

definition blocked_row :: "string \<Rightarrow> billing_checkout \<Rightarrow> session \<Rightarrow> bool" where
  "blocked_row E c w \<longleftrightarrow>
     c \<in> set (bd_checkouts (ss_rows w)) \<and> bc_environment c = E \<and> bc_method c = ''credit_card''
     \<and> (bc_status c = ''creating'' \<or> bc_status c = ''active'')"

lemma calm_bound:
  "i \<noteq> [] \<Longrightarrow> bc_method c = ''credit_card'' \<Longrightarrow> bc_status c = ''creating'' \<or> bc_status c = ''active'' \<Longrightarrow> calm h c (bound_card i c)"
  by (auto simp: calm_def bound_card_def blocks_def sound_checkout_def chargeable_def truthy_text_def)

lemma bind_card_keeps:
  assumes w: "savable E w" and d: "blocked_row E d w" "bc_id d = bc_id c" and i: "i \<noteq> []"
    and sv: "provider_environment (sv_context sv) = E" "fresh_id (sv_context sv) (ss_rows w)"
  shows "wp (bind_card sv c i) (\<lambda>_. money_ok E) (money_ok E) w"
proof -
  let ?w = "w\<lparr>ss_rows := modify_checkout (bc_id c) (bound_card i) (ss_rows w)\<rparr>"
  have m: "money_rows E (ss_calls w) (ss_rows w)" using w by (simp add: savable_def)
  have "money_rows E (ss_calls w) (modify_checkout (bc_id c) (bound_card i) (ss_rows w))"
  proof (rule money_rows_checkout [OF m])
    fix x assume x: "x \<in> set (bd_checkouts (ss_rows w))" "bc_id x = bc_id c"
    then have "x = d" using checkout_unique [OF m _ x(1), of d] d by (simp add: blocked_row_def)
    with d(1) i show "calm (ss_calls w) x (bound_card i x)" using calm_bound by (simp add: blocked_row_def)
  qed
  then have s: "savable E ?w"
    using w by (simp add: savable_def keys_ok_checkout bound_card_def)
  have row: "bound_card i d \<in> set (bd_checkouts (ss_rows ?w))"
    using d by (auto simp: blocked_row_def modify_checkout_def update_where_def)
  have fresh: "fresh_id (sv_context sv) (ss_rows ?w)"
    using sv(2) by (simp add: fresh_checkout bound_card_def)
  have "wp (reconcile_native_payment sv c) (\<lambda>_. money_ok E) (money_ok E) (?w\<lparr>ss_saved := ss_rows ?w\<rparr>)"
    by (rule reconcile_keeps [OF savable_save [OF s], where c = "bound_card i d"])
       (use row fresh sv(1) d in \<open>auto simp: bound_card_def blocked_row_def\<close>)
  then show ?thesis
    unfolding bind_card_def wp_after wp_set_checkout wp_save_savable [OF s] .
qed

lemma found_nonempty: "asaas_find_subscription port r h = (Inr (Some i), h') \<Longrightarrow> i \<noteq> []"
proof -
  assume a: "asaas_find_subscription port r h = (Inr (Some i), h')"
  then obtain rows where "first (List.map_filter (\<lambda>r. prefixed_text ''sub_'' 80 r ''id'') rows) = Some i"
    by (auto simp: asaas_find_subscription_def ask_def and_then_Inr first_present_def split: prod.splits)
  from first_Some [OF this] show ?thesis
    by (auto simp: List.map_filter_def prefixed_text_def split: option.splits if_splits)
qed

lemma recover_keeps:
  assumes w: "savable E w" and d: "blocked_row E d w" "bc_id d = bc_id c"
    and sv: "provider_environment (sv_context sv) = E" "fresh_id (sv_context sv) (ss_rows w)"
    and X: "\<And>w. money_ok E w \<Longrightarrow> X w" "\<And>w. money_ok E w \<Longrightarrow> Q True w"
    and unfound: "\<And>h. quiet_after (ss_calls w) h \<Longrightarrow> Q False (w\<lparr>ss_calls := h\<rparr>)"
  shows "wp (recover_native_subscription sv c) Q X w"
proof -
  obtain r h where g: "asaas_find_subscription (sv_port sv) (checkout_reference c) (ss_calls w) = (r, h)"
    by (cases "asaas_find_subscription (sv_port sv) (checkout_reference c) (ss_calls w)")
  have q: "quiet_after (ss_calls w) h" by (rule quietD [OF quiet_gateway(9) g])
  show ?thesis
  proof (cases "\<exists>i. r = Inr (Some i)")
    case True
    then obtain i where i: "r = Inr (Some i)" by blast
    have d': "blocked_row E d (w\<lparr>ss_calls := h\<rparr>)" using d(1) by (simp add: blocked_row_def)
    have "wp (bind_card sv c i) (\<lambda>_. money_ok E) (money_ok E) (w\<lparr>ss_calls := h\<rparr>)"
      by (rule bind_card_keeps [OF savable_quiet [OF w q] d' d(2)]) (use sv found_nonempty g i in auto)
    then have "wp (bind_card sv c i) (\<lambda>_. Q True) X (w\<lparr>ss_calls := h\<rparr>)" by (rule wp_mono) (use X in auto)
    moreover have "i \<noteq> []" using g i found_nonempty by blast
    ultimately show ?thesis using g i by (simp add: recover_native_subscription_def)
  next
    case False
    then consider e where "r = Inl e" | "r = Inr None" by (metis sum.exhaust option.exhaust)
    moreover have "Q False (w\<lparr>ss_calls := h\<rparr>)" using unfound q by simp
    ultimately show ?thesis
      by cases (simp_all only: recover_native_subscription_def wp_call g prod.case sum.case option.case wp_result)
  qed
qed

section \<open>Charging\<close>

lemma card_answer_keeps: "keeps E (card_answer c)"
  unfolding card_answer_def checkout_now_def by (intro kept)

lemma uncertain_keeps:
  assumes w: "savable E w" and d: "blocked_row E d w" "bc_id d = bc_id c"
    and sv: "provider_environment (sv_context sv) = E" "fresh_id (sv_context sv) (ss_rows w)"
  shows "wp (uncertain_card sv c) (\<lambda>_. money_ok E) (money_ok E) w"
  unfolding uncertain_card_def wp_after
  by (rule recover_keeps [OF w d sv])
     (use keepsD [OF card_answer_keeps] in
       \<open>auto simp: wp_save_savable [OF savable_quiet [OF w]] simp del: wp_save dest!: savable_save [OF savable_quiet [OF w]]\<close>)

lemma create_card_request:
  obtains a r where "create_card_subscription port js h = (r, h @ [(body_request ''POST'' ''/subscriptions'' js, a)])"
    "r = Inl CardRejected \<longleftrightarrow> declined a" "\<And>i. r = Inr i \<Longrightarrow> i \<noteq> []"
proof -
  let ?rq = "body_request ''POST'' ''/subscriptions'' js"
  let ?a = "ap_answer port h ?rq"
  let ?r = "and_then (read_answer card_options ?a) (\<lambda>d. need (prefixed_text ''sub_'' 80 d ''id''))"
  have rejected: "?r = Inl CardRejected \<longleftrightarrow> declined ?a"
    by (auto simp: read_answer_def read_body_def card_options_def declined_def need_def and_then_def
        split: asaas_answer.splits body.splits pyval.splits sum.splits option.splits if_splits)
  have nonempty: "i \<noteq> []" if "?r = Inr i" for i
    using that by (auto simp: and_then_Inr need_def prefixed_text_def split: option.splits if_splits)
  show thesis
    by (rule that [of ?r ?a]) (use rejected nonempty in \<open>simp_all add: create_card_subscription_def ask_def json_request_def Let_def\<close>)
qed

lemma charge_payload: "charge_of r (body_request ''POST'' ''/subscriptions'' (card_payload sv c o' customer email ip k))
   \<longleftrightarrow> r = checkout_reference c"
  by (auto simp: charge_of_def body_request_def card_payload_def dict_get_def)

lemma refunds_charge: "refunds p [(body_request ''POST'' ''/subscriptions'' js, a)] = 0"
  by (simp add: refunds_def refund_request_def body_request_def)

lemma calm_charging:
  assumes "money_rows E h db" "x \<in> set (bd_checkouts db)" "bc_status x = ''active''" "bc_method x = ''credit_card''"
  shows "calm h x (charging customer email k x)"
  using assms by (auto simp: calm_def charging_def blocks_def sound_checkout_def chargeable_def)

lemma reference_inj:
  assumes "money_rows E h db" "c \<in> set (bd_checkouts db)" "d \<in> set (bd_checkouts db)" "checkout_reference c = checkout_reference d"
  shows "c = d"
proof -
  have "bc_id c < 2 ^ 128" "bc_id d < 2 ^ 128" using assms(1-3) by (auto simp: money_rows_def)
  then have "bc_id c = bc_id d" using assms(4) uuid_text_inj by (auto simp: checkout_reference_def)
  then show ?thesis using checkout_unique [OF assms(1,3,2)] by simp
qed

text \<open>The charge is recorded: the rows say that it is open, and it is the first for its reference.\<close>

lemma money_rows_charged:
  assumes m: "money_rows E h db" and c: "c \<in> set (bd_checkouts db)" "\<not> chargeable c" "checkout_reference c = r"
    and x: "\<And>q. charges q xs = (if q = r then n else 0)" "\<And>p. refunds p xs = 0"
  shows "money_rows E (h @ xs) db"
proof -
  have "charges (checkout_reference d) xs = 0" if "d \<in> set (bd_checkouts db)" "chargeable d" for d
    using reference_inj [OF m that(1) c(1)] c x(1) that(2) by auto
  then show ?thesis
    using m c by (auto simp: money_rows_def charges_append refunds_append x)
qed

lemma calm_reopened:
  assumes "calm h d d" "charges (checkout_reference d) h = 0" "bc_status d = ''creating''"
  shows "calm h d (set_status ''active'' d)"
  using assms by (simp add: calm_def set_status_def blocks_def sound_checkout_def)

text \<open>The charge itself, from the rows that were committed.\<close>

lemma charge_customer:
  assumes w: "money_ok E w" "ss_saved w = ss_rows w"
    and c: "c \<in> set (bd_checkouts (ss_rows w))" "bc_environment c = E" "bc_method c = ''credit_card''"
      "bc_status c = ''active''" "\<not> truthy_text (bc_subscription c)"
    and sv: "provider_environment (sv_context sv) = E" "fresh_id (sv_context sv) (ss_rows w)"
  shows "wp (after (set_checkout c (charging customer email k)) (\<lambda>_.
          call (create_card_subscription (sv_port sv) (card_payload sv c o' customer email ip k))
            (\<lambda>e. if e = CardRejected
                 then after (set_checkout c (set_status ''active'')) (\<lambda>_. after save (\<lambda>_. http 422 t))
                 else uncertain_card sv c)
            (\<lambda>i. after (bind_card sv c i) (\<lambda>_. card_answer c)))) (\<lambda>_. money_ok E) (money_ok E) w"
proof -
  let ?f = "charging customer email k"
  let ?w = "w\<lparr>ss_rows := modify_checkout (bc_id c) ?f (ss_rows w)\<rparr>"
  let ?h = "ss_calls w"
  have rows: "money_rows E ?h (ss_rows w)" "billing_keys_ok (ss_rows w)" "money_once ?h"
    using w by (simp_all add: money_ok_def)
  have free: "charges (checkout_reference c) ?h = 0"
    using rows(1) c(1,4,5) by (auto simp: money_rows_def chargeable_def)
  have row: "?f c \<in> set (bd_checkouts (ss_rows ?w))" "bc_status (?f c) = ''creating''"
    "bc_id (?f c) = bc_id c" "checkout_reference (?f c) = checkout_reference c" "bc_environment (?f c) = E"
    "bc_method (?f c) = ''credit_card''" "\<not> chargeable (?f c)"
    using c by (auto simp: modify_checkout_def update_where_def charging_def checkout_reference_def chargeable_def)
  have "money_rows E ?h (modify_checkout (bc_id c) ?f (ss_rows w))"
  proof (rule money_rows_checkout [OF rows(1)])
    fix x assume "x \<in> set (bd_checkouts (ss_rows w))" "bc_id x = bc_id c"
    then have "x = c" by (rule checkout_unique [OF rows(1) c(1)])
    then show "calm ?h x (?f x)" using calm_charging [OF rows(1) c(1,4,3)] by simp
  qed
  then have m: "money_rows E ?h (ss_rows ?w)" by simp
  have keys: "billing_keys_ok (ss_rows ?w)" using rows(2) by (simp add: keys_ok_checkout charging_def)
  have fresh: "fresh_id (sv_context sv) (ss_rows ?w)"
    using sv(2) by (simp add: fresh_checkout charging_def)
  obtain a x where x: "create_card_subscription (sv_port sv) (card_payload sv c o' customer email ip k) ?h
      = (x, ?h @ [(body_request ''POST'' ''/subscriptions'' (card_payload sv c o' customer email ip k), a)])"
    and ans: "x = Inl CardRejected \<longleftrightarrow> declined a" "\<And>i. x = Inr i \<Longrightarrow> i \<noteq> []"
    using create_card_request [of "sv_port sv" "card_payload sv c o' customer email ip k" ?h] by metis
  define xs where "xs = [(body_request ''POST'' ''/subscriptions'' (card_payload sv c o' customer email ip k), a)]"
  let ?u = "?w\<lparr>ss_calls := ?h @ xs\<rparr>"
  have counted: "charges q xs = (if q = checkout_reference c then if declined a then 0 else 1 else 0)" "refunds p xs = 0" for q p
    by (simp_all add: xs_def refunds_charge) (simp add: charges_def charge_payload eq_commute)
  have once: "money_once (?h @ xs)"
    using rows(3) free by (simp add: money_once_def charges_append refunds_append counted)
  have s: "savable E ?u"
    using keys once money_rows_charged [OF m row(1,7,4) counted] by (simp add: savable_def)
  have b: "blocked_row E (?f c) ?u" using row by (simp add: blocked_row_def)
  show ?thesis
  proof (cases x)
    case (Inr i)
    from bind_card_keeps [OF s b row(3) ans(2) [OF Inr] sv(1), unfolded session.simps] fresh
    have "wp (bind_card sv c i) (\<lambda>_. money_ok E) (money_ok E) ?u" by simp
    then have "wp (bind_card sv c i) (\<lambda>_. wp (card_answer c) (\<lambda>_. money_ok E) (money_ok E)) (money_ok E) ?u"
      by (rule wp_mono) (use keepsD [OF card_answer_keeps] in auto)
    then show ?thesis using x Inr by (simp add: xs_def)
  next
    case (Inl e)
    show ?thesis
    proof (cases "e = CardRejected")
      case False
      from uncertain_keeps [OF s b row(3) sv(1)] fresh
      have "wp (uncertain_card sv c) (\<lambda>_. money_ok E) (money_ok E) ?u" by simp
      with False show ?thesis using x Inl by (simp add: xs_def)
    next
      case True
      then have d: "quiet_after ?h (?h @ xs)"
        using ans(1) Inl by (simp add: quiet_after_def charges_append refunds_append counted)
      have "money_ok E ?w" by (rule money_ok_rows [OF w(1)]) (use m in simp)
      from money_ok_quiet [OF this] d have u: "money_ok E ?u" by simp
      have v: "money_ok E (?u\<lparr>ss_rows := modify_checkout (bc_id c) (set_status ''active'') (ss_rows ?u)\<rparr>)"
      proof (rule money_ok_checkout [OF u])
        fix y assume y: "y \<in> set (bd_checkouts (ss_rows ?u))" "bc_id y = bc_id c"
        then have "y = ?f c" using checkout_unique [OF m row(1), of y] row(3) by simp
        moreover have "charges (checkout_reference c) (?h @ xs) = 0" using d free by (simp add: quiet_after_def)
        moreover have "calm (?h @ xs) (?f c) (?f c)" using u row(1) by (auto simp: money_ok_def intro: calm_refl)
        ultimately show "calm (ss_calls ?u) y (set_status ''active'' y)" using row(2,4) calm_reopened by simp
      qed
      show ?thesis using True x Inl money_ok_save [OF v] money_ok_undo [OF v] by (simp add: xs_def)
    qed
  qed
qed

lemma charge_keeps:
  assumes w: "money_ok E w" "ss_saved w = ss_rows w"
    and c: "c \<in> set (bd_checkouts (ss_rows w))" "bc_environment c = E" "bc_method c = ''credit_card''"
      "bc_status c = ''active''" "\<not> truthy_text (bc_subscription c)"
    and sv: "provider_environment (sv_context sv) = E" "fresh_id (sv_context sv) (ss_rows w)"
  shows "wp (charge_card sv c email ip k) (\<lambda>_. money_ok E) (money_ok E) w"
  unfolding charge_card_def
proof (rule money_ok_call [OF w(1) quiet_service(1)])
  fix customer h assume h: "money_ok E (w\<lparr>ss_calls := h\<rparr>)"
  let ?f = "charging customer email k"
  let ?u = "w\<lparr>ss_calls := h\<rparr>"
  have row: "calm h x (?f x)" if "x \<in> set (bd_checkouts (ss_rows w))" "bc_id x = bc_id c" for x
  proof -
    have m: "money_rows E h (ss_rows w)" using h by (simp add: money_ok_def)
    have "x = c" by (rule checkout_unique [OF m c(1) that])
    then show ?thesis using calm_charging [OF m c(1,4,3)] by simp
  qed
  have "money_ok E (?u\<lparr>ss_rows := modify_checkout (bc_id c) ?f (ss_rows ?u)\<rparr>)"
    by (rule money_ok_checkout [OF h]) (use row in simp)
  then show "wp (after (set_checkout c ?f) (\<lambda>_. after (try_value (price_of sv (bc_plan c) (bc_cycle c))) (\<lambda>o'.
          call (create_card_subscription (sv_port sv) (card_payload sv c o' customer email ip k))
            (\<lambda>e. if e = CardRejected
                 then after (set_checkout c (set_status ''active'')) (\<lambda>_. after save (\<lambda>_.
                      http 422 ''Card was not authorized. Check the data or use another card.''))
                 else uncertain_card sv c)
            (\<lambda>i. after (bind_card sv c i) (\<lambda>_. card_answer c))))) (\<lambda>_. money_ok E) (money_ok E) ?u"
    using charge_customer [OF h] w c sv
    by (cases "price_of sv (bc_plan c) (bc_cycle c)") (simp_all del: wp_call)
next
  fix e h assume "money_ok E (w\<lparr>ss_calls := h\<rparr>)"
  from money_ok_undo [OF this]
  show "wp (refused 502 ''Payment service is temporarily unavailable'') (\<lambda>_. money_ok E) (money_ok E) (w\<lparr>ss_calls := h\<rparr>)"
    by simp
qed

section \<open>The request\<close>

lemma calm_closed:
  assumes "c \<in> set (bd_checkouts db)" "money_rows E h db" "bc_status c \<noteq> ''paid''" "blocks (set_status st c) \<longrightarrow> blocks c"
    and "st \<in> {''canceled'', ''expired'', ''failed''}"
  shows "calm h c (set_status st c)"
  using assms by (auto simp: calm_def set_status_def sound_checkout_def chargeable_def)

text \<open>Closing the row of a checkout.\<close>

lemma close_checkout:
  assumes "money_ok E w" "c \<in> set (bd_checkouts (ss_rows w))" "bc_status c \<noteq> ''paid''"
    and "blocks (set_status st c) \<longrightarrow> blocks c" "st \<in> {''canceled'', ''expired'', ''failed''}"
  shows "money_ok E (w\<lparr>ss_rows := modify_checkout (bc_id c) (set_status st) (ss_rows w)\<rparr>)"
proof (rule money_ok_checkout [OF assms(1)])
  have m: "money_rows E (ss_calls w) (ss_rows w)" using assms(1) by (simp add: money_ok_def)
  fix x assume x: "x \<in> set (bd_checkouts (ss_rows w))" "bc_id x = bc_id c"
  then have "x = c" by (rule checkout_unique [OF m assms(2)])
  then show "calm (ss_calls w) x (set_status st x)" using calm_closed [OF assms(2) m assms(3-5)] by simp
qed

lemma pay_open_keeps:
  assumes w: "money_ok E w" "ss_saved w = ss_rows w"
    and c: "c \<in> set (bd_checkouts (ss_rows w))" "bc_environment c = E" "bc_method c = ''credit_card''"
      "bc_status c \<noteq> ''paid''" "bc_status c \<in> {''creating'', ''active'', ''canceled'', ''expired'', ''failed''}"
    and sv: "provider_environment (sv_context sv) = E" "fresh_id (sv_context sv) (ss_rows w)"
  shows "wp (pay_open_card sv c email ip k) (\<lambda>_. money_ok E) (money_ok E) w"
proof -
  have closed: "money_ok E (w\<lparr>ss_rows := modify_checkout (bc_id c) (set_status ''expired'') (ss_rows w)\<rparr>)"
    by (rule close_checkout [OF w(1) c(1,4)]) (use c(3) in \<open>auto simp: blocks_def set_status_def\<close>)
  have s: "savable E w" using w by (simp add: savable_def money_ok_def)
  have recovered: "wp (recover_native_subscription sv c)
      (\<lambda>recovered. wp (if recovered then card_answer c else http 409 t) (\<lambda>_. money_ok E) (money_ok E)) (money_ok E) w"
    if "bc_status c = ''creating''" for t
  proof (rule recover_keeps [OF s _ _ sv])
    show "blocked_row E c w" using c that by (simp add: blocked_row_def)
  qed (use keepsD [OF card_answer_keeps] money_ok_quiet [OF w(1)] in auto)
  consider "is_expired sv c" | "\<not> is_expired sv c" "bc_status c \<in> {''canceled'', ''expired'', ''failed''}"
    | "\<not> is_expired sv c" "bc_status c = ''creating''" | "\<not> is_expired sv c" "bc_status c = ''active''"
    using c(5) by auto
  then show ?thesis
  proof cases
    case 1
    then show ?thesis using w closed money_ok_save [OF closed] money_ok_undo [OF closed] by (simp add: pay_open_card_def)
  next
    case 2
    then show ?thesis using money_ok_undo [OF w(1)] by (auto simp: pay_open_card_def)
  next
    case 3
    then show ?thesis using w(1) recovered by (simp add: pay_open_card_def)
  next
    case 4
    then show ?thesis using w(1) charge_keeps [OF w c(1-3) _ _ sv] by (simp add: pay_open_card_def)
  qed
qed

end
