(* ===== verification/CheckoutSteps.thy ===== *)
theory CheckoutSteps
  imports CardSteps
begin

text \<open>
  Opening, looking at and canceling a checkout keeps the invariant: a new checkout is added only when
  no other one of the business is open.
\<close>

lemma wp_after_look: "wp (after (look f) k) Q X w = wp (k (f (ss_rows w))) Q X w"
  by simp

section \<open>Paying with a card\<close>

lemma money_ok_sound: "money_ok E w \<Longrightarrow> c \<in> set (bd_checkouts (ss_rows w)) \<Longrightarrow> sound_checkout c"
  by (auto simp: money_ok_def dest: money_rows_sound)

lemma pay_card_keeps:
  assumes w: "money_ok E w" "ss_saved w = ss_rows w"
    and sv: "provider_environment (sv_context sv) = E" "fresh_id (sv_context sv) (ss_rows w)"
  shows "wp (pay_credit_card sv b email i k ip) (\<lambda>_. money_ok E) (money_ok E) w"
proof -
  have own: "wp (pay_own_card sv c email ip k) (\<lambda>_. money_ok E) (money_ok E) w"
    if c: "own_checkout sv b i (ss_rows w) = Some c" "bc_method c = ''credit_card''" for c
  proof -
    from own_found [OF c(1)] sv(1) have r: "c \<in> set (bd_checkouts (ss_rows w))" "bc_environment c = E" by auto
    show ?thesis
      using pay_open_keeps [OF w r c(2) _ _ sv] money_ok_sound [OF w(1) r(1)] w(1) money_ok_undo [OF w(1)]
      by (auto simp: pay_own_card_def sound_checkout_def)
  qed
  show ?thesis
    using own w(1) money_ok_undo [OF w(1)] by (auto simp: pay_credit_card_def split: option.split)
qed

section \<open>Looking at and canceling a checkout\<close>

lemma answer_keeps [kept]: "keeps E (answer_state c)" "keeps E (answer_checkout c)"
  unfolding answer_state_def answer_checkout_def checkout_now_def by (intro kept)+

lemma status_keeps: "keeps E (checkout_status sv b i)"
proof (rule keepsI)
  fix w assume w: "money_ok E w"
  have "wp (after (set_checkout c (set_status ''expired'')) (\<lambda>_. after save (\<lambda>_. answer_state c)))
      (\<lambda>_. money_ok E) (money_ok E) w"
    if c: "own_checkout sv b i (ss_rows w) = Some c" "lapses sv c" for c
  proof -
    from own_found [OF c(1)] have r: "c \<in> set (bd_checkouts (ss_rows w))" by simp
    have m: "money_ok E (w\<lparr>ss_rows := modify_checkout (bc_id c) (set_status ''expired'') (ss_rows w)\<rparr>)"
      by (rule close_checkout [OF w r]) (use c(2) in \<open>auto simp: lapses_def blocks_def\<close>)
    have "keeps E (after save (\<lambda>_. answer_state c))" by (intro kept)
    from keepsD [OF this m] show ?thesis by (simp del: wp_save)
  qed
  then show "wp (checkout_status sv b i) (\<lambda>_. money_ok E) (money_ok E) w"
    using w keepsD [OF answer_keeps(1)] by (auto simp: checkout_status_def split: option.split)
qed

lemma cancel_keeps: "keeps E (cancel_checkout sv b i)"
proof (rule keepsI)
  fix w assume w: "money_ok E w"
  have "wp (after (set_checkout c (set_status ''canceled'')) (\<lambda>_. after save (\<lambda>_. answer_state c)))
      (\<lambda>_. money_ok E) (money_ok E) v"
    if c: "c \<in> set (bd_checkouts (ss_rows v))" "bc_status c \<noteq> ''paid''" "bc_paid c = None" "money_ok E v" for c v
  proof -
    have m: "money_ok E (v\<lparr>ss_rows := modify_checkout (bc_id c) (set_status ''canceled'') (ss_rows v)\<rparr>)"
      by (rule close_checkout [OF c(4,1,2)]) (use c(3) in \<open>auto simp: blocks_def set_status_def\<close>)
    have "keeps E (after save (\<lambda>_. answer_state c))" by (intro kept)
    from keepsD [OF this m] show ?thesis by (simp del: wp_save)
  qed
  note close = this
  have "wp (call (cancel_at_provider sv c) (\<lambda>_. refused 502 t)
      (\<lambda>_. after (set_checkout c (set_status ''canceled'')) (\<lambda>_. after save (\<lambda>_. answer_state c))))
      (\<lambda>_. money_ok E) (money_ok E) w"
    if c: "own_checkout sv b i (ss_rows w) = Some c" "bc_status c \<noteq> ''paid''" "bc_paid c = None" for c t
  proof (rule money_ok_call [OF w quiet_service(3)])
    fix x h assume "money_ok E (w\<lparr>ss_calls := h\<rparr>)"
    with own_found [OF c(1)] c(2,3)
    show "wp (after (set_checkout c (set_status ''canceled'')) (\<lambda>_. after save (\<lambda>_. answer_state c)))
      (\<lambda>_. money_ok E) (money_ok E) (w\<lparr>ss_calls := h\<rparr>)" by (intro close) auto
  qed (use money_ok_undo in force)
  moreover have "keeps E (after save (\<lambda>_. answer_state c))" for c by (intro kept)
  ultimately show "wp (cancel_checkout sv b i) (\<lambda>_. money_ok E) (money_ok E) w"
    unfolding cancel_checkout_def wp_after_look using w money_ok_undo [OF w]
    by (auto simp: keepsD simp del: wp_call wp_save wp_after split: option.split)
qed

end
