(* ===== verification/OpenSteps.thy ===== *)
theory OpenSteps
  imports CheckoutSteps
begin

text \<open>
  Opening a checkout keeps the invariant: it is added only when no other checkout of the business is
  open, and nothing was charged for its reference.
\<close>

section \<open>A new row\<close>

lemma money_rows_add:
  assumes m: "money_rows E h db" and c: "bc_id c < 2 ^ 128" "bc_id c \<notin> bc_id ` set (bd_checkouts db)"
      "bc_status c = ''creating''" "sound_checkout c"
    and none: "open_checkouts E (bc_business c) db = []"
  shows "money_rows E h (db\<lparr>bd_checkouts := bd_checkouts db @ [c]\<rparr>)" (is "money_rows E h ?db")
proof -
  have backed: "backed_by E db s \<Longrightarrow> backed_by E ?db s" for s by (auto simp: backed_by_def)
  have refunded: "refunded_by E P db p \<Longrightarrow> refunded_by E P ?db p" for P p by (auto simp: refunded_by_def)
  have opened: "length (open_checkouts E b ?db) \<le> 1" for b
    using m none by (cases "b = bc_business c") (auto simp: open_checkouts_def money_rows_def)
  show ?thesis
    using m c backed refunded opened unfolding money_rows_def by (auto simp: chargeable_def)
qed

lemma uncharged_fresh:
  assumes m: "money_rows E h db" and c: "bc_id c < 2 ^ 128" "bc_id c \<notin> bc_id ` set (bd_checkouts db)"
  shows "charges (checkout_reference c) h = 0"
proof (rule ccontr)
  assume "charges (checkout_reference c) h \<noteq> 0"
  moreover have "\<forall>r. 0 < charges r h \<longrightarrow> r \<in> checkout_reference ` set (bd_checkouts db)"
    using m by (simp add: money_rows_def)
  ultimately have "checkout_reference c \<in> checkout_reference ` set (bd_checkouts db)" by simp
  then obtain d where d: "d \<in> set (bd_checkouts db)" "checkout_reference c = checkout_reference d" by blast
  have "bc_id d < 2 ^ 128" using m d(1) by (auto simp: money_rows_def)
  then have "bc_id c = bc_id d" using d(2) c(1) uuid_text_inj by (auto simp: checkout_reference_def)
  then show False using c(2) d(1) by auto
qed

text \<open>The row of the checkout that is being opened.\<close>

definition being_opened :: "string \<Rightarrow> string \<Rightarrow> billing_checkout \<Rightarrow> session \<Rightarrow> bool" where
  "being_opened E m c w \<longleftrightarrow>
     money_ok E w \<and> charges (checkout_reference c) (ss_calls w) = 0
     \<and> (\<exists>x \<in> set (bd_checkouts (ss_rows w)). bc_id x = bc_id c \<and> bc_status x = ''creating'' \<and> bc_method x = m)"

lemma being_opened_added:
  assumes w: "money_ok E w" and c: "bc_id c < 2 ^ 128" "bc_id c \<notin> bc_id ` set (bd_checkouts (ss_rows w))"
      "bc_status c = ''creating''" "sound_checkout c" "open_checkouts E (bc_business c) (ss_rows w) = []"
  shows "being_opened E (bc_method c) c (w\<lparr>ss_rows := (ss_rows w)\<lparr>bd_checkouts := bd_checkouts (ss_rows w) @ [c]\<rparr>\<rparr>)"
proof -
  have m: "money_rows E (ss_calls w) (ss_rows w)" using w by (simp add: money_ok_def)
  show ?thesis
    using money_ok_rows [OF w money_rows_add [OF m c]] uncharged_fresh [OF m c(1,2)] c(3) by (simp add: being_opened_def)
qed

lemma being_opened_quiet: "being_opened E m c w \<Longrightarrow> quiet_after (ss_calls w) h \<Longrightarrow> being_opened E m c (w\<lparr>ss_calls := h\<rparr>)"
  using money_ok_quiet [of E w h] by (simp add: being_opened_def quiet_after_def)

text \<open>What a step may do to the row that is being opened.\<close>

definition opens :: "string \<Rightarrow> checkout_update \<Rightarrow> bool" where
  "opens m f \<longleftrightarrow>
     (\<forall>h x. bc_status x = ''creating'' \<and> bc_method x = m \<and> charges (checkout_reference x) h = 0 \<longrightarrow> calm h x (f x))"

lemma being_opened_set:
  assumes w: "being_opened E m c w" and f: "opens m f"
  shows "money_ok E (w\<lparr>ss_rows := modify_checkout (bc_id c) f (ss_rows w)\<rparr>)"
proof (rule money_ok_checkout)
  show ok: "money_ok E w" using w by (simp add: being_opened_def)
  from w obtain x where x: "x \<in> set (bd_checkouts (ss_rows w))" "bc_id x = bc_id c" "bc_status x = ''creating''" "bc_method x = m"
    and free: "charges (checkout_reference c) (ss_calls w) = 0" by (auto simp: being_opened_def)
  fix y assume y: "y \<in> set (bd_checkouts (ss_rows w))" "bc_id y = bc_id c"
  have rows: "money_rows E (ss_calls w) (ss_rows w)" using ok by (simp add: money_ok_def)
  have "y = x" by (rule checkout_unique [OF rows x(1) y(1)]) (simp add: x(2) y(2))
  then show "calm (ss_calls w) y (f y)"
    using f x(2-4) free unfolding opens_def checkout_reference_def by simp
qed

lemma being_opened_keep:
  assumes w: "being_opened E m c w" and f: "opens m f" "\<And>x. bc_id (f x) = bc_id x" "\<And>x. bc_status (f x) = bc_status x"
    "\<And>x. bc_method (f x) = bc_method x"
  shows "being_opened E m c (w\<lparr>ss_rows := modify_checkout (bc_id c) f (ss_rows w)\<rparr>)"
proof -
  from w obtain x where x: "x \<in> set (bd_checkouts (ss_rows w))" "bc_id x = bc_id c" "bc_status x = ''creating''" "bc_method x = m"
    and free: "charges (checkout_reference c) (ss_calls w) = 0" by (auto simp: being_opened_def)
  from x have "f x \<in> set (bd_checkouts (modify_checkout (bc_id c) f (ss_rows w)))"
    by (auto simp: modify_checkout_def update_where_def)
  then show ?thesis
    using being_opened_set [OF w f(1)] free x f(2-4) unfolding being_opened_def by (intro conjI bexI [of _ "f x"]) simp_all
qed

lemma opens_status: "st \<in> {''creating'', ''active'', ''failed''} \<Longrightarrow> opens m (set_status st)"
  by (auto simp: opens_def calm_def set_status_def blocks_def sound_checkout_def chargeable_def)

section \<open>Preparing a checkout\<close>

lemma chain_Inr: "chain g f h = (Inr y, h'') \<longleftrightarrow> (\<exists>x h'. g h = (Inr x, h') \<and> f x h' = (Inr y, h''))"
  by (auto simp: chain_def split: prod.splits sum.splits)

definition prepares :: "string \<Rightarrow> checkout_update \<Rightarrow> bool" where
  "prepares m f \<longleftrightarrow>
     opens m f \<and> (\<forall>x. bc_id (f x) = bc_id x \<and> bc_status (f x) = bc_status x \<and> bc_method (f x) = bc_method x)"

lemma prepared:
  assumes "prepare sv q email o' c h = (Inr f, h')"
  shows "prepares (cq_method q) f"
  using assms
  by (auto simp: prepare_def prepare_pix_automatic_def prepare_common_pix_def prepare_credit_card_def chain_Inr
      prepares_def opens_def calm_def blocks_def sound_checkout_def chargeable_def split: if_splits)

lemma finish_keeps:
  assumes "being_opened E m c w" "st \<in> {''creating'', ''active'', ''failed''}" "keeps E k"
  shows "wp (after (set_checkout c (set_status st)) (\<lambda>_. k)) (\<lambda>_. money_ok E) (money_ok E) w"
  using keepsD [OF assms(3) being_opened_set [OF assms(1) opens_status [OF assms(2)]]] by simp

lemma open_keeps:
  assumes w: "money_ok E w" and c: "bc_id c < 2 ^ 128" "bc_id c \<notin> bc_id ` set (bd_checkouts (ss_rows w))"
      "bc_status c = ''creating''" "sound_checkout c" "open_checkouts E (bc_business c) (ss_rows w) = []" "bc_method c = cq_method q"
  shows "wp (open_checkout sv q email o' c) (\<lambda>_. money_ok E) (money_ok E) w"
proof -
  let ?w = "w\<lparr>ss_rows := (ss_rows w)\<lparr>bd_checkouts := bd_checkouts (ss_rows w) @ [c]\<rparr>\<rparr>"
  have v: "being_opened E (cq_method q) c ?w" using being_opened_added [OF w c(1-5)] c(6) by simp
  have failing: "keeps E (after save (\<lambda>_. http n t))" for n t by (intro kept)
  have "wp (call (prepare sv q email o' c) (unprepared c)
         (\<lambda>f. after (set_checkout c f) (\<lambda>_. after (set_checkout c (set_status ''active'')) (\<lambda>_. answer_checkout c))))
       (\<lambda>_. money_ok E) (money_ok E) ?w"
  proof -
    obtain r h where g: "prepare sv q email o' c (ss_calls ?w) = (r, h)" by (cases "prepare sv q email o' c (ss_calls ?w)")
    have u: "being_opened E (cq_method q) c (?w\<lparr>ss_calls := h\<rparr>)"
      by (rule being_opened_quiet [OF v quietD [OF quiet_service(2) g]])
    show ?thesis
    proof (cases r)
      case (Inl e)
      have "wp (unprepared c e) (\<lambda>_. money_ok E) (money_ok E) (?w\<lparr>ss_calls := h\<rparr>)"
        unfolding unprepared_def by (auto intro: finish_keeps [OF u _ failing] simp del: wp_after wp_set_checkout wp_save)
      then show ?thesis using g Inl by simp
    next
      case (Inr f)
      from prepared [OF g [unfolded Inr]] have f: "prepares (cq_method q) f" .
      then have "being_opened E (cq_method q) c (?w\<lparr>ss_calls := h, ss_rows := modify_checkout (bc_id c) f (ss_rows ?w)\<rparr>)"
        using being_opened_keep [OF u, of f] by (simp add: prepares_def)
      from finish_keeps [OF this _ answer_keeps(2)]
      have "wp (after (set_checkout c f) (\<lambda>_. after (set_checkout c (set_status ''active'')) (\<lambda>_. answer_checkout c)))
        (\<lambda>_. money_ok E) (money_ok E) (?w\<lparr>ss_calls := h\<rparr>)"
        unfolding wp_after [of "set_checkout c f"] by (simp del: wp_after)
      then show ?thesis using g Inr by (simp del: wp_after)
    qed
  qed
  moreover have "wp (after (set_checkout c (set_status ''active'')) (\<lambda>_. answer_checkout c)) (\<lambda>_. money_ok E) (money_ok E) ?w"
    by (rule finish_keeps [OF v _ answer_keeps(2)]) simp
  ultimately show ?thesis
    unfolding open_checkout_def add_checkout_def wp_after [of "change f" for f] wp_change by (simp del: wp_call wp_after)
qed

section \<open>The request\<close>

lemma repeated_keeps:
  assumes w: "money_ok E w" and c: "checkout_with_key sv b key (ss_rows w) = Some c"
  shows "wp (repeated_checkout sv q email c) (\<lambda>_. money_ok E) (money_ok E) w"
proof -
  let ?g = "fill_payer q email"
  let ?w = "w\<lparr>ss_rows := modify_checkout (bc_id c) ?g (ss_rows w)\<rparr>"
  have row: "c \<in> set (bd_checkouts (ss_rows w))"
    using first_Some [OF c [unfolded checkout_with_key_def find_checkout_def]] by auto
  have filled: "money_ok E ?w"
    by (rule money_ok_checkout [OF w])
       (use w in \<open>auto simp: money_ok_def calm_def fill_payer_def blocks_def sound_checkout_def chargeable_def money_rows_def\<close>)
  have row': "?g c \<in> set (bd_checkouts (ss_rows ?w))" using row by (auto simp: modify_checkout_def update_where_def)
  have same: "bc_id (?g c) = bc_id c" "bc_status (?g c) = bc_status c" by (simp_all add: fill_payer_def)
  have lapsed: "money_ok E (?w\<lparr>ss_rows := modify_checkout (bc_id c) (set_status ''expired'') (ss_rows ?w)\<rparr>)"
    if "bc_status c = ''active''"
    using close_checkout [OF filled row', of "''expired''"] that unfolding same by (simp add: blocks_def same)
  have saving: "keeps E (after save (\<lambda>_. http n t))" for n t by (intro kept)
  show ?thesis
    using filled money_ok_undo [OF filled] keepsD [OF answer_keeps(2) filled] lapsed keepsD [OF saving]
    by (auto simp: repeated_checkout_def simp del: wp_save)
qed

text \<open>What is open of a business: nothing, or one checkout.\<close>

definition left_open :: "string \<Rightarrow> billing_context \<Rightarrow> uuid \<Rightarrow> billing_checkout option \<Rightarrow> session \<Rightarrow> bool" where
  "left_open E cx b v w \<longleftrightarrow>
     money_ok E w \<and> fresh_id cx (ss_rows w)
     \<and> open_checkouts E b (ss_rows w) = (case v of None \<Rightarrow> [] | Some c \<Rightarrow> [c])"

lemma left_openD: "left_open E cx b (Some c) w \<Longrightarrow> money_ok E w \<and> c \<in> set (bd_checkouts (ss_rows w)) \<and> blocks c"
proof -
  assume a: "left_open E cx b (Some c) w"
  then have "c \<in> set (open_checkouts E b (ss_rows w))" by (simp add: left_open_def)
  then show ?thesis using a by (simp add: left_open_def open_checkouts_def)
qed

lemma blocking_left_open:
  assumes "money_ok E w" "provider_environment cx = E" "fresh_id cx (ss_rows w)"
  shows "left_open E cx b (blocking_checkout cx b (ss_rows w)) w"
proof (cases "blocking_checkout cx b (ss_rows w)")
  case None
  then have "open_checkouts E b (ss_rows w) = []"
    using assms(2) by (simp add: blocking_checkout_def open_checkouts_def max_by_None)
  then show ?thesis using None assms(1,3) by (simp add: left_open_def)
next
  case (Some c)
  then have "c \<in> set (open_checkouts E b (ss_rows w))"
    using assms(2) by (auto simp: blocking_checkout_def open_checkouts_def dest!: max_by_Some)
  moreover have "length (open_checkouts E b (ss_rows w)) \<le> 1" using assms(1) by (simp add: money_ok_def money_rows_def)
  ultimately have "open_checkouts E b (ss_rows w) = [c]"
    by (cases "open_checkouts E b (ss_rows w)") auto
  then show ?thesis using Some assms(1,3) by (simp add: left_open_def)
qed

lemma left_open_closed:
  assumes w: "left_open E cx b (Some c) w" and st: "st \<in> {''canceled'', ''expired'', ''failed''}"
    and c: "bc_status c \<noteq> ''paid''" "\<not> blocks (set_status st c)"
  shows "left_open E cx b None (w\<lparr>ss_rows := modify_checkout (bc_id c) (set_status st) (ss_rows w)\<rparr>)"
proof -
  have ok: "money_ok E w" "c \<in> set (bd_checkouts (ss_rows w))" using left_openD [OF w] by auto
  then have m: "money_rows E (ss_calls w) (ss_rows w)" by (simp add: money_ok_def)
  have closed: "x \<notin> set (open_checkouts E b (modify_checkout (bc_id c) (set_status st) (ss_rows w)))" for x
  proof
    assume "x \<in> set (open_checkouts E b (modify_checkout (bc_id c) (set_status st) (ss_rows w)))"
    then obtain y where y: "y \<in> set (bd_checkouts (ss_rows w))" "x = (if bc_id y = bc_id c then set_status st y else y)"
      "bc_business x = b" "bc_environment x = E" "blocks x"
      by (auto simp: open_checkouts_def modify_checkout_def update_where_def)
    show False
    proof (cases "bc_id y = bc_id c")
      case True
      then have "y = c" by (rule checkout_unique [OF m ok(2) y(1)])
      then show ?thesis using y c(2) by simp
    next
      case False
      then have "y \<in> set (open_checkouts E b (ss_rows w))" using y by (simp add: open_checkouts_def)
      then show ?thesis using w False by (simp add: left_open_def)
    qed
  qed
  have "open_checkouts E b (modify_checkout (bc_id c) (set_status st) (ss_rows w)) = []"
    using closed by (metis list.set_intros(1) neq_Nil_conv)
  then show ?thesis
    using close_checkout [OF ok c(1) _ st] c(2) w by (simp add: left_open_def fresh_checkout set_status_def)
qed

lemma retire_keeps:
  assumes w: "left_open E cx b v w"
  shows "wp (retire_pix sv v) (left_open E cx b) (money_ok E) w"
proof (cases v)
  case None
  then show ?thesis using w by (simp add: retire_pix_def)
next
  case (Some c)
  have u: "left_open E cx b (Some c) w" using w Some by simp
  note c = left_openD [OF u]
  note undo = money_ok_undo [OF conjunct1 [OF c]]
  have s: "sound_checkout c" using c money_ok_sound by blast
  show ?thesis
  proof (cases "bc_method c = ''pix'' \<and> bc_paid c = None")
    case False
    then show ?thesis using u Some by (auto simp: retire_pix_def)
  next
    case pix: True
    have unpaid: "bc_status c \<noteq> ''paid''" using c pix by (auto simp: blocks_def)
    show ?thesis
    proof (cases "truthy_text (bc_qr_code c)")
      case True
      then have "\<not> blocks (set_status ''expired'' c)" using pix s by (simp add: blocks_def set_status_def sound_checkout_def)
      from left_open_closed [OF u _ unpaid this] show ?thesis using pix True Some undo by (simp add: retire_pix_def)
    next
      case False
      have gone: "wp (call (cancel_subscription (sv_port sv) i) (\<lambda>_. refused n t)
          (\<lambda>_. after (set_checkout c (set_status ''canceled'')) (\<lambda>_. result None))) (left_open E cx b) (money_ok E) w" for i n t
      proof (rule money_ok_call [OF _ quiet_gateway(11)])
        fix x h assume h: "money_ok E (w\<lparr>ss_calls := h\<rparr>)"
        then have "left_open E cx b (Some c) (w\<lparr>ss_calls := h\<rparr>)" using u by (simp add: left_open_def)
        from left_open_closed [OF this _ unpaid, of "''canceled''"]
        show "wp (after (set_checkout c (set_status ''canceled'')) (\<lambda>_. result None)) (left_open E cx b) (money_ok E) (w\<lparr>ss_calls := h\<rparr>)"
          using pix by (simp add: blocks_def set_status_def)
      qed (use c in \<open>auto dest: money_ok_undo\<close>)
      show ?thesis
        using pix False Some u gone by (auto simp: retire_pix_def simp del: wp_call split: option.split)
    qed
  qed
qed

lemma settle_keeps:
  assumes w: "left_open E cx b v w"
  shows "wp (settle_blocking sv q v) (\<lambda>r w. money_ok E w \<and> (r = None \<longrightarrow> left_open E cx b None w)) (money_ok E) w"
proof (cases v)
  case None
  then show ?thesis using w by (simp add: settle_blocking_def left_open_def)
next
  case (Some c)
  have u: "left_open E cx b (Some c) w" using w Some by simp
  note c = left_openD [OF u]
  then have ok: "money_ok E w" by simp
  have answered: "wp (after (answer_checkout c) (\<lambda>r. result (Some r)))
      (\<lambda>r w. money_ok E w \<and> (r = None \<longrightarrow> left_open E cx b None w)) (money_ok E) w"
    unfolding wp_after wp_result by (rule wp_mono [OF keepsD [OF answer_keeps(2) ok]]) auto
  have expired: "wp (after (set_checkout c (set_status ''expired'')) (\<lambda>_. result None))
      (\<lambda>r w. money_ok E w \<and> (r = None \<longrightarrow> left_open E cx b None w)) (money_ok E) w"
    if "bc_method c = ''credit_card''"
  proof -
    have "bc_status c \<noteq> ''paid''" "\<not> blocks (set_status ''expired'' c)"
      using that c by (auto simp: blocks_def set_status_def)
    from left_open_closed [OF u _ this] show ?thesis by (simp add: left_open_def)
  qed
  show ?thesis
    using answered expired money_ok_undo [OF ok] Some
    by (auto simp: settle_blocking_def Let_def simp del: wp_after)
qed

lemma first_keeps:
  assumes w: "money_ok E w" and sv: "provider_environment (sv_context sv) = E" "fresh_id (sv_context sv) (ss_rows w)"
  shows "wp (first_checkout sv b email key q o') (\<lambda>_. money_ok E) (money_ok E) w"
proof -
  let ?cx = "sv_context sv" and ?n = "new_checkout sv b email key q o'"
  have new: "wp (open_checkout sv q email o' ?n) (\<lambda>_. money_ok E) (money_ok E) v"
    if "left_open E ?cx b None v" for v
    by (rule open_keeps) (use that in \<open>auto simp: left_open_def fresh_id_def new_checkout_def sound_checkout_def truthy_text_def\<close>)
  have "wp (retire_pix sv (blocking_checkout ?cx b (ss_rows w))) (\<lambda>left. wp (settle_blocking sv q left)
      (\<lambda>answer. wp (case answer of Some r \<Rightarrow> result r | None \<Rightarrow> open_checkout sv q email o' ?n) (\<lambda>_. money_ok E) (money_ok E))
      (money_ok E)) (money_ok E) w"
    by (rule wp_mono [OF retire_keeps [OF blocking_left_open [OF w sv]]], erule wp_mono [OF settle_keeps])
       (auto simp: new split: option.split)
  then show ?thesis
    using w money_ok_undo [OF w] by (simp add: first_checkout_def del: wp_after add: wp_after [abs_def])
qed

lemma create_keeps:
  assumes w: "money_ok E w" and sv: "provider_environment (sv_context sv) = E" "fresh_id (sv_context sv) (ss_rows w)"
  shows "wp (create_checkout sv b email key q origins) (\<lambda>_. money_ok E) (money_ok E) w"
  using w repeated_keeps [OF w] first_keeps [OF w sv]
  by (auto simp: create_checkout_def wp_after_look simp del: wp_after split: sum.split option.split)

end
