(* ===== verification/RefundSteps.thy ===== *)
theory RefundSteps
  imports BillingSteps
begin

text \<open>
  The refund of the guarantee keeps the invariant: a refund is asked for only while none was asked for
  the payment, after its subscription has ended.
\<close>

section \<open>A refund that was not asked for\<close>

lemma refund_request_inj: "refund_request p = refund_request q \<longleftrightarrow> p = q"
  by (auto simp: refund_request_def body_request_def)

lemma refunds_single: "refunds q [(refund_request p, a)] = (if q = p then 1 else 0)"
  by (simp add: refunds_def refund_request_inj eq_commute)

lemma charges_refund: "charges r [(refund_request p, a)] = 0"
  by (simp add: charges_def charge_of_def refund_request_def body_request_def)

lemma money_rows_refund:
  assumes "money_rows E h db" "refunded_by E refund_closed db p"
  shows "money_rows E (h @ [(refund_request p, a)]) db"
  using assms by (simp add: money_rows_def refunds_append charges_append refunds_single charges_refund)

lemma money_ok_refund:
  assumes "money_ok E w" "ss_saved w = ss_rows w" "refunds p (ss_calls w) = 0" "refunded_by E refund_closed (ss_rows w) p"
  shows "money_ok E (w\<lparr>ss_calls := ss_calls w @ [(refund_request p, a)]\<rparr>)"
  using assms money_rows_refund
  by (auto simp: money_ok_def money_once_def refunds_append charges_append refunds_single charges_refund)

lemma submit_refund_keeps:
  assumes "money_ok E w" "ss_saved w = ss_rows w" "refunds p (ss_calls w) = 0" "refunded_by E refund_closed (ss_rows w) p"
  shows "wp (submit_refund sv s p) (\<lambda>_. money_ok E) (money_ok E) w"
proof -
  have k: "keeps E (after (set_subscription s (set_refund ''reconcile_required'')) (\<lambda>_. save))"
    by (intro kept) simp_all
  note handled = keepsD [OF k]
  show ?thesis
  proof (cases "pay_id_ok p")
    case False
    then show ?thesis
      using handled [OF assms(1)] by (simp add: submit_refund_def refund_payment_def refuse_def del: wp_after wp_save wp_set_subscription)
  next
    case True
    define h where "h = ss_calls w @ [(refund_request p, ap_answer (sv_port sv) (ss_calls w) (refund_request p))]"
    obtain x where x: "refund_payment (sv_port sv) p (ss_calls w) = (x, h)"
      using True by (auto simp: refund_payment_def ask_def json_request_def Let_def h_def)
    have "money_ok E (w\<lparr>ss_calls := h\<rparr>)" unfolding h_def by (rule money_ok_refund [OF assms])
    with handled [OF this] x show ?thesis
      by (cases x) (simp_all add: submit_refund_def del: wp_after wp_save wp_set_subscription)
  qed
qed

text \<open>The payment of another checkout.\<close>

definition paid_elsewhere :: "string \<Rightarrow> uuid \<Rightarrow> billing_db \<Rightarrow> string \<Rightarrow> bool" where
  "paid_elsewhere E i db p \<longleftrightarrow>
     (\<exists>c \<in> set (bd_checkouts db). bc_id c \<noteq> i \<and> bc_environment c = E \<and> bc_payment c = Some p)"

text \<open>The subscription may be refunded: every refund so far was for a payment of another checkout.\<close>

definition refund_open :: "string \<Rightarrow> commercial_subscription \<Rightarrow> session \<Rightarrow> bool" where
  "refund_open E s w \<longleftrightarrow>
     money_ok E w
     \<and> (\<exists>x \<in> set (bd_subscriptions (ss_rows w)). cs_id x = cs_id s \<and> cs_checkout x = cs_checkout s \<and> cs_environment x = E)
     \<and> (\<forall>p. 0 < refunds p (ss_calls w) \<longrightarrow> paid_elsewhere E (cs_checkout s) (ss_rows w) p)"

definition payment_known :: "string \<Rightarrow> commercial_subscription \<Rightarrow> string \<Rightarrow> billing_db \<Rightarrow> bool" where
  "payment_known E s p db \<longleftrightarrow>
     (\<exists>c \<in> set (bd_checkouts db). bc_id c = cs_checkout s \<and> bc_environment c = E \<and> bc_payment c = Some p)"

lemma refund_openI:
  assumes "money_ok E w" "s \<in> set (bd_subscriptions (ss_rows w))" "cs_environment s = E" "\<not> refund_closed s"
  shows "refund_open E s w"
proof -
  have m: "money_rows E (ss_calls w) (ss_rows w)" using assms(1) by (simp add: money_ok_def)
  have "paid_elsewhere E (cs_checkout s) (ss_rows w) p" if p: "0 < refunds p (ss_calls w)" for p
  proof -
    from m p have "refunded_by E refund_closed (ss_rows w) p" by (simp add: money_rows_def)
    then obtain x c where x: "x \<in> set (bd_subscriptions (ss_rows w))" "c \<in> set (bd_checkouts (ss_rows w))"
      "cs_environment x = E" "bc_id c = cs_checkout x" "bc_environment c = E" "bc_payment c = Some p" "refund_closed x"
      by (auto simp: refunded_by_def)
    have "cs_checkout x \<noteq> cs_checkout s"
    proof
      assume "cs_checkout x = cs_checkout s"
      then have "x = s"
        using same_id [of cs_checkout "filter (\<lambda>s. cs_environment s = E) (bd_subscriptions (ss_rows w))" x s]
          m x(1,3) assms(2,3) by (simp add: money_rows_def)
      with x(7) assms(4) show False by simp
    qed
    with x show ?thesis unfolding paid_elsewhere_def by (intro bexI [of _ c]) simp_all
  qed
  with assms show ?thesis by (auto simp: refund_open_def)
qed

lemma refund_open_quiet:
  "refund_open E s w \<Longrightarrow> quiet_after (ss_calls w) h \<Longrightarrow> refund_open E s (w\<lparr>ss_calls := h\<rparr>)"
  by (auto simp: refund_open_def quiet_after_def intro: money_ok_quiet)

lemma rows_subscription: "bd_checkouts (modify_subscription i f db) = bd_checkouts db"
  by (simp add: modify_subscription_def)

lemma payment_known_subscription: "payment_known E s p (modify_subscription i f db) = payment_known E s p db"
  by (simp add: payment_known_def rows_subscription)

lemma refund_open_subscription:
  assumes "refund_open E s w" "\<And>x. calm_subscription x (f x)"
  shows "refund_open E s (w\<lparr>ss_rows := modify_subscription i f (ss_rows w)\<rparr>)"
proof -
  obtain x where x: "x \<in> set (bd_subscriptions (ss_rows w))" "cs_id x = cs_id s" "cs_checkout x = cs_checkout s" "cs_environment x = E"
    using assms(1) by (auto simp: refund_open_def)
  have "\<exists>y \<in> set (bd_subscriptions (modify_subscription i f (ss_rows w))).
      cs_id y = cs_id s \<and> cs_checkout y = cs_checkout s \<and> cs_environment y = E"
    using x assms(2) [of x]
    by (intro bexI [of _ "if cs_id x = i then f x else x"])
       (auto simp: modify_subscription_def update_where_def calm_subscription_def)
  then show ?thesis
    using assms money_ok_subscription [of E w f i]
    by (simp add: refund_open_def paid_elsewhere_def rows_subscription)
qed

lemma refund_open_saved: "refund_open E s w \<Longrightarrow> billing_keys_ok (ss_rows w) \<Longrightarrow> refund_open E s (w\<lparr>ss_saved := ss_rows w\<rparr>)"
  by (simp add: refund_open_def money_ok_save)

lemma payments_unique:
  assumes "billing_keys_ok db" "c \<in> set (bd_checkouts db)" "c' \<in> set (bd_checkouts db)"
    and "bc_payment c = Some p" "bc_payment c' = Some p" "bc_environment c = bc_environment c'"
  shows "c = c'"
proof -
  let ?xs = "filter (\<lambda>c. payment_key c \<noteq> None) (bd_checkouts db)"
  have "distinct (map (the \<circ> payment_key) ?xs)"
    using assms(1)
    by (simp add: billing_keys_ok_def row_constraints_def checkout_constraints_def unique_present_def present_values_def
        List.map_filter_def)
  from same_id [OF this, of c c'] show ?thesis
    using assms(2-6) by (simp add: payment_key_def)
qed

text \<open>Once the payment is known and saved, no refund was asked for it.\<close>

lemma refund_not_asked:
  assumes "refund_open E s w" "payment_known E s p (ss_rows w)" "billing_keys_ok (ss_rows w)"
  shows "refunds p (ss_calls w) = 0"
proof (rule ccontr)
  assume "refunds p (ss_calls w) \<noteq> 0"
  with assms(1) obtain c where c: "c \<in> set (bd_checkouts (ss_rows w))" "bc_id c \<noteq> cs_checkout s" "bc_environment c = E"
    "bc_payment c = Some p"
    by (auto simp: refund_open_def paid_elsewhere_def)
  obtain d where d: "d \<in> set (bd_checkouts (ss_rows w))" "bc_id d = cs_checkout s" "bc_environment d = E" "bc_payment d = Some p"
    using assms(2) by (auto simp: payment_known_def)
  from payments_unique [OF assms(3) c(1) d(1) c(4) d(4)] c d show False by simp
qed

lemma refunded_by_ended:
  assumes "refund_open E s w" "payment_known E s p (ss_rows w)" "\<And>x. calm_subscription x (f x)"
    and "\<And>x. x \<in> set (bd_subscriptions (ss_rows w)) \<Longrightarrow> cs_id x = cs_id s \<Longrightarrow> refund_closed (f x)"
  shows "refunded_by E refund_closed (modify_subscription (cs_id s) f (ss_rows w)) p"
proof -
  obtain x where x: "x \<in> set (bd_subscriptions (ss_rows w))" "cs_id x = cs_id s" "cs_checkout x = cs_checkout s" "cs_environment x = E"
    using assms(1) by (auto simp: refund_open_def)
  obtain c where c: "c \<in> set (bd_checkouts (ss_rows w))" "bc_id c = cs_checkout s" "bc_environment c = E" "bc_payment c = Some p"
    using assms(2) by (auto simp: payment_known_def)
  have "f x \<in> set (bd_subscriptions (modify_subscription (cs_id s) f (ss_rows w)))"
    using x by (auto simp: modify_subscription_def update_where_def)
  then show ?thesis
    using x c assms(3) [of x] assms(4) [OF x(1,2)] unfolding refunded_by_def rows_subscription calm_subscription_def
    by (intro bexI [of _ "f x"] bexI [of _ c]) simp_all
qed

lemma end_and_submit:
  assumes "refund_open E s w" "payment_known E s p (ss_rows w)" "\<And>x. calm_subscription x (f x)"
    and "\<And>x. x \<in> set (bd_subscriptions (ss_rows w)) \<Longrightarrow> cs_id x = cs_id s \<Longrightarrow> refund_closed (f x)"
  shows "wp (after (set_subscription s f) (\<lambda>_. after save (\<lambda>_. submit_refund sv s p))) (\<lambda>_. money_ok E) (money_ok E) w"
proof -
  let ?w = "w\<lparr>ss_rows := modify_subscription (cs_id s) f (ss_rows w)\<rparr>"
  have o: "refund_open E s ?w" by (rule refund_open_subscription [OF assms(1,3)])
  have k: "payment_known E s p (ss_rows ?w)" using assms(2) by (simp add: payment_known_subscription)
  have m: "money_ok E ?w" using o by (simp add: refund_open_def)
  have "wp (submit_refund sv s p) (\<lambda>_. money_ok E) (money_ok E) (?w\<lparr>ss_saved := ss_rows ?w\<rparr>)"
    if keys: "billing_keys_ok (ss_rows ?w)"
    by (rule submit_refund_keeps)
       (use money_ok_save [OF m keys] refund_not_asked [OF o k keys] refunded_by_ended [OF assms] in auto)
  then show ?thesis using money_ok_undo [OF m] by simp
qed

section \<open>Submitting a refund\<close>

lemma refund_open_ok: "refund_open E s w \<Longrightarrow> money_ok E w"
  by (simp add: refund_open_def)

lemma resubmit_keeps:
  assumes "refund_open E s w" "payment_known E s p (ss_rows w)"
  shows "wp (resubmit_refund sv s p) (\<lambda>_. money_ok E) (money_ok E) w"
  unfolding resubmit_refund_def
proof (rule money_ok_call [OF refund_open_ok [OF assms(1)] quiet_service(4)])
  fix x h assume q: "quiet_after (ss_calls w) h"
  show "wp (after (set_subscription s (\<lambda>x. set_refund ''requested'' (ended (sv_now sv) x)))
      (\<lambda>_. after save (\<lambda>_. submit_refund sv s p))) (\<lambda>_. money_ok E) (money_ok E) (w\<lparr>ss_calls := h\<rparr>)"
    by (rule end_and_submit [OF refund_open_quiet [OF assms(1) q]])
       (use assms(2) calm_changes in \<open>auto simp: refund_closed_def ongoing_def set_refund_def ended_def\<close>)
qed simp

lemma refund_payment_keeps:
  assumes "refund_open E s w" "payment_known E s p (ss_rows w)"
  shows "wp (refund_payment_of sv s p) (\<lambda>_. money_ok E) (money_ok E) w"
proof -
  let ?f = "refund_intended ''requested'' (sv_now sv)"
  let ?w = "w\<lparr>ss_rows := modify_subscription (cs_id s) ?f (ss_rows w)\<rparr>"
  have o: "refund_open E s ?w" by (rule refund_open_subscription [OF assms(1)]) (simp add: calm_changes)
  have requested: "cs_refund_status x = ''requested''"
    if "x \<in> set (bd_subscriptions (ss_rows ?w))" "cs_id x = cs_id s" for x
    using that by (auto simp: modify_subscription_def update_where_def refund_intended_def cancellation_requested_def)
  have k: "keeps E (after (set_subscription s (set_refund ''reconcile_required'')) (\<lambda>_. save))"
    by (intro kept) simp_all
  have "wp (call (cancel_provider_recurrence sv s)
         (\<lambda>_. after (set_subscription s (set_refund ''reconcile_required'')) (\<lambda>_. save))
         (\<lambda>_. after (set_subscription s (ended (sv_now sv))) (\<lambda>_. after save (\<lambda>_. submit_refund sv s p))))
       (\<lambda>_. money_ok E) (money_ok E) (?w\<lparr>ss_saved := ss_rows ?w\<rparr>)"
    if keys: "billing_keys_ok (ss_rows ?w)"
  proof (rule money_ok_call [OF money_ok_save [OF refund_open_ok [OF o] keys] quiet_service(4)])
    fix x h assume q: "quiet_after (ss_calls (?w\<lparr>ss_saved := ss_rows ?w\<rparr>)) h"
    show "wp (after (set_subscription s (ended (sv_now sv))) (\<lambda>_. after save (\<lambda>_. submit_refund sv s p)))
       (\<lambda>_. money_ok E) (money_ok E) (?w\<lparr>ss_saved := ss_rows ?w\<rparr>\<lparr>ss_calls := h\<rparr>)"
      by (rule end_and_submit [OF refund_open_quiet [OF refund_open_saved [OF o keys] q]])
         (use assms(2) calm_changes requested in
           \<open>auto simp: payment_known_subscription refund_closed_def ongoing_def ended_def\<close>)
  qed (rule keepsD [OF k])
  then show ?thesis
    unfolding refund_payment_of_def using money_ok_undo [OF refund_open_ok [OF o]] by simp
qed

section \<open>The payment of the checkout\<close>

lemma calm_note_payment:
  assumes "money_rows E h db" "c \<in> set (bd_checkouts db)" "bc_payment c = None"
  shows "calm h c (note_payment v c)"
  using calm_refl [OF assms(1,2)] assms(3)
  by (simp add: calm_def note_payment_def blocks_def sound_checkout_def chargeable_def)

lemma payment_of_checkout_keeps:
  assumes o: "refund_open E s w" and c: "c \<in> set (bd_checkouts (ss_rows w))" "bc_id c = cs_checkout s" "bc_environment c = E"
  shows "wp (payment_of_checkout sv c)
    (\<lambda>v w'. refund_open E s w' \<and> (\<forall>p. v = Some p \<longrightarrow> payment_known E s p (ss_rows w'))) (money_ok E) w"
proof (cases "bc_payment c")
  case (Some p)
  then show ?thesis using assms by (auto simp: payment_of_checkout_def payment_known_def)
next
  case None
  have m: "money_rows E (ss_calls w) (ss_rows w)" using o by (simp add: refund_open_def money_ok_def)
  have noted: "refund_open E s (w'\<lparr>ss_rows := modify_checkout (bc_id c) (note_payment v) (ss_rows w')\<rparr>)"
    if w': "refund_open E s w'" "ss_rows w' = ss_rows w" for v w'
  proof -
    have "money_ok E (w'\<lparr>ss_rows := modify_checkout (bc_id c) (note_payment v) (ss_rows w')\<rparr>)"
    proof (rule money_ok_checkout [OF refund_open_ok [OF w'(1)]])
      fix x assume x: "x \<in> set (bd_checkouts (ss_rows w'))" "bc_id x = bc_id c"
      then have "x = c" using checkout_unique [OF m c(1)] w'(2) by simp
      with x None show "calm (ss_calls w') x (note_payment v x)"
        using calm_note_payment w'(1) by (auto simp: refund_open_def money_ok_def)
    qed
    moreover have "paid_elsewhere E (cs_checkout s) (modify_checkout (bc_id c) (note_payment v) (ss_rows w')) q"
      if "paid_elsewhere E (cs_checkout s) (ss_rows w') q" for q
      using that c(2) by (auto simp: paid_elsewhere_def modify_checkout_def update_where_def)
    ultimately show ?thesis
      using w'(1) by (simp add: refund_open_def modify_checkout_def)
  qed
  have known: "payment_known E s p (modify_checkout (bc_id c) (note_payment (Some p)) (ss_rows w))" for p
    using c unfolding payment_known_def modify_checkout_def update_where_def
    by (intro bexI [of _ "note_payment (Some p) c"]) (auto simp: note_payment_def intro!: image_eqI [of _ _ c])
  have "wp (after (resolve_initial_payment sv c) (\<lambda>v. after (set_checkout c (note_payment v)) (\<lambda>_. result v)))
    (\<lambda>v w'. refund_open E s w' \<and> (\<forall>p. v = Some p \<longrightarrow> payment_known E s p (ss_rows w'))) (money_ok E) w"
    unfolding resolve_initial_payment_def wp_after
    by (rule money_ok_call [OF refund_open_ok [OF o] quiet_service(5)])
       (use noted known refund_open_quiet [OF o] in \<open>auto split: sum.splits\<close>)
  with None show ?thesis by (simp add: payment_of_checkout_def)
qed

lemma resume_keeps:
  assumes "money_ok E w" "s \<in> set (bd_subscriptions (ss_rows w))" "cs_environment s = E" "\<not> refund_closed s"
  shows "wp (resume_refund sv s) (\<lambda>_. money_ok E) (money_ok E) w"
proof -
  have o: "refund_open E s w" by (rule refund_openI [OF assms])
  obtain c where c: "c \<in> set (bd_checkouts (ss_rows w))" "bc_id c = cs_checkout s" "bc_environment c = E"
    "checkout_at (ss_rows w) (cs_checkout s) = Some c"
    using found_paid assms(1-3) by (metis money_ok_def)
  show ?thesis
  proof (cases "bc_payment c")
    case (Some p)
    then have "payment_known E s p (ss_rows w)" using c by (auto simp: payment_known_def)
    from resubmit_keeps [OF o this] show ?thesis using c(4) Some by (simp add: resume_refund_def)
  next
    case None
    have "wp (after (payment_of_checkout sv c) (\<lambda>found. after save (\<lambda>_.
            case found of None \<Rightarrow> result () | Some p \<Rightarrow> resubmit_refund sv s p))) (\<lambda>_. money_ok E) (money_ok E) w"
      unfolding wp_after
    proof (rule wp_mono [OF payment_of_checkout_keeps [OF o c(1-3)]])
      fix v w' assume w': "refund_open E s w' \<and> (\<forall>p. v = Some p \<longrightarrow> payment_known E s p (ss_rows w'))"
      show "wp save (\<lambda>_. wp (case v of None \<Rightarrow> result () | Some p \<Rightarrow> resubmit_refund sv s p) (\<lambda>_. money_ok E) (money_ok E))
          (money_ok E) w'"
        using w' refund_open_saved [of E s w'] resubmit_keeps refund_open_ok money_ok_undo
        by (auto split: option.splits)
    qed
    then show ?thesis using c(4) None by (simp add: resume_refund_def)
  qed
qed

section \<open>The requests\<close>

lemma keeps_resumed:
  assumes "money_ok E w" "s \<in> set (bd_subscriptions (ss_rows w))" "cs_environment s = E"
  shows "wp (after (if b \<and> ongoing s then resume_refund sv s else result ()) (\<lambda>_. subscription_response sv s))
    (\<lambda>_. money_ok E) (money_ok E) w"
  unfolding wp_after
  by (rule wp_mono [where Q = "\<lambda>_. money_ok E" and X = "money_ok E"])
     (use assms resume_keeps [OF assms] keepsD [OF keeps_response] in \<open>auto simp: refund_closed_def\<close>)

lemma keeps_status:
  assumes "provider_environment (sv_context sv) = E" shows "keeps E (subscription_status sv b)"
proof (rule keepsI)
  fix w assume w: "money_ok E w"
  show "wp (subscription_status sv b) (\<lambda>_. money_ok E) (money_ok E) w"
  proof (cases "latest_subscription_for_business (sv_context sv) (ss_rows w) b")
    case None
    then show ?thesis using w by (simp add: subscription_status_def)
  next
    case (Some s)
    from latest_found [OF this] assms keeps_resumed [OF w, of s "cs_refund_status s = ''reconcile_required''"] Some
    show ?thesis by (simp add: subscription_status_def del: wp_after) simp
  qed
qed

lemma keeps_start_refund:
  assumes "money_ok E w" "s \<in> set (bd_subscriptions (ss_rows w))" "cs_environment s = E"
    and "cs_refund_status s \<notin> {''requested'', ''refunded'', ''reconcile_required''}"
  shows "wp (start_refund sv s) (\<lambda>_. money_ok E) (money_ok E) w"
proof -
  have o: "refund_open E s w" by (rule refund_openI) (use assms in \<open>auto simp: refund_closed_def\<close>)
  obtain c where c: "c \<in> set (bd_checkouts (ss_rows w))" "bc_id c = cs_checkout s" "bc_environment c = E"
    "checkout_at (ss_rows w) (cs_checkout s) = Some c"
    using found_paid assms(1-3) by (metis money_ok_def)
  have s: "subscription_at (ss_rows w) (cs_id s) = Some s"
    using subscription_row assms(1,2) by (auto simp: money_ok_def)
  have k: "keeps E (after (set_subscription s (refund_intended ''reconcile_required'' (sv_now sv))) (\<lambda>_. save))"
    by (intro kept) simp_all
  have "wp (refund_checkout sv s c) (\<lambda>_. money_ok E) (money_ok E) w"
    unfolding refund_checkout_def wp_after
    by (rule wp_mono [OF payment_of_checkout_keeps [OF o c(1-3)]])
       (use keepsD [OF k] refund_open_ok refund_payment_keeps in \<open>auto split: option.splits simp del: wp_after\<close>)
  then have r: "wp (after (refund_checkout sv s c) (\<lambda>_. subscription_response sv s)) (\<lambda>_. money_ok E) (money_ok E) w"
    unfolding wp_after by (rule wp_mono) (use keepsD [OF keeps_response] in auto)
  show ?thesis
    unfolding start_refund_def wp_after
    by (rule wp_mono [OF response_same [OF assms(1,2)]])
       (use assms(4) r s c(4) money_ok_undo [OF assms(1)] in \<open>auto simp: subscription_now_def\<close>)
qed

lemma keeps_refund:
  assumes "provider_environment (sv_context sv) = E" shows "keeps E (request_guarantee_refund sv b)"
proof (rule keepsI)
  fix w assume w: "money_ok E w"
  show "wp (request_guarantee_refund sv b) (\<lambda>_. money_ok E) (money_ok E) w"
  proof (cases "latest_subscription_for_business (sv_context sv) (ss_rows w) b")
    case None
    then show ?thesis using money_ok_undo [OF w] by (simp add: request_guarantee_refund_def)
  next
    case (Some s)
    then have s: "s \<in> set (bd_subscriptions (ss_rows w))" "cs_environment s = E" using latest_found assms by auto
    consider "cs_refund_status s \<in> {''requested'', ''refunded''}" | "cs_refund_status s = ''reconcile_required''"
      | "cs_refund_status s \<notin> {''requested'', ''refunded'', ''reconcile_required''}" by blast
    then show ?thesis
    proof cases
      case 1
      have "keeps E (after save (\<lambda>_. subscription_response sv s))" by (intro kept)
      from keepsD [OF this w] 1 Some show ?thesis by (auto simp: request_guarantee_refund_def)
    next
      case 2
      with Some keeps_resumed [OF w s, of True] show ?thesis by (simp add: request_guarantee_refund_def)
    next
      case 3
      from keeps_start_refund [OF w s 3] 3 Some show ?thesis by (simp add: request_guarantee_refund_def)
    qed
  qed
qed

end
