(* ===== verification/BillingFacts.thy ===== *)
theory BillingFacts
  imports BillingSafety
begin

text \<open>
  What the notifications of the payment provider guarantee (access only after a payment of the
  right amount, a sandbox apart from production, each notification applied once), and two ways in
  which they fail: an unpaid charge extends the access of a card subscription, and a late event of
  a checkout undoes its payment.
\<close>

section \<open>Properties\<close>

text \<open>
  The state a run of notifications keeps: the constraints hold, a paid checkout has the time of its
  payment, and every subscription is backed by a checkout of its business that was paid.
\<close>

definition billing_sound :: "billing_db \<Rightarrow> bool" where
  "billing_sound db \<longleftrightarrow>
     billing_keys_ok db \<and> checkouts_ok db \<and> (\<forall>s \<in> set (bd_subscriptions db). backed db s)"

definition run_notices :: "(billing_context \<times> pydict) list \<Rightarrow> billing_db \<Rightarrow> billing_db" where
  "run_notices ns db = foldl (\<lambda>d (cx, p). snd (process_notice cx p d)) db ns"

lemma rows_evolve_backed:
  assumes "rows_evolve E Q db db'" "\<forall>s \<in> set (bd_subscriptions db). backed db s"
  shows "\<forall>s \<in> set (bd_subscriptions db'). backed db' s"
proof
  fix s assume s: "s \<in> set (bd_subscriptions db')"
  from assms(1) obtain olds news where r: "bd_subscriptions db' = olds @ news"
    "list_all2 (kept_subscription E) (bd_subscriptions db) olds" "\<forall>s \<in> set news. backed db' s"
    "list_all2 (kept_checkout E Q) (bd_checkouts db) (bd_checkouts db')"
    by (auto simp: rows_evolve_def subscriptions_evolve_def)
  show "backed db' s"
  proof (cases "s \<in> set olds")
    case True
    from list_all2_right [OF r(2) this] assms(2) show ?thesis using backed_kept [OF r(4)] by blast
  qed (use s r in auto)
qed

lemma notice_sound:
  assumes "billing_sound db" shows "billing_sound (snd (process_notice cx p db))"
proof -
  obtain r db' where run: "process_notice cx p db = (r, db')" by (cases "process_notice cx p db")
  from notice_rows [OF run] assms show ?thesis
    using rows_evolve_backed by (auto simp: billing_sound_def run)
qed

lemma notices_sound: "billing_sound db \<Longrightarrow> billing_sound (run_notices ns db)"
  unfolding run_notices_def by (induction ns arbitrary: db) (auto intro: notice_sound)

text \<open>
  C31. No access without a payment: after any notifications of the provider, from a sound state, a
  business that a subscription entitles has a checkout that was paid, in the same environment.
\<close>

theorem access_was_paid:
  assumes "billing_sound db" and "entitled (run_notices ns db) b environment t"
  shows "\<exists>c \<in> set (bd_checkouts (run_notices ns db)). bc_business c = b \<and> bc_environment c = environment \<and> bc_paid c \<noteq> None"
proof -
  from assms(2) obtain s where "s \<in> set (bd_subscriptions (run_notices ns db))" "cs_business s = b" "cs_environment s = environment"
    by (auto simp: entitled_def list_ex_iff subscription_active_def entitlement_row_def)
  then show ?thesis using notices_sound [OF assms(1), of ns] unfolding billing_sound_def backed_def by blast
qed

text \<open>
  C32. A checkout becomes paid only by an event that pays it: the end of its own hosted session, of a
  checkout by card, or a confirmed payment or an activated authorization with exactly its amount.
\<close>

theorem paid_by_its_amount:
  assumes "billing_sound db" and "process_notice cx p db = (r, db')"
    and "c \<in> set (bd_checkouts db)" "c' \<in> set (bd_checkouts db')" "bc_id c' = bc_id c"
    and "bc_paid c = None" "bc_paid c' \<noteq> None"
  shows "\<exists>event resource. notice_event cx p = Some (event, resource) \<and> pays event resource (terms c)"
proof -
  have n: "checkouts_ok db" "list_all2 (kept_checkout (provider_environment cx)
      (\<lambda>n. \<exists>event x. notice_event cx p = Some (event, x) \<and> pays event x n)) (bd_checkouts db) (bd_checkouts db')"
    using notice_rows [OF assms(2)] assms(1) by (auto simp: billing_sound_def rows_evolve_def)
  from list_all2_right [OF n(2) assms(4)] obtain d where d: "d \<in> set (bd_checkouts db)"
    "kept_checkout (provider_environment cx)
      (\<lambda>n. \<exists>event x. notice_event cx p = Some (event, x) \<and> pays event x n) d c'"
    by blast
  have "bc_id d = bc_id c" using d(2) assms(5) by (simp add: kept_checkout_def)
  then have "d = c" using same_id [of bc_id "bd_checkouts db"] n(1) d(1) assms(3) by (auto simp: checkouts_ok_def)
  then show ?thesis using d(2) assms(6,7) by (auto simp: kept_checkout_def)
qed

lemma filter_kept:
  assumes "list_all2 R xs ys" and "\<And>x y. R x y \<Longrightarrow> P y = P x \<and> (P x \<longrightarrow> y = x)"
  shows "filter P ys = filter P xs"
  using assms(1) by (induction rule: list_all2_induct) (auto dest: assms(2))

text \<open>
  C33. A sandbox never touches production: outside the production environment a notification leaves
  the production checkouts and subscriptions, and every row of access, as they were.
\<close>

theorem sandbox_isolated:
  assumes "billing_sound db" and "process_notice cx p db = (r, db')" and "provider_environment cx \<noteq> ''production''"
  shows "filter (\<lambda>c. bc_environment c = ''production'') (bd_checkouts db')
        = filter (\<lambda>c. bc_environment c = ''production'') (bd_checkouts db)
    \<and> filter (\<lambda>s. cs_environment s = ''production'') (bd_subscriptions db')
        = filter (\<lambda>s. cs_environment s = ''production'') (bd_subscriptions db)
    \<and> bd_access db' = bd_access db"
proof -
  let ?E = "provider_environment cx"
  obtain Q where "rows_evolve ?E Q db db'"
    using notice_rows [OF assms(2)] assms(1) by (auto simp: billing_sound_def)
  then obtain olds news where r: "list_all2 (kept_checkout ?E Q) (bd_checkouts db) (bd_checkouts db')"
    "bd_subscriptions db' = olds @ news" "list_all2 (kept_subscription ?E) (bd_subscriptions db) olds"
    "\<forall>s \<in> set news. cs_environment s = ?E" "bd_access db' = bd_access db"
    using assms(3) by (auto simp: rows_evolve_def subscriptions_evolve_def)
  have "filter (\<lambda>s. cs_environment s = ''production'') news = []"
    using r(4) assms(3) by (auto simp: filter_empty_conv)
  moreover have "filter (\<lambda>s. cs_environment s = ''production'') olds
      = filter (\<lambda>s. cs_environment s = ''production'') (bd_subscriptions db)"
    by (rule filter_kept [OF r(3)]) (use assms(3) in \<open>auto simp: kept_subscription_def\<close>)
  moreover have "filter (\<lambda>c. bc_environment c = ''production'') (bd_checkouts db')
        = filter (\<lambda>c. bc_environment c = ''production'') (bd_checkouts db)"
    by (rule filter_kept [OF r(1)]) (use assms(3) in \<open>auto simp: kept_checkout_def\<close>)
  ultimately show ?thesis using r(2,5) by simp
qed

lemma finish_event_marks:
  assumes "finish_event cx n db = Inr db'" "list_ex (\<lambda>e. be_id e = nt_key n) (bd_events db)"
  shows "case event_at db' (nt_key n) of None \<Rightarrow> False | Some e \<Rightarrow> be_processed e \<noteq> None"
proof -
  let ?p = "\<lambda>e. be_id e = nt_key n"
  obtain f where f: "bd_events db' = update_where ?p f (bd_events db)" "\<And>e. be_id (f e) = be_id e"
    "\<And>e. be_processed (f e) \<noteq> None"
    using assms(1) by (auto simp: finish_event_def Let_def commit_Inr modify_event_def intro!: that)
  have "filter ?p (bd_events db') = map f (filter ?p (bd_events db))"
    unfolding f(1) using f(2) by (induction "bd_events db" arbitrary: db) (auto simp: update_where_def filter_map o_def)
  then show ?thesis
    using assms(2) f(3) by (cases "filter ?p (bd_events db)") (auto simp: event_at_def list_ex_iff filter_empty_conv)
qed

lemma notice_marks:
  assumes "process_notice cx p db = (Inr keys, db')" and "notice_key cx p = Some (key, event)"
  shows "case event_at db' key of None \<Rightarrow> False | Some e \<Rightarrow> be_processed e \<noteq> None"
proof (cases "case event_at db key of None \<Rightarrow> False | Some e \<Rightarrow> be_processed e \<noteq> None")
  case True
  then show ?thesis using assms by (auto simp: process_notice_def)
next
  case False
  with assms obtain n db1 a db2 db3 where r: "read_notice cx key event p db = Inr n" "store_notice n db = Inr db1"
    "finish_event cx n db2 = Inr db'" "apply_event cx (nt_type n) (nt_resource n) db1 = Inr (a, db2)"
    by (auto simp: process_notice_def settle_notice_def split: sum.splits prod.splits elim!: and_then_InrE)
  have k: "be_id (nt_row n) = nt_key n" "nt_key n = key" using read_notice_Inr [OF r(1)] by auto
  have "bd_events db2 = bd_events db1" using evolves_event [OF r(4)] by (simp add: evolves_def)
  then show ?thesis using finish_event_marks [OF r(3)] store_notice_Inr(4) [OF r(2) k(1)] k by simp
qed

text \<open>
  C34. A notification is applied once: when it was answered, delivering it again, at any later time and
  with any content under the same identifier, changes nothing.
\<close>

theorem notice_applied_once:
  assumes "process_notice cx p db = (Inr keys, db')" and "notice_key cx p = Some (key, event)"
    and "notice_key cx' p' = Some (key, event')"
  shows "process_notice cx' p' db' = (Inr [], db')"
  using notice_marks [OF assms(1,2)] assms(3) by (simp add: process_notice_def)

section \<open>A card subscription\<close>

text \<open>The checkout of a monthly card subscription, and the notifications about it.\<close>

definition card_checkout :: billing_checkout where
  "card_checkout = \<lparr>bc_id = 2, bc_business = 10, bc_key = 3, bc_plan = ''basic'', bc_cycle = ''monthly'',
     bc_method = ''credit_card'', bc_environment = ''production'', bc_amount = 19700, bc_status = ''active'',
     bc_session = Some ''chk_1'', bc_url = Some ''https://pay'', bc_authorization = None, bc_qr_code = None,
     bc_conciliation = None, bc_qr_payload = None, bc_qr_expires = None, bc_expires = None, bc_paid = None,
     bc_customer = None, bc_subscription = None, bc_payment = None, bc_payer_name = None, bc_payer_email = None,
     bc_payer_phone = None, bc_created = 0\<rparr>"

definition card_db :: billing_db where
  "card_db = \<lparr>bd_checkouts = [card_checkout], bd_subscriptions = [], bd_access = [], bd_events = [], bd_pushes = []\<rparr>"

definition card_context :: "int \<Rightarrow> billing_context" where
  "card_context days = \<lparr>cx_environment = (\<lambda>_. None), cx_now = combine (ordinal_of 2026 3 9 + days) 0,
     cx_brazil = fixed_zone (-180), cx_fresh = 7\<rparr>"

definition card_payment :: "string \<Rightarrow> string \<Rightarrow> string \<Rightarrow> pydict" where
  "card_payment i event payment =
     [(''id'', PStr i), (''event'', PStr event),
      (''payment'', PDict [(''id'', PStr payment), (''subscription'', PStr ''sub_1''),
         (''checkoutSession'', PStr ''chk_1''), (''value'', PFloat ''197.0'')])]"

definition card_session :: "string \<Rightarrow> string \<Rightarrow> pydict" where
  "card_session i event = [(''id'', PStr i), (''event'', PStr event), (''checkout'', PDict [(''id'', PStr ''chk_1'')])]"

definition card_started :: "(billing_context \<times> pydict) list" where
  "card_started = [(card_context 0, card_session ''e1'' ''CHECKOUT_PAID''),
     (card_context 0, card_payment ''e2'' ''PAYMENT_CONFIRMED'' ''pay_1'')]"

definition access_days :: "billing_db \<Rightarrow> (string \<times> int) list" where
  "access_days db = map (\<lambda>s. (cs_status s, wall_date (cs_access_until s) - ordinal_of 2026 3 9)) (bd_subscriptions db)"

text \<open>
  An unpaid charge extends the access. A subscription paid on day 0 gives access for a month (31
  days). When the provider announces the next charge on day 20, which nobody has paid, the access
  grows to a month from that day; when that charge is overdue on day 32 the access grows again, and
  the deletion of the subscription then leaves the business entitled, without a second payment, on
  day 61.
\<close>

theorem unpaid_charge_extends_access:
  "access_days (run_notices card_started card_db) = [(''active'', 31)]
   \<and> access_days (run_notices (card_started @ [(card_context 20, card_payment ''e3'' ''PAYMENT_CREATED'' ''pay_2'')]) card_db)
       = [(''active'', 51)]
   \<and> entitled (run_notices (card_started @ [(card_context 32, card_payment ''e4'' ''PAYMENT_OVERDUE'' ''pay_2''),
         (card_context 33, [(''id'', PStr ''e5''), (''event'', PStr ''SUBSCRIPTION_DELETED''),
            (''subscription'', PDict [(''id'', PStr ''sub_1'')])])]) card_db)
       10 ''production'' (cx_now (card_context 61))"
  by code_simp

text \<open>
  A late event undoes a payment. When \<open>CHECKOUT_CREATED\<close> is delivered after \<open>CHECKOUT_PAID\<close>, the
  checkout is open again, the confirmed payment that follows does not activate it, and the business
  that paid gets no subscription; in the other order it gets one.
\<close>

theorem late_event_undoes_payment:
  "access_days (run_notices [(card_context 0, card_session ''e1'' ''CHECKOUT_PAID''),
      (card_context 0, card_session ''e6'' ''CHECKOUT_CREATED''),
      (card_context 0, card_payment ''e2'' ''PAYMENT_CONFIRMED'' ''pay_1'')] card_db) = []
   \<and> access_days (run_notices [(card_context 0, card_session ''e6'' ''CHECKOUT_CREATED''),
      (card_context 0, card_session ''e1'' ''CHECKOUT_PAID''),
      (card_context 0, card_payment ''e2'' ''PAYMENT_CONFIRMED'' ''pay_1'')] card_db) = [(''active'', 31)]"
  by code_simp

section \<open>Witnesses\<close>

lemma card_sound: "billing_sound card_db"
  by code_simp

lemma card_entitled: "entitled (run_notices card_started card_db) 10 ''production'' (cx_now (card_context 5))"
  by code_simp

theorem access_was_paid_witness:
  "\<exists>c \<in> set (bd_checkouts (run_notices card_started card_db)). bc_business c = 10 \<and> bc_environment c = ''production''
     \<and> bc_paid c \<noteq> None"
  using access_was_paid [OF card_sound card_entitled] .

definition card_paid :: "(billing_error + string list) \<times> billing_db" where
  "card_paid = process_notice (card_context 0) (card_session ''e1'' ''CHECKOUT_PAID'') card_db"

lemma card_paid_rows:
  "fst card_paid = Inr [] \<and> map bc_id (bd_checkouts (snd card_paid)) = [2]
   \<and> map (\<lambda>c. bc_paid c \<noteq> None) (bd_checkouts (snd card_paid)) = [True]"
  by code_simp

theorem paid_by_its_amount_witness:
  "\<exists>event resource. notice_event (card_context 0) (card_session ''e1'' ''CHECKOUT_PAID'') = Some (event, resource)
     \<and> pays event resource (terms card_checkout)"
proof -
  obtain c where c: "bd_checkouts (snd card_paid) = [c]" "bc_id c = 2" "bc_paid c \<noteq> None"
    using card_paid_rows by (auto simp: map_eq_Cons_conv)
  have "process_notice (card_context 0) (card_session ''e1'' ''CHECKOUT_PAID'') card_db = (fst card_paid, snd card_paid)"
    by (simp add: card_paid_def)
  from paid_by_its_amount [OF card_sound this, of card_checkout c] c show ?thesis
    by (simp add: card_db_def card_checkout_def)
qed

theorem notice_applied_once_witness:
  "process_notice (card_context 9) (card_payment ''e1'' ''PAYMENT_REFUNDED'' ''pay_1'') (snd card_paid) = (Inr [], snd card_paid)"
proof (rule notice_applied_once)
  show "process_notice (card_context 0) (card_session ''e1'' ''CHECKOUT_PAID'') card_db = (Inr [], snd card_paid)"
    using card_paid_rows by (metis card_paid_def prod.collapse)
  show "notice_key (card_context 0) (card_session ''e1'' ''CHECKOUT_PAID'') = Some (''e1'', ''CHECKOUT_PAID'')"
    by code_simp
  show "notice_key (card_context 9) (card_payment ''e1'' ''PAYMENT_REFUNDED'' ''pay_1'') = Some (''e1'', ''PAYMENT_REFUNDED'')"
    by code_simp
qed

definition sandbox_context :: billing_context where
  "sandbox_context = (card_context 0)\<lparr>cx_environment :=
     (\<lambda>k. if k = ''BILLING_PROVIDER_ENVIRONMENT'' then Some ''sandbox'' else None)\<rparr>"

theorem sandbox_isolated_witness:
  "\<exists>r db. process_notice sandbox_context (card_session ''e1'' ''CHECKOUT_PAID'') card_db = (r, db)
     \<and> filter (\<lambda>c. bc_environment c = ''production'') (bd_checkouts db) = [card_checkout]"
proof -
  obtain r db where run: "process_notice sandbox_context (card_session ''e1'' ''CHECKOUT_PAID'') card_db = (r, db)"
    by (cases "process_notice sandbox_context (card_session ''e1'' ''CHECKOUT_PAID'') card_db")
  have "provider_environment sandbox_context \<noteq> ''production''" by code_simp
  from sandbox_isolated [OF card_sound run this] run show ?thesis by (simp add: card_db_def card_checkout_def)
qed

end
