(* ===== verification/BillingRuns.thy ===== *)
theory BillingRuns
  imports OpenSteps RefundSteps BillingFacts
begin

text \<open>
  Runs of requests to the billing service, one served after the other, with no notification of the
  provider between them: whatever the provider answers, a payment is refunded at most once, a card is
  charged at most once for a checkout, and a business has one open checkout. The lock on the business
  keeps the requests that create or pay a checkout apart until their first commit; the status of the
  subscription takes no lock, and a notification may come at any time. The last section shows what
  happens to the refund then.
\<close>

section \<open>Runs\<close>

datatype billing_request =
    CreateCheckout uuid string uuid checkout_request "string list"
  | PayCard uuid string uuid card_request string
  | CheckoutStatus uuid uuid
  | CancelCheckout uuid uuid
  | SubscriptionStatus uuid
  | UpgradeToPlus uuid
  | RequestCancellation uuid
  | RequestRefund uuid

definition silently :: "'a billing_step \<Rightarrow> unit billing_step" where
  "silently m = after m (\<lambda>_. result ())"

fun perform :: "billing_service \<Rightarrow> billing_request \<Rightarrow> unit billing_step" where
  "perform sv (CreateCheckout b email key q origins) = silently (create_checkout sv b email key q origins)"
| "perform sv (PayCard b email i k ip) = silently (pay_credit_card sv b email i k ip)"
| "perform sv (CheckoutStatus b i) = silently (checkout_status sv b i)"
| "perform sv (CancelCheckout b i) = silently (cancel_checkout sv b i)"
| "perform sv (SubscriptionStatus b) = silently (subscription_status sv b)"
| "perform sv (UpgradeToPlus b) = silently (upgrade_subscription_to_plus sv b)"
| "perform sv (RequestCancellation b) = silently (request_subscription_cancellation sv b)"
| "perform sv (RequestRefund b) = silently (request_guarantee_refund sv b)"

type_synonym billing_state = "billing_db \<times> exchange list"

definition serve_one :: "billing_service \<times> billing_request \<Rightarrow> billing_state \<Rightarrow> billing_state" where
  "serve_one = (\<lambda>(sv, q) st. snd (serve (perform sv q) st))"

fun serve_all :: "(billing_service \<times> billing_request) list \<Rightarrow> billing_state \<Rightarrow> billing_state" where
  "serve_all [] st = st"
| "serve_all (x # xs) st = serve_all xs (serve_one x st)"

text \<open>The requests are in one environment of the provider, and \<open>uuid4\<close> is fresh.\<close>

fun admitted :: "string \<Rightarrow> (billing_service \<times> billing_request) list \<Rightarrow> billing_state \<Rightarrow> bool" where
  "admitted E [] st \<longleftrightarrow> True"
| "admitted E (x # xs) st \<longleftrightarrow>
     provider_environment (sv_context (fst x)) = E \<and> fresh_id (sv_context (fst x)) (fst st)
     \<and> admitted E xs (serve_one x st)"

text \<open>Rows a run may start from, before anything was asked of the provider.\<close>

definition money_start :: "string \<Rightarrow> billing_db \<Rightarrow> bool" where
  "money_start E db \<longleftrightarrow>
     billing_keys_ok db
     \<and> list_all (\<lambda>c. int (bc_id c) < 2 ^ 128 \<and> sound_checkout c) (bd_checkouts db)
     \<and> list_all (\<lambda>s. cs_environment s = E \<longrightarrow>
          list_ex (\<lambda>c. bc_id c = cs_checkout s \<and> bc_environment c = E \<and> bc_status c = ''paid'') (bd_checkouts db))
        (bd_subscriptions db)
     \<and> list_all (\<lambda>c. length (open_checkouts E (bc_business c) db) \<le> 1) (bd_checkouts db)"

lemma two_to_the_128 [code_unfold]: "(2::int) ^ 128 = 340282366920938463463374607431768211456"
  by simp

section \<open>The invariant along a run\<close>

definition state_ok :: "string \<Rightarrow> billing_state \<Rightarrow> bool" where
  "state_ok E st \<longleftrightarrow> money_ok E \<lparr>ss_saved = fst st, ss_rows = fst st, ss_calls = snd st\<rparr>"

lemma billing_keys_ok_distinct:
  "billing_keys_ok db \<Longrightarrow> distinct (map bc_id (bd_checkouts db)) \<and> distinct (map cs_id (bd_subscriptions db))
     \<and> distinct (map cs_checkout (bd_subscriptions db))"
  by (simp add: billing_keys_ok_def row_constraints_def checkout_constraints_def subscription_constraints_def)

lemma start_ok: "money_start E db \<Longrightarrow> state_ok E (db, [])"
proof -
  assume a: "money_start E db"
  have b: "length (open_checkouts E b db) \<le> 1" for b
  proof (cases "open_checkouts E b db")
    case (Cons c cs)
    then have "c \<in> set (open_checkouts E b db)" by simp
    then have "c \<in> set (bd_checkouts db)" "bc_business c = b" by (auto simp: open_checkouts_def)
    then show ?thesis using a by (auto simp: money_start_def list_all_iff)
  qed simp
  have "distinct (map cs_checkout (filter (\<lambda>s. cs_environment s = E) (bd_subscriptions db)))"
    using a billing_keys_ok_distinct by (simp add: money_start_def distinct_map_filter)
  then show ?thesis
    using a b billing_keys_ok_distinct [of db]
    by (auto simp: money_start_def state_ok_def money_ok_def money_rows_def money_once_def refunds_def charges_def
        list_all_iff list_ex_iff backed_by_def)
qed

lemma serve_ok:
  assumes "wp m (\<lambda>_. money_ok E) (money_ok E) \<lparr>ss_saved = db, ss_rows = db, ss_calls = h\<rparr>"
  shows "state_ok E (snd (serve m (db, h)))"
  using assms
  by (auto simp: serve_def state_ok_def wp_def money_ok_def split: prod.splits sum.splits)

lemma perform_ok:
  assumes "state_ok E (db, h)" "provider_environment (sv_context sv) = E" "fresh_id (sv_context sv) db"
  shows "wp (perform sv q) (\<lambda>_. money_ok E) (money_ok E) \<lparr>ss_saved = db, ss_rows = db, ss_calls = h\<rparr>"
proof -
  let ?w = "\<lparr>ss_saved = db, ss_rows = db, ss_calls = h\<rparr>"
  have w: "money_ok E ?w" using assms(1) by (simp add: state_ok_def)
  note steps = keepsD [OF status_keeps w] keepsD [OF cancel_keeps w] keepsD [OF keeps_status [OF assms(2)] w]
    keepsD [OF keeps_upgrade w] keepsD [OF keeps_cancellation w] keepsD [OF keeps_refund [OF assms(2)] w]
    create_keeps [OF w assms(2)] pay_card_keeps [OF w _ assms(2)]
  show ?thesis
    using steps assms(3) by (cases q) (simp_all add: silently_def)
qed

lemma run_ok: "admitted E xs st \<Longrightarrow> state_ok E st \<Longrightarrow> state_ok E (serve_all xs st)"
proof (induction xs arbitrary: st)
  case (Cons x xs)
  obtain sv q db h where s: "x = (sv, q)" "st = (db, h)" by (cases x; cases st)
  then have "state_ok E (serve_one x st)"
    using Cons.prems serve_ok [OF perform_ok [of E db h sv q]] by (simp add: serve_one_def)
  then show ?case using Cons by simp
qed simp

lemma run_started: "admitted E xs (db, []) \<Longrightarrow> money_start E db \<Longrightarrow> serve_all xs (db, []) = (db', h)
  \<Longrightarrow> money_rows E h db' \<and> money_once h"
  using run_ok [OF _ start_ok, of E xs db] by (simp add: state_ok_def money_ok_def)

section \<open>Properties\<close>

text \<open>
  C35. A payment is refunded once, as long as requests neither overlap nor have a notification of the
  provider between them: in every run of requests served one after the other, whatever the provider
  answers, at most one refund of a payment is asked for, and then the rows hold its subscription,
  ended and with a refund that is recorded, for a checkout of this payment. Without the restriction it
  fails, by \<open>concurrent_status_refunds_twice\<close> and \<open>late_payment_refunds_twice\<close>.
\<close>

theorem refund_submitted_once:
  assumes "money_start E db" and "admitted E xs (db, [])" and "serve_all xs (db, []) = (db', h)"
  shows "refunds p h \<le> 1 \<and> (0 < refunds p h \<longrightarrow> refunded_by E refund_closed db' p)"
  using run_started [OF assms(2,1,3)] by (auto simp: money_rows_def money_once_def)

text \<open>
  C36. A card is charged once: in every run of requests, whatever the provider answers, at most one
  charge for the reference of a checkout is not declined, however often the customer pays, and it is
  one of a checkout in the rows.
\<close>

theorem card_charged_once:
  assumes "money_start E db" and "admitted E xs (db, [])" and "serve_all xs (db, []) = (db', h)"
  shows "charges r h \<le> 1 \<and> (0 < charges r h \<longrightarrow> r \<in> checkout_reference ` set (bd_checkouts db'))"
  using run_started [OF assms(2,1,3)] by (auto simp: money_rows_def money_once_def)

text \<open>
  C37. One open checkout: in every run of requests a business has at most one checkout that is being
  prepared, open, or expired with an authorization of Pix that may still be used.
\<close>

theorem one_open_checkout:
  assumes "money_start E db" and "admitted E xs (db, [])" and "serve_all xs (db, []) = (db', h)"
  shows "length (open_checkouts E b db') \<le> 1"
  using run_started [OF assms(2,1,3)] by (simp add: money_rows_def)

section \<open>A customer of the card\<close>

definition no_rows :: billing_db where
  "no_rows = \<lparr>bd_checkouts = [], bd_subscriptions = [], bd_access = [], bd_events = [], bd_pushes = []\<rparr>"

text \<open>A provider that knows the customer, and answers the charge with \<open>a\<close>.\<close>

definition card_provider :: "asaas_answer \<Rightarrow> exchange list \<Rightarrow> asaas_request \<Rightarrow> asaas_answer" where
  "card_provider a h rq =
     (if rq_path rq = ''/customers''
      then Answered 200 (Json (PDict [(''data'', PList [PDict [(''id'', PStr ''cus_1'')]])]))
      else if rq_method rq = ''POST'' \<and> rq_path rq = ''/subscriptions'' then a
      else Answered 200 (Json (PDict [(''data'', PList [])])))"

definition card_service :: "asaas_answer \<Rightarrow> int \<Rightarrow> uuid \<Rightarrow> billing_service" where
  "card_service a m i =
     \<lparr>sv_context = \<lparr>cx_environment = (\<lambda>k. if k = ''BILLING_NATIVE_CARD_CHECKOUT_ENABLED'' then Some ''true'' else None),
        cx_now = combine (ordinal_of 2026 3 9) 0 + m * minute_us, cx_brazil = fixed_zone (-180), cx_fresh = i\<rparr>,
      sv_port = \<lparr>ap_answer = card_provider a, ap_host = ''asaas.com''\<rparr>, sv_connected = (\<lambda>_. True)\<rparr>"

definition card_purchase :: checkout_request where
  "card_purchase = \<lparr>cq_plan = ''basic'', cq_cycle = ''monthly'', cq_method = ''credit_card'', cq_origin = ''https://app'',
     cq_payer_name = None, cq_payer_cpf = None, cq_payer_phone = None\<rparr>"

definition card_details :: card_request where
  "card_details = \<lparr>cd_payer_name = ''Ana'', cd_cpf = ''12345678909'', cd_postal_code = ''01001000'', cd_number = ''10'',
     cd_complement = None, cd_phone = ''11999990000'', cd_holder = ''ANA'', cd_card = ''4111111111111111'',
     cd_month = ''12'', cd_year = ''2030'', cd_ccv = ''123''\<rparr>"

definition opens_card :: "asaas_answer \<Rightarrow> int \<Rightarrow> uuid \<Rightarrow> billing_service \<times> billing_request" where
  "opens_card a m i = (card_service a m i, CreateCheckout 10 ''a@b.c'' i card_purchase [''https://app''])"

definition pays_card :: "asaas_answer \<Rightarrow> int \<Rightarrow> uuid \<Rightarrow> billing_service \<times> billing_request" where
  "pays_card a m i = (card_service a m 99, PayCard 10 ''a@b.c'' i card_details ''1.2.3.4'')"

definition card_tries :: "(billing_service \<times> billing_request) list" where
  "card_tries = [pays_card TimedOut 1 20, pays_card TimedOut 2 20]"

fun charges_of :: "exchange list \<Rightarrow> billing_checkout list \<Rightarrow> (string \<times> nat) list" where
  "charges_of h [] = []"
| "charges_of h (c # cs) = (bc_status c, charges (checkout_reference c) h) # charges_of h cs"

definition charged :: "billing_state \<Rightarrow> (string \<times> nat) list" where
  "charged st = charges_of (snd st) (bd_checkouts (fst st))"

text \<open>A native checkout that is open for a quarter of an hour.\<close>

definition open_card :: billing_checkout where
  "open_card = card_checkout\<lparr>bc_id := 20, bc_url := None, bc_session := None,
     bc_expires := Some (combine (ordinal_of 2026 3 9) 0 + 15 * minute_us)\<rparr>"

definition open_rows :: billing_db where
  "open_rows = no_rows\<lparr>bd_checkouts := [open_card]\<rparr>"

section \<open>A subscription that was paid\<close>

definition paid_checkout :: billing_checkout where
  "paid_checkout = card_checkout\<lparr>bc_status := ''paid'', bc_paid := Some (combine (ordinal_of 2026 3 8) 0),
     bc_subscription := Some ''sub_1'', bc_payment := Some ''pay_1''\<rparr>"

definition paid_subscription :: commercial_subscription where
  "paid_subscription = \<lparr>cs_id = 5, cs_business = 10, cs_checkout = 2, cs_plan = ''basic'', cs_cycle = ''monthly'',
     cs_method = ''credit_card'', cs_environment = ''production'', cs_status = ''active'', cs_subscription = Some ''sub_1'',
     cs_authorization = None, cs_qr_code = None, cs_customer = None,
     cs_access_until = combine (ordinal_of 2026 4 8) 0, cs_canceled = None, cs_cancellation_requested = None,
     cs_refund_status = ''none'', cs_refund_requested = None, cs_refunded = None, cs_created = 0\<rparr>"

definition paid_rows :: billing_db where
  "paid_rows = no_rows\<lparr>bd_checkouts := [paid_checkout], bd_subscriptions := [paid_subscription]\<rparr>"

text \<open>A refund that was asked for, whose recurrence could not be ended.\<close>

definition interrupted_rows :: billing_db where
  "interrupted_rows = paid_rows\<lparr>bd_subscriptions := [set_refund ''reconcile_required'' paid_subscription]\<rparr>"

text \<open>A provider whose answer to a refund does not arrive.\<close>

definition refund_provider :: "exchange list \<Rightarrow> asaas_request \<Rightarrow> asaas_answer" where
  "refund_provider h rq = (if rq_method rq = ''POST'' then TimedOut else Answered 200 (Json (PDict [])))"

definition refund_service :: billing_service where
  "refund_service = (card_service TimedOut 3 99)\<lparr>sv_port := \<lparr>ap_answer = refund_provider, ap_host = ''asaas.com''\<rparr>\<rparr>"

definition refund_tries :: "(billing_service \<times> billing_request) list" where
  "refund_tries = [(refund_service, RequestRefund 10), (refund_service, SubscriptionStatus 10), (refund_service, RequestRefund 10)]"

definition refund_states_of :: "billing_state \<Rightarrow> nat \<times> (string \<times> string) list" where
  "refund_states_of = (\<lambda>(db, h). (refunds ''pay_1'' h, map (\<lambda>s. (cs_status s, cs_refund_status s)) (bd_subscriptions db)))"

section \<open>Flaws\<close>

text \<open>
  A refund nobody asked for. When the provider denies a refund of the first payment of an active
  subscription, the notification sets the status that means a refund was interrupted, and the next look at the status of the subscription ends the recurrence and asks for
  the refund of the whole payment.
\<close>

theorem refund_without_request:
  "refund_states_of (serve_all [(refund_service, SubscriptionStatus 10)]
       (snd (process_notice (card_context 0) (card_payment ''e1'' ''PAYMENT_REFUND_DENIED'' ''pay_1'') paid_rows), []))
     = (1, [(''canceled'', ''reconcile_required'')])"
  by code_simp

text \<open>
  A second charge. A card whose charge is uncertain is left to be reconciled; but once its checkout
  is a quarter of an hour old, a new request closes it as if nothing had been charged, and the card is
  charged a second time, for another reference.
\<close>

theorem uncertain_charge_repeated:
  "charged (serve_all [pays_card TimedOut 1 20, opens_card TimedOut 15 21, pays_card TimedOut 16 21] (open_rows, []))
     = [(''expired'', 1), (''creating'', 1)]"
  by code_simp

text \<open>
  Two looks at the status of an interrupted refund, both reading the rows before either commits, ask
  for the refund twice: the status takes no lock.
\<close>

theorem concurrent_status_refunds_twice:
  "refunds ''pay_1'' (snd (serve_one (refund_service, SubscriptionStatus 10)
       (interrupted_rows, snd (serve_one (refund_service, SubscriptionStatus 10) (interrupted_rows, []))))) = 2"
  by code_simp

text \<open>
  A refund was asked for, and its answer was uncertain. When the payment is then announced again, as a
  card payment is first confirmed and weeks later received, the subscription becomes active, and the
  next look at its status takes the refund for one that was never submitted and asks for it again.
\<close>

definition late_payment_run :: "billing_state" where
  "late_payment_run =
     (let st = serve_one (refund_service, RequestRefund 10) (paid_rows, []);
          db = snd (process_notice (card_context 0) (card_payment ''e7'' ''PAYMENT_RECEIVED'' ''pay_1'') (fst st))
      in serve_one (refund_service, SubscriptionStatus 10) (db, snd st))"

theorem late_payment_refunds_twice: "refunds ''pay_1'' (snd late_payment_run) = 2"
  by code_simp

section \<open>Witnesses\<close>

lemma card_tries_ok: "money_start ''production'' open_rows \<and> admitted ''production'' card_tries (open_rows, [])"
  by code_simp

lemma card_tries_charged: "charged (serve_all card_tries (open_rows, [])) = [(''creating'', 1)]"
  by code_simp

lemma refund_tries_ok: "money_start ''production'' paid_rows \<and> admitted ''production'' refund_tries (paid_rows, [])"
  by code_simp

lemma refund_tries_states:
  "refund_states_of (serve_all refund_tries (paid_rows, [])) = (1, [(''canceled'', ''reconcile_required'')])"
  by code_simp

theorem refund_submitted_once_witness:
  "\<exists>db h. serve_all refund_tries (paid_rows, []) = (db, h) \<and> refunds ''pay_1'' h = 1
     \<and> refunded_by ''production'' refund_closed db ''pay_1''"
proof -
  obtain db h where run: "serve_all refund_tries (paid_rows, []) = (db, h)" by (cases "serve_all refund_tries (paid_rows, [])")
  then have "refunds ''pay_1'' h = 1" using refund_tries_states by (simp add: refund_states_of_def)
  then show ?thesis
    using refund_submitted_once [OF conjunct1 [OF refund_tries_ok] conjunct2 [OF refund_tries_ok] run, of "''pay_1''"] run by simp
qed

theorem card_charged_once_witness:
  "\<exists>db h c. serve_all card_tries (open_rows, []) = (db, h) \<and> c \<in> set (bd_checkouts db) \<and> charges (checkout_reference c) h = 1"
proof -
  obtain db h where run: "serve_all card_tries (open_rows, []) = (db, h)" by (cases "serve_all card_tries (open_rows, [])")
  then have "charges_of h (bd_checkouts db) = [(''creating'', 1)]" using card_tries_charged by (simp add: charged_def)
  then obtain c where c: "bd_checkouts db = [c]" "charges (checkout_reference c) h = 1"
    by (cases "bd_checkouts db"; cases "tl (bd_checkouts db)") auto
  from card_charged_once [OF conjunct1 [OF card_tries_ok] conjunct2 [OF card_tries_ok] run, of "checkout_reference c"]
  show ?thesis using run c by (intro exI [of _ db] exI [of _ h] exI [of _ c]) simp
qed

theorem one_open_checkout_witness:
  "\<exists>db h. serve_all card_tries (open_rows, []) = (db, h) \<and> length (open_checkouts ''production'' 10 db) \<le> 1"
proof -
  obtain db h where run: "serve_all card_tries (open_rows, []) = (db, h)" by (cases "serve_all card_tries (open_rows, [])")
  from one_open_checkout [OF conjunct1 [OF card_tries_ok] conjunct2 [OF card_tries_ok] run, of 10] run show ?thesis by blast
qed

end
