(* ===== verification/ContextPolicy.thy ===== *)
theory ContextPolicy
  imports Prelude
begin

text \<open>
  What a correction of the customer makes stale (\<open>app/conversations/context_policy.py\<close>): the context
  of a conversation is a JSON object, and a changed answer removes exactly the facts that were derived
  from it.
\<close>

section \<open>Equality of values\<close>

text \<open>
  \<open>==\<close> of Python on JSON values: a boolean is a number, an integer equals the float of its value, an
  object has no order. The text of a float below \<open>10 ^ 16\<close> is positional.
\<close>

definition float_of_int :: "int \<Rightarrow> string" where
  "float_of_int n = str_of_int n @ ''.0''"

fun number_text :: "pyval \<Rightarrow> string option" where
  "number_text (PBool b) = Some (float_of_int (if b then 1 else 0))"
| "number_text (PInt n) = Some (float_of_int n)"
| "number_text (PFloat s) = Some (if s = ''-0.0'' then ''0.0'' else s)"
| "number_text v = None"

function (sequential) py_eq :: "pyval \<Rightarrow> pyval \<Rightarrow> bool" where
  "py_eq PNone w = (w = PNone)"
| "py_eq (PStr s) w = (w = PStr s)"
| "py_eq (PList xs) (PList ys) = (length xs = length ys \<and> list_all (\<lambda>(x, y). py_eq x y) (zip xs ys))"
| "py_eq (PDict d) (PDict e) =
     (length d = length e \<and> list_all (\<lambda>(k, v). case map_of e k of None \<Rightarrow> False | Some w \<Rightarrow> py_eq v w) d)"
| "py_eq v w = (number_text v \<noteq> None \<and> number_text v = number_text w)"
  by pat_completeness auto

termination
proof (relation "measure (\<lambda>(v, w). size v)", goal_cases)
  case (2 xs ys z x y)
  then have "x \<in> set xs" by (auto dest: set_zip_leftD)
  then have "size x \<le> size_list size xs" by (rule size_list_estimation') simp
  then show ?case by simp
next
  case (3 d e z k v w)
  then have "(k, v) \<in> set d" by simp
  then have "size v \<le> size_list (size_prod (\<lambda>_. 0) size) d" by (rule size_list_estimation') simp
  then show ?case by simp
qed simp

section \<open>Facts that depend on each other\<close>

definition recommendation_inputs :: "string list" where
  "recommendation_inputs =
     [''room_area_m2'', ''room_people_max'', ''equipment_preference'', ''equipment_cycle'',
      ''indoor_space_width_cm'', ''indoor_space_height_cm'', ''indoor_space_depth_cm'', ''indoor_space_unrestricted'',
      ''outdoor_space_width_cm'', ''outdoor_space_height_cm'', ''outdoor_space_depth_cm'', ''outdoor_space_unrestricted'',
      ''equipment_budget_max'', ''total_budget_max'']"

definition building_only_fields :: "string list" where
  "building_only_fields =
     [''building_hours_start'', ''building_hours_end'', ''gate_instructions'', ''site_allowed_end'', ''site_limit_answered'']"

definition scheduling_fields :: "string list" where
  "scheduling_fields = [''selected_date'', ''selected_time'', ''candidate_booking'']"

definition planning_inputs :: "string list" where
  "planning_inputs =
     [''quantity'', ''access_condition'', ''service_address'', ''delivery_address'', ''delivery_method'',
      ''fulfillment_type'', ''pickup_address'', ''equipment_ownership'', ''equipment_model'',
      ''installation_height_over_3m'', ''work_at_height'', ''property_type'', ''building_hours_start'',
      ''building_hours_end'', ''gate_instructions'', ''tubing_meters'', ''site_allowed_end'', ''site_limit_answered'',
      ''service_budget_max'', ''total_budget_max''] @ recommendation_inputs"

definition service_reusable_fields :: "string list" where
  "service_reusable_fields =
     [''service_address'', ''property_type'', ''building_hours_start'', ''building_hours_end'', ''gate_instructions'',
      ''onsite_contact_mode'', ''onsite_contact_name'', ''whatsapp_contact_phone'', ''contact_phone'',
      ''contact_phone_confirmed'', ''cleaning_outreach_id'']"

definition purchase_inputs :: "string list" where
  "purchase_inputs = [''purchase_mode'', ''purchase_only'', ''request_mode'']"

definition delivery_fields :: "string list" where
  "delivery_fields =
     [''delivery_method'', ''fulfillment_type'', ''pickup_address'', ''delivery_fee_per_km'', ''delivery_address'',
      ''address_purpose'', ''delivery_installation_match_pending'', ''quote_presented''] @ scheduling_fields"

definition recommended_fields :: "string list" where
  "recommended_fields = [''recommended_equipment'', ''recommendation_presented'', ''quote_presented'']"

definition planned_fields :: "string list" where
  "planned_fields = ''quote_presented'' # scheduling_fields"

definition time_fields :: "string list" where
  "time_fields = [''selected_time'', ''candidate_booking'']"

section \<open>Invalidation\<close>

definition get_or_none :: "pydict \<Rightarrow> string \<Rightarrow> pyval" where
  "get_or_none d k = (case dict_get d k of None \<Rightarrow> PNone | Some v \<Rightarrow> v)"

definition changed_keys :: "pydict \<Rightarrow> pydict \<Rightarrow> string list" where
  "changed_keys p c =
     filter (\<lambda>k. \<not> py_eq (get_or_none p k) (get_or_none c k)) (map fst p @ map fst c)"

definition touches :: "string list \<Rightarrow> string list \<Rightarrow> bool" where
  "touches ks fields \<longleftrightarrow> list_ex (\<lambda>k. k \<in> set fields) ks"

text \<open>\<open>d.pop(k, None)\<close> for each key.\<close>

definition pop_all :: "string list \<Rightarrow> pydict \<Rightarrow> pydict" where
  "pop_all ks d = filter (\<lambda>(k, v). k \<notin> set ks) d"

definition pop_when :: "bool \<Rightarrow> string list \<Rightarrow> pydict \<Rightarrow> pydict" where
  "pop_when b ks d = (if b then pop_all ks d else d)"

definition is_house :: "pydict \<Rightarrow> bool" where
  "is_house d \<longleftrightarrow> get_or_none d ''property_type'' = PStr ''house''"

definition invalidate_changed_facts :: "pydict \<Rightarrow> pydict \<Rightarrow> pydict" where
  "invalidate_changed_facts p c =
     (let ks = changed_keys p c;
          u1 = pop_when (touches ks recommendation_inputs) recommended_fields c;
          u2 = pop_when (touches ks planning_inputs) planned_fields u1;
          u3 = pop_when (touches ks [''selected_date'']) time_fields u2;
          u4 = pop_when (touches ks [''property_type''] \<and> is_house u3) building_only_fields u3
      in pop_when (touches ks purchase_inputs) delivery_fields u4)"

definition context_for_service_change :: "pydict \<Rightarrow> pydict" where
  "context_for_service_change d = filter (\<lambda>(k, v). k \<in> set service_reusable_fields) d"

section \<open>What stays\<close>

lemma get_pop_all: "dict_get (pop_all ks d) k = (if k \<in> set ks then None else dict_get d k)"
  by (induction d) (auto simp: pop_all_def dict_get_def)

lemma get_pop_when: "dict_get (pop_when b ks d) k = (if b \<and> k \<in> set ks then None else dict_get d k)"
  by (simp add: pop_when_def get_pop_all)

lemma pop_all_keys: "set (map fst (pop_all ks d)) = set (map fst d) - set ks"
  by (auto simp: pop_all_def image_iff)

lemma get_changed: "k \<in> set (changed_keys p c) \<longleftrightarrow>
    (dict_get p k \<noteq> None \<or> dict_get c k \<noteq> None) \<and> \<not> py_eq (get_or_none p k) (get_or_none c k)"
  by (auto simp: changed_keys_def dict_get_def map_of_eq_None_iff)

lemma changed_iff: "k \<in> set (changed_keys p c) \<longleftrightarrow> \<not> py_eq (get_or_none p k) (get_or_none c k)"
  by (auto simp: get_changed get_or_none_def split: option.splits)

lemma touches_iff: "touches (changed_keys p c) fields \<longleftrightarrow> (\<exists>k \<in> set fields. \<not> py_eq (get_or_none p k) (get_or_none c k))"
  by (auto simp: touches_def list_ex_iff changed_iff)

text \<open>The facts that a change makes stale.\<close>

definition stale :: "pydict \<Rightarrow> pydict \<Rightarrow> string \<Rightarrow> bool" where
  "stale p c k \<longleftrightarrow>
     touches (changed_keys p c) recommendation_inputs \<and> k \<in> set recommended_fields
     \<or> touches (changed_keys p c) planning_inputs \<and> k \<in> set planned_fields
     \<or> touches (changed_keys p c) [''selected_date''] \<and> k \<in> set time_fields
     \<or> touches (changed_keys p c) [''property_type''] \<and> is_house c \<and> k \<in> set building_only_fields
     \<or> touches (changed_keys p c) purchase_inputs \<and> k \<in> set delivery_fields"

lemma is_house_pop: "''property_type'' \<notin> set ks \<Longrightarrow> is_house (pop_when b ks d) = is_house d"
  by (simp add: is_house_def get_or_none_def get_pop_when)

lemma is_house_popped [simp]:
  "is_house (pop_when b recommended_fields d) = is_house d" "is_house (pop_when b planned_fields d) = is_house d"
  "is_house (pop_when b time_fields d) = is_house d"
  by (rule is_house_pop, simp add: recommended_fields_def planned_fields_def time_fields_def scheduling_fields_def)+

lemma pop_when_filter: "pop_when b ks d = filter (\<lambda>(k, v). \<not> (b \<and> k \<in> set ks)) d"
  by (cases b) (auto simp: pop_when_def pop_all_def intro: filter_True [symmetric])

lemma get_invalidate:
  "dict_get (invalidate_changed_facts p c) k = (if stale p c k then None else dict_get c k)"
  by (simp add: invalidate_changed_facts_def Let_def get_pop_when stale_def)

lemma invalidate_filter: "invalidate_changed_facts p c = filter (\<lambda>(k, v). \<not> stale p c k) c"
  unfolding invalidate_changed_facts_def Let_def stale_def is_house_popped
  unfolding pop_when_filter filter_filter
  by (intro filter_cong refl) auto

lemma touched_again:
  assumes "touches (changed_keys p (invalidate_changed_facts p c)) fields"
  shows "touches (changed_keys p c) fields \<or> (\<exists>k \<in> set fields. stale p c k)"
  using assms by (auto simp: touches_iff get_or_none_def get_invalidate split: if_splits)

definition derived_fields :: "string list" where
  "derived_fields = recommended_fields @ planned_fields @ time_fields @ building_only_fields @ delivery_fields"

lemma stale_derived: "stale p c k \<Longrightarrow> k \<in> set derived_fields"
  by (auto simp: stale_def derived_fields_def)

lemma underived:
  "set recommendation_inputs \<inter> set derived_fields = {}" "''property_type'' \<notin> set derived_fields"
  "set purchase_inputs \<inter> set derived_fields = {}"
  by code_simp+

lemma planning_derived:
  "set planning_inputs \<inter> (set recommended_fields \<union> set planned_fields \<union> set time_fields) = {}"
  by code_simp

lemma field_sets:
  "set time_fields \<subseteq> set planned_fields" "set planned_fields \<subseteq> set delivery_fields" "''property_type'' \<in> set planning_inputs"
  "''selected_date'' \<notin> set recommended_fields \<union> set time_fields \<union> set building_only_fields"
  by code_simp+

lemma property_plans: "touches (changed_keys p c) [''property_type''] \<Longrightarrow> touches (changed_keys p c) planning_inputs"
  using field_sets(3) by (auto simp: touches_iff)

lemma stale_again:
  assumes "stale p (invalidate_changed_facts p c) k" shows "stale p c k"
proof -
  let ?c = "invalidate_changed_facts p c"
  let ?t = "\<lambda>fields. touches (changed_keys p c) fields"
  let ?u = "\<lambda>fields. touches (changed_keys p ?c) fields"
  have never: "?u recommendation_inputs \<Longrightarrow> ?t recommendation_inputs" "?u [''property_type''] \<Longrightarrow> ?t [''property_type'']"
    "?u purchase_inputs \<Longrightarrow> ?t purchase_inputs"
    using touched_again [of p c] stale_derived [of p c] underived by (auto dest!: touched_again)
  have planning: "?u planning_inputs \<Longrightarrow> ?t planning_inputs \<or> ?t purchase_inputs"
    using planning_derived property_plans [of p c] unfolding stale_def by (auto dest!: touched_again simp: stale_def)
  have date: "?u [''selected_date''] \<Longrightarrow> ?t [''selected_date''] \<or> ?t planning_inputs \<or> ?t purchase_inputs"
    using field_sets(4) by (auto dest!: touched_again simp: stale_def)
  have house: "is_house ?c = is_house c"
    using stale_derived [of p c "''property_type''"] underived(2) by (auto simp: is_house_def get_or_none_def get_invalidate)
  consider "?u recommendation_inputs" "k \<in> set recommended_fields" | "?u planning_inputs" "k \<in> set planned_fields"
    | "?u [''selected_date'']" "k \<in> set time_fields" | "?u [''property_type'']" "is_house c" "k \<in> set building_only_fields"
    | "?u purchase_inputs" "k \<in> set delivery_fields"
    using assms house unfolding stale_def by argo
  then show ?thesis
  proof cases
    case 2
    then show ?thesis using planning field_sets(2) by (auto simp: stale_def)
  next
    case 3
    then show ?thesis using date field_sets(1,2) by (auto simp: stale_def)
  qed (use never in \<open>auto simp: stale_def\<close>)
qed

section \<open>Properties\<close>

text \<open>
  C28. A correction invalidates what it makes stale: doing it again changes nothing, every other fact is
  kept as it is, and a time that is still chosen was chosen with the present answers about the visit.
\<close>

theorem invalidation_settles:
  "invalidate_changed_facts p (invalidate_changed_facts p c) = invalidate_changed_facts p c
   \<and> (dict_get (invalidate_changed_facts p c) k = None \<or> dict_get (invalidate_changed_facts p c) k = dict_get c k)
   \<and> (dict_get (invalidate_changed_facts p c) ''selected_time'' \<noteq> None \<and> i \<in> set (''selected_date'' # planning_inputs @ purchase_inputs)
        \<longrightarrow> py_eq (get_or_none p i) (get_or_none c i))"
proof (intro conjI impI)
  let ?c = "invalidate_changed_facts p c"
  have "\<not> stale p c k" if "(k, v) \<in> set ?c" for k v
    using that unfolding invalidate_filter by simp
  then have "filter (\<lambda>(k, v). \<not> stale p ?c k) ?c = ?c"
    by (intro filter_True) (use stale_again [of p c] in fast)
  then show "invalidate_changed_facts p ?c = ?c" by (simp add: invalidate_filter [of p ?c])
  show "dict_get ?c k = None \<or> dict_get ?c k = dict_get c k" by (simp add: get_invalidate)
  assume a: "dict_get ?c ''selected_time'' \<noteq> None \<and> i \<in> set (''selected_date'' # planning_inputs @ purchase_inputs)"
  then have "\<not> stale p c ''selected_time''" by (simp add: get_invalidate split: if_splits)
  moreover have "''selected_time'' \<in> set time_fields" by (simp add: time_fields_def)
  moreover from this have "''selected_time'' \<in> set planned_fields" "''selected_time'' \<in> set delivery_fields"
    using field_sets(1,2) by auto
  ultimately have "\<not> touches (changed_keys p c) planning_inputs" "\<not> touches (changed_keys p c) [''selected_date'']"
    "\<not> touches (changed_keys p c) purchase_inputs"
    by (simp_all add: stale_def)
  moreover have "i \<in> set planning_inputs \<or> i \<in> set [''selected_date''] \<or> i \<in> set purchase_inputs" using a by auto
  ultimately show "py_eq (get_or_none p i) (get_or_none c i)" unfolding touches_iff by blast
qed

definition old_context :: pydict where
  "old_context = [(''quantity'', PInt 1), (''selected_date'', PStr ''2026-03-09''), (''selected_time'', PStr ''09:00'')]"

definition new_context :: pydict where
  "new_context = [(''quantity'', PFloat ''1.0''), (''selected_date'', PStr ''2026-03-09''), (''selected_time'', PStr ''09:00''),
     (''notes'', PStr ''x'')]"

theorem invalidation_settles_witness:
  "dict_get (invalidate_changed_facts old_context new_context) ''selected_time'' \<noteq> None
   \<and> py_eq (get_or_none old_context ''quantity'') (get_or_none new_context ''quantity'')
   \<and> invalidate_changed_facts old_context (new_context[0 := (''quantity'', PInt 2)]) = [(''quantity'', PInt 2), (''notes'', PStr ''x'')]"
proof -
  have kept: "dict_get (invalidate_changed_facts old_context new_context) ''selected_time'' \<noteq> None" by code_simp
  have "''quantity'' \<in> set (''selected_date'' # planning_inputs @ purchase_inputs)" by (simp add: planning_inputs_def)
  with kept invalidation_settles [of old_context new_context "''quantity''" "''quantity''"]
  have "py_eq (get_or_none old_context ''quantity'') (get_or_none new_context ''quantity'')" by blast
  moreover have "invalidate_changed_facts old_context (new_context[0 := (''quantity'', PInt 2)]) = [(''quantity'', PInt 2), (''notes'', PStr ''x'')]"
    by code_simp
  ultimately show ?thesis using kept by blast
qed

end
