(* ===== verification/Engine.thy ===== *)
theory Engine
  imports EventWorker
begin

text \<open>
  The engine of the dialogue (\<open>app/conversations/engine.py\<close>, \<open>types.py\<close>) and its repository
  (\<open>app/repositories/conversations.py\<close>): one conversation is locked and read, the dialogue decides
  what to say, and the answer is stored under a key of the message it answers. What the dialogue
  decides (\<open>determine_transition\<close>) and how the interpreter reads a name are arguments.
\<close>

section \<open>What the dialogue reads and decides\<close>

datatype conversation_state =
    Start | CustomerName | Menu | BookingService | BookingQuantity | BookingAccess | BookingAddress
  | BookingEquipmentOwnership | BookingEquipmentModel | BookingEquipmentProfile | BookingEquipmentDelivery
  | BookingInstallationHeight | BookingProperty | BookingBuildingHours | BookingGateDetails | BookingTubing
  | BookingSiteLimit | BookingWeekday | BookingDate | BookingTime | BookingAttendee | BookingAttendeeName
  | BookingPhoneConfirm | BookingConfirm | PostBookingHelp | QuoteDecision | Reschedule | Cancel | HumanHandoff
  | Completed

fun state_value :: "conversation_state \<Rightarrow> string" where
  "state_value Start = ''START''"
| "state_value CustomerName = ''CUSTOMER_NAME''"
| "state_value Menu = ''MENU''"
| "state_value BookingService = ''BOOKING_SERVICE''"
| "state_value BookingQuantity = ''BOOKING_QUANTITY''"
| "state_value BookingAccess = ''BOOKING_ACCESS''"
| "state_value BookingAddress = ''BOOKING_ADDRESS''"
| "state_value BookingEquipmentOwnership = ''BOOKING_EQUIPMENT_OWNERSHIP''"
| "state_value BookingEquipmentModel = ''BOOKING_EQUIPMENT_MODEL''"
| "state_value BookingEquipmentProfile = ''BOOKING_EQUIPMENT_PROFILE''"
| "state_value BookingEquipmentDelivery = ''BOOKING_EQUIPMENT_DELIVERY''"
| "state_value BookingInstallationHeight = ''BOOKING_INSTALLATION_HEIGHT''"
| "state_value BookingProperty = ''BOOKING_PROPERTY''"
| "state_value BookingBuildingHours = ''BOOKING_BUILDING_HOURS''"
| "state_value BookingGateDetails = ''BOOKING_GATE_DETAILS''"
| "state_value BookingTubing = ''BOOKING_TUBING''"
| "state_value BookingSiteLimit = ''BOOKING_SITE_LIMIT''"
| "state_value BookingWeekday = ''BOOKING_WEEKDAY''"
| "state_value BookingDate = ''BOOKING_DATE''"
| "state_value BookingTime = ''BOOKING_TIME''"
| "state_value BookingAttendee = ''BOOKING_ATTENDEE''"
| "state_value BookingAttendeeName = ''BOOKING_ATTENDEE_NAME''"
| "state_value BookingPhoneConfirm = ''BOOKING_PHONE_CONFIRM''"
| "state_value BookingConfirm = ''BOOKING_CONFIRM''"
| "state_value PostBookingHelp = ''POST_BOOKING_HELP''"
| "state_value QuoteDecision = ''QUOTE_DECISION''"
| "state_value Reschedule = ''RESCHEDULE''"
| "state_value Cancel = ''CANCEL''"
| "state_value HumanHandoff = ''HUMAN_HANDOFF''"
| "state_value Completed = ''COMPLETED''"

record snapshot =
  sn_business :: uuid
  sn_customer :: uuid
  sn_conversation :: uuid
  sn_state :: string
  sn_context :: pydict
  sn_enabled :: bool
  sn_handoff :: string
  sn_assistant :: bool
  sn_greeting :: string
  sn_fallback :: string
  sn_handoff_message :: string
  sn_name :: "string option"
  sn_profile :: "string option"
  sn_timezone :: string
  sn_business_name :: string

record outbound_message =
  om_type :: string
  om_body :: "string option"
  om_interactive_id :: "string option"
  om_payload :: "pydict option"
  om_optional :: bool

record transition =
  tr_state :: conversation_state
  tr_context :: pydict
  tr_enabled :: bool
  tr_handoff :: string
  tr_outbound :: outbound_message
  tr_name :: "string option"
  tr_follow_ups :: "outbound_message list"

type_synonym dialogue = "snapshot \<Rightarrow> conversation_input \<Rightarrow> messaging_error + transition option"

text \<open>\<open>normalize_customer_name\<close> and \<open>normalize_profile_customer_name\<close> of the interpreter.\<close>

record name_reader =
  nr_learned :: "string option \<Rightarrow> string option"
  nr_profile :: "string option \<Rightarrow> string option"

section \<open>Reading the conversation\<close>

definition effective_customer_name :: "name_reader \<Rightarrow> customer \<Rightarrow> string option" where
  "effective_customer_name nr u =
     (let learned = nr_learned nr (cu_name u)
      in if (cu_name_source u = Some ''manual'' \<or> cu_name_source u = Some ''conversation'') \<and> learned \<noteq> None then learned
         else if nr_profile nr (cu_profile_name u) \<noteq> None then nr_profile nr (cu_profile_name u)
         else learned)"

definition locked_rows :: "messaging_db \<Rightarrow> uuid \<Rightarrow> uuid \<Rightarrow> (conversation \<times> tenant \<times> customer) list" where
  "locked_rows db b c =
     concat (map (\<lambda>r. concat (map (\<lambda>n. map (\<lambda>u. (r, n, u))
          (filter (\<lambda>u. cu_business u = cv_business r \<and> cu_id u = cv_customer r) (md_customers db)))
        (filter (\<lambda>n. tn_id n = cv_business r) (md_tenants db)))) (conversations_at db b c))"

definition snapshot_of :: "name_reader \<Rightarrow> conversation \<times> tenant \<times> customer \<Rightarrow> snapshot" where
  "snapshot_of nr = (\<lambda>(r, n, u).
     \<lparr>sn_business = cv_business r, sn_customer = cv_customer r, sn_conversation = cv_id r, sn_state = cv_state r,
      sn_context = cv_context r, sn_enabled = cv_enabled r, sn_handoff = cv_handoff r, sn_assistant = tn_assistant n,
      sn_greeting = tn_greeting n, sn_fallback = tn_fallback n, sn_handoff_message = tn_handoff n,
      sn_name = effective_customer_name nr u, sn_profile = cu_profile_name u, sn_timezone = tn_timezone n,
      sn_business_name = tn_name n\<rparr>)"

definition lock_conversation :: "name_reader \<Rightarrow> messaging_db \<Rightarrow> uuid \<Rightarrow> uuid \<Rightarrow> messaging_error + snapshot" where
  "lock_conversation nr db b c = and_then (exactly_one (locked_rows db b c)) (\<lambda>row. Inr (snapshot_of nr row))"

section \<open>Storing the answer\<close>

definition outbound_key :: "conversation_input \<Rightarrow> string" where
  "outbound_key i =
     ''conversation:outbound:'' @ sha256_hex (join [CHR 0x1F]
        [uuid_text (in_business i), uuid_text (in_conversation i), in_provider_id i])"

definition sequence_group :: "string \<Rightarrow> string" where
  "sequence_group key = take 32 (sha256_hex key)"

definition or_empty_dict :: "pydict option \<Rightarrow> pydict" where
  "or_empty_dict p = (case p of None \<Rightarrow> [] | Some d \<Rightarrow> d)"

text \<open>The marks of a message: the handoff, an optional one, and its place \<open>(group, index, count)\<close>.\<close>

definition message_payload ::
  "outbound_message \<Rightarrow> conversation_state \<Rightarrow> (string \<times> int \<times> int) option \<Rightarrow> pydict option" where
  "message_payload om st place =
     (let p1 = (if st = HumanHandoff
                then Some (dict_set (or_empty_dict (om_payload om)) ''_alovia_transition'' (PStr ''handoff''))
                else om_payload om);
          p2 = (if om_optional om then Some (dict_set (or_empty_dict p1) ''_alovia_optional'' (PBool True)) else p1)
      in case place of None \<Rightarrow> p2
         | Some (g, i, n) \<Rightarrow>
             Some (dict_set (dict_set (dict_set (or_empty_dict p2) ''_alovia_sequence_group'' (PStr g))
               ''_alovia_sequence_index'' (PInt i)) ''_alovia_sequence_count'' (PInt n)))"

definition outbound_row ::
  "uuid \<Rightarrow> instant \<Rightarrow> snapshot \<Rightarrow> transition \<Rightarrow> string \<Rightarrow> outbound_message \<Rightarrow> (string \<times> int \<times> int) option \<Rightarrow> message" where
  "outbound_row i tx sn tr key om place =
     \<lparr>ms_id = i, ms_business = sn_business sn, ms_conversation = sn_conversation sn, ms_provider_id = None,
      ms_direction = ''outbound'', ms_type = om_type om, ms_body = om_body om,
      ms_interactive_id = om_interactive_id om, ms_media_id = None, ms_media_mime = None, ms_media_filename = None,
      ms_media_sha256 = None, ms_payload = message_payload om (tr_state tr) place, ms_status = ''pending'',
      ms_sent_at = None, ms_key = Some key, ms_created = tx\<rparr>"

text \<open>\<open>ON CONFLICT (idempotency_key) DO NOTHING RETURNING id\<close>.\<close>

definition insert_keyed :: "message \<Rightarrow> messaging_db \<Rightarrow> messaging_error + bool \<times> messaging_db" where
  "insert_keyed m db =
     (if list_ex (\<lambda>x. ms_key x = ms_key m) (md_messages db) then Inr (False, db)
      else and_then (insert_message m db) (\<lambda>db'. Inr (True, db')))"

definition place_of :: "transition \<Rightarrow> string \<Rightarrow> int \<Rightarrow> (string \<times> int \<times> int) option" where
  "place_of tr key k =
     (if tr_follow_ups tr = [] then None
      else Some (sequence_group key, k, 1 + int (length (tr_follow_ups tr))))"

definition follow_up_key :: "string \<Rightarrow> nat \<Rightarrow> string" where
  "follow_up_key key k = key @ '':followup:'' @ str_of_int (int k)"

text \<open>\<open>uuid4\<close> gives the \<open>k\<close>-th message its identifier.\<close>

fun insert_follow_ups ::
  "(nat \<Rightarrow> uuid) \<Rightarrow> instant \<Rightarrow> snapshot \<Rightarrow> transition \<Rightarrow> string \<Rightarrow> nat \<Rightarrow> outbound_message list \<Rightarrow> messaging_db
   \<Rightarrow> messaging_error + messaging_db" where
  "insert_follow_ups ids tx sn tr key k [] db = Inr db"
| "insert_follow_ups ids tx sn tr key k (om # oms) db =
     and_then (insert_keyed (outbound_row (ids k) tx sn tr (follow_up_key key k) om (place_of tr key (int k))) db)
       (\<lambda>(inserted, db1). insert_follow_ups ids tx sn tr key (k + 1) oms db1)"

definition settle_conversation :: "snapshot \<Rightarrow> transition \<Rightarrow> messaging_db \<Rightarrow> messaging_db" where
  "settle_conversation sn tr =
     update_conversations (\<lambda>r. cv_business r = sn_business sn \<and> cv_id r = sn_conversation sn)
       (\<lambda>r. r\<lparr>cv_state := state_value (tr_state tr), cv_context := tr_context tr, cv_enabled := tr_enabled tr,
          cv_handoff := tr_handoff tr\<rparr>)"

definition ask_for_person :: "snapshot \<Rightarrow> transition \<Rightarrow> string \<Rightarrow> messaging_db \<Rightarrow> messaging_db" where
  "ask_for_person sn tr key db =
     (if tr_handoff tr = ''waiting'' \<and> sn_handoff sn \<noteq> ''waiting''
      then insert_push (''human-intervention:'' @ sha256_hex key) (sn_business sn) ''human_intervention''
             (''/app/conversas/'' @ uuid_text (sn_conversation sn)) db
      else db)"

definition learn_name :: "snapshot \<Rightarrow> transition \<Rightarrow> messaging_db \<Rightarrow> messaging_db" where
  "learn_name sn tr db =
     (case tr_name tr of None \<Rightarrow> db
      | Some n \<Rightarrow> db\<lparr>md_customers := update_where
          (\<lambda>u. cu_business u = sn_business sn \<and> cu_id u = sn_customer sn \<and> cu_name_source u \<noteq> Some ''manual'')
          (\<lambda>u. u\<lparr>cu_name := Some n, cu_name_source := Some ''conversation''\<rparr>) (md_customers db)\<rparr>)"

definition persist_transition ::
  "(nat \<Rightarrow> uuid) \<Rightarrow> instant \<Rightarrow> snapshot \<Rightarrow> transition \<Rightarrow> string \<Rightarrow> messaging_db \<Rightarrow> messaging_error + bool \<times> messaging_db" where
  "persist_transition ids tx sn tr key db =
     and_then (insert_keyed (outbound_row (ids 0) tx sn tr key (tr_outbound tr) (place_of tr key 0)) db)
       (\<lambda>(inserted, db1).
          if \<not> inserted then Inr (False, db1)
          else and_then (insert_follow_ups ids tx sn tr key 1 (tr_follow_ups tr) db1)
            (\<lambda>db2. Inr (True, learn_name sn tr (ask_for_person sn tr key (settle_conversation sn tr db2)))))"

section \<open>The engine\<close>

definition outbound_exists :: "messaging_db \<Rightarrow> string \<Rightarrow> messaging_error + bool" where
  "outbound_exists db key =
     and_then (one_or_none (map ms_id (filter (\<lambda>m. ms_key m = Some key) (md_messages db)))) (\<lambda>r. Inr (r \<noteq> None))"

definition process ::
  "name_reader \<Rightarrow> dialogue \<Rightarrow> (nat \<Rightarrow> uuid) \<Rightarrow> instant \<Rightarrow> conversation_input \<Rightarrow> messaging_db
   \<Rightarrow> messaging_error + bool \<times> messaging_db" where
  "process nr dialogue ids tx i db =
     and_then (lock_conversation nr db (in_business i) (in_conversation i))
       (\<lambda>sn. if \<not> sn_assistant sn \<or> \<not> sn_enabled sn then Inr (False, db)
          else and_then (outbound_exists db (outbound_key i))
            (\<lambda>found. if found then Inr (False, db)
               else and_then (dialogue sn i)
                 (\<lambda>tr. case tr of None \<Rightarrow> Inr (False, db)
                    | Some t \<Rightarrow> persist_transition ids tx sn t (outbound_key i) db)))"

text \<open>The engine as the worker calls it; the answer of \<open>process\<close> is not used.\<close>

definition conversation_engine :: "name_reader \<Rightarrow> dialogue \<Rightarrow> (nat \<Rightarrow> uuid) \<Rightarrow> instant \<Rightarrow> engine" where
  "conversation_engine nr dialogue ids tx i db = and_then (process nr dialogue ids tx i db) (\<lambda>(done, db'). Inr db')"

end
