(* ===== verification/EngineFacts.thy ===== *)
theory EngineFacts
  imports Engine SendGuards AnswerGuards
begin

text \<open>
  The engine answers a message once, its messages form a sequence that the queue of outgoing messages
  sends in order, and the notice of a handoff passes the queue although the automation is off.
\<close>

section \<open>What is stored\<close>

lemma inserted_message:
  "insert_message m db = Inr db' \<Longrightarrow> db' = db\<lparr>md_messages := md_messages db @ [m]\<rparr> \<and> ms_id m \<notin> ms_id ` set (md_messages db)"
  by (auto simp: insert_message_def list_ex_iff split: if_splits)

lemma insert_keyed_Inr:
  "insert_keyed m db = Inr (b, db') \<Longrightarrow>
     (if b then db' = db\<lparr>md_messages := md_messages db @ [m]\<rparr> \<and> ms_id m \<notin> ms_id ` set (md_messages db)
        \<and> ms_key m \<notin> ms_key ` set (md_messages db)
      else db' = db \<and> ms_key m \<in> ms_key ` set (md_messages db))"
  by (auto simp: insert_keyed_def list_ex_iff and_then_Inr image_iff eq_commute [of "ms_key m"] dest!: inserted_message split: if_splits)

text \<open>The messages of an answer.\<close>

definition answer_row :: "(nat \<Rightarrow> uuid) \<Rightarrow> instant \<Rightarrow> snapshot \<Rightarrow> transition \<Rightarrow> string \<Rightarrow> nat \<Rightarrow> message" where
  "answer_row ids tx sn tr key k =
     outbound_row (ids k) tx sn tr (if k = 0 then key else follow_up_key key k)
       (if k = 0 then tr_outbound tr else tr_follow_ups tr ! (k - 1)) (place_of tr key (int k))"

lemma answer_row_sel [simp]:
  "ms_id (answer_row ids tx sn tr key k) = ids k" "ms_business (answer_row ids tx sn tr key k) = sn_business sn"
  "ms_conversation (answer_row ids tx sn tr key k) = sn_conversation sn"
  "ms_direction (answer_row ids tx sn tr key k) = ''outbound''" "ms_status (answer_row ids tx sn tr key k) = ''pending''"
  by (simp_all add: answer_row_def outbound_row_def)

lemma str_of_nat_inj: "str_of_int (int j) = str_of_int (int k) \<Longrightarrow> j = k"
proof -
  assume "str_of_int (int j) = str_of_int (int k)"
  then have "digits_of (int j) = digits_of (int k)" by (simp add: str_of_int_def)
  then have "int j = int k" by (metis parse_digits_of of_nat_0_le_iff option.inject)
  then show "j = k" by simp
qed

lemma follow_up_key_inj: "follow_up_key key j = follow_up_key key k \<Longrightarrow> j = k"
  by (rule str_of_nat_inj) (simp add: follow_up_key_def)

lemma drop_Suc_tail: "drop n xs = y # ys \<Longrightarrow> drop (Suc n) xs = ys"
  by (metis drop_Suc list.sel(3) tl_drop)

lemma insert_follow_ups_rows:
  assumes "insert_follow_ups ids tx sn tr key k oms db = Inr db'" and "oms = drop (k - 1) (tr_follow_ups tr)" "0 < k"
    and "\<And>j. k \<le> j \<Longrightarrow> Some (follow_up_key key j) \<notin> ms_key ` set (md_messages db)"
  shows "db' = db\<lparr>md_messages := md_messages db @ map (answer_row ids tx sn tr key) [k ..< k + length oms]\<rparr>
    \<and> distinct (map ids [k ..< k + length oms]) \<and> ids ` {k ..< k + length oms} \<inter> ms_id ` set (md_messages db) = {}"
  using assms
proof (induction oms arbitrary: k db)
  case (Cons om oms)
  let ?m = "answer_row ids tx sn tr key k"
  have om: "om = tr_follow_ups tr ! (k - 1)" "oms = drop k (tr_follow_ups tr)"
    using Cons.prems(3) nth_via_drop [OF Cons.prems(2) [symmetric]] drop_Suc_tail [OF Cons.prems(2) [symmetric]] by simp_all
  then have m: "outbound_row (ids k) tx sn tr (follow_up_key key k) om (place_of tr key (int k)) = ?m"
    using Cons.prems(3) by (simp add: answer_row_def)
  obtain b db1 where i: "insert_keyed ?m db = Inr (b, db1)" and r: "insert_follow_ups ids tx sn tr key (k + 1) oms db1 = Inr db'"
    using Cons.prems(1) by (auto simp: and_then_Inr m)
  have key: "ms_key ?m = Some (follow_up_key key k)" using Cons.prems(3) by (simp add: answer_row_def outbound_row_def)
  then have b: "b" using insert_keyed_Inr [OF i] Cons.prems(4) [of k] by (auto split: if_splits)
  with insert_keyed_Inr [OF i] have db1: "db1 = db\<lparr>md_messages := md_messages db @ [?m]\<rparr>" and new: "ids k \<notin> ms_id ` set (md_messages db)"
    by auto
  have fresh: "Some (follow_up_key key j) \<notin> ms_key ` set (md_messages db1)" if "k + 1 \<le> j" for j
    using Cons.prems(4) [of j] that follow_up_key_inj [of key j k] by (auto simp: db1 key)
  have "oms = drop (k + 1 - 1) (tr_follow_ups tr)" using om(2) by simp
  from Cons.IH [OF r this _ fresh]
  have ih: "db' = db1\<lparr>md_messages := md_messages db1 @ map (answer_row ids tx sn tr key) [k + 1 ..< k + 1 + length oms]\<rparr>"
    "distinct (map ids [k + 1 ..< k + 1 + length oms])"
    "ids ` {k + 1 ..< k + 1 + length oms} \<inter> ms_id ` set (md_messages db1) = {}" by auto
  have range: "[k ..< k + length (om # oms)] = k # [k + 1 ..< k + 1 + length oms]" by (simp add: upt_conv_Cons del: upt_Suc)
  have set: "{k ..< k + length (om # oms)} = insert k {k + 1 ..< k + 1 + length oms}" by auto
  show ?case unfolding range set using ih new by (auto simp: db1)
qed simp

text \<open>What a stored answer leaves.\<close>

definition fresh_answer :: "messaging_env \<Rightarrow> string \<Rightarrow> messaging_db \<Rightarrow> bool" where
  "fresh_answer env key db \<longleftrightarrow>
     (\<forall>m \<in> set (md_messages db). (\<forall>j. ms_key m \<noteq> Some (follow_up_key key j))
        \<and> payload_text (me_json env) (ms_payload m) ''_alovia_sequence_group'' \<noteq> Some (sequence_group key))"

lemma persist_messages:
  assumes "persist_transition ids tx sn tr key db = Inr (True, db')" and "\<forall>m \<in> set (md_messages db). \<forall>j. ms_key m \<noteq> Some (follow_up_key key j)"
  shows "md_messages db' = md_messages db @ map (answer_row ids tx sn tr key) [0 ..< Suc (length (tr_follow_ups tr))]
    \<and> distinct (map ids [0 ..< Suc (length (tr_follow_ups tr))])
    \<and> ids ` {0 ..< Suc (length (tr_follow_ups tr))} \<inter> ms_id ` set (md_messages db) = {}"
proof -
  let ?m = "answer_row ids tx sn tr key 0" and ?n = "length (tr_follow_ups tr)"
  obtain db1 db2 where i: "insert_keyed ?m db = Inr (True, db1)"
    and f: "insert_follow_ups ids tx sn tr key 1 (tr_follow_ups tr) db1 = Inr db2"
    and db': "db' = learn_name sn tr (ask_for_person sn tr key (settle_conversation sn tr db2))"
    using assms(1) by (auto simp: persist_transition_def and_then_Inr answer_row_def split: if_splits)
  from insert_keyed_Inr [OF i] have db1: "db1 = db\<lparr>md_messages := md_messages db @ [?m]\<rparr>" and new: "ids 0 \<notin> ms_id ` set (md_messages db)"
    by auto
  have key: "ms_key ?m = Some key" by (simp add: answer_row_def outbound_row_def)
  have fresh: "Some (follow_up_key key j) \<notin> ms_key ` set (md_messages db1)" for j
    using assms(2) by (auto simp: db1 key follow_up_key_def image_iff eq_commute)
  have "md_messages db' = md_messages db2"
    by (simp add: db' learn_name_def ask_for_person_def settle_conversation_def insert_push_def split: option.split)
  moreover have "[0 ..< Suc ?n] = 0 # [1 ..< 1 + ?n]" "{0 ..< Suc ?n} = insert 0 {1 ..< 1 + ?n}"
    by (simp_all add: upt_conv_Cons atLeastLessThan_def set_eq_iff del: upt_Suc) (auto simp: upt_rec [of 0] simp del: upt_Suc)
  ultimately show ?thesis
    using insert_follow_ups_rows [OF f _ _ fresh] new by (auto simp: db1)
qed

section \<open>One answer\<close>

lemma count_keys_answer:
  assumes "insert_follow_ups ids tx sn tr key k oms db = Inr db'"
  shows "filter (\<lambda>m. ms_key m = Some key) (md_messages db') = filter (\<lambda>m. ms_key m = Some key) (md_messages db)"
  using assms
proof (induction oms arbitrary: k db)
  case (Cons om oms)
  then obtain b db1 where i: "insert_keyed (outbound_row (ids k) tx sn tr (follow_up_key key k) om (place_of tr key (int k))) db = Inr (b, db1)"
    and r: "insert_follow_ups ids tx sn tr key (k + 1) oms db1 = Inr db'"
    by (auto simp: and_then_Inr)
  from insert_keyed_Inr [OF i]
  have "filter (\<lambda>m. ms_key m = Some key) (md_messages db1) = filter (\<lambda>m. ms_key m = Some key) (md_messages db)"
    by (auto simp: outbound_row_def follow_up_key_def split: if_splits)
  with Cons.IH [OF r] show ?case by simp
qed simp

lemma settled_messages [simp]:
  "md_messages (learn_name sn tr (ask_for_person sn tr key (settle_conversation sn tr db))) = md_messages db"
  by (simp add: learn_name_def ask_for_person_def settle_conversation_def insert_push_def split: option.split)

lemma one_stored_answer:
  assumes "persist_transition ids tx sn tr key db = Inr (True, db')"
  shows "\<exists>m. filter (\<lambda>m. ms_key m = Some key) (md_messages db') = [m]"
proof -
  let ?m = "answer_row ids tx sn tr key 0"
  obtain db1 db2 where i: "insert_keyed ?m db = Inr (True, db1)"
    and f: "insert_follow_ups ids tx sn tr key 1 (tr_follow_ups tr) db1 = Inr db2"
    and db': "md_messages db' = md_messages db2"
    using assms by (auto simp: persist_transition_def and_then_Inr answer_row_def split: if_splits)
  have key: "ms_key ?m = Some key" by (simp add: answer_row_def outbound_row_def)
  from insert_keyed_Inr [OF i] have "filter (\<lambda>m. ms_key m = Some key) (md_messages db1) = [?m]"
    by (auto simp: key filter_empty_conv) (metis imageI)
  with count_keys_answer [OF f] db' show ?thesis by simp
qed

lemma process_answered:
  assumes "process nr d ids tx i db = Inr (True, db')"
  obtains sn tr where "lock_conversation nr db (in_business i) (in_conversation i) = Inr sn"
    and "sn_assistant sn" "sn_enabled sn" and "d sn i = Inr (Some tr)"
    and "persist_transition ids tx sn tr (outbound_key i) db = Inr (True, db')"
  using assms by (auto simp: process_def and_then_Inr split: if_splits option.splits)

lemma process_found:
  assumes "process nr d ids tx i db = Inr (answered, db')" and "Some (outbound_key i) \<in> ms_key ` set (md_messages db)"
  shows "\<not> answered \<and> db' = db"
proof -
  have "filter (\<lambda>m. ms_key m = Some (outbound_key i)) (md_messages db) \<noteq> []"
    using assms(2) by (auto simp: filter_empty_conv)
  then have "outbound_exists db (outbound_key i) = Inr b \<Longrightarrow> b" for b
    by (auto simp: outbound_exists_def and_then_Inr one_or_none_Inr)
  then show ?thesis using assms(1) by (auto simp: process_def and_then_Inr split: if_splits)
qed

text \<open>The rows that are locked keep their keys.\<close>

lemma length_locked_rows:
  assumes "md_tenants db' = md_tenants db" and "md_conversations db' = update_where p f (md_conversations db)"
    and "md_customers db' = update_where q g (md_customers db)"
    and "\<And>r. cv_business (f r) = cv_business r \<and> cv_id (f r) = cv_id r \<and> cv_customer (f r) = cv_customer r"
    and "\<And>u. cu_business (g u) = cu_business u \<and> cu_id (g u) = cu_id u"
  shows "length (locked_rows db' b c) = length (locked_rows db b c)"
proof -
  let ?f = "\<lambda>r. if p r then f r else r" and ?g = "\<lambda>u. if q u then g u else u"
  have c: "conversations_at db' b c = map ?f (conversations_at db b c)"
    by (simp add: conversations_at_def assms(2) update_where_def filter_map o_def assms(4) if_distrib
        conversation_at_def [abs_def])
  have u: "filter (\<lambda>u. cu_business u = x \<and> cu_id u = y) (md_customers db')
    = map ?g (filter (\<lambda>u. cu_business u = x \<and> cu_id u = y) (md_customers db))" for x y
    by (simp add: assms(3) update_where_def filter_map o_def assms(5) if_distrib)
  show ?thesis
    by (simp add: locked_rows_def c u assms(1,4) length_concat o_def if_distrib)
qed

lemma persist_rows:
  assumes "persist_transition ids tx sn tr key db = Inr (True, db')"
  shows "length (locked_rows db' b c) = length (locked_rows db b c)"
proof -
  obtain db1 db2 where i: "insert_keyed (outbound_row (ids 0) tx sn tr key (tr_outbound tr) (place_of tr key 0)) db = Inr (True, db1)"
    and f: "insert_follow_ups ids tx sn tr key 1 (tr_follow_ups tr) db1 = Inr db2"
    and db': "db' = learn_name sn tr (ask_for_person sn tr key (settle_conversation sn tr db2))"
    using assms by (auto simp: persist_transition_def and_then_Inr split: if_splits)
  have "insert_follow_ups ids tx sn tr key k oms s = Inr s' \<Longrightarrow> md_tenants s' = md_tenants s
      \<and> md_conversations s' = md_conversations s \<and> md_customers s' = md_customers s" for k oms s s'
    by (induction oms arbitrary: k s) (auto simp: and_then_Inr dest!: insert_keyed_Inr split: if_splits)
  from this [OF f] insert_keyed_Inr [OF i]
  have db2: "md_tenants db2 = md_tenants db" "md_conversations db2 = md_conversations db" "md_customers db2 = md_customers db"
    by auto
  have same: "xs = update_where (\<lambda>_. False) id xs" for xs :: "'a list" by (simp add: update_where_def)
  let ?f = "\<lambda>r. r\<lparr>cv_state := state_value (tr_state tr), cv_context := tr_context tr, cv_enabled := tr_enabled tr, cv_handoff := tr_handoff tr\<rparr>"
  let ?p = "\<lambda>r. cv_business r = sn_business sn \<and> cv_id r = sn_conversation sn"
  have t: "md_tenants db' = md_tenants db" and r: "md_conversations db' = update_where ?p ?f (md_conversations db)"
    by (simp_all add: db' db2 learn_name_def ask_for_person_def settle_conversation_def insert_push_def split: option.split)
  show ?thesis
  proof (cases "tr_name tr")
    case None
    then have "md_customers db' = update_where (\<lambda>_. False) id (md_customers db)"
      by (simp add: db' db2 learn_name_def ask_for_person_def settle_conversation_def insert_push_def same [symmetric])
    from length_locked_rows [OF t r this] show ?thesis by simp
  next
    case (Some n)
    then have "md_customers db' = update_where
        (\<lambda>u. cu_business u = sn_business sn \<and> cu_id u = sn_customer sn \<and> cu_name_source u \<noteq> Some ''manual'')
        (\<lambda>u. u\<lparr>cu_name := Some n, cu_name_source := Some ''conversation''\<rparr>) (md_customers db)"
      by (simp add: db' db2 learn_name_def ask_for_person_def settle_conversation_def insert_push_def)
    from length_locked_rows [OF t r this] show ?thesis by simp
  qed
qed

lemma answered_again:
  assumes "process nr d ids tx i db = Inr (True, db')"
  shows "process nr2 d2 ids2 tx2 i db' = Inr (False, db')"
proof -
  obtain sn tr where l: "lock_conversation nr db (in_business i) (in_conversation i) = Inr sn"
    and p: "persist_transition ids tx sn tr (outbound_key i) db = Inr (True, db')"
    using process_answered [OF assms] by blast
  obtain m where m: "filter (\<lambda>m. ms_key m = Some (outbound_key i)) (md_messages db') = [m]"
    using one_stored_answer [OF p] by blast
  have "length (locked_rows db (in_business i) (in_conversation i)) = 1"
    using l by (auto simp: lock_conversation_def and_then_Inr)
  then have "length (locked_rows db' (in_business i) (in_conversation i)) = Suc 0"
    using persist_rows [OF p] by simp
  then obtain x where "locked_rows db' (in_business i) (in_conversation i) = [x]"
    unfolding length_Suc_conv by auto
  then show ?thesis
    by (simp add: process_def lock_conversation_def and_then_def outbound_exists_def one_or_none_def m)
qed

section \<open>The messages of an answer go out in order\<close>

fun send_in_order :: "instant \<Rightarrow> (nat \<Rightarrow> uuid) \<Rightarrow> (nat \<Rightarrow> string) \<Rightarrow> nat \<Rightarrow> messaging_db \<Rightarrow> messaging_db" where
  "send_in_order t ids pid 0 db = db"
| "send_in_order t ids pid (Suc k) db = mark_sent t (send_in_order t ids pid k db) (ids k) (pid k)"

lemma filter_upt_eq: "filter (\<lambda>j. j = k) [0 ..< n] = (if k < n then [k] else [])"
  by (induction n) auto

lemma filter_map_upt:
  assumes "\<And>j. j < n \<Longrightarrow> P (g j) \<longleftrightarrow> j = k"
  shows "filter P (map g [0 ..< n]) = (if k < n then [g k] else [])"
proof -
  have "filter P (map g [0 ..< n]) = map g (filter (\<lambda>j. j = k) [0 ..< n])"
    unfolding filter_map by (rule arg_cong [of _ _ "map g"], rule filter_cong) (auto simp: assms)
  then show ?thesis by (simp add: filter_upt_eq)
qed

lemma str_of_nat_eq [simp]: "str_of_int (int j) = str_of_int (int k) \<longleftrightarrow> j = k"
  using str_of_nat_inj by auto

lemma answer_place:
  assumes "tr_follow_ups tr \<noteq> []"
  shows "payload_get (ms_payload (answer_row ids tx sn tr key j)) ''_alovia_sequence_group'' = Some (PStr (sequence_group key))"
    and "payload_get (ms_payload (answer_row ids tx sn tr key j)) ''_alovia_sequence_index'' = Some (PInt (int j))"
    and "payload_get (ms_payload (answer_row ids tx sn tr key j)) ''_alovia_sequence_count'' = Some (PInt (1 + int (length (tr_follow_ups tr))))"
    and "ms_payload (answer_row ids tx sn tr key j) \<noteq> None"
  using assms by (simp_all add: answer_row_def outbound_row_def place_of_def message_payload_def Let_def payload_get_def)

text \<open>The answer after its first \<open>k\<close> messages were sent.\<close>

definition sent_rows :: "(nat \<Rightarrow> message) \<Rightarrow> instant \<Rightarrow> (nat \<Rightarrow> string) \<Rightarrow> nat \<Rightarrow> nat \<Rightarrow> message" where
  "sent_rows row t pid k j = (if j < k then message_sent (pid j) t (row j) else row j)"

lemma sent_rows_sel [simp]:
  "ms_id (sent_rows row t pid k j) = ms_id (row j)" "ms_business (sent_rows row t pid k j) = ms_business (row j)"
  "ms_conversation (sent_rows row t pid k j) = ms_conversation (row j)" "ms_direction (sent_rows row t pid k j) = ms_direction (row j)"
  "ms_payload (sent_rows row t pid k j) = ms_payload (row j)"
  "ms_status (sent_rows row t pid k j) = (if j < k then ''sent'' else ms_status (row j))"
  by (simp_all add: sent_rows_def message_sent_def)

lemma send_in_order_messages:
  assumes "md_messages db' = old @ map row [0 ..< n]" and "\<And>j. ms_id (row j) = ids j"
    and "inj_on ids {0 ..< n}" and "ids ` {0 ..< n} \<inter> ms_id ` set old = {}" and "k \<le> n"
  shows "md_messages (send_in_order t ids pid k db') = old @ map (sent_rows row t pid k) [0 ..< n]"
  using assms(5)
proof (induction k)
  case 0
  then show ?case by (simp add: assms(1) sent_rows_def)
next
  case (Suc k)
  have old: "ms_id x \<noteq> ids k" if "x \<in> set old" for x
  proof -
    have "ids k \<in> ids ` {0 ..< n}" using Suc.prems by simp
    then show ?thesis using assms(4) that by (metis disjoint_iff imageI)
  qed
  have "update_where (\<lambda>m. ms_id m = ids k) (message_sent (pid k) t) old = old"
    unfolding update_where_def by (rule map_idI) (use old in auto)
  moreover have "update_where (\<lambda>m. ms_id m = ids k) (message_sent (pid k) t) (map (sent_rows row t pid k) [0 ..< n])
      = map (sent_rows row t pid (Suc k)) [0 ..< n]"
  proof -
    have "ids j = ids k \<longleftrightarrow> j = k" if "j < n" for j
      using inj_on_eq_iff [OF assms(3), of j k] that Suc.prems by simp
    then show ?thesis by (auto simp: update_where_def assms(2) sent_rows_def less_Suc_eq)
  qed
  ultimately show ?case using Suc by (simp add: mark_sent_messages update_where_def)
qed

lemma next_in_order:
  assumes "md_messages s = old @ map (sent_rows row t pid (Suc k)) [0 ..< Suc n]"
    and "row = answer_row ids tx sn tr key" and "n = length (tr_follow_ups tr)" and "0 < n" and "k \<le> n"
    and "inj_on ids {0 ..< Suc n}" and "ids ` {0 ..< Suc n} \<inter> ms_id ` set old = {}"
    and "\<And>m. m \<in> set old \<Longrightarrow> payload_text (me_json env) (ms_payload m) ''_alovia_sequence_group'' \<noteq> Some (sequence_group key)"
  shows "next_sequence_message_id env s (ids k) = Inr (if k < n then Some (ids (Suc k)) else None)"
proof -
  let ?g = "sent_rows row t pid (Suc k)"
  have fu: "tr_follow_ups tr \<noteq> []" using assms(3,4) by auto
  note place = answer_place [OF fu, of ids tx sn key]
  have ids: "ids j = ids k \<longleftrightarrow> j = k" if "j < Suc n" for j
    using inj_on_eq_iff [OF assms(6), of j k] that assms(5) by simp
  have old: "ms_id x \<noteq> ids k" if "x \<in> set old" for x
  proof -
    have "ids k \<in> ids ` {0 ..< Suc n}" using assms(5) by simp
    then show ?thesis using assms(7) that by (metis disjoint_iff imageI)
  qed
  have at: "outbound_at s (ids k) = [?g k]"
  proof -
    have "filter (\<lambda>m. ms_id m = ids k \<and> ms_direction m = ''outbound'') old = []"
      using old by (auto simp: filter_empty_conv)
    moreover have "filter (\<lambda>m. ms_id m = ids k \<and> ms_direction m = ''outbound'') (map ?g [0 ..< Suc n]) = [?g k]"
      using filter_map_upt [of "Suc n" "\<lambda>m. ms_id m = ids k \<and> ms_direction m = ''outbound''" ?g k] ids assms(5)
      by (simp add: assms(2) del: upt_Suc)
    ultimately show ?thesis unfolding outbound_at_def assms(1) by simp
  qed
  let ?P = "\<lambda>x. ms_business x = sn_business sn \<and> ms_conversation x = sn_conversation sn \<and> ms_direction x = ''outbound''
    \<and> ms_status x = ''pending'' \<and> payload_text (me_json env) (ms_payload x) ''_alovia_sequence_group'' = Some (sequence_group key)
    \<and> payload_text (me_json env) (ms_payload x) ''_alovia_sequence_index'' = Some (str_of_int (int k + 1))"
  have follow: "filter ?P (md_messages s) = (if k < n then [?g (Suc k)] else [])"
  proof -
    have "filter ?P old = []" using assms(8) by (auto simp: filter_empty_conv)
    moreover have "?P (?g j) \<longleftrightarrow> j = Suc k" for j
      using str_of_nat_eq [of j "Suc k"] by (auto simp: assms(2) payload_text_def place json_text_def add.commute)
    ultimately show ?thesis
      unfolding assms(1) using filter_map_upt [of "Suc n" ?P ?g "Suc k"] by (simp del: upt_Suc)
  qed
  have seq: "sequence_place (ms_payload (row k)) = (if k < n then Some (sequence_group key, int k, 1 + int n) else None)"
    using assms(5) by (simp add: sequence_place_def assms(2,3) place)
  show ?thesis
    using follow by (simp add: next_sequence_message_id_def at one_or_none_def was_delivered_def
        seq [unfolded assms(2)] assms(2) place(4))
qed

section \<open>Handoffs\<close>

text \<open>The engine leaves the received events alone, so that its answers are among those counted there.\<close>

lemma engine_keeps_events: "keeps_events (conversation_engine nr d ids tx)"
proof -
  have f: "insert_follow_ups ids tx sn tr key k oms s = Inr s' \<Longrightarrow> md_webhooks s' = md_webhooks s" for sn tr key k oms s s'
    by (induction oms arbitrary: k s) (auto simp: and_then_Inr dest!: insert_keyed_Inr split: if_splits)
  have p: "md_webhooks s' = md_webhooks s" if a: "persist_transition ids tx sn tr key s = Inr (b, s')" for sn tr key s b s'
  proof -
    obtain b1 s1 where i: "insert_keyed (outbound_row (ids 0) tx sn tr key (tr_outbound tr) (place_of tr key 0)) s = Inr (b1, s1)"
      and r': "\<not> b1 \<longrightarrow> s' = s1" "b1 \<longrightarrow> (\<exists>s2. insert_follow_ups ids tx sn tr key 1 (tr_follow_ups tr) s1 = Inr s2
        \<and> s' = learn_name sn tr (ask_for_person sn tr key (settle_conversation sn tr s2)))"
      using a by (auto simp: persist_transition_def and_then_Inr split: prod.splits if_splits)
    then have r: "s' = s1 \<or> (\<exists>s2. insert_follow_ups ids tx sn tr key 1 (tr_follow_ups tr) s1 = Inr s2
        \<and> s' = learn_name sn tr (ask_for_person sn tr key (settle_conversation sn tr s2)))" by auto
    have "md_webhooks (learn_name sn tr (ask_for_person sn tr key (settle_conversation sn tr s2))) = md_webhooks s2" for s2
      by (simp add: learn_name_def ask_for_person_def settle_conversation_def insert_push_def split: option.split)
    moreover have "md_webhooks s1 = md_webhooks s" using insert_keyed_Inr [OF i] by (auto split: if_splits)
    ultimately show ?thesis using r f by fastforce
  qed
  have "md_webhooks s' = md_webhooks s" if "process nr d ids tx i s = Inr (b, s')" for i s b s'
    using that by (auto simp: process_def and_then_Inr dest: p split: if_splits option.splits)
  then show ?thesis by (auto simp: keeps_events_def conversation_engine_def and_then_Inr)
qed

lemma handoff_message:
  assumes "tr_state tr = HumanHandoff"
  shows "payload_get (ms_payload (answer_row ids tx sn tr key k)) ''_alovia_transition'' = Some (PStr ''handoff'')"
  using assms by (simp add: answer_row_def outbound_row_def message_payload_def Let_def payload_get_def or_empty_dict_def
      split: option.split prod.split)

section \<open>A sample answer\<close>

definition sample_text :: "string \<Rightarrow> outbound_message" where
  "sample_text body = \<lparr>om_type = ''text'', om_body = Some body, om_interactive_id = None, om_payload = None, om_optional = False\<rparr>"

definition sample_handoff :: transition where
  "sample_handoff = \<lparr>tr_state = HumanHandoff, tr_context = [], tr_enabled = False, tr_handoff = ''waiting'',
     tr_outbound = sample_text ''Certo!'', tr_name = Some ''Ana'', tr_follow_ups = [sample_text ''Chamando'', sample_text ''Ate logo'']\<rparr>"

definition sample_input :: conversation_input where
  "sample_input = \<lparr>in_business = 10, in_customer = 20, in_conversation = 30, in_provider_id = ''p'', in_type = ''text'',
     in_body = Some ''Oi'', in_interactive_id = None, in_whatsapp_id = None\<rparr>"

definition sample_reader :: name_reader where
  "sample_reader = \<lparr>nr_learned = id, nr_profile = id\<rparr>"

definition sample_snapshot :: snapshot where
  "sample_snapshot = snapshot_of sample_reader (sample_conversation, sample_tenant, sample_customer)"

definition sample_ids :: "nat \<Rightarrow> uuid" where "sample_ids k = 100 + k"

lemma sample_locked: "lock_conversation sample_reader sample_messaging 10 30 = Inr sample_snapshot"
  by (simp add: lock_conversation_def locked_rows_def sample_snapshot_def and_then_def)
    (simp add: sample_rows)

lemma sample_snapshot_sel [simp]: "sn_assistant sample_snapshot" "sn_enabled sample_snapshot"
  by (simp_all add: sample_snapshot_def snapshot_of_def sample_rows)

lemma sample_keys_differ [simp]:
  "outbound_key i \<noteq> ''reply:1''" "outbound_key i \<noteq> ''manual:outbound:1''"
  "follow_up_key (outbound_key i) k \<noteq> ''reply:1''" "follow_up_key (outbound_key i) k \<noteq> ''manual:outbound:1''"
  "follow_up_key key k \<noteq> key"
  by (simp_all add: outbound_key_def follow_up_key_def)

lemmas sample_keys_apart [simp] = sample_keys_differ [symmetric]

lemma sample_answer:
  "\<exists>db1. process sample_reader (\<lambda>_ _. Inr (Some sample_handoff)) sample_ids 0 sample_input sample_messaging = Inr (True, db1)
     \<and> length (md_messages db1) = 5"
proof -
  have none: "outbound_exists sample_messaging (outbound_key sample_input) = Inr False"
    by (simp add: outbound_exists_def sample_messaging_def sample_message_def and_then_def one_or_none_def)
  have key: "follow_up_key key (Suc 0) \<noteq> follow_up_key key (Suc (Suc 0))"
      "follow_up_key key (Suc (Suc 0)) \<noteq> follow_up_key key (Suc 0)" for key
    using follow_up_key_inj [of key "Suc 0" "Suc (Suc 0)"] by auto
  have set: "ms_key ` set (md_messages sample_messaging) = {Some ''reply:1'', Some ''manual:outbound:1''}"
      "ms_id ` set (md_messages sample_messaging) = {40, 41}" "length (md_messages sample_messaging) = 2"
    by (simp_all add: sample_messaging_def sample_message_def)
  have at: "in_business sample_input = 10" "in_conversation sample_input = 30" by (simp_all add: sample_input_def)
  have new: "insert_keyed m db = Inr (True, db\<lparr>md_messages := md_messages db @ [m]\<rparr>)"
    if "ms_provider_id m = None" "ms_key m \<notin> ms_key ` set (md_messages db)" "ms_id m \<notin> ms_id ` set (md_messages db)" for m db
    using that by (auto simp: insert_keyed_def insert_message_def list_ex_iff and_then_def image_iff)
  have sel: "ms_provider_id (outbound_row i tx sn tr k om pl) = None" "ms_id (outbound_row i tx sn tr k om pl) = i" "ms_key (outbound_row i tx sn tr k om pl) = Some k" for i tx sn tr k om pl
    by (simp_all add: outbound_row_def)
  show ?thesis
    by (simp add: process_def at sample_locked none and_then_def persist_transition_def new sel sample_handoff_def
        set sample_ids_def key)
qed

lemma sample_fresh: "fresh_answer sample_env (outbound_key sample_input) sample_messaging"
  by (simp add: fresh_answer_def sample_messaging_def sample_message_def payload_text_def payload_get_def)

section \<open>Properties\<close>

text \<open>
  C25. The engine answers a message of a customer once. After it has answered, one message is stored
  under the key of the message it answers, running it again at once stores nothing, whatever the
  dialogue and the interpreter say by then, and so does every later run that finds the answer.
\<close>

theorem engine_answers_once:
  assumes "process nr d ids tx i db = Inr (True, db1)" and "ms_key ` set (md_messages db1) \<subseteq> ms_key ` set (md_messages db2)"
  shows "length (filter (\<lambda>m. ms_key m = Some (outbound_key i)) (md_messages db1)) = 1
    \<and> process nr2 d2 ids2 tx2 i db1 = Inr (False, db1)
    \<and> (\<forall>r db3. process nr2 d2 ids2 tx2 i db2 = Inr (r, db3) \<longrightarrow> \<not> r \<and> db3 = db2)"
proof -
  obtain sn tr where "persist_transition ids tx sn tr (outbound_key i) db = Inr (True, db1)"
    using process_answered [OF assms(1)] by blast
  then obtain m where m: "filter (\<lambda>m. ms_key m = Some (outbound_key i)) (md_messages db1) = [m]"
    using one_stored_answer by blast
  then have "m \<in> set (md_messages db1) \<and> ms_key m = Some (outbound_key i)"
    using filter_eq_ConsD [OF m] by auto
  then have "Some (outbound_key i) \<in> ms_key ` set (md_messages db2)" using assms(2) by (metis imageI subsetD)
  then have "process nr2 d2 ids2 tx2 i db2 = Inr (r, db3) \<Longrightarrow> \<not> r \<and> db3 = db2" for r db3
    by (rule process_found [rotated])
  then show ?thesis using m answered_again [OF assms(1)] by auto
qed

theorem engine_answers_once_witness:
  "\<exists>db1. process sample_reader (\<lambda>_ _. Inr (Some sample_handoff)) sample_ids 0 sample_input sample_messaging = Inr (True, db1)
     \<and> process sample_reader (\<lambda>_ _. Inr (Some sample_handoff)) sample_ids 1 sample_input db1 = Inr (False, db1)"
  using sample_answer engine_answers_once [OF _ subset_refl] by metis

text \<open>
  C26. The messages of an answer go out in their order: of an answer with follow-ups, once its first
  messages were sent, the queue names exactly the next one after the last of them, and none after
  the last of all.
\<close>

theorem answer_goes_out_in_order:
  assumes "lock_conversation nr db (in_business i) (in_conversation i) = Inr sn" and "d sn i = Inr (Some tr)"
    and "process nr d ids tx i db = Inr (True, db1)" and "fresh_answer env (outbound_key i) db"
    and "tr_follow_ups tr \<noteq> []" and "k \<le> length (tr_follow_ups tr)"
  shows "next_sequence_message_id env (send_in_order t ids pid (Suc k) db1) (ids k)
    = Inr (if k < length (tr_follow_ups tr) then Some (ids (Suc k)) else None)"
proof -
  let ?n = "length (tr_follow_ups tr)" and ?row = "answer_row ids tx sn tr (outbound_key i)"
  have "persist_transition ids tx sn tr (outbound_key i) db = Inr (True, db1)"
    using process_answered [OF assms(3)] assms(1,2) by (metis sum.inject(2) option.inject)
  from persist_messages [OF this] assms(4)
  have m: "md_messages db1 = md_messages db @ map ?row [0 ..< Suc ?n]" and d: "distinct (map ids [0 ..< Suc ?n])"
    and o: "ids ` {0 ..< Suc ?n} \<inter> ms_id ` set (md_messages db) = {}"
    by (auto simp: fresh_answer_def simp del: upt_Suc)
  have inj: "inj_on ids {0 ..< Suc ?n}" using d by (simp add: distinct_map del: upt_Suc)
  from send_in_order_messages [OF m _ inj o, of "Suc k"] assms(6)
  have "md_messages (send_in_order t ids pid (Suc k) db1) = md_messages db @ map (sent_rows ?row t pid (Suc k)) [0 ..< Suc ?n]"
    by simp
  from next_in_order [OF this refl refl _ assms(6) inj o] assms(4,5)
  show ?thesis by (auto simp: fresh_answer_def)
qed

theorem answer_goes_out_in_order_witness:
  "\<exists>db1. next_sequence_message_id sample_env (send_in_order 0 sample_ids (\<lambda>_. ''wamid'') 2 db1) 101 = Inr (Some 102)"
proof -
  obtain db1 where "process sample_reader (\<lambda>_ _. Inr (Some sample_handoff)) sample_ids 0 sample_input sample_messaging = Inr (True, db1)"
    using sample_answer by blast
  then have "next_sequence_message_id sample_env (send_in_order 0 sample_ids (\<lambda>_. ''wamid'') (Suc 1) db1) (sample_ids 1)
    = Inr (if 1 < length (tr_follow_ups sample_handoff) then Some (sample_ids (Suc 1)) else None)"
    by (intro answer_goes_out_in_order [where d = "\<lambda>_ _. Inr (Some sample_handoff)" and tr = sample_handoff
          and sn = sample_snapshot, OF _ refl _ sample_fresh]) (simp_all add: sample_locked sample_input_def sample_handoff_def)
  then show ?thesis by (auto simp: sample_handoff_def sample_ids_def numeral_2_eq_2)
qed

lemma reaction_unmetered:
  assumes "lock_message env ck s i = Inr (Some st)" and "so_type st = ''reaction''"
  shows "\<not> so_quota_blocked st \<and> \<not> so_window_blocked st"
  using assms by (auto simp: lock_message_def stored_of_def Let_def split: sum.splits option.splits prod.splits if_splits)

text \<open>
  C27. The notice of a handoff goes out although the handoff turns the automation off. Whatever the
  conversation, the business and the other exclusions say when its task reads it, the task refuses a
  message the engine stored with a transition to a person exactly for one of these: an exclusion that
  ignores the contact, a business without operational access, an exhausted quota, the closed service
  window of the Basic plan, or a recipient that is no individual.
\<close>

theorem handoff_notice_passes:
  assumes "lock_conversation nr db (in_business i) (in_conversation i) = Inr sn" and "d sn i = Inr (Some tr)"
    and "tr_state tr = HumanHandoff" and "process nr d ids tx i db = Inr (True, db1)"
    and "fresh_answer env (outbound_key i) db" and "m \<in> set (md_messages db1)" and "m \<notin> set (md_messages db)"
    and "outbound_at s (ms_id m) = [m]" and "lock_message env ck s (ms_id m) = Inr (Some st)"
  shows "so_status st = ''pending'' \<and> (\<exists>r u n aliases. message_scope s m = [(r, u, n)]
    \<and> whatsapp_id_lookup_aliases (cu_whatsapp_id u) = Inr aliases \<and> so_recipient st = cu_whatsapp_id u
    \<and> (refused st \<longleftrightarrow>
        exclusion_exists s (ms_business m) [cu_whatsapp_id u] True \<or> exclusion_exists s (ms_business m) aliases True
        \<or> \<not> active_operational_access_exists s (ms_business m) (billing_provider_environment (me_environment env)) (ck_tx ck)
        \<or> ms_type m \<noteq> ''reaction'' \<and> (\<exists>x. message_usage_snapshot (me_environment env) (me_brazil env) s
              (ms_business m) True (ck_now ck) = Inr x
            \<and> (exhausted x \<or> us_plan x = Some ''basic'' \<and> basic_service_window_blocked (us_plan x) (ms_type m)
                 (latest_inbound s (ms_business m) (ms_conversation m)) (ck_now ck)))
        \<or> \<not> is_individual_whatsapp_id (cu_whatsapp_id u)))"
proof -
  have "persist_transition ids tx sn tr (outbound_key i) db = Inr (True, db1)"
    using process_answered [OF assms(4)] assms(1,2) by (metis sum.inject(2) option.inject)
  from persist_messages [OF this] assms(5,6,7) obtain k where k: "m = answer_row ids tx sn tr (outbound_key i) k"
    by (auto simp: fresh_answer_def simp del: upt_Suc)
  with handoff_message [OF assms(3)] have notice: "payload_get (ms_payload m) ''_alovia_transition'' = Some (PStr ''handoff'')"
    by simp
  have pending: "ms_status m = ''pending''" by (simp add: k)
  show ?thesis
    using assms(9)
  proof (rule lock_messageD)
    fix m' r u n al
    assume at: "outbound_at s (ms_id m) = [m']" and scope: "message_scope s m' = [(r, u, n)]"
      and al: "whatsapp_id_lookup_aliases (cu_whatsapp_id u) = Inr al" and st: "so_status st = ms_status m'"
      "so_recipient st = cu_whatsapp_id u" "so_type st = ms_type m'"
      and blocked: "so_automation_blocked st = message_blocked env ck s m' r u n al"
      and usage: "ms_status m' = ''pending'' \<and> \<not> so_automation_blocked st \<and> ms_type m' \<noteq> ''reaction'' \<longrightarrow>
        (\<exists>x. message_usage_snapshot (me_environment env) (me_brazil env) s (ms_business m') True (ck_now ck) = Inr x
          \<and> so_quota_blocked st = exhausted x
          \<and> so_window_blocked st = (us_plan x = Some ''basic'' \<and> basic_service_window_blocked (us_plan x) (ms_type m')
                 (latest_inbound s (ms_business m') (ms_conversation m')) (ck_now ck)))"
    have m': "m' = m" using at assms(8) by simp
    have b: "so_automation_blocked st \<longleftrightarrow> exclusion_exists s (ms_business m) [cu_whatsapp_id u] True
        \<or> exclusion_exists s (ms_business m) al True
        \<or> \<not> active_operational_access_exists s (ms_business m) (billing_provider_environment (me_environment env)) (ck_tx ck)"
      using notice by (auto simp: blocked m' message_blocked_def automation_blocked_def)
    have "refused st \<longleftrightarrow> so_automation_blocked st
        \<or> ms_type m \<noteq> ''reaction'' \<and> (\<exists>x. message_usage_snapshot (me_environment env) (me_brazil env) s
              (ms_business m) True (ck_now ck) = Inr x
            \<and> (exhausted x \<or> us_plan x = Some ''basic'' \<and> basic_service_window_blocked (us_plan x) (ms_type m)
                 (latest_inbound s (ms_business m) (ms_conversation m)) (ck_now ck)))
        \<or> \<not> is_individual_whatsapp_id (cu_whatsapp_id u)"
    proof (cases "so_automation_blocked st \<or> ms_type m = ''reaction''")
      case True
      then show ?thesis using reaction_unmetered [OF assms(9)] st m' by (auto simp: refused_def)
    next
      case False
      then obtain x where "message_usage_snapshot (me_environment env) (me_brazil env) s (ms_business m) True (ck_now ck) = Inr x"
        "so_quota_blocked st = exhausted x" "so_window_blocked st = (us_plan x = Some ''basic''
           \<and> basic_service_window_blocked (us_plan x) (ms_type m) (latest_inbound s (ms_business m) (ms_conversation m)) (ck_now ck))"
        using usage pending m' by auto
      then show ?thesis using False st(2) by (auto simp: refused_def)
    qed
    then show ?thesis
      using scope al st pending m'
      by (intro conjI exI [of _ r] exI [of _ u] exI [of _ n] exI [of _ al]) (simp_all add: b disj_assoc)
  qed
qed

text \<open>The notice of the sample, alone in the queue of a business without a quota.\<close>

definition sample_notice :: message where
  "sample_notice = answer_row sample_ids 0 sample_snapshot sample_handoff (outbound_key sample_input) 0"

definition sample_queue :: messaging_db where
  "sample_queue = sample_messaging\<lparr>md_messages := [sample_notice]\<rparr>"

lemma sample_month: "\<exists>start resets. monthly_window (me_brazil sample_env) (ck_now sample_clocks) = Inr (start, resets)"
proof -
  have "case monthly_window (me_brazil sample_env) (ck_now sample_clocks) of Inl _ \<Rightarrow> False | Inr _ \<Rightarrow> True" by code_simp
  then show ?thesis by (auto split: sum.splits)
qed

lemma sample_unmetered:
  "\<exists>x. message_usage_snapshot (me_environment sample_env) (me_brazil sample_env) sample_queue 10 True (ck_now sample_clocks) = Inr x
     \<and> \<not> exhausted x \<and> us_plan x = None"
  using sample_month
  by (auto simp: message_usage_snapshot_def sample_queue_def sample_messaging_def sample_tenant_def no_quota_def exhausted_def
      current_subscription_def)

lemma sample_notice_sel [simp]:
  "ms_id sample_notice = 100" "ms_business sample_notice = 10" "ms_conversation sample_notice = 30"
  "ms_type sample_notice = ''text''"
  by (simp_all add: sample_notice_def sample_ids_def sample_snapshot_def snapshot_of_def sample_conversation_def)
    (simp add: answer_row_def outbound_row_def sample_handoff_def sample_text_def)

lemma sample_notice_at: "outbound_at sample_queue 100 = [sample_notice]"
  by (simp add: outbound_at_def sample_queue_def) (simp add: sample_notice_def)

lemma sample_notice_scope:
  "message_scope sample_queue sample_notice = [(sample_conversation, sample_customer, sample_tenant)]"
  by (simp add: message_scope_def conversations_at_def conversation_at_def sample_queue_def sample_messaging_def
      sample_conversation_def sample_customer_def sample_tenant_def)

lemma sample_notice_locked: "\<exists>st. lock_message sample_env sample_clocks sample_queue 100 = Inr (Some st)"
proof -
  obtain x where "message_usage_snapshot (me_environment sample_env) (me_brazil sample_env) sample_queue 10 True (ck_now sample_clocks) = Inr x"
    using sample_unmetered by blast
  moreover have "conversations_at sample_queue 10 30 = [sample_conversation]"
    by (simp add: conversations_at_def conversation_at_def sample_queue_def sample_messaging_def sample_conversation_def)
  ultimately show ?thesis
    by (simp add: lock_message_def sample_notice_at one_or_none_def sample_notice_scope sample_aliases Let_def sample_customer_def)
qed

theorem handoff_notice_passes_witness:
  "\<exists>st. lock_message sample_env sample_clocks sample_queue 100 = Inr (Some st) \<and> so_status st = ''pending'' \<and> \<not> refused st"
proof -
  obtain db1 where p: "process sample_reader (\<lambda>_ _. Inr (Some sample_handoff)) sample_ids 0 sample_input sample_messaging = Inr (True, db1)"
    using sample_answer by blast
  have l: "lock_conversation sample_reader sample_messaging (in_business sample_input) (in_conversation sample_input) = Inr sample_snapshot"
    by (simp add: sample_input_def sample_locked)
  have "persist_transition sample_ids 0 sample_snapshot sample_handoff (outbound_key sample_input) sample_messaging = Inr (True, db1)"
    using process_answered [OF p] l by (metis sum.inject(2) option.inject)
  from persist_messages [OF this] sample_fresh
  have m: "sample_notice \<in> set (md_messages db1)"
    by (auto simp: fresh_answer_def sample_notice_def simp del: upt_Suc)
  have new: "sample_notice \<notin> set (md_messages sample_messaging)"
  proof
    assume "sample_notice \<in> set (md_messages sample_messaging)"
    then have "ms_id sample_notice \<in> ms_id ` set (md_messages sample_messaging)" by (rule imageI)
    then show False by (simp add: sample_messaging_def sample_message_def)
  qed
  obtain st where st: "lock_message sample_env sample_clocks sample_queue 100 = Inr (Some st)"
    using sample_notice_locked by blast
  have clear: "\<not> exclusion_exists sample_queue b w True"
    "active_operational_access_exists sample_queue 10 e t" for b w e t
    by (simp_all add: exclusion_exists_def sample_queue_def sample_messaging_def sample_exclusion_def
        active_operational_access_exists_def legacy_paid_access_exists_def)
  have one: "is_individual_whatsapp_id ''5511987654321''" by code_simp
  show ?thesis
    using handoff_notice_passes [where d = "\<lambda>_ _. Inr (Some sample_handoff)", OF l refl _ p sample_fresh m new, of sample_queue
        sample_clocks st] sample_notice_at st sample_unmetered clear one
    by (auto simp: sample_notice_scope sample_handoff_def sample_customer_def)
qed

end
