(* ===== verification/Accounts.thy ===== *)
theory Accounts
  imports BillingData Sha256 "HOL-Library.Product_Lexorder"
begin

text \<open>
  Accounts and sessions (\<open>app/auth/service.py\<close>, \<open>security.py\<close>, the rows of \<open>app/models/auth.py\<close> and
  the guards of \<open>app/api/operational_pwa.py\<close>). A request either answers and commits its writes or
  raises and leaves the tables alone. Argon2, the fresh tokens and identifiers and the clock are
  arguments; the digest of a token is SHA-256 itself. An operation that reads before it locks is split
  into what it reads and what it writes, so that another may come between. Left out are the signed
  access tokens, the validators of \<open>schemas.py\<close>, which normalise the address and the name, the checks of
  the tables on formats that these validators and the digests satisfy, and the columns of the default
  services that are the same for all.
\<close>

section \<open>Rows\<close>

record user_row =
  ur_id :: uuid
  ur_email :: string
  ur_hash :: string
  ur_active :: bool
  ur_role :: "string option"

record business_row =
  br_id :: uuid
  br_name :: string
  br_timezone :: string
  br_active :: bool

record membership_row =
  mb_user :: uuid
  mb_business :: uuid
  mb_role :: string

record auth_session =
  as_id :: uuid
  as_user :: uuid
  as_business :: "uuid option"
  as_token :: string
  as_expires :: instant
  as_revoked :: "instant option"

record reset_row =
  rt_id :: uuid
  rt_user :: uuid
  rt_token :: string
  rt_expires :: instant
  rt_used :: "instant option"
  rt_revoked :: "instant option"

text \<open>A device that receives push messages, and a message waiting for it.\<close>

record push_subscription =
  wp_id :: uuid
  wp_session :: uuid

record push_delivery =
  wd_subscription :: uuid

record service_default =
  sd_business :: uuid
  sd_name :: string
  sd_minutes :: int
  sd_asks_tubing :: bool
  sd_tubing :: "int option"

record account_db =
  au_users :: "user_row list"
  au_businesses :: "business_row list"
  au_members :: "membership_row list"
  au_sessions :: "auth_session list"
  au_resets :: "reset_row list"
  au_devices :: "push_subscription list"
  au_deliveries :: "push_delivery list"
  au_services :: "service_default list"
  au_billing :: billing_db

text \<open>Keys, unique columns and the references of the memberships; a violation discards the transaction.\<close>

definition account_constraints :: "account_db \<Rightarrow> (string \<times> bool) list" where
  "account_constraints db =
     [(''pk_users'', distinct (map ur_id (au_users db))),
      (''uq_users_email'', distinct (map ur_email (au_users db))),
      (''pk_businesses'', distinct (map br_id (au_businesses db))),
      (''pk_business_user_memberships'', distinct (map (\<lambda>m. (mb_user m, mb_business m)) (au_members db))),
      (''fk_business_user_memberships_user_id'', list_all (\<lambda>m. list_ex (\<lambda>u. ur_id u = mb_user m) (au_users db)) (au_members db)),
      (''fk_business_user_memberships_business_id'',
         list_all (\<lambda>m. list_ex (\<lambda>b. br_id b = mb_business m) (au_businesses db)) (au_members db)),
      (''pk_business_access'', distinct (map ac_business (bd_access (au_billing db)))),
      (''pk_auth_sessions'', distinct (map as_id (au_sessions db))),
      (''uq_auth_sessions_refresh_token_hash'', distinct (map as_token (au_sessions db))),
      (''pk_password_reset_tokens'', distinct (map rt_id (au_resets db))),
      (''uq_password_reset_tokens_token_hash'', distinct (map rt_token (au_resets db)))]"

definition account_commit :: "account_db \<Rightarrow> billing_error + account_db" where
  "account_commit db =
     (case filter (\<lambda>(n, holds). \<not> holds) (account_constraints db) of
        [] \<Rightarrow> Inr db
      | (n, holds) # rest \<Rightarrow> Inl (ConstraintError n))"

section \<open>Passwords and tokens\<close>

text \<open>Argon2: \<open>verify hash password\<close> and \<open>hash salt password\<close>.\<close>

record crypto =
  cy_verify :: "string \<Rightarrow> string \<Rightarrow> bool"
  cy_hash :: "string \<Rightarrow> string \<Rightarrow> string"

text \<open>The clock, the settings, and what the operation draws at random.\<close>

record account_context =
  ax_environment :: environment
  ax_now :: instant
  ax_id :: "nat \<Rightarrow> uuid"
  ax_token :: "nat \<Rightarrow> string"
  ax_salt :: string

definition refresh_ttl :: instant where "refresh_ttl = 30 * 24 * 3600 * 1000000"

definition password_reset_ttl :: instant where "password_reset_ttl = 30 * 60 * 1000000"

definition hash_password :: "crypto \<Rightarrow> account_context \<Rightarrow> string \<Rightarrow> billing_error + string" where
  "hash_password cy ax p =
     (if 8 \<le> length p \<and> length p \<le> 1024 then Inr (cy_hash cy (ax_salt ax) p)
      else Inl (UncaughtError ''Password must contain 8 to 1024 characters''))"

text \<open>Without a stored hash a dummy one is verified, and the answer is no.\<close>

definition verify_password :: "crypto \<Rightarrow> string \<Rightarrow> string option \<Rightarrow> bool" where
  "verify_password cy p stored = (case stored of None \<Rightarrow> False | Some h \<Rightarrow> h \<noteq> [] \<and> cy_verify cy h p)"

definition token_hash :: "string \<Rightarrow> string" where
  "token_hash t = sha256_hex t"

definition unauthorized :: billing_error where
  "unauthorized = HttpError 401 ''Authentication required''"

section \<open>Memberships\<close>

record membership =
  mr_business :: uuid
  mr_name :: string
  mr_role :: string
  mr_access :: string
  mr_history :: bool
  mr_full :: bool
  mr_state :: string

definition access_of :: "account_db \<Rightarrow> uuid \<Rightarrow> access_row option" where
  "access_of db b = first (filter (\<lambda>a. ac_business a = b) (bd_access (au_billing db)))"

definition effective_access :: "account_context \<Rightarrow> account_db \<Rightarrow> uuid \<Rightarrow> string" where
  "effective_access ax db b =
     (if (case access_of db b of None \<Rightarrow> True | Some a \<Rightarrow> ac_mode a = ''paid'' \<or> ac_full a)
         \<or> entitled (au_billing db) b (billing_provider_environment (ax_environment ax)) (ax_now ax)
      then ''paid'' else ''free'')"

definition membership_of :: "account_context \<Rightarrow> account_db \<Rightarrow> membership_row \<times> business_row \<Rightarrow> membership" where
  "membership_of ax db = (\<lambda>(m, b).
     let access = effective_access ax db (br_id b);
         history = (case access_of db (br_id b) of None \<Rightarrow> True | Some a \<Rightarrow> ac_history a)
     in \<lparr>mr_business = mb_business m, mr_name = br_name b, mr_role = mb_role m, mr_access = access,
         mr_history = history, mr_full = (case access_of db (br_id b) of None \<Rightarrow> False | Some a \<Rightarrow> ac_full a),
         mr_state = (if access = ''paid'' then ''active'' else if history then ''payment_blocked'' else ''demo'')\<rparr>)"

definition member_rows :: "account_db \<Rightarrow> uuid \<Rightarrow> (membership_row \<times> business_row) list" where
  "member_rows db u =
     sort_key (\<lambda>(m, b). (br_name b, br_id b))
       (concat (map (\<lambda>m. map (Pair m) (filter (\<lambda>b. br_id b = mb_business m \<and> br_active b) (au_businesses db)))
          (filter (\<lambda>m. mb_user m = u) (au_members db))))"

definition memberships :: "account_context \<Rightarrow> account_db \<Rightarrow> user_row \<Rightarrow> membership list" where
  "memberships ax db u =
     (if ur_role u = Some ''super_admin'' then [] else map (membership_of ax db) (member_rows db (ur_id u)))"

record principal =
  pl_user :: user_row
  pl_session :: auth_session
  pl_memberships :: "membership list"

definition active_membership :: "principal \<Rightarrow> billing_error + membership" where
  "active_membership p =
     (if ur_role (pl_user p) = Some ''super_admin'' then Inl (HttpError 403 ''Use the platform administration area'')
      else (case first (filter (\<lambda>m. Some (mr_business m) = as_business (pl_session p)) (pl_memberships p)) of
          None \<Rightarrow> Inl (HttpError 403 ''Select an authorized business'')
        | Some m \<Rightarrow> Inr m))"

text \<open>What every operation of the agenda and of the conversations asks first.\<close>

definition reading_membership :: "principal \<Rightarrow> billing_error + membership" where
  "reading_membership p =
     and_then (active_membership p)
       (\<lambda>m. if mr_access m \<noteq> ''paid'' \<and> \<not> mr_history m then Inl (HttpError 402 ''Subscription required'') else Inr m)"

definition authorize :: "principal \<Rightarrow> string list \<Rightarrow> billing_error + membership" where
  "authorize p roles =
     and_then (reading_membership p)
       (\<lambda>m. if mr_access m \<noteq> ''paid'' then Inl (HttpError 402 ''Active subscription required'')
          else if mr_role m \<notin> set roles then Inl (HttpError 403 ''Read-only access'') else Inr m)"

record me =
  me_id :: uuid
  me_email :: string
  me_role :: "string option"
  me_business :: "uuid option"
  me_memberships :: "membership list"

definition principal_view :: "principal \<Rightarrow> me" where
  "principal_view p =
     \<lparr>me_id = ur_id (pl_user p), me_email = ur_email (pl_user p), me_role = ur_role (pl_user p),
      me_business = (case as_business (pl_session p) of None \<Rightarrow> None
        | Some b \<Rightarrow> if b \<in> set (map mr_business (pl_memberships p)) then Some b else None),
      me_memberships = pl_memberships p\<rparr>"

section \<open>Sessions\<close>

definition new_session :: "account_context \<Rightarrow> nat \<Rightarrow> uuid \<Rightarrow> uuid option \<Rightarrow> auth_session" where
  "new_session ax k u b =
     \<lparr>as_id = ax_id ax k, as_user = u, as_business = b, as_token = token_hash (ax_token ax k),
      as_expires = ax_now ax + refresh_ttl, as_revoked = None\<rparr>"

definition select_default :: "account_context \<Rightarrow> account_db \<Rightarrow> user_row \<Rightarrow> auth_session \<Rightarrow> auth_session" where
  "select_default ax db u s =
     (let ms = memberships ax db u
      in if as_business s \<in> Some ` set (map mr_business ms) then s
         else s\<lparr>as_business := (case ms of [m] \<Rightarrow> Some (mr_business m) | _ \<Rightarrow> None)\<rparr>)"

definition session_at :: "(auth_session \<Rightarrow> bool) \<Rightarrow> account_db \<Rightarrow> auth_session option" where
  "session_at p db = first (filter p (au_sessions db))"

definition user_at :: "(user_row \<Rightarrow> bool) \<Rightarrow> account_db \<Rightarrow> user_row option" where
  "user_at p db = first (filter p (au_users db))"

definition put_session :: "auth_session \<Rightarrow> account_db \<Rightarrow> account_db" where
  "put_session s db = db\<lparr>au_sessions := update_where (\<lambda>x. as_id x = as_id s) (\<lambda>_. s) (au_sessions db)\<rparr>"

definition add_session :: "auth_session \<Rightarrow> account_db \<Rightarrow> account_db" where
  "add_session s db = db\<lparr>au_sessions := au_sessions db @ [s]\<rparr>"

definition remove_for_auth_session :: "uuid \<Rightarrow> account_db \<Rightarrow> account_db" where
  "remove_for_auth_session i db =
     (let ids = map wp_id (filter (\<lambda>d. wp_session d = i) (au_devices db))
      in if ids = [] then db
         else db\<lparr>au_deliveries := filter (\<lambda>d. wd_subscription d \<notin> set ids) (au_deliveries db),
                 au_devices := filter (\<lambda>d. wp_id d \<notin> set ids) (au_devices db)\<rparr>)"

definition revoke_session :: "instant \<Rightarrow> auth_session \<Rightarrow> account_db \<Rightarrow> account_db" where
  "revoke_session now s db = put_session (s\<lparr>as_revoked := Some now\<rparr>) (remove_for_auth_session (as_id s) db)"

definition open_sessions :: "uuid \<Rightarrow> account_db \<Rightarrow> auth_session list" where
  "open_sessions u db = filter (\<lambda>s. as_user s = u \<and> as_revoked s = None) (au_sessions db)"

definition revoke_sessions :: "instant \<Rightarrow> uuid \<Rightarrow> uuid option \<Rightarrow> account_db \<Rightarrow> account_db" where
  "revoke_sessions now u keep db =
     fold (revoke_session now) (filter (\<lambda>s. Some (as_id s) \<noteq> keep) (open_sessions u db)) db"

text \<open>A session as every request presents it.\<close>

definition session_over :: "instant \<Rightarrow> auth_session \<Rightarrow> bool" where
  "session_over now s \<longleftrightarrow> as_revoked s \<noteq> None \<or> as_expires s \<le> now"

definition token_refused :: "string option \<Rightarrow> bool" where
  "token_refused t = (case t of None \<Rightarrow> True | Some x \<Rightarrow> x = [] \<or> 256 < length x)"

definition session_of_token :: "string option \<Rightarrow> account_db \<Rightarrow> auth_session option" where
  "session_of_token t db =
     (case t of None \<Rightarrow> None | Some x \<Rightarrow> session_at (\<lambda>s. as_token s = token_hash x) db)"

definition authenticate :: "account_context \<Rightarrow> uuid \<Rightarrow> uuid \<Rightarrow> account_db \<Rightarrow> billing_error + principal" where
  "authenticate ax u i db =
     (case session_at (\<lambda>s. as_id s = i \<and> as_user s = u) db of
        None \<Rightarrow> Inl unauthorized
      | Some s \<Rightarrow>
          if session_over (ax_now ax) s then Inl unauthorized
          else (case user_at (\<lambda>x. ur_id x = u) db of
              None \<Rightarrow> Inl unauthorized
            | Some x \<Rightarrow> if \<not> ur_active x then Inl unauthorized
                else Inr \<lparr>pl_user = x, pl_session = s, pl_memberships = memberships ax db x\<rparr>))"

type_synonym signed_in = "user_row \<times> auth_session \<times> string"

definition refresh :: "account_context \<Rightarrow> string option \<Rightarrow> account_db \<Rightarrow> billing_error + signed_in \<times> account_db" where
  "refresh ax t db =
     (if token_refused t then Inl unauthorized
      else (case session_of_token t db of
          None \<Rightarrow> Inl unauthorized
        | Some s \<Rightarrow>
            if session_over (ax_now ax) s then Inl unauthorized
            else (case user_at (\<lambda>x. ur_id x = as_user s) db of
                None \<Rightarrow> Inl unauthorized
              | Some x \<Rightarrow>
                  if \<not> ur_active x then Inl unauthorized
                  else let s' = select_default ax db x (s\<lparr>as_token := token_hash (ax_token ax 0)\<rparr>)
                       in and_then (account_commit (put_session s' db)) (\<lambda>db'. Inr ((x, s', ax_token ax 0), db')))))"

definition logout :: "account_context \<Rightarrow> string option \<Rightarrow> account_db \<Rightarrow> billing_error + unit \<times> account_db" where
  "logout ax t db =
     (if token_refused t then Inr ((), db)
      else (case session_of_token t db of
          None \<Rightarrow> Inr ((), db)
        | Some s \<Rightarrow> and_then (account_commit (revoke_session (ax_now ax) s db)) (\<lambda>db'. Inr ((), db'))))"

definition select_business :: "principal \<Rightarrow> uuid \<Rightarrow> account_db \<Rightarrow> billing_error + me \<times> account_db" where
  "select_business p b db =
     (if ur_role (pl_user p) = Some ''super_admin'' \<or> b \<notin> set (map mr_business (pl_memberships p))
      then Inl (HttpError 403 ''Business access denied'')
      else let s = (pl_session p)\<lparr>as_business := Some b\<rparr>
           in and_then (account_commit (put_session s db))
                (\<lambda>db'. Inr (principal_view (p\<lparr>pl_session := s\<rparr>), db')))"

section \<open>Passwords\<close>

definition outstanding :: "uuid \<Rightarrow> reset_row \<Rightarrow> bool" where
  "outstanding u r \<longleftrightarrow> rt_user r = u \<and> rt_used r = None \<and> rt_revoked r = None"

definition revoke_resets :: "instant \<Rightarrow> uuid \<Rightarrow> uuid option \<Rightarrow> account_db \<Rightarrow> account_db" where
  "revoke_resets now u keep db =
     db\<lparr>au_resets := update_where (\<lambda>r. outstanding u r \<and> Some (rt_id r) \<noteq> keep) (\<lambda>r. r\<lparr>rt_revoked := Some now\<rparr>)
          (au_resets db)\<rparr>"

definition put_user :: "user_row \<Rightarrow> account_db \<Rightarrow> account_db" where
  "put_user u db = db\<lparr>au_users := update_where (\<lambda>x. ur_id x = ur_id u) (\<lambda>_. u) (au_users db)\<rparr>"

record reset_issue =
  ri_id :: uuid
  ri_email :: string
  ri_token :: string

definition issue_password_reset ::
  "account_context \<Rightarrow> string \<Rightarrow> account_db \<Rightarrow> billing_error + reset_issue option \<times> account_db" where
  "issue_password_reset ax email db =
     (case user_at (\<lambda>x. ur_email x = email \<and> ur_active x) db of
        None \<Rightarrow> Inr (None, db)
      | Some u \<Rightarrow>
          let db1 = revoke_resets (ax_now ax) (ur_id u) None db;
              r = \<lparr>rt_id = ax_id ax 0, rt_user = ur_id u, rt_token = token_hash (ax_token ax 0),
                   rt_expires = ax_now ax + password_reset_ttl, rt_used = None, rt_revoked = None\<rparr>
          in and_then (account_commit (db1\<lparr>au_resets := au_resets db1 @ [r]\<rparr>))
               (\<lambda>db'. Inr (Some \<lparr>ri_id = rt_id r, ri_email = ur_email u, ri_token = ax_token ax 0\<rparr>, db')))"

text \<open>When the mail cannot be sent.\<close>

definition revoke_password_reset :: "account_context \<Rightarrow> uuid \<Rightarrow> account_db \<Rightarrow> billing_error + unit \<times> account_db" where
  "revoke_password_reset ax i db =
     (case first (filter (\<lambda>r. rt_id r = i) (au_resets db)) of
        None \<Rightarrow> Inr ((), db)
      | Some r \<Rightarrow>
          if rt_used r \<noteq> None \<or> rt_revoked r \<noteq> None then Inr ((), db)
          else and_then (account_commit (db\<lparr>au_resets := update_where (\<lambda>x. rt_id x = i)
                 (\<lambda>x. x\<lparr>rt_revoked := Some (ax_now ax)\<rparr>) (au_resets db)\<rparr>)) (\<lambda>db'. Inr ((), db')))"

definition change_password ::
  "crypto \<Rightarrow> account_context \<Rightarrow> principal \<Rightarrow> string \<Rightarrow> string \<Rightarrow> account_db \<Rightarrow> billing_error + unit \<times> account_db" where
  "change_password cy ax p old new db =
     (case user_at (\<lambda>x. ur_id x = ur_id (pl_user p) \<and> ur_active x) db of
        None \<Rightarrow> Inl unauthorized
      | Some u \<Rightarrow>
          (case session_at (\<lambda>s. as_id s = as_id (pl_session p) \<and> as_user s = ur_id u \<and> \<not> session_over (ax_now ax) s) db of
             None \<Rightarrow> Inl unauthorized
           | Some s \<Rightarrow>
               if \<not> verify_password cy old (Some (ur_hash u)) then Inl (HttpError 400 ''Current password is incorrect'')
               else if verify_password cy new (Some (ur_hash u)) then Inl (HttpError 400 ''New password must be different'')
               else and_then (hash_password cy ax new)
                 (\<lambda>h. and_then (account_commit (revoke_sessions (ax_now ax) (ur_id u) (Some (as_id (pl_session p)))
                          (revoke_resets (ax_now ax) (ur_id u) None (put_user (u\<lparr>ur_hash := h\<rparr>) db))))
                    (\<lambda>db'. Inr ((), db')))))"

definition reset_refused :: billing_error where
  "reset_refused = HttpError 400 ''Invalid or expired reset token''"

definition reset_password ::
  "crypto \<Rightarrow> account_context \<Rightarrow> string \<Rightarrow> string \<Rightarrow> account_db \<Rightarrow> billing_error + unit \<times> account_db" where
  "reset_password cy ax t new db =
     (if t = [] \<or> 256 < length t then Inl reset_refused
      else (case first (filter (\<lambda>r. rt_token r = token_hash t) (au_resets db)) of
          None \<Rightarrow> Inl reset_refused
        | Some owner \<Rightarrow>
      (case user_at (\<lambda>x. ur_id x = rt_user owner \<and> ur_active x) db of
          None \<Rightarrow> Inl reset_refused
        | Some u \<Rightarrow>
      (case first (filter (\<lambda>r. rt_token r = token_hash t \<and> rt_user r = ur_id u) (au_resets db)) of
          None \<Rightarrow> Inl reset_refused
        | Some r \<Rightarrow>
            if rt_used r \<noteq> None \<or> rt_revoked r \<noteq> None \<or> rt_expires r \<le> ax_now ax then Inl reset_refused
            else if verify_password cy new (Some (ur_hash u)) then Inl (HttpError 400 ''New password must be different'')
            else and_then (hash_password cy ax new)
              (\<lambda>h. let db1 = put_user (u\<lparr>ur_hash := h\<rparr>) db;
                      db2 = db1\<lparr>au_resets := update_where (\<lambda>x. rt_id x = rt_id r)
                              (\<lambda>x. x\<lparr>rt_used := Some (ax_now ax)\<rparr>) (au_resets db1)\<rparr>
                   in and_then (account_commit (revoke_sessions (ax_now ax) (ur_id u) None
                            (revoke_resets (ax_now ax) (ur_id u) (Some (rt_id r)) db2)))
                        (\<lambda>db'. Inr ((), db')))))))"

section \<open>Signing in\<close>

text \<open>The row is read without a lock; the session is written later.\<close>

definition login_read :: "crypto \<Rightarrow> string \<Rightarrow> string \<Rightarrow> account_db \<Rightarrow> billing_error + user_row" where
  "login_read cy email p db =
     (case user_at (\<lambda>x. ur_email x = email) db of
        None \<Rightarrow> Inl (HttpError 401 ''Invalid email or password'')
      | Some u \<Rightarrow> if verify_password cy p (Some (ur_hash u)) \<and> ur_active u then Inr u
          else Inl (HttpError 401 ''Invalid email or password''))"

definition login_write :: "account_context \<Rightarrow> user_row \<Rightarrow> account_db \<Rightarrow> billing_error + signed_in \<times> account_db" where
  "login_write ax u db =
     (let s = select_default ax db u (new_session ax 0 (ur_id u) None)
      in and_then (account_commit (add_session s db)) (\<lambda>db'. Inr ((u, s, ax_token ax 0), db')))"

definition login ::
  "crypto \<Rightarrow> account_context \<Rightarrow> string \<Rightarrow> string \<Rightarrow> account_db \<Rightarrow> billing_error + signed_in \<times> account_db" where
  "login cy ax email p db = and_then (login_read cy email p db) (\<lambda>u. login_write ax u db)"

section \<open>Signing up\<close>

record signup_request =
  sg_business :: string
  sg_email :: string
  sg_password :: string

definition default_operational_services :: "(string \<times> string \<times> int) list" where
  "default_operational_services =
     [(''split-installation'', ''Instala'' @ [CHR 0xE7, CHR 0xE3] @ ''o de ar-condicionado split'', 180),
      (''cleaning'', ''Limpeza e higieniza'' @ [CHR 0xE7, CHR 0xE3] @ ''o'', 90),
      (''preventive-maintenance'', ''Manuten'' @ [CHR 0xE7, CHR 0xE3] @ ''o preventiva'', 90),
      (''diagnostics'', ''Diagn'' @ [CHR 0xF3] @ ''stico / manuten'' @ [CHR 0xE7, CHR 0xE3] @ ''o corretiva'', 120),
      (''gas-recharge'', ''Recarga de g'' @ [CHR 0xE1] @ ''s e teste de vazamento'', 120)]"

definition default_services_for_business :: "uuid \<Rightarrow> service_default list" where
  "default_services_for_business b =
     map (\<lambda>(key, name, minutes). \<lparr>sd_business = b, sd_name = name, sd_minutes = minutes,
            sd_asks_tubing = (key = ''split-installation''),
            sd_tubing = (if key = ''split-installation'' then Some 3 else None)\<rparr>)
       default_operational_services"

text \<open>\<open>None\<close>: no business has the key as its identifier.\<close>

definition signup_replay ::
  "crypto \<Rightarrow> account_context \<Rightarrow> nat \<Rightarrow> signup_request \<Rightarrow> uuid \<Rightarrow> account_db
   \<Rightarrow> billing_error + (signed_in \<times> account_db) option" where
  "signup_replay cy ax k q key db =
     (case first (filter (\<lambda>b. br_id b = key) (au_businesses db)) of
        None \<Rightarrow> Inr None
      | Some b \<Rightarrow>
          let m = first (filter (\<lambda>m. mb_business m = br_id b \<and> mb_role m = ''owner'') (au_members db));
              u = (case m of None \<Rightarrow> None | Some r \<Rightarrow> user_at (\<lambda>x. ur_id x = mb_user r) db)
          in (case u of
              None \<Rightarrow> Inl (HttpError 400 ''Idempotency key already used for another request'')
            | Some x \<Rightarrow>
                if br_name b \<noteq> sg_business q \<or> ur_email x \<noteq> sg_email q
                   \<or> \<not> verify_password cy (sg_password q) (Some (ur_hash x))
                then Inl (HttpError 400 ''Idempotency key already used for another request'')
                else let s = new_session ax k (ur_id x) (Some (br_id b))
                     in and_then (account_commit (add_session s db)) (\<lambda>db'. Inr (Some ((x, s, ax_token ax k), db')))))"

definition replay_of ::
  "crypto \<Rightarrow> account_context \<Rightarrow> nat \<Rightarrow> signup_request \<Rightarrow> uuid option \<Rightarrow> account_db
   \<Rightarrow> billing_error + (signed_in \<times> account_db) option" where
  "replay_of cy ax k q key db = (case key of None \<Rightarrow> Inr None | Some i \<Rightarrow> signup_replay cy ax k q i db)"

definition email_taken :: "string \<Rightarrow> account_db \<Rightarrow> bool" where
  "email_taken email db \<longleftrightarrow> user_at (\<lambda>x. ur_email x = email) db \<noteq> None"

text \<open>The rows of a new account; identifiers \<open>1\<close> and \<open>2\<close> are those of the business and the user.\<close>

definition new_account ::
  "account_context \<Rightarrow> signup_request \<Rightarrow> uuid option \<Rightarrow> string \<Rightarrow> account_db \<Rightarrow> signed_in \<times> account_db" where
  "new_account ax q key h db =
     (let b = (case key of None \<Rightarrow> ax_id ax 1 | Some i \<Rightarrow> i);
          u = \<lparr>ur_id = ax_id ax 2, ur_email = sg_email q, ur_hash = h, ur_active = True, ur_role = None\<rparr>;
          s = new_session ax 0 (ur_id u) (Some b)
      in ((u, s, ax_token ax 0),
          add_session s (db\<lparr>
            au_businesses := au_businesses db @ [\<lparr>br_id = b, br_name = sg_business q, br_timezone = ''America/Sao_Paulo'', br_active = True\<rparr>],
            au_users := au_users db @ [u],
            au_members := au_members db @ [\<lparr>mb_user = ur_id u, mb_business = b, mb_role = ''owner''\<rparr>],
            au_services := au_services db @ default_services_for_business b,
            au_billing := (au_billing db)\<lparr>bd_access := bd_access (au_billing db)
              @ [\<lparr>ac_business = b, ac_mode = ''free'', ac_full = False, ac_history = False\<rparr>]\<rparr>\<rparr>)))"

text \<open>What a sign-up reads first: the account of its key, a taken address, or nothing.\<close>

definition signup_read ::
  "crypto \<Rightarrow> account_context \<Rightarrow> signup_request \<Rightarrow> uuid option \<Rightarrow> account_db
   \<Rightarrow> billing_error + (signed_in \<times> account_db) option" where
  "signup_read cy ax q key db =
     and_then (replay_of cy ax 0 q key db)
       (\<lambda>r. if r \<noteq> None then Inr r
          else if email_taken (sg_email q) db then Inl (HttpError 409 ''Email already registered'') else Inr None)"

definition signup_write ::
  "crypto \<Rightarrow> account_context \<Rightarrow> signup_request \<Rightarrow> uuid option \<Rightarrow> account_db \<Rightarrow> billing_error + signed_in \<times> account_db" where
  "signup_write cy ax q key db =
     and_then (hash_password cy ax (sg_password q))
       (\<lambda>h. let (signed, db1) = new_account ax q key h db
            in (case account_commit db1 of
                Inr db2 \<Rightarrow> Inr (signed, db2)
              | Inl _ \<Rightarrow> and_then (replay_of cy ax 3 q key db)
                  (\<lambda>r. case r of Some x \<Rightarrow> Inr x
                     | None \<Rightarrow> if email_taken (sg_email q) db then Inl (HttpError 409 ''Email already registered'')
                         else Inl (HttpError 409 ''Account could not be created''))))"

definition signup ::
  "crypto \<Rightarrow> account_context \<Rightarrow> signup_request \<Rightarrow> uuid option \<Rightarrow> account_db \<Rightarrow> billing_error + signed_in \<times> account_db" where
  "signup cy ax q key db =
     and_then (signup_read cy ax q key db)
       (\<lambda>r. case r of Some x \<Rightarrow> Inr x | None \<Rightarrow> signup_write cy ax q key db)"

section \<open>Requests\<close>

datatype account_request =
    Login string string | Signup signup_request "uuid option" | Refresh "string option" | Logout "string option"
  | Forgot string | DropReset uuid | Change uuid uuid string string | Reset string string | Select uuid uuid uuid

text \<open>A request and the tables it leaves; one that raises leaves them alone.\<close>

definition kept :: "account_db \<Rightarrow> billing_error + 'a \<times> account_db \<Rightarrow> account_db" where
  "kept db r = (case r of Inl _ \<Rightarrow> db | Inr (_, db') \<Rightarrow> db')"

fun serve_account :: "crypto \<Rightarrow> account_context \<Rightarrow> account_request \<Rightarrow> account_db \<Rightarrow> account_db" where
  "serve_account cy ax (Login e p) db = kept db (login cy ax e p db)"
| "serve_account cy ax (Signup q key) db = kept db (signup cy ax q key db)"
| "serve_account cy ax (Refresh t) db = kept db (refresh ax t db)"
| "serve_account cy ax (Logout t) db = kept db (logout ax t db)"
| "serve_account cy ax (Forgot e) db = kept db (issue_password_reset ax e db)"
| "serve_account cy ax (DropReset i) db = kept db (revoke_password_reset ax i db)"
| "serve_account cy ax (Change u i old new) db =
     kept db (and_then (authenticate ax u i db) (\<lambda>p. change_password cy ax p old new db))"
| "serve_account cy ax (Reset t new) db = kept db (reset_password cy ax t new db)"
| "serve_account cy ax (Select u i b) db = kept db (and_then (authenticate ax u i db) (\<lambda>p. select_business p b db))"

end
