(* ===== verification/AccountSafety.thy ===== *)
theory AccountSafety
  imports Accounts
begin

text \<open>
  What every request leaves of the sessions and of the tokens: rows keep their identity, what is
  revoked or used stays so, and the only new digests are those of the tokens that were drawn.
\<close>

section \<open>Keys\<close>

definition account_keys :: "account_db \<Rightarrow> bool" where
  "account_keys db \<longleftrightarrow> list_all snd (account_constraints db)"

lemma account_commit_Inr [simp]: "account_commit db = Inr db' \<longleftrightarrow> db' = db \<and> account_keys db"
proof -
  have "filter (\<lambda>(n, holds). \<not> holds) (account_constraints db) = [] \<longleftrightarrow> account_keys db"
    by (auto simp: account_keys_def filter_empty_conv list_all_iff)
  then show ?thesis
    unfolding account_commit_def by (cases "filter (\<lambda>(n, holds). \<not> holds) (account_constraints db)") auto
qed

lemma account_commit_keys: "account_keys db \<Longrightarrow> account_commit db = Inr db"
  by simp

lemma account_keysD:
  assumes "account_keys db"
  shows "distinct (map ur_id (au_users db))" "distinct (map ur_email (au_users db))" "distinct (map br_id (au_businesses db))"
    "distinct (map as_id (au_sessions db))" "distinct (map as_token (au_sessions db))"
    "distinct (map rt_id (au_resets db))" "distinct (map rt_token (au_resets db))"
  using assms by (simp_all add: account_keys_def account_constraints_def)

lemma same_key_row: "distinct (map g xs) \<Longrightarrow> x \<in> set xs \<Longrightarrow> y \<in> set xs \<Longrightarrow> g x = g y \<Longrightarrow> x = y"
  by (auto simp: distinct_map inj_on_def)

lemma first_filter: "first (filter p xs) = Some x \<Longrightarrow> x \<in> set xs \<and> p x"
  by (auto dest!: first_Some)

lemma session_at_Some: "session_at p db = Some s \<Longrightarrow> s \<in> set (au_sessions db) \<and> p s"
  unfolding session_at_def by (rule first_filter)

lemma user_at_Some: "user_at p db = Some u \<Longrightarrow> u \<in> set (au_users db) \<and> p u"
  unfolding user_at_def by (rule first_filter)

section \<open>What a request may do to the rows\<close>

definition drawn :: "account_context \<Rightarrow> string \<Rightarrow> bool" where
  "drawn ax h \<longleftrightarrow> (\<exists>k. h = token_hash (ax_token ax k))"

definition kept_session :: "account_context \<Rightarrow> auth_session \<Rightarrow> auth_session \<Rightarrow> bool" where
  "kept_session ax s s' \<longleftrightarrow>
     as_id s' = as_id s \<and> as_user s' = as_user s \<and> as_expires s' = as_expires s
     \<and> (as_revoked s \<noteq> None \<longrightarrow> as_revoked s' \<noteq> None) \<and> (as_token s' = as_token s \<or> drawn ax (as_token s'))"

definition kept_reset :: "account_context \<Rightarrow> reset_row \<Rightarrow> reset_row \<Rightarrow> bool" where
  "kept_reset ax r r' \<longleftrightarrow>
     rt_id r' = rt_id r \<and> rt_user r' = rt_user r \<and> rt_token r' = rt_token r \<and> rt_expires r' = rt_expires r
     \<and> (rt_used r \<noteq> None \<longrightarrow> rt_used r' \<noteq> None) \<and> (rt_revoked r \<noteq> None \<longrightarrow> rt_revoked r' \<noteq> None)"

text \<open>The old rows in their order, changed as \<open>R\<close> allows, and new ones for which \<open>N\<close> holds.\<close>

definition rows_grow :: "('a \<Rightarrow> 'a \<Rightarrow> bool) \<Rightarrow> ('a \<Rightarrow> bool) \<Rightarrow> 'a list \<Rightarrow> 'a list \<Rightarrow> bool" where
  "rows_grow R N xs ys \<longleftrightarrow> (\<exists>olds news. ys = olds @ news \<and> list_all2 R xs olds \<and> list_all N news)"

definition accounts_evolve :: "account_context \<Rightarrow> account_db \<Rightarrow> account_db \<Rightarrow> bool" where
  "accounts_evolve ax db db' \<longleftrightarrow>
     rows_grow (kept_session ax) (\<lambda>s. drawn ax (as_token s)) (au_sessions db) (au_sessions db')
     \<and> rows_grow (kept_reset ax) (\<lambda>r. drawn ax (rt_token r)) (au_resets db) (au_resets db')"

lemma kept_session_refl [simp]: "kept_session ax s s"
  by (simp add: kept_session_def)

lemma kept_reset_refl [simp]: "kept_reset ax r r"
  by (simp add: kept_reset_def)

lemma rows_grow_kept: "list_all2 R xs ys \<Longrightarrow> rows_grow R N xs ys"
  unfolding rows_grow_def by (rule exI [of _ ys], rule exI [of _ "[]"]) simp

lemma rows_grow_refl [simp]: "(\<And>x. R x x) \<Longrightarrow> rows_grow R N xs xs"
  by (intro rows_grow_kept) (simp add: list_all2_same)

lemma rows_grow_add: "(\<And>x. R x x) \<Longrightarrow> N y \<Longrightarrow> rows_grow R N xs (xs @ [y])"
  unfolding rows_grow_def by (rule exI [of _ xs], rule exI [of _ "[y]"]) (simp add: list_all2_same)

lemma accounts_evolve_refl [simp]: "accounts_evolve ax db db"
  by (simp add: accounts_evolve_def)

lemma list_all2_update_where:
  "(\<And>x. x \<in> set xs \<Longrightarrow> R x x) \<Longrightarrow> (\<And>x. x \<in> set xs \<Longrightarrow> p x \<Longrightarrow> R x (f x)) \<Longrightarrow> list_all2 R xs (update_where p f xs)"
  by (auto simp: update_where_def list_all2_map2 list_all2_same)

lemma rows_grow_found:
  assumes "rows_grow R N xs ys" and "y \<in> set ys"
  shows "(\<exists>x \<in> set xs. R x y) \<or> N y"
proof -
  obtain olds news where r: "ys = olds @ news" "list_all2 R xs olds" "list_all N news" using assms(1) by (auto simp: rows_grow_def)
  then show ?thesis
    using assms(2) by (auto simp: list_all_iff) (metis in_set_conv_nth list_all2_conv_all_nth)
qed

lemma rows_grow_kept_row:
  assumes "rows_grow R N xs ys" and "x \<in> set xs" shows "\<exists>y \<in> set ys. R x y"
proof -
  obtain olds news where r: "ys = olds @ news" "list_all2 R xs olds" using assms(1) by (auto simp: rows_grow_def)
  then show ?thesis using assms(2) by (metis UnI1 in_set_conv_nth list_all2_conv_all_nth set_append)
qed

section \<open>Revoking\<close>

lemma revoke_session_sel [simp]:
  "au_resets (revoke_session now s db) = au_resets db" "au_users (revoke_session now s db) = au_users db"
  "au_sessions (revoke_session now s db)
     = update_where (\<lambda>x. as_id x = as_id s) (\<lambda>_. s\<lparr>as_revoked := Some now\<rparr>) (au_sessions db)"
  by (simp_all add: revoke_session_def put_session_def remove_for_auth_session_def Let_def)

lemma put_session_row:
  assumes "distinct (map as_id (au_sessions db))" and "s \<in> set (au_sessions db)" and "as_id s' = as_id s"
  shows "au_sessions (put_session s' db) = update_where (\<lambda>x. x = s) (\<lambda>_. s') (au_sessions db)"
  using same_key_row [OF assms(1) _ assms(2)] assms(3)
  by (auto simp: put_session_def update_where_def)

text \<open>The sessions after those of a list were revoked.\<close>

definition revoked_in :: "instant \<Rightarrow> uuid set \<Rightarrow> auth_session list \<Rightarrow> auth_session list" where
  "revoked_in now ids xs = update_where (\<lambda>x. as_id x \<in> ids) (\<lambda>x. x\<lparr>as_revoked := Some now\<rparr>) xs"

lemma revoke_fold:
  assumes "distinct (map as_id (au_sessions db))" and "distinct (map as_id xs)" and "set xs \<subseteq> set (au_sessions db)"
  shows "au_sessions (fold (revoke_session now) xs db) = revoked_in now (as_id ` set xs) (au_sessions db)
    \<and> au_resets (fold (revoke_session now) xs db) = au_resets db \<and> au_users (fold (revoke_session now) xs db) = au_users db"
  using assms
proof (induction xs arbitrary: db)
  case Nil
  then show ?case by (simp add: revoked_in_def update_where_def)
next
  case (Cons s xs)
  let ?db = "revoke_session now s db"
  have same: "x = s" if "x \<in> set (au_sessions db)" "as_id x = as_id s" for x
    using same_key_row [OF Cons.prems(1) that(1)] that(2) Cons.prems(3) by auto
  have row: "au_sessions ?db = revoked_in now {as_id s} (au_sessions db)"
    using same by (auto simp: revoked_in_def update_where_def)
  have "map as_id (au_sessions ?db) = map as_id (au_sessions db)" by (auto simp: row revoked_in_def update_where_def)
  moreover have "set xs \<subseteq> set (au_sessions ?db)"
  proof
    fix x assume x: "x \<in> set xs"
    then have "as_id x \<noteq> as_id s" "x \<in> set (au_sessions db)" using Cons.prems(2,3) by (auto simp: image_iff)
    then show "x \<in> set (au_sessions ?db)" by (force simp: row revoked_in_def update_where_def image_iff)
  qed
  ultimately have ih: "au_sessions (fold (revoke_session now) xs ?db) = revoked_in now (as_id ` set xs) (au_sessions ?db)
      \<and> au_resets (fold (revoke_session now) xs ?db) = au_resets ?db \<and> au_users (fold (revoke_session now) xs ?db) = au_users ?db"
    using Cons.IH [of ?db] Cons.prems(1,2) by simp
  have "revoked_in now (as_id ` set xs) (revoked_in now {as_id s} (au_sessions db))
      = revoked_in now (as_id ` set (s # xs)) (au_sessions db)"
    by (auto simp: revoked_in_def update_where_def)
  then show ?case using ih row by simp
qed

lemma revoke_sessions_rows:
  assumes "distinct (map as_id (au_sessions db))"
  shows "au_sessions (revoke_sessions now u keep db) =
      update_where (\<lambda>s. as_user s = u \<and> as_revoked s = None \<and> Some (as_id s) \<noteq> keep) (\<lambda>s. s\<lparr>as_revoked := Some now\<rparr>) (au_sessions db)"
    and "au_resets (revoke_sessions now u keep db) = au_resets db" and "au_users (revoke_sessions now u keep db) = au_users db"
proof -
  let ?xs = "filter (\<lambda>s. Some (as_id s) \<noteq> keep) (open_sessions u db)"
  have d: "distinct (map as_id ?xs)" using assms by (simp add: open_sessions_def distinct_map_filter)
  note r = revoke_fold [OF assms d, of now]
  have ids: "as_id x \<in> as_id ` set ?xs \<longleftrightarrow> as_user x = u \<and> as_revoked x = None \<and> Some (as_id x) \<noteq> keep"
    if "x \<in> set (au_sessions db)" for x
    using same_key_row [OF assms that] that by (auto simp: open_sessions_def)
  show "au_sessions (revoke_sessions now u keep db) =
      update_where (\<lambda>s. as_user s = u \<and> as_revoked s = None \<and> Some (as_id s) \<noteq> keep) (\<lambda>s. s\<lparr>as_revoked := Some now\<rparr>) (au_sessions db)"
    using r ids by (auto simp: revoke_sessions_def open_sessions_def revoked_in_def update_where_def)
  show "au_resets (revoke_sessions now u keep db) = au_resets db" "au_users (revoke_sessions now u keep db) = au_users db"
    using r by (auto simp: revoke_sessions_def open_sessions_def)
qed

section \<open>Every request lets the rows evolve\<close>

definition requested :: "account_context \<Rightarrow> account_db \<Rightarrow> account_db \<Rightarrow> bool" where
  "requested ax db db' \<longleftrightarrow> account_keys db' \<and> accounts_evolve ax db db'"

lemma evolve_put:
  assumes "account_keys db" and "s \<in> set (au_sessions db)" and "kept_session ax s s'"
  shows "accounts_evolve ax db (put_session s' db)"
proof -
  have "as_id s' = as_id s" using assms(3) by (simp add: kept_session_def)
  note row = put_session_row [OF account_keysD(4) [OF assms(1)] assms(2) this]
  have "list_all2 (kept_session ax) (au_sessions db) (update_where (\<lambda>x. x = s) (\<lambda>_. s') (au_sessions db))"
    using assms(3) by (intro list_all2_update_where) auto
  then show ?thesis by (simp add: accounts_evolve_def rows_grow_kept row) (simp add: put_session_def)
qed

lemma evolve_add:
  "drawn ax (as_token s) \<Longrightarrow> accounts_evolve ax db (add_session s db)"
  by (simp add: accounts_evolve_def add_session_def rows_grow_add)

lemma evolve_same:
  "au_sessions db' = au_sessions db \<Longrightarrow> au_resets db' = au_resets db \<Longrightarrow> accounts_evolve ax db db'"
  by (simp add: accounts_evolve_def)

lemma evolve_replace:
  "accounts_evolve ax db db' \<Longrightarrow> au_sessions e = au_sessions db \<Longrightarrow> au_resets e = au_resets db
   \<Longrightarrow> accounts_evolve ax e db'"
  by (simp add: accounts_evolve_def)

lemma kept_select [simp]:
  "as_id (select_default ax db u s) = as_id s" "as_user (select_default ax db u s) = as_user s"
  "as_expires (select_default ax db u s) = as_expires s" "as_revoked (select_default ax db u s) = as_revoked s"
  "as_token (select_default ax db u s) = as_token s"
  by (simp_all add: select_default_def Let_def)

lemma drawn_token [simp]: "drawn ax (token_hash (ax_token ax k))"
  by (auto simp: drawn_def)

lemma new_session_sel [simp]:
  "as_token (new_session ax k u b) = token_hash (ax_token ax k)" "as_user (new_session ax k u b) = u"
  "as_id (new_session ax k u b) = ax_id ax k" "as_business (new_session ax k u b) = b"
  "as_expires (new_session ax k u b) = ax_now ax + refresh_ttl" "as_revoked (new_session ax k u b) = None"
  by (simp_all add: new_session_def)

lemma revoke_resets_rows:
  "au_resets (revoke_resets now u keep db)
     = update_where (\<lambda>r. outstanding u r \<and> Some (rt_id r) \<noteq> keep) (\<lambda>r. r\<lparr>rt_revoked := Some now\<rparr>) (au_resets db)"
  "au_sessions (revoke_resets now u keep db) = au_sessions db"
  by (simp_all add: revoke_resets_def)

lemma put_user_rows [simp]:
  "au_sessions (put_user u db) = au_sessions db" "au_resets (put_user u db) = au_resets db"
  by (simp_all add: put_user_def)

lemma evolve_revoked:
  assumes "account_keys db" and "au_sessions e = au_sessions db"
    and "rows_grow (kept_reset ax) (\<lambda>r. drawn ax (rt_token r)) (au_resets db) (au_resets e)"
  shows "accounts_evolve ax db (revoke_sessions now u keep e)"
proof -
  have "distinct (map as_id (au_sessions e))" using account_keysD(4) [OF assms(1)] assms(2) by simp
  note rows = revoke_sessions_rows [OF this]
  show ?thesis
    unfolding accounts_evolve_def rows assms(2)
    using assms(3) by (auto intro!: rows_grow_kept list_all2_update_where simp: kept_session_def)
qed

lemma kept_revoked: "rows_grow (kept_reset ax) N xs (update_where p (\<lambda>r. r\<lparr>rt_revoked := Some t\<rparr>) xs)"
  by (intro rows_grow_kept list_all2_update_where) (auto simp: kept_reset_def)

lemma kept_used:
  "rows_grow (kept_reset ax) N xs (update_where p (\<lambda>r. r\<lparr>rt_revoked := Some t\<rparr>) (update_where q (\<lambda>r. r\<lparr>rt_used := Some t\<rparr>) xs))"
  by (intro rows_grow_kept) (auto simp: kept_reset_def update_where_def list_all2_map2 list_all2_same)

lemma refresh_requested: "account_keys db \<Longrightarrow> refresh ax t db = Inr (r, db') \<Longrightarrow> requested ax db db'"
  unfolding refresh_def session_of_token_def Let_def requested_def
  by (auto simp: and_then_Inr kept_session_def intro!: evolve_put dest!: session_at_Some split: if_splits option.splits)

lemma logout_requested: "account_keys db \<Longrightarrow> logout ax t db = Inr (r, db') \<Longrightarrow> requested ax db db'"
proof -
  assume a: "account_keys db" "logout ax t db = Inr (r, db')"
  have "accounts_evolve ax db (revoke_session now s db)" if "s \<in> set (au_sessions db)" for s now
  proof -
    have "accounts_evolve ax (remove_for_auth_session (as_id s) db) (revoke_session now s db)"
      unfolding revoke_session_def
      using a(1) that
      by (intro evolve_put [of _ s]) (auto simp: account_keys_def account_constraints_def kept_session_def
        remove_for_auth_session_def Let_def)
    then show ?thesis by (rule evolve_replace) (simp_all add: remove_for_auth_session_def Let_def)
  qed
  then show ?thesis
    using a unfolding logout_def session_of_token_def requested_def
    by (auto simp: and_then_Inr dest!: session_at_Some split: if_splits option.splits)
qed

lemma select_requested:
  assumes "account_keys db" and "authenticate ax u i db = Inr p" and "select_business p b db = Inr (r, db')"
  shows "requested ax db db'"
proof -
  have "pl_session p \<in> set (au_sessions db)"
    using assms(2) by (auto simp: authenticate_def dest!: session_at_Some split: option.splits if_splits)
  then show ?thesis
    using assms(1,3) by (auto simp: select_business_def Let_def and_then_Inr requested_def kept_session_def intro!: evolve_put split: if_splits)
qed

lemma login_requested: "login cy ax e p db = Inr (r, db') \<Longrightarrow> requested ax db db'"
  by (auto simp: login_def login_write_def Let_def and_then_Inr requested_def intro!: evolve_add)

lemma replay_requested: "replay_of cy ax k q key db = Inr (Some (r, db')) \<Longrightarrow> requested ax db db'"
  by (auto simp: replay_of_def signup_replay_def Let_def and_then_Inr requested_def intro!: evolve_add split: option.splits if_splits)

lemma new_account_rows:
  "new_account ax q key h db = (r, db') \<Longrightarrow>
     (\<exists>s. au_sessions db' = au_sessions db @ [s] \<and> as_token s = token_hash (ax_token ax 0)) \<and> au_resets db' = au_resets db"
  by (auto simp: new_account_def Let_def add_session_def)

lemma write_requested:
  assumes "signup_write cy ax q key db = Inr (r, db')" shows "requested ax db db'"
proof -
  obtain h where h: "hash_password cy ax (sg_password q) = Inr h"
    using assms by (auto simp: signup_write_def elim!: and_then_InrE)
  obtain signed db1 where n: "new_account ax q key h db = (signed, db1)" by (cases "new_account ax q key h db")
  have "accounts_evolve ax db db1" using new_account_rows [OF n] by (auto simp: accounts_evolve_def rows_grow_add)
  moreover have "db' = db1 \<and> account_keys db1 \<or> replay_of cy ax 3 q key db = Inr (Some (r, db'))"
    using assms h n by (auto simp: signup_write_def and_then_Inr split: sum.splits option.splits if_splits)
  ultimately show ?thesis using replay_requested [of cy ax 3 q key db r db'] unfolding requested_def by blast
qed

lemma signup_requested: "signup cy ax q key db = Inr (r, db') \<Longrightarrow> requested ax db db'"
  by (auto simp: signup_def signup_read_def and_then_Inr intro: write_requested replay_requested split: option.splits if_splits)

lemma issue_requested: "account_keys db \<Longrightarrow> issue_password_reset ax e db = Inr (r, db') \<Longrightarrow> requested ax db db'"
proof -
  assume a: "account_keys db" "issue_password_reset ax e db = Inr (r, db')"
  show ?thesis
  proof (cases "user_at (\<lambda>x. ur_email x = e \<and> ur_active x) db")
    case None
    then show ?thesis using a by (auto simp: issue_password_reset_def requested_def)
  next
    case (Some u)
    let ?f = "update_where (\<lambda>r. outstanding (ur_id u) r) (\<lambda>r. r\<lparr>rt_revoked := Some (ax_now ax)\<rparr>) (au_resets db)"
    have "rows_grow (kept_reset ax) (\<lambda>r. drawn ax (rt_token r)) (au_resets db) (?f @ [row])"
      if "drawn ax (rt_token row)" for row
      unfolding rows_grow_def
      by (intro exI [of _ ?f] exI [of _ "[row]"]) (use that in \<open>auto intro!: list_all2_update_where simp: kept_reset_def\<close>)
    then show ?thesis
      using a Some by (auto simp: issue_password_reset_def Let_def and_then_Inr requested_def accounts_evolve_def revoke_resets_rows)
  qed
qed

lemma drop_requested: "account_keys db \<Longrightarrow> revoke_password_reset ax i db = Inr (r, db') \<Longrightarrow> requested ax db db'"
  by (auto simp: revoke_password_reset_def and_then_Inr requested_def accounts_evolve_def kept_revoked split: option.splits if_splits)

lemma change_requested:
  "account_keys db \<Longrightarrow> change_password cy ax p old new db = Inr (r, db') \<Longrightarrow> requested ax db db'"
  by (auto simp: change_password_def and_then_Inr requested_def revoke_resets_rows kept_revoked
      intro!: evolve_revoked split: option.splits if_splits)

lemma reset_requested:
  "account_keys db \<Longrightarrow> reset_password cy ax t new db = Inr (r, db') \<Longrightarrow> requested ax db db'"
  by (auto simp: reset_password_def Let_def and_then_Inr requested_def revoke_resets_rows kept_used
      intro!: evolve_revoked split: option.splits if_splits)

lemma serve_requested:
  assumes "account_keys db" shows "requested ax db (serve_account cy ax q db)"
proof -
  have k: "requested ax db (kept db r)" if "\<And>x db'. r = Inr (x, db') \<Longrightarrow> requested ax db db'" for r :: "billing_error + 'b \<times> account_db"
    using that assms by (cases r) (auto simp: kept_def requested_def)
  show ?thesis
    by (cases q) (auto intro!: k simp: and_then_Inr assms
      intro: login_requested signup_requested refresh_requested [OF assms] logout_requested [OF assms]
        issue_requested [OF assms] drop_requested [OF assms] change_requested [OF assms] reset_requested [OF assms]
        select_requested [OF assms])
qed

end
