(* ===== verification/AccountFacts.thy ===== *)
theory AccountFacts
  imports AccountSafety
begin

text \<open>
  What the accounts guarantee along any run of transactions: a session that ended stays ended, a
  refresh token is good once, a reset ends every session and every reset token its owner had, a
  repeated sign-up is one account, and a guarded operation acts for a present member with access.
\<close>

section \<open>Runs\<close>

text \<open>
  What one transaction does: a whole request, or the writing part of a request that read earlier and
  held no lock meanwhile (\<open>login\<close>, \<open>signup\<close> and its replay); the other requests hold the row of their
  user or session from the first read to the commit.
\<close>

inductive account_step :: "crypto \<Rightarrow> account_context \<Rightarrow> account_db \<Rightarrow> account_db \<Rightarrow> bool"
  for cy :: crypto and ax :: account_context and s :: account_db where
  request: "account_step cy ax s (serve_account cy ax q s)"
| late_login: "account_step cy ax s (kept s (login_write ax u s))"
| late_signup: "account_step cy ax s (kept s (signup_write cy ax q key s))"
| late_replay: "account_keys (add_session (new_session ax k i b) s)
    \<Longrightarrow> account_step cy ax s (add_session (new_session ax k i b) s)"

lemma account_step_requested:
  assumes "account_step cy ax s s'" and "account_keys s" shows "requested ax s s'"
  using assms(1)
proof cases
  case (request q)
  then show ?thesis using serve_requested [OF assms(2)] by simp
next
  case (late_login u)
  have "requested ax s s''" if "login_write ax u s = Inr (r, s'')" for r s''
    using that by (auto simp: login_write_def Let_def and_then_Inr requested_def intro!: evolve_add)
  then show ?thesis using late_login assms(2) by (auto simp: kept_def requested_def split: sum.splits prod.splits)
next
  case (late_signup q key)
  have "requested ax s s''" if "signup_write cy ax q key s = Inr (r, s'')" for r s''
    using that by (rule write_requested)
  then show ?thesis using late_signup assms(2) by (auto simp: kept_def requested_def split: sum.splits prod.splits)
next
  case (late_replay k i b)
  then show ?thesis by (auto simp: requested_def intro!: evolve_add)
qed

text \<open>
  Transactions one after the other, with fresh tokens that satisfy \<open>P\<close>, and other work in between that
  leaves sessions and resets alone (memberships, payments and users may change).
\<close>

inductive account_run :: "crypto \<Rightarrow> (account_context \<Rightarrow> bool) \<Rightarrow> account_db \<Rightarrow> account_db \<Rightarrow> bool"
  for cy :: crypto and P :: "account_context \<Rightarrow> bool" and db :: account_db where
  start: "account_run cy P db db"
| serves: "account_run cy P db s \<Longrightarrow> P ax \<Longrightarrow> account_step cy ax s s' \<Longrightarrow> account_run cy P db s'"
| elsewhere: "account_run cy P db s \<Longrightarrow> au_sessions s' = au_sessions s \<Longrightarrow> au_resets s' = au_resets s \<Longrightarrow> account_keys s'
    \<Longrightarrow> account_run cy P db s'"

lemma run_keys: "account_run cy P db s \<Longrightarrow> account_keys db \<Longrightarrow> account_keys s"
  by (induction rule: account_run.induct) (use account_step_requested in \<open>auto simp: requested_def\<close>)

text \<open>A session and a reset along a run.\<close>

definition session_after :: "auth_session \<Rightarrow> auth_session \<Rightarrow> bool" where
  "session_after x y \<longleftrightarrow> as_id y = as_id x \<and> as_user y = as_user x \<and> as_expires y = as_expires x
     \<and> (as_revoked x \<noteq> None \<longrightarrow> as_revoked y \<noteq> None)"

definition reset_after :: "reset_row \<Rightarrow> reset_row \<Rightarrow> bool" where
  "reset_after x y \<longleftrightarrow> rt_id y = rt_id x \<and> rt_user y = rt_user x \<and> rt_token y = rt_token x \<and> rt_expires y = rt_expires x
     \<and> (rt_used x \<noteq> None \<longrightarrow> rt_used y \<noteq> None) \<and> (rt_revoked x \<noteq> None \<longrightarrow> rt_revoked y \<noteq> None)"

lemma run_session:
  assumes "account_run cy P db s" and "account_keys db" and "x \<in> set (au_sessions db)"
  shows "\<exists>y \<in> set (au_sessions s). session_after x y"
  using assms(1)
proof (induction rule: account_run.induct)
  case start
  then show ?case using assms(3) by (auto simp: session_after_def intro!: bexI [of _ x])
next
  case (serves s ax s')
  then obtain y where y: "y \<in> set (au_sessions s)" "session_after x y" by blast
  have "requested ax s s'" using account_step_requested [OF serves.hyps(3)] run_keys [OF serves.hyps(1) assms(2)] by blast
  then obtain z where "z \<in> set (au_sessions s')" "kept_session ax y z"
    using rows_grow_kept_row y(1) unfolding requested_def accounts_evolve_def by metis
  with y(2) show ?case by (intro bexI [of _ z]) (auto simp: session_after_def kept_session_def)
qed auto

lemma run_reset:
  assumes "account_run cy P db s" and "account_keys db" and "x \<in> set (au_resets db)"
  shows "\<exists>y \<in> set (au_resets s). reset_after x y"
  using assms(1)
proof (induction rule: account_run.induct)
  case start
  then show ?case using assms(3) by (auto simp: reset_after_def intro!: bexI [of _ x])
next
  case (serves s ax s')
  then obtain y where y: "y \<in> set (au_resets s)" "reset_after x y" by blast
  have "requested ax s s'" using account_step_requested [OF serves.hyps(3)] run_keys [OF serves.hyps(1) assms(2)] by blast
  then obtain z where "z \<in> set (au_resets s')" "kept_reset ax y z"
    using rows_grow_kept_row y(1) unfolding requested_def accounts_evolve_def by metis
  with y(2) show ?case by (intro bexI [of _ z]) (auto simp: reset_after_def kept_reset_def)
qed auto

text \<open>A digest that no drawn token has is never that of another session.\<close>

lemma run_token:
  assumes "account_run cy P db s" and "account_keys db" and "\<And>ax. P ax \<Longrightarrow> \<not> drawn ax h"
    and "h \<notin> as_token ` set (au_sessions db)"
  shows "h \<notin> as_token ` set (au_sessions s)"
  using assms(1)
proof (induction rule: account_run.induct)
  case start
  then show ?case by (rule assms(4))
next
  case (serves s ax s')
  have "requested ax s s'" using account_step_requested [OF serves.hyps(3)] run_keys [OF serves.hyps(1) assms(2)] by blast
  then have g: "rows_grow (kept_session ax) (\<lambda>s. drawn ax (as_token s)) (au_sessions s) (au_sessions s')"
    by (simp add: requested_def accounts_evolve_def)
  show ?case
  proof
    assume "h \<in> as_token ` set (au_sessions s')"
    then obtain y where y: "y \<in> set (au_sessions s')" "as_token y = h" by auto
    from rows_grow_found [OF g y(1)] show False
      using y(2) serves.IH assms(3) [OF serves.hyps(2)] by (auto simp: kept_session_def image_iff)
  qed
qed auto

section \<open>Refusals\<close>

lemma filter_same:
  assumes "distinct (map f xs)" and "x \<in> set xs"
  shows "filter (\<lambda>y. f y = f x \<and> q y) xs = (if q x then [x] else [])"
proof -
  obtain ys zs where xs: "xs = ys @ x # zs" using split_list [OF assms(2)] by blast
  have "f x \<notin> f ` set (ys @ zs)" using assms(1) by (simp add: xs image_Un)
  then have "\<not> (f y = f x \<and> q y)" if "y \<in> set (ys @ zs)" for y using that by (metis imageI)
  then have "filter (\<lambda>y. f y = f x \<and> q y) ys = []" "filter (\<lambda>y. f y = f x \<and> q y) zs = []"
    unfolding filter_empty_conv by auto
  then show ?thesis by (simp add: xs)
qed

lemma first_only: "distinct (map f xs) \<Longrightarrow> x \<in> set xs \<Longrightarrow> f x = i \<Longrightarrow> first (filter (\<lambda>y. f y = i) xs) = Some x"
  using filter_same [of f xs x "\<lambda>_. True"] by simp

lemma authenticate_over:
  assumes "account_keys s" and "y \<in> set (au_sessions s)" and "session_over (ax_now ax) y"
  shows "authenticate ax u (as_id y) s = Inl unauthorized"
proof (cases "session_at (\<lambda>x. as_id x = as_id y \<and> as_user x = u) s")
  case (Some z)
  then have "z = y" using same_key_row [OF account_keysD(4) [OF assms(1)] _ assms(2)] session_at_Some by blast
  then show ?thesis using Some assms(3) by (simp add: authenticate_def)
qed (simp add: authenticate_def)

lemma reset_dead:
  assumes "account_keys s" and "r \<in> set (au_resets s)" and "rt_used r \<noteq> None \<or> rt_revoked r \<noteq> None"
    and "rt_token r = token_hash t"
  shows "reset_password cy ax t new s = Inl reset_refused"
proof -
  have row: "x = r" if "x \<in> set (au_resets s)" "rt_token x = token_hash t" for x
    using same_key_row [OF account_keysD(7) [OF assms(1)] that(1) assms(2)] that(2) assms(4) by simp
  have dead: "rt_used x \<noteq> None \<or> rt_revoked x \<noteq> None"
    if "first (filter (\<lambda>r. rt_token r = token_hash t \<and> rt_user r = i) (au_resets s)) = Some x" for x i
    using row first_filter [OF that] assms(3) by blast
  show ?thesis
    by (auto simp: reset_password_def dest!: dead split: option.splits)
qed

text \<open>What a reset that succeeds found and wrote.\<close>

lemma reset_password_Inr:
  assumes "account_keys db" and "reset_password cy ax t new db = Inr (v, db')"
  obtains u r h where "u \<in> set (au_users db)" "ur_active u" "r \<in> set (au_resets db)" "rt_token r = token_hash t" "rt_user r = ur_id u"
    "au_users db' = update_where (\<lambda>x. ur_id x = ur_id u) (\<lambda>_. u\<lparr>ur_hash := h\<rparr>) (au_users db)"
    "au_resets db' = update_where (\<lambda>x. outstanding (ur_id u) x \<and> rt_id x \<noteq> rt_id r) (\<lambda>x. x\<lparr>rt_revoked := Some (ax_now ax)\<rparr>)
       (update_where (\<lambda>x. rt_id x = rt_id r) (\<lambda>x. x\<lparr>rt_used := Some (ax_now ax)\<rparr>) (au_resets db))"
    "au_sessions db' = update_where (\<lambda>s. as_user s = ur_id u \<and> as_revoked s = None) (\<lambda>s. s\<lparr>as_revoked := Some (ax_now ax)\<rparr>)
       (au_sessions db)"
proof -
  obtain u r h where u: "u \<in> set (au_users db)" "ur_active u" and r: "r \<in> set (au_resets db)" "rt_token r = token_hash t"
      "rt_user r = ur_id u"
    and db': "db' = revoke_sessions (ax_now ax) (ur_id u) None (revoke_resets (ax_now ax) (ur_id u) (Some (rt_id r))
        ((put_user (u\<lparr>ur_hash := h\<rparr>) db)\<lparr>au_resets := update_where (\<lambda>x. rt_id x = rt_id r)
           (\<lambda>x. x\<lparr>rt_used := Some (ax_now ax)\<rparr>) (au_resets db)\<rparr>))"
    using assms(2)
    by (auto simp: reset_password_def Let_def and_then_Inr dest!: first_filter user_at_Some split: if_splits option.splits)
  let ?e = "revoke_resets (ax_now ax) (ur_id u) (Some (rt_id r))
        ((put_user (u\<lparr>ur_hash := h\<rparr>) db)\<lparr>au_resets := update_where (\<lambda>x. rt_id x = rt_id r)
           (\<lambda>x. x\<lparr>rt_used := Some (ax_now ax)\<rparr>) (au_resets db)\<rparr>)"
  have "distinct (map as_id (au_sessions ?e))" using account_keysD(4) [OF assms(1)] by (simp add: revoke_resets_rows)
  note rows = revoke_sessions_rows [OF this, of "ax_now ax" "ur_id u" None, folded db']
  show thesis
    by (rule that [OF u r, of h]) (simp_all add: rows revoke_resets_def put_user_def)
qed

section \<open>Properties\<close>

text \<open>
  A refresh token is good once. After it was exchanged, no later request in any run accepts it
  again, provided no token drawn since has its digest; and a session that was revoked or has
  expired never authenticates and is never refreshed again, by any of its tokens.
\<close>

theorem tokens_end:
  assumes "account_keys db" and "refresh ax0 (Some t) db = Inr (given, db1)" and "account_run cy P db1 s"
    and "\<And>ax. P ax \<or> ax = ax0 \<Longrightarrow> \<forall>k. token_hash (ax_token ax k) \<noteq> token_hash t"
    and "x \<in> set (au_sessions db1)" and "as_revoked x \<noteq> None \<or> as_expires x \<le> ax_now ax"
  shows "refresh ax (Some t) s = Inl unauthorized \<and> authenticate ax u (as_id x) s = Inl unauthorized
    \<and> (\<forall>t' y. session_of_token t' s = Some y \<and> as_id y = as_id x \<longrightarrow> refresh ax t' s = Inl unauthorized)"
proof -
  have r: "requested ax0 db db1" by (rule refresh_requested [OF assms(1,2)])
  then have k1: "account_keys db1" by (simp add: requested_def)
  have ks: "account_keys s" by (rule run_keys [OF assms(3) k1])
  obtain z where z: "z \<in> set (au_sessions db)" "as_token z = token_hash t"
      "au_sessions db1 = update_where (\<lambda>y. y = z) (\<lambda>_. select_default ax0 db (fst given) (z\<lparr>as_token := token_hash (ax_token ax0 0)\<rparr>)) (au_sessions db)"
    using assms(2) put_session_row [OF account_keysD(4) [OF assms(1)]]
    by (auto simp: refresh_def session_of_token_def Let_def and_then_Inr dest!: session_at_Some split: if_splits option.splits)
  have "token_hash t \<notin> as_token ` set (au_sessions db1)"
  proof
    assume "token_hash t \<in> as_token ` set (au_sessions db1)"
    then obtain y where y: "y \<in> set (au_sessions db)" "y \<noteq> z" "as_token y = token_hash t"
      using assms(4) [of ax0] by (auto simp: z(3) update_where_def split: if_splits)
    then show False using same_key_row [OF account_keysD(5) [OF assms(1)] y(1) z(1)] z(2) by simp
  qed
  then have "token_hash t \<notin> as_token ` set (au_sessions s)"
    using run_token [OF assms(3) k1] assms(4) unfolding drawn_def by metis
  then have "filter (\<lambda>y. as_token y = token_hash t) (au_sessions s) = []"
    by (metis (mono_tags, lifting) filter_False imageI)
  then have "session_of_token (Some t) s = None"
    by (simp add: session_of_token_def session_at_def)
  then have one: "refresh ax (Some t) s = Inl unauthorized" by (simp add: refresh_def)
  obtain y where y: "y \<in> set (au_sessions s)" "session_after x y"
    using run_session [OF assms(3) k1 assms(5)] by blast
  then have over: "session_over (ax_now ax) y" "as_id y = as_id x"
    using assms(6) by (auto simp: session_after_def session_over_def)
  have two: "authenticate ax u (as_id x) s = Inl unauthorized"
    using authenticate_over [OF ks y(1) over(1)] over(2) by simp
  have "refresh ax t' s = Inl unauthorized" if "session_of_token t' s = Some w" "as_id w = as_id x" for t' w
  proof -
    have "w \<in> set (au_sessions s)" using that(1) by (auto simp: session_of_token_def dest!: session_at_Some split: option.splits)
    then have "w = y" using same_key_row [OF account_keysD(4) [OF ks] _ y(1)] that(2) over(2) by simp
    then show ?thesis using that(1) over(1) by (simp add: refresh_def)
  qed
  with one two show ?thesis by blast
qed

text \<open>
  C38. A reset ends what the old password started. When a reset succeeded, then in every later state
  that transactions reach (sign-ins and sign-ups that read before the reset included) no session its
  owner had when it committed is accepted, and no reset token the owner had then, the one that was
  used included, resets the password again.
\<close>

theorem reset_ends_sessions:
  assumes "account_keys db" and "reset_password cy ax0 t new db = Inr ((), db1)" and "account_run cy P db1 s"
  shows "\<exists>u \<in> set (au_users db). ur_active u \<and> (\<exists>r \<in> set (au_resets db). rt_token r = token_hash t \<and> rt_user r = ur_id u)
    \<and> (\<forall>x \<in> set (au_sessions db). as_user x = ur_id u \<longrightarrow> authenticate ax v (as_id x) s = Inl unauthorized)
    \<and> (\<forall>r t'. r \<in> set (au_resets db) \<and> rt_user r = ur_id u \<and> rt_token r = token_hash t'
         \<longrightarrow> reset_password cy' ax t' new' s = Inl reset_refused)"
proof -
  obtain u r h where u: "u \<in> set (au_users db)" "ur_active u"
    and r: "r \<in> set (au_resets db)" "rt_token r = token_hash t" "rt_user r = ur_id u"
    and rows: "au_users db1 = update_where (\<lambda>x. ur_id x = ur_id u) (\<lambda>_. u\<lparr>ur_hash := h\<rparr>) (au_users db)"
      "au_resets db1 = update_where (\<lambda>x. outstanding (ur_id u) x \<and> rt_id x \<noteq> rt_id r) (\<lambda>x. x\<lparr>rt_revoked := Some (ax_now ax0)\<rparr>)
         (update_where (\<lambda>x. rt_id x = rt_id r) (\<lambda>x. x\<lparr>rt_used := Some (ax_now ax0)\<rparr>) (au_resets db))"
      "au_sessions db1 = update_where (\<lambda>s. as_user s = ur_id u \<and> as_revoked s = None) (\<lambda>s. s\<lparr>as_revoked := Some (ax_now ax0)\<rparr>)
         (au_sessions db)"
    by (rule reset_password_Inr [OF assms(1,2)])
  have k1: "account_keys db1" using reset_requested [OF assms(1,2)] by (simp add: requested_def)
  have ks: "account_keys s" by (rule run_keys [OF assms(3) k1])
  have sessions: "\<exists>y \<in> set (au_sessions db1). as_id y = as_id x \<and> as_revoked y \<noteq> None"
    if "x \<in> set (au_sessions db)" "as_user x = ur_id u" for x
    using that
    by (intro bexI [of _ "if as_revoked x = None then x\<lparr>as_revoked := Some (ax_now ax0)\<rparr> else x"])
      (auto simp: rows(3) update_where_def)
  have resets: "\<exists>y \<in> set (au_resets db1). rt_token y = rt_token x \<and> (rt_used y \<noteq> None \<or> rt_revoked y \<noteq> None)"
    if "x \<in> set (au_resets db)" "rt_user x = ur_id u" for x
  proof -
    let ?x = "if rt_id x = rt_id r then x\<lparr>rt_used := Some (ax_now ax0)\<rparr> else x"
    let ?y = "if outstanding (ur_id u) ?x \<and> rt_id ?x \<noteq> rt_id r then ?x\<lparr>rt_revoked := Some (ax_now ax0)\<rparr> else ?x"
    have "?y \<in> set (au_resets db1)" using that(1) by (simp add: rows(2) update_where_def)
    then show ?thesis using that(2) by (intro bexI [of _ ?y]) (auto simp: outstanding_def)
  qed
  have out: "authenticate ax v (as_id x) s = Inl unauthorized" if x: "x \<in> set (au_sessions db)" "as_user x = ur_id u" for x
  proof -
    obtain y where y: "y \<in> set (au_sessions db1)" "as_id y = as_id x" "as_revoked y \<noteq> None" using sessions [OF x] by blast
    obtain z where z: "z \<in> set (au_sessions s)" "session_after y z" using run_session [OF assms(3) k1 y(1)] by blast
    then have "session_over (ax_now ax) z" "as_id z = as_id x" using y by (auto simp: session_after_def session_over_def)
    with authenticate_over [OF ks z(1)] show ?thesis by metis
  qed
  have dead: "reset_password cy' ax t' new' s = Inl reset_refused"
    if x: "x \<in> set (au_resets db)" "rt_user x = ur_id u" "rt_token x = token_hash t'" for x t'
  proof -
    obtain y where y: "y \<in> set (au_resets db1)" "rt_token y = rt_token x" "rt_used y \<noteq> None \<or> rt_revoked y \<noteq> None"
      using resets [OF x(1,2)] by blast
    obtain z where z: "z \<in> set (au_resets s)" "reset_after y z" using run_reset [OF assms(3) k1 y(1)] by blast
    then show ?thesis using y x(3) by (intro reset_dead [OF ks z(1)]) (auto simp: reset_after_def)
  qed
  show ?thesis using u r out dead by (intro bexI [of _ u]) blast+
qed

text \<open>
  A session can outlive the reset: \<open>login\<close> reads the hash without a lock, so one that verified the old
  password before the reset commits, writes its session afterwards and is signed in.
\<close>

theorem login_outlives_reset:
  assumes "account_keys db" and "login_read cy email p db = Inr u" and "reset_password cy ax0 t new db = Inr ((), db1)"
    and "login_write ax1 u db1 = Inr ((u', x, token), db2)" and "ax_now ax < as_expires x"
  shows "\<exists>pl. authenticate ax (ur_id u) (as_id x) db2 = Inr pl"
proof -
  have k1: "account_keys db1" using reset_requested [OF assms(1,3)] by (simp add: requested_def)
  have u: "u \<in> set (au_users db)" "ur_active u"
    using assms(2) by (auto simp: login_read_def dest!: user_at_Some split: option.splits if_splits)
  have x: "db2 = add_session x db1" "account_keys db2" "as_user x = ur_id u" "as_revoked x = None"
    using assms(4) by (auto simp: login_write_def Let_def and_then_Inr)
  obtain w r h where w: "w \<in> set (au_users db)" "ur_active w"
      "au_users db1 = update_where (\<lambda>y. ur_id y = ur_id w) (\<lambda>_. w\<lparr>ur_hash := h\<rparr>) (au_users db)"
    by (rule reset_password_Inr [OF assms(1,3)])
  have "\<exists>y \<in> set (au_users db1). ur_id y = ur_id u \<and> ur_active y"
  proof (cases "ur_id u = ur_id w")
    case True
    then have "w\<lparr>ur_hash := h\<rparr> \<in> set (au_users db1)" using u(1) by (force simp: w(3) update_where_def)
    then show ?thesis using True w(2) by (intro bexI [of _ "w\<lparr>ur_hash := h\<rparr>"]) auto
  next
    case False
    then have "u \<in> set (au_users db1)" using u(1) by (force simp: w(3) update_where_def)
    then show ?thesis using u(2) by blast
  qed
  then have id: "\<exists>y \<in> set (au_users db2). ur_id y = ur_id u \<and> ur_active y" by (simp add: x(1) add_session_def)
  then obtain y where y: "user_at (\<lambda>y. ur_id y = ur_id u) db2 = Some y" "ur_active y"
    using first_only [OF account_keysD(1) [OF x(2)]] by (auto simp: user_at_def)
  have "x \<in> set (au_sessions db2)" by (simp add: x(1) add_session_def)
  then have "filter (\<lambda>s. as_id s = as_id x \<and> as_user s = ur_id u) (au_sessions db2) = [x]"
    using filter_same [OF account_keysD(4) [OF x(2)], of x "\<lambda>s. as_user s = ur_id u"] x(3) by simp
  then show ?thesis
    using y assms(5) x(4) by (auto simp: authenticate_def session_at_def session_over_def)
qed

text \<open>
  C39. A guarded operation acts for someone who may: when a request is authorized for some roles, its
  session is neither revoked nor expired, its user is active and no administrator of the platform, the
  user is now a member with one of the roles of the active business the session selected, and that
  business has full access, an access row that says paid, no access row, or a subscription that entitles it.
\<close>

theorem authorized_member:
  assumes "authenticate ax u i db = Inr pl" and "authorize pl roles = Inr m"
  shows "\<exists>x \<in> set (au_users db). \<exists>s \<in> set (au_sessions db). \<exists>mb \<in> set (au_members db). \<exists>b \<in> set (au_businesses db).
    ur_id x = u \<and> ur_active x \<and> ur_role x \<noteq> Some ''super_admin''
    \<and> as_id s = i \<and> as_user s = u \<and> as_revoked s = None \<and> ax_now ax < as_expires s \<and> as_business s = Some (br_id b)
    \<and> mb_user mb = u \<and> mb_business mb = br_id b \<and> mb_role mb \<in> set roles \<and> br_active b \<and> mr_business m = br_id b
    \<and> ((case access_of db (br_id b) of None \<Rightarrow> True | Some a \<Rightarrow> ac_mode a = ''paid'' \<or> ac_full a)
       \<or> entitled (au_billing db) (br_id b) (billing_provider_environment (ax_environment ax)) (ax_now ax))"
proof -
  obtain s where s: "session_at (\<lambda>s. as_id s = i \<and> as_user s = u) db = Some s" "\<not> session_over (ax_now ax) s" "pl_session pl = s"
    and x: "user_at (\<lambda>x. ur_id x = u) db = Some (pl_user pl)" "ur_active (pl_user pl)"
    and ms: "pl_memberships pl = memberships ax db (pl_user pl)"
    using assms(1) by (auto simp: authenticate_def split: option.splits if_splits)
  have m: "ur_role (pl_user pl) \<noteq> Some ''super_admin''" "m \<in> set (pl_memberships pl)" "Some (mr_business m) = as_business s"
    "mr_access m = ''paid''" "mr_role m \<in> set roles"
    using assms(2) s(3)
    by (auto simp: authorize_def reading_membership_def active_membership_def and_then_Inr dest!: first_filter split: if_splits option.splits)
  from m(2) ms x(1) obtain mb b where row: "(mb, b) \<in> set (member_rows db (ur_id (pl_user pl)))" "m = membership_of ax db (mb, b)"
    using m(1) by (auto simp: memberships_def)
  then have mb: "mb \<in> set (au_members db)" "mb_user mb = ur_id (pl_user pl)" "b \<in> set (au_businesses db)"
    "br_id b = mb_business mb" "br_active b"
    by (auto simp: member_rows_def)
  have sel: "mr_business m = mb_business mb" "mr_role m = mb_role mb" "mr_access m = effective_access ax db (br_id b)"
    by (simp_all add: row(2) membership_of_def Let_def)
  show ?thesis
    using session_at_Some [OF s(1)] s(2) user_at_Some [OF x(1)] x(2) m mb sel
    by (intro bexI [of _ "pl_user pl"] bexI [of _ s] bexI [of _ mb] bexI [of _ b])
      (auto simp: session_over_def effective_access_def split: if_splits)
qed

text \<open>
  C40. A sign-up with a key makes one account. Once it has made the account, the same request with the
  same key signs in the same user and adds nothing but a session, whether it comes later or read the
  tables before the account was there and only writes now; it fails only if the drawn token or
  identifier is taken.
\<close>

theorem signup_once:
  assumes "account_keys db" and "signup cy ax q (Some key) db = Inr ((u, x, token), db1)"
    and "\<forall>b \<in> set (au_businesses db). br_id b \<noteq> key"
    and "cy_verify cy (ur_hash u) (sg_password q)" and "ur_hash u \<noteq> []"
  shows "signup cy ax' q (Some key) db1 =
      (let s = new_session ax' 0 (ur_id u) (Some key)
       in and_then (account_commit (add_session s db1)) (\<lambda>db2. Inr ((u, s, ax_token ax' 0), db2)))
    \<and> signup_write cy ax' q (Some key) db1 =
      (let s = new_session ax' 3 (ur_id u) (Some key)
       in and_then (account_commit (add_session s db1)) (\<lambda>db2. Inr ((u, s, ax_token ax' 3), db2)))"
proof -
  have none: "replay_of cy ax' k q (Some key) db = Inr None" for ax' k
    using assms(3) by (auto simp: replay_of_def signup_replay_def dest!: first_filter split: option.split)
  have w: "signup_write cy ax q (Some key) db = Inr ((u, x, token), db1)"
    using assms(2) none by (auto simp: signup_def signup_read_def and_then_def split: if_splits sum.splits)
  then obtain h where h0: "hash_password cy ax (sg_password q) = Inr h"
    by (auto simp: signup_write_def elim!: and_then_InrE)
  obtain given new where n: "new_account ax q (Some key) h db = (given, new)" by (cases "new_account ax q (Some key) h db")
  have c: "account_commit new = Inr new"
    using w h0 n none by (cases "account_commit new") (simp_all add: signup_write_def and_then_def split: if_splits)
  then have h: "hash_password cy ax (sg_password q) = Inr h" "new_account ax q (Some key) h db = ((u, x, token), db1)"
    "account_keys db1"
  proof -
    have "(given, new) = ((u, x, token), db1)" using w unfolding signup_write_def h0 by (simp add: n c and_then_def del: account_commit_Inr)
    then show "hash_password cy ax (sg_password q) = Inr h" "new_account ax q (Some key) h db = ((u, x, token), db1)" "account_keys db1"
      using h0 n c by auto
  qed
  let ?b = "\<lparr>br_id = key, br_name = sg_business q, br_timezone = ''America/Sao_Paulo'', br_active = True\<rparr>"
  let ?m = "\<lparr>mb_user = ur_id u, mb_business = key, mb_role = ''owner''\<rparr>"
  have db1: "au_businesses db1 = au_businesses db @ [?b]" "au_members db1 = au_members db @ [?m]" "au_users db1 = au_users db @ [u]"
    "ur_email u = sg_email q"
    using h(2) by (auto simp: new_account_def Let_def add_session_def)
  have b: "first (filter (\<lambda>b. br_id b = key) (au_businesses db1)) = Some ?b"
    using assms(3) by (simp add: db1(1) filter_empty_conv filter_False)
  have "mb_business m \<noteq> key" if "m \<in> set (au_members db)" for m
    using assms(1,3) that by (auto simp: account_keys_def account_constraints_def list_all_iff list_ex_iff)
  then have "filter (\<lambda>m. mb_business m = key \<and> mb_role m = ''owner'') (au_members db) = []"
    by (auto simp: filter_empty_conv)
  then have m: "first (filter (\<lambda>m. mb_business m = key \<and> mb_role m = ''owner'') (au_members db1)) = Some ?m"
    by (simp add: db1(2))
  have user: "user_at (\<lambda>y. ur_id y = ur_id u) db1 = Some u"
    using first_only [OF account_keysD(1) [OF h(3)], of u] by (simp add: user_at_def db1(3))
  have replay: "replay_of cy ax' k q (Some key) db1
      = (let s = new_session ax' k (ur_id u) (Some key)
         in and_then (account_commit (add_session s db1)) (\<lambda>db2. Inr (Some ((u, s, ax_token ax' k), db2))))" for k
    using assms(4,5) b m user db1(4) by (simp add: replay_of_def signup_replay_def Let_def verify_password_def)
  obtain h' where h': "hash_password cy ax' (sg_password q) = Inr h'"
    using h(1) by (auto simp: hash_password_def split: if_splits)
  obtain given db2 where n: "new_account ax' q (Some key) h' db1 = (given, db2)" by (cases "new_account ax' q (Some key) h' db1")
  have "\<not> account_keys db2"
  proof
    assume "account_keys db2"
    then have "distinct (map br_id (au_businesses db2))" by (rule account_keysD)
    then show False using n by (auto simp: new_account_def Let_def add_session_def db1(1))
  qed
  then obtain e where "account_commit db2 = Inl e" by (cases "account_commit db2") auto
  then have "signup_write cy ax' q (Some key) db1 = and_then (replay_of cy ax' 3 q (Some key) db1)
      (\<lambda>r. case r of Some x \<Rightarrow> Inr x
         | None \<Rightarrow> if email_taken (sg_email q) db1 then Inl (HttpError 409 ''Email already registered'')
             else Inl (HttpError 409 ''Account could not be created''))"
    using h' n by (simp add: signup_write_def)
  moreover have "signup cy ax' q (Some key) db1 = and_then (replay_of cy ax' 0 q (Some key) db1)
      (\<lambda>r. case r of Some x \<Rightarrow> Inr x | None \<Rightarrow> signup_write cy ax' q (Some key) db1)"
    unfolding signup_def signup_read_def replay Let_def
    by (cases "account_commit (add_session (new_session ax' 0 (ur_id u) (Some key)) db1)") (simp_all add: and_then_def del: account_commit_Inr)
  ultimately show ?thesis
    unfolding replay Let_def
    by (cases "account_commit (add_session (new_session ax' 0 (ur_id u) (Some key)) db1)";
        cases "account_commit (add_session (new_session ax' 3 (ur_id u) (Some key)) db1)") (simp_all add: and_then_def del: account_commit_Inr)
qed

section \<open>Witnesses\<close>

definition sample_crypto :: crypto where
  "sample_crypto = \<lparr>cy_verify = (\<lambda>h p. h = CHR ''$'' # p), cy_hash = (\<lambda>salt p. CHR ''$'' # p)\<rparr>"

definition sample_draw :: account_context where
  "sample_draw = \<lparr>ax_environment = (\<lambda>_. None), ax_now = 1000, ax_id = (\<lambda>k. 50 + k), ax_token = (\<lambda>k. ''fresh''), ax_salt = ''salt''\<rparr>"

definition sample_user :: user_row where
  "sample_user = \<lparr>ur_id = 1, ur_email = ''ana@alovia.br'', ur_hash = ''$long ago'', ur_active = True, ur_role = None\<rparr>"

definition sample_session :: auth_session where
  "sample_session = \<lparr>as_id = 3, as_user = 1, as_business = Some 2, as_token = ''digest'', as_expires = 9000, as_revoked = None\<rparr>"

definition sample_reset :: reset_row where
  "sample_reset = \<lparr>rt_id = 4, rt_user = 1, rt_token = token_hash ''sent by mail'', rt_expires = 2000, rt_used = None, rt_revoked = None\<rparr>"

definition sample_accounts :: account_db where
  "sample_accounts = \<lparr>au_users = [sample_user],
     au_businesses = [\<lparr>br_id = 2, br_name = ''Alovia'', br_timezone = ''America/Sao_Paulo'', br_active = True\<rparr>],
     au_members = [\<lparr>mb_user = 1, mb_business = 2, mb_role = ''owner''\<rparr>], au_sessions = [sample_session],
     au_resets = [sample_reset], au_devices = [], au_deliveries = [], au_services = [], 
     au_billing = \<lparr>bd_checkouts = [], bd_subscriptions = [], bd_access = [], bd_events = [], bd_pushes = []\<rparr>\<rparr>"

lemmas sample_account_defs = sample_crypto_def sample_draw_def sample_user_def sample_session_def sample_reset_def sample_accounts_def

lemma length_token_hash [simp]: "length (token_hash t) = 64"
  by (simp add: token_hash_def)

lemma digest_fresh [simp]: "''digest'' \<noteq> token_hash t" "token_hash t \<noteq> ''digest''"
proof -
  have "length ''digest'' \<noteq> length (token_hash t)" by simp
  then show "''digest'' \<noteq> token_hash t" "token_hash t \<noteq> ''digest''" by metis+
qed

lemma accounts_sound: "account_keys sample_accounts"
  by (simp add: account_keys_def account_constraints_def sample_account_defs)

lemma reset_ends_sessions_witness:
  "\<exists>db1. reset_password sample_crypto sample_draw ''sent by mail'' ''new password'' sample_accounts = Inr ((), db1)
     \<and> authenticate sample_draw 1 3 db1 = Inl unauthorized
     \<and> reset_password sample_crypto sample_draw ''sent by mail'' ''another one'' db1 = Inl reset_refused"
proof -
  obtain db1 where r: "reset_password sample_crypto sample_draw ''sent by mail'' ''new password'' sample_accounts = Inr ((), db1)"
    by (simp add: sample_account_defs reset_password_def user_at_def verify_password_def hash_password_def Let_def and_then_Inr
        revoke_sessions_def open_sessions_def revoke_session_def put_session_def remove_for_auth_session_def revoke_resets_def
        put_user_def update_where_def outstanding_def account_keys_def account_constraints_def)
  from reset_ends_sessions [OF accounts_sound r account_run.start [of sample_crypto "\<lambda>_. False"],
      where ax = sample_draw and v = 1 and cy' = sample_crypto and new' = "''another one''"]
  have "authenticate sample_draw 1 3 db1 = Inl unauthorized
     \<and> reset_password sample_crypto sample_draw ''sent by mail'' ''another one'' db1 = Inl reset_refused"
    by (auto simp: sample_account_defs)
  with r show ?thesis by blast
qed

lemma authorized_member_witness:
  "\<exists>pl m. authenticate sample_draw 1 3 sample_accounts = Inr pl \<and> authorize pl [''owner'', ''admin''] = Inr m
     \<and> (\<exists>s \<in> set (au_sessions sample_accounts). as_id s = 3 \<and> as_revoked s = None \<and> as_business s = Some (mr_business m))"
proof -
  let ?m = "\<lparr>mr_business = 2, mr_name = ''Alovia'', mr_role = ''owner'', mr_access = ''paid'', mr_history = True, mr_full = False,
    mr_state = ''active''\<rparr>"
  let ?pl = "\<lparr>pl_user = sample_user, pl_session = sample_session, pl_memberships = [?m]\<rparr>"
  have "memberships sample_draw sample_accounts sample_user = [?m]"
    by (simp add: memberships_def member_rows_def membership_of_def effective_access_def access_of_def sample_accounts_def sample_user_def)
  then have p: "authenticate sample_draw 1 3 sample_accounts = Inr ?pl"
    by (simp add: authenticate_def session_at_def user_at_def session_over_def sample_accounts_def sample_user_def sample_session_def
        sample_draw_def)
  have q: "authorize ?pl [''owner'', ''admin''] = Inr ?m"
    by (simp add: authorize_def reading_membership_def active_membership_def and_then_def sample_user_def sample_session_def)
  from authorized_member [OF p q] obtain s where "s \<in> set (au_sessions sample_accounts)" "as_id s = 3" "as_revoked s = None"
      "as_business s = Some (mr_business ?m)"
    by metis
  with p q show ?thesis by blast
qed

definition sample_signup :: signup_request where
  "sample_signup = \<lparr>sg_business = ''Brisa'', sg_email = ''rui@brisa.br'', sg_password = ''long enough''\<rparr>"

lemma signup_once_witness:
  "\<exists>u x token db1. signup sample_crypto sample_draw sample_signup (Some 7) sample_accounts = Inr ((u, x, token), db1)
     \<and> signup_write sample_crypto sample_draw sample_signup (Some 7) db1 =
         (let s = new_session sample_draw 3 (ur_id u) (Some 7)
          in and_then (account_commit (add_session s db1)) (\<lambda>db2. Inr ((u, s, ax_token sample_draw 3), db2)))"
proof -
  let ?u = "\<lparr>ur_id = 52, ur_email = ''rui@brisa.br'', ur_hash = ''$long enough'', ur_active = True, ur_role = None\<rparr>"
  let ?x = "new_session sample_draw 0 52 (Some 7)"
  have read: "signup_read sample_crypto sample_draw sample_signup (Some 7) sample_accounts = Inr None"
    by (simp add: sample_account_defs sample_signup_def signup_read_def replay_of_def signup_replay_def email_taken_def user_at_def and_then_def)
  have hash: "hash_password sample_crypto sample_draw (sg_password sample_signup) = Inr ''$long enough''"
    by (simp add: sample_account_defs sample_signup_def hash_password_def)
  define db1 where "db1 = snd (new_account sample_draw sample_signup (Some 7) ''$long enough'' sample_accounts)"
  have n: "new_account sample_draw sample_signup (Some 7) ''$long enough'' sample_accounts = ((?u, ?x, ''fresh''), db1)"
    by (simp add: db1_def new_account_def Let_def sample_draw_def sample_signup_def)
  have rows: "au_users db1 = [sample_user, ?u]" "map br_id (au_businesses db1) = [2, 7]"
    "au_members db1 = [\<lparr>mb_user = 1, mb_business = 2, mb_role = ''owner''\<rparr>, \<lparr>mb_user = 52, mb_business = 7, mb_role = ''owner''\<rparr>]"
    "au_sessions db1 = [sample_session, ?x]" "au_resets db1 = [sample_reset]" "map ac_business (bd_access (au_billing db1)) = [7]"
    by (simp_all add: db1_def new_account_def Let_def add_session_def sample_accounts_def sample_signup_def sample_draw_def)
  have "list_ex (\<lambda>b. br_id b = k) (au_businesses db1) \<longleftrightarrow> k \<in> set (map br_id (au_businesses db1))" for k
    by (auto simp: list_ex_iff)
  then have "account_keys db1"
    unfolding account_keys_def account_constraints_def
    by (simp add: rows sample_user_def sample_session_def sample_reset_def sample_draw_def)
  then have s: "signup sample_crypto sample_draw sample_signup (Some 7) sample_accounts = Inr ((?u, ?x, ''fresh''), db1)"
    by (simp add: signup_def read signup_write_def hash n and_then_def account_commit_keys del: account_commit_Inr)
  have "\<forall>b \<in> set (au_businesses sample_accounts). br_id b \<noteq> 7" "cy_verify sample_crypto (ur_hash ?u) (sg_password sample_signup)"
    "ur_hash ?u \<noteq> []"
    by (simp_all add: sample_account_defs sample_signup_def)
  from signup_once [OF accounts_sound s this, of sample_draw] s show ?thesis by blast
qed

end
