(* ===== verification/Spec2Isabelle.thy ===== *)
theory Spec2Isabelle
  imports Commitments Offers RoutesPort LoginLimiter PolicyAdmin SendGuards Turns Deliveries Outreach BillingRuns ContextPolicy EngineFacts AccountFacts
begin

text \<open>
  A model of the backend of a WhatsApp assistant that books home services: the agenda, the events
  that arrive from WhatsApp and the turns they make, the policy that decides whether the assistant
  may answer, the queue of outgoing messages, the follow-ups, plans and quotas, the payments that
  give a business its access, and its accounts. File names below are relative to \<open>src/app\<close>.

  \<^bold>\<open>How the parts interact.\<close> Meta posts a document; it is normalised into events
  (\<open>whatsapp/webhook.py\<close>), each event is claimed and stored once, and a task per event
  (\<open>tasks/worker.py\<close>, \<open>repositories/cloud_tasks.py\<close>) gathers the fragments of a turn. The policy
  (\<open>automation/service.py\<close>) looks for an exclusion of the contact and for human control of the
  conversation; when it allows an answer, the engine (\<open>conversations/engine.py\<close>) locks the
  conversation, asks the dialogue for a transition and stores the answer as pending messages. The
  dialogue asks the agenda (\<open>booking/availability.py\<close>) for dates and times and confirms, cancels or
  moves an appointment. The agenda takes its price and duration from the estimator
  (\<open>booking/estimator.py\<close>), its travel times from a travel port (\<open>booking/travel.py\<close>), and it relies
  on the constraints of the table of appointments (\<open>models/domain.py\<close>) when two customers race. A
  task per message (\<open>tasks/outbound.py\<close>) checks under locks that it may still be sent
  (\<open>repositories/outbound_tasks.py\<close>), with the quota of the plan (\<open>billing/usage.py\<close>), sends it and
  records the outcome; callbacks of the provider update the status and may put it back. Access is
  bought at a payment provider (\<open>billing/service.py\<close>), whose notifications
  (\<open>billing/webhooks.py\<close>) activate and end it; the members of a business sign in and act under the
  guards of \<open>auth/service.py\<close>.

  \<^bold>\<open>Foundations.\<close>
  \<^item> \<open>Prelude\<close>: Python values, dictionaries, text functions, results with errors
    (\<open>error + 'a\<close>), and lemmas on lists and updates by a condition.
  \<^item> \<open>Decimals\<close>: Python decimals as exact fractions with the quantisation the code uses.
  \<^item> \<open>Calendar\<close>: days, instants and wall-clock times as integers of microseconds, zones as
    functions, ISO texts and their parsing.
  \<^item> \<open>Uuids\<close>: identifiers and the text Python prints and parses for them.
  \<^item> \<open>IsoFormat\<close>: the ISO formats of dates and instants that Python accepts.
  \<^item> \<open>Sha256\<close>: SHA-256 on 32-bit words and HMAC, for keys of events and messages and for tokens.
  \<^item> \<open>Samples\<close>: concrete rows on which the witnesses evaluate.

  \<^bold>\<open>The agenda.\<close>
  \<^item> \<open>BookingDomain\<close> (\<open>booking/domain.py\<close>, rows of \<open>models/domain.py\<close>): value objects with the
    checks of their constructors; an address survives its snapshot.
  \<^item> \<open>Estimator\<close> (\<open>booking/estimator.py\<close>): the whole of \<open>estimate\<close>; equal to a reference formula,
    and monotone in the number of units.
  \<^item> \<open>Travel\<close> and \<open>RoutesPort\<close> (\<open>booking/travel.py\<close>): the configured port fails closed; the
    Google port makes a bounded number of requests and keeps its cache bounded.
  \<^item> \<open>Buffers\<close>, \<open>Planning\<close> (\<open>booking/availability.py\<close>): buffers, additions of the catalogue,
    travel legs, fees and handoff; a plan that is accepted as automatic is inside every limit.
  \<^item> \<open>Availability\<close>, \<open>Offers\<close>: enumeration of starts, conflicts, the schedule-aware plan, listing of
    dates and times. The starts offered are exactly the ones the rules admit, they are free, and
    every listed date or time is found again from its identifier.
  \<^item> \<open>Booking\<close>, \<open>Commitments\<close>: confirmation, cancellation and move as reads and writes of
    transactions that interleave, and the constraints of the database. No technician is booked
    twice in any interleaving; requests with a key are idempotent; a listed time confirms; a
    cancellation frees the time.

  \<^bold>\<open>The assistant and its messages.\<close>
  \<^item> \<open>Contacts\<close> (\<open>automation/domain.py\<close>): identifiers of contacts and their aliases, texts of the
    assistant.
  \<^item> \<open>MessagingData\<close> (\<open>models/domain.py\<close>, \<open>models/billing.py\<close>, \<open>models/auth.py\<close>): the rows of the
    messaging tables; columns no modelled operation touches are left out.
  \<^item> \<open>Automation\<close> (\<open>repositories/automation.py\<close>, \<open>automation/service.py\<close>,
    \<open>schemas/automation.py\<close>): exclusions, human control, settings. The service is written over a
    record of the operations of its repository, and \<open>sql_repository\<close> is the one of the tables.
  \<^item> \<open>Policy\<close>: an abstract decision table and its refinement by the service. The locale
    \<open>policy_store\<close> states what the service needs of a repository; it is interpreted on
    \<open>sql_repository\<close>. Human control lasts exactly its window, and late echoes do no harm.
  \<^item> \<open>PolicyAdmin\<close>: exclusions are found under every alias, lifting one gives the conversation
    back, settings are read as they were written.
  \<^item> \<open>Plans\<close> (\<open>billing/catalog.py\<close>, \<open>billing/entitlements.py\<close>, \<open>billing/usage.py\<close>): offers,
    entitlements and the monthly quota with its window in Brazil's time.
  \<^item> \<open>OutboundQueue\<close>, \<open>OutboundWorker\<close> (\<open>repositories/outbound_tasks.py\<close>, \<open>tasks/outbound.py\<close>,
    \<open>whatsapp/retry_policy.py\<close>, the status callback of \<open>repositories/cloud_tasks.py\<close>): locking,
    delivery, retries, sequences.
  \<^item> \<open>OutboundSafety\<close>, \<open>SendGuards\<close>: the locale \<open>outbound_store\<close> and its interpretation on the
    tables; nothing forbidden is sent, a message is settled once, the quota holds, retries are
    bounded in every run of the queue, sequences keep their order.
  \<^item> \<open>WebhookPayload\<close>, \<open>Inbox\<close> (\<open>whatsapp/webhook.py\<close>, \<open>whatsapp/processor.py\<close>,
    \<open>repositories/whatsapp_webhook.py\<close>): signature, normalisation of any document into events whose
    fields fit their columns, the claim by event key and the storage of customer, conversation and
    message. The failure code of a status is the one field that need not fit; \<open>Deliveries\<close> shows it.
  \<^item> \<open>EventWorker\<close>, \<open>EventSafety\<close>, \<open>AnswerGuards\<close>, \<open>Turns\<close>, \<open>Deliveries\<close> (\<open>tasks/worker.py\<close>,
    \<open>repositories/cloud_tasks.py\<close>): the task of an event with its window of three seconds and its
    limit of twenty fragments. An event is answered once in any interleaving, only under its guards;
    the last fragment of a burst answers for all; a repeated delivery changes nothing.
  \<^item> \<open>ContextPolicy\<close>, \<open>Engine\<close>, \<open>EngineFacts\<close> (\<open>conversations/engine.py\<close>,
    \<open>conversations/context_policy.py\<close>, \<open>repositories/conversations.py\<close>): what a correction makes
    stale, the locked snapshot of a conversation, the answer with its follow-up messages under one
    key, and the notice of a handoff. The dialogue and the reading of a name are arguments of the
    engine; the dialogue is a function of the snapshot and the input, so what it writes through the
    agenda is the agenda's own operation.
  \<^item> \<open>Lifecycle\<close>, \<open>Outreach\<close> (\<open>automation/lifecycle.py\<close>): the follow-ups a timer creates, their
    texts, and their guards.

  \<^bold>\<open>Payments.\<close>
  \<^item> \<open>BillingData\<close> (\<open>models/billing.py\<close>): rows and constraints of checkouts, subscriptions, access
    and events. \<open>BillingEvents\<close> (\<open>billing/webhooks.py\<close>, the handlers of \<open>billing/service.py\<close>): every
    notification. \<open>BillingSafety\<close>, \<open>BillingFacts\<close>: access was paid, a checkout is paid only by what
    pays it, the sandbox never touches production, a notification is applied once.
  \<^item> \<open>AsaasPort\<close> (\<open>billing/asaas.py\<close>), \<open>BillingSession\<close>: the client of the provider as requests
    whose answers are a parameter, and a monad of requests, commits and errors with its rules.
  \<^item> \<open>Checkouts\<close>, \<open>Subscriptions\<close> (\<open>billing/service.py\<close>): the requests of a business: checkout,
    card charge, upgrade, status, cancellation, refund under the guarantee.
  \<^item> \<open>BillingInvariant\<close>, \<open>BillingSteps\<close>, \<open>RefundSteps\<close>, \<open>CardSteps\<close>, \<open>CheckoutSteps\<close>, \<open>OpenSteps\<close>:
    weakest preconditions of these requests and the invariants they keep. \<open>BillingRuns\<close>: in runs of
    requests, served one after the other with no notification between them, a card is charged once
    for a checkout, a business has one open checkout and a refund is submitted once. The code orders
    charging and opening by a lock on the business. It takes no such lock for the status of a
    subscription, and a notification may come in between: two theorems there show that a refund is
    then submitted twice.

  \<^bold>\<open>Accounts.\<close>
  \<^item> \<open>LoginLimiter\<close> (\<open>auth/rate_limit.py\<close>): both limiters with eviction; budgets of an address and
    of the process.
  \<^item> \<open>Accounts\<close> (\<open>auth/service.py\<close>, \<open>auth/security.py\<close>, \<open>models/auth.py\<close>, the guards of
    \<open>api/operational_pwa.py\<close>): sessions, passwords and their resets, signing in and up.
    \<open>AccountSafety\<close>: what every request leaves of sessions and reset tokens. \<open>AccountFacts\<close>: along any
    run of transactions a reset ends what was there, a sign-up with a key makes one account, and a
    guarded operation acts for a present member with access.

  \<^bold>\<open>Bounds and fuel.\<close> The loops of the code are structural recursions over lists (days, slots,
  employees, attempts), so no fuel is used, except for the start of the grid of slots, whose
  recursion on the distance to the end of the range is shown to terminate. Integers are Python's
  unbounded ones, and the words of SHA-256 have 32 bits. The retries of a message and the requests
  to the routing service are bounded by theorems, not by fuel. Characters have code points up to 255.

  \<^bold>\<open>Parameters.\<close> Time zones are functions from instants to offsets; the answers of the routing
  service, of WhatsApp and of the payment provider, the clock, random tokens, Argon2, the dialogue
  and the interpreter of a message, the process environment and the text PostgreSQL prints for
  composite JSON values are arguments of the definitions. Transactions are atomic reads and writes
  on lists of rows, with row locks as the order in which they happen; what the constraints refuse
  is written out.

  \<^bold>\<open>Not modelled.\<close> The dialogue in Portuguese (\<open>conversations/transitions.py\<close>,
  \<open>interpreter.py\<close> and their helpers): ten thousand lines of patterns on free text whose
  correctness is a matter of language. The HTTP routes (\<open>api/\<close>), which call the services, apart
  from the guards above. Mail, push delivery, campaigns, tracking, diagnostics and the clients of
  Graph and Google, which are input and output. The administration of a business (\<open>operations/\<close>)
  and of the platform (\<open>platform_admin/\<close>): edits of single rows and reports over the tables.
\<close>

end
